(* ===== verification/Go_Prelude.thy ===== *)
theory Go_Prelude
  imports Complex_Main
begin

text \<open>
  The shared vocabulary of the development: the parts of the Go language and standard
  library the server's core uses, as executable HOL functions, and the automation the
  component theories rest on.

  \<^item> integers: Go's \<open>int64\<close> and \<open>int32\<close> are HOL integers with the wrap-around of the
    machine written out (\<open>wrap64\<close>, \<open>wrap32\<close>) wherever the code does arithmetic whose
    overflow matters; \<open>go_quot\<close> is Go's truncating division;
  \<^item> strings: a Go string is its list of UTF-8 bytes (a HOL \<open>string\<close>);
    \<open>trim_space\<close>, \<open>to_lower\<close>, \<open>equal_fold\<close>, \<open>rune_count\<close> and \<open>itoa\<close> are
    \<open>strings.TrimSpace\<close>, \<open>strings.ToLower\<close>, \<open>strings.EqualFold\<close>,
    \<open>utf8.RuneCountInString\<close> and \<open>strconv.Itoa\<close>;
  \<^item> floating point: \<open>gofloat\<close> keeps NaN and the infinities apart from the finite
    values, which are reals: the comparisons and the validation built on them are exact,
    rounding of arithmetic is not modelled;
  \<^item> time: instants and durations are integers counting microseconds, PostgreSQL's
    resolution.
\<close>

named_theorems go_defs \<open>definitions of the Go runtime functions, for evaluation\<close>

section \<open>Integers\<close>

definition int64_range :: "int \<Rightarrow> bool" where
  "int64_range x \<longleftrightarrow> - (2 ^ 63) \<le> x \<and> x < 2 ^ 63"

definition wrap64 :: "int \<Rightarrow> int" where
  "wrap64 x = (x + 2 ^ 63) mod 2 ^ 64 - 2 ^ 63"

definition wrap32 :: "int \<Rightarrow> int" where
  "wrap32 x = (x + 2 ^ 31) mod 2 ^ 32 - 2 ^ 31"

definition max_int64 :: int where
  "max_int64 = 9223372036854775807"

definition go_quot :: "int \<Rightarrow> int \<Rightarrow> int" where
  "go_quot a b = sgn a * sgn b * (\<bar>a\<bar> div \<bar>b\<bar>)"

definition go_rem :: "int \<Rightarrow> int \<Rightarrow> int" where
  "go_rem a b = a - b * go_quot a b"

lemma int64_range_wrap64: "int64_range (wrap64 x)"
proof -
  have "0 \<le> (x + 2 ^ 63) mod 2 ^ 64" and "(x + 2 ^ 63) mod 2 ^ 64 < (2::int) ^ 64"
    by (rule pos_mod_sign, simp) (rule pos_mod_bound, simp)
  then show ?thesis
    unfolding int64_range_def wrap64_def by simp
qed

lemma wrap64_id: "int64_range x \<Longrightarrow> wrap64 x = x"
  unfolding int64_range_def wrap64_def by simp

lemma wrap32_id: "- (2 ^ 31) \<le> x \<Longrightarrow> x < 2 ^ 31 \<Longrightarrow> wrap32 x = x"
  unfolding wrap32_def by simp

lemma go_quot_pos: "0 \<le> a \<Longrightarrow> 0 < b \<Longrightarrow> go_quot a b = a div b"
  unfolding go_quot_def by (cases "a = 0") auto

lemma go_rem_pos: "0 \<le> a \<Longrightarrow> 0 < b \<Longrightarrow> go_rem a b = a mod b"
  unfolding go_rem_def by (simp add: go_quot_pos minus_mult_div_eq_mod)

lemma int64_range_between: "int64_range a \<Longrightarrow> int64_range b \<Longrightarrow> a \<le> x \<Longrightarrow> x \<le> b \<Longrightarrow> int64_range x"
  unfolding int64_range_def by linarith

section \<open>Strings\<close>

subsection \<open>White space at the ends\<close>

text \<open>
  \<open>strings.TrimSpace\<close> removes the runes of \<open>unicode.IsSpace\<close>: six ASCII characters and
  nineteen others, which are two or three bytes long in UTF-8.
\<close>

definition ascii_space :: "char \<Rightarrow> bool" where
  "ascii_space c \<longleftrightarrow>
     c = CHR 0x20 \<or> c = CHR 0x09 \<or> c = CHR 0x0A \<or> c = CHR 0x0B \<or> c = CHR 0x0C \<or> c = CHR 0x0D"

definition byte_between :: "nat \<Rightarrow> char \<Rightarrow> nat \<Rightarrow> bool" where
  "byte_between lo c hi \<longleftrightarrow> lo \<le> of_char c \<and> of_char c \<le> hi"

definition space2 :: "char \<Rightarrow> char \<Rightarrow> bool" where
  "space2 a b \<longleftrightarrow> a = CHR 0xC2 \<and> (b = CHR 0x85 \<or> b = CHR 0xA0)"

definition space3 :: "char \<Rightarrow> char \<Rightarrow> char \<Rightarrow> bool" where
  "space3 a b c \<longleftrightarrow>
     a = CHR 0xE1 \<and> b = CHR 0x9A \<and> c = CHR 0x80
   \<or> a = CHR 0xE2 \<and> b = CHR 0x80 \<and>
       (byte_between 0x80 c 0x8A \<or> c = CHR 0xA8 \<or> c = CHR 0xA9 \<or> c = CHR 0xAF)
   \<or> a = CHR 0xE2 \<and> b = CHR 0x81 \<and> c = CHR 0x9F
   \<or> a = CHR 0xE3 \<and> b = CHR 0x80 \<and> c = CHR 0x80"

fun trim_left :: "string \<Rightarrow> string" where
  "trim_left (a # b # c # s) =
     (if ascii_space a then trim_left (b # c # s)
      else if space2 a b then trim_left (c # s)
      else if space3 a b c then trim_left s
      else a # b # c # s)"
| "trim_left [a, b] =
     (if ascii_space a then trim_left [b] else if space2 a b then [] else [a, b])"
| "trim_left [a] = (if ascii_space a then [] else [a])"
| "trim_left [] = []"

text \<open>The same from the other end: the argument and the result are reversed strings.\<close>

fun trim_left_rev :: "string \<Rightarrow> string" where
  "trim_left_rev (c # b # a # s) =
     (if ascii_space c then trim_left_rev (b # a # s)
      else if space2 b c then trim_left_rev (a # s)
      else if space3 a b c then trim_left_rev s
      else c # b # a # s)"
| "trim_left_rev [c, b] =
     (if ascii_space c then trim_left_rev [b] else if space2 b c then [] else [c, b])"
| "trim_left_rev [c] = (if ascii_space c then [] else [c])"
| "trim_left_rev [] = []"

definition trim_space :: "string \<Rightarrow> string" where
  "trim_space s = rev (trim_left_rev (rev (trim_left s)))"

lemma length_trim_left: "length (trim_left s) \<le> length s"
  by (induction s rule: trim_left.induct) auto

lemma length_trim_left_rev: "length (trim_left_rev s) \<le> length s"
  by (induction s rule: trim_left_rev.induct) auto

lemma length_trim_space: "length (trim_space s) \<le> length s"
  unfolding trim_space_def
  using length_trim_left [of s] length_trim_left_rev [of "rev (trim_left s)"] by simp

subsection \<open>Case\<close>

text \<open>
  \<open>strings.ToLower\<close> on the runes that can become an ASCII letter: the ASCII capitals, the
  Kelvin sign (U+212A) and the dotted capital I (U+0130). The other non-ASCII runes stay
  non-ASCII in Go, and are left as they are here: the code compares the result with ASCII
  constants only.
\<close>

definition lower_byte :: "char \<Rightarrow> char" where
  "lower_byte c = (if byte_between 65 c 90 then char_of (of_char c + 32 :: nat) else c)"

fun to_lower :: "string \<Rightarrow> string" where
  "to_lower [] = []"
| "to_lower (a # s) =
     (if take 3 (a # s) = [CHR 0xE2, CHR 0x84, CHR 0xAA] then CHR ''k'' # to_lower (drop 2 s)
      else if take 2 (a # s) = [CHR 0xC4, CHR 0xB0] then CHR ''i'' # to_lower (drop 1 s)
      else lower_byte a # to_lower s)"

text \<open>
  \<open>strings.EqualFold\<close> against an ASCII string folds the ASCII letters, the Kelvin sign to
  \<open>k\<close> and the long s (U+017F) to \<open>s\<close>.
\<close>

fun fold_case :: "string \<Rightarrow> string" where
  "fold_case [] = []"
| "fold_case (a # s) =
     (if take 3 (a # s) = [CHR 0xE2, CHR 0x84, CHR 0xAA] then CHR ''k'' # fold_case (drop 2 s)
      else if take 2 (a # s) = [CHR 0xC5, CHR 0xBF] then CHR ''s'' # fold_case (drop 1 s)
      else lower_byte a # fold_case s)"

definition equal_fold :: "string \<Rightarrow> string \<Rightarrow> bool" where
  "equal_fold s t \<longleftrightarrow> fold_case s = fold_case t"

subsection \<open>Runes\<close>

text \<open>The number of bytes \<open>utf8.DecodeRune\<close> consumes; an invalid byte counts as one rune.\<close>

definition rune_size :: "string \<Rightarrow> nat" where
  "rune_size s = (case s of
     [] \<Rightarrow> 0
   | a # t \<Rightarrow>
      (let cont = (\<lambda>i lo hi. i < length t \<and> byte_between lo (t ! i) hi) in
       if byte_between 0xC2 a 0xDF \<and> cont 0 0x80 0xBF then 2
       else if a = CHR 0xE0 \<and> cont 0 0xA0 0xBF \<and> cont 1 0x80 0xBF then 3
       else if a = CHR 0xED \<and> cont 0 0x80 0x9F \<and> cont 1 0x80 0xBF then 3
       else if byte_between 0xE1 a 0xEF \<and> a \<noteq> CHR 0xED \<and> cont 0 0x80 0xBF \<and> cont 1 0x80 0xBF then 3
       else if a = CHR 0xF0 \<and> cont 0 0x90 0xBF \<and> cont 1 0x80 0xBF \<and> cont 2 0x80 0xBF then 4
       else if byte_between 0xF1 a 0xF3 \<and> cont 0 0x80 0xBF \<and> cont 1 0x80 0xBF \<and> cont 2 0x80 0xBF then 4
       else if a = CHR 0xF4 \<and> cont 0 0x80 0x8F \<and> cont 1 0x80 0xBF \<and> cont 2 0x80 0xBF then 4
       else 1))"

function rune_count :: "string \<Rightarrow> nat" where
  "rune_count [] = 0"
| "rune_count (a # s) = Suc (rune_count (drop (rune_size (a # s) - 1) s))"
  by pat_completeness auto
termination
  by (relation "measure length") auto

lemma rune_count_le_length: "rune_count s \<le> length s"
proof (induction s rule: rune_count.induct)
  case 1
  then show ?case by simp
next
  case (2 a s)
  have "rune_count (drop (rune_size (a # s) - 1) s) \<le> length s"
    using le_trans [OF "2", of "length s"] by simp
  then show ?case by simp
qed

lemma rune_count_eq_0: "rune_count s = 0 \<longleftrightarrow> s = []"
  by (cases s) auto

subsection \<open>Decimal numbers\<close>

fun nat_digits :: "nat \<Rightarrow> string" where
  "nat_digits n =
     (if n < 10 then [char_of (48 + n)] else nat_digits (n div 10) @ [char_of (48 + n mod 10)])"

declare nat_digits.simps [simp del]

definition itoa :: "int \<Rightarrow> string" where
  "itoa i = (if i < 0 then CHR ''-'' # nat_digits (nat (- i)) else nat_digits (nat i))"

section \<open>Floating point\<close>

datatype gofloat = NaN | PosInf | NegInf | Fin real

fun is_nan :: "gofloat \<Rightarrow> bool" where
  "is_nan NaN = True"
| "is_nan _ = False"

fun is_inf :: "gofloat \<Rightarrow> bool" where
  "is_inf PosInf = True"
| "is_inf NegInf = True"
| "is_inf _ = False"

fun f_le :: "gofloat \<Rightarrow> gofloat \<Rightarrow> bool" where
  "f_le NaN _ = False"
| "f_le _ NaN = False"
| "f_le NegInf _ = True"
| "f_le _ PosInf = True"
| "f_le (Fin x) (Fin y) = (x \<le> y)"
| "f_le _ _ = False"

fun f_eq :: "gofloat \<Rightarrow> gofloat \<Rightarrow> bool" where
  "f_eq NaN _ = False"
| "f_eq _ NaN = False"
| "f_eq x y = (x = y)"

definition f_lt :: "gofloat \<Rightarrow> gofloat \<Rightarrow> bool" where
  "f_lt x y \<longleftrightarrow> f_le x y \<and> \<not> f_eq x y"

lemma f_lt_Fin [simp]: "f_lt (Fin x) (Fin y) \<longleftrightarrow> x < y"
  unfolding f_lt_def by auto

lemma f_lt_special [simp]:
  "\<not> f_lt NaN y" "\<not> f_lt x NaN" "\<not> f_lt PosInf y" "\<not> f_lt x NegInf"
  "f_lt NegInf (Fin a)" "f_lt (Fin a) PosInf" "f_lt NegInf PosInf"
  unfolding f_lt_def by (cases x; cases y; simp)+

text \<open>The real value of a finite float; Go code reads it only behind a finiteness check.\<close>

fun fin_val :: "gofloat \<Rightarrow> real" where
  "fin_val (Fin x) = x"
| "fin_val _ = 0"

definition is_finite :: "gofloat \<Rightarrow> bool" where
  "is_finite x \<longleftrightarrow> \<not> is_nan x \<and> \<not> is_inf x"

lemma is_finite_Fin [simp]: "is_finite (Fin x)"
  by (simp add: is_finite_def)

lemma is_finiteE: "is_finite x \<Longrightarrow> (\<And>r. x = Fin r \<Longrightarrow> P) \<Longrightarrow> P"
  by (cases x) (auto simp: is_finite_def)

lemmas [go_defs] =
  ascii_space_def byte_between_def space2_def space3_def trim_space_def lower_byte_def
  equal_fold_def rune_size_def itoa_def nat_digits.simps is_finite_def char_of_def bit_Suc_0_iff

section \<open>Time\<close>

text \<open>Durations in microseconds.\<close>

definition second :: int where
  "second = 1000000"

definition minute :: int where
  "minute = 60 * second"

section \<open>Lists of rows\<close>

text \<open>
  A table is the list of its rows in insertion order. \<open>upd_where\<close> is \<open>UPDATE ... SET ...
  WHERE ...\<close>, \<open>count_where\<close> is \<open>SELECT count(*) ... WHERE ...\<close>, \<open>List.find\<close> is
  \<open>SELECT ... LIMIT 1\<close>.
\<close>

definition upd_where :: "('r \<Rightarrow> bool) \<Rightarrow> ('r \<Rightarrow> 'r) \<Rightarrow> 'r list \<Rightarrow> 'r list" where
  "upd_where p f t = map (\<lambda>r. if p r then f r else r) t"

definition count_where :: "('r \<Rightarrow> bool) \<Rightarrow> 'r list \<Rightarrow> nat" where
  "count_where p t = length (filter p t)"

definition exists_where :: "('r \<Rightarrow> bool) \<Rightarrow> 'r list \<Rightarrow> bool" where
  "exists_where p t \<longleftrightarrow> (\<exists>r\<in>set t. p r)"

lemma upd_where_Nil [simp]: "upd_where p f [] = []"
  by (simp add: upd_where_def)

lemma upd_where_Cons [simp]:
  "upd_where p f (r # t) = (if p r then f r else r) # upd_where p f t"
  by (simp add: upd_where_def)

lemma upd_where_append [simp]: "upd_where p f (t @ u) = upd_where p f t @ upd_where p f u"
  by (simp add: upd_where_def)

lemma length_upd_where [simp]: "length (upd_where p f t) = length t"
  by (simp add: upd_where_def)

lemma set_upd_where: "set (upd_where p f t) = (\<lambda>r. if p r then f r else r) ` set t"
  by (simp add: upd_where_def)

lemma in_upd_whereE:
  assumes "r \<in> set (upd_where p f t)"
  obtains q where "q \<in> set t" and "r = (if p q then f q else q)"
  using assms unfolding set_upd_where by auto

lemma map_upd_where_key:
  assumes "\<And>r. p r \<Longrightarrow> k (f r) = k r"
  shows "map k (upd_where p f t) = map k t"
  using assms by (induction t) auto

lemma upd_where_none: "(\<And>r. r \<in> set t \<Longrightarrow> \<not> p r) \<Longrightarrow> upd_where p f t = t"
  by (induction t) auto

lemma count_where_Nil [simp]: "count_where p [] = 0"
  by (simp add: count_where_def)

lemma count_where_Cons [simp]:
  "count_where p (r # t) = (if p r then Suc (count_where p t) else count_where p t)"
  by (simp add: count_where_def)

lemma count_where_append [simp]: "count_where p (t @ u) = count_where p t + count_where p u"
  by (simp add: count_where_def)

lemma count_where_mono: "(\<And>r. r \<in> set t \<Longrightarrow> p r \<Longrightarrow> q r) \<Longrightarrow> count_where p t \<le> count_where q t"
  by (induction t) (auto simp: le_SucI)

text \<open>An update that turns no row into a counted one does not raise a count.\<close>

lemma count_where_upd_le:
  assumes "\<And>r. r \<in> set t \<Longrightarrow> q r \<Longrightarrow> p (f r) \<Longrightarrow> p r"
  shows "count_where p (upd_where q f t) \<le> count_where p t"
  using assms by (induction t) (auto simp: le_SucI)

lemma count_where_upd_eq:
  assumes "\<And>r. r \<in> set t \<Longrightarrow> q r \<Longrightarrow> p (f r) = p r"
  shows "count_where p (upd_where q f t) = count_where p t"
  using assms by (induction t) auto

text \<open>An update of one keyed row raises a count by one at most.\<close>

lemma count_where_upd_key:
  assumes "distinct (map k t)" and "\<And>r. q r \<Longrightarrow> k r = i"
  shows "count_where p (upd_where q f t) \<le> Suc (count_where p t)"
  using assms
proof (induction t)
  case Nil
  then show ?case by simp
next
  case (Cons r t)
  show ?case
  proof (cases "q r")
    case True
    then have "k r = i" using Cons.prems(2) by blast
    then have "\<And>s. s \<in> set t \<Longrightarrow> \<not> q s"
      using Cons.prems by (metis distinct.simps(2) image_eqI list.set_map list.simps(9))
    then have "upd_where q f t = t" by (rule upd_where_none)
    then show ?thesis by simp
  next
    case False
    with Cons show ?thesis by simp
  qed
qed

lemma exists_where_iff: "exists_where p t \<longleftrightarrow> count_where p t \<noteq> 0"
  unfolding exists_where_def by (induction t) auto

lemma exists_where_Cons [simp]: "exists_where p (r # t) \<longleftrightarrow> p r \<or> exists_where p t"
  by (simp add: exists_where_def)

lemma exists_where_Nil [simp]: "\<not> exists_where p []"
  by (simp add: exists_where_def)

lemma find_SomeD: "List.find p t = Some r \<Longrightarrow> p r \<and> r \<in> set t"
  by (auto simp: find_Some_iff)

lemma find_upd_where_key:
  assumes "distinct (map k t)" and "r \<in> set t" and "k r = i" and "q r"
    and "\<And>s. q s \<Longrightarrow> k s = i" and "\<And>s. k (f s) = k s"
  shows "List.find (\<lambda>s. k s = i) (upd_where q f t) = Some (f r)"
  using assms(1,2,3,4)
proof (induction t)
  case Nil
  then show ?case by simp
next
  case (Cons s t)
  show ?case
  proof (cases "s = r")
    case True
    with Cons.prems show ?thesis by (simp add: assms(6))
  next
    case False
    with Cons.prems have "r \<in> set t" and "k s \<noteq> i" by auto
    moreover from this(2) have "\<not> q s" using assms(5) by blast
    ultimately show ?thesis using Cons by simp
  qed
qed

lemma find_key_unique:
  assumes "distinct (map k t)" and "r \<in> set t" and "k r = i"
  shows "List.find (\<lambda>s. k s = i) t = Some r"
  using assms by (induction t) auto

lemma distinct_key_inj:
  "distinct (map k t) \<Longrightarrow> r \<in> set t \<Longrightarrow> s \<in> set t \<Longrightarrow> k r = k s \<Longrightarrow> r = s"
  by (metis distinct_map inj_on_def)

text \<open>The row with a given key replaced, which is what an update by primary key does.\<close>

definition put_row :: "('r \<Rightarrow> 'k) \<Rightarrow> 'r \<Rightarrow> 'r list \<Rightarrow> 'r list" where
  "put_row k r t = map (\<lambda>q. if k q = k r then r else q) t"

lemma upd_where_put_row:
  assumes "distinct (map k t)" and "List.find p t = Some r"
    and "\<And>q. p q \<Longrightarrow> k q = k r" and "k (f r) = k r"
  shows "upd_where p f t = put_row k (f r) t"
  unfolding upd_where_def put_row_def
proof (rule map_cong [OF refl])
  fix q assume q: "q \<in> set t"
  from assms(2) have r: "p r" "r \<in> set t" by (auto dest: find_SomeD)
  show "(if p q then f q else q) = (if k q = k (f r) then f r else q)"
  proof (cases "k q = k r")
    case True
    with distinct_key_inj [OF assms(1) q r(2)] have "q = r" by simp
    with r assms(4) show ?thesis by simp
  next
    case False
    with assms(3) have "\<not> p q" by blast
    with False assms(4) show ?thesis by simp
  qed
qed

lemma map_put_row_key [simp]: "map k (put_row k r t) = map k t"
  by (simp add: put_row_def)

lemma length_put_row [simp]: "length (put_row k r t) = length t"
  by (simp add: put_row_def)

lemma in_put_row: "q \<in> set (put_row k r t) \<Longrightarrow> q = r \<or> (q \<in> set t \<and> k q \<noteq> k r)"
  by (auto simp: put_row_def split: if_splits)

lemma put_row_in: "q \<in> set t \<Longrightarrow> k q = k r \<Longrightarrow> r \<in> set (put_row k r t)"
  by (force simp: put_row_def)

lemma put_row_other: "q \<in> set t \<Longrightarrow> k q \<noteq> k r \<Longrightarrow> q \<in> set (put_row k r t)"
  by (force simp: put_row_def)

lemma put_row_absent: "k r \<notin> k ` set t \<Longrightarrow> put_row k r t = t"
  unfolding put_row_def by (rule map_idI) (metis image_eqI)

text \<open>Counting after a replacement: one row out, one row in.\<close>

lemma count_where_put_row:
  assumes "distinct (map k t)" and "r \<in> set t" and "k r' = k r"
  shows "count_where p (put_row k r' t) + (if p r then 1 else 0) =
    count_where p t + (if p r' then 1 else 0)"
  using assms
proof (induction t)
  case Nil
  then show ?case by simp
next
  case (Cons q t)
  show ?case
  proof (cases "q = r")
    case True
    with Cons.prems have "put_row k r' t = t" by (intro put_row_absent) auto
    with True Cons.prems show ?thesis by (simp add: put_row_def)
  next
    case False
    with Cons.prems have "k q \<noteq> k r" "r \<in> set t" "distinct (map k t)" by auto
    with Cons.IH Cons.prems(3) show ?thesis by (simp add: put_row_def)
  qed
qed

lemma find_put_row:
  assumes "distinct (map k t)" and "r \<in> set t" and "k r' = k r"
  shows "List.find (\<lambda>q. k q = k r) (put_row k r' t) = Some r'"
proof (rule find_key_unique [of k])
  show "distinct (map k (put_row k r' t))" using assms(1) by simp
  show "r' \<in> set (put_row k r' t)" using assms(2,3) by (intro put_row_in [of r]) auto
qed (rule assms(3))

lemma sum_list_put_row:
  fixes g :: "'r \<Rightarrow> int"
  assumes "distinct (map k t)" and "r \<in> set t" and "k r' = k r"
  shows "sum_list (map g (put_row k r' t)) = sum_list (map g t) - g r + g r'"
  using assms
proof (induction t)
  case Nil
  then show ?case by simp
next
  case (Cons q t)
  show ?case
  proof (cases "q = r")
    case True
    with Cons.prems have "put_row k r' t = t" by (intro put_row_absent) auto
    with True Cons.prems show ?thesis by (simp add: put_row_def)
  next
    case False
    with Cons.prems have "k q \<noteq> k r" "r \<in> set t" "distinct (map k t)" by auto
    with Cons.IH Cons.prems(3) show ?thesis by (simp add: put_row_def)
  qed
qed

lemma map_put_row_same:
  assumes "distinct (map k t)" and "r \<in> set t" and "k r' = k r" and "g r' = g r"
  shows "map g (put_row k r' t) = map g t"
  unfolding put_row_def map_map comp_def
proof (rule map_cong [OF refl])
  fix q assume q: "q \<in> set t"
  show "g (if k q = k r' then r' else q) = g q"
  proof (cases "k q = k r")
    case True
    with distinct_key_inj [OF assms(1) q assms(2)] have "q = r" by simp
    with assms show ?thesis by simp
  next
    case False
    with assms(3) show ?thesis by simp
  qed
qed

lemma put_row_put_row: "k r = k s \<Longrightarrow> put_row k r (put_row k s t) = put_row k r t"
  by (simp add: put_row_def)

end
