(* ===== verification/Go_Errors.thy ===== *)
theory Go_Errors
  imports Go_Prelude
begin

text \<open>
  The errors of the modelled code. Go wraps an error with \<open>fmt.Errorf("...: %w", err)\<close> and
  recognises it with \<open>errors.Is\<close>; the wrapping text is not kept, so an error here is the
  sentinel \<open>errors.Is\<close> finds. \<open>NoRows\<close> is \<open>pgx.ErrNoRows\<close>, \<open>PgError\<close> a PostgreSQL error
  with its SQLSTATE code and the violated constraint, \<open>Fault\<close> an error of the infrastructure
  (a lost connection, an exhausted entropy source) at the call named by the label, and
  \<open>Failure\<close> an anonymous \<open>errors.New\<close>.
\<close>

text \<open>The sentinels of \<open>auth/domain/errors.go\<close>, \<open>auth/app\<close> and \<open>platform/security\<close>.\<close>

datatype auth_err =
    ErrInvalidCredentials
  | ErrUserNotFound
  | ErrInvalidRefreshToken
  | ErrRefreshSessionUnavailable
  | ErrEmailTaken
  | ErrInvalidEmail
  | ErrEmailUnchanged
  | ErrEmailChangeStale
  | ErrAccountConflict
  | ErrInvalidRole
  | ErrOTPRequired
  | ErrInvalidOTP
  | ErrOTPMaxAttemptsExceeded
  | ErrOTPUnavailable
  | ErrPendingRegistrationNotFound
  | ErrAccountSuspended
  | ErrRegistrationUnavailable
  | ErrInvalidToken
  | ErrMissingToken
  | ErrPasswordTooLong

text \<open>The sentinels of the platform packages: the circuit breaker and the list cursors.\<close>

datatype platform_err =
    ErrCircuitOpen
  | ErrCircuitNotConfigured
  | ErrCircuitContextNil
  | ErrCircuitOperationNil
  | ErrInvalidPagination

text \<open>
  The other sentinels of the modules, one datatype each; \<open>ErrProfileInvalidRole\<close> is the user
  module's \<open>ErrInvalidRole\<close>.
\<close>

datatype ride_err =
    ErrCounterpartyUnavailable
  | ErrSafetyReportInvalid
  | ErrSafetyReportNotAllowed
  | ErrSafetyReportAlreadySent

datatype user_err =
    ErrProfileNotFound
  | ErrProfileInvalidRole
  | ErrDriverVehicleChangeWhileOnline
  | ErrDriverAvailabilityBlocked
  | ErrNotificationNotFound
  | ErrInvalidAvatar
  | ErrAvatarNotFound
  | ErrAvatarCorrupt
  | ErrAvatarStorageUnavailable
  | ErrProfileUnavailable
  | ErrNotificationUnavailable

datatype driver_err =
    ErrInvalidDocument
  | ErrInvalidDocumentType
  | ErrUnsupportedContentType
  | ErrDocumentNotFound
  | ErrDocumentCorrupt
  | ErrDocumentFinalized
  | ErrDocumentServiceUnavailable

datatype review_err =
    ErrInvalidRating
  | ErrReviewNotAllowed
  | ErrReviewNotFound
  | ErrReviewPersistenceUnavailable

datatype chat_err =
    ErrForbidden
  | ErrInvalidMessage
  | ErrInvalidRoom
  | ErrRoomConflict
  | ErrRoomLocked
  | ErrRoomUnavailable

datatype location_err =
    ErrInvalidLocation
  | ErrLocationNotFound
  | ErrStaleLocation
  | ErrDriverOffline
  | ErrDriverPresenceUnavailable
  | ErrRideAccessDenied
  | ErrRideAssignmentUnavailable
  | ErrLocationPersistenceUnavailable

datatype err =
    ErrInvalidTrip
  | ErrInvalidDriverStanding
  | ErrRouteUnavailable
  | ErrActiveBooking
  | ErrDriverCapacityReached
  | ErrUnauthorizedRide
  | ErrInvalidSettlement
  | ErrRideDriverUnavailable
  | ErrInvalidStatusTransition
  | ErrInvalidCancellation
  | ErrCancellationCommand
  | ErrArrivalCommand
  | ErrTripStartCommand
  | ErrTripCompletionCommand
  | ErrArrivalLocation
  | ErrDriverLocationUnavailable
  | ErrDriverLocationStale
  | ErrPassengerNoShowNotReady
  | ErrNoShowCommand
  | ErrEmergencyStopNotAllowed
  | ErrInvalidEmergencyStop
  | ErrRideNotFound
  | ErrPersistenceUnavailable
  | ErrSettlementPersistenceUnavailable
  | ErrUnauthorizedSession
  | ErrInvalidFareOffer
  | ErrDispatchDriverUnavailable
  | ErrDuplicateBid
  | ErrSessionClosed
  | ErrSessionNotFound
  | ErrOfferNotFound
  | ContextCanceled
  | ContextDeadlineExceeded
  | Auth auth_err
  | Platform platform_err
  | RideErr ride_err
  | UserErr user_err
  | DriverErr driver_err
  | ReviewErr review_err
  | ChatErr chat_err
  | LocationErr location_err
  | NoRows
  | PgError string string
  | Fault string
  | Failure string

text \<open>The bound of \<open>domain.MaxActiveRidesPerDriver\<close>.\<close>

definition max_active_rides_per_driver :: nat where
  "max_active_rides_per_driver = 5"

end
