(* ===== verification/Settlement.thy ===== *)
theory Settlement
  imports Go_Errors
begin

text \<open>
  The money of a ride: the commission split fixed when a driver accepts
  (\<open>ride/domain/settlement.go\<close>), the validation of the cash a driver collects
  (\<open>ride/domain/cash_settlement.go\<close>) and the reliability counters of a driver
  (\<open>ride/domain/driver_statistics.go\<close>). Amounts are \<open>int64\<close> centavos: the machine product and
  differences are written with their wrap-around, so that the theorems below show the code's
  overflow guard to be enough.
\<close>

record settlement_snapshot =
  ss_fare_amount :: int
  ss_commission_bps :: int
  ss_commission_amount :: int
  ss_driver_payout_amount :: int

definition empty_snapshot :: settlement_snapshot where
  "empty_snapshot = \<lparr>ss_fare_amount = 0, ss_commission_bps = 0, ss_commission_amount = 0,
                     ss_driver_payout_amount = 0\<rparr>"

definition new_settlement_snapshot :: "int \<Rightarrow> int \<Rightarrow> err + settlement_snapshot" where
  "new_settlement_snapshot fare_amount commission_bps =
     (let invalid_fare = fare_amount \<le> 0;
          invalid_commission = commission_bps < 0 \<or> commission_bps > 10000
      in if invalid_fare \<or> invalid_commission then Inl ErrInvalidSettlement
         else if commission_bps \<noteq> 0 \<and> fare_amount > go_quot max_int64 commission_bps
         then Inl ErrInvalidSettlement
         else
           (let commission_amount = go_quot (wrap64 (fare_amount * commission_bps)) 10000
            in Inr \<lparr>ss_fare_amount = fare_amount,
                    ss_commission_bps = commission_bps,
                    ss_commission_amount = commission_amount,
                    ss_driver_payout_amount = wrap64 (fare_amount - commission_amount)\<rparr>))"

record cash_settlement_request =
  cs_ride_id :: int
  cs_driver_id :: int
  cs_received_amount :: int
  cs_change_amount :: int
  cs_outcome :: string

record cash_settlement =
  cash_outcome :: string
  cash_received_amount :: int
  cash_change_amount :: int
  cash_collected_amount :: int
  cash_payment_status :: string
  cash_snapshot :: settlement_snapshot

definition new_cash_settlement ::
  "int \<Rightarrow> int \<Rightarrow> int \<Rightarrow> string \<Rightarrow> int \<Rightarrow> err + cash_settlement" where
  "new_cash_settlement fare_amount received_amount change_amount outcome commission_bps =
     (if fare_amount \<le> 0 \<or> received_amount < 0 \<or> change_amount < 0 \<or> change_amount > received_amount
      then Inl ErrInvalidSettlement
      else
        (let collected_amount = wrap64 (received_amount - change_amount);
             outcome_valid =
               (if outcome = ''paid'' then collected_amount = fare_amount
                else if outcome = ''partial'' then
                  \<not> (collected_amount \<le> 0 \<or> collected_amount \<ge> fare_amount \<or> change_amount \<noteq> 0)
                else if outcome = ''refused'' \<or> outcome = ''unpaid'' then collected_amount = 0
                else False)
         in if \<not> outcome_valid then Inl ErrInvalidSettlement
            else
              (case (if collected_amount > 0
                     then new_settlement_snapshot collected_amount commission_bps
                     else Inr empty_snapshot) of
                 Inl e \<Rightarrow> Inl e
               | Inr snapshot \<Rightarrow>
                   Inr \<lparr>cash_outcome = outcome,
                        cash_received_amount = received_amount,
                        cash_change_amount = change_amount,
                        cash_collected_amount = collected_amount,
                        cash_payment_status = (if outcome = ''paid'' then ''paid'' else ''unpaid''),
                        cash_snapshot = snapshot\<rparr>)))"

section \<open>The commission split\<close>

lemma commission_product_no_overflow:
  assumes "0 < fare" and "0 \<le> bps" and "bps = 0 \<or> fare \<le> max_int64 div bps"
  shows "int64_range (fare * bps)"
proof -
  have "fare * bps \<le> max_int64"
  proof (cases "bps = 0")
    case True
    then show ?thesis by (simp add: max_int64_def)
  next
    case False
    with assms have "fare * bps \<le> max_int64 div bps * bps"
      by (intro mult_right_mono) auto
    also have "\<dots> \<le> max_int64"
      using assms False by (simp add: div_mult_mod_eq minus_mod_eq_div_mult [symmetric])
    finally show ?thesis .
  qed
  moreover have "0 \<le> fare * bps" using assms by simp
  ultimately show ?thesis by (simp add: int64_range_def max_int64_def)
qed

lemma snapshot_guard:
  assumes "new_settlement_snapshot fare bps = Inr ss"
  shows "0 < fare" and "0 \<le> bps" and "bps \<le> 10000"
    and "bps = 0 \<or> fare \<le> max_int64 div bps"
proof -
  from assms show "0 < fare" and b: "0 \<le> bps" and "bps \<le> 10000"
    by (auto simp: new_settlement_snapshot_def Let_def split: if_splits)
  have "bps = 0 \<or> fare \<le> go_quot max_int64 bps"
    using assms by (auto simp: new_settlement_snapshot_def Let_def split: if_splits)
  moreover have "go_quot max_int64 bps = max_int64 div bps" if "bps \<noteq> 0"
    using b that by (intro go_quot_pos) (auto simp: max_int64_def)
  ultimately show "bps = 0 \<or> fare \<le> max_int64 div bps" by (cases "bps = 0") auto
qed

text \<open>What a successful split is, with no machine arithmetic left.\<close>

lemma new_settlement_snapshotE:
  assumes "new_settlement_snapshot fare bps = Inr ss" and "int64_range fare"
  obtains "0 < fare" and "0 \<le> bps" and "bps \<le> 10000"
    and "ss = \<lparr>ss_fare_amount = fare, ss_commission_bps = bps,
               ss_commission_amount = fare * bps div 10000,
               ss_driver_payout_amount = fare - fare * bps div 10000\<rparr>"
    and "0 \<le> fare * bps div 10000" and "fare * bps div 10000 \<le> fare"
proof -
  note g = snapshot_guard(1,2,3) [OF assms(1)] and o = snapshot_guard(4) [OF assms(1)]
  from assms(1) have ss: "ss = \<lparr>ss_fare_amount = fare, ss_commission_bps = bps,
        ss_commission_amount = go_quot (wrap64 (fare * bps)) 10000,
        ss_driver_payout_amount = wrap64 (fare - go_quot (wrap64 (fare * bps)) 10000)\<rparr>"
    by (auto simp: new_settlement_snapshot_def Let_def split: if_splits)
  from g(1,2) have nn: "0 \<le> fare * bps" by simp
  from commission_product_no_overflow [OF g(1,2) o]
  have c: "go_quot (wrap64 (fare * bps)) 10000 = fare * bps div 10000"
    using nn by (simp add: wrap64_id go_quot_pos)
  have lo: "0 \<le> fare * bps div 10000" using nn by simp
  have "fare * bps div 10000 \<le> fare * 10000 div 10000"
    using g by (intro zdiv_mono1 mult_left_mono) auto
  then have hi: "fare * bps div 10000 \<le> fare" by simp
  have "int64_range (fare - fare * bps div 10000)"
    using lo hi g(1) assms(2) by (auto simp: int64_range_def)
  then have "wrap64 (fare - fare * bps div 10000) = fare - fare * bps div 10000"
    by (rule wrap64_id)
  with ss c g lo hi that show ?thesis by simp
qed

lemma settlement_snapshot_amounts:
  assumes "new_settlement_snapshot fare bps = Inr ss" and "int64_range fare"
  shows "0 \<le> ss_commission_amount ss" and "0 \<le> ss_driver_payout_amount ss"
    and "ss_commission_amount ss + ss_driver_payout_amount ss = fare"
    and "ss_fare_amount ss = fare" and "ss_commission_bps ss = bps"
  using assms by (auto elim!: new_settlement_snapshotE)

text \<open>
  C19. The commission split never creates or loses money, whatever the 64-bit arithmetic could
  do: when the code accepts a fare and a commission rate, commission plus payout is exactly
  the fare, both are non-negative, the commission is the fare's share rounded down, and no
  intermediate product has wrapped.
\<close>

theorem settlement_split_exact:
  assumes "int64_range fare" and "new_settlement_snapshot fare bps = Inr ss"
  shows "ss_commission_amount ss + ss_driver_payout_amount ss = fare \<and>
    0 \<le> ss_commission_amount ss \<and> 0 \<le> ss_driver_payout_amount ss \<and>
    10000 * ss_commission_amount ss \<le> fare * bps \<and>
    fare * bps < 10000 * (ss_commission_amount ss + 1) \<and> int64_range (fare * bps)"
proof -
  from assms(2,1) obtain g: "0 < fare" "0 \<le> bps" "bps \<le> 10000"
    and ss: "ss = \<lparr>ss_fare_amount = fare, ss_commission_bps = bps,
        ss_commission_amount = fare * bps div 10000,
        ss_driver_payout_amount = fare - fare * bps div 10000\<rparr>"
    and "0 \<le> fare * bps div 10000" "fare * bps div 10000 \<le> fare"
    by (rule new_settlement_snapshotE)
  moreover have "int64_range (fare * bps)"
    using g snapshot_guard(4) [OF assms(2)] by (intro commission_product_no_overflow)
  moreover have "10000 * (fare * bps div 10000) \<le> fare * bps"
    and "fare * bps < 10000 * (fare * bps div 10000 + 1)" by presburger+
  ultimately show ?thesis by simp
qed

theorem settlement_split_exact_witness:
  "(1250::int) + 8750 = 10000 \<and> (0::int) \<le> 1250 \<and> (0::int) \<le> 8750 \<and>
   10000 * 1250 \<le> 10000 * (1250::int) \<and> 10000 * (1250::int) < 10000 * (1250 + 1) \<and>
   int64_range (10000 * 1250)"
proof -
  have "new_settlement_snapshot 10000 1250 =
    Inr \<lparr>ss_fare_amount = 10000, ss_commission_bps = 1250, ss_commission_amount = 1250,
         ss_driver_payout_amount = 8750\<rparr>"
    by code_simp
  from settlement_split_exact [OF _ this] show ?thesis by (simp add: int64_range_def)
qed

section \<open>Cash\<close>

lemma new_cash_settlementE:
  assumes "new_cash_settlement fare received change outcome bps = Inr cs"
    and "int64_range received"
  obtains "0 < fare" and "0 \<le> change" and "change \<le> received"
    and "cash_outcome cs = outcome" and "cash_received_amount cs = received"
    and "cash_change_amount cs = change" and "cash_collected_amount cs = received - change"
    and "cash_payment_status cs = (if outcome = ''paid'' then ''paid'' else ''unpaid'')"
    and "outcome = ''paid'' \<and> received - change = fare \<or>
         outcome = ''partial'' \<and> change = 0 \<and> 0 < received \<and> received < fare \<or>
         (outcome = ''refused'' \<or> outcome = ''unpaid'') \<and> received = change"
    and "(if received - change > 0 then new_settlement_snapshot (received - change) bps
          else Inr empty_snapshot) = Inr (cash_snapshot cs)"
proof -
  from assms have b: "0 < fare" "0 \<le> change" "change \<le> received"
    by (auto simp: new_cash_settlement_def split: if_splits)
  with assms(2) have "int64_range (received - change)"
    by (auto simp: int64_range_def)
  then have w: "wrap64 (received - change) = received - change" by (rule wrap64_id)
  show ?thesis
    using assms(1) b that
    by (auto simp: new_cash_settlement_def Let_def w split: if_splits sum.splits)
qed

text \<open>
  C20. A cash settlement accounts for every centavo. When the code accepts one: what the
  driver keeps is the tendered amount less the change; the payment counts as paid exactly for
  the outcome \<open>paid\<close>, and then the driver kept exactly the fare; a partial payment kept less
  than the fare and gave no change; a refused or unpaid ride kept nothing and credits
  nothing; and commission plus payout is the amount kept.
\<close>

theorem cash_settlement_accounts:
  assumes "int64_range received"
    and "new_cash_settlement fare received change outcome bps = Inr cs"
  shows "cash_collected_amount cs = received - change \<and>
    (cash_payment_status cs = ''paid'') = (outcome = ''paid'') \<and>
    (outcome = ''paid'' \<longrightarrow> cash_collected_amount cs = fare) \<and>
    (outcome = ''partial'' \<longrightarrow> 0 < cash_collected_amount cs \<and> cash_collected_amount cs < fare \<and> change = 0) \<and>
    (outcome \<in> {''refused'', ''unpaid''} \<longrightarrow> cash_collected_amount cs = 0 \<and> cash_snapshot cs = empty_snapshot) \<and>
    outcome \<in> {''paid'', ''partial'', ''refused'', ''unpaid''} \<and>
    ss_commission_amount (cash_snapshot cs) + ss_driver_payout_amount (cash_snapshot cs)
      = cash_collected_amount cs"
  using assms(2,1)
proof (rule new_cash_settlementE)
  assume a: "0 < fare" "0 \<le> change" "change \<le> received" "cash_outcome cs = outcome"
    "cash_collected_amount cs = received - change"
    "cash_payment_status cs = (if outcome = ''paid'' then ''paid'' else ''unpaid'')"
    and o: "outcome = ''paid'' \<and> received - change = fare \<or>
         outcome = ''partial'' \<and> change = 0 \<and> 0 < received \<and> received < fare \<or>
         (outcome = ''refused'' \<or> outcome = ''unpaid'') \<and> received = change"
    and s: "(if received - change > 0 then new_settlement_snapshot (received - change) bps
          else Inr empty_snapshot) = Inr (cash_snapshot cs)"
  have "ss_commission_amount (cash_snapshot cs) + ss_driver_payout_amount (cash_snapshot cs)
      = received - change"
  proof (cases "received - change > 0")
    case True
    then have "int64_range (received - change)"
      using assms(1) a by (auto simp: int64_range_def)
    with s True show ?thesis by (intro settlement_snapshot_amounts(3)) simp_all
  next
    case False
    with s have "cash_snapshot cs = empty_snapshot" by simp
    with False a show ?thesis by (simp add: empty_snapshot_def)
  qed
  with a o s show ?thesis by auto
qed

theorem cash_settlement_accounts_witness:
  "(10000::int) = 15000 - 5000 \<and> (''paid'' = ''paid'') = (''paid'' = ''paid'') \<and>
   (1250::int) + 8750 = 10000"
proof -
  have "new_cash_settlement 10000 15000 5000 ''paid'' 1250 =
    Inr \<lparr>cash_outcome = ''paid'', cash_received_amount = 15000, cash_change_amount = 5000,
      cash_collected_amount = 10000, cash_payment_status = ''paid'',
      cash_snapshot = \<lparr>ss_fare_amount = 10000, ss_commission_bps = 1250,
        ss_commission_amount = 1250, ss_driver_payout_amount = 8750\<rparr>\<rparr>"
    by code_simp
  from cash_settlement_accounts [OF _ this] show ?thesis by (simp add: int64_range_def)
qed

section \<open>Driver standing\<close>

record driver_standing =
  ds_settled_trips :: int
  ds_driver_fault :: int
  ds_passenger_fault :: int
  ds_system_fault :: int
  ds_no_fault :: int
  ds_safety_related :: int
  ds_pending_review :: int
  ds_admin_override :: int
  ds_completion_rate_percent :: real
  ds_driver_fault_rate_percent :: real

definition build_driver_standing ::
  "int \<Rightarrow> int \<Rightarrow> int \<Rightarrow> int \<Rightarrow> int \<Rightarrow> int \<Rightarrow> int \<Rightarrow> int \<Rightarrow> int \<Rightarrow> err + driver_standing" where
  "build_driver_standing settled completed driver_fault passenger_fault system_fault no_fault
     safety_related pending_review admin_override =
     (let counts = [settled, completed, driver_fault, passenger_fault, system_fault, no_fault,
                    safety_related, pending_review, admin_override]
      in if list_ex (\<lambda>count. count < 0) counts then Inl ErrInvalidDriverStanding
         else if completed > settled then Inl ErrInvalidDriverStanding
         else
           (let standing = \<lparr>ds_settled_trips = settled, ds_driver_fault = driver_fault,
                  ds_passenger_fault = passenger_fault, ds_system_fault = system_fault,
                  ds_no_fault = no_fault, ds_safety_related = safety_related,
                  ds_pending_review = pending_review, ds_admin_override = admin_override,
                  ds_completion_rate_percent = 0, ds_driver_fault_rate_percent = 0\<rparr>
            in if settled = 0 then Inr standing
               else Inr (standing
                 \<lparr>ds_completion_rate_percent := real_of_int completed / real_of_int settled * 100,
                  ds_driver_fault_rate_percent := real_of_int driver_fault / real_of_int settled * 100\<rparr>)))"

lemma driver_standing_completion_rate:
  assumes "build_driver_standing s c d p y n a r q = Inr st"
  shows "0 \<le> ds_completion_rate_percent st \<and> ds_completion_rate_percent st \<le> 100"
proof (cases "s = 0")
  case True
  with assms show ?thesis
    by (auto simp: build_driver_standing_def Let_def split: if_splits)
next
  case False
  with assms have "0 \<le> c" "c \<le> s" "0 < s"
    and "ds_completion_rate_percent st = real_of_int c / real_of_int s * 100"
    by (auto simp: build_driver_standing_def Let_def split: if_splits)
  then show ?thesis by (simp add: pos_divide_le_eq)
qed

end
