(* ===== verification/Ride_Status.thy ===== *)
theory Ride_Status
  imports Go_Errors
begin

text \<open>
  The ride lifecycle's statuses and the transition table
  (\<open>server/internal/modules/ride/domain/status.go\<close>). Storage, events and clients carry a
  status as a string; \<open>normalize_ride_status\<close> reads it, and every predicate below normalises
  its arguments first, as the code does.
\<close>

datatype ride_status =
    RideRequested | RideAssigned | RideAccepted | RideArrived
  | RideInTransit | RideCompleted | RideCancelled

fun status_str :: "ride_status \<Rightarrow> string" where
  "status_str RideRequested = ''requested''"
| "status_str RideAssigned = ''assigned''"
| "status_str RideAccepted = ''accepted''"
| "status_str RideArrived = ''arrived''"
| "status_str RideInTransit = ''in_transit''"
| "status_str RideCompleted = ''completed''"
| "status_str RideCancelled = ''cancelled''"

definition normalize_ride_status :: "string \<Rightarrow> ride_status option" where
  "normalize_ride_status value =
     (let status = to_lower (trim_space value);
          status = (if status = ''canceled'' then status_str RideCancelled else status)
      in if status = ''requested'' then Some RideRequested
         else if status = ''assigned'' then Some RideAssigned
         else if status = ''accepted'' then Some RideAccepted
         else if status = ''arrived'' then Some RideArrived
         else if status = ''in_transit'' then Some RideInTransit
         else if status = ''completed'' then Some RideCompleted
         else if status = ''cancelled'' then Some RideCancelled
         else None)"

fun status_successor :: "ride_status \<Rightarrow> ride_status \<Rightarrow> bool" where
  "status_successor RideRequested to = (to = RideAssigned \<or> to = RideAccepted \<or> to = RideCancelled)"
| "status_successor RideAssigned to = (to = RideArrived \<or> to = RideCancelled)"
| "status_successor RideAccepted to = (to = RideArrived \<or> to = RideCancelled)"
| "status_successor RideArrived to = (to = RideInTransit \<or> to = RideCancelled)"
| "status_successor RideInTransit to = (to = RideCompleted \<or> to = RideCancelled)"
| "status_successor _ to = False"

definition can_transition :: "string \<Rightarrow> string \<Rightarrow> bool" where
  "can_transition current next =
     (case (normalize_ride_status current, normalize_ride_status next) of
        (Some from, Some to) \<Rightarrow> status_successor from to
      | _ \<Rightarrow> False)"

definition can_emergency_stop :: "string \<Rightarrow> bool" where
  "can_emergency_stop status =
     (case normalize_ride_status status of
        None \<Rightarrow> False
      | Some st \<Rightarrow> st \<in> {RideAssigned, RideAccepted, RideArrived, RideInTransit})"

definition is_active :: "string \<Rightarrow> bool" where
  "is_active status =
     (case normalize_ride_status status of
        None \<Rightarrow> False
      | Some st \<Rightarrow> st \<in> {RideRequested, RideAssigned, RideAccepted, RideArrived, RideInTransit})"

definition is_terminal :: "string \<Rightarrow> bool" where
  "is_terminal status =
     (case normalize_ride_status status of
        None \<Rightarrow> False
      | Some st \<Rightarrow> st = RideCompleted \<or> st = RideCancelled)"

section \<open>Normal forms\<close>

lemma normalize_status_str [simp]: "normalize_ride_status (status_str s) = Some s"
  by (cases s) (simp_all add: normalize_ride_status_def go_defs)

lemma normalize_literals [simp]:
  "normalize_ride_status ''requested'' = Some RideRequested"
  "normalize_ride_status ''assigned'' = Some RideAssigned"
  "normalize_ride_status ''accepted'' = Some RideAccepted"
  "normalize_ride_status ''arrived'' = Some RideArrived"
  "normalize_ride_status ''in_transit'' = Some RideInTransit"
  "normalize_ride_status ''completed'' = Some RideCompleted"
  "normalize_ride_status ''cancelled'' = Some RideCancelled"
  using normalize_status_str [of RideRequested] normalize_status_str [of RideAssigned]
    normalize_status_str [of RideAccepted] normalize_status_str [of RideArrived]
    normalize_status_str [of RideInTransit] normalize_status_str [of RideCompleted]
    normalize_status_str [of RideCancelled]
  by simp_all

lemma normalize_empty [simp]: "normalize_ride_status '''' = None"
  by (simp add: normalize_ride_status_def go_defs)

lemma status_str_inject [simp]: "status_str s = status_str t \<longleftrightarrow> s = t"
  by (metis normalize_status_str option.inject)

lemma status_str_nonempty [simp]: "status_str s \<noteq> ''''"
  by (cases s) simp_all

declare status_str.simps [simp del]

lemma can_transition_str [simp]:
  "can_transition (status_str s) (status_str t) = status_successor s t"
  by (simp add: can_transition_def)

lemma can_transitionE:
  assumes "can_transition c n"
  obtains s t where "normalize_ride_status c = Some s" and "normalize_ride_status n = Some t"
    and "status_successor s t"
  using assms by (auto simp: can_transition_def split: option.splits)

text \<open>
  The lifecycle only moves forward: \<open>status_rank\<close> rises along every legal transition. It is
  a measure of the model, not of the code, that makes the table well-founded.
\<close>

fun status_rank :: "ride_status \<Rightarrow> nat" where
  "status_rank RideRequested = 0"
| "status_rank RideAssigned = 1"
| "status_rank RideAccepted = 1"
| "status_rank RideArrived = 2"
| "status_rank RideInTransit = 3"
| "status_rank RideCompleted = 4"
| "status_rank RideCancelled = 4"

lemma status_successor_rank: "status_successor s t \<Longrightarrow> status_rank s < status_rank t"
  by (cases s) auto

lemma status_rank_le_4: "status_rank s \<le> 4"
  by (cases s) auto

lemma active_or_terminal:
  "normalize_ride_status v = Some s \<Longrightarrow> is_active v \<noteq> is_terminal v"
  by (cases s) (auto simp: is_active_def is_terminal_def)

lemma terminal_no_successor: "is_terminal c \<Longrightarrow> \<not> can_transition c n"
  by (auto simp: is_terminal_def can_transition_def split: option.splits)

lemma successor_cancelled_iff: "status_successor s RideCancelled \<longleftrightarrow> s \<noteq> RideCompleted \<and> s \<noteq> RideCancelled"
  by (cases s) auto

lemma cancel_iff_active: "can_transition v (status_str RideCancelled) = is_active v"
  by (auto simp: can_transition_def is_active_def successor_cancelled_iff split: option.splits)
     (metis ride_status.exhaust)

lemma emergency_stop_transition: "can_emergency_stop v \<Longrightarrow> can_transition v (status_str RideCancelled)"
  by (auto simp: can_emergency_stop_def can_transition_def split: option.splits)

section \<open>Histories\<close>

text \<open>A history is the list of statuses a ride has had; every step of it is legal.\<close>

fun legal_history :: "string list \<Rightarrow> bool" where
  "legal_history [] = True"
| "legal_history [s] = True"
| "legal_history (s # t # ss) = (can_transition s t \<and> legal_history (t # ss))"

lemma legal_history_rank:
  "legal_history (s # ss) \<Longrightarrow> normalize_ride_status s = Some a \<Longrightarrow> status_rank a + length ss \<le> 4"
proof (induction ss arbitrary: s a)
  case Nil
  then show ?case by (simp add: status_rank_le_4)
next
  case (Cons t ss)
  from Cons.prems obtain b where b: "normalize_ride_status t = Some b" "status_successor a b"
    by (auto elim!: can_transitionE)
  with Cons.prems have "status_rank b + length ss \<le> 4" by (intro Cons.IH) simp_all
  with status_successor_rank [OF b(2)] show ?case by simp
qed

lemma legal_history_later_rank:
  "legal_history (s # ss) \<Longrightarrow> normalize_ride_status s = Some a \<Longrightarrow> t \<in> set ss \<Longrightarrow>
     \<exists>b. normalize_ride_status t = Some b \<and> status_rank a < status_rank b"
proof (induction ss arbitrary: s a)
  case Nil
  then show ?case by simp
next
  case (Cons u ss)
  from Cons.prems obtain c where c: "normalize_ride_status u = Some c" "status_successor a c"
    by (auto elim!: can_transitionE)
  show ?case
  proof (cases "t = u")
    case True
    with c show ?thesis by (blast dest: status_successor_rank)
  next
    case False
    with Cons.prems Cons.IH [of u c] c obtain b where
      "normalize_ride_status t = Some b" "status_rank c < status_rank b" by auto
    with status_successor_rank [OF c(2)] show ?thesis by force
  qed
qed

definition later_status :: "string \<Rightarrow> string \<Rightarrow> bool" where
  "later_status s t \<longleftrightarrow>
     (\<exists>a b. normalize_ride_status s = Some a \<and> normalize_ride_status t = Some b \<and>
            status_rank a < status_rank b)"

lemma legal_history_sorted: "legal_history ss \<Longrightarrow> sorted_wrt later_status ss"
proof (induction ss rule: legal_history.induct)
  case (3 s t ss)
  then obtain a where a: "normalize_ride_status s = Some a"
    by (auto elim: can_transitionE)
  have "\<forall>u \<in> set (t # ss). later_status s u"
    using legal_history_later_rank [OF "3.prems" a] a by (auto simp: later_status_def)
  with 3 show ?case by simp
qed simp_all

lemma sorted_later_distinct:
  "sorted_wrt later_status ss \<Longrightarrow> distinct (map normalize_ride_status ss)"
  by (induction ss) (auto simp: later_status_def)

lemma legal_history_butlast:
  "legal_history ss \<Longrightarrow> s \<in> set (butlast ss) \<Longrightarrow> \<not> is_terminal s"
  by (induction ss rule: legal_history.induct) (auto dest: terminal_no_successor split: if_splits)

lemma legal_history_length: "legal_history ss \<Longrightarrow> length ss \<le> 5"
proof (cases ss rule: legal_history.cases)
  case (3 s t us)
  assume h: "legal_history ss"
  with 3 obtain a where a: "normalize_ride_status s = Some a"
    by (auto elim: can_transitionE)
  from legal_history_rank [of s "t # us" a] h a 3 show ?thesis by simp
qed simp_all

text \<open>
  C22. The ride lifecycle terminates and never goes back: in any history whose steps the
  transition table allows no status occurs twice (whatever spelling the strings have), the
  history has at most five statuses, and only its last one can be terminal.
\<close>

theorem lifecycle_history_bounded:
  assumes "legal_history ss"
  shows "length ss \<le> 5 \<and> distinct (map normalize_ride_status ss) \<and>
         list_all (\<lambda>s. \<not> is_terminal s) (butlast ss)"
  unfolding list_all_iff using legal_history_length [OF assms] legal_history_butlast [OF assms]
    sorted_later_distinct [OF legal_history_sorted [OF assms]]
  by blast

theorem lifecycle_history_bounded_witness:
  "length [''requested'', '' Accepted'', ''arrived'', ''IN_TRANSIT'', ''completed''] \<le> 5 \<and>
   distinct (map normalize_ride_status [''requested'', '' Accepted'', ''arrived'', ''IN_TRANSIT'', ''completed'']) \<and>
   list_all (\<lambda>s. \<not> is_terminal s)
     (butlast [''requested'', '' Accepted'', ''arrived'', ''IN_TRANSIT'', ''completed''])"
  by (rule lifecycle_history_bounded) code_simp

end
