(* ===== verification/Ride_Policy.thy ===== *)
theory Ride_Policy
  imports Ride_Status
begin

text \<open>
  Who may end or report a ride, and for which reasons: ordinary cancellation
  (\<open>ride/domain/cancellation.go\<close>), emergency stop (\<open>ride/domain/emergency_stop.go\<close>) and
  safety reports (\<open>ride/domain/reports.go\<close>). Reasons, categories and attributions are the
  stable string codes the clients, the server and the database share.
\<close>

section \<open>Ordinary cancellation\<close>

record cancellation_request =
  cr_ride_id :: int
  cr_actor_id :: int
  cr_reason :: string
  cr_details :: string

record ride_transition =
  tr_event_type :: string
  tr_reason :: string
  tr_responsibility :: string
  tr_details :: string
  tr_request_id :: string

definition normalize_cancellation_reason :: "string \<Rightarrow> string" where
  "normalize_cancellation_reason value = to_lower (trim_space value)"

definition passenger_cancellation_reasons :: "string list" where
  "passenger_cancellation_reasons =
     [''passenger_changed_mind'', ''found_another_ride'', ''wrong_pickup_location'',
      ''driver_taking_too_long'', ''driver_asked_to_cancel'', ''driver_no_show'', ''other'']"

definition driver_cancellation_reasons :: "string list" where
  "driver_cancellation_reasons =
     [''passenger_requested_cancellation'', ''passenger_unreachable'', ''passenger_no_show'',
      ''pickup_inaccessible'', ''vehicle_problem'', ''medical_emergency'', ''road_blocked'',
      ''unsafe_pickup_location'', ''passenger_behavior_unsafe'', ''accident'',
      ''unable_to_continue'', ''other'']"

definition is_passenger_cancellation_reason :: "string \<Rightarrow> bool" where
  "is_passenger_cancellation_reason reason \<longleftrightarrow> reason \<in> set passenger_cancellation_reasons"

definition is_driver_cancellation_reason :: "string \<Rightarrow> bool" where
  "is_driver_cancellation_reason reason \<longleftrightarrow> reason \<in> set driver_cancellation_reasons"

definition passenger_cancellation_responsibility :: "string \<Rightarrow> string" where
  "passenger_cancellation_responsibility reason =
     (if reason \<in> {''driver_taking_too_long'', ''driver_asked_to_cancel'', ''driver_no_show'', ''other''}
      then ''pending_review''
      else ''passenger_fault'')"

definition driver_cancellation_responsibility :: "string \<Rightarrow> string" where
  "driver_cancellation_responsibility reason =
     (if reason \<in> {''passenger_requested_cancellation'', ''passenger_unreachable'', ''other''}
      then ''pending_review''
      else if reason = ''vehicle_problem'' then ''driver_fault''
      else if reason \<in> {''medical_emergency'', ''unsafe_pickup_location'', ''passenger_behavior_unsafe'', ''accident''}
      then ''safety_related''
      else if reason \<in> {''road_blocked'', ''pickup_inaccessible'', ''unable_to_continue''}
      then ''no_fault''
      else ''pending_review'')"

definition validate_cancellation ::
  "string \<Rightarrow> string \<Rightarrow> string \<Rightarrow> string \<Rightarrow> err + (string \<times> string)" where
  "validate_cancellation actor status reason details =
     (case normalize_ride_status status of
        None \<Rightarrow> Inl ErrInvalidStatusTransition
      | Some normalized_status \<Rightarrow>
          if \<not> can_transition (status_str normalized_status) (status_str RideCancelled)
          then Inl ErrInvalidStatusTransition
          else
            (let normalized_reason = normalize_cancellation_reason reason;
                 normalized_details = trim_space details
             in if rune_count normalized_details > 500 then Inl ErrInvalidCancellation
                else if normalized_reason = ''other'' \<and> normalized_details = ''''
                then Inl ErrInvalidCancellation
                else if actor = ''passenger'' then
                  (if \<not> is_passenger_cancellation_reason normalized_reason
                   then Inl ErrInvalidCancellation
                   else Inr (passenger_cancellation_responsibility normalized_reason, normalized_details))
                else if actor = ''driver'' then
                  (if \<not> is_driver_cancellation_reason normalized_reason
                   then Inl ErrInvalidCancellation
                   else Inr (driver_cancellation_responsibility normalized_reason, normalized_details))
                else Inl ErrInvalidCancellation))"

section \<open>Emergency stop\<close>

record emergency_stop_request =
  es_ride_id :: int
  es_actor_id :: int
  es_reason :: string
  es_details :: string

definition normalize_emergency_stop_reason :: "string \<Rightarrow> string" where
  "normalize_emergency_stop_reason value = to_lower (trim_space value)"

definition emergency_stop_reasons :: "string list" where
  "emergency_stop_reasons =
     [''accident'', ''medical_emergency'', ''threat_or_violence'', ''vehicle_breakdown'',
      ''road_hazard'', ''police_or_disaster'', ''other'']"

definition validate_emergency_stop :: "string \<Rightarrow> string \<Rightarrow> string \<Rightarrow> err + (string \<times> string)" where
  "validate_emergency_stop status reason details =
     (if \<not> can_emergency_stop status then Inl ErrEmergencyStopNotAllowed
      else
        (let normalized_reason = normalize_emergency_stop_reason reason;
             normalized_details = trim_space details
         in if rune_count normalized_details > 500 then Inl ErrInvalidEmergencyStop
            else if normalized_reason = ''other'' \<and> normalized_details = ''''
            then Inl ErrInvalidEmergencyStop
            else if normalized_reason \<in> set emergency_stop_reasons
            then Inr (normalized_reason, normalized_details)
            else Inl ErrInvalidEmergencyStop))"

section \<open>Safety reports\<close>

definition valid_safety_report_category :: "string \<Rightarrow> string \<Rightarrow> bool" where
  "valid_safety_report_category reporter_role category =
     (if reporter_role = ''passenger'' then
        category \<in> {''accident'', ''driver_identity_mismatch'', ''fare_dispute'', ''fraud'', ''harassment'',
                    ''route_issue'', ''threat_or_violence'', ''unsafe_driving'', ''vehicle_mismatch'', ''other''}
      else if reporter_role = ''driver'' then
        category \<in> {''accident'', ''fraud'', ''harassment'', ''no_show'', ''non_payment'', ''prohibited_cargo'',
                    ''property_damage'', ''threat_or_violence'', ''other''}
      else False)"

definition safety_report_severity :: "string \<Rightarrow> string" where
  "safety_report_severity category =
     (if category \<in> {''accident'', ''threat_or_violence''} then ''critical''
      else if category \<in> {''driver_identity_mismatch'', ''fraud'', ''harassment'', ''non_payment'',
                          ''prohibited_cargo'', ''property_damage'', ''unsafe_driving'', ''vehicle_mismatch''}
      then ''high''
      else ''standard'')"

definition validate_safety_report :: "string \<Rightarrow> string \<Rightarrow> string \<Rightarrow> string option" where
  "validate_safety_report reporter_role category description =
     (let reporter_role = to_lower (trim_space reporter_role);
          category = to_lower (trim_space category);
          description = trim_space description
      in if length description = 0 \<or> length description > 2000 then None
         else if \<not> valid_safety_report_category reporter_role category then None
         else Some (safety_report_severity category))"

section \<open>Properties\<close>

text \<open>
  The attribution of a cancellation: which actor may cause which.
\<close>

lemma passenger_responsibility_range:
  "passenger_cancellation_responsibility r \<in> {''pending_review'', ''passenger_fault''}"
  by (simp add: passenger_cancellation_responsibility_def)

lemma driver_responsibility_range:
  "driver_cancellation_responsibility r \<in>
     {''pending_review'', ''driver_fault'', ''safety_related'', ''no_fault''}"
  by (simp add: driver_cancellation_responsibility_def)

lemma validate_cancellationE:
  assumes "validate_cancellation actor status reason details = Inr (resp, det)"
  obtains "is_active status" and "det = trim_space details" and "rune_count det \<le> 500"
    and "normalize_cancellation_reason reason = ''other'' \<longrightarrow> det \<noteq> ''''"
    and "actor = ''passenger'' \<and>
           is_passenger_cancellation_reason (normalize_cancellation_reason reason) \<and>
           resp = passenger_cancellation_responsibility (normalize_cancellation_reason reason)
       \<or> actor = ''driver'' \<and>
           is_driver_cancellation_reason (normalize_cancellation_reason reason) \<and>
           resp = driver_cancellation_responsibility (normalize_cancellation_reason reason)"
proof -
  from assms obtain st where st: "normalize_ride_status status = Some st"
    by (auto simp: validate_cancellation_def split: option.splits)
  with assms have "can_transition (status_str st) (status_str RideCancelled)"
    by (auto simp: validate_cancellation_def split: if_splits)
  with st have "is_active status"
    by (simp add: cancel_iff_active [symmetric] can_transition_def)
  with assms st that show ?thesis
    by (auto simp: validate_cancellation_def Let_def split: if_splits)
qed

lemma validate_cancellation_reason_known:
  assumes "validate_cancellation actor status reason details = Inr (resp, det)"
  shows "normalize_cancellation_reason reason \<in>
    set passenger_cancellation_reasons \<union> set driver_cancellation_reasons"
  using assms
  by (elim validate_cancellationE)
    (auto simp: is_passenger_cancellation_reason_def is_driver_cancellation_reason_def)

text \<open>
  The cancellation policy accepts exactly the commands it means to, and attributes them
  fairly. A command is accepted if and only if the ride is active, the actor is its passenger
  or its driver, the normalised reason is one of that actor's reasons, the trimmed details
  have at most 500 runes and are present when the reason is \<open>other\<close>. On acceptance the
  returned details are the trimmed ones, and no participant's own command ever attributes
  the fault to the other side: a passenger's yields passenger fault or a review, a driver's
  yields anything but passenger fault.
\<close>

theorem cancellation_policy:
  "(\<exists>resp. validate_cancellation actor status reason details = Inr (resp, trim_space details) \<and>
      (actor = ''passenger'' \<and> resp \<in> {''pending_review'', ''passenger_fault''} \<or>
       actor = ''driver'' \<and> resp \<in> {''pending_review'', ''driver_fault'', ''safety_related'', ''no_fault''}))
   = (is_active status \<and> rune_count (trim_space details) \<le> 500 \<and>
      (actor = ''passenger'' \<and>
         to_lower (trim_space reason) \<in> set passenger_cancellation_reasons \<or>
       actor = ''driver'' \<and>
         to_lower (trim_space reason) \<in> set driver_cancellation_reasons) \<and>
      \<not> (to_lower (trim_space reason) = ''other'' \<and> trim_space details = ''''))"
  (is "?L = ?R")
proof
  assume ?L
  then obtain resp where "validate_cancellation actor status reason details = Inr (resp, trim_space details)"
    by blast
  then show ?R
    by (elim validate_cancellationE)
      (auto simp: is_passenger_cancellation_reason_def is_driver_cancellation_reason_def
        normalize_cancellation_reason_def)
next
  assume r: ?R
  then obtain st where st: "normalize_ride_status status = Some st"
    and ct: "can_transition (status_str st) (status_str RideCancelled)"
    unfolding is_active_def by (auto simp: successor_cancelled_iff split: option.splits)
  with r show ?L
    using passenger_responsibility_range [of "to_lower (trim_space reason)"]
      driver_responsibility_range [of "to_lower (trim_space reason)"]
    by (auto simp: validate_cancellation_def Let_def normalize_cancellation_reason_def
        is_passenger_cancellation_reason_def is_driver_cancellation_reason_def)
qed

text \<open>
  Ordinary cancellation after pickup: the comment on \<open>CanEmergencyStop\<close> says it is not valid,
  the transition table and the policy allow it.
\<close>

lemma ordinary_cancellation_after_pickup:
  "can_transition ''in_transit'' ''cancelled''"
  "validate_cancellation ''passenger'' ''in_transit'' ''passenger_changed_mind'' '''' =
     Inr (''passenger_fault'', '''')"
  by (simp_all add: can_transition_def validate_cancellation_def normalize_cancellation_reason_def
      is_passenger_cancellation_reason_def passenger_cancellation_reasons_def
      passenger_cancellation_responsibility_def status_str.simps go_defs)

lemma validate_emergency_stopE:
  assumes "validate_emergency_stop status reason details = Inr (r, d)"
  obtains "can_emergency_stop status" and "r = normalize_emergency_stop_reason reason"
    and "r \<in> set emergency_stop_reasons" and "d = trim_space details" and "rune_count d \<le> 500"
    and "r = ''other'' \<longrightarrow> d \<noteq> ''''"
  using assms by (auto simp: validate_emergency_stop_def Let_def split: if_splits)

text \<open>
  The database's CHECK constraints on safety reports (\<open>db/schema/ride_reports.sql\<close>) admit
  every category and severity that validation lets through.
\<close>

definition ride_report_categories :: "string list" where
  "ride_report_categories =
     [''accident'', ''driver_identity_mismatch'', ''fare_dispute'', ''fraud'', ''harassment'', ''no_show'',
      ''non_payment'', ''prohibited_cargo'', ''property_damage'', ''route_issue'',
      ''threat_or_violence'', ''unsafe_driving'', ''vehicle_mismatch'', ''other'']"

lemma validate_safety_report_checks:
  assumes "validate_safety_report role category description = Some severity"
  shows "to_lower (trim_space category) \<in> set ride_report_categories"
    and "severity \<in> {''standard'', ''high'', ''critical''}"
    and "to_lower (trim_space role) \<in> {''driver'', ''passenger''}"
    and "1 \<le> rune_count (trim_space description)" and "rune_count (trim_space description) \<le> 2000"
proof -
  from assms have d: "trim_space description \<noteq> ''''" "length (trim_space description) \<le> 2000"
    and c: "valid_safety_report_category (to_lower (trim_space role)) (to_lower (trim_space category))"
    and s: "severity = safety_report_severity (to_lower (trim_space category))"
    by (auto simp: validate_safety_report_def Let_def split: if_splits)
  from c show "to_lower (trim_space category) \<in> set ride_report_categories"
    and "to_lower (trim_space role) \<in> {''driver'', ''passenger''}"
    by (auto simp: valid_safety_report_category_def ride_report_categories_def split: if_splits)
  from s show "severity \<in> {''standard'', ''high'', ''critical''}"
    by (simp add: safety_report_severity_def)
  from d(1) show "1 \<le> rune_count (trim_space description)"
    by (metis rune_count_eq_0 less_one not_le)
  from d(2) rune_count_le_length [of "trim_space description"]
  show "rune_count (trim_space description) \<le> 2000" by linarith
qed

text \<open>
  A safety report that validation accepts never trips a CHECK constraint of the
  \<open>ride_reports\<close> table: its role, category, severity and description length are all in the
  ranges the schema allows, although the code measures the description in bytes and the
  schema in characters. Accidents and threats are always critical.
\<close>

theorem safety_report_satisfies_schema:
  assumes "validate_safety_report role category description = Some severity"
  shows "to_lower (trim_space role) \<in> {''driver'', ''passenger''} \<and>
    to_lower (trim_space category) \<in> set ride_report_categories \<and>
    severity \<in> {''standard'', ''high'', ''critical''} \<and>
    1 \<le> rune_count (trim_space description) \<and> rune_count (trim_space description) \<le> 2000 \<and>
    (severity = ''critical'') = (to_lower (trim_space category) \<in> {''accident'', ''threat_or_violence''})"
  using validate_safety_report_checks [OF assms] assms
  by (auto simp: validate_safety_report_def Let_def safety_report_severity_def split: if_splits)

theorem safety_report_satisfies_schema_witness:
  "to_lower (trim_space '' Driver'') \<in> {''driver'', ''passenger''} \<and>
   to_lower (trim_space ''Accident '') \<in> set ride_report_categories \<and>
   ''critical'' \<in> {''standard'', ''high'', ''critical''} \<and>
   1 \<le> rune_count (trim_space ''crash'') \<and> rune_count (trim_space ''crash'') \<le> 2000 \<and>
   (''critical'' = ''critical'') = (to_lower (trim_space ''Accident '') \<in> {''accident'', ''threat_or_violence''})"
  by (rule safety_report_satisfies_schema) code_simp

end
