(* ===== verification/Geo.thy ===== *)
theory Geo
  imports Go_Errors
begin

text \<open>
  Positions, trips and fares: the proximity check of the location-gated lifecycle commands
  (\<open>ride/domain/arrival.go\<close>), the validity of coordinates
  (\<open>ride/domain/passenger_context.go\<close>), the trip validation of the booking path
  (\<open>validateTrip\<close> in \<open>ride/app/service.go\<close>) and the fare formula
  (\<open>ride/app/pricing_config.go\<close>). NaN and the infinities are values of \<open>gofloat\<close>, so each
  validation is modelled exactly; the formulas behind them are evaluated on reals.
\<close>

section \<open>Distance and arrival\<close>

definition earth_radius_meters :: real where
  "earth_radius_meters = 6371000"

definition valid_radius :: "gofloat \<Rightarrow> bool" where
  "valid_radius radius_meters \<longleftrightarrow>
     f_lt (Fin 0) radius_meters \<and> \<not> is_nan radius_meters \<and> \<not> is_inf radius_meters"

definition valid_coordinate :: "gofloat \<Rightarrow> gofloat \<Rightarrow> bool" where
  "valid_coordinate latitude longitude \<longleftrightarrow>
     \<not> is_nan latitude \<and> \<not> is_inf latitude \<and>
     \<not> is_nan longitude \<and> \<not> is_inf longitude \<and>
     f_le (Fin (-90)) latitude \<and> f_le latitude (Fin 90) \<and>
     f_le (Fin (-180)) longitude \<and> f_le longitude (Fin 180)"

definition haversine_meters :: "real \<Rightarrow> real \<Rightarrow> real \<Rightarrow> real \<Rightarrow> real" where
  "haversine_meters first_latitude first_longitude second_latitude second_longitude =
     (let latitude_delta = (second_latitude - first_latitude) * pi / 180;
          longitude_delta = (second_longitude - first_longitude) * pi / 180;
          first_latitude_radians = first_latitude * pi / 180;
          second_latitude_radians = second_latitude * pi / 180;
          a = sin (latitude_delta / 2) * sin (latitude_delta / 2) +
              cos first_latitude_radians * cos second_latitude_radians *
              sin (longitude_delta / 2) * sin (longitude_delta / 2)
      in 2 * earth_radius_meters * arcsin (sqrt a))"

definition validate_arrival_location ::
  "gofloat \<Rightarrow> gofloat \<Rightarrow> gofloat \<Rightarrow> gofloat \<Rightarrow> gofloat \<Rightarrow> err + unit" where
  "validate_arrival_location pickup_latitude pickup_longitude driver_latitude driver_longitude
     radius_meters =
     (if \<not> valid_coordinate pickup_latitude pickup_longitude \<or>
         \<not> valid_coordinate driver_latitude driver_longitude \<or>
         \<not> valid_radius radius_meters
      then Inl ErrArrivalLocation
      else if haversine_meters (fin_val pickup_latitude) (fin_val pickup_longitude)
                (fin_val driver_latitude) (fin_val driver_longitude) > fin_val radius_meters
      then Inl ErrArrivalLocation
      else Inr ())"

text \<open>The argument of the arc sine, and its range.\<close>

definition haversine_arg :: "real \<Rightarrow> real \<Rightarrow> real \<Rightarrow> real \<Rightarrow> real" where
  "haversine_arg p l q m =
     sin ((q - p) * pi / 180 / 2) * sin ((q - p) * pi / 180 / 2) +
     cos (p * pi / 180) * cos (q * pi / 180) *
     sin ((m - l) * pi / 180 / 2) * sin ((m - l) * pi / 180 / 2)"

lemma haversine_meters_arg:
  "haversine_meters p l q m = 2 * earth_radius_meters * arcsin (sqrt (haversine_arg p l q m))"
  by (simp add: haversine_meters_def haversine_arg_def Let_def)

lemma sin_half_sq: "sin (x / 2) * sin (x / 2) = (1 - cos x) / (2::real)"
  using cos_double_sin [of "x / 2"] by (simp add: power2_eq_square field_simps)

lemma cos_latitude_nonneg:
  assumes "-90 \<le> p" and "p \<le> (90::real)"
  shows "0 \<le> cos (p * pi / 180)"
proof (rule cos_ge_zero)
  have "-90 * pi \<le> p * pi" and "p * pi \<le> 90 * pi"
    using assms by (intro mult_right_mono; simp)+
  then show "- (pi / 2) \<le> p * pi / 180" and "p * pi / 180 \<le> pi / 2" by linarith+
qed

lemma half_angle_sum: "(1 - cos (b - a)) / 2 + cos a * cos b = (1 + cos (b + a)) / (2::real)"
  by (simp add: cos_diff cos_add field_simps)

lemma haversine_arg_range:
  assumes "-90 \<le> p" "p \<le> 90" "-90 \<le> q" "q \<le> 90"
  shows "0 \<le> haversine_arg p l q m" and "haversine_arg p l q m \<le> 1"
proof -
  let ?a = "p * pi / 180" and ?b = "q * pi / 180" and ?y = "(m - l) * pi / 180"
  let ?C = "cos ?a * cos ?b"
  have C: "0 \<le> ?C" using assms by (intro mult_nonneg_nonneg cos_latitude_nonneg)
  have s: "sin (?y / 2) * sin (?y / 2) \<le> 1"
    unfolding sin_half_sq using cos_ge_minus_one [of ?y] by simp
  have d: "(q - p) * pi / 180 = ?b - ?a"
    by (simp only: left_diff_distrib diff_divide_distrib)
  have x: "sin ((q - p) * pi / 180 / 2) * sin ((q - p) * pi / 180 / 2) = (1 - cos (?b - ?a)) / 2"
    unfolding d by (rule sin_half_sq)
  have arg: "haversine_arg p l q m = (1 - cos (?b - ?a)) / 2 + ?C * (sin (?y / 2) * sin (?y / 2))"
    unfolding haversine_arg_def x by (simp add: mult.assoc)
  have "0 \<le> (1 - cos (?b - ?a)) / 2" by simp
  moreover have "0 \<le> ?C * (sin (?y / 2) * sin (?y / 2))"
    by (rule mult_nonneg_nonneg [OF C zero_le_square])
  ultimately show "0 \<le> haversine_arg p l q m" by (simp add: arg)
  have "?C * (sin (?y / 2) * sin (?y / 2)) \<le> ?C * 1" using C s by (intro mult_left_mono)
  moreover have "(1 - cos (?b - ?a)) / 2 + ?C = (1 + cos (?b + ?a)) / 2"
    by (rule half_angle_sum)
  moreover have "(1 + cos (?b + ?a)) / 2 \<le> 1" by simp
  ultimately show "haversine_arg p l q m \<le> 1" unfolding arg by linarith
qed

lemma haversine_meters_range:
  assumes "-90 \<le> p" "p \<le> 90" "-90 \<le> q" "q \<le> 90"
  shows "0 \<le> haversine_meters p l q m" and "haversine_meters p l q m \<le> pi * earth_radius_meters"
proof -
  have r: "0 \<le> sqrt (haversine_arg p l q m)" "sqrt (haversine_arg p l q m) \<le> 1"
    using haversine_arg_range [OF assms] by simp_all
  then have "0 \<le> arcsin (sqrt (haversine_arg p l q m))"
    using arcsin_le_arcsin [of 0 "sqrt (haversine_arg p l q m)"] by simp
  moreover have "arcsin (sqrt (haversine_arg p l q m)) \<le> pi / 2"
    using r(1) by (intro arcsin_ubound r(2)) linarith
  ultimately show "0 \<le> haversine_meters p l q m" "haversine_meters p l q m \<le> pi * earth_radius_meters"
    by (simp_all add: haversine_meters_arg earth_radius_meters_def)
qed

lemma haversine_meters_commute: "haversine_meters p l q m = haversine_meters q m p l"
proof -
  have a: "(p - q) * pi / 180 / 2 = - ((q - p) * pi / 180 / 2)"
    and b: "(l - m) * pi / 180 / 2 = - ((m - l) * pi / 180 / 2)"
    by (simp_all add: field_simps)
  show ?thesis
    unfolding haversine_meters_arg haversine_arg_def a b by (simp add: mult.commute mult.left_commute)
qed

lemma haversine_meters_self: "haversine_meters p l p l = 0"
  by (simp add: haversine_meters_def)

lemma valid_coordinateE:
  assumes "valid_coordinate p l"
  obtains a b where "p = Fin a" and "l = Fin b" and "-90 \<le> a" and "a \<le> 90"
    and "-180 \<le> b" and "b \<le> 180"
  using assms by (cases p; cases l) (auto simp: valid_coordinate_def)

lemma valid_radiusE:
  assumes "valid_radius r"
  obtains x where "r = Fin x" and "0 < x"
  using assms by (cases r) (auto simp: valid_radius_def)



section \<open>Trips\<close>

text \<open>\<open>validateTrip\<close>: every value finite, coordinates in range, metrics non-negative, and the
  two ends different unless all four coordinates are zero (the metrics-only call).\<close>

definition validate_trip ::
  "gofloat \<Rightarrow> gofloat \<Rightarrow> gofloat \<Rightarrow> gofloat \<Rightarrow> gofloat \<Rightarrow> gofloat \<Rightarrow> err + unit" where
  "validate_trip pickup_latitude pickup_longitude dropoff_latitude dropoff_longitude
     distance_km duration_minutes =
     (if list_ex (\<lambda>value. is_nan value \<or> is_inf value)
           [pickup_latitude, pickup_longitude, dropoff_latitude, dropoff_longitude,
            distance_km, duration_minutes]
      then Inl ErrInvalidTrip
      else
        (let invalid_pickup_latitude =
               f_lt pickup_latitude (Fin (-90)) \<or> f_lt (Fin 90) pickup_latitude;
             invalid_dropoff_latitude =
               f_lt dropoff_latitude (Fin (-90)) \<or> f_lt (Fin 90) dropoff_latitude;
             invalid_latitude = invalid_pickup_latitude \<or> invalid_dropoff_latitude;
             invalid_pickup_longitude =
               f_lt pickup_longitude (Fin (-180)) \<or> f_lt (Fin 180) pickup_longitude;
             invalid_dropoff_longitude =
               f_lt dropoff_longitude (Fin (-180)) \<or> f_lt (Fin 180) dropoff_longitude;
             invalid_longitude = invalid_pickup_longitude \<or> invalid_dropoff_longitude;
             invalid_metrics = f_lt distance_km (Fin 0) \<or> f_lt duration_minutes (Fin 0);
             has_coordinates =
               \<not> (f_eq pickup_latitude (Fin 0) \<and> f_eq pickup_longitude (Fin 0) \<and>
                  f_eq dropoff_latitude (Fin 0) \<and> f_eq dropoff_longitude (Fin 0));
             same_coordinates = has_coordinates \<and> f_eq pickup_latitude dropoff_latitude \<and>
               f_eq pickup_longitude dropoff_longitude
         in if invalid_latitude \<or> invalid_longitude \<or> invalid_metrics \<or> same_coordinates
            then Inl ErrInvalidTrip else Inr ()))"

lemma validate_tripE:
  assumes "validate_trip a b c d k t = Inr ()"
  obtains x y z w dist dur where
    "a = Fin x" "b = Fin y" "c = Fin z" "d = Fin w" "k = Fin dist" "t = Fin dur"
    "-90 \<le> x" "x \<le> 90" "-180 \<le> y" "y \<le> 180" "-90 \<le> z" "z \<le> 90" "-180 \<le> w" "w \<le> 180"
    "0 \<le> dist" "0 \<le> dur" "(x, y) \<noteq> (z, w) \<or> (x = 0 \<and> y = 0 \<and> z = 0 \<and> w = 0)"
proof -
  from assms have "is_finite a" "is_finite b" "is_finite c" "is_finite d" "is_finite k" "is_finite t"
    by (simp_all add: validate_trip_def is_finite_def split: if_splits)
  then obtain x y z w dist dur where
    f: "a = Fin x" "b = Fin y" "c = Fin z" "d = Fin w" "k = Fin dist" "t = Fin dur"
    by (elim is_finiteE)
  have "-90 \<le> x" "x \<le> 90" "-180 \<le> y" "y \<le> 180" "-90 \<le> z" "z \<le> 90" "-180 \<le> w" "w \<le> 180"
    "0 \<le> dist" "0 \<le> dur" "(x, y) \<noteq> (z, w) \<or> (x = 0 \<and> y = 0 \<and> z = 0 \<and> w = 0)"
    using assms unfolding f validate_trip_def Let_def by (auto simp: not_less split: if_splits)
  with f that show ?thesis by blast
qed

section \<open>Fares\<close>

record rating_pricing_config =
  rp_minimum_rating_threshold :: gofloat
  rp_high_rating_bonus_multiplier :: gofloat
  rp_low_rating_surge_penalty_multiplier :: gofloat
  rp_base_surge_cap :: gofloat

record pricing_config =
  pc_base_fare_amount :: int
  pc_per_kilometer_amount :: int
  pc_per_minute_amount :: int
  pc_platform_commission_bps :: int
  pc_rating_pricing_config :: rating_pricing_config

definition is_finite_positive :: "gofloat \<Rightarrow> bool" where
  "is_finite_positive value \<longleftrightarrow> \<not> is_nan value \<and> \<not> is_inf value \<and> f_lt (Fin 0) value"

definition is_finite_non_negative :: "gofloat \<Rightarrow> bool" where
  "is_finite_non_negative value \<longleftrightarrow> \<not> is_nan value \<and> \<not> is_inf value \<and> f_le (Fin 0) value"

definition validate_pricing_config :: "pricing_config \<Rightarrow> err + unit" where
  "validate_pricing_config config =
     (let rating = pc_rating_pricing_config config in
      if pc_base_fare_amount config \<le> 0 then Inl (Failure ''base fare must be greater than zero'')
      else if pc_per_kilometer_amount config < 0
      then Inl (Failure ''per-kilometer fare cannot be negative'')
      else if pc_per_minute_amount config < 0
      then Inl (Failure ''per-minute fare cannot be negative'')
      else if pc_platform_commission_bps config < 0 \<or> pc_platform_commission_bps config > 10000
      then Inl (Failure ''platform commission must be between 0 and 10000 basis points'')
      else if f_lt (rp_minimum_rating_threshold rating) (Fin 0) \<or>
              f_lt (Fin 5) (rp_minimum_rating_threshold rating)
      then Inl (Failure ''minimum rating threshold must be between 0 and 5'')
      else if \<not> is_finite_positive (rp_high_rating_bonus_multiplier rating)
      then Inl (Failure ''high-rating bonus multiplier must be finite and greater than zero'')
      else if \<not> is_finite_positive (rp_low_rating_surge_penalty_multiplier rating)
      then Inl (Failure ''low-rating penalty multiplier must be finite and greater than zero'')
      else if \<not> is_finite_positive (rp_base_surge_cap rating)
      then Inl (Failure ''base surge cap must be finite and greater than zero'')
      else Inr ())"

text \<open>
  \<open>int64(total)\<close> truncates; a value that \<open>int64\<close> cannot hold becomes the smallest integer,
  as on amd64.
\<close>

definition int64_of_float :: "real \<Rightarrow> int" where
  "int64_of_float x =
     (let n = (if 0 \<le> x then \<lfloor>x\<rfloor> else \<lceil>x\<rceil>) in if int64_range n then n else - (2 ^ 63))"

definition fare_amount :: "pricing_config \<Rightarrow> gofloat \<Rightarrow> gofloat \<Rightarrow> int" where
  "fare_amount config distance_km duration_minutes =
     (if \<not> is_finite_non_negative distance_km \<or> \<not> is_finite_non_negative duration_minutes then 0
      else
        (let total = real_of_int (pc_base_fare_amount config) +
               fin_val distance_km * real_of_int (pc_per_kilometer_amount config) +
               fin_val duration_minutes * real_of_int (pc_per_minute_amount config);
             total = (if total < real_of_int (pc_base_fare_amount config)
                      then real_of_int (pc_base_fare_amount config) else total)
         in int64_of_float total))"

lemma fare_amount_floor:
  assumes "validate_pricing_config config = Inr ()" and "0 \<le> d" and "0 \<le> t"
  shows "fare_amount config (Fin d) (Fin t) =
    (let n = \<lfloor>real_of_int (pc_base_fare_amount config) + d * real_of_int (pc_per_kilometer_amount config)
              + t * real_of_int (pc_per_minute_amount config)\<rfloor>
     in if int64_range n then n else - (2 ^ 63))"
proof -
  from assms(1) have c: "0 < pc_base_fare_amount config" "0 \<le> pc_per_kilometer_amount config"
    "0 \<le> pc_per_minute_amount config"
    by (auto simp: validate_pricing_config_def Let_def split: if_splits)
  with assms have "0 \<le> d * real_of_int (pc_per_kilometer_amount config)"
    and "0 \<le> t * real_of_int (pc_per_minute_amount config)" by simp_all
  then have nn: "\<not> d * real_of_int (pc_per_kilometer_amount config) + t * real_of_int (pc_per_minute_amount config) < 0"
    by linarith
  from c show ?thesis using assms
    by (simp add: nn fare_amount_def int64_of_float_def is_finite_non_negative_def Let_def)
qed

text \<open>
  Under a configuration that validation accepts, the fare of a trip with finite metrics
  is never below the base fare and never falls when the trip gets longer, up to the range of
  \<open>int64\<close>; and metrics that are NaN, infinite or negative are priced at zero, which the
  bidding service refuses as an invalid trip.
\<close>

theorem fare_at_least_base_and_monotone:
  assumes "validate_pricing_config config = Inr ()"
    and "0 \<le> d" and "d \<le> d'" and "0 \<le> t" and "t \<le> t'"
    and "real_of_int (pc_base_fare_amount config) + d' * real_of_int (pc_per_kilometer_amount config)
           + t' * real_of_int (pc_per_minute_amount config) < 2 ^ 63"
  shows "pc_base_fare_amount config \<le> fare_amount config (Fin d) (Fin t) \<and>
         fare_amount config (Fin d) (Fin t) \<le> fare_amount config (Fin d') (Fin t') \<and>
         fare_amount config NaN (Fin t) = 0 \<and> fare_amount config (Fin (-1)) (Fin t) = 0"
proof -
  let ?f = "\<lambda>d t. real_of_int (pc_base_fare_amount config) +
    d * real_of_int (pc_per_kilometer_amount config) + t * real_of_int (pc_per_minute_amount config)"
  from assms(1) have c: "0 < pc_base_fare_amount config" "0 \<le> pc_per_kilometer_amount config"
    "0 \<le> pc_per_minute_amount config"
    by (auto simp: validate_pricing_config_def Let_def split: if_splits)
  have le: "?f d t \<le> ?f d' t'" using c assms by (intro add_mono mult_right_mono) simp_all
  have lo: "real_of_int (pc_base_fare_amount config) \<le> ?f d t" using c assms by simp
  have lo': "pc_base_fare_amount config \<le> \<lfloor>?f d t\<rfloor>" using lo by (simp only: le_floor_iff)
  have mono: "\<lfloor>?f d t\<rfloor> \<le> \<lfloor>?f d' t'\<rfloor>" using le by (rule floor_mono)
  have hi: "\<lfloor>?f d' t'\<rfloor> < 2 ^ 63" using assms(6) by (simp add: floor_less_iff)
  have "int64_range \<lfloor>?f d t\<rfloor>" "int64_range \<lfloor>?f d' t'\<rfloor>"
    unfolding int64_range_def using lo' mono hi c(1) by linarith+
  with fare_amount_floor [OF assms(1), of d t] fare_amount_floor [OF assms(1), of d' t'] assms lo' mono
  have "pc_base_fare_amount config \<le> fare_amount config (Fin d) (Fin t)"
    "fare_amount config (Fin d) (Fin t) \<le> fare_amount config (Fin d') (Fin t')"
    by (simp_all add: Let_def)
  then show ?thesis by (simp add: fare_amount_def is_finite_non_negative_def)
qed

definition example_pricing_config :: pricing_config where
  "example_pricing_config =
     \<lparr>pc_base_fare_amount = 4000, pc_per_kilometer_amount = 1500, pc_per_minute_amount = 200,
      pc_platform_commission_bps = 1500,
      pc_rating_pricing_config =
        \<lparr>rp_minimum_rating_threshold = Fin 4, rp_high_rating_bonus_multiplier = Fin 1,
         rp_low_rating_surge_penalty_multiplier = Fin 1, rp_base_surge_cap = Fin 2\<rparr>\<rparr>"

lemma example_pricing_config_valid: "validate_pricing_config example_pricing_config = Inr ()"
  by (simp add: validate_pricing_config_def example_pricing_config_def is_finite_positive_def)

theorem fare_at_least_base_and_monotone_witness:
  "4000 \<le> fare_amount example_pricing_config (Fin 1) (Fin 2) \<and>
   fare_amount example_pricing_config (Fin 1) (Fin 2) \<le> fare_amount example_pricing_config (Fin 3) (Fin 2)"
  using fare_at_least_base_and_monotone [OF example_pricing_config_valid, of 1 3 2 2]
  by (simp add: example_pricing_config_def)

end
