(* ===== verification/Domain.thy ===== *)
theory Domain
  imports Settlement Ride_Policy Geo
begin

text \<open>
  The domain values the modules exchange: \<open>domain.Ride\<close> (\<open>ride/domain/ride.go\<close>), the ride an
  accepted offer becomes (\<open>ride/domain/accepted_offer.go\<close>), the bid sessions and offers of
  dispatch (\<open>dispatch/domain/bidding.go\<close>, \<open>assignment.go\<close>), and the realtime events that the
  application services publish (\<open>platform/events\<close>). A Go pointer that may be nil and a
  \<open>time.Time\<close> that may be zero are options. The timestamps of \<open>domain.Ride\<close> are strings in
  the code, formatted by the repository with \<open>RFC3339Nano\<close> and parsed back by the lifecycle
  service; here they are the instants those strings denote.
\<close>

record ride =
  rd_id :: int
  rd_booking_reference :: string
  rd_passenger_id :: int
  rd_driver_id :: "int option"
  rd_status :: string
  rd_fare_amount :: int
  rd_pickup_latitude :: gofloat
  rd_pickup_longitude :: gofloat
  rd_pickup_name :: string
  rd_dropoff_latitude :: gofloat
  rd_dropoff_longitude :: gofloat
  rd_dropoff_name :: string
  rd_distance_km :: gofloat
  rd_duration_minutes :: gofloat
  rd_driver_name :: string
  rd_vehicle_type :: string
  rd_plate_number :: string
  rd_driver_rating :: gofloat
  rd_passenger_name :: string
  rd_passenger_phone :: string
  rd_passenger_rating :: gofloat
  rd_passenger_feedback :: string
  rd_created_at :: "int option"
  rd_completed_at :: "int option"
  rd_arrived_at :: "int option"
  rd_waiting_until :: "int option"
  rd_payment_status :: string
  rd_cash_received_amount :: int
  rd_cash_change_amount :: int
  rd_cash_outcome :: string
  rd_cash_settled :: bool
  rd_cancelled_by :: "int option"
  rd_cancellation_reason :: string
  rd_cancellation_responsibility :: string
  rd_cancellation_details :: string
  rd_commission_bps :: "int option"
  rd_commission_amount :: int
  rd_driver_payout_amount :: int

text \<open>The zero value \<open>domain.Ride{}\<close>, from which composite literals set some fields.\<close>

definition zero_ride :: ride where
  "zero_ride =
     \<lparr>rd_id = 0, rd_booking_reference = '''', rd_passenger_id = 0, rd_driver_id = None,
      rd_status = '''', rd_fare_amount = 0,
      rd_pickup_latitude = Fin 0, rd_pickup_longitude = Fin 0, rd_pickup_name = '''',
      rd_dropoff_latitude = Fin 0, rd_dropoff_longitude = Fin 0, rd_dropoff_name = '''',
      rd_distance_km = Fin 0, rd_duration_minutes = Fin 0,
      rd_driver_name = '''', rd_vehicle_type = '''', rd_plate_number = '''', rd_driver_rating = Fin 0,
      rd_passenger_name = '''', rd_passenger_phone = '''', rd_passenger_rating = Fin 0,
      rd_passenger_feedback = '''',
      rd_created_at = None, rd_completed_at = None, rd_arrived_at = None, rd_waiting_until = None,
      rd_payment_status = '''', rd_cash_received_amount = 0, rd_cash_change_amount = 0,
      rd_cash_outcome = '''', rd_cash_settled = False,
      rd_cancelled_by = None, rd_cancellation_reason = '''', rd_cancellation_responsibility = '''',
      rd_cancellation_details = '''',
      rd_commission_bps = None, rd_commission_amount = 0, rd_driver_payout_amount = 0\<rparr>"

section \<open>The ride an accepted offer becomes\<close>

record driver_assignment_snapshot =
  da_name :: string
  da_vehicle_type :: string
  da_plate_number :: string
  da_rating :: gofloat

definition new_accepted_ride ::
  "ride \<Rightarrow> driver_assignment_snapshot \<Rightarrow> int \<Rightarrow> err + ride" where
  "new_accepted_ride ride driver commission_bps =
     (if rd_passenger_id ride \<le> 0 \<or>
         (case rd_driver_id ride of None \<Rightarrow> True | Some d \<Rightarrow> d \<le> 0) \<or>
         rd_fare_amount ride \<le> 0
      then Inl ErrInvalidTrip
      else
        (case new_settlement_snapshot (rd_fare_amount ride) commission_bps of
           Inl e \<Rightarrow> Inl e
         | Inr settlement \<Rightarrow>
             Inr (ride\<lparr>rd_status := ''accepted'',
                       rd_driver_name := da_name driver,
                       rd_vehicle_type := da_vehicle_type driver,
                       rd_plate_number := da_plate_number driver,
                       rd_driver_rating := da_rating driver,
                       rd_commission_bps := Some (ss_commission_bps settlement),
                       rd_commission_amount := ss_commission_amount settlement,
                       rd_driver_payout_amount := ss_driver_payout_amount settlement\<rparr>)))"

lemma new_accepted_rideE:
  assumes "new_accepted_ride ride driver bps = Inr r"
  obtains d ss where "rd_driver_id ride = Some d" and "0 < d" and "0 < rd_passenger_id ride"
    and "0 < rd_fare_amount ride"
    and "new_settlement_snapshot (rd_fare_amount ride) bps = Inr ss"
    and "r = ride\<lparr>rd_status := ''accepted'', rd_driver_name := da_name driver,
        rd_vehicle_type := da_vehicle_type driver, rd_plate_number := da_plate_number driver,
        rd_driver_rating := da_rating driver,
        rd_commission_bps := Some (ss_commission_bps ss),
        rd_commission_amount := ss_commission_amount ss,
        rd_driver_payout_amount := ss_driver_payout_amount ss\<rparr>"
  using assms that
  by (fastforce simp: new_accepted_ride_def not_le split: if_splits option.splits sum.splits)

section \<open>Bid sessions, offers and assignments\<close>

record bid_offer =
  bo_id :: int
  bo_session_id :: int
  bo_driver_id :: int
  bo_driver_name :: string
  bo_plate_number :: string
  bo_vehicle_type :: string
  bo_proposed_fare_amount :: int
  bo_status :: string
  bo_created_at :: "int option"

record bid_session =
  bs_id :: int
  bs_booking_reference :: string
  bs_ride_id :: "int option"
  bs_passenger_id :: int
  bs_pickup_latitude :: gofloat
  bs_pickup_longitude :: gofloat
  bs_pickup_name :: string
  bs_dropoff_latitude :: gofloat
  bs_dropoff_longitude :: gofloat
  bs_dropoff_name :: string
  bs_passenger_note :: string
  bs_distance_km :: gofloat
  bs_duration_minutes :: gofloat
  bs_offered_fare_amount :: int
  bs_custom_fare_amount :: "int option"
  bs_status :: string
  bs_target_driver_id :: "int option"
  bs_accepted_driver_id :: "int option"
  bs_expires_at :: "int option"
  bs_created_at :: "int option"
  bs_offers :: "bid_offer list"

record bid_offer_withdrawal =
  bw_session :: bid_session
  bw_offer :: bid_offer

record assignment =
  as_ride_id :: string
  as_driver_id :: string
  as_passenger_id :: string
  as_status :: string
  as_contact_open :: bool

definition assignment_active :: "assignment \<Rightarrow> bool" where
  "assignment_active value \<longleftrightarrow>
     as_status value \<in> {''assigned'', ''accepted'', ''arrived'', ''in_transit''}"

definition allows_communication :: "assignment \<Rightarrow> bool" where
  "allows_communication value \<longleftrightarrow>
     assignment_active value \<or> (as_status value = ''completed'' \<and> as_contact_open value)"

section \<open>Realtime events\<close>

record scope =
  sc_ride_id :: string
  sc_room_id :: string
  sc_driver_id :: string
  sc_passenger_id :: string
  sc_driver_pool :: bool

definition zero_scope :: scope where
  "zero_scope = \<lparr>sc_ride_id = '''', sc_room_id = '''', sc_driver_id = '''', sc_passenger_id = '''',
                 sc_driver_pool = False\<rparr>"

text \<open>A \<open>map[string]any\<close> payload is the list of its entries.\<close>

datatype payload_value =
    PString string
  | PBool bool
  | PInt int
  | PRide ride
  | PSession bid_session
  | POffer bid_offer

record realtime_event =
  rt_type :: string
  rt_scope :: scope
  rt_payload :: "(string \<times> payload_value) list"

definition positive_identifier :: "int \<Rightarrow> string" where
  "positive_identifier value = (if value \<le> 0 then '''' else itoa value)"

end
