(* ===== verification/Commands.thy ===== *)
theory Commands
  imports Go_Errors
begin

text \<open>
  The commands of the model, over any state: a command reads the environment (the clocks, the
  next sequence values, the random identifiers, and which calls fail) and the state, and yields
  an error or a value, and the new state. The relational state of the rides (\<open>World\<close>) and the
  state of the accounts (\<open>Auth_State\<close>) are two instances. A \<open>transaction\<close> restores the state
  when its body or its commit fails.
\<close>

section \<open>Environment and commands\<close>

text \<open>
  \<open>env_now\<close> is \<open>time.Now()\<close> in the server, \<open>env_db_now\<close> the transaction's
  \<open>CURRENT_TIMESTAMP\<close>; \<open>env_nextval\<close> the next value of a table's sequence;
  \<open>env_booking_reference\<close> the reference \<open>allocate_booking_reference()\<close> settles on;
  \<open>env_request_id\<close> the sixteen random bytes of \<open>newAuditRequestID\<close> in hexadecimal; and
  \<open>env_fault\<close> tells which calls fail for a reason outside the program.
\<close>

record env =
  env_now :: int
  env_db_now :: int
  env_nextval :: "string \<Rightarrow> int"
  env_booking_reference :: string
  env_request_id :: string
  env_random :: "string \<Rightarrow> string"
  env_fault :: "string \<Rightarrow> bool"

type_synonym ('s, 'a) cmd = "env \<Rightarrow> 's \<Rightarrow> (err + 'a) \<times> 's"

definition io_return :: "'a \<Rightarrow> ('s, 'a) cmd" where
  "io_return x = (\<lambda>e w. (Inr x, w))"

definition io_throw :: "err \<Rightarrow> ('s, 'a) cmd" where
  "io_throw x = (\<lambda>e w. (Inl x, w))"

definition io_lift :: "err + 'a \<Rightarrow> ('s, 'a) cmd" where
  "io_lift r = (\<lambda>e w. (r, w))"

definition io_bind :: "('s, 'a) cmd \<Rightarrow> ('a \<Rightarrow> ('s, 'b) cmd) \<Rightarrow> ('s, 'b) cmd" where
  "io_bind m f = (\<lambda>e w. case m e w of (Inl x, w') \<Rightarrow> (Inl x, w') | (Inr x, w') \<Rightarrow> f x e w')"

text \<open>\<open>io_try\<close> hands the continuation the error as well, for code that inspects \<open>err\<close>.\<close>

definition io_try :: "('s, 'a) cmd \<Rightarrow> (err + 'a \<Rightarrow> ('s, 'b) cmd) \<Rightarrow> ('s, 'b) cmd" where
  "io_try m f = (\<lambda>e w. case m e w of (r, w') \<Rightarrow> f r e w')"

definition io_map_err :: "(err \<Rightarrow> err) \<Rightarrow> ('s, 'a) cmd \<Rightarrow> ('s, 'a) cmd" where
  "io_map_err g m = (\<lambda>e w. case m e w of (Inl x, w') \<Rightarrow> (Inl (g x), w') | (Inr x, w') \<Rightarrow> (Inr x, w'))"

definition io_env :: "(env \<Rightarrow> 'a) \<Rightarrow> ('s, 'a) cmd" where
  "io_env f = (\<lambda>e w. (Inr (f e), w))"

text \<open>\<open>Begin\<close>, the body, \<open>Commit\<close>; any failure rolls back.\<close>

definition transaction :: "('s, 'a) cmd \<Rightarrow> ('s, 'a) cmd" where
  "transaction body = (\<lambda>e w.
     if env_fault e ''begin'' then (Inl (Fault ''begin''), w)
     else (case body e w of
             (Inl x, _) \<Rightarrow> (Inl x, w)
           | (Inr x, w') \<Rightarrow>
               if env_fault e ''commit'' then (Inl (Fault ''commit''), w) else (Inr x, w')))"

text \<open>A statement, which the environment may make fail, under its name.\<close>

definition query :: "string \<Rightarrow> ('s, 'a) cmd \<Rightarrow> ('s, 'a) cmd" where
  "query name m = (\<lambda>e w. if env_fault e name then (Inl (Fault name), w) else m e w)"

definition select_value :: "string \<Rightarrow> ('s \<Rightarrow> 'a) \<Rightarrow> ('s, 'a) cmd" where
  "select_value name f = query name (\<lambda>e w. (Inr (f w), w))"

definition select_one :: "string \<Rightarrow> ('s \<Rightarrow> 'a option) \<Rightarrow> ('s, 'a) cmd" where
  "select_one name f = query name (\<lambda>e w.
     case f w of None \<Rightarrow> (Inl NoRows, w) | Some r \<Rightarrow> (Inr r, w))"

section \<open>Constraints\<close>

definition check_violation :: "string \<Rightarrow> err" where
  "check_violation name = PgError ''23514'' name"

definition fk_violation :: "string \<Rightarrow> err" where
  "fk_violation name = PgError ''23503'' name"

definition unique_violation :: "string \<Rightarrow> err" where
  "unique_violation name = PgError ''23505'' name"

text \<open>The first constraint, in the given order, that does not hold.\<close>

fun first_violation :: "(bool \<times> err) list \<Rightarrow> err option" where
  "first_violation [] = None"
| "first_violation ((ok, e) # cs) = (if ok then first_violation cs else Some e)"

lemma first_violation_None: "first_violation cs = None \<longleftrightarrow> list_all fst cs"
  by (induction cs rule: first_violation.induct) auto

section \<open>Statements that change a table\<close>

text \<open>
  \<open>UPDATE ... WHERE ... RETURNING\<close> of at most one row, and \<open>INSERT ... RETURNING\<close>. The row type
  comes with its accessors and its constraints, so that every table shares these definitions.
\<close>

definition update_one ::
  "string \<Rightarrow> ('s \<Rightarrow> 'r list) \<Rightarrow> ('r list \<Rightarrow> 's \<Rightarrow> 's) \<Rightarrow> ('s \<Rightarrow> 'r \<Rightarrow> err option) \<Rightarrow>
   (env \<Rightarrow> 'r \<Rightarrow> bool) \<Rightarrow> (env \<Rightarrow> 'r \<Rightarrow> 'r) \<Rightarrow> ('s, 'r) cmd" where
  "update_one name get put violation p f = query name (\<lambda>e w.
     case List.find (p e) (get w) of
       None \<Rightarrow> (Inl NoRows, w)
     | Some r \<Rightarrow>
         (case violation w (f e r) of
            Some x \<Rightarrow> (Inl x, w)
          | None \<Rightarrow> (Inr (f e r), put (upd_where (p e) (f e) (get w)) w)))"

definition insert_one ::
  "string \<Rightarrow> string \<Rightarrow> ('s \<Rightarrow> 'r list) \<Rightarrow> ('r list \<Rightarrow> 's \<Rightarrow> 's) \<Rightarrow> ('r \<Rightarrow> int) \<Rightarrow>
   ('s \<Rightarrow> 'r \<Rightarrow> err option) \<Rightarrow> (env \<Rightarrow> 'r) \<Rightarrow> ('s, 'r) cmd" where
  "insert_one name table get put key violation row = query name (\<lambda>e w.
     if exists_where (\<lambda>q. key q = key (row e)) (get w)
     then (Inl (unique_violation (table @ ''_pkey'')), w)
     else (case violation w (row e) of
             Some x \<Rightarrow> (Inl x, w)
           | None \<Rightarrow> (Inr (row e), put (get w @ [row e]) w)))"

text \<open>An \<open>UPDATE\<close> of every row that satisfies the condition; its value is \<open>RowsAffected()\<close>.\<close>

definition update_rows ::
  "string \<Rightarrow> ('s \<Rightarrow> 'r list) \<Rightarrow> ('r list \<Rightarrow> 's \<Rightarrow> 's) \<Rightarrow> ('s \<Rightarrow> 'r \<Rightarrow> err option) \<Rightarrow>
   (env \<Rightarrow> 'r \<Rightarrow> bool) \<Rightarrow> (env \<Rightarrow> 'r \<Rightarrow> 'r) \<Rightarrow> ('s, int) cmd" where
  "update_rows name get put violation p f = query name (\<lambda>e w.
     case List.find (\<lambda>r. p e r \<and> violation w (f e r) \<noteq> None) (get w) of
       Some r \<Rightarrow> (Inl (the (violation w (f e r))), w)
     | None \<Rightarrow> (Inr (int (count_where (p e) (get w))), put (upd_where (p e) (f e) (get w)) w))"

section \<open>Reasoning\<close>

named_theorems io_simps \<open>how a command can succeed or fail\<close>

lemma io_return_eq [io_simps]: "io_return x e w = (r, w') \<longleftrightarrow> r = Inr x \<and> w' = w"
  by (auto simp: io_return_def)

lemma io_throw_eq [io_simps]: "io_throw x e w = (r, w') \<longleftrightarrow> r = Inl x \<and> w' = w"
  by (auto simp: io_throw_def)

lemma io_lift_eq [io_simps]: "io_lift s e w = (r, w') \<longleftrightarrow> s = r \<and> w' = w"
  by (auto simp: io_lift_def)

lemma io_env_eq [io_simps]: "io_env f e w = (r, w') \<longleftrightarrow> r = Inr (f e) \<and> w' = w"
  by (auto simp: io_env_def)

lemma io_bind_Inr [io_simps]:
  "io_bind m f e w = (Inr y, w') \<longleftrightarrow> (\<exists>x v. m e w = (Inr x, v) \<and> f x e v = (Inr y, w'))"
  by (auto simp: io_bind_def split: prod.splits sum.splits)

lemma io_bind_Inl:
  "io_bind m f e w = (Inl y, w') \<longleftrightarrow>
     m e w = (Inl y, w') \<or> (\<exists>x v. m e w = (Inr x, v) \<and> f x e v = (Inl y, w'))"
  by (auto simp: io_bind_def split: prod.splits sum.splits)

lemma io_bind_assoc: "io_bind (io_bind m f) g = io_bind m (\<lambda>x. io_bind (f x) g)"
  by (auto simp: io_bind_def fun_eq_iff split: prod.splits sum.splits)

lemma io_bind_return_left: "io_bind (io_return x) f = f x"
  by (simp add: io_bind_def io_return_def)

lemma io_try_eq [io_simps]:
  "io_try m f e w = (r, w') \<longleftrightarrow> (\<exists>s v. m e w = (s, v) \<and> f s e v = (r, w'))"
  by (auto simp: io_try_def split: prod.splits)

lemma io_map_err_Inr [io_simps]: "io_map_err g m e w = (Inr y, w') \<longleftrightarrow> m e w = (Inr y, w')"
  by (auto simp: io_map_err_def split: prod.splits sum.splits)

lemma io_map_err_Inl:
  "io_map_err g m e w = (Inl y, w') \<longleftrightarrow> (\<exists>x. y = g x \<and> m e w = (Inl x, w'))"
  by (auto simp: io_map_err_def split: prod.splits sum.splits)

lemma transaction_Inr [io_simps]:
  "transaction b e w = (Inr y, w') \<longleftrightarrow>
     \<not> env_fault e ''begin'' \<and> \<not> env_fault e ''commit'' \<and> b e w = (Inr y, w')"
  by (auto simp: transaction_def split: prod.splits sum.splits if_splits)

lemma transaction_Inl: "transaction b e w = (Inl y, w') \<Longrightarrow> w' = w"
  by (auto simp: transaction_def split: prod.splits sum.splits if_splits)

lemma query_Inr [io_simps]:
  "query n m e w = (Inr y, w') \<longleftrightarrow> \<not> env_fault e n \<and> m e w = (Inr y, w')"
  by (auto simp: query_def)

lemma select_value_Inr [io_simps]:
  "select_value n f e w = (Inr y, w') \<longleftrightarrow> \<not> env_fault e n \<and> y = f w \<and> w' = w"
  by (auto simp: select_value_def query_def)

lemma select_one_Inr [io_simps]:
  "select_one n f e w = (Inr y, w') \<longleftrightarrow> \<not> env_fault e n \<and> f w = Some y \<and> w' = w"
  by (auto simp: select_one_def query_def split: option.splits)

lemma update_one_Inr [io_simps]:
  "update_one n get put vio p f e w = (Inr y, w') \<longleftrightarrow>
     \<not> env_fault e n \<and>
     (\<exists>r. List.find (p e) (get w) = Some r \<and> vio w (f e r) = None \<and> y = f e r \<and>
       w' = put (upd_where (p e) (f e) (get w)) w)"
  by (auto simp: update_one_def query_def split: option.splits)

lemma insert_one_Inr [io_simps]:
  "insert_one n t get put key vio row e w = (Inr y, w') \<longleftrightarrow>
     \<not> env_fault e n \<and> \<not> exists_where (\<lambda>q. key q = key (row e)) (get w) \<and>
     vio w (row e) = None \<and> y = row e \<and> w' = put (get w @ [row e]) w"
  by (auto simp: insert_one_def query_def split: option.splits)

lemma update_rows_Inr [io_simps]:
  "update_rows n get put vio p f e w = (Inr k, w') \<longleftrightarrow>
     \<not> env_fault e n \<and> List.find (\<lambda>r. p e r \<and> vio w (f e r) \<noteq> None) (get w) = None \<and>
     k = int (count_where (p e) (get w)) \<and> w' = put (upd_where (p e) (f e) (get w)) w"
  by (auto simp: update_rows_def query_def split: option.splits)

lemma update_rows_cases:
  assumes "update_rows n get put vio p f e w = (r, w')"
  shows "w' = w \<or> w' = put (upd_where (p e) (f e) (get w)) w"
  using assms by (auto simp: update_rows_def query_def split: option.splits if_splits)

lemma select_one_fault: "env_fault e n \<Longrightarrow> select_one n f e w = (Inl (Fault n), w)"
  by (simp add: select_one_def query_def)

lemma select_one_ok:
  "\<not> env_fault e n \<Longrightarrow>
     select_one n f e w = (case f w of None \<Rightarrow> (Inl NoRows, w) | Some r \<Rightarrow> (Inr r, w))"
  by (simp add: select_one_def query_def)

lemma io_try_apply: "io_try m f e w = f (fst (m e w)) e (snd (m e w))"
  by (simp add: io_try_def split: prod.splits)

text \<open>Commands that change nothing when they fail, and commands that change nothing.\<close>

definition atomic :: "('s, 'a) cmd \<Rightarrow> bool" where
  "atomic m \<longleftrightarrow> (\<forall>e w x w'. m e w = (Inl x, w') \<longrightarrow> w' = w)"

definition read_only :: "('s, 'a) cmd \<Rightarrow> bool" where
  "read_only m \<longleftrightarrow> (\<forall>e w. snd (m e w) = w)"

lemma atomicD: "atomic m \<Longrightarrow> m e w = (Inl x, w') \<Longrightarrow> w' = w"
  by (auto simp: atomic_def)

lemma read_onlyD: "read_only m \<Longrightarrow> m e w = (r, w') \<Longrightarrow> w' = w"
  by (metis read_only_def snd_conv)

lemma read_onlyI: "(\<And>e w r w'. m e w = (r, w') \<Longrightarrow> w' = w) \<Longrightarrow> read_only m"
  by (metis read_only_def surjective_pairing)

named_theorems io_class \<open>atomic and read-only commands\<close>

lemma atomic_transaction [io_class]: "atomic (transaction b)"
  by (auto simp: atomic_def dest: transaction_Inl)

lemma atomic_update_rows [io_class]: "atomic (update_rows n get put vio p f)"
  by (auto simp: atomic_def update_rows_def query_def split: if_splits option.splits)

lemma atomic_map_err [io_class]: "atomic m \<Longrightarrow> atomic (io_map_err g m)"
  by (auto simp: atomic_def io_map_err_Inl)

lemma atomic_throw [io_class]: "atomic (io_throw x)"
  by (auto simp: atomic_def io_simps)

lemma atomic_return [io_class]: "atomic (io_return x)"
  by (auto simp: atomic_def io_simps)

lemma atomic_read_only: "read_only m \<Longrightarrow> atomic m"
  by (auto simp: atomic_def dest: read_onlyD)

lemma atomic_bind_read_only: "read_only m \<Longrightarrow> (\<And>x. atomic (f x)) \<Longrightarrow> atomic (io_bind m f)"
  unfolding atomic_def io_bind_Inl by (blast dest: read_onlyD)

lemma atomic_bind_return: "atomic m \<Longrightarrow> (\<And>x. g x = io_return (h x)) \<Longrightarrow> atomic (io_bind m g)"
  unfolding atomic_def io_bind_Inl by (auto simp: io_simps)

lemma atomic_update_one [io_class]: "atomic (update_one n get put vio p f)"
  by (auto simp: atomic_def update_one_def query_def split: if_splits option.splits)

lemma atomic_insert_one [io_class]: "atomic (insert_one n t get put key vio row)"
  by (auto simp: atomic_def insert_one_def query_def split: if_splits option.splits)

lemma read_only_return [io_class]: "read_only (io_return x)"
  by (auto simp: read_only_def io_return_def)

lemma read_only_throw [io_class]: "read_only (io_throw x)"
  by (auto simp: read_only_def io_throw_def)

lemma read_only_lift [io_class]: "read_only (io_lift x)"
  by (auto simp: read_only_def io_lift_def)

lemma read_only_env [io_class]: "read_only (io_env f)"
  by (auto simp: read_only_def io_env_def)

lemma read_only_select_value [io_class]: "read_only (select_value n f)"
  by (auto simp: read_only_def select_value_def query_def)

lemma read_only_select_one [io_class]: "read_only (select_one n f)"
  by (auto simp: read_only_def select_one_def query_def split: option.splits)

lemma read_only_map_err [io_class]:
  assumes "read_only m"
  shows "read_only (io_map_err g m)"
proof (rule read_onlyI)
  fix e w r w' assume "io_map_err g m e w = (r, w')"
  then obtain s where "m e w = (s, w')"
    by (auto simp: io_map_err_def split: prod.splits sum.splits)
  then show "w' = w" by (rule read_onlyD [OF assms])
qed

lemma read_only_bind:
  assumes "read_only m" and "\<And>x. read_only (f x)"
  shows "read_only (io_bind m f)"
proof (rule read_onlyI)
  fix e w r w' assume "io_bind m f e w = (r, w')"
  then show "w' = w"
    using read_onlyD [OF assms(1), of e w] read_onlyD [OF assms(2)]
    by (auto simp: io_bind_def split: prod.splits sum.splits)
qed

lemma read_only_try:
  assumes "read_only m" and "\<And>x. read_only (f x)"
  shows "read_only (io_try m f)"
proof (rule read_onlyI)
  fix e w r w' assume "io_try m f e w = (r, w')"
  then show "w' = w"
    using read_onlyD [OF assms(1), of e w] read_onlyD [OF assms(2)] by (auto simp: io_simps)
qed

end
