(* ===== verification/World.thy ===== *)
theory World
  imports Domain Commands
begin

text \<open>
  The state the server keeps: the PostgreSQL tables of \<open>db/schema\<close> that the ride, dispatch and
  settlement modules use, as lists of rows, with the row types of \<open>sqlc/models.go\<close>, and the
  realtime events handed to the event publisher. A command is a function of type \<open>io\<close>: it reads
  the environment (the clocks, the next sequence values, the random identifiers, and which
  calls fail) and the world, and yields an error or a value, and the new world. A
  \<open>transaction\<close> restores the world when its body or its commit fails. The CHECK constraints,
  foreign keys and unique indexes of the schema are functions here, so that a statement the
  database refuses is an error of the model.
\<close>

section \<open>Rows\<close>

record user_row =
  u_id :: int
  u_name :: "string option"
  u_phone :: string
  u_email :: string
  u_password_hash :: string
  u_role :: string
  u_is_verified :: bool
  u_account_status :: string
  u_created_at :: "int option"
  u_updated_at :: "int option"

record driver_profile_row =
  dp_id :: int
  dp_user_id :: int
  dp_name :: string
  dp_vehicle_type :: string
  dp_plate_number :: string
  dp_rating :: gofloat
  dp_is_online :: bool
  dp_online_last_seen_at :: "int option"
  dp_created_at :: "int option"
  dp_updated_at :: "int option"

record ride_row =
  r_id :: int
  r_booking_reference :: string
  r_passenger_id :: int
  r_driver_id :: "int option"
  r_status :: string
  r_fare_amount :: int
  r_ride_type :: string
  r_pickup_latitude :: "gofloat option"
  r_pickup_longitude :: "gofloat option"
  r_pickup_name :: "string option"
  r_dropoff_latitude :: "gofloat option"
  r_dropoff_longitude :: "gofloat option"
  r_dropoff_name :: "string option"
  r_distance_km :: "gofloat option"
  r_duration_minutes :: "gofloat option"
  r_driver_name :: "string option"
  r_vehicle_type :: "string option"
  r_plate_number :: "string option"
  r_driver_rating :: "gofloat option"
  r_created_at :: "int option"
  r_completed_at :: "int option"
  r_arrived_at :: "int option"
  r_waiting_until :: "int option"
  r_cancelled_by :: "int option"
  r_cancellation_reason :: string
  r_cancellation_responsibility :: string
  r_cancellation_details :: string
  r_bid_session_id :: "int option"

record settlement_row =
  st_id :: int
  st_ride_id :: int
  st_gross_fare :: int
  st_commission_bps :: "int option"
  st_commission_amount :: int
  st_driver_payout_amount :: int
  st_payment_status :: string
  st_cash_received_at :: "int option"
  st_cash_received_amount :: int
  st_cash_change_amount :: int
  st_cash_outcome :: string
  st_settled_at :: "int option"
  st_created_at :: "int option"
  st_updated_at :: "int option"

record wallet_account_row =
  wa_id :: int
  wa_driver_id :: int
  wa_balance :: int
  wa_version :: int
  wa_created_at :: "int option"
  wa_updated_at :: "int option"

record wallet_ledger_row =
  wl_id :: int
  wl_driver_id :: int
  wl_ride_id :: int
  wl_amount :: int
  wl_commission_amount :: int
  wl_kind :: string
  wl_idempotency_key :: string
  wl_created_at :: "int option"

record ride_event_row =
  re_id :: int
  re_ride_id :: int
  re_actor_id :: int
  re_event_type :: string
  re_from_status :: string
  re_to_status :: string
  re_reason :: string
  re_responsibility :: string
  re_details :: string
  re_request_id :: string
  re_created_at :: "int option"

record audit_event_row =
  ae_id :: int
  ae_actor_id :: int
  ae_action :: string
  ae_target_type :: string
  ae_target_id :: "string option"
  ae_outcome :: string
  ae_request_id :: string
  ae_created_at :: "int option"

record bid_session_row =
  s_id :: int
  s_booking_reference :: string
  s_passenger_id :: int
  s_ride_type :: string
  s_pickup_latitude :: gofloat
  s_pickup_longitude :: gofloat
  s_pickup_name :: string
  s_dropoff_latitude :: gofloat
  s_dropoff_longitude :: gofloat
  s_dropoff_name :: string
  s_passenger_note :: "string option"
  s_distance_km :: gofloat
  s_duration_minutes :: gofloat
  s_offered_fare :: int
  s_status :: string
  s_target_driver_id :: "int option"
  s_accepted_driver_id :: "int option"
  s_expires_at :: "int option"
  s_created_at :: "int option"

record bid_offer_row =
  of_id :: int
  of_session_id :: int
  of_driver_id :: int
  of_driver_name :: "string option"
  of_plate_number :: "string option"
  of_vehicle_type :: "string option"
  of_proposed_fare :: int
  of_status :: string
  of_created_at :: "int option"

record review_row =
  rv_id :: int
  rv_ride_id :: "int option"
  rv_driver_id :: int
  rv_passenger_id :: int
  rv_passenger_name :: "string option"
  rv_rating :: gofloat
  rv_comment :: "string option"
  rv_created_at :: "int option"

record passenger_review_row =
  pv_id :: int
  pv_ride_id :: int
  pv_driver_id :: int
  pv_passenger_id :: int
  pv_rating :: gofloat
  pv_comment :: "string option"
  pv_created_at :: "int option"

record passenger_profile_row =
  pp_id :: int
  pp_user_id :: int
  pp_name :: string
  pp_address :: "string option"
  pp_gender :: string
  pp_avatar_storage_key :: "string option"
  pp_avatar_content_type :: "string option"
  pp_preferred_ride_type :: "string option"
  pp_created_at :: "int option"
  pp_updated_at :: "int option"

record ride_report_row =
  rt_id :: int
  rt_ride_id :: int
  rt_reporter_id :: int
  rt_reported_user_id :: int
  rt_reporter_role :: string
  rt_category :: string
  rt_severity :: string
  rt_description :: string
  rt_status :: string
  rt_created_at :: "int option"

record driver_document_row =
  dd_id :: int
  dd_driver_id :: int
  dd_document_type :: string
  dd_storage_key :: string
  dd_status :: string
  dd_content_type :: string
  dd_size_bytes :: int
  dd_checksum_sha256 :: string
  dd_created_at :: "int option"
  dd_reviewed_at :: "int option"
  dd_reviewed_by :: "int option"

record notification_row =
  n_id :: int
  n_user_id :: int
  n_type :: string
  n_title :: string
  n_body :: string
  n_is_read :: bool
  n_created_at :: "int option"

record world =
  w_users :: "user_row list"
  w_driver_profiles :: "driver_profile_row list"
  w_rides :: "ride_row list"
  w_settlements :: "settlement_row list"
  w_accounts :: "wallet_account_row list"
  w_ledgers :: "wallet_ledger_row list"
  w_events :: "ride_event_row list"
  w_audits :: "audit_event_row list"
  w_sessions :: "bid_session_row list"
  w_offers :: "bid_offer_row list"
  w_reviews :: "review_row list"
  w_passenger_reviews :: "passenger_review_row list"
  w_passenger_profiles :: "passenger_profile_row list"
  w_ride_reports :: "ride_report_row list"
  w_driver_documents :: "driver_document_row list"
  w_notifications :: "notification_row list"
  w_booking_references :: "string list"
  w_published :: "realtime_event list"

definition empty_world :: world where
  "empty_world =
     \<lparr>w_users = [], w_driver_profiles = [], w_rides = [], w_settlements = [], w_accounts = [],
      w_ledgers = [], w_events = [], w_audits = [], w_sessions = [], w_offers = [],
      w_reviews = [], w_passenger_reviews = [], w_passenger_profiles = [], w_ride_reports = [],
      w_driver_documents = [], w_notifications = [], w_booking_references = [], w_published = []\<rparr>"

text \<open>The commands over these tables.\<close>

type_synonym 'a io = "(world, 'a) cmd"

section \<open>Integrity constraints\<close>

text \<open>PostgreSQL orders NaN above every other float and equal to itself.\<close>

definition sql_le :: "gofloat \<Rightarrow> gofloat \<Rightarrow> bool" where
  "sql_le x y \<longleftrightarrow> y = NaN \<or> (x \<noteq> NaN \<and> f_le x y)"

definition sql_between :: "gofloat \<Rightarrow> gofloat \<Rightarrow> gofloat \<Rightarrow> bool" where
  "sql_between lo x hi \<longleftrightarrow> sql_le lo x \<and> sql_le x hi"

text \<open>A CHECK is satisfied by NULL.\<close>

fun null_or :: "('a \<Rightarrow> bool) \<Rightarrow> 'a option \<Rightarrow> bool" where
  "null_or p None = True"
| "null_or p (Some x) = p x"

definition user_exists :: "world \<Rightarrow> int \<Rightarrow> bool" where
  "user_exists w i = exists_where (\<lambda>u. u_id u = i) (w_users w)"

definition passenger_active_statuses :: "string list" where
  "passenger_active_statuses = [''requested'', ''assigned'', ''accepted'', ''arrived'', ''in_transit'']"

definition driver_active_statuses :: "string list" where
  "driver_active_statuses = [''assigned'', ''accepted'', ''arrived'', ''in_transit'']"

definition responsibilities :: "string list" where
  "responsibilities = ['''', ''passenger_fault'', ''driver_fault'', ''system_fault'', ''no_fault'',
     ''safety_related'', ''pending_review'', ''admin_override'']"

text \<open>\<open>db/schema/rides.sql\<close>: the constraints a new or changed row meets.\<close>

definition ride_violation :: "world \<Rightarrow> ride_row \<Rightarrow> err option" where
  "ride_violation w r =
     (let others = filter (\<lambda>q. r_id q \<noteq> r_id r) (w_rides w) in
      first_violation
       [(r_status r \<in> set passenger_active_statuses \<or> r_status r \<in> {''completed'', ''cancelled''},
          check_violation ''rides_status_check''),
        (r_status r \<in> {''requested'', ''cancelled''} \<or>
           (case r_driver_id r of None \<Rightarrow> False | Some d \<Rightarrow> d > 0),
          check_violation ''rides_driver_assignment_check''),
        (0 \<le> r_fare_amount r, check_violation ''rides_money_check''),
        (r_cancellation_responsibility r \<in> set responsibilities,
          check_violation ''rides_cancellation_responsibility_check''),
        (null_or (sql_le (Fin 0)) (r_distance_km r) \<and> null_or (sql_le (Fin 0)) (r_duration_minutes r),
          check_violation ''rides_route_metrics_check''),
        (null_or (\<lambda>x. sql_between (Fin (-90)) x (Fin 90)) (r_pickup_latitude r) \<and>
         null_or (\<lambda>x. sql_between (Fin (-180)) x (Fin 180)) (r_pickup_longitude r) \<and>
         null_or (\<lambda>x. sql_between (Fin (-90)) x (Fin 90)) (r_dropoff_latitude r) \<and>
         null_or (\<lambda>x. sql_between (Fin (-180)) x (Fin 180)) (r_dropoff_longitude r),
          check_violation ''rides_coordinates_check''),
        (r_pickup_latitude r = None \<or> r_pickup_longitude r = None \<or>
         r_dropoff_latitude r = None \<or> r_dropoff_longitude r = None \<or>
         r_pickup_latitude r \<noteq> r_dropoff_latitude r \<or> r_pickup_longitude r \<noteq> r_dropoff_longitude r,
          check_violation ''rides_pickup_dropoff_different_check''),
        (\<not> exists_where (\<lambda>q. r_booking_reference q = r_booking_reference r) others,
          unique_violation ''rides_booking_reference_key''),
        (r_status r \<notin> set passenger_active_statuses \<or>
         \<not> exists_where (\<lambda>q. r_passenger_id q = r_passenger_id r \<and>
               r_status q \<in> set passenger_active_statuses) others,
          unique_violation ''ride_passenger_id''),
        (r_bid_session_id r = None \<or>
         \<not> exists_where (\<lambda>q. r_bid_session_id q = r_bid_session_id r) others,
          unique_violation ''rides_bid_session_id_idx''),
        (r_booking_reference r \<in> set (w_booking_references w),
          fk_violation ''rides_booking_reference_fkey''),
        (null_or (\<lambda>i. exists_where (\<lambda>s. s_id s = i \<and> s_booking_reference s = r_booking_reference r)
            (w_sessions w)) (r_bid_session_id r),
          fk_violation ''rides_session_booking_reference_fkey''),
        (user_exists w (r_passenger_id r), fk_violation ''rides_passenger_fk''),
        (null_or (user_exists w) (r_driver_id r), fk_violation ''rides_driver_fk''),
        (null_or (user_exists w) (r_cancelled_by r), fk_violation ''rides_cancelled_by_fkey'')])"

text \<open>\<open>db/schema/ride_settlements.sql\<close>.\<close>

definition settlement_violation :: "world \<Rightarrow> settlement_row \<Rightarrow> err option" where
  "settlement_violation w s =
     first_violation
       [(0 \<le> st_gross_fare s \<and> 0 \<le> st_cash_received_amount s \<and> 0 \<le> st_cash_change_amount s \<and>
           st_cash_change_amount s \<le> st_cash_received_amount s \<and> 0 \<le> st_commission_amount s \<and>
           0 \<le> st_driver_payout_amount s,
          check_violation ''ride_settlements_money_check''),
        (st_cash_outcome s \<in> {''paid'', ''partial'', ''refused'', ''unpaid'', ''disputed''},
          check_violation ''ride_settlements_cash_outcome_check''),
        (st_payment_status s \<in> {''unpaid'', ''paid''},
          check_violation ''ride_settlements_payment_status_check''),
        (null_or (\<lambda>b. 0 \<le> b \<and> b \<le> 10000) (st_commission_bps s),
          check_violation ''ride_settlements_commission_range_check''),
        ((st_payment_status s = ''paid'') = (st_cash_outcome s = ''paid''),
          check_violation ''ride_settlements_payment_outcome_check''),
        ((if st_cash_outcome s = ''paid'' then
            st_gross_fare s > 0 \<and> st_cash_received_amount s - st_cash_change_amount s = st_gross_fare s
          else if st_cash_outcome s = ''partial'' then
            st_cash_change_amount s = 0 \<and> st_cash_received_amount s > 0 \<and>
            st_cash_received_amount s < st_gross_fare s
          else if st_cash_outcome s = ''unpaid'' \<or> st_cash_outcome s = ''refused'' then
            st_cash_received_amount s = st_cash_change_amount s
          else True),
          check_violation ''ride_settlements_cash_collection_check''),
        (\<not> exists_where (\<lambda>q. st_ride_id q = st_ride_id s \<and> st_id q \<noteq> st_id s) (w_settlements w),
          unique_violation ''ridesettlement_ride_id''),
        (exists_where (\<lambda>r. r_id r = st_ride_id s) (w_rides w),
          fk_violation ''ride_settlements_ride_fk'')]"

text \<open>\<open>db/schema/users.sql\<close> and \<open>db/schema/profiles.sql\<close>, for the given tables.\<close>

definition users_violation :: "user_row list \<Rightarrow> user_row \<Rightarrow> err option" where
  "users_violation users u =
     (let others = filter (\<lambda>v. u_id v \<noteq> u_id u) users in
      first_violation
        [(u_role u \<in> {''passenger'', ''driver''}, check_violation ''users_role_check''),
         (u_account_status u \<in> {''active'', ''suspended''}, check_violation ''users_account_status_check''),
         (\<not> exists_where (\<lambda>v. u_phone v = u_phone u) others, unique_violation ''users_phone_key''),
         (\<not> exists_where (\<lambda>v. u_email v = u_email u) others, unique_violation ''users_email_key'')])"

definition driver_profiles_violation :: "user_row list \<Rightarrow> driver_profile_row list \<Rightarrow> driver_profile_row \<Rightarrow> err option" where
  "driver_profiles_violation users profiles p =
     first_violation
       [(sql_between (Fin 0) (dp_rating p) (Fin 5), check_violation ''driver_profiles_rating_check''),
        (\<not> exists_where (\<lambda>q. dp_id q \<noteq> dp_id p \<and> dp_user_id q = dp_user_id p) profiles,
          unique_violation ''driver_profiles_user_id_key''),
        (exists_where (\<lambda>u. u_id u = dp_user_id p) users, fk_violation ''driver_profiles_user_fk'')]"

definition passenger_profiles_violation :: "user_row list \<Rightarrow> passenger_profile_row list \<Rightarrow> passenger_profile_row \<Rightarrow> err option" where
  "passenger_profiles_violation users profiles p =
     first_violation
       [(pp_gender p \<in> {''Female'', ''Male'', ''Non-binary'', ''Prefer not to say''},
          check_violation ''passenger_profiles_gender_check''),
        (null_or (\<lambda>t. t \<in> {''image/jpeg'', ''image/png''}) (pp_avatar_content_type p),
          check_violation ''passenger_profiles_avatar_content_type_check''),
        (\<not> exists_where (\<lambda>q. pp_id q \<noteq> pp_id p \<and> pp_user_id q = pp_user_id p) profiles,
          unique_violation ''passenger_profiles_user_id_key''),
        (exists_where (\<lambda>u. u_id u = pp_user_id p) users, fk_violation ''passenger_profiles_user_fk'')]"

text \<open>\<open>db/schema/bid_sessions.sql\<close>.\<close>

definition session_violation :: "world \<Rightarrow> bid_session_row \<Rightarrow> err option" where
  "session_violation w s =
     (let others = filter (\<lambda>q. s_id q \<noteq> s_id s) (w_sessions w) in
      first_violation
       [(s_status s \<in> {''open'', ''accepted'', ''cancelled'', ''expired'', ''declined''},
          check_violation ''bid_sessions_status_check''),
        (0 \<le> s_offered_fare s, check_violation ''bid_sessions_offer_check''),
        (sql_le (Fin 0) (s_distance_km s) \<and> sql_le (Fin 0) (s_duration_minutes s),
          check_violation ''bid_sessions_route_metrics_check''),
        (sql_between (Fin (-90)) (s_pickup_latitude s) (Fin 90) \<and>
         sql_between (Fin (-180)) (s_pickup_longitude s) (Fin 180) \<and>
         sql_between (Fin (-90)) (s_dropoff_latitude s) (Fin 90) \<and>
         sql_between (Fin (-180)) (s_dropoff_longitude s) (Fin 180),
          check_violation ''bid_sessions_coordinates_check''),
        (s_pickup_latitude s \<noteq> s_dropoff_latitude s \<or> s_pickup_longitude s \<noteq> s_dropoff_longitude s,
          check_violation ''bid_sessions_pickup_dropoff_different_check''),
        (\<not> exists_where (\<lambda>q. s_booking_reference q = s_booking_reference s) others,
          unique_violation ''bid_sessions_booking_reference_key''),
        (s_status s \<noteq> ''open'' \<or>
         \<not> exists_where (\<lambda>q. s_passenger_id q = s_passenger_id s \<and> s_status q = ''open'') others,
          unique_violation ''bidsession_passenger_id''),
        (s_booking_reference s \<in> set (w_booking_references w),
          fk_violation ''bid_sessions_booking_reference_fkey''),
        (user_exists w (s_passenger_id s), fk_violation ''bid_sessions_passenger_fk''),
        (null_or (user_exists w) (s_target_driver_id s), fk_violation ''bid_sessions_target_driver_fk''),
        (null_or (user_exists w) (s_accepted_driver_id s), fk_violation ''bid_sessions_accepted_driver_fk'')])"

text \<open>\<open>db/schema/bid_offers.sql\<close>.\<close>

definition offer_violation :: "world \<Rightarrow> bid_offer_row \<Rightarrow> err option" where
  "offer_violation w b =
     first_violation
       [(of_status b \<in> {''pending'', ''accepted'', ''rejected''}, check_violation ''bid_offers_status_check''),
        (0 \<le> of_proposed_fare b, check_violation ''bid_offers_fare_check''),
        (of_status b \<noteq> ''pending'' \<or>
         \<not> exists_where (\<lambda>q. of_id q \<noteq> of_id b \<and> of_session_id q = of_session_id b \<and>
               of_driver_id q = of_driver_id b \<and> of_status q = ''pending'') (w_offers w),
          unique_violation ''bidoffer_session_id_driver_id''),
        (exists_where (\<lambda>s. s_id s = of_session_id b) (w_sessions w), fk_violation ''bid_offers_session_fk''),
        (user_exists w (of_driver_id b), fk_violation ''bid_offers_driver_fk'')]"

end
