(* ===== verification/Ride_Queries.thy ===== *)
theory Ride_Queries
  imports World
begin

text \<open>
  The SQL statements of the ride module (\<open>platform/database/sqlc\<close>: \<open>ride_lifecycle\<close>,
  \<open>ride_reads\<close>, \<open>ride_writes\<close>, \<open>ride_acceptance\<close>, \<open>ride_settlement\<close>, \<open>audit_events\<close>), one
  definition per query, under the query's name. A statement's \<open>WHERE\<close> clause is its row
  predicate, its \<open>SET\<close> clause its row update; a comparison with NULL is not true. A value of
  an \<open>int32\<close> or \<open>int64\<close> column is an integer.
\<close>

definition sql_eq :: "'a option \<Rightarrow> 'a option \<Rightarrow> bool" where
  "sql_eq x y \<longleftrightarrow> x \<noteq> None \<and> x = y"

definition coalesce :: "'a option \<Rightarrow> 'a option \<Rightarrow> 'a option" where
  "coalesce x y = (case x of None \<Rightarrow> y | Some _ \<Rightarrow> x)"

definition coalesce_to :: "'a option \<Rightarrow> 'a \<Rightarrow> 'a" where
  "coalesce_to x d = (case x of None \<Rightarrow> d | Some y \<Rightarrow> y)"

lemma sql_eq_Some [simp]: "sql_eq x (Some d) \<longleftrightarrow> x = Some d" "sql_eq (Some d) x \<longleftrightarrow> x = Some d"
  by (auto simp: sql_eq_def)

lemma coalesce_simps [simp]:
  "coalesce None y = y" "coalesce (Some z) y = Some z"
  "coalesce_to None d = d" "coalesce_to (Some z) d = z"
  by (simp_all add: coalesce_def coalesce_to_def)

definition update_ride :: "string \<Rightarrow> (env \<Rightarrow> ride_row \<Rightarrow> bool) \<Rightarrow> (env \<Rightarrow> ride_row \<Rightarrow> ride_row) \<Rightarrow> ride_row io" where
  "update_ride name = update_one name w_rides (\<lambda>x. w_rides_update (\<lambda>_. x)) ride_violation"

section \<open>Lifecycle (ride\_lifecycle.sql)\<close>

definition complete_ride :: "int \<Rightarrow> int option \<Rightarrow> ride_row io" where
  "complete_ride ride_id driver_id =
     update_ride ''CompleteRide''
       (\<lambda>e r. r_id r = ride_id \<and> sql_eq (r_driver_id r) driver_id \<and> r_status r = ''in_transit'')
       (\<lambda>e r. r\<lparr>r_status := ''completed'',
               r_completed_at := coalesce (r_completed_at r) (Some (env_db_now e))\<rparr>)"

definition start_ride :: "int \<Rightarrow> int option \<Rightarrow> ride_row io" where
  "start_ride ride_id driver_id =
     update_ride ''StartRide''
       (\<lambda>e r. r_id r = ride_id \<and> sql_eq (r_driver_id r) driver_id \<and> r_status r = ''arrived'')
       (\<lambda>e r. r\<lparr>r_status := ''in_transit''\<rparr>)"

definition mark_ride_arrived :: "int \<Rightarrow> int \<Rightarrow> int option \<Rightarrow> string \<Rightarrow> ride_row io" where
  "mark_ride_arrived wait_seconds ride_id driver_id current_status =
     update_ride ''MarkRideArrived''
       (\<lambda>e r. r_id r = ride_id \<and> sql_eq (r_driver_id r) driver_id \<and> r_status r = current_status \<and>
            current_status \<in> {''assigned'', ''accepted''})
       (\<lambda>e r. r\<lparr>r_status := ''arrived'',
               r_arrived_at := coalesce (r_arrived_at r) (Some (env_db_now e)),
               r_waiting_until := coalesce (r_waiting_until r)
                 (Some (env_db_now e + wait_seconds * second))\<rparr>)"

definition mark_ride_passenger_no_show :: "int option \<Rightarrow> int \<Rightarrow> ride_row io" where
  "mark_ride_passenger_no_show driver_id ride_id = 
     update_ride ''MarkRidePassengerNoShow''
       (\<lambda>e r. r_id r = ride_id \<and> sql_eq (r_driver_id r) driver_id \<and> r_status r = ''arrived'' \<and>
            (case r_waiting_until r of None \<Rightarrow> False | Some t \<Rightarrow> t \<le> env_db_now e))
       (\<lambda>e r. r\<lparr>r_status := ''cancelled'',
               r_completed_at := Some (env_db_now e),
               r_cancelled_by := driver_id,
               r_cancellation_reason := ''passenger_no_show'',
               r_cancellation_responsibility := ''passenger_fault'',
               r_cancellation_details := ''Driver completed the server-enforced pickup wait.'',
               r_arrived_at := coalesce (r_arrived_at r) (Some (env_db_now e)),
               r_waiting_until := coalesce (r_waiting_until r) (Some (env_db_now e))\<rparr>)"

definition update_ride_status ::
  "string \<Rightarrow> int option \<Rightarrow> string option \<Rightarrow> string option \<Rightarrow> string option \<Rightarrow> int option \<Rightarrow>
   int \<Rightarrow> string \<Rightarrow> int \<Rightarrow> ride_row io" where
  "update_ride_status next_status cancelled_by cancellation_reason cancellation_responsibility
     cancellation_details completed_at ride_id current_status actor_id =
     update_ride ''UpdateRideStatus''
       (\<lambda>e r. r_id r = ride_id \<and> r_status r = current_status \<and>
            (r_passenger_id r = actor_id \<or> r_driver_id r = Some actor_id))
       (\<lambda>e r. r\<lparr>r_status := next_status,
               r_cancelled_by := coalesce cancelled_by (r_cancelled_by r),
               r_cancellation_reason := coalesce_to cancellation_reason (r_cancellation_reason r),
               r_cancellation_responsibility :=
                 coalesce_to cancellation_responsibility (r_cancellation_responsibility r),
               r_cancellation_details := coalesce_to cancellation_details (r_cancellation_details r),
               r_completed_at := coalesce completed_at (r_completed_at r)\<rparr>)"

definition event_violation :: "world \<Rightarrow> ride_event_row \<Rightarrow> err option" where
  "event_violation w v =
     first_violation
       [(rune_count (re_details v) \<le> 500, check_violation ''ride_events_details_length_check''),
        (\<not> exists_where (\<lambda>q. re_request_id q = re_request_id v) (w_events w),
          unique_violation ''ride_events_request_id_key''),
        (exists_where (\<lambda>r. r_id r = re_ride_id v) (w_rides w), fk_violation ''ride_events_ride_id_fkey''),
        (user_exists w (re_actor_id v), fk_violation ''ride_events_actor_id_fkey'')]"

definition create_ride_event ::
  "int \<Rightarrow> int \<Rightarrow> string \<Rightarrow> string \<Rightarrow> string \<Rightarrow> string \<Rightarrow> string \<Rightarrow> string \<Rightarrow> string \<Rightarrow> ride_event_row io" where
  "create_ride_event ride_id actor_id event_type from_status to_status reason responsibility
     details request_id =
     insert_one ''CreateRideEvent'' ''ride_events'' w_events (\<lambda>x. w_events_update (\<lambda>_. x)) re_id
       event_violation
       (\<lambda>e. \<lparr>re_id = env_nextval e ''ride_events'', re_ride_id = ride_id, re_actor_id = actor_id,
             re_event_type = event_type, re_from_status = from_status, re_to_status = to_status,
             re_reason = reason, re_responsibility = responsibility, re_details = details,
             re_request_id = request_id, re_created_at = Some (env_db_now e)\<rparr>)"

section \<open>Audit (audit\_events.sql)\<close>

definition audit_violation :: "world \<Rightarrow> audit_event_row \<Rightarrow> err option" where
  "audit_violation w a =
     first_violation
       [(\<not> exists_where (\<lambda>q. ae_request_id q = ae_request_id a) (w_audits w),
          unique_violation ''audit_events_request_id_key''),
        (user_exists w (ae_actor_id a), fk_violation ''audit_events_actor_fk'')]"

definition create_audit_event ::
  "int \<Rightarrow> string \<Rightarrow> string \<Rightarrow> string option \<Rightarrow> string \<Rightarrow> string \<Rightarrow> audit_event_row io" where
  "create_audit_event actor_id action target_type target_id outcome request_id =
     insert_one ''CreateAuditEvent'' ''audit_events'' w_audits (\<lambda>x. w_audits_update (\<lambda>_. x)) ae_id
       audit_violation
       (\<lambda>e. \<lparr>ae_id = env_nextval e ''audit_events'', ae_actor_id = actor_id, ae_action = action,
             ae_target_type = target_type, ae_target_id = target_id, ae_outcome = outcome,
             ae_request_id = request_id, ae_created_at = Some (env_db_now e)\<rparr>)"

section \<open>Reads (ride\_reads.sql)\<close>

record ride_projection_row =
  gr_ride :: ride_row
  gr_payment_status :: string
  gr_cash_received_amount :: int
  gr_cash_change_amount :: int
  gr_cash_outcome :: string
  gr_commission_bps :: "int option"
  gr_commission_amount :: int
  gr_driver_payout_amount :: int

record get_ride_row = ride_projection_row +
  gr_cash_settled :: bool
  gr_driver_profile_name :: string
  gr_driver_profile_vehicle_type :: string
  gr_driver_profile_plate_number :: string

definition find_settlement :: "world \<Rightarrow> int \<Rightarrow> settlement_row option" where
  "find_settlement w i = List.find (\<lambda>s. st_ride_id s = i) (w_settlements w)"

definition find_profile :: "world \<Rightarrow> int option \<Rightarrow> driver_profile_row option" where
  "find_profile w d = List.find (\<lambda>p. sql_eq (Some (dp_user_id p)) d) (w_driver_profiles w)"

definition get_ride_by_id :: "int \<Rightarrow> get_ride_row io" where
  "get_ride_by_id i = select_one ''GetRideByID'' (\<lambda>w.
     case List.find (\<lambda>r. r_id r = i) (w_rides w) of
       None \<Rightarrow> None
     | Some r \<Rightarrow>
        (let s = find_settlement w (r_id r); p = find_profile w (r_driver_id r) in
         Some \<lparr>gr_ride = r,
               gr_payment_status = coalesce_to (map_option st_payment_status s) ''unpaid'',
               gr_cash_received_amount = coalesce_to (map_option st_cash_received_amount s) 0,
               gr_cash_change_amount = coalesce_to (map_option st_cash_change_amount s) 0,
               gr_cash_outcome = coalesce_to (map_option st_cash_outcome s) ''unpaid'',
               gr_commission_bps = Option.bind s st_commission_bps,
               gr_commission_amount = coalesce_to (map_option st_commission_amount s) 0,
               gr_driver_payout_amount = coalesce_to (map_option st_driver_payout_amount s) 0,
               gr_cash_settled = (Option.bind s st_settled_at \<noteq> None),
               gr_driver_profile_name = coalesce_to (map_option dp_name p) '''',
               gr_driver_profile_vehicle_type = coalesce_to (map_option dp_vehicle_type p) '''',
               gr_driver_profile_plate_number = coalesce_to (map_option dp_plate_number p) ''''\<rparr>))"

text \<open>The eight columns that \<open>ListActiveRidesForDriver\<close> and \<open>GetRideByBidSessionID\<close> select.\<close>

definition project_ride :: "world \<Rightarrow> ride_row \<Rightarrow> ride_projection_row" where
  "project_ride w r =
     (let s = find_settlement w (r_id r) in
      \<lparr>gr_ride = r,
       gr_payment_status = coalesce_to (map_option st_payment_status s) ''unpaid'',
       gr_cash_received_amount = coalesce_to (map_option st_cash_received_amount s) 0,
       gr_cash_change_amount = coalesce_to (map_option st_cash_change_amount s) 0,
       gr_cash_outcome = coalesce_to (map_option st_cash_outcome s) ''unpaid'',
       gr_commission_bps = Option.bind s st_commission_bps,
       gr_commission_amount = coalesce_to (map_option st_commission_amount s) 0,
       gr_driver_payout_amount = coalesce_to (map_option st_driver_payout_amount s) 0\<rparr>)"

definition driver_active_ride :: "int option \<Rightarrow> ride_row \<Rightarrow> bool" where
  "driver_active_ride d r \<longleftrightarrow> sql_eq (r_driver_id r) d \<and> r_status r \<in> set driver_active_statuses"

definition list_active_rides_for_driver :: "int option \<Rightarrow> ride_projection_row list io" where
  "list_active_rides_for_driver driver_id = select_value ''ListActiveRidesForDriver'' (\<lambda>w.
     map (project_ride w) (sort_key r_id (filter (driver_active_ride driver_id) (w_rides w))))"

definition get_ride_by_bid_session_id :: "int option \<Rightarrow> ride_projection_row io" where
  "get_ride_by_bid_session_id session_id = select_one ''GetRideByBidSessionID'' (\<lambda>w.
     map_option (project_ride w)
       (List.find (\<lambda>r. sql_eq (r_bid_session_id r) session_id) (w_rides w)))"

section \<open>Writes (ride\_writes.sql, ride\_acceptance.sql)\<close>

text \<open>\<open>allocate_booking_reference()\<close> reserves a reference no row has.\<close>

definition allocate_booking_reference :: "string io" where
  "allocate_booking_reference = (\<lambda>e w.
     if env_booking_reference e \<in> set (w_booking_references w)
     then (Inl (Fault ''allocate_booking_reference''), w)
     else (Inr (env_booking_reference e),
           w\<lparr>w_booking_references := w_booking_references w @ [env_booking_reference e]\<rparr>))"

definition insert_ride :: "string \<Rightarrow> (env \<Rightarrow> ride_row) \<Rightarrow> ride_row io" where
  "insert_ride name =
     insert_one name ''rides'' w_rides (\<lambda>x. w_rides_update (\<lambda>_. x)) r_id ride_violation"

definition create_ride ::
  "int \<Rightarrow> string \<Rightarrow> int \<Rightarrow> gofloat option \<Rightarrow> gofloat option \<Rightarrow> string option \<Rightarrow>
   gofloat option \<Rightarrow> gofloat option \<Rightarrow> string option \<Rightarrow> gofloat option \<Rightarrow> gofloat option \<Rightarrow> ride_row io" where
  "create_ride passenger_id status fare pickup_latitude pickup_longitude pickup_name
     dropoff_latitude dropoff_longitude dropoff_name distance_km duration_minutes =
     io_bind allocate_booking_reference (\<lambda>reference.
     insert_ride ''CreateRide''
       (\<lambda>e. \<lparr>r_id = env_nextval e ''rides'', r_booking_reference = reference,
             r_passenger_id = passenger_id, r_driver_id = None, r_status = status,
             r_fare_amount = fare, r_ride_type = ''Solo Ride'',
             r_pickup_latitude = pickup_latitude, r_pickup_longitude = pickup_longitude,
             r_pickup_name = pickup_name, r_dropoff_latitude = dropoff_latitude,
             r_dropoff_longitude = dropoff_longitude, r_dropoff_name = dropoff_name,
             r_distance_km = distance_km, r_duration_minutes = duration_minutes,
             r_driver_name = None, r_vehicle_type = None, r_plate_number = None,
             r_driver_rating = None, r_created_at = Some (env_db_now e), r_completed_at = None,
             r_arrived_at = None, r_waiting_until = None, r_cancelled_by = None,
             r_cancellation_reason = '''', r_cancellation_responsibility = '''',
             r_cancellation_details = '''', r_bid_session_id = None\<rparr>))"

definition lock_requested_ride_for_acceptance :: "int \<Rightarrow> ride_row io" where
  "lock_requested_ride_for_acceptance i = select_one ''LockRequestedRideForAcceptance'' (\<lambda>w.
     List.find (\<lambda>r. r_id r = i \<and> r_status r = ''requested'') (w_rides w))"

definition count_active_rides_for_acceptance :: "int option \<Rightarrow> nat io" where
  "count_active_rides_for_acceptance driver_id = select_value ''CountActiveRidesForAcceptance''
     (\<lambda>w. count_where (driver_active_ride driver_id) (w_rides w))"

definition assign_driver ::
  "string \<Rightarrow> int option \<Rightarrow> string option \<Rightarrow> string option \<Rightarrow> string option \<Rightarrow> gofloat option \<Rightarrow>
   ride_row \<Rightarrow> ride_row" where
  "assign_driver status driver_id driver_name vehicle_type plate_number driver_rating r =
     r\<lparr>r_status := status, r_driver_id := driver_id, r_driver_name := driver_name,
       r_vehicle_type := vehicle_type, r_plate_number := plate_number,
       r_driver_rating := driver_rating\<rparr>"

definition accept_ride_from_request ::
  "int \<Rightarrow> int option \<Rightarrow> string option \<Rightarrow> string option \<Rightarrow> string option \<Rightarrow> gofloat option \<Rightarrow> ride_row io" where
  "accept_ride_from_request i driver_id driver_name vehicle_type plate_number driver_rating =
     update_ride ''AcceptRideFromRequest''
       (\<lambda>e r. r_id r = i \<and> r_status r = ''requested'')
       (\<lambda>e. assign_driver ''accepted'' driver_id driver_name vehicle_type plate_number driver_rating)"

definition assign_ride_from_acceptance ::
  "int \<Rightarrow> int option \<Rightarrow> string option \<Rightarrow> string option \<Rightarrow> string option \<Rightarrow> gofloat option \<Rightarrow> ride_row io" where
  "assign_ride_from_acceptance i driver_id driver_name vehicle_type plate_number driver_rating =
     update_ride ''AssignRideFromAcceptance''
       (\<lambda>e r. r_id r = i \<and> r_status r = ''requested'')
       (\<lambda>e. assign_driver ''assigned'' driver_id driver_name vehicle_type plate_number driver_rating)"

text \<open>The accepted ride takes over the session's booking reference.\<close>

definition create_accepted_ride ::
  "int \<Rightarrow> int option \<Rightarrow> int \<Rightarrow> gofloat option \<Rightarrow> gofloat option \<Rightarrow> string option \<Rightarrow>
   gofloat option \<Rightarrow> gofloat option \<Rightarrow> string option \<Rightarrow> gofloat option \<Rightarrow> gofloat option \<Rightarrow>
   string option \<Rightarrow> string option \<Rightarrow> string option \<Rightarrow> gofloat option \<Rightarrow> int option \<Rightarrow> ride_row io" where
  "create_accepted_ride passenger_id driver_id fare pickup_latitude pickup_longitude
     pickup_name dropoff_latitude dropoff_longitude dropoff_name distance_km duration_minutes
     driver_name vehicle_type plate_number driver_rating bid_session_id =
     io_bind
       (\<lambda>e w. case List.find (\<lambda>s. sql_eq (Some (s_id s)) bid_session_id) (w_sessions w) of
                Some s \<Rightarrow> (Inr (s_booking_reference s), w)
              | None \<Rightarrow> allocate_booking_reference e w) (\<lambda>reference.
     insert_ride ''CreateAcceptedRide''
       (\<lambda>e. \<lparr>r_id = env_nextval e ''rides'', r_booking_reference = reference,
             r_passenger_id = passenger_id, r_driver_id = driver_id, r_status = ''accepted'',
             r_fare_amount = fare, r_ride_type = ''Solo Ride'',
             r_pickup_latitude = pickup_latitude, r_pickup_longitude = pickup_longitude,
             r_pickup_name = pickup_name, r_dropoff_latitude = dropoff_latitude,
             r_dropoff_longitude = dropoff_longitude, r_dropoff_name = dropoff_name,
             r_distance_km = distance_km, r_duration_minutes = duration_minutes,
             r_driver_name = driver_name, r_vehicle_type = vehicle_type,
             r_plate_number = plate_number, r_driver_rating = driver_rating,
             r_created_at = Some (env_db_now e), r_completed_at = None,
             r_arrived_at = None, r_waiting_until = None, r_cancelled_by = None,
             r_cancellation_reason = '''', r_cancellation_responsibility = '''',
             r_cancellation_details = '''', r_bid_session_id = bid_session_id\<rparr>))"

definition create_ride_settlement :: "int \<Rightarrow> int \<Rightarrow> int option \<Rightarrow> int \<Rightarrow> int \<Rightarrow> settlement_row io" where
  "create_ride_settlement ride_id gross_fare commission_bps commission_amount driver_payout_amount =
     insert_one ''CreateRideSettlement'' ''ride_settlements'' w_settlements
       (\<lambda>x. w_settlements_update (\<lambda>_. x)) st_id settlement_violation
       (\<lambda>e. \<lparr>st_id = env_nextval e ''ride_settlements'', st_ride_id = ride_id,
             st_gross_fare = gross_fare, st_commission_bps = commission_bps,
             st_commission_amount = commission_amount,
             st_driver_payout_amount = driver_payout_amount, st_payment_status = ''unpaid'',
             st_cash_received_at = None, st_cash_received_amount = 0, st_cash_change_amount = 0,
             st_cash_outcome = ''unpaid'', st_settled_at = None,
             st_created_at = Some (env_db_now e), st_updated_at = Some (env_db_now e)\<rparr>)"

section \<open>Settlement (ride\_settlement.sql)\<close>

definition update_settlement ::
  "string \<Rightarrow> (env \<Rightarrow> settlement_row \<Rightarrow> bool) \<Rightarrow> (env \<Rightarrow> settlement_row \<Rightarrow> settlement_row) \<Rightarrow> settlement_row io" where
  "update_settlement name =
     update_one name w_settlements (\<lambda>x. w_settlements_update (\<lambda>_. x)) settlement_violation"

definition lock_completed_ride_for_cash_settlement :: "int \<Rightarrow> int option \<Rightarrow> ride_row io" where
  "lock_completed_ride_for_cash_settlement i driver_id =
     select_one ''LockCompletedRideForCashSettlement'' (\<lambda>w.
       List.find (\<lambda>r. r_id r = i \<and> sql_eq (r_driver_id r) driver_id \<and> r_status r = ''completed'')
         (w_rides w))"

definition get_ride_settlement_by_ride_id :: "int \<Rightarrow> settlement_row io" where
  "get_ride_settlement_by_ride_id ride_id =
     select_one ''GetRideSettlementByRideID'' (\<lambda>w. find_settlement w ride_id)"

definition update_ride_settlement_economics :: "int option \<Rightarrow> int \<Rightarrow> int \<Rightarrow> int \<Rightarrow> settlement_row io" where
  "update_ride_settlement_economics commission_bps commission_amount driver_payout_amount settlement_id =
     update_settlement ''UpdateRideSettlementEconomics'' (\<lambda>e s. st_id s = settlement_id)
       (\<lambda>e s. s\<lparr>st_commission_bps := commission_bps, st_commission_amount := commission_amount,
               st_driver_payout_amount := driver_payout_amount,
               st_updated_at := Some (env_db_now e)\<rparr>)"

definition mark_ride_settlement_outcome ::
  "string \<Rightarrow> int option \<Rightarrow> int \<Rightarrow> int \<Rightarrow> string \<Rightarrow> int option \<Rightarrow> int option \<Rightarrow> int \<Rightarrow> int \<Rightarrow> int \<Rightarrow>
   settlement_row io" where
  "mark_ride_settlement_outcome payment_status cash_received_at received_amount
     change_amount outcome settled_at commission_bps commission_amount
     driver_payout_amount settlement_id =
     update_settlement ''MarkRideSettlementOutcome'' (\<lambda>e s. st_id s = settlement_id)
       (\<lambda>e s. s\<lparr>st_payment_status := payment_status, st_cash_received_at := cash_received_at,
               st_cash_received_amount := received_amount,
               st_cash_change_amount := change_amount, st_cash_outcome := outcome,
               st_settled_at := settled_at, st_commission_bps := commission_bps,
               st_commission_amount := commission_amount,
               st_driver_payout_amount := driver_payout_amount,
               st_updated_at := Some (env_db_now e)\<rparr>)"

definition get_driver_wallet_account_for_update :: "int \<Rightarrow> wallet_account_row io" where
  "get_driver_wallet_account_for_update driver_id =
     select_one ''GetDriverWalletAccountForUpdate'' (\<lambda>w.
       List.find (\<lambda>a. wa_driver_id a = driver_id) (w_accounts w))"

definition account_violation :: "world \<Rightarrow> wallet_account_row \<Rightarrow> err option" where
  "account_violation w a =
     first_violation
       [(int64_range (wa_balance a), PgError ''22003'' ''''),
        (\<not> exists_where (\<lambda>q. wa_driver_id q = wa_driver_id a \<and> wa_id q \<noteq> wa_id a) (w_accounts w),
          unique_violation ''driverwalletaccount_driver_id''),
        (user_exists w (wa_driver_id a), fk_violation ''driver_wallet_accounts_driver_fk'')]"

definition create_driver_wallet_account :: "int \<Rightarrow> int \<Rightarrow> wallet_account_row io" where
  "create_driver_wallet_account driver_id balance =
     insert_one ''CreateDriverWalletAccount'' ''driver_wallet_accounts'' w_accounts
       (\<lambda>x. w_accounts_update (\<lambda>_. x)) wa_id account_violation
       (\<lambda>e. \<lparr>wa_id = env_nextval e ''driver_wallet_accounts'', wa_driver_id = driver_id,
             wa_balance = balance, wa_version = 0, wa_created_at = Some (env_db_now e),
             wa_updated_at = Some (env_db_now e)\<rparr>)"

definition credit_driver_wallet_account :: "int \<Rightarrow> int \<Rightarrow> wallet_account_row io" where
  "credit_driver_wallet_account account_id amount =
     update_one ''CreditDriverWalletAccount'' w_accounts (\<lambda>x. w_accounts_update (\<lambda>_. x))
       account_violation (\<lambda>e a. wa_id a = account_id)
       (\<lambda>e a. a\<lparr>wa_balance := wa_balance a + amount, wa_version := wa_version a + 1,
               wa_updated_at := Some (max (env_db_now e) (coalesce_to (wa_created_at a) 0 + 1))\<rparr>)"

definition ledger_violation :: "world \<Rightarrow> wallet_ledger_row \<Rightarrow> err option" where
  "ledger_violation w l =
     first_violation
       [(user_exists w (wl_driver_id l), fk_violation ''wallet_ledgers_driver_fk''),
        (exists_where (\<lambda>r. r_id r = wl_ride_id l) (w_rides w), fk_violation ''wallet_ledgers_ride_fk'')]"

text \<open>\<open>ON CONFLICT (idempotency_key) DO NOTHING\<close>: the number of inserted rows.\<close>

definition create_wallet_ledger :: "int \<Rightarrow> int \<Rightarrow> int \<Rightarrow> int \<Rightarrow> string \<Rightarrow> string \<Rightarrow> nat io" where
  "create_wallet_ledger driver_id ride_id amount commission_amount kind idempotency_key =
     query ''CreateWalletLedger'' (\<lambda>e w.
       if exists_where (\<lambda>q. wl_idempotency_key q = idempotency_key) (w_ledgers w) then (Inr 0, w)
       else io_bind (insert_one ''CreateWalletLedger'' ''wallet_ledgers'' w_ledgers
              (\<lambda>x. w_ledgers_update (\<lambda>_. x)) wl_id ledger_violation
              (\<lambda>e. \<lparr>wl_id = env_nextval e ''wallet_ledgers'', wl_driver_id = driver_id,
                    wl_ride_id = ride_id, wl_amount = amount,
                    wl_commission_amount = commission_amount, wl_kind = kind,
                    wl_idempotency_key = idempotency_key, wl_created_at = Some (env_db_now e)\<rparr>))
            (\<lambda>_. io_return 1) e w)"

section \<open>Driver profiles\<close>

text \<open>The average of the ratings, which the schema keeps between 1 and 5.\<close>

definition sql_avg :: "gofloat list \<Rightarrow> gofloat option" where
  "sql_avg xs =
     (if xs = [] then None
      else if list_all is_finite xs then Some (Fin (sum_list (map fin_val xs) / of_nat (length xs)))
      else Some NaN)"

definition get_driver_profile_by_user_id_full :: "int \<Rightarrow> driver_profile_row io" where
  "get_driver_profile_by_user_id_full user_id =
     select_one ''GetDriverProfileByUserIDFull'' (\<lambda>w.
       map_option (\<lambda>p. p\<lparr>dp_rating := coalesce_to
           (sql_avg (map rv_rating (filter (\<lambda>v. rv_driver_id v = dp_user_id p) (w_reviews w))))
           (dp_rating p)\<rparr>)
         (find_profile w (Some user_id)))"

end
