(* ===== verification/Bid_Queries.thy ===== *)
theory Bid_Queries
  imports Ride_Queries
begin

text \<open>
  The SQL statements of bidding (\<open>sqlc/bidding.sql.go\<close> and the offer part of
  \<open>sqlc/ride_acceptance.sql.go\<close>), one definition per query. A data-modifying \<open>WITH\<close> clause
  runs whether or not the main statement finds a row.
\<close>

definition update_session ::
  "string \<Rightarrow> (env \<Rightarrow> bid_session_row \<Rightarrow> bool) \<Rightarrow> (env \<Rightarrow> bid_session_row \<Rightarrow> bid_session_row) \<Rightarrow> bid_session_row io" where
  "update_session name = update_one name w_sessions (\<lambda>x. w_sessions_update (\<lambda>_. x)) session_violation"

definition update_offer ::
  "string \<Rightarrow> (env \<Rightarrow> bid_offer_row \<Rightarrow> bool) \<Rightarrow> (env \<Rightarrow> bid_offer_row \<Rightarrow> bid_offer_row) \<Rightarrow> bid_offer_row io" where
  "update_offer name = update_one name w_offers (\<lambda>x. w_offers_update (\<lambda>_. x)) offer_violation"

text \<open>\<open>status = 'rejected'\<close> for the pending offers that satisfy a condition.\<close>

definition reject_pending :: "(bid_offer_row \<Rightarrow> bool) \<Rightarrow> world \<Rightarrow> world" where
  "reject_pending p w =
     w\<lparr>w_offers := upd_where (\<lambda>b. of_status b = ''pending'' \<and> p b) (\<lambda>b. b\<lparr>of_status := ''rejected''\<rparr>)
         (w_offers w)\<rparr>"

section \<open>Sessions\<close>

definition lock_user_for_bid_session :: "int \<Rightarrow> int io" where
  "lock_user_for_bid_session i = select_one ''LockUserForBidSession'' (\<lambda>w.
     map_option u_id (List.find (\<lambda>u. u_id u = i) (w_users w)))"

definition session_expired :: "int \<Rightarrow> int \<Rightarrow> bid_session_row \<Rightarrow> bool" where
  "session_expired passenger_id now s \<longleftrightarrow>
     s_passenger_id s = passenger_id \<and> s_status s = ''open'' \<and>
     (case s_expires_at s of None \<Rightarrow> False | Some t \<Rightarrow> t \<le> now)"

definition timeout_notification :: "env \<Rightarrow> nat \<Rightarrow> bid_session_row \<Rightarrow> notification_row" where
  "timeout_notification e k s =
     \<lparr>n_id = env_nextval e ''notifications'' + int k, n_user_id = s_passenger_id s, n_type = ''ride'',
      n_title = (if s_target_driver_id s \<noteq> None then ''Driver timed out'' else ''Ride request timed out''),
      n_body =
        (if s_target_driver_id s \<noteq> None
         then ''The driver did not respond to Booking ID - '' @ s_booking_reference s @ '' in time.''
         else ''Your ride request for Booking ID - '' @ s_booking_reference s @
              '' timed out because no driver responded in time.''),
      n_is_read = False, n_created_at = Some (env_db_now e)\<rparr>"

definition expire_bid_sessions :: "int \<Rightarrow> int \<Rightarrow> unit io" where
  "expire_bid_sessions passenger_id now = query ''ExpireBidSessions'' (\<lambda>e w.
     (let expired = filter (session_expired passenger_id now) (w_sessions w) in
      (Inr (), reject_pending (\<lambda>b. of_session_id b \<in> set (map s_id expired))
         (w\<lparr>w_sessions := upd_where (session_expired passenger_id now)
              (\<lambda>s. s\<lparr>s_status := ''expired''\<rparr>) (w_sessions w),
            w_notifications := w_notifications w @ map2 (timeout_notification e) [0..<length expired] expired\<rparr>))))"

definition session_live :: "int \<Rightarrow> bid_session_row \<Rightarrow> bool" where
  "session_live now s \<longleftrightarrow>
     s_status s = ''open'' \<and> (case s_expires_at s of None \<Rightarrow> False | Some t \<Rightarrow> t > now)"

definition has_active_bid_session :: "int \<Rightarrow> int \<Rightarrow> bool io" where
  "has_active_bid_session passenger_id now = select_value ''HasActiveBidSession'' (\<lambda>w.
     exists_where (\<lambda>s. s_passenger_id s = passenger_id \<and> session_live now s) (w_sessions w))"

definition has_active_passenger_ride :: "int \<Rightarrow> bool io" where
  "has_active_passenger_ride passenger_id = select_value ''HasActivePassengerRide'' (\<lambda>w.
     exists_where (\<lambda>r. r_passenger_id r = passenger_id \<and> r_status r \<in> set passenger_active_statuses)
       (w_rides w))"

definition create_bid_session ::
  "int \<Rightarrow> gofloat \<Rightarrow> gofloat \<Rightarrow> string \<Rightarrow> gofloat \<Rightarrow> gofloat \<Rightarrow> string \<Rightarrow> string option \<Rightarrow> gofloat \<Rightarrow>
   gofloat \<Rightarrow> int \<Rightarrow> string \<Rightarrow> int option \<Rightarrow> int option \<Rightarrow> int option \<Rightarrow> bid_session_row io" where
  "create_bid_session passenger_id pickup_latitude pickup_longitude pickup_name dropoff_latitude
     dropoff_longitude dropoff_name passenger_note distance_km duration_minutes offered_fare status
     target_driver_id expires_at created_at =
     io_bind allocate_booking_reference (\<lambda>reference.
     insert_one ''CreateBidSession'' ''bid_sessions'' w_sessions (\<lambda>x. w_sessions_update (\<lambda>_. x)) s_id
       session_violation
       (\<lambda>e. \<lparr>s_id = env_nextval e ''bid_sessions'', s_booking_reference = reference,
             s_passenger_id = passenger_id, s_ride_type = ''Solo Ride'',
             s_pickup_latitude = pickup_latitude, s_pickup_longitude = pickup_longitude,
             s_pickup_name = pickup_name, s_dropoff_latitude = dropoff_latitude,
             s_dropoff_longitude = dropoff_longitude, s_dropoff_name = dropoff_name,
             s_passenger_note = passenger_note, s_distance_km = distance_km,
             s_duration_minutes = duration_minutes, s_offered_fare = offered_fare,
             s_status = status, s_target_driver_id = target_driver_id,
             s_accepted_driver_id = None, s_expires_at = expires_at,
             s_created_at = coalesce created_at (Some (env_db_now e))\<rparr>))"

text \<open>A driver who may bid: a recent heartbeat, an active account, and a verified one unless the
  test flag is set. \<open>LockOnlineDriverProfileForBidding\<close> is the same with a row lock.\<close>

definition online_driver :: "world \<Rightarrow> int \<Rightarrow> bool \<Rightarrow> int \<Rightarrow> driver_profile_row \<Rightarrow> bool" where
  "online_driver w user_id allow_unverified cutoff p \<longleftrightarrow>
     dp_user_id p = user_id \<and>
     exists_where (\<lambda>u. u_id u = dp_user_id p \<and> u_account_status u = ''active'' \<and>
       (u_is_verified u \<or> allow_unverified)) (w_users w) \<and>
     dp_is_online p \<and> (case dp_online_last_seen_at p of None \<Rightarrow> False | Some t \<Rightarrow> t \<ge> cutoff)"

text \<open>An online profile of the driver has the vehicle that the ride records.\<close>

definition driver_serves :: "driver_profile_row list \<Rightarrow> ride_row \<Rightarrow> bool" where
  "driver_serves profiles r \<longleftrightarrow>
     exists_where (\<lambda>q. r_driver_id r = Some (dp_user_id q) \<and> dp_is_online q \<and>
       r_vehicle_type r = Some (dp_vehicle_type q) \<and> r_plate_number r = Some (dp_plate_number q)) profiles"

lemma driver_servesI:
  "q \<in> set profiles \<Longrightarrow> dp_is_online q \<Longrightarrow> r_driver_id r = Some (dp_user_id q) \<Longrightarrow>
   r_vehicle_type r = Some (dp_vehicle_type q) \<Longrightarrow> r_plate_number r = Some (dp_plate_number q) \<Longrightarrow>
   driver_serves profiles r"
  by (auto simp: driver_serves_def exists_where_def)

definition get_online_driver_profile_for_bidding :: "int \<Rightarrow> bool \<Rightarrow> int \<Rightarrow> driver_profile_row io" where
  "get_online_driver_profile_for_bidding user_id allow_unverified cutoff =
     select_one ''GetOnlineDriverProfileForBidding'' (\<lambda>w.
       List.find (online_driver w user_id allow_unverified cutoff) (w_driver_profiles w))"

definition lock_online_driver_profile_for_bidding :: "int \<Rightarrow> bool \<Rightarrow> int \<Rightarrow> driver_profile_row io" where
  "lock_online_driver_profile_for_bidding user_id allow_unverified cutoff =
     select_one ''LockOnlineDriverProfileForBidding'' (\<lambda>w.
       List.find (online_driver w user_id allow_unverified cutoff) (w_driver_profiles w))"

lemma lock_online_driverD:
  "lock_online_driver_profile_for_bidding d u c e w = (Inr p, w') \<Longrightarrow>
     w' = w \<and> p \<in> set (w_driver_profiles w) \<and> dp_is_online p \<and> dp_user_id p = d"
  by (auto simp: lock_online_driver_profile_for_bidding_def io_simps online_driver_def dest: find_SomeD)

definition count_active_rides_for_driver :: "int option \<Rightarrow> nat io" where
  "count_active_rides_for_driver driver_id = select_value ''CountActiveRidesForDriver''
     (\<lambda>w. count_where (driver_active_ride driver_id) (w_rides w))"

definition get_bid_session_by_id :: "int \<Rightarrow> bid_session_row io" where
  "get_bid_session_by_id i = select_one ''GetBidSessionByID'' (\<lambda>w.
     List.find (\<lambda>s. s_id s = i) (w_sessions w))"

definition lock_active_bid_session_for_offer :: "int \<Rightarrow> int \<Rightarrow> bid_session_row io" where
  "lock_active_bid_session_for_offer i now = select_one ''LockActiveBidSessionForOffer'' (\<lambda>w.
     List.find (\<lambda>s. s_id s = i \<and> session_live now s) (w_sessions w))"

text \<open>Timestamps of the schema are not null; the order of NULLs does not matter.\<close>

definition order_created :: "('r \<Rightarrow> int option) \<Rightarrow> ('r \<Rightarrow> int) \<Rightarrow> 'r list \<Rightarrow> 'r list" where
  "order_created created key rows =
     sort_key (\<lambda>r. coalesce_to (created r) 0) (sort_key key rows)"

definition list_active_bid_sessions :: "int \<Rightarrow> bid_session_row list io" where
  "list_active_bid_sessions now = select_value ''ListActiveBidSessions'' (\<lambda>w.
     take 50 (order_created s_created_at s_id (filter (session_live now) (w_sessions w))))"

definition has_pending_offer :: "world \<Rightarrow> int \<Rightarrow> int option \<Rightarrow> bool" where
  "has_pending_offer w session_id driver_id =
     exists_where (\<lambda>b. of_session_id b = session_id \<and> sql_eq (Some (of_driver_id b)) driver_id \<and>
       of_status b = ''pending'') (w_offers w)"

definition list_targeted_active_bid_sessions :: "int \<Rightarrow> int option \<Rightarrow> bid_session_row list io" where
  "list_targeted_active_bid_sessions now driver_id = select_value ''ListTargetedActiveBidSessions'' (\<lambda>w.
     take 50 (sort_key (\<lambda>s. if has_pending_offer w (s_id s) driver_id then 0 else (1::nat))
       (order_created s_created_at s_id
         (filter (\<lambda>s. session_live now s \<and>
              (s_target_driver_id s = None \<or> sql_eq (s_target_driver_id s) driver_id))
           (w_sessions w)))))"

definition list_pending_bid_offers_for_driver :: "int \<Rightarrow> int \<Rightarrow> int list \<Rightarrow> bid_offer_row list io" where
  "list_pending_bid_offers_for_driver driver_id now session_ids =
     select_value ''ListPendingBidOffersForDriver'' (\<lambda>w.
       concat (map (\<lambda>s. filter (\<lambda>b. of_session_id b = s_id s \<and> of_driver_id b = driver_id \<and>
                of_status b = ''pending'' \<and> of_session_id b \<in> set session_ids) (w_offers w))
         (order_created s_created_at s_id
           (filter (\<lambda>s. session_live now s \<and>
                (s_target_driver_id s = None \<or> s_target_driver_id s = Some driver_id))
             (w_sessions w)))))"

definition list_bid_offers_by_session :: "int \<Rightarrow> bid_offer_row list io" where
  "list_bid_offers_by_session session_id = select_value ''ListBidOffersBySession'' (\<lambda>w.
     take 100 (order_created of_created_at of_id
       (filter (\<lambda>b. of_session_id b = session_id) (w_offers w))))"

section \<open>Offers\<close>

definition has_pending_bid_offer :: "int \<Rightarrow> int \<Rightarrow> bool io" where
  "has_pending_bid_offer session_id driver_id = select_value ''HasPendingBidOffer''
     (\<lambda>w. has_pending_offer w session_id (Some driver_id))"

definition create_bid_offer ::
  "int \<Rightarrow> int \<Rightarrow> string option \<Rightarrow> string option \<Rightarrow> string option \<Rightarrow> int \<Rightarrow> bid_offer_row io" where
  "create_bid_offer session_id driver_id driver_name plate_number vehicle_type proposed_fare =
     insert_one ''CreateBidOffer'' ''bid_offers'' w_offers (\<lambda>x. w_offers_update (\<lambda>_. x)) of_id
       offer_violation
       (\<lambda>e. \<lparr>of_id = env_nextval e ''bid_offers'', of_session_id = session_id,
             of_driver_id = driver_id, of_driver_name = driver_name, of_plate_number = plate_number,
             of_vehicle_type = vehicle_type, of_proposed_fare = proposed_fare,
             of_status = ''pending'', of_created_at = Some (env_db_now e)\<rparr>)"

text \<open>
  \<open>CancelBidSession\<close>: the \<open>WITH\<close> clause rejects the session's pending offers whoever the
  passenger is; only the main statement looks at the passenger and the status.
\<close>

definition cancel_bid_session :: "int \<Rightarrow> int \<Rightarrow> bid_session_row io" where
  "cancel_bid_session i passenger_id = query ''CancelBidSession'' (\<lambda>e w.
     (let w' = reject_pending (\<lambda>b. of_session_id b = i) w;
          p = (\<lambda>s. s_id s = i \<and> s_passenger_id s = passenger_id \<and> s_status s = ''open'')
      in case List.find p (w_sessions w) of
           None \<Rightarrow> (Inl NoRows, w')
         | Some s \<Rightarrow>
             (Inr (s\<lparr>s_status := ''cancelled''\<rparr>),
              w'\<lparr>w_sessions := upd_where p (\<lambda>s. s\<lparr>s_status := ''cancelled''\<rparr>) (w_sessions w)\<rparr>)))"

definition get_pending_bid_offer :: "int \<Rightarrow> int \<Rightarrow> bid_offer_row io" where
  "get_pending_bid_offer session_id driver_id = select_one ''GetPendingBidOffer'' (\<lambda>w.
     List.find (\<lambda>b. of_session_id b = session_id \<and> of_driver_id b = driver_id \<and>
       of_status b = ''pending'') (w_offers w))"

definition reject_bid_offer :: "int \<Rightarrow> bid_offer_row io" where
  "reject_bid_offer i =
     update_offer ''RejectBidOffer'' (\<lambda>e b. of_id b = i \<and> of_status b = ''pending'')
       (\<lambda>e b. b\<lparr>of_status := ''rejected''\<rparr>)"

definition cancel_pending_bid_offer :: "int \<Rightarrow> int \<Rightarrow> bid_offer_row io" where
  "cancel_pending_bid_offer session_id driver_id = (\<lambda>e w.
     update_offer ''CancelPendingBidOffer''
       (\<lambda>e b. of_session_id b = session_id \<and> of_driver_id b = driver_id \<and> of_status b = ''pending'' \<and>
          exists_where (\<lambda>s. s_id s = of_session_id b \<and> s_status s = ''open'') (w_sessions w))
       (\<lambda>e b. b\<lparr>of_status := ''rejected''\<rparr>) e w)"

definition decline_targeted_bid_session :: "int \<Rightarrow> int option \<Rightarrow> bid_session_row io" where
  "decline_targeted_bid_session i target_driver_id =
     update_session ''DeclineTargetedBidSession''
       (\<lambda>e s. s_id s = i \<and> sql_eq (s_target_driver_id s) target_driver_id \<and>
          (s_status s = ''declined'' \<or> session_live (env_db_now e) s))
       (\<lambda>e s. s\<lparr>s_status := ''declined''\<rparr>)"

section \<open>Acceptance\<close>

definition get_bid_offer_driver_for_acceptance :: "int \<Rightarrow> int \<Rightarrow> int io" where
  "get_bid_offer_driver_for_acceptance i session_id =
     select_one ''GetBidOfferDriverForAcceptance'' (\<lambda>w.
       map_option of_driver_id
         (List.find (\<lambda>b. of_id b = i \<and> of_session_id b = session_id \<and> of_status b = ''pending'')
           (w_offers w)))"

definition lock_pending_bid_offer_for_acceptance :: "int \<Rightarrow> int \<Rightarrow> bid_offer_row io" where
  "lock_pending_bid_offer_for_acceptance i session_id =
     select_one ''LockPendingBidOfferForAcceptance'' (\<lambda>w.
       List.find (\<lambda>b. of_id b = i \<and> of_session_id b = session_id \<and> of_status b = ''pending'')
         (w_offers w))"

definition mark_bid_offer_accepted :: "int \<Rightarrow> bid_offer_row io" where
  "mark_bid_offer_accepted i =
     update_offer ''MarkBidOfferAccepted'' (\<lambda>e b. of_id b = i \<and> of_status b = ''pending'')
       (\<lambda>e b. b\<lparr>of_status := ''accepted''\<rparr>)"

definition reject_other_pending_bid_offers :: "int \<Rightarrow> int \<Rightarrow> bid_offer_row list io" where
  "reject_other_pending_bid_offers session_id i = query ''RejectOtherPendingBidOffers'' (\<lambda>e w.
     (let p = (\<lambda>b. of_session_id b = session_id \<and> of_id b \<noteq> i) in
      (Inr (map (\<lambda>b. b\<lparr>of_status := ''rejected''\<rparr>)
              (filter (\<lambda>b. of_status b = ''pending'' \<and> p b) (w_offers w))),
       reject_pending p w)))"

text \<open>The rejected offers joined with their sessions, in the order of the offers' ids.\<close>

definition reject_driver_pending_bid_offers :: "int \<Rightarrow> int \<Rightarrow> (bid_offer_row \<times> bid_session_row) list io" where
  "reject_driver_pending_bid_offers driver_id i = query ''RejectDriverPendingBidOffers'' (\<lambda>e w.
     (let p = (\<lambda>b. of_driver_id b = driver_id \<and> of_id b \<noteq> i);
          rejected = sort_key of_id (map (\<lambda>b. b\<lparr>of_status := ''rejected''\<rparr>)
            (filter (\<lambda>b. of_status b = ''pending'' \<and> p b) (w_offers w)))
      in (Inr (concat (map (\<lambda>b. map (Pair b) (filter (\<lambda>s. s_id s = of_session_id b) (w_sessions w)))
                 rejected)),
          reject_pending p w)))"

definition mark_bid_session_accepted :: "int \<Rightarrow> int option \<Rightarrow> bid_session_row io" where
  "mark_bid_session_accepted i accepted_driver_id =
     update_session ''MarkBidSessionAccepted'' (\<lambda>e s. s_id s = i \<and> s_status s = ''open'')
       (\<lambda>e s. s\<lparr>s_status := ''accepted'', s_accepted_driver_id := accepted_driver_id\<rparr>)"

lemma reject_pending_frame [simp]:
  "w_rides (reject_pending p w) = w_rides w" "w_settlements (reject_pending p w) = w_settlements w"
  "w_accounts (reject_pending p w) = w_accounts w" "w_ledgers (reject_pending p w) = w_ledgers w"
  "w_events (reject_pending p w) = w_events w" "w_audits (reject_pending p w) = w_audits w"
  "w_sessions (reject_pending p w) = w_sessions w" "w_users (reject_pending p w) = w_users w"
  "w_driver_profiles (reject_pending p w) = w_driver_profiles w"
  "w_published (reject_pending p w) = w_published w"
  by (simp_all add: reject_pending_def)

end
