(* ===== verification/Ride_Store.thy ===== *)
theory Ride_Store
  imports Bid_Queries
begin

text \<open>
  The ride repository (\<open>ride/adapter/postgres\<close>): \<open>RideRepository\<close>'s reads and its mapping of
  rows to \<open>domain.Ride\<close> (\<open>ride_repository.go\<close>), the creation and acceptance of a requested
  ride (\<open>ride_writer.go\<close>, \<open>ride_acceptance_store.go\<close>) and the lifecycle commands
  (\<open>ride_lifecycle_store.go\<close>), each a transaction over the statements of \<open>Ride_Queries\<close> and
  \<open>Bid_Queries\<close>. For every command an elimination rule says what a success has changed.
\<close>

record ride_repository =
  rr_initialized :: bool
  rr_platform_commission_bps :: int
  rr_online_presence_max_age :: int
  rr_allow_unverified_test_drivers :: bool

definition max_postgres_ride_id :: int where
  "max_postgres_ride_id = 2147483647"

definition max_postgres_wait_seconds :: int where
  "max_postgres_wait_seconds = 2147483647"

definition default_online_presence_max_age :: int where
  "default_online_presence_max_age = 45 * second"

section \<open>Conversions\<close>

definition online_presence_cutoff :: "int \<Rightarrow> int io" where
  "online_presence_cutoff configured_max_age =
     io_env (\<lambda>e.
       (let max_age = (if configured_max_age \<le> 0 then default_online_presence_max_age
                       else configured_max_age)
        in env_now e - max_age))"

definition to_postgres_wait_seconds :: "int \<Rightarrow> err + int" where
  "to_postgres_wait_seconds duration =
     (let seconds = go_quot duration second in
      if duration \<le> 0 \<or> go_rem duration second \<noteq> 0 \<or> seconds > max_postgres_wait_seconds
      then Inl (Failure ''passenger wait duration must be a positive whole number of seconds'')
      else Inr seconds)"

definition to_postgres_ride_id :: "int \<Rightarrow> string \<Rightarrow> err + int" where
  "to_postgres_ride_id value field =
     (if value \<le> 0 \<or> value > max_postgres_ride_id
      then Inl (Failure (field @ '' is outside PostgreSQL integer range''))
      else Inr value)"

lemma to_postgres_ride_id_Inr [simp]:
  "to_postgres_ride_id value field = Inr i \<longleftrightarrow> i = value \<and> 0 < value \<and> value \<le> max_postgres_ride_id"
  by (auto simp: to_postgres_ride_id_def)

definition validate_native_read_repository :: "ride_repository \<Rightarrow> unit io" where
  "validate_native_read_repository repository =
     (if rr_initialized repository then io_return ()
      else io_throw (Failure ''postgresql ride read repository is not initialized''))"

definition ride_text_value :: "string option \<Rightarrow> string" where
  "ride_text_value v = (case v of None \<Rightarrow> '''' | Some s \<Rightarrow> s)"

definition ride_float_value :: "gofloat option \<Rightarrow> gofloat" where
  "ride_float_value v = (case v of None \<Rightarrow> Fin 0 | Some x \<Rightarrow> x)"

definition ride_optional_int :: "int option \<Rightarrow> int option" where
  "ride_optional_int v = (case v of None \<Rightarrow> None | Some i \<Rightarrow> if i \<le> 0 then None else Some i)"

definition ride_timestamp :: "int option \<Rightarrow> int option" where
  "ride_timestamp v = v"

definition from_postgres_ride :: "ride_row \<Rightarrow> err + ride" where
  "from_postgres_ride item =
     (if r_created_at item = None then Inl (Failure ''ride creation time is null'')
      else Inr (zero_ride
        \<lparr>rd_id := r_id item,
         rd_booking_reference := r_booking_reference item,
         rd_passenger_id := r_passenger_id item,
         rd_driver_id := ride_optional_int (r_driver_id item),
         rd_status := r_status item,
         rd_fare_amount := r_fare_amount item,
         rd_pickup_latitude := ride_float_value (r_pickup_latitude item),
         rd_pickup_longitude := ride_float_value (r_pickup_longitude item),
         rd_pickup_name := ride_text_value (r_pickup_name item),
         rd_dropoff_latitude := ride_float_value (r_dropoff_latitude item),
         rd_dropoff_longitude := ride_float_value (r_dropoff_longitude item),
         rd_dropoff_name := ride_text_value (r_dropoff_name item),
         rd_distance_km := ride_float_value (r_distance_km item),
         rd_duration_minutes := ride_float_value (r_duration_minutes item),
         rd_driver_name := ride_text_value (r_driver_name item),
         rd_vehicle_type := ride_text_value (r_vehicle_type item),
         rd_plate_number := ride_text_value (r_plate_number item),
         rd_driver_rating := ride_float_value (r_driver_rating item),
         rd_created_at := ride_timestamp (r_created_at item),
         rd_completed_at := ride_timestamp (r_completed_at item),
         rd_arrived_at := ride_timestamp (r_arrived_at item),
         rd_waiting_until := ride_timestamp (r_waiting_until item),
         rd_payment_status := ''unpaid'',
         rd_cash_outcome := ''unpaid'',
         rd_cancelled_by := ride_optional_int (r_cancelled_by item),
         rd_cancellation_reason := r_cancellation_reason item,
         rd_cancellation_responsibility := r_cancellation_responsibility item,
         rd_cancellation_details := r_cancellation_details item\<rparr>))"

record ride_settlement_projection =
  rp_payment_status :: string
  rp_cash_received_amount :: int
  rp_cash_change_amount :: int
  rp_cash_outcome :: string
  rp_cash_settled :: bool
  rp_commission_bps :: "int option"
  rp_commission_amount :: int
  rp_driver_payout_amount :: int

definition from_postgres_ride_projection :: "ride_row \<Rightarrow> ride_settlement_projection \<Rightarrow> err + ride" where
  "from_postgres_ride_projection item projection =
     (case from_postgres_ride item of
        Inl e \<Rightarrow> Inl e
      | Inr ride \<Rightarrow>
          Inr (ride
            \<lparr>rd_payment_status := (if rp_payment_status projection \<noteq> '''' then rp_payment_status projection
                                   else rd_payment_status ride),
             rd_cash_received_amount := rp_cash_received_amount projection,
             rd_cash_change_amount := rp_cash_change_amount projection,
             rd_cash_outcome := (if rp_cash_outcome projection \<noteq> '''' then rp_cash_outcome projection
                                 else rd_cash_outcome ride),
             rd_cash_settled := rp_cash_settled projection,
             rd_commission_bps := (if rp_commission_bps projection \<noteq> None
                                   then rp_commission_bps projection else rd_commission_bps ride),
             rd_commission_amount := rp_commission_amount projection,
             rd_driver_payout_amount := rp_driver_payout_amount projection\<rparr>))"

definition ride_settlement_projection_from_record :: "settlement_row \<Rightarrow> ride_settlement_projection" where
  "ride_settlement_projection_from_record item =
     \<lparr>rp_payment_status = st_payment_status item,
      rp_cash_received_amount = st_cash_received_amount item,
      rp_cash_change_amount = st_cash_change_amount item,
      rp_cash_outcome = st_cash_outcome item,
      rp_cash_settled = (st_settled_at item \<noteq> None),
      rp_commission_bps = st_commission_bps item,
      rp_commission_amount = st_commission_amount item,
      rp_driver_payout_amount = st_driver_payout_amount item\<rparr>"

text \<open>\<open>fromPostgresRideWithDriverProfile\<close>: names missing on the ride come from the profile.\<close>

definition from_postgres_ride_with_driver_profile ::
  "ride_row \<Rightarrow> ride_settlement_projection \<Rightarrow> string \<Rightarrow> string \<Rightarrow> string \<Rightarrow> err + ride" where
  "from_postgres_ride_with_driver_profile item projection driver_name vehicle_type plate_number =
     (case from_postgres_ride_projection item projection of
        Inl e \<Rightarrow> Inl e
      | Inr ride \<Rightarrow>
          Inr (ride
            \<lparr>rd_driver_name := (if rd_driver_name ride = '''' then driver_name else rd_driver_name ride),
             rd_vehicle_type := (if rd_vehicle_type ride = '''' then vehicle_type else rd_vehicle_type ride),
             rd_plate_number := (if rd_plate_number ride = '''' then plate_number
                                 else rd_plate_number ride)\<rparr>))"

definition from_postgres_ride_row :: "get_ride_row \<Rightarrow> err + ride" where
  "from_postgres_ride_row item =
     from_postgres_ride_with_driver_profile (gr_ride item)
       \<lparr>rp_payment_status = gr_payment_status item,
        rp_cash_received_amount = gr_cash_received_amount item,
        rp_cash_change_amount = gr_cash_change_amount item,
        rp_cash_outcome = gr_cash_outcome item,
        rp_cash_settled = gr_cash_settled item,
        rp_commission_bps = gr_commission_bps item,
        rp_commission_amount = gr_commission_amount item,
        rp_driver_payout_amount = gr_driver_payout_amount item\<rparr>
       (gr_driver_profile_name item) (gr_driver_profile_vehicle_type item)
       (gr_driver_profile_plate_number item)"

definition from_postgres_active_ride_row :: "ride_projection_row \<Rightarrow> err + ride" where
  "from_postgres_active_ride_row item =
     from_postgres_ride_projection (gr_ride item)
       \<lparr>rp_payment_status = gr_payment_status item,
        rp_cash_received_amount = gr_cash_received_amount item,
        rp_cash_change_amount = gr_cash_change_amount item,
        rp_cash_outcome = gr_cash_outcome item,
        rp_cash_settled = False,
        rp_commission_bps = gr_commission_bps item,
        rp_commission_amount = gr_commission_amount item,
        rp_driver_payout_amount = gr_driver_payout_amount item\<rparr>"

section \<open>Reads\<close>

definition repo_get :: "ride_repository \<Rightarrow> int \<Rightarrow> ride io" where
  "repo_get repository ride_id =
     io_bind (validate_native_read_repository repository) (\<lambda>_.
     io_bind (io_lift (to_postgres_ride_id ride_id ''ride id'')) (\<lambda>db_ride_id.
     io_bind (io_map_err (\<lambda>x. if x = NoRows then ErrRideNotFound else x)
                (get_ride_by_id db_ride_id)) (\<lambda>item.
     io_lift (from_postgres_ride_row item))))"

fun map_rows :: "('r \<Rightarrow> err + 'a) \<Rightarrow> 'r list \<Rightarrow> err + 'a list" where
  "map_rows f [] = Inr []"
| "map_rows f (x # xs) =
     (case f x of Inl e \<Rightarrow> Inl e
      | Inr y \<Rightarrow> (case map_rows f xs of Inl e \<Rightarrow> Inl e | Inr ys \<Rightarrow> Inr (y # ys)))"

definition repo_active_rides_for_driver :: "ride_repository \<Rightarrow> int \<Rightarrow> ride list io" where
  "repo_active_rides_for_driver repository driver_id =
     io_bind (validate_native_read_repository repository) (\<lambda>_.
     io_bind (io_lift (to_postgres_ride_id driver_id ''driver id'')) (\<lambda>db_driver_id.
     io_bind (list_active_rides_for_driver (Some db_driver_id)) (\<lambda>items.
     io_lift (map_rows from_postgres_active_ride_row items))))"

definition repo_has_active_passenger_ride :: "ride_repository \<Rightarrow> int \<Rightarrow> bool io" where
  "repo_has_active_passenger_ride repository passenger_id =
     io_bind (validate_native_read_repository repository) (\<lambda>_.
     io_bind (io_lift (to_postgres_ride_id passenger_id ''passenger id'')) (\<lambda>db_passenger_id.
     has_active_passenger_ride db_passenger_id))"

definition read_ride_projection :: "int \<Rightarrow> ride io" where
  "read_ride_projection ride_id =
     io_bind (get_ride_by_id ride_id) (\<lambda>item. io_lift (from_postgres_ride_row item))"

section \<open>Errors\<close>

definition driver_unavailable_error :: "err \<Rightarrow> err \<Rightarrow> err" where
  "driver_unavailable_error unavailable x = (if x = NoRows then unavailable else x)"

definition driver_active_ride_conflict_error :: "err \<Rightarrow> err" where
  "driver_active_ride_conflict_error x =
     (if x = PgError ''23505'' ''rides_one_active_ride_per_driver_idx'' then ErrDriverCapacityReached else x)"

definition passenger_active_ride_conflict_error :: "err \<Rightarrow> err" where
  "passenger_active_ride_conflict_error x =
     (if x = PgError ''23505'' ''ride_passenger_id'' \<or>
         x = PgError ''23505'' ''rides_one_active_ride_per_passenger_idx''
      then ErrActiveBooking else x)"

definition accepted_ride_conflict_error :: "err \<Rightarrow> err" where
  "accepted_ride_conflict_error x =
     (case x of
        PgError code constraint \<Rightarrow>
          if code = ''23505'' then
            (if constraint = ''ride_passenger_id'' \<or> constraint = ''rides_one_active_ride_per_passenger_idx''
             then ErrActiveBooking
             else if constraint = ''rides_one_active_ride_per_driver_idx'' then ErrDriverCapacityReached
             else x)
          else x
      | _ \<Rightarrow> x)"

definition is_postgres_unique_violation :: "err \<Rightarrow> bool" where
  "is_postgres_unique_violation x \<longleftrightarrow> (case x of PgError code _ \<Rightarrow> code = ''23505'' | _ \<Rightarrow> False)"

section \<open>Creation and acceptance\<close>

definition ride_rating :: "gofloat \<Rightarrow> gofloat option" where
  "ride_rating value = (if f_le value (Fin 0) then None else Some value)"

definition repo_create_ride :: "ride_repository \<Rightarrow> ride \<Rightarrow> ride io" where
  "repo_create_ride repository value =
     io_bind (validate_native_read_repository repository) (\<lambda>_.
     if rd_passenger_id value \<le> 0 \<or> rd_fare_amount value \<le> 0 then io_throw ErrInvalidTrip
     else
       (let status = (if rd_status value = '''' then status_str RideRequested else rd_status value) in
        if normalize_ride_status status \<noteq> Some RideRequested then io_throw ErrInvalidTrip
        else
          io_bind (io_lift (to_postgres_ride_id (rd_passenger_id value) ''passenger id'')) (\<lambda>passenger_id.
          io_bind (transaction (
            io_bind (lock_user_for_bid_session passenger_id) (\<lambda>_.
            io_bind (io_env env_now) (\<lambda>now.
            io_bind (expire_bid_sessions passenger_id now) (\<lambda>_.
            io_bind (has_active_bid_session passenger_id now) (\<lambda>active_session.
            if active_session then io_throw ErrActiveBooking
            else
              io_bind (has_active_passenger_ride passenger_id) (\<lambda>active_ride.
              if active_ride then io_throw ErrActiveBooking
              else
                io_map_err passenger_active_ride_conflict_error
                 (create_ride passenger_id (status_str RideRequested) (rd_fare_amount value)
                  (Some (rd_pickup_latitude value)) (Some (rd_pickup_longitude value))
                  (Some (rd_pickup_name value)) (Some (rd_dropoff_latitude value))
                  (Some (rd_dropoff_longitude value)) (Some (rd_dropoff_name value))
                  (Some (rd_distance_km value)) (Some (rd_duration_minutes value))))))))))
          (\<lambda>item. io_lift (from_postgres_ride item)))))"

text \<open>The transaction of \<open>AcceptRide\<close>, up to its commit.\<close>

definition accept_ride_transaction :: "ride_repository \<Rightarrow> int \<Rightarrow> int \<Rightarrow> (ride_row \<times> settlement_row) io" where
  "accept_ride_transaction repository db_ride_id db_driver_id =
     io_bind (query ''set_config'' (io_return ())) (\<lambda>_.
     io_bind (online_presence_cutoff (rr_online_presence_max_age repository)) (\<lambda>cutoff.
     io_bind (io_map_err (driver_unavailable_error ErrRideDriverUnavailable)
       (lock_online_driver_profile_for_bidding db_driver_id
         (rr_allow_unverified_test_drivers repository) cutoff)) (\<lambda>profile.
     io_bind (count_active_rides_for_acceptance (Some (dp_user_id profile))) (\<lambda>active_rides.
     if active_rides \<ge> max_active_rides_per_driver then io_throw ErrDriverCapacityReached
     else
       io_bind (lock_requested_ride_for_acceptance db_ride_id) (\<lambda>trip.
       io_bind (io_lift (new_settlement_snapshot (r_fare_amount trip)
         (rr_platform_commission_bps repository))) (\<lambda>settlement.
       io_bind (io_map_err driver_active_ride_conflict_error
         (accept_ride_from_request (r_id trip) (Some (dp_user_id profile))
           (Some (dp_name profile)) (Some (dp_vehicle_type profile))
           (Some (dp_plate_number profile)) (ride_rating (dp_rating profile)))) (\<lambda>updated_ride.
       io_bind (create_ride_settlement (r_id updated_ride) (ss_fare_amount settlement)
         (Some (wrap32 (ss_commission_bps settlement))) (ss_commission_amount settlement)
         (ss_driver_payout_amount settlement)) (\<lambda>settlement_record.
       io_return (updated_ride, settlement_record)))))))))"

definition repo_accept_ride :: "ride_repository \<Rightarrow> int \<Rightarrow> int \<Rightarrow> ride io" where
  "repo_accept_ride repository ride_id driver_id =
     io_bind (validate_native_read_repository repository) (\<lambda>_.
     io_bind (io_lift (to_postgres_ride_id ride_id ''ride id'')) (\<lambda>db_ride_id.
     io_bind (io_lift (to_postgres_ride_id driver_id ''driver id'')) (\<lambda>db_driver_id.
     io_bind (transaction (accept_ride_transaction repository db_ride_id db_driver_id))
       (\<lambda>(updated_ride, settlement_record).
     io_lift (from_postgres_ride_projection updated_ride
       (ride_settlement_projection_from_record settlement_record))))))"

section \<open>Lifecycle commands\<close>

definition new_audit_request_id :: "string io" where
  "new_audit_request_id = query ''rand.Read'' (io_env env_request_id)"

definition repo_mark_arrived ::
  "ride_repository \<Rightarrow> int \<Rightarrow> int \<Rightarrow> string \<Rightarrow> int \<Rightarrow> ride io" where
  "repo_mark_arrived repository ride_id driver_id current_status passenger_wait_duration =
     io_bind (validate_native_read_repository repository) (\<lambda>_.
     case normalize_ride_status current_status of
       None \<Rightarrow> io_throw ErrInvalidStatusTransition
     | Some current \<Rightarrow>
         if current \<noteq> RideAssigned \<and> current \<noteq> RideAccepted then io_throw ErrInvalidStatusTransition
         else
           io_bind (io_lift (to_postgres_ride_id ride_id ''ride id'')) (\<lambda>db_ride_id.
           io_bind (io_lift (to_postgres_ride_id driver_id ''driver id'')) (\<lambda>db_driver_id.
           io_bind (io_lift (to_postgres_wait_seconds passenger_wait_duration)) (\<lambda>wait_seconds.
           transaction (
             io_bind (mark_ride_arrived wait_seconds db_ride_id (Some db_driver_id) (status_str current)) (\<lambda>_.
             io_bind new_audit_request_id (\<lambda>request_id.
             io_bind (create_ride_event db_ride_id db_driver_id ''ride.status_changed''
               (status_str current) (status_str RideArrived) '''' '''' '''' request_id) (\<lambda>_.
             read_ride_projection db_ride_id))))))))"

text \<open>The event, the audit record and the read every lifecycle command ends with.\<close>

definition commit_lifecycle_command ::
  "int \<Rightarrow> int \<Rightarrow> ride_status \<Rightarrow> ride_status \<Rightarrow> string \<Rightarrow> ride io" where
  "commit_lifecycle_command ride_id driver_id from_status to_status audit_action =
     io_bind new_audit_request_id (\<lambda>request_id.
     io_bind (create_ride_event ride_id driver_id ''ride.status_changed'' (status_str from_status)
       (status_str to_status) '''' '''' '''' request_id) (\<lambda>_.
     io_bind (create_audit_event driver_id audit_action ''ride'' (Some (itoa ride_id)) ''success''
       (request_id @ ''-audit'')) (\<lambda>_.
     read_ride_projection ride_id)))"

definition repo_start_trip :: "ride_repository \<Rightarrow> int \<Rightarrow> int \<Rightarrow> ride io" where
  "repo_start_trip repository ride_id driver_id =
     io_bind (validate_native_read_repository repository) (\<lambda>_.
     io_bind (io_lift (to_postgres_ride_id ride_id ''ride id'')) (\<lambda>db_ride_id.
     io_bind (io_lift (to_postgres_ride_id driver_id ''driver id'')) (\<lambda>db_driver_id.
     transaction (
       io_bind (start_ride db_ride_id (Some db_driver_id)) (\<lambda>_.
       commit_lifecycle_command db_ride_id db_driver_id RideArrived RideInTransit ''ride.started'')))))"

definition repo_complete_trip :: "ride_repository \<Rightarrow> int \<Rightarrow> int \<Rightarrow> ride io" where
  "repo_complete_trip repository ride_id driver_id =
     io_bind (validate_native_read_repository repository) (\<lambda>_.
     io_bind (io_lift (to_postgres_ride_id ride_id ''ride id'')) (\<lambda>db_ride_id.
     io_bind (io_lift (to_postgres_ride_id driver_id ''driver id'')) (\<lambda>db_driver_id.
     transaction (
       io_bind (complete_ride db_ride_id (Some db_driver_id)) (\<lambda>_.
       commit_lifecycle_command db_ride_id db_driver_id RideInTransit RideCompleted ''ride.completed'')))))"

definition repo_mark_passenger_no_show :: "ride_repository \<Rightarrow> int \<Rightarrow> int \<Rightarrow> ride io" where
  "repo_mark_passenger_no_show repository ride_id driver_id =
     io_bind (validate_native_read_repository repository) (\<lambda>_.
     io_bind (io_lift (to_postgres_ride_id ride_id ''ride id'')) (\<lambda>db_ride_id.
     io_bind (io_lift (to_postgres_ride_id driver_id ''driver id'')) (\<lambda>db_driver_id.
     transaction (
       io_bind (io_map_err (\<lambda>x. if x = NoRows then ErrPassengerNoShowNotReady else x)
         (mark_ride_passenger_no_show (Some db_driver_id) db_ride_id)) (\<lambda>_.
       io_bind new_audit_request_id (\<lambda>request_id.
       io_bind (create_ride_event db_ride_id db_driver_id ''ride.cancelled''
         (status_str RideArrived) (status_str RideCancelled) ''passenger_no_show'' ''passenger_fault''
         ''Driver completed the server-enforced pickup wait.'' request_id) (\<lambda>_.
       io_bind (create_audit_event db_driver_id ''ride.passenger_no_show'' ''ride''
         (Some (itoa ride_id)) ''success'' (request_id @ ''-audit'')) (\<lambda>_.
       read_ride_projection db_ride_id))))))))"

definition cancellation_actor_id :: "ride_status \<Rightarrow> int \<Rightarrow> int option" where
  "cancellation_actor_id status actor_id = (if status \<noteq> RideCancelled then None else Some actor_id)"

definition cancellation_text :: "ride_status \<Rightarrow> string \<Rightarrow> string option" where
  "cancellation_text status value = (if status \<noteq> RideCancelled then None else Some value)"

definition transition_event_type :: "ride_status \<Rightarrow> string \<Rightarrow> string" where
  "transition_event_type status requested =
     (if requested \<noteq> '''' then requested
      else if status = RideCancelled then ''ride.cancelled''
      else ''ride.status_changed'')"

definition repo_update_status ::
  "ride_repository \<Rightarrow> int \<Rightarrow> int \<Rightarrow> string \<Rightarrow> string \<Rightarrow> ride_transition \<Rightarrow> ride io" where
  "repo_update_status repository ride_id actor_id current_status status transition =
     io_bind (validate_native_read_repository repository) (\<lambda>_.
     case (normalize_ride_status current_status, normalize_ride_status status) of
       (Some current, Some nxt) \<Rightarrow>
         io_bind (io_lift (to_postgres_ride_id ride_id ''ride id'')) (\<lambda>db_ride_id.
         io_bind (io_lift (to_postgres_ride_id actor_id ''actor id'')) (\<lambda>db_actor_id.
         io_bind (io_env (\<lambda>e. if is_terminal (status_str nxt) then Some (env_now e) else None)) (\<lambda>completed_at.
         transaction (
           io_bind (update_ride_status (status_str nxt) (cancellation_actor_id nxt db_actor_id)
             (cancellation_text nxt (tr_reason transition))
             (cancellation_text nxt (tr_responsibility transition))
             (cancellation_text nxt (tr_details transition))
             completed_at db_ride_id (status_str current) db_actor_id) (\<lambda>_.
           io_bind (if tr_request_id transition = '''' then new_audit_request_id
                    else io_return (tr_request_id transition)) (\<lambda>request_id.
           io_bind (create_ride_event db_ride_id db_actor_id
             (transition_event_type nxt (tr_event_type transition)) (status_str current)
             (status_str nxt) (tr_reason transition) (tr_responsibility transition)
             (tr_details transition) request_id) (\<lambda>_.
           io_bind (if nxt = RideCancelled
                    then io_bind (create_audit_event db_actor_id
                           (if tr_event_type transition = ''ride.emergency_stopped''
                            then ''ride.emergency_stopped'' else ''ride.cancelled'')
                           ''ride'' (Some (itoa ride_id)) ''success'' (request_id @ ''-audit''))
                         (\<lambda>_. io_return ())
                    else io_return ()) (\<lambda>_.
           read_ride_projection db_ride_id))))))))
     | _ \<Rightarrow> io_throw ErrInvalidStatusTransition)"

section \<open>What a success has changed\<close>

text \<open>
  Every lifecycle command changes one ride, keeps its identity, its parties and its fare, and
  appends one event that records the change, and possibly an audit record.
\<close>

definition lifecycle_effect ::
  "int \<Rightarrow> int \<Rightarrow> ride_row \<Rightarrow> ride_row \<Rightarrow> ride_event_row \<Rightarrow> audit_event_row list \<Rightarrow> world \<Rightarrow> world \<Rightarrow> bool" where
  "lifecycle_effect i actor r r' ev audits w w' \<longleftrightarrow>
     r \<in> set (w_rides w) \<and> r_id r = i \<and> r_id r' = i \<and>
     r_passenger_id r' = r_passenger_id r \<and> r_driver_id r' = r_driver_id r \<and>
     r_fare_amount r' = r_fare_amount r \<and> r_created_at r' = r_created_at r \<and>
     r_bid_session_id r' = r_bid_session_id r \<and>
     r_vehicle_type r' = r_vehicle_type r \<and> r_plate_number r' = r_plate_number r \<and>
     (r_passenger_id r = actor \<or> r_driver_id r = Some actor) \<and>
     ride_violation w r' = None \<and>
     re_ride_id ev = i \<and> re_actor_id ev = actor \<and>
     re_from_status ev = r_status r \<and> re_to_status ev = r_status r' \<and>
     list_all (\<lambda>a. ae_actor_id a = actor \<and> ae_target_id a = Some (itoa i)) audits \<and>
     w' = w\<lparr>w_rides := put_row r_id r' (w_rides w), w_events := w_events w @ [ev],
            w_audits := w_audits w @ audits\<rparr>"

lemma update_ride_Inr:
  assumes "update_ride n p f e w = (Inr y, w')" and "distinct (map r_id (w_rides w))"
    and "\<And>q. p e q \<Longrightarrow> r_id q = i" and "\<And>q. r_id (f e q) = r_id q"
  obtains r where "r \<in> set (w_rides w)" and "r_id r = i" and "p e r" and "y = f e r"
    and "ride_violation w (f e r) = None"
    and "w' = w\<lparr>w_rides := put_row r_id (f e r) (w_rides w)\<rparr>"
proof -
  from assms(1) obtain r where r: "List.find (p e) (w_rides w) = Some r"
    and "ride_violation w (f e r) = None" and "y = f e r"
    and w': "w' = w\<lparr>w_rides := upd_where (p e) (f e) (w_rides w)\<rparr>"
    by (auto simp: update_ride_def io_simps)
  moreover from r have "p e r" "r \<in> set (w_rides w)" by (auto dest: find_SomeD)
  moreover from this(1) have "r_id r = i" by (rule assms(3))
  moreover have "upd_where (p e) (f e) (w_rides w) = put_row r_id (f e r) (w_rides w)"
    using assms r \<open>r_id r = i\<close> by (intro upd_where_put_row) auto
  ultimately show thesis using that by simp
qed

lemma from_postgres_ride_projection_Inr:
  assumes "from_postgres_ride_projection g p = Inr x"
  shows "rd_id x = r_id g" and "rd_status x = r_status g"
    and "rd_passenger_id x = r_passenger_id g"
    and "rd_driver_id x = ride_optional_int (r_driver_id g)"
    and "rd_arrived_at x = r_arrived_at g"
    and "rd_waiting_until x = r_waiting_until g"
    and "rd_cancelled_by x = ride_optional_int (r_cancelled_by g)"
    and "rd_cancellation_reason x = r_cancellation_reason g"
    and "rd_cancellation_responsibility x = r_cancellation_responsibility g"
    and "rd_cancellation_details x = r_cancellation_details g"
    and "rd_fare_amount x = r_fare_amount g"
    and "rd_pickup_latitude x = ride_float_value (r_pickup_latitude g)"
    and "rd_pickup_longitude x = ride_float_value (r_pickup_longitude g)"
proof -
  obtain y where y: "from_postgres_ride g = Inr y"
    and x: "x = y\<lparr>rd_payment_status := (if rp_payment_status p \<noteq> '''' then rp_payment_status p
                                   else rd_payment_status y),
             rd_cash_received_amount := rp_cash_received_amount p,
             rd_cash_change_amount := rp_cash_change_amount p,
             rd_cash_outcome := (if rp_cash_outcome p \<noteq> '''' then rp_cash_outcome p
                                 else rd_cash_outcome y),
             rd_cash_settled := rp_cash_settled p,
             rd_commission_bps := (if rp_commission_bps p \<noteq> None
                                   then rp_commission_bps p else rd_commission_bps y),
             rd_commission_amount := rp_commission_amount p,
             rd_driver_payout_amount := rp_driver_payout_amount p\<rparr>"
    using assms unfolding from_postgres_ride_projection_def by (simp split: sum.splits)
  show "rd_id x = r_id g" "rd_status x = r_status g" "rd_passenger_id x = r_passenger_id g"
    "rd_driver_id x = ride_optional_int (r_driver_id g)" "rd_arrived_at x = r_arrived_at g"
    "rd_waiting_until x = r_waiting_until g" "rd_cancelled_by x = ride_optional_int (r_cancelled_by g)"
    "rd_cancellation_reason x = r_cancellation_reason g"
    "rd_cancellation_responsibility x = r_cancellation_responsibility g"
    "rd_cancellation_details x = r_cancellation_details g"
    "rd_fare_amount x = r_fare_amount g"
    "rd_pickup_latitude x = ride_float_value (r_pickup_latitude g)"
    "rd_pickup_longitude x = ride_float_value (r_pickup_longitude g)"
    using y unfolding x from_postgres_ride_def ride_timestamp_def by (auto split: if_splits)
qed

lemma from_postgres_ride_row_Inr:
  assumes "from_postgres_ride_row g = Inr x"
  shows "rd_id x = r_id (gr_ride g)" and "rd_status x = r_status (gr_ride g)"
    and "rd_passenger_id x = r_passenger_id (gr_ride g)"
    and "rd_driver_id x = ride_optional_int (r_driver_id (gr_ride g))"
    and "rd_arrived_at x = r_arrived_at (gr_ride g)"
    and "rd_waiting_until x = r_waiting_until (gr_ride g)"
    and "rd_cancelled_by x = ride_optional_int (r_cancelled_by (gr_ride g))"
    and "rd_cancellation_reason x = r_cancellation_reason (gr_ride g)"
    and "rd_cancellation_responsibility x = r_cancellation_responsibility (gr_ride g)"
    and "rd_cancellation_details x = r_cancellation_details (gr_ride g)"
    and "rd_fare_amount x = r_fare_amount (gr_ride g)"
    and "rd_pickup_latitude x = ride_float_value (r_pickup_latitude (gr_ride g))"
    and "rd_pickup_longitude x = ride_float_value (r_pickup_longitude (gr_ride g))"
proof -
  obtain p n v l where "from_postgres_ride_with_driver_profile (gr_ride g) p n v l = Inr x"
    using assms unfolding from_postgres_ride_row_def by blast
  then obtain y where y: "from_postgres_ride_projection (gr_ride g) p = Inr y"
    and x: "x = y\<lparr>rd_driver_name := (if rd_driver_name y = '''' then n else rd_driver_name y),
       rd_vehicle_type := (if rd_vehicle_type y = '''' then v else rd_vehicle_type y),
       rd_plate_number := (if rd_plate_number y = '''' then l else rd_plate_number y)\<rparr>"
    unfolding from_postgres_ride_with_driver_profile_def by (auto split: sum.splits)
  note f = from_postgres_ride_projection_Inr [OF y]
  show "rd_id x = r_id (gr_ride g)" "rd_status x = r_status (gr_ride g)"
    "rd_passenger_id x = r_passenger_id (gr_ride g)"
    "rd_driver_id x = ride_optional_int (r_driver_id (gr_ride g))"
    "rd_arrived_at x = r_arrived_at (gr_ride g)" "rd_waiting_until x = r_waiting_until (gr_ride g)"
    "rd_cancelled_by x = ride_optional_int (r_cancelled_by (gr_ride g))"
    "rd_cancellation_reason x = r_cancellation_reason (gr_ride g)"
    "rd_cancellation_responsibility x = r_cancellation_responsibility (gr_ride g)"
    "rd_cancellation_details x = r_cancellation_details (gr_ride g)"
    "rd_fare_amount x = r_fare_amount (gr_ride g)"
    "rd_pickup_latitude x = ride_float_value (r_pickup_latitude (gr_ride g))"
    "rd_pickup_longitude x = ride_float_value (r_pickup_longitude (gr_ride g))"
    unfolding x by (simp_all add: f)
qed

lemma get_ride_by_id_Inr:
  assumes "get_ride_by_id i e w = (Inr g, w')"
  shows "w' = w" and "List.find (\<lambda>r. r_id r = i) (w_rides w) = Some (gr_ride g)"
  using assms by (auto simp: get_ride_by_id_def io_simps Let_def split: option.splits)

lemma read_ride_projection_Inr:
  assumes "read_ride_projection i e w = (Inr x, w')"
  obtains g where "w' = w" and "List.find (\<lambda>r. r_id r = i) (w_rides w) = Some (gr_ride g)"
    and "from_postgres_ride_row g = Inr x"
  using assms get_ride_by_id_Inr that by (fastforce simp: read_ride_projection_def io_simps)

lemma validate_repository_Inr [io_simps]:
  "validate_native_read_repository p e w = (Inr u, w') \<longleftrightarrow> rr_initialized p \<and> w' = w"
  by (auto simp: validate_native_read_repository_def io_simps)

lemma repo_getE:
  assumes "repo_get p i e w = (Inr x, w')"
  obtains g where "w' = w" and "List.find (\<lambda>r. r_id r = i) (w_rides w) = Some (gr_ride g)"
    and "from_postgres_ride_row g = Inr x"
  using assms get_ride_by_id_Inr that by (fastforce simp: repo_get_def io_simps)

lemma read_only_validate [io_class]: "read_only (validate_native_read_repository p)"
  by (auto simp: validate_native_read_repository_def io_class)

lemma read_only_repo_get [io_class]: "read_only (repo_get p i)"
  unfolding repo_get_def get_ride_by_id_def
  by (intro read_only_bind read_only_map_err io_class)

lemma create_ride_event_Inr:
  assumes "create_ride_event i a t f g rs rp d q e w = (Inr ev, w')"
  shows "w' = w\<lparr>w_events := w_events w @ [ev]\<rparr>" and "re_ride_id ev = i" and "re_actor_id ev = a"
    and "re_event_type ev = t" and "re_from_status ev = f" and "re_to_status ev = g"
    and "re_reason ev = rs" and "re_responsibility ev = rp" and "re_request_id ev = q"
    and "re_details ev = d" and "event_violation w ev = None"
  using assms by (auto simp: create_ride_event_def io_simps)

lemma create_audit_event_Inr:
  assumes "create_audit_event a act tt ti oc q e w = (Inr ae, w')"
  shows "w' = w\<lparr>w_audits := w_audits w @ [ae]\<rparr>" and "ae_actor_id ae = a" and "ae_action ae = act"
    and "ae_target_id ae = ti" and "ae_outcome ae = oc" and "ae_request_id ae = q"
  using assms by (auto simp: create_audit_event_def io_simps)

text \<open>The value a command returns is the changed row.\<close>

definition shows_ride :: "ride \<Rightarrow> ride_row \<Rightarrow> bool" where
  "shows_ride x r \<longleftrightarrow> rd_id x = r_id r \<and> rd_status x = r_status r \<and>
     rd_passenger_id x = r_passenger_id r \<and> rd_driver_id x = ride_optional_int (r_driver_id r) \<and>
     rd_fare_amount x = r_fare_amount r \<and> rd_arrived_at x = r_arrived_at r \<and>
     rd_waiting_until x = r_waiting_until r \<and>
     rd_cancelled_by x = ride_optional_int (r_cancelled_by r) \<and>
     rd_cancellation_reason x = r_cancellation_reason r \<and>
     rd_cancellation_responsibility x = r_cancellation_responsibility r \<and>
     rd_cancellation_details x = r_cancellation_details r \<and>
     rd_pickup_latitude x = ride_float_value (r_pickup_latitude r) \<and>
     rd_pickup_longitude x = ride_float_value (r_pickup_longitude r)"

lemma shows_ride_row: "from_postgres_ride_row g = Inr x \<Longrightarrow> shows_ride x (gr_ride g)"
  by (simp add: shows_ride_def from_postgres_ride_row_Inr)

lemma repo_get_shows:
  assumes "repo_get p i e w = (Inr x, w')"
  obtains r where "w' = w" and "r \<in> set (w_rides w)" and "r_id r = i" and "shows_ride x r"
  using assms by (elim repo_getE) (auto dest: find_SomeD shows_ride_row)

lemma read_after_put:
  assumes "read_ride_projection i e v = (Inr x, v')" and "w_rides v = put_row r_id r' (w_rides w)"
    and "distinct (map r_id (w_rides w))" and "r \<in> set (w_rides w)" and "r_id r = i" and "r_id r' = i"
  shows "v' = v" and "shows_ride x r'"
proof -
  from assms(1) obtain g where g: "v' = v" "List.find (\<lambda>r. r_id r = i) (w_rides v) = Some (gr_ride g)"
    "from_postgres_ride_row g = Inr x" by (rule read_ride_projection_Inr)
  moreover have "List.find (\<lambda>r. r_id r = i) (w_rides v) = Some r'"
    using find_put_row [OF assms(3,4), of r'] assms by simp
  ultimately show "v' = v" "shows_ride x r'" by (auto dest: shows_ride_row)
qed

subsection \<open>The lifecycle commands\<close>

lemma new_audit_request_id_Inr [io_simps]:
  "new_audit_request_id e w = (Inr q, w') \<longleftrightarrow> \<not> env_fault e ''rand.Read'' \<and> q = env_request_id e \<and> w' = w"
  by (auto simp: new_audit_request_id_def io_simps)

text \<open>The tail of a command, after the row has been changed.\<close>

lemma lifecycle_tail:
  assumes v: "v = w\<lparr>w_rides := put_row r_id r' (w_rides w)\<rparr>"
    and d: "distinct (map r_id (w_rides w))" and r: "r \<in> set (w_rides w)" "r_id r = i" "r_id r' = i"
    and ev: "create_ride_event i actor t (r_status r) (r_status r') rs rp dt q e v = (Inr ev, v1)"
    and rd: "read_ride_projection i e (v1\<lparr>w_audits := w_audits v1 @ audits\<rparr>) = (Inr x, w')"
    and same: "r_passenger_id r' = r_passenger_id r" "r_driver_id r' = r_driver_id r"
      "r_fare_amount r' = r_fare_amount r" "r_created_at r' = r_created_at r"
      "r_bid_session_id r' = r_bid_session_id r"
      "r_vehicle_type r' = r_vehicle_type r" "r_plate_number r' = r_plate_number r"
    and party: "r_passenger_id r = actor \<or> r_driver_id r = Some actor"
    and vio: "ride_violation w r' = None"
    and la: "list_all (\<lambda>a. ae_actor_id a = actor \<and> ae_target_id a = Some (itoa i)) audits"
  shows "lifecycle_effect i actor r r' ev audits w w' \<and> shows_ride x r'"
proof -
  note E = create_ride_event_Inr [OF ev]
  have "w_rides (v1\<lparr>w_audits := w_audits v1 @ audits\<rparr>) = put_row r_id r' (w_rides w)"
    using v E(1) by simp
  note R = read_after_put [OF rd this d r]
  show ?thesis
    unfolding lifecycle_effect_def using R v E r same party vio la by simp
qed

lemma commit_lifecycle_commandE:
  assumes "commit_lifecycle_command i actor f t act e v = (Inr x, w')"
  obtains ev v1 a where
    "create_ride_event i actor ''ride.status_changed'' (status_str f) (status_str t) '''' '''' ''''
       (env_request_id e) e v = (Inr ev, v1)"
    and "ae_actor_id a = actor" and "ae_target_id a = Some (itoa i)" and "ae_action a = act"
    and "read_ride_projection i e (v1\<lparr>w_audits := w_audits v1 @ [a]\<rparr>) = (Inr x, w')"
  using assms create_audit_event_Inr that
  by (fastforce simp: commit_lifecycle_command_def io_simps)

lemma repo_start_tripE:
  assumes "repo_start_trip p i d e w = (Inr x, w')" and "distinct (map r_id (w_rides w))"
  obtains r ev a where "lifecycle_effect i d r (r\<lparr>r_status := ''in_transit''\<rparr>) ev [a] w w'"
    and "r_driver_id r = Some d" and "r_status r = ''arrived''"
    and "shows_ride x (r\<lparr>r_status := ''in_transit''\<rparr>)"
proof -
  from assms(1) obtain y v where s: "start_ride i (Some d) e w = (Inr y, v)"
    and c: "commit_lifecycle_command i d RideArrived RideInTransit ''ride.started'' e v = (Inr x, w')"
    by (auto simp: repo_start_trip_def io_simps)
  from s obtain r where r: "r \<in> set (w_rides w)" "r_id r = i" "r_driver_id r = Some d"
    "r_status r = ''arrived''" and vio: "ride_violation w (r\<lparr>r_status := ''in_transit''\<rparr>) = None"
    and v: "v = w\<lparr>w_rides := put_row r_id (r\<lparr>r_status := ''in_transit''\<rparr>) (w_rides w)\<rparr>"
    unfolding start_ride_def by (rule update_ride_Inr [OF _ assms(2)]) auto
  from c obtain ev v1 a where t: "create_ride_event i d ''ride.status_changed'' (status_str RideArrived)
      (status_str RideInTransit) '''' '''' '''' (env_request_id e) e v = (Inr ev, v1)"
    "ae_actor_id a = d" "ae_target_id a = Some (itoa i)"
    "read_ride_projection i e (v1\<lparr>w_audits := w_audits v1 @ [a]\<rparr>) = (Inr x, w')"
    by (rule commit_lifecycle_commandE)
  have "lifecycle_effect i d r (r\<lparr>r_status := ''in_transit''\<rparr>) ev [a] w w' \<and>
      shows_ride x (r\<lparr>r_status := ''in_transit''\<rparr>)"
    by (rule lifecycle_tail [OF v assms(2) r(1,2) _ _ t(4)])
      (use r vio t in \<open>simp_all add: status_str.simps\<close>)
  with r that show thesis by blast
qed

lemma repo_complete_tripE:
  assumes "repo_complete_trip p i d e w = (Inr x, w')" and "distinct (map r_id (w_rides w))"
  obtains r r' ev a where "lifecycle_effect i d r r' ev [a] w w'"
    and "r_driver_id r = Some d" and "r_status r = ''in_transit''"
    and "r' = r\<lparr>r_status := ''completed'',
                 r_completed_at := coalesce (r_completed_at r) (Some (env_db_now e))\<rparr>"
    and "shows_ride x r'"
proof -
  from assms(1) obtain y v where s: "complete_ride i (Some d) e w = (Inr y, v)"
    and c: "commit_lifecycle_command i d RideInTransit RideCompleted ''ride.completed'' e v = (Inr x, w')"
    by (auto simp: repo_complete_trip_def io_simps)
  let ?f = "\<lambda>r. r\<lparr>r_status := ''completed'',
                 r_completed_at := coalesce (r_completed_at r) (Some (env_db_now e))\<rparr>"
  from s obtain r where r: "r \<in> set (w_rides w)" "r_id r = i" "r_driver_id r = Some d"
    "r_status r = ''in_transit''" and vio: "ride_violation w (?f r) = None"
    and v: "v = w\<lparr>w_rides := put_row r_id (?f r) (w_rides w)\<rparr>"
    unfolding complete_ride_def by (rule update_ride_Inr [OF _ assms(2)]) auto
  from c obtain ev v1 a where t: "create_ride_event i d ''ride.status_changed'' (status_str RideInTransit)
      (status_str RideCompleted) '''' '''' '''' (env_request_id e) e v = (Inr ev, v1)"
    "ae_actor_id a = d" "ae_target_id a = Some (itoa i)"
    "read_ride_projection i e (v1\<lparr>w_audits := w_audits v1 @ [a]\<rparr>) = (Inr x, w')"
    by (rule commit_lifecycle_commandE)
  have "lifecycle_effect i d r (?f r) ev [a] w w' \<and> shows_ride x (?f r)"
    by (rule lifecycle_tail [OF v assms(2) r(1,2) _ _ t(4)])
      (use r vio t in \<open>simp_all add: status_str.simps\<close>)
  with r that show thesis by blast
qed

lemma repo_mark_arrivedE:
  assumes "repo_mark_arrived p i d cur wait e w = (Inr x, w')" and "distinct (map r_id (w_rides w))"
  obtains r r' ev secs where "lifecycle_effect i d r r' ev [] w w'"
    and "r_driver_id r = Some d" and "r_status r = ''assigned'' \<or> r_status r = ''accepted''"
    and "to_postgres_wait_seconds wait = Inr secs"
    and "r' = r\<lparr>r_status := ''arrived'',
               r_arrived_at := coalesce (r_arrived_at r) (Some (env_db_now e)),
               r_waiting_until := coalesce (r_waiting_until r)
                 (Some (env_db_now e + secs * second))\<rparr>"
    and "shows_ride x r'"
proof -
  from assms(1) obtain st where n: "normalize_ride_status cur = Some st"
    and st: "st = RideAssigned \<or> st = RideAccepted"
    by (auto simp: repo_mark_arrived_def io_simps split: option.splits if_splits)
  from assms(1) n st obtain secs y v ev v1 where secs: "to_postgres_wait_seconds wait = Inr secs"
    and s: "mark_ride_arrived secs i (Some d) (status_str st) e w = (Inr y, v)"
    and t: "create_ride_event i d ''ride.status_changed'' (status_str st)
      (status_str RideArrived) '''' '''' '''' (env_request_id e) e v = (Inr ev, v1)"
    "read_ride_projection i e v1 = (Inr x, w')"
    by (elim disjE; fastforce simp: repo_mark_arrived_def io_simps)
  let ?f = "\<lambda>r. r\<lparr>r_status := ''arrived'',
               r_arrived_at := coalesce (r_arrived_at r) (Some (env_db_now e)),
               r_waiting_until := coalesce (r_waiting_until r)
                 (Some (env_db_now e + secs * second))\<rparr>"
  from s obtain r where r: "r \<in> set (w_rides w)" "r_id r = i" "r_driver_id r = Some d"
    "r_status r = status_str st" and vio: "ride_violation w (?f r) = None"
    and v: "v = w\<lparr>w_rides := put_row r_id (?f r) (w_rides w)\<rparr>"
    unfolding mark_ride_arrived_def by (rule update_ride_Inr [OF _ assms(2)]) auto
  have "lifecycle_effect i d r (?f r) ev [] w w' \<and> shows_ride x (?f r)"
    by (rule lifecycle_tail [OF v assms(2) r(1,2)])
      (use r vio t in \<open>simp_all add: status_str.simps\<close>)
  moreover have "r_status r = ''assigned'' \<or> r_status r = ''accepted''"
    using r st by (auto simp: status_str.simps)
  ultimately show thesis using r secs that by blast
qed

lemma repo_mark_passenger_no_showE:
  assumes "repo_mark_passenger_no_show p i d e w = (Inr x, w')" and "distinct (map r_id (w_rides w))"
  obtains r r' ev a until where "lifecycle_effect i d r r' ev [a] w w'"
    and "r_driver_id r = Some d" and "r_status r = ''arrived''"
    and "r_waiting_until r = Some until" and "until \<le> env_db_now e"
    and "r' = r\<lparr>r_status := ''cancelled'', r_completed_at := Some (env_db_now e),
               r_cancelled_by := Some d, r_cancellation_reason := ''passenger_no_show'',
               r_cancellation_responsibility := ''passenger_fault'',
               r_cancellation_details := ''Driver completed the server-enforced pickup wait.'',
               r_arrived_at := coalesce (r_arrived_at r) (Some (env_db_now e))\<rparr>"
    and "shows_ride x r'"
proof -
  from assms(1) obtain y v ev v1 a v2 where
    s: "mark_ride_passenger_no_show (Some d) i e w = (Inr y, v)"
    and t: "create_ride_event i d ''ride.cancelled'' (status_str RideArrived)
      (status_str RideCancelled) ''passenger_no_show'' ''passenger_fault''
         ''Driver completed the server-enforced pickup wait.'' (env_request_id e) e v = (Inr ev, v1)"
    and a: "create_audit_event d ''ride.passenger_no_show'' ''ride'' (Some (itoa i)) ''success''
      (env_request_id e @ ''-audit'') e v1 = (Inr a, v2)"
    and rd: "read_ride_projection i e v2 = (Inr x, w')"
    by (auto simp: repo_mark_passenger_no_show_def io_simps)
  let ?f = "\<lambda>r. r\<lparr>r_status := ''cancelled'', r_completed_at := Some (env_db_now e),
               r_cancelled_by := Some d, r_cancellation_reason := ''passenger_no_show'',
               r_cancellation_responsibility := ''passenger_fault'',
               r_cancellation_details := ''Driver completed the server-enforced pickup wait.'',
               r_arrived_at := coalesce (r_arrived_at r) (Some (env_db_now e)),
               r_waiting_until := coalesce (r_waiting_until r) (Some (env_db_now e))\<rparr>"
  from s obtain r where r: "r \<in> set (w_rides w)" "r_id r = i" "r_driver_id r = Some d"
    "r_status r = ''arrived''" "case r_waiting_until r of None \<Rightarrow> False | Some t \<Rightarrow> t \<le> env_db_now e"
    and vio: "ride_violation w (?f r) = None"
    and v: "v = w\<lparr>w_rides := put_row r_id (?f r) (w_rides w)\<rparr>"
    unfolding mark_ride_passenger_no_show_def by (rule update_ride_Inr [OF _ assms(2)]) auto
  note A = create_audit_event_Inr [OF a]
  have "lifecycle_effect i d r (?f r) ev [a] w w' \<and> shows_ride x (?f r)"
    by (rule lifecycle_tail [OF v assms(2) r(1,2) _ _ rd [unfolded A(1)]])
      (use r vio t A in \<open>simp_all add: status_str.simps\<close>)
  moreover from r(5) obtain until where u: "r_waiting_until r = Some until" "until \<le> env_db_now e"
    by (auto split: option.splits)
  moreover from u have "?f r = r\<lparr>r_status := ''cancelled'', r_completed_at := Some (env_db_now e),
               r_cancelled_by := Some d, r_cancellation_reason := ''passenger_no_show'',
               r_cancellation_responsibility := ''passenger_fault'',
               r_cancellation_details := ''Driver completed the server-enforced pickup wait.'',
               r_arrived_at := coalesce (r_arrived_at r) (Some (env_db_now e))\<rparr>"
    by simp
  ultimately show thesis using r that by metis
qed

lemma repo_update_statusE:
  assumes "repo_update_status p i actor cur nxt t e w = (Inr x, w')" and "distinct (map r_id (w_rides w))"
  obtains r r' ev audits current new where "lifecycle_effect i actor r r' ev audits w w'"
    and "normalize_ride_status cur = Some current" and "normalize_ride_status nxt = Some new"
    and "r_status r = status_str current" and "re_event_type ev = transition_event_type new (tr_event_type t)"
    and "re_reason ev = tr_reason t" and "re_responsibility ev = tr_responsibility t"
    and "re_details ev = tr_details t" and "rune_count (tr_details t) \<le> 500"
    and "r' = r\<lparr>r_status := status_str new,
               r_cancelled_by := (if new = RideCancelled then Some actor else r_cancelled_by r),
               r_cancellation_reason :=
                 (if new = RideCancelled then tr_reason t else r_cancellation_reason r),
               r_cancellation_responsibility :=
                 (if new = RideCancelled then tr_responsibility t else r_cancellation_responsibility r),
               r_cancellation_details :=
                 (if new = RideCancelled then tr_details t else r_cancellation_details r),
               r_completed_at := (if is_terminal (status_str new) then Some (env_now e) else r_completed_at r)\<rparr>"
    and "new = RideCancelled \<longrightarrow> length audits = 1"
    and "shows_ride x r'"
proof -
  from assms(1) obtain current new where
    n: "normalize_ride_status cur = Some current" "normalize_ride_status nxt = Some new"
    by (auto simp: repo_update_status_def io_simps split: option.splits)
  from assms(1) obtain y v q v0 ev v1 v2 u where
    s: "update_ride_status (status_str new) (cancellation_actor_id new actor)
             (cancellation_text new (tr_reason t)) (cancellation_text new (tr_responsibility t))
             (cancellation_text new (tr_details t))
             (if is_terminal (status_str new) then Some (env_now e) else None) i (status_str current) actor e w
            = (Inr y, v)"
    and ev: "create_ride_event i actor (transition_event_type new (tr_event_type t)) (status_str current)
             (status_str new) (tr_reason t) (tr_responsibility t) (tr_details t) q e v0 = (Inr ev, v1)"
    and q: "(if tr_request_id t = '''' then new_audit_request_id else io_return (tr_request_id t)) e v = (Inr q, v0)"
    and a: "(if new = RideCancelled
             then io_bind (create_audit_event actor
                     (if tr_event_type t = ''ride.emergency_stopped''
                      then ''ride.emergency_stopped'' else ''ride.cancelled'')
                     ''ride'' (Some (itoa i)) ''success'' (q @ ''-audit'')) (\<lambda>_. io_return ())
             else io_return ()) e v1 = (Inr u, v2)"
    and rd: "read_ride_projection i e v2 = (Inr x, w')"
    unfolding repo_update_status_def n prod.case option.case
    by (simp only: io_bind_Inr transaction_Inr validate_repository_Inr io_lift_eq io_env_eq
        to_postgres_ride_id_Inr) blast
  from q have v0: "v0 = v" by (simp add: io_simps split: if_splits)
  note ev = ev [unfolded v0]
  let ?f = "\<lambda>r. r\<lparr>r_status := status_str new,
               r_cancelled_by := (if new = RideCancelled then Some actor else r_cancelled_by r),
               r_cancellation_reason :=
                 (if new = RideCancelled then tr_reason t else r_cancellation_reason r),
               r_cancellation_responsibility :=
                 (if new = RideCancelled then tr_responsibility t else r_cancellation_responsibility r),
               r_cancellation_details :=
                 (if new = RideCancelled then tr_details t else r_cancellation_details r),
               r_completed_at := (if is_terminal (status_str new) then Some (env_now e) else r_completed_at r)\<rparr>"
  have f: "r\<lparr>r_status := status_str new,
               r_cancelled_by := coalesce (cancellation_actor_id new actor) (r_cancelled_by r),
               r_cancellation_reason := coalesce_to (cancellation_text new (tr_reason t)) (r_cancellation_reason r),
               r_cancellation_responsibility :=
                 coalesce_to (cancellation_text new (tr_responsibility t)) (r_cancellation_responsibility r),
               r_cancellation_details := coalesce_to (cancellation_text new (tr_details t)) (r_cancellation_details r),
               r_completed_at := coalesce (if is_terminal (status_str new) then Some (env_now e) else None)
                 (r_completed_at r)\<rparr> = ?f r" for r
    by (simp add: cancellation_actor_id_def cancellation_text_def)
  from s obtain r where r: "r \<in> set (w_rides w)" "r_id r = i" "r_status r = status_str current"
    "r_passenger_id r = actor \<or> r_driver_id r = Some actor" and vio: "ride_violation w (?f r) = None"
    and v: "v = w\<lparr>w_rides := put_row r_id (?f r) (w_rides w)\<rparr>"
    unfolding update_ride_status_def f by (rule update_ride_Inr [OF _ assms(2)]) auto
  from a create_audit_event_Inr obtain audits where
    au: "v2 = v1\<lparr>w_audits := w_audits v1 @ audits\<rparr>"
      "list_all (\<lambda>a. ae_actor_id a = actor \<and> ae_target_id a = Some (itoa i)) audits"
      "new = RideCancelled \<longrightarrow> length audits = 1"
  proof (cases "new = RideCancelled")
    case True
    with a obtain ae where "create_audit_event actor
                     (if tr_event_type t = ''ride.emergency_stopped''
                      then ''ride.emergency_stopped'' else ''ride.cancelled'')
                     ''ride'' (Some (itoa i)) ''success'' (q @ ''-audit'') e v1 = (Inr ae, v2)"
      by (auto simp: io_simps)
    from create_audit_event_Inr [OF this] show thesis by (intro that [of "[ae]"]) simp_all
  next
    case False
    with a show thesis by (intro that [of "[]"]) (simp_all add: io_simps)
  qed
  note E = create_ride_event_Inr [OF ev]
  have "lifecycle_effect i actor r (?f r) ev audits w w' \<and> shows_ride x (?f r)"
    by (rule lifecycle_tail [OF v assms(2) r(1,2) _ _ rd [unfolded au(1)]])
      (use r vio ev au in simp_all)
  moreover have "rune_count (tr_details t) \<le> 500"
    using E(10,11) by (simp add: event_violation_def split: if_splits)
  ultimately show thesis
    using n r E au(3) by (intro that [of r "?f r" ev audits current new]) simp_all
qed

subsection \<open>Acceptance and creation\<close>

lemma accept_ride_transactionE:
  assumes "accept_ride_transaction p i d e w = (Inr (r', st), w')" and "distinct (map r_id (w_rides w))"
  obtains r prof ss where "r \<in> set (w_rides w)" and "r_id r = i" and "r_status r = ''requested''"
    and "prof \<in> set (w_driver_profiles w)"
    and "online_driver w d (rr_allow_unverified_test_drivers p)
      (env_now e - (if rr_online_presence_max_age p \<le> 0 then default_online_presence_max_age
                    else rr_online_presence_max_age p)) prof"
    and "count_where (driver_active_ride (Some d)) (w_rides w) < max_active_rides_per_driver"
    and "new_settlement_snapshot (r_fare_amount r) (rr_platform_commission_bps p) = Inr ss"
    and "r' = assign_driver ''accepted'' (Some d) (Some (dp_name prof)) (Some (dp_vehicle_type prof))
               (Some (dp_plate_number prof)) (ride_rating (dp_rating prof)) r"
    and "ride_violation w r' = None"
    and "st_ride_id st = i" and "st_gross_fare st = ss_fare_amount ss"
    and "st_commission_bps st = Some (wrap32 (ss_commission_bps ss))"
    and "st_commission_amount st = ss_commission_amount ss"
    and "st_driver_payout_amount st = ss_driver_payout_amount ss"
    and "st_payment_status st = ''unpaid''" and "st_cash_outcome st = ''unpaid''"
    and "st_cash_received_amount st = 0" and "st_cash_change_amount st = 0" and "st_settled_at st = None"
    and "\<not> exists_where (\<lambda>q. st_id q = st_id st) (w_settlements w)"
    and "settlement_violation (w\<lparr>w_rides := put_row r_id r' (w_rides w)\<rparr>) st = None"
    and "w' = w\<lparr>w_rides := put_row r_id r' (w_rides w), w_settlements := w_settlements w @ [st]\<rparr>"
proof -
  let ?cut = "env_now e - (if rr_online_presence_max_age p \<le> 0 then default_online_presence_max_age
                    else rr_online_presence_max_age p)"
  from assms(1) obtain prof r ss v where
    l: "lock_online_driver_profile_for_bidding d (rr_allow_unverified_test_drivers p) ?cut e w = (Inr prof, w)"
    and c: "count_where (driver_active_ride (Some (dp_user_id prof))) (w_rides w) < max_active_rides_per_driver"
    and r: "List.find (\<lambda>r. r_id r = i \<and> r_status r = ''requested'') (w_rides w) = Some r"
    and ss: "new_settlement_snapshot (r_fare_amount r) (rr_platform_commission_bps p) = Inr ss"
    and a: "accept_ride_from_request (r_id r) (Some (dp_user_id prof)) (Some (dp_name prof))
         (Some (dp_vehicle_type prof)) (Some (dp_plate_number prof)) (ride_rating (dp_rating prof)) e w
         = (Inr r', v)"
    and s: "create_ride_settlement (r_id r') (ss_fare_amount ss) (Some (wrap32 (ss_commission_bps ss)))
         (ss_commission_amount ss) (ss_driver_payout_amount ss) e v = (Inr st, w')"
    by (auto simp: accept_ride_transaction_def io_simps online_presence_cutoff_def Let_def
        lock_online_driver_profile_for_bidding_def count_active_rides_for_acceptance_def
        lock_requested_ride_for_acceptance_def split: if_splits)
  from l have o: "online_driver w d (rr_allow_unverified_test_drivers p) ?cut prof"
    "prof \<in> set (w_driver_profiles w)"
    by (auto simp: lock_online_driver_profile_for_bidding_def io_simps dest: find_SomeD)
  then have d: "dp_user_id prof = d" by (simp add: online_driver_def)
  from r have r2: "r \<in> set (w_rides w)" "r_id r = i" "r_status r = ''requested''"
    by (auto dest: find_SomeD)
  let ?f = "assign_driver ''accepted'' (Some d) (Some (dp_name prof)) (Some (dp_vehicle_type prof))
               (Some (dp_plate_number prof)) (ride_rating (dp_rating prof))"
  from a [unfolded d] obtain q where q: "q \<in> set (w_rides w)" "r_id q = i" "r' = ?f q"
    "ride_violation w (?f q) = None" "v = w\<lparr>w_rides := put_row r_id (?f q) (w_rides w)\<rparr>"
    unfolding accept_ride_from_request_def
    by (rule update_ride_Inr [OF _ assms(2)]) (auto simp: assign_driver_def r2)
  have "q = r" using distinct_key_inj [OF assms(2) q(1) r2(1)] q(2) r2(2) by simp
  with q have r': "r' = ?f r" and vio: "ride_violation w r' = None"
    and v: "v = w\<lparr>w_rides := put_row r_id r' (w_rides w)\<rparr>" by simp_all
  have "r_id r' = i" using r' r2 by (simp add: assign_driver_def)
  with s v have "st_ride_id st = i" "st_gross_fare st = ss_fare_amount ss"
    "st_commission_bps st = Some (wrap32 (ss_commission_bps ss))"
    "st_commission_amount st = ss_commission_amount ss"
    "st_driver_payout_amount st = ss_driver_payout_amount ss"
    "st_payment_status st = ''unpaid''" "st_cash_outcome st = ''unpaid''"
    "st_cash_received_amount st = 0" "st_cash_change_amount st = 0" "st_settled_at st = None"
    "\<not> exists_where (\<lambda>q. st_id q = st_id st) (w_settlements w)"
    "settlement_violation (w\<lparr>w_rides := put_row r_id r' (w_rides w)\<rparr>) st = None"
    "w' = w\<lparr>w_rides := put_row r_id r' (w_rides w), w_settlements := w_settlements w @ [st]\<rparr>"
    by (auto simp: create_ride_settlement_def io_simps)
  with r2 o c ss r' vio show thesis by (intro that [of r prof ss]) (simp_all add: d)
qed

lemma repo_create_rideE:
  assumes "repo_create_ride p v e w = (Inr x, w')"
  obtains row v1 where "0 < rd_passenger_id v" and "0 < rd_fare_amount v"
    and "rd_status v = '''' \<or> normalize_ride_status (rd_status v) = Some RideRequested"
    and "expire_bid_sessions (rd_passenger_id v) (env_now e) e w = (Inr (), v1)"
    and "\<not> exists_where (\<lambda>s. s_passenger_id s = rd_passenger_id v \<and> session_live (env_now e) s) (w_sessions v1)"
    and "\<not> exists_where (\<lambda>r. r_passenger_id r = rd_passenger_id v \<and>
            r_status r \<in> set passenger_active_statuses) (w_rides v1)"
    and "r_id row = env_nextval e ''rides''" and "r_passenger_id row = rd_passenger_id v"
    and "r_status row = ''requested''" and "r_driver_id row = None"
    and "r_fare_amount row = rd_fare_amount v" and "r_created_at row = Some (env_db_now e)"
    and "r_bid_session_id row = None"
    and "r_booking_reference row = env_booking_reference e"
    and "env_booking_reference e \<notin> set (w_booking_references v1)"
    and "r_pickup_latitude row = Some (rd_pickup_latitude v)"
    and "r_pickup_longitude row = Some (rd_pickup_longitude v)"
    and "r_dropoff_latitude row = Some (rd_dropoff_latitude v)"
    and "r_dropoff_longitude row = Some (rd_dropoff_longitude v)"
    and "\<not> exists_where (\<lambda>q. r_id q = r_id row) (w_rides v1)"
    and "ride_violation (v1\<lparr>w_booking_references := w_booking_references v1 @ [env_booking_reference e]\<rparr>) row = None"
    and "w' = v1\<lparr>w_booking_references := w_booking_references v1 @ [env_booking_reference e],
                 w_rides := w_rides v1 @ [row]\<rparr>"
    and "from_postgres_ride row = Inr x"
proof -
  let ?q = "create_ride (rd_passenger_id v) (status_str RideRequested) (rd_fare_amount v)
                  (Some (rd_pickup_latitude v)) (Some (rd_pickup_longitude v))
                  (Some (rd_pickup_name v)) (Some (rd_dropoff_latitude v))
                  (Some (rd_dropoff_longitude v)) (Some (rd_dropoff_name v))
                  (Some (rd_distance_km v)) (Some (rd_duration_minutes v))"
  from assms have g: "0 < rd_passenger_id v" "0 < rd_fare_amount v"
    "rd_status v = '''' \<or> normalize_ride_status (rd_status v) = Some RideRequested"
    by (auto simp: repo_create_ride_def io_simps Let_def split: if_splits)
  from assms obtain u v0 v1 row where
    ex: "expire_bid_sessions (rd_passenger_id v) (env_now e) e w = (Inr (), v1)"
    and s: "\<not> exists_where (\<lambda>s. s_passenger_id s = rd_passenger_id v \<and> session_live (env_now e) s) (w_sessions v1)"
    and r: "\<not> exists_where (\<lambda>r. r_passenger_id r = rd_passenger_id v \<and>
            r_status r \<in> set passenger_active_statuses) (w_rides v1)"
    and c: "?q e v1 = (Inr row, w')" and x: "from_postgres_ride row = Inr x"
    by (auto simp: repo_create_ride_def io_simps Let_def lock_user_for_bid_session_def
        has_active_bid_session_def has_active_passenger_ride_def split: if_splits)
  show thesis
    by (rule that [OF g ex s r _ _ _ _ _ _ _ _ _ _ _ _ _ _ _ _ x])
      (use c in \<open>auto simp: create_ride_def allocate_booking_reference_def insert_ride_def io_simps
        status_str.simps split: if_splits\<close>)
qed

section \<open>Well-formed worlds\<close>

text \<open>
  What the schema's primary keys, unique indexes and NOT NULL columns say of every table the
  commands work on.
\<close>

definition schema_ok :: "world \<Rightarrow> bool" where
  "schema_ok w \<longleftrightarrow>
     distinct (map r_id (w_rides w)) \<and> list_all (\<lambda>r. r_created_at r \<noteq> None) (w_rides w) \<and>
     distinct (map st_id (w_settlements w)) \<and> distinct (map st_ride_id (w_settlements w)) \<and>
     distinct (map wa_id (w_accounts w)) \<and> distinct (map wa_driver_id (w_accounts w)) \<and>
     distinct (map wl_idempotency_key (w_ledgers w)) \<and>
     distinct (map s_id (w_sessions w)) \<and> list_all (\<lambda>s. s_created_at s \<noteq> None \<and> s_expires_at s \<noteq> None) (w_sessions w) \<and>
     distinct (map of_id (w_offers w)) \<and> list_all (\<lambda>b. of_created_at b \<noteq> None) (w_offers w)"

lemma schema_okD:
  assumes "schema_ok w"
  shows "distinct (map r_id (w_rides w))" and "list_all (\<lambda>r. r_created_at r \<noteq> None) (w_rides w)"
    and "distinct (map st_id (w_settlements w))" and "distinct (map st_ride_id (w_settlements w))"
    and "distinct (map wa_id (w_accounts w))" and "distinct (map wa_driver_id (w_accounts w))"
    and "distinct (map wl_idempotency_key (w_ledgers w))"
    and "distinct (map s_id (w_sessions w))"
    and "list_all (\<lambda>s. s_created_at s \<noteq> None \<and> s_expires_at s \<noteq> None) (w_sessions w)"
    and "distinct (map of_id (w_offers w))" and "list_all (\<lambda>b. of_created_at b \<noteq> None) (w_offers w)"
  using assms by (simp_all add: schema_ok_def)

lemma from_postgres_ride_projection_Inl:
  "from_postgres_ride_projection r p = Inl x \<Longrightarrow> r_created_at r = None"
  by (auto simp: from_postgres_ride_projection_def from_postgres_ride_def split: if_splits)

lemma repo_accept_ride_atomic:
  assumes "schema_ok w" and "repo_accept_ride p i d e w = (Inl x, w')"
  shows "w' = w"
proof -
  have "r_created_at r' \<noteq> None"
    if t: "accept_ride_transaction p i d e w = (Inr (r', st), v)" for r' st v
    using t schema_okD(1) [OF assms(1)]
  proof (rule accept_ride_transactionE)
    fix r prof ss
    assume "r \<in> set (w_rides w)" "r' = assign_driver ''accepted'' (Some d) (Some (dp_name prof))
      (Some (dp_vehicle_type prof)) (Some (dp_plate_number prof)) (ride_rating (dp_rating prof)) r"
    with schema_okD(2) [OF assms(1)] show "r_created_at r' \<noteq> None"
      by (auto simp: assign_driver_def list_all_iff)
  qed
  with assms(2) show ?thesis
    unfolding repo_accept_ride_def
    by (auto simp: io_bind_Inl io_simps validate_native_read_repository_def split: if_splits
        dest: transaction_Inl from_postgres_ride_projection_Inl)
qed

text \<open>The other commands map the row inside their transaction.\<close>

lemma atomic_lifecycle_commands [io_class]:
  "atomic (repo_start_trip p i d)" "atomic (repo_complete_trip p i d)"
  "atomic (repo_mark_arrived p i d cur wait)" "atomic (repo_mark_passenger_no_show p i d)"
  "atomic (repo_update_status p i d cur nxt t)"
  unfolding repo_start_trip_def repo_complete_trip_def repo_mark_arrived_def
    repo_mark_passenger_no_show_def repo_update_status_def
  by (auto intro!: atomic_bind_read_only io_class split: option.splits prod.splits)

lemma repo_create_ride_atomic:
  assumes "repo_create_ride p v e w = (Inl x, w')"
  shows "w' = w"
proof -
  have "\<exists>t. r_created_at row = Some t"
    if "create_ride a b c d e' f g h i j k e v1 = (Inr row, v2)" for a b c d e' f g h i j k row v1 v2
    using that by (auto simp: create_ride_def insert_ride_def io_simps)
  note this [dest]
  from assms show ?thesis
    unfolding repo_create_ride_def
    by (auto simp: io_bind_Inl io_simps validate_native_read_repository_def Let_def from_postgres_ride_def
        split: if_splits dest: transaction_Inl)
qed

end
