(* ===== verification/Sample_World.thy ===== *)
theory Sample_World
  imports Ride_Store
begin

text \<open>
  A small concrete database for the witnesses: passenger 1, driver 2 with an active, verified
  account and a recent heartbeat, and ride 10 of the passenger, in a status and with a driver
  of choice.
\<close>

definition sample_users :: "user_row list" where
  "sample_users =
     [\<lparr>u_id = 1, u_name = Some ''Ana'', u_phone = ''1'', u_email = ''a'', u_password_hash = ''x'',
       u_role = ''passenger'', u_is_verified = True, u_account_status = ''active'',
       u_created_at = Some 0, u_updated_at = Some 0\<rparr>,
      \<lparr>u_id = 2, u_name = Some ''Ben'', u_phone = ''2'', u_email = ''b'', u_password_hash = ''x'',
       u_role = ''driver'', u_is_verified = True, u_account_status = ''active'',
       u_created_at = Some 0, u_updated_at = Some 0\<rparr>]"

definition sample_profile :: driver_profile_row where
  "sample_profile =
     \<lparr>dp_id = 1, dp_user_id = 2, dp_name = ''Ben'', dp_vehicle_type = ''Bao'',
      dp_plate_number = ''B1'', dp_rating = Fin 5, dp_is_online = True,
      dp_online_last_seen_at = Some (990 * second), dp_created_at = Some 0, dp_updated_at = Some 0\<rparr>"

definition sample_ride :: "string \<Rightarrow> int option \<Rightarrow> ride_row" where
  "sample_ride status driver =
     \<lparr>r_id = 10, r_booking_reference = ''7'', r_passenger_id = 1, r_driver_id = driver,
      r_status = status, r_fare_amount = 10000, r_ride_type = ''Solo Ride'',
      r_pickup_latitude = Some (Fin 14), r_pickup_longitude = Some (Fin 121),
      r_pickup_name = Some ''A'', r_dropoff_latitude = Some (Fin 15),
      r_dropoff_longitude = Some (Fin 121), r_dropoff_name = Some ''B'',
      r_distance_km = Some (Fin 2), r_duration_minutes = Some (Fin 5),
      r_driver_name = None, r_vehicle_type = None, r_plate_number = None, r_driver_rating = None,
      r_created_at = Some (900 * second), r_completed_at = None,
      r_arrived_at = (if status = ''arrived'' then Some (950 * second) else None),
      r_waiting_until = (if status = ''arrived'' then Some (999 * second) else None),
      r_cancelled_by = None, r_cancellation_reason = '''', r_cancellation_responsibility = '''',
      r_cancellation_details = '''', r_bid_session_id = None\<rparr>"

definition sample_settlement :: settlement_row where
  "sample_settlement =
     \<lparr>st_id = 20, st_ride_id = 10, st_gross_fare = 10000, st_commission_bps = Some 1500,
      st_commission_amount = 1500, st_driver_payout_amount = 8500, st_payment_status = ''unpaid'',
      st_cash_received_at = None, st_cash_received_amount = 0, st_cash_change_amount = 0,
      st_cash_outcome = ''unpaid'', st_settled_at = None, st_created_at = Some (900 * second),
      st_updated_at = Some (900 * second)\<rparr>"

definition sample_world :: "ride_row list \<Rightarrow> settlement_row list \<Rightarrow> world" where
  "sample_world rides settlements =
     empty_world\<lparr>w_users := sample_users, w_driver_profiles := [sample_profile],
       w_rides := rides, w_settlements := settlements, w_booking_references := [''7'']\<rparr>"

definition sample_env :: env where
  "sample_env =
     \<lparr>env_now = 1000 * second, env_db_now = 1000 * second, env_nextval = (\<lambda>_. 100),
      env_booking_reference = ''8'', env_request_id = ''q'', env_random = (\<lambda>_. ''''), env_fault = (\<lambda>_. False)\<rparr>"

definition sample_repository :: ride_repository where
  "sample_repository =
     \<lparr>rr_initialized = True, rr_platform_commission_bps = 1500, rr_online_presence_max_age = 0,
      rr_allow_unverified_test_drivers = False\<rparr>"

lemmas sample_defs =
  sample_users_def sample_profile_def sample_ride_def sample_settlement_def sample_world_def
  sample_env_def sample_repository_def empty_world_def second_def

lemma sample_schema_ok [simp]:
  "schema_ok (sample_world [sample_ride st d] [])"
  "schema_ok (sample_world [sample_ride st d] [sample_settlement])"
  "schema_ok (sample_world [] [])"
  by (simp_all add: schema_ok_def sample_defs)

end
