(* ===== verification/Cash_Store.thy ===== *)
theory Cash_Store
  imports Ride_Store
begin

text \<open>
  Recording what a driver collected (\<open>ride/adapter/postgres/settlement_store.go\<close>): one
  transaction that reads the completed ride and its settlement, repairs missing commission
  terms, recognises a repetition, validates the cash, writes the ledger entry and the wallet
  credit, and marks the outcome.
\<close>

definition cash_settlement_matches_record :: "settlement_row \<Rightarrow> cash_settlement_request \<Rightarrow> bool" where
  "cash_settlement_matches_record item request \<longleftrightarrow>
     st_cash_outcome item = cs_outcome request \<and>
     st_cash_received_amount item = cs_received_amount request \<and>
     st_cash_change_amount item = cs_change_amount request"

definition ensure_native_ride_settlement ::
  "ride_repository \<Rightarrow> ride_row \<Rightarrow> (settlement_row \<times> settlement_snapshot) io" where
  "ensure_native_ride_settlement repository ride_item =
     io_bind (get_ride_settlement_by_ride_id (r_id ride_item)) (\<lambda>settlement_record.
     let commission_bps =
           (case st_commission_bps settlement_record of
              Some bps \<Rightarrow> bps | None \<Rightarrow> rr_platform_commission_bps repository)
     in
       io_bind (io_lift (new_settlement_snapshot (r_fare_amount ride_item) commission_bps)) (\<lambda>settlement.
       if st_gross_fare settlement_record \<noteq> ss_fare_amount settlement then io_throw ErrInvalidSettlement
       else
         io_bind
           (if st_commission_bps settlement_record = None \<and> st_payment_status settlement_record \<noteq> ''paid''
            then update_ride_settlement_economics (Some (wrap32 (ss_commission_bps settlement)))
                   (ss_commission_amount settlement) (ss_driver_payout_amount settlement)
                   (st_id settlement_record)
            else io_return settlement_record) (\<lambda>settlement_record.
         io_return (settlement_record, settlement))))"

definition credit_native_driver_wallet :: "int \<Rightarrow> int \<Rightarrow> unit io" where
  "credit_native_driver_wallet driver_user_id amount =
     io_bind
       (io_try (get_driver_wallet_account_for_update driver_user_id) (\<lambda>r.
          if r = Inl NoRows then create_driver_wallet_account driver_user_id 0 else io_lift r)) (\<lambda>account.
     io_bind (credit_driver_wallet_account (wa_id account) amount) (\<lambda>_.
     io_return ()))"

definition cash_ledger_key :: "int \<Rightarrow> string" where
  "cash_ledger_key ride_id = ''ride:'' @ itoa ride_id @ '':cash-settlement''"

definition record_cash_credit :: "int \<Rightarrow> ride_row \<Rightarrow> driver_profile_row \<Rightarrow> cash_settlement \<Rightarrow> unit io" where
  "record_cash_credit db_driver_id ride_item profile validated =
     (if ss_driver_payout_amount (cash_snapshot validated) > 0
      then
        io_bind (create_wallet_ledger db_driver_id (r_id ride_item)
          (ss_driver_payout_amount (cash_snapshot validated))
          (ss_commission_amount (cash_snapshot validated))
          (if cash_outcome validated = ''partial'' then ''cash_trip_partial'' else ''cash_trip'')
          (cash_ledger_key (r_id ride_item))) (\<lambda>inserted_ledger_count.
        if inserted_ledger_count \<noteq> 1
        then io_throw (Failure ''create cash settlement ledger: idempotency key already exists'')
        else credit_native_driver_wallet (dp_user_id profile)
               (ss_driver_payout_amount (cash_snapshot validated)))
      else io_return ())"

text \<open>The transaction of \<open>SettleCash\<close>, up to its commit.\<close>

definition settle_cash_transaction ::
  "ride_repository \<Rightarrow> cash_settlement_request \<Rightarrow> int \<Rightarrow> int \<Rightarrow> (ride_row \<times> settlement_row) io" where
  "settle_cash_transaction repository request db_ride_id db_driver_id =
     io_bind (lock_completed_ride_for_cash_settlement db_ride_id (Some db_driver_id)) (\<lambda>ride_item.
     io_bind (ensure_native_ride_settlement repository ride_item) (\<lambda>(settlement_record, settlement).
     if st_cash_outcome settlement_record \<noteq> ''unpaid'' \<or>
        st_cash_received_amount settlement_record \<noteq> 0 \<or>
        st_cash_change_amount settlement_record \<noteq> 0
     then
       (if \<not> cash_settlement_matches_record settlement_record request then io_throw ErrInvalidSettlement
        else io_return (ride_item, settlement_record))
     else
       io_bind (io_lift (new_cash_settlement (r_fare_amount ride_item) (cs_received_amount request)
         (cs_change_amount request) (cs_outcome request) (ss_commission_bps settlement))) (\<lambda>validated.
       io_bind (io_map_err (\<lambda>x. if x = NoRows then ErrUnauthorizedRide else x)
         (get_driver_profile_by_user_id_full db_driver_id)) (\<lambda>profile.
       io_bind (record_cash_credit db_driver_id ride_item profile validated) (\<lambda>_.
       io_bind (io_env env_now) (\<lambda>collected_at.
       io_bind (mark_ride_settlement_outcome (cash_payment_status validated) (Some collected_at)
         (cash_received_amount validated) (cash_change_amount validated) (cash_outcome validated)
         (if cash_payment_status validated = ''paid'' then Some collected_at else None)
         (Some (wrap32 (ss_commission_bps settlement)))
         (ss_commission_amount (cash_snapshot validated))
         (ss_driver_payout_amount (cash_snapshot validated))
         (st_id settlement_record)) (\<lambda>settlement_record.
       io_bind new_audit_request_id (\<lambda>audit_request_id.
       io_bind (create_audit_event db_driver_id ''ride.cash_settled'' ''ride''
         (Some (itoa (cs_ride_id request))) (cash_outcome validated) audit_request_id) (\<lambda>_.
       io_return (ride_item, settlement_record))))))))))"

definition repo_settle_cash :: "ride_repository \<Rightarrow> cash_settlement_request \<Rightarrow> ride io" where
  "repo_settle_cash repository request =
     io_bind (validate_native_read_repository repository) (\<lambda>_.
     io_bind (io_lift (to_postgres_ride_id (cs_ride_id request) ''ride id'')) (\<lambda>db_ride_id.
     io_bind (io_lift (to_postgres_ride_id (cs_driver_id request) ''driver id'')) (\<lambda>db_driver_id.
     io_bind (transaction (settle_cash_transaction repository request db_ride_id db_driver_id))
       (\<lambda>(ride_item, settlement_record).
     io_lift (from_postgres_ride_projection ride_item
       (ride_settlement_projection_from_record settlement_record))))))"

section \<open>What a success has changed\<close>

lemma update_settlement_Inr:
  assumes "update_settlement n p f e w = (Inr y, w')" and "distinct (map st_id (w_settlements w))"
    and "\<And>q. p e q \<Longrightarrow> st_id q = i" and "\<And>q. st_id (f e q) = st_id q"
  obtains s where "s \<in> set (w_settlements w)" and "st_id s = i" and "p e s" and "y = f e s"
    and "settlement_violation w (f e s) = None"
    and "w' = w\<lparr>w_settlements := put_row st_id (f e s) (w_settlements w)\<rparr>"
proof -
  from assms(1) obtain s where s: "List.find (p e) (w_settlements w) = Some s"
    and "settlement_violation w (f e s) = None" and "y = f e s"
    and w': "w' = w\<lparr>w_settlements := upd_where (p e) (f e) (w_settlements w)\<rparr>"
    by (auto simp: update_settlement_def io_simps)
  moreover from s have "p e s" "s \<in> set (w_settlements w)" by (auto dest: find_SomeD)
  moreover from this(1) have "st_id s = i" by (rule assms(3))
  moreover have "upd_where (p e) (f e) (w_settlements w) = put_row st_id (f e s) (w_settlements w)"
    using assms s \<open>st_id s = i\<close> by (intro upd_where_put_row) auto
  ultimately show thesis using that by simp
qed

text \<open>The settlement a cash command works on: the ride's, with commission terms filled in.\<close>

lemma ensure_native_ride_settlementE:
  assumes "ensure_native_ride_settlement p r e w = (Inr (s', ss), w')"
    and "distinct (map st_id (w_settlements w))"
  obtains s where "s \<in> set (w_settlements w)" and "st_ride_id s = r_id r"
    and "st_gross_fare s = r_fare_amount r"
    and "new_settlement_snapshot (r_fare_amount r) (ss_commission_bps ss) = Inr ss"
    and "st_id s' = st_id s" and "st_ride_id s' = st_ride_id s" and "st_gross_fare s' = st_gross_fare s"
    and "st_payment_status s' = st_payment_status s" and "st_cash_outcome s' = st_cash_outcome s"
    and "st_cash_received_amount s' = st_cash_received_amount s"
    and "st_cash_change_amount s' = st_cash_change_amount s"
    and "st_settled_at s' = st_settled_at s"
    and "(s' = s \<and> w' = w) \<or>
         (st_commission_bps s = None \<and> settlement_violation w s' = None \<and>
          w' = w\<lparr>w_settlements := put_row st_id s' (w_settlements w)\<rparr>)"
proof -
  from assms(1) obtain s bps where s: "find_settlement w (r_id r) = Some s"
    and ss: "new_settlement_snapshot (r_fare_amount r) bps = Inr ss"
    and g: "st_gross_fare s = ss_fare_amount ss"
    and u: "(if st_commission_bps s = None \<and> st_payment_status s \<noteq> ''paid''
             then update_ride_settlement_economics (Some (wrap32 (ss_commission_bps ss)))
                   (ss_commission_amount ss) (ss_driver_payout_amount ss) (st_id s)
             else io_return s) e w = (Inr s', w')"
    by (auto simp: ensure_native_ride_settlement_def get_ride_settlement_by_ride_id_def io_simps Let_def
        split: if_splits)
  have f: "ss_fare_amount ss = r_fare_amount r" and b: "ss_commission_bps ss = bps"
    using ss by (auto simp: new_settlement_snapshot_def Let_def split: if_splits)
  from s have s2: "s \<in> set (w_settlements w)" "st_ride_id s = r_id r"
    by (auto simp: find_settlement_def dest: find_SomeD)
  show thesis
  proof (cases "st_commission_bps s = None \<and> st_payment_status s \<noteq> ''paid''")
    case True
    let ?f = "\<lambda>s. s\<lparr>st_commission_bps := Some (wrap32 (ss_commission_bps ss)),
      st_commission_amount := ss_commission_amount ss,
      st_driver_payout_amount := ss_driver_payout_amount ss, st_updated_at := Some (env_db_now e)\<rparr>"
    from u True have "update_ride_settlement_economics (Some (wrap32 (ss_commission_bps ss)))
        (ss_commission_amount ss) (ss_driver_payout_amount ss) (st_id s) e w = (Inr s', w')" by simp
    then obtain q where q: "q \<in> set (w_settlements w)" "st_id q = st_id s" "s' = ?f q"
      "settlement_violation w (?f q) = None"
      "w' = w\<lparr>w_settlements := put_row st_id (?f q) (w_settlements w)\<rparr>"
      unfolding update_ride_settlement_economics_def
      by (rule update_settlement_Inr [OF _ assms(2)]) auto
    have "q = s" using distinct_key_inj [OF assms(2) q(1) s2(1) q(2)] .
    with q True show thesis by (intro that [OF s2]) (use g f ss b in simp_all)
  next
    case False
    with u have "s' = s" "w' = w" by (auto simp: io_simps)
    then show thesis by (intro that [OF s2]) (use g f ss b in simp_all)
  qed
qed

text \<open>Crediting a wallet raises one account's balance by the amount, creating it at zero.\<close>

definition total_balance :: "int \<Rightarrow> wallet_account_row list \<Rightarrow> int" where
  "total_balance d accounts = sum_list (map wa_balance (filter (\<lambda>a. wa_driver_id a = d) accounts))"

definition total_ledger :: "int \<Rightarrow> wallet_ledger_row list \<Rightarrow> int" where
  "total_ledger d ledgers = sum_list (map wl_amount (filter (\<lambda>l. wl_driver_id l = d) ledgers))"

lemma total_balance_simps [simp]:
  "total_balance d [] = 0"
  "total_balance d (a # t) = (if wa_driver_id a = d then wa_balance a else 0) + total_balance d t"
  "total_balance d (t @ u) = total_balance d t + total_balance d u"
  by (simp_all add: total_balance_def)

lemma total_ledger_simps [simp]:
  "total_ledger d [] = 0"
  "total_ledger d (a # t) = (if wl_driver_id a = d then wl_amount a else 0) + total_ledger d t"
  "total_ledger d (t @ u) = total_ledger d t + total_ledger d u"
  by (simp_all add: total_ledger_def)

lemma total_balance_sum:
  "total_balance d t = sum_list (map (\<lambda>a. if wa_driver_id a = d then wa_balance a else 0) t)"
  by (induction t) auto

lemma total_balance_put_row:
  assumes "distinct (map wa_id t)" and "a \<in> set t" and "wa_id a' = wa_id a"
    and "wa_driver_id a' = wa_driver_id a"
  shows "total_balance d (put_row wa_id a' t) =
    total_balance d t + (if wa_driver_id a = d then wa_balance a' - wa_balance a else 0)"
  unfolding total_balance_sum sum_list_put_row [OF assms(1-3)] using assms(4) by simp

lemma credit_driver_wallet_account_Inr:
  assumes "credit_driver_wallet_account i amount e w = (Inr y, w')"
    and "distinct (map wa_id (w_accounts w))"
  obtains a a' where "a \<in> set (w_accounts w)" and "wa_id a = i" and "wa_id a' = i"
    and "wa_driver_id a' = wa_driver_id a" and "wa_balance a' = wa_balance a + amount"
    and "int64_range (wa_balance a')"
    and "w' = w\<lparr>w_accounts := put_row wa_id a' (w_accounts w)\<rparr>"
proof -
  let ?f = "\<lambda>a. a\<lparr>wa_balance := wa_balance a + amount, wa_version := wa_version a + 1,
               wa_updated_at := Some (max (env_db_now e) (coalesce_to (wa_created_at a) 0 + 1))\<rparr>"
  from assms(1) obtain a where a: "List.find (\<lambda>a. wa_id a = i) (w_accounts w) = Some a"
    and v: "account_violation w (?f a) = None"
    and w': "w' = w\<lparr>w_accounts := upd_where (\<lambda>a. wa_id a = i) ?f (w_accounts w)\<rparr>"
    by (auto simp: credit_driver_wallet_account_def io_simps)
  from a have "wa_id a = i" "a \<in> set (w_accounts w)" by (auto dest: find_SomeD)
  moreover have "upd_where (\<lambda>a. wa_id a = i) ?f (w_accounts w) = put_row wa_id (?f a) (w_accounts w)"
    using assms(2) a calculation by (intro upd_where_put_row) auto
  moreover have "int64_range (wa_balance (?f a))"
    using v by (simp add: account_violation_def split: if_splits)
  ultimately show thesis using w' by (intro that [of a "?f a"]) simp_all
qed

lemma credit_native_driver_walletE:
  assumes "credit_native_driver_wallet d amount e w = (Inr u, w')"
    and "distinct (map wa_id (w_accounts w))" and "distinct (map wa_driver_id (w_accounts w))"
  obtains accs where "w' = w\<lparr>w_accounts := accs\<rparr>" and "distinct (map wa_id accs)"
    and "distinct (map wa_driver_id accs)"
    and "\<And>d'. total_balance d' accs = total_balance d' (w_accounts w) + (if d' = d then amount else 0)"
    and "\<And>a. a \<in> set accs \<Longrightarrow> a \<in> set (w_accounts w) \<or> int64_range (wa_balance a)"
proof -
  let ?create = "create_driver_wallet_account d 0"
  from assms(1) obtain acc v y where
    t: "io_try (get_driver_wallet_account_for_update d)
          (\<lambda>r. if r = Inl NoRows then ?create else io_lift r) e w = (Inr acc, v)"
    and c: "credit_driver_wallet_account (wa_id acc) amount e v = (Inr y, w')"
    unfolding credit_native_driver_wallet_def io_bind_Inr io_return_eq by blast
  have f: "\<not> env_fault e ''GetDriverWalletAccountForUpdate''"
  proof
    assume f: "env_fault e ''GetDriverWalletAccountForUpdate''"
    from t show False
      by (simp add: get_driver_wallet_account_for_update_def select_one_fault [OF f] io_try_apply io_simps)
  qed
  have g: "(List.find (\<lambda>a. wa_driver_id a = d) (w_accounts w) = Some acc \<and> v = w) \<or>
        (List.find (\<lambda>a. wa_driver_id a = d) (w_accounts w) = None \<and> ?create e w = (Inr acc, v))"
    using t
    by (cases "List.find (\<lambda>a. wa_driver_id a = d) (w_accounts w)")
      (simp_all add: get_driver_wallet_account_for_update_def select_one_ok [OF f] io_try_apply io_simps)
  show thesis
  proof (cases "List.find (\<lambda>a. wa_driver_id a = d) (w_accounts w)")
    case (Some acc')
    with g have acc: "acc \<in> set (w_accounts w)" "wa_driver_id acc = d" and v: "v = w"
      by (auto dest: find_SomeD)
    from c [unfolded v] assms(2) obtain a a' where a: "a \<in> set (w_accounts w)" "wa_id a = wa_id acc"
      "wa_id a' = wa_id acc" "wa_driver_id a' = wa_driver_id a" "wa_balance a' = wa_balance a + amount"
      "int64_range (wa_balance a')" and w': "w' = w\<lparr>w_accounts := put_row wa_id a' (w_accounts w)\<rparr>"
      by (rule credit_driver_wallet_account_Inr)
    have "a = acc" using distinct_key_inj [OF assms(2) a(1) acc(1) a(2)] .
    have "map wa_driver_id (put_row wa_id a' (w_accounts w)) = map wa_driver_id (w_accounts w)"
      using a by (intro map_put_row_same [OF assms(2) a(1)]) simp_all
    with a acc w' \<open>a = acc\<close> assms(2,3) show thesis
      by (intro that [of "put_row wa_id a' (w_accounts w)"])
        (auto simp: total_balance_put_row dest: in_put_row)
  next
    case None
    with g have cr: "?create e w = (Inr acc, v)" by simp
    then have v: "v = w\<lparr>w_accounts := w_accounts w @ [acc]\<rparr>" and acc: "wa_driver_id acc = d" "wa_balance acc = 0"
      and new: "\<not> exists_where (\<lambda>q. wa_id q = wa_id acc) (w_accounts w)"
      by (auto simp: create_driver_wallet_account_def io_simps)
    have dist: "distinct (map wa_id (w_accounts v))"
      using v new assms(2) by (auto simp: exists_where_def)
    have "d \<notin> wa_driver_id ` set (w_accounts w)"
      using None by (auto simp: find_None_iff)
    then have dist2: "distinct (map wa_driver_id (w_accounts v))" using v acc assms(3) by auto
    from c dist obtain a a' where a: "a \<in> set (w_accounts v)" "wa_id a = wa_id acc"
      "wa_id a' = wa_id acc" "wa_driver_id a' = wa_driver_id a" "wa_balance a' = wa_balance a + amount"
      "int64_range (wa_balance a')" and w': "w' = v\<lparr>w_accounts := put_row wa_id a' (w_accounts v)\<rparr>"
      by (rule credit_driver_wallet_account_Inr)
    have in_v: "acc \<in> set (w_accounts v)" using v by simp
    have "a = acc" using distinct_key_inj [OF dist a(1) in_v a(2)] .
    have "map wa_driver_id (put_row wa_id a' (w_accounts v)) = map wa_driver_id (w_accounts v)"
      using a by (intro map_put_row_same [OF dist a(1)]) simp_all
    moreover have "q \<in> set (w_accounts w) \<or> int64_range (wa_balance q)"
      if "q \<in> set (put_row wa_id a' (w_accounts v))" for q
      using in_put_row [OF that] a v \<open>a = acc\<close> by auto
    moreover have "total_balance d' (put_row wa_id a' (w_accounts v)) =
        total_balance d' (w_accounts w) + (if d' = d then amount else 0)" for d'
      using total_balance_put_row [OF dist a(1), of a' d'] a acc v \<open>a = acc\<close> by simp
    ultimately show thesis
      using w' v dist dist2 by (intro that [of "put_row wa_id a' (w_accounts v)"]) simp_all
  qed
qed

text \<open>
  The effect of a first recording. The settlement \<open>s\<close> still had nothing recorded; \<open>s'\<close> takes
  the validated cash; a positive payout is one new ledger entry under the ride's key and the
  same credit to the driver's wallet.
\<close>

definition cash_effect ::
  "env \<Rightarrow> cash_settlement_request \<Rightarrow> ride_row \<Rightarrow> settlement_row \<Rightarrow> settlement_row \<Rightarrow> cash_settlement \<Rightarrow>
   world \<Rightarrow> world \<Rightarrow> bool" where
  "cash_effect e q r s s' cs w w' \<longleftrightarrow>
     r \<in> set (w_rides w) \<and> r_id r = cs_ride_id q \<and> r_driver_id r = Some (cs_driver_id q) \<and>
     r_status r = ''completed'' \<and>
     s \<in> set (w_settlements w) \<and> st_ride_id s = r_id r \<and> st_gross_fare s = r_fare_amount r \<and>
     st_cash_outcome s = ''unpaid'' \<and> st_cash_received_amount s = 0 \<and> st_cash_change_amount s = 0 \<and>
     (\<exists>bps. new_cash_settlement (r_fare_amount r) (cs_received_amount q) (cs_change_amount q)
              (cs_outcome q) bps = Inr cs \<and> 0 \<le> bps \<and> bps \<le> 10000) \<and>
     st_id s' = st_id s \<and> st_ride_id s' = st_ride_id s \<and> st_gross_fare s' = st_gross_fare s \<and>
     st_cash_outcome s' = cash_outcome cs \<and> st_payment_status s' = cash_payment_status cs \<and>
     st_cash_received_amount s' = cash_received_amount cs \<and>
     st_cash_change_amount s' = cash_change_amount cs \<and>
     st_commission_amount s' = ss_commission_amount (cash_snapshot cs) \<and>
     st_driver_payout_amount s' = ss_driver_payout_amount (cash_snapshot cs) \<and>
     st_commission_bps s' \<noteq> None \<and>
     (\<exists>accs ledgers a. w' = w\<lparr>w_settlements := put_row st_id s' (w_settlements w),
          w_ledgers := w_ledgers w @ ledgers, w_accounts := accs, w_audits := w_audits w @ [a]\<rparr> \<and>
        distinct (map wa_id accs) \<and> distinct (map wa_driver_id accs) \<and>
        (if ss_driver_payout_amount (cash_snapshot cs) > 0
         then (\<exists>l. ledgers = [l] \<and> wl_driver_id l = cs_driver_id q \<and> wl_ride_id l = r_id r \<and>
                 wl_amount l = ss_driver_payout_amount (cash_snapshot cs) \<and>
                 wl_commission_amount l = ss_commission_amount (cash_snapshot cs) \<and>
                 wl_idempotency_key l = cash_ledger_key (r_id r) \<and>
                 \<not> exists_where (\<lambda>k. wl_idempotency_key k = cash_ledger_key (r_id r)) (w_ledgers w))
         else ledgers = []) \<and>
        (\<forall>d. total_balance d accs = total_balance d (w_accounts w) + total_ledger d ledgers))"

text \<open>A repetition changes at most missing commission terms.\<close>

definition cash_repeat ::
  "cash_settlement_request \<Rightarrow> ride_row \<Rightarrow> settlement_row \<Rightarrow> settlement_row \<Rightarrow> world \<Rightarrow> world \<Rightarrow> bool" where
  "cash_repeat q r s s' w w' \<longleftrightarrow>
     r \<in> set (w_rides w) \<and> r_id r = cs_ride_id q \<and> r_driver_id r = Some (cs_driver_id q) \<and>
     r_status r = ''completed'' \<and>
     s \<in> set (w_settlements w) \<and> st_ride_id s = r_id r \<and> st_gross_fare s = r_fare_amount r \<and>
     (st_cash_outcome s \<noteq> ''unpaid'' \<or> st_cash_received_amount s \<noteq> 0 \<or> st_cash_change_amount s \<noteq> 0) \<and>
     cash_settlement_matches_record s q \<and>
     st_id s' = st_id s \<and> st_ride_id s' = st_ride_id s \<and> st_gross_fare s' = st_gross_fare s \<and>
     st_payment_status s' = st_payment_status s \<and> st_cash_outcome s' = st_cash_outcome s \<and>
     st_cash_received_amount s' = st_cash_received_amount s \<and>
     st_cash_change_amount s' = st_cash_change_amount s \<and> st_settled_at s' = st_settled_at s \<and>
     (s' = s \<and> w' = w \<or> st_commission_bps s = None \<and>
        w' = w\<lparr>w_settlements := put_row st_id s' (w_settlements w)\<rparr>)"

lemma record_cash_creditE:
  assumes "record_cash_credit d r prof cs e w = (Inr u, w')" and "dp_user_id prof = d"
    and "distinct (map wa_id (w_accounts w))" and "distinct (map wa_driver_id (w_accounts w))"
  obtains accs ledgers where "w' = w\<lparr>w_ledgers := w_ledgers w @ ledgers, w_accounts := accs\<rparr>"
    and "distinct (map wa_id accs)" and "distinct (map wa_driver_id accs)"
    and "if ss_driver_payout_amount (cash_snapshot cs) > 0
         then (\<exists>l. ledgers = [l] \<and> wl_driver_id l = d \<and> wl_ride_id l = r_id r \<and>
                 wl_amount l = ss_driver_payout_amount (cash_snapshot cs) \<and>
                 wl_commission_amount l = ss_commission_amount (cash_snapshot cs) \<and>
                 wl_idempotency_key l = cash_ledger_key (r_id r) \<and>
                 \<not> exists_where (\<lambda>k. wl_idempotency_key k = cash_ledger_key (r_id r)) (w_ledgers w))
         else ledgers = []"
    and "\<And>d'. total_balance d' accs = total_balance d' (w_accounts w) + total_ledger d' ledgers"
proof (cases "ss_driver_payout_amount (cash_snapshot cs) > 0")
  case False
  with assms show thesis by (intro that [of "w_accounts w" "[]"]) (auto simp: record_cash_credit_def io_simps)
next
  case True
  with assms(1) obtain v where
    l: "create_wallet_ledger d (r_id r) (ss_driver_payout_amount (cash_snapshot cs))
          (ss_commission_amount (cash_snapshot cs))
          (if cash_outcome cs = ''partial'' then ''cash_trip_partial'' else ''cash_trip'')
          (cash_ledger_key (r_id r)) e w = (Inr 1, v)"
    and c: "credit_native_driver_wallet (dp_user_id prof) (ss_driver_payout_amount (cash_snapshot cs)) e v
       = (Inr u, w')"
    by (auto simp: record_cash_credit_def io_simps split: if_splits)
  from l obtain row where v: "v = w\<lparr>w_ledgers := w_ledgers w @ [row]\<rparr>"
    and row: "wl_driver_id row = d" "wl_ride_id row = r_id r"
      "wl_amount row = ss_driver_payout_amount (cash_snapshot cs)"
      "wl_commission_amount row = ss_commission_amount (cash_snapshot cs)"
      "wl_idempotency_key row = cash_ledger_key (r_id r)"
    and new: "\<not> exists_where (\<lambda>k. wl_idempotency_key k = cash_ledger_key (r_id r)) (w_ledgers w)"
    by (auto simp: create_wallet_ledger_def io_simps split: if_splits)
  from c [unfolded assms(2)] obtain accs where w': "w' = v\<lparr>w_accounts := accs\<rparr>"
    and a: "distinct (map wa_id accs)" "distinct (map wa_driver_id accs)"
      "\<And>d'. total_balance d' accs = total_balance d' (w_accounts v) +
         (if d' = d then ss_driver_payout_amount (cash_snapshot cs) else 0)"
    by (rule credit_native_driver_walletE) (use v assms in simp_all)
  show thesis
    by (rule that [of accs "[row]"]) (use True v w' row new a in simp_all)
qed

lemma get_driver_profile_by_user_id_full_Inr:
  "get_driver_profile_by_user_id_full d e v = (Inr prof, v') \<Longrightarrow> v' = v"
  by (auto simp: get_driver_profile_by_user_id_full_def io_simps)

lemma settle_cash_tail:
  assumes "io_bind (io_map_err g (get_driver_profile_by_user_id_full d)) (\<lambda>prof.
      io_bind (record_cash_credit d r prof cs) (\<lambda>_. io_bind M (\<lambda>s'.
      io_bind new_audit_request_id (\<lambda>rid. io_bind (create_audit_event d act tt ti oc rid) (\<lambda>_.
      io_return (r, s')))))) e v = (Inr (r, s'), w')"
  obtains prof u v1 v2 a where "get_driver_profile_by_user_id_full d e v = (Inr prof, v)"
    and "record_cash_credit d r prof cs e v = (Inr u, v1)" and "M e v1 = (Inr s', v2)"
    and "w' = v2\<lparr>w_audits := w_audits v2 @ [a]\<rparr>"
proof -
  from assms obtain prof v0 u v1 v2 a where
    p: "get_driver_profile_by_user_id_full d e v = (Inr prof, v0)"
    and "record_cash_credit d r prof cs e v0 = (Inr u, v1)" and "M e v1 = (Inr s', v2)"
    and "create_audit_event d act tt ti oc (env_request_id e) e v2 = (Inr a, w')"
    by (auto simp: io_simps)
  with get_driver_profile_by_user_id_full_Inr [OF p] create_audit_event_Inr(1) that show thesis
    by blast
qed

lemma settle_cash_start:
  assumes "settle_cash_transaction p q i d e w = (Inr (r, s'), w')"
  obtains s1 ss v where
    "List.find (\<lambda>r. r_id r = i \<and> r_driver_id r = Some d \<and> r_status r = ''completed'') (w_rides w) = Some r"
    and "ensure_native_ride_settlement p r e w = (Inr (s1, ss), v)"
    and "if st_cash_outcome s1 \<noteq> ''unpaid'' \<or> st_cash_received_amount s1 \<noteq> 0 \<or>
          st_cash_change_amount s1 \<noteq> 0
        then cash_settlement_matches_record s1 q \<and> s' = s1 \<and> w' = v
        else (\<exists>cs. new_cash_settlement (r_fare_amount r) (cs_received_amount q) (cs_change_amount q)
            (cs_outcome q) (ss_commission_bps ss) = Inr cs \<and>
          io_bind (io_map_err (\<lambda>x. if x = NoRows then ErrUnauthorizedRide else x)
            (get_driver_profile_by_user_id_full d)) (\<lambda>prof.
          io_bind (record_cash_credit d r prof cs) (\<lambda>_.
          io_bind (mark_ride_settlement_outcome (cash_payment_status cs) (Some (env_now e))
            (cash_received_amount cs) (cash_change_amount cs) (cash_outcome cs)
            (if cash_payment_status cs = ''paid'' then Some (env_now e) else None)
            (Some (wrap32 (ss_commission_bps ss))) (ss_commission_amount (cash_snapshot cs))
            (ss_driver_payout_amount (cash_snapshot cs)) (st_id s1)) (\<lambda>s'.
          io_bind new_audit_request_id (\<lambda>rid.
          io_bind (create_audit_event d ''ride.cash_settled'' ''ride''
            (Some (itoa (cs_ride_id q))) (cash_outcome cs) rid) (\<lambda>_.
          io_return (r, s')))))) e v = (Inr (r, s'), w'))"
proof -
  from assms obtain r0 s1 ss v where
    r: "List.find (\<lambda>r. r_id r = i \<and> r_driver_id r = Some d \<and> r_status r = ''completed'') (w_rides w) = Some r0"
    and en: "ensure_native_ride_settlement p r0 e w = (Inr (s1, ss), v)"
    and k: "(if st_cash_outcome s1 \<noteq> ''unpaid'' \<or> st_cash_received_amount s1 \<noteq> 0 \<or>
          st_cash_change_amount s1 \<noteq> 0
        then if \<not> cash_settlement_matches_record s1 q then io_throw ErrInvalidSettlement
             else io_return (r0, s1)
        else io_bind (io_lift (new_cash_settlement (r_fare_amount r0) (cs_received_amount q)
            (cs_change_amount q) (cs_outcome q) (ss_commission_bps ss))) (\<lambda>cs.
          io_bind (io_map_err (\<lambda>x. if x = NoRows then ErrUnauthorizedRide else x)
            (get_driver_profile_by_user_id_full d)) (\<lambda>prof.
          io_bind (record_cash_credit d r0 prof cs) (\<lambda>_.
          io_bind (io_env env_now) (\<lambda>now.
          io_bind (mark_ride_settlement_outcome (cash_payment_status cs) (Some now)
            (cash_received_amount cs) (cash_change_amount cs) (cash_outcome cs)
            (if cash_payment_status cs = ''paid'' then Some now else None)
            (Some (wrap32 (ss_commission_bps ss))) (ss_commission_amount (cash_snapshot cs))
            (ss_driver_payout_amount (cash_snapshot cs)) (st_id s1)) (\<lambda>s'.
          io_bind new_audit_request_id (\<lambda>rid.
          io_bind (create_audit_event d ''ride.cash_settled'' ''ride''
            (Some (itoa (cs_ride_id q))) (cash_outcome cs) rid) (\<lambda>_.
          io_return (r0, s'))))))))) e v = (Inr (r, s'), w')"
    unfolding settle_cash_transaction_def
    by (auto simp: lock_completed_ride_for_cash_settlement_def io_simps)
  show thesis
  proof (cases "st_cash_outcome s1 \<noteq> ''unpaid'' \<or> st_cash_received_amount s1 \<noteq> 0 \<or>
          st_cash_change_amount s1 \<noteq> 0")
    case True
    with k r en show thesis by (intro that [of s1 ss v]) (auto simp: io_simps split: if_splits)
  next
    case False
    note k = k [unfolded if_not_P [OF False]]
    from k have "r0 = r" by (auto simp: io_simps)
    with k r en False show thesis by (intro that [of s1 ss v]) (auto simp: io_simps)
  qed
qed

text \<open>Every success of \<open>SettleCash\<close> is a first recording or a repetition.\<close>

lemma repo_settle_cash_cases:
  assumes "repo_settle_cash p q e w = (Inr x, w')"
    and d: "distinct (map st_id (w_settlements w))" "distinct (map wa_id (w_accounts w))"
      "distinct (map wa_driver_id (w_accounts w))"
  obtains (first) r s s' cs where "cash_effect e q r s s' cs w w'"
      and "from_postgres_ride_projection r (ride_settlement_projection_from_record s') = Inr x"
  | (again) r s s' where "cash_repeat q r s s' w w'"
      and "from_postgres_ride_projection r (ride_settlement_projection_from_record s') = Inr x"
proof -
  from assms(1) obtain r s' where
    t: "settle_cash_transaction p q (cs_ride_id q) (cs_driver_id q) e w = (Inr (r, s'), w')"
    and x: "from_postgres_ride_projection r (ride_settlement_projection_from_record s') = Inr x"
    by (auto simp: repo_settle_cash_def io_simps)
  from t obtain s1 ss v where
    r: "List.find (\<lambda>r. r_id r = cs_ride_id q \<and> r_driver_id r = Some (cs_driver_id q) \<and>
        r_status r = ''completed'') (w_rides w) = Some r"
    and en: "ensure_native_ride_settlement p r e w = (Inr (s1, ss), v)"
    and again_or_first: "if st_cash_outcome s1 \<noteq> ''unpaid'' \<or> st_cash_received_amount s1 \<noteq> 0 \<or>
          st_cash_change_amount s1 \<noteq> 0
        then cash_settlement_matches_record s1 q \<and> s' = s1 \<and> w' = v
        else (\<exists>cs. new_cash_settlement (r_fare_amount r) (cs_received_amount q) (cs_change_amount q)
            (cs_outcome q) (ss_commission_bps ss) = Inr cs \<and>
          io_bind (io_map_err (\<lambda>x. if x = NoRows then ErrUnauthorizedRide else x)
            (get_driver_profile_by_user_id_full (cs_driver_id q))) (\<lambda>prof.
          io_bind (record_cash_credit (cs_driver_id q) r prof cs) (\<lambda>_.
          io_bind (mark_ride_settlement_outcome (cash_payment_status cs) (Some (env_now e))
            (cash_received_amount cs) (cash_change_amount cs) (cash_outcome cs)
            (if cash_payment_status cs = ''paid'' then Some (env_now e) else None)
            (Some (wrap32 (ss_commission_bps ss))) (ss_commission_amount (cash_snapshot cs))
            (ss_driver_payout_amount (cash_snapshot cs)) (st_id s1)) (\<lambda>s'.
          io_bind new_audit_request_id (\<lambda>rid.
          io_bind (create_audit_event (cs_driver_id q) ''ride.cash_settled'' ''ride''
            (Some (itoa (cs_ride_id q))) (cash_outcome cs) rid) (\<lambda>_.
          io_return (r, s')))))) e v = (Inr (r, s'), w'))"
    by (rule settle_cash_start)
  from r have r2: "r \<in> set (w_rides w)" "r_id r = cs_ride_id q" "r_driver_id r = Some (cs_driver_id q)"
    "r_status r = ''completed''" by (auto dest: find_SomeD)
  from en d(1) obtain s where s: "s \<in> set (w_settlements w)" "st_ride_id s = r_id r"
    "st_gross_fare s = r_fare_amount r"
    and ss: "new_settlement_snapshot (r_fare_amount r) (ss_commission_bps ss) = Inr ss"
    and s1: "st_id s1 = st_id s" "st_ride_id s1 = st_ride_id s" "st_gross_fare s1 = st_gross_fare s"
    "st_payment_status s1 = st_payment_status s" "st_cash_outcome s1 = st_cash_outcome s"
    "st_cash_received_amount s1 = st_cash_received_amount s"
    "st_cash_change_amount s1 = st_cash_change_amount s" "st_settled_at s1 = st_settled_at s"
    and v: "(s1 = s \<and> v = w) \<or> (st_commission_bps s = None \<and> settlement_violation w s1 = None \<and>
         v = w\<lparr>w_settlements := put_row st_id s1 (w_settlements w)\<rparr>)"
    by (rule ensure_native_ride_settlementE)
  show thesis
  proof (cases "st_cash_outcome s1 \<noteq> ''unpaid'' \<or> st_cash_received_amount s1 \<noteq> 0 \<or>
          st_cash_change_amount s1 \<noteq> 0")
    case True
    with again_or_first have m: "cash_settlement_matches_record s1 q" "s' = s1" "w' = v" by simp_all
    then have "cash_repeat q r s s1 w w'"
      using r2 s s1 v True unfolding cash_repeat_def cash_settlement_matches_record_def by auto
    with x m show thesis by (intro again) simp_all
  next
    case False
    with again_or_first obtain cs where
      cs: "new_cash_settlement (r_fare_amount r) (cs_received_amount q) (cs_change_amount q)
            (cs_outcome q) (ss_commission_bps ss) = Inr cs"
      and tail: "io_bind (io_map_err (\<lambda>x. if x = NoRows then ErrUnauthorizedRide else x)
            (get_driver_profile_by_user_id_full (cs_driver_id q))) (\<lambda>prof.
          io_bind (record_cash_credit (cs_driver_id q) r prof cs) (\<lambda>_.
          io_bind (mark_ride_settlement_outcome (cash_payment_status cs) (Some (env_now e))
            (cash_received_amount cs) (cash_change_amount cs) (cash_outcome cs)
            (if cash_payment_status cs = ''paid'' then Some (env_now e) else None)
            (Some (wrap32 (ss_commission_bps ss))) (ss_commission_amount (cash_snapshot cs))
            (ss_driver_payout_amount (cash_snapshot cs)) (st_id s1)) (\<lambda>s'.
          io_bind new_audit_request_id (\<lambda>rid.
          io_bind (create_audit_event (cs_driver_id q) ''ride.cash_settled'' ''ride''
            (Some (itoa (cs_ride_id q))) (cash_outcome cs) rid) (\<lambda>_.
          io_return (r, s')))))) e v = (Inr (r, s'), w')"
      by auto
    from tail obtain prof u v1 v2 a where
      prof: "get_driver_profile_by_user_id_full (cs_driver_id q) e v = (Inr prof, v)"
      and cr: "record_cash_credit (cs_driver_id q) r prof cs e v = (Inr u, v1)"
      and m: "mark_ride_settlement_outcome (cash_payment_status cs) (Some (env_now e))
            (cash_received_amount cs) (cash_change_amount cs) (cash_outcome cs)
            (if cash_payment_status cs = ''paid'' then Some (env_now e) else None)
            (Some (wrap32 (ss_commission_bps ss))) (ss_commission_amount (cash_snapshot cs))
            (ss_driver_payout_amount (cash_snapshot cs)) (st_id s1) e v1 = (Inr s', v2)"
      and w': "w' = v2\<lparr>w_audits := w_audits v2 @ [a]\<rparr>"
      by (rule settle_cash_tail)
    from prof have prof: "dp_user_id prof = cs_driver_id q"
      by (auto simp: get_driver_profile_by_user_id_full_def io_simps find_profile_def dest: find_SomeD)
    have va: "w_accounts v = w_accounts w" "w_ledgers v = w_ledgers w" "w_audits v = w_audits w"
      and vs: "distinct (map st_id (w_settlements v))"
      using v d(1) by auto
    have s1v: "s1 \<in> set (w_settlements v)"
      using v put_row_in [OF s(1), of st_id s1] s1(1) s(1) by auto
    have vp: "put_row st_id z (w_settlements v) = put_row st_id z (w_settlements w)"
      if "st_id z = st_id s1" for z
      using v put_row_put_row [of st_id z s1, OF that] by auto
    from cr prof obtain accs ledgers where v1: "v1 = v\<lparr>w_ledgers := w_ledgers v @ ledgers, w_accounts := accs\<rparr>"
      and acc: "distinct (map wa_id accs)" "distinct (map wa_driver_id accs)"
      and led: "if ss_driver_payout_amount (cash_snapshot cs) > 0
         then (\<exists>l. ledgers = [l] \<and> wl_driver_id l = cs_driver_id q \<and> wl_ride_id l = r_id r \<and>
                 wl_amount l = ss_driver_payout_amount (cash_snapshot cs) \<and>
                 wl_commission_amount l = ss_commission_amount (cash_snapshot cs) \<and>
                 wl_idempotency_key l = cash_ledger_key (r_id r) \<and>
                 \<not> exists_where (\<lambda>k. wl_idempotency_key k = cash_ledger_key (r_id r)) (w_ledgers v))
         else ledgers = []"
      and bal: "\<And>d'. total_balance d' accs = total_balance d' (w_accounts v) + total_ledger d' ledgers"
      by (rule record_cash_creditE) (use va d in simp_all)
    let ?f = "\<lambda>s. s\<lparr>st_payment_status := cash_payment_status cs, st_cash_received_at := Some (env_now e),
               st_cash_received_amount := cash_received_amount cs,
               st_cash_change_amount := cash_change_amount cs, st_cash_outcome := cash_outcome cs,
               st_settled_at := (if cash_payment_status cs = ''paid'' then Some (env_now e) else None),
               st_commission_bps := Some (wrap32 (ss_commission_bps ss)),
               st_commission_amount := ss_commission_amount (cash_snapshot cs),
               st_driver_payout_amount := ss_driver_payout_amount (cash_snapshot cs),
               st_updated_at := Some (env_db_now e)\<rparr>"
    from m obtain z where z: "z \<in> set (w_settlements v1)" "st_id z = st_id s1" "s' = ?f z"
      "v2 = v1\<lparr>w_settlements := put_row st_id (?f z) (w_settlements v1)\<rparr>"
      unfolding mark_ride_settlement_outcome_def
      by (rule update_settlement_Inr) (use v1 vs in simp_all)
    have "z = s1" using distinct_key_inj [OF vs _ s1v z(2)] z(1) v1 by simp
    with z have z': "s' = ?f s1" "v2 = v1\<lparr>w_settlements := put_row st_id s' (w_settlements w)\<rparr>"
      using v1 vp by simp_all
    have wv: "w' = w\<lparr>w_settlements := put_row st_id s' (w_settlements w),
          w_ledgers := w_ledgers w @ ledgers, w_accounts := accs, w_audits := w_audits w @ [a]\<rparr>"
      using w' z' v1 v by auto
    have bps: "0 \<le> ss_commission_bps ss" "ss_commission_bps ss \<le> 10000"
      using snapshot_guard [OF ss] by simp_all
    have "cash_effect e q r s s' cs w w'"
      unfolding cash_effect_def
      using r2 s s1 False cs bps z'(1) wv acc led [unfolded va] bal va
      by (intro conjI allI exI [of _ accs] exI [of _ ledgers] exI [of _ a]
          exI [of _ "ss_commission_bps ss"]) simp_all
    from first [OF this x] show thesis .
  qed
qed

end
