(* ===== verification/Bid_Store.thy ===== *)
theory Bid_Store
  imports Cash_Store
begin

text \<open>
  The dispatch store (\<open>dispatch/adapter/postgres\<close>): the mapping of bid rows to domain values
  (\<open>mapping.go\<close>), the operations on sessions and offers (\<open>bidding_store.go\<close>), and the
  acceptance of an offer, which turns an open session into a ride with its settlement in one
  transaction (\<open>offer_acceptance_store.go\<close>). Then what a success of each operation has
  changed.
\<close>

record bid_store =
  bd_initialized :: bool
  bd_platform_commission_bps :: int
  bd_online_presence_max_age :: int
  bd_allow_unverified_test_drivers :: bool

definition store_validate :: "bid_store \<Rightarrow> unit io" where
  "store_validate store =
     (if bd_initialized store then io_return ()
      else io_throw (Failure ''postgresql dispatch store is not initialized''))"

definition store_online_presence_cutoff :: "bid_store \<Rightarrow> int io" where
  "store_online_presence_cutoff store =
     io_env (\<lambda>e.
       (let max_age = bd_online_presence_max_age store;
            max_age = (if max_age \<le> 0 then default_online_presence_max_age else max_age)
        in env_now e - max_age))"

section \<open>Mapping\<close>

definition from_postgres_bid_session :: "bid_session_row \<Rightarrow> err + bid_session" where
  "from_postgres_bid_session item =
     (if s_expires_at item = None then Inl (Failure ''bid session expiration time is null'')
      else if s_created_at item = None then Inl (Failure ''bid session creation time is null'')
      else Inr
        \<lparr>bs_id = s_id item, bs_booking_reference = s_booking_reference item, bs_ride_id = None,
         bs_passenger_id = s_passenger_id item,
         bs_pickup_latitude = s_pickup_latitude item, bs_pickup_longitude = s_pickup_longitude item,
         bs_pickup_name = s_pickup_name item,
         bs_dropoff_latitude = s_dropoff_latitude item, bs_dropoff_longitude = s_dropoff_longitude item,
         bs_dropoff_name = s_dropoff_name item,
         bs_passenger_note = ride_text_value (s_passenger_note item),
         bs_distance_km = s_distance_km item, bs_duration_minutes = s_duration_minutes item,
         bs_offered_fare_amount = s_offered_fare item, bs_custom_fare_amount = None,
         bs_status = s_status item,
         bs_target_driver_id = ride_optional_int (s_target_driver_id item),
         bs_accepted_driver_id = ride_optional_int (s_accepted_driver_id item),
         bs_expires_at = s_expires_at item, bs_created_at = s_created_at item, bs_offers = []\<rparr>)"

definition from_postgres_bid_offer :: "bid_offer_row \<Rightarrow> err + bid_offer" where
  "from_postgres_bid_offer item =
     (if of_created_at item = None then Inl (Failure ''bid offer creation time is null'')
      else Inr
        \<lparr>bo_id = of_id item, bo_session_id = of_session_id item, bo_driver_id = of_driver_id item,
         bo_driver_name = ride_text_value (of_driver_name item),
         bo_plate_number = ride_text_value (of_plate_number item),
         bo_vehicle_type = ride_text_value (of_vehicle_type item),
         bo_proposed_fare_amount = of_proposed_fare item, bo_status = of_status item,
         bo_created_at = of_created_at item\<rparr>)"

text \<open>\<open>dispatchTimestamp\<close> formats with \<open>RFC3339\<close>, which drops the fraction of the second.\<close>

definition dispatch_timestamp :: "int option \<Rightarrow> int option" where
  "dispatch_timestamp v = map_option (\<lambda>t. t div second * second) v"

definition dispatch_ride_projection :: "ride_row \<Rightarrow> ride_settlement_projection \<Rightarrow> err + ride" where
  "dispatch_ride_projection item projection =
     (if r_created_at item = None then Inl (Failure ''ride creation time is null'')
      else Inr (zero_ride
        \<lparr>rd_id := r_id item, rd_booking_reference := r_booking_reference item,
         rd_passenger_id := r_passenger_id item, rd_driver_id := ride_optional_int (r_driver_id item),
         rd_status := r_status item, rd_fare_amount := r_fare_amount item,
         rd_pickup_latitude := ride_float_value (r_pickup_latitude item),
         rd_pickup_longitude := ride_float_value (r_pickup_longitude item),
         rd_pickup_name := ride_text_value (r_pickup_name item),
         rd_dropoff_latitude := ride_float_value (r_dropoff_latitude item),
         rd_dropoff_longitude := ride_float_value (r_dropoff_longitude item),
         rd_dropoff_name := ride_text_value (r_dropoff_name item),
         rd_distance_km := ride_float_value (r_distance_km item),
         rd_duration_minutes := ride_float_value (r_duration_minutes item),
         rd_driver_name := ride_text_value (r_driver_name item),
         rd_vehicle_type := ride_text_value (r_vehicle_type item),
         rd_plate_number := ride_text_value (r_plate_number item),
         rd_driver_rating := ride_float_value (r_driver_rating item),
         rd_created_at := dispatch_timestamp (r_created_at item),
         rd_completed_at := dispatch_timestamp (r_completed_at item),
         rd_arrived_at := dispatch_timestamp (r_arrived_at item),
         rd_waiting_until := dispatch_timestamp (r_waiting_until item),
         rd_payment_status := (if rp_payment_status projection \<noteq> '''' then rp_payment_status projection
                               else ''unpaid''),
         rd_cash_outcome := (if rp_cash_outcome projection \<noteq> '''' then rp_cash_outcome projection
                             else ''unpaid''),
         rd_cancelled_by := ride_optional_int (r_cancelled_by item),
         rd_cancellation_reason := r_cancellation_reason item,
         rd_cancellation_responsibility := r_cancellation_responsibility item,
         rd_cancellation_details := r_cancellation_details item,
         rd_cash_received_amount := rp_cash_received_amount projection,
         rd_cash_change_amount := rp_cash_change_amount projection,
         rd_commission_bps := rp_commission_bps projection,
         rd_commission_amount := rp_commission_amount projection,
         rd_driver_payout_amount := rp_driver_payout_amount projection\<rparr>))"

definition from_postgres_bid_session_ride_row :: "ride_projection_row \<Rightarrow> err + ride" where
  "from_postgres_bid_session_ride_row item =
     dispatch_ride_projection (gr_ride item)
       \<lparr>rp_payment_status = gr_payment_status item,
        rp_cash_received_amount = gr_cash_received_amount item,
        rp_cash_change_amount = gr_cash_change_amount item,
        rp_cash_outcome = gr_cash_outcome item, rp_cash_settled = False,
        rp_commission_bps = gr_commission_bps item,
        rp_commission_amount = gr_commission_amount item,
        rp_driver_payout_amount = gr_driver_payout_amount item\<rparr>"

definition from_postgres_accepted_ride_projection :: "ride_row \<Rightarrow> settlement_row \<Rightarrow> err + ride" where
  "from_postgres_accepted_ride_projection item settlement =
     dispatch_ride_projection item
       \<lparr>rp_payment_status = st_payment_status settlement,
        rp_cash_received_amount = st_cash_received_amount settlement,
        rp_cash_change_amount = st_cash_change_amount settlement,
        rp_cash_outcome = st_cash_outcome settlement, rp_cash_settled = False,
        rp_commission_bps = st_commission_bps settlement,
        rp_commission_amount = st_commission_amount settlement,
        rp_driver_payout_amount = st_driver_payout_amount settlement\<rparr>"

section \<open>Sessions and offers\<close>

definition optional_postgres_id :: "int option \<Rightarrow> string \<Rightarrow> err + int option" where
  "optional_postgres_id v field =
     (case v of None \<Rightarrow> Inr None
      | Some i \<Rightarrow> (case to_postgres_ride_id i field of Inl x \<Rightarrow> Inl x | Inr j \<Rightarrow> Inr (Some j)))"

definition store_create_session :: "bid_store \<Rightarrow> bid_session \<Rightarrow> bid_session io" where
  "store_create_session store value =
     io_bind (store_validate store) (\<lambda>_.
     io_bind (io_lift (to_postgres_ride_id (bs_passenger_id value) ''passenger id'')) (\<lambda>passenger_id.
     if bs_expires_at value = None then io_throw (Failure ''bid session expiration is required'')
     else
       io_bind (io_lift (optional_postgres_id (bs_target_driver_id value) ''target driver id''))
         (\<lambda>target_driver_id.
       io_bind (transaction (
         io_bind (lock_user_for_bid_session passenger_id) (\<lambda>_.
         io_bind (io_env env_now) (\<lambda>now.
         io_bind (expire_bid_sessions passenger_id now) (\<lambda>_.
         io_bind (has_active_bid_session passenger_id now) (\<lambda>active_session.
         if active_session then io_throw ErrActiveBooking
         else
           io_bind (has_active_passenger_ride passenger_id) (\<lambda>active_ride.
           if active_ride then io_throw ErrActiveBooking
           else
             io_map_err (\<lambda>x. if is_postgres_unique_violation x then ErrActiveBooking else x)
               (create_bid_session passenger_id (bs_pickup_latitude value) (bs_pickup_longitude value)
                 (bs_pickup_name value) (bs_dropoff_latitude value) (bs_dropoff_longitude value)
                 (bs_dropoff_name value) (Some (bs_passenger_note value)) (bs_distance_km value)
                 (bs_duration_minutes value) (bs_offered_fare_amount value)
                 (if bs_status value = '''' then ''open'' else bs_status value) target_driver_id
                 (bs_expires_at value) (bs_created_at value)))))))))
       (\<lambda>created. io_lift (from_postgres_bid_session created)))))"

text \<open>\<open>ActiveSessions\<close>; the driver's own pending offers are attached to the sessions.\<close>

definition attach_offers :: "bid_offer list \<Rightarrow> bid_session list \<Rightarrow> bid_session list" where
  "attach_offers pending sessions =
     map (\<lambda>s. s\<lparr>bs_offers := filter (\<lambda>b. bo_session_id b = bs_id s) pending\<rparr>) sessions"

definition store_active_sessions :: "bid_store \<Rightarrow> int option \<Rightarrow> bid_session list io" where
  "store_active_sessions store driver_id =
     io_bind (store_validate store) (\<lambda>_.
     io_bind (io_env env_now) (\<lambda>now.
     case driver_id of
       None \<Rightarrow>
         io_bind (list_active_bid_sessions now) (\<lambda>items.
         io_lift (map_rows from_postgres_bid_session items))
     | Some d \<Rightarrow>
         io_bind (io_lift (to_postgres_ride_id d ''driver id'')) (\<lambda>db_driver_id.
         io_bind (store_online_presence_cutoff store) (\<lambda>cutoff.
         io_bind (io_map_err (driver_unavailable_error ErrDispatchDriverUnavailable)
           (get_online_driver_profile_for_bidding db_driver_id
             (bd_allow_unverified_test_drivers store) cutoff)) (\<lambda>_.
         io_bind (count_active_rides_for_driver (Some db_driver_id)) (\<lambda>active_rides.
         if active_rides \<ge> max_active_rides_per_driver then io_return []
         else
           io_bind (list_targeted_active_bid_sessions now (Some db_driver_id)) (\<lambda>items.
           io_bind (io_lift (map_rows from_postgres_bid_session items)) (\<lambda>result.
           if items = [] then io_return result
           else
             io_bind (list_pending_bid_offers_for_driver db_driver_id now (map s_id items)) (\<lambda>rows.
             io_bind (io_lift (map_rows from_postgres_bid_offer rows)) (\<lambda>pending.
             io_return (attach_offers pending result)))))))))))"

definition store_offers :: "bid_store \<Rightarrow> int \<Rightarrow> bid_offer list io" where
  "store_offers store session_id =
     io_bind (store_validate store) (\<lambda>_.
     io_bind (io_lift (to_postgres_ride_id session_id ''session id'')) (\<lambda>db_session_id.
     io_bind (list_bid_offers_by_session db_session_id) (\<lambda>items.
     io_lift (map_rows from_postgres_bid_offer items))))"

definition store_place_offer :: "bid_store \<Rightarrow> bid_offer \<Rightarrow> bid_offer io" where
  "store_place_offer store value =
     io_bind (store_validate store) (\<lambda>_.
     if bo_proposed_fare_amount value \<le> 0 then io_throw ErrInvalidFareOffer
     else
       io_bind (io_lift (to_postgres_ride_id (bo_session_id value) ''session id'')) (\<lambda>session_id.
       io_bind (io_lift (to_postgres_ride_id (bo_driver_id value) ''driver id'')) (\<lambda>driver_id.
       io_bind (transaction (
         io_bind (io_env env_now) (\<lambda>now.
         io_bind (io_map_err (driver_unavailable_error ErrDispatchDriverUnavailable)
           (lock_active_bid_session_for_offer session_id now)) (\<lambda>session.
         if s_target_driver_id session \<noteq> None \<and> s_target_driver_id session \<noteq> Some driver_id
         then io_throw ErrDispatchDriverUnavailable
         else
           io_bind (store_online_presence_cutoff store) (\<lambda>cutoff.
           io_bind (io_map_err (driver_unavailable_error ErrDispatchDriverUnavailable)
             (lock_online_driver_profile_for_bidding driver_id
               (bd_allow_unverified_test_drivers store) cutoff)) (\<lambda>profile.
           io_bind (count_active_rides_for_driver (Some (dp_user_id profile))) (\<lambda>active_rides.
           if active_rides \<ge> max_active_rides_per_driver then io_throw ErrDriverCapacityReached
           else
             io_bind (has_pending_bid_offer session_id driver_id) (\<lambda>existing.
             if existing then io_throw ErrDuplicateBid
             else
               io_map_err (\<lambda>x. if is_postgres_unique_violation x then ErrDuplicateBid else x)
                 (create_bid_offer session_id driver_id (Some (dp_name profile))
                   (Some (dp_plate_number profile)) (Some (dp_vehicle_type profile))
                   (bo_proposed_fare_amount value))))))))))
       (\<lambda>created. io_lift (from_postgres_bid_offer created)))))"

text \<open>\<open>CancelSession\<close> runs its two statements outside a transaction.\<close>

definition store_cancel_session :: "bid_store \<Rightarrow> int \<Rightarrow> int \<Rightarrow> bid_session io" where
  "store_cancel_session store session_id passenger_id =
     io_bind (store_validate store) (\<lambda>_.
     io_bind (io_lift (to_postgres_ride_id session_id ''session id'')) (\<lambda>db_session_id.
     io_bind (io_lift (to_postgres_ride_id passenger_id ''passenger id'')) (\<lambda>db_passenger_id.
     io_bind (io_env env_now) (\<lambda>now.
     io_bind (expire_bid_sessions db_passenger_id now) (\<lambda>_.
     io_bind (io_map_err (\<lambda>x. if x = NoRows then ErrSessionNotFound else x)
       (cancel_bid_session db_session_id db_passenger_id)) (\<lambda>item.
     io_lift (from_postgres_bid_session item)))))))"

definition store_cancel_offer :: "bid_store \<Rightarrow> int \<Rightarrow> int \<Rightarrow> bid_offer io" where
  "store_cancel_offer store session_id driver_id =
     io_bind (store_validate store) (\<lambda>_.
     io_bind (io_lift (to_postgres_ride_id session_id ''session id'')) (\<lambda>db_session_id.
     io_bind (io_lift (to_postgres_ride_id driver_id ''driver id'')) (\<lambda>db_driver_id.
     io_bind (io_map_err (\<lambda>x. if x = NoRows then ErrOfferNotFound else x)
       (cancel_pending_bid_offer db_session_id db_driver_id)) (\<lambda>item.
     io_lift (from_postgres_bid_offer item)))))"

definition store_session :: "bid_store \<Rightarrow> int \<Rightarrow> bid_session io" where
  "store_session store session_id =
     io_bind (store_validate store) (\<lambda>_.
     io_bind (io_lift (to_postgres_ride_id session_id ''session id'')) (\<lambda>db_session_id.
     io_bind (io_map_err (\<lambda>x. if x = NoRows then ErrSessionNotFound else x)
       (get_bid_session_by_id db_session_id)) (\<lambda>item.
     io_bind (io_lift (from_postgres_bid_session item)) (\<lambda>session.
     io_try (get_ride_by_bid_session_id (Some db_session_id)) (\<lambda>result.
     case result of
       Inr ride \<Rightarrow> io_return (session\<lparr>bs_ride_id := Some (r_id (gr_ride ride))\<rparr>)
     | Inl x \<Rightarrow> if x = NoRows then io_return session else io_throw x)))))"

definition store_decline_session :: "bid_store \<Rightarrow> int \<Rightarrow> int \<Rightarrow> bid_session io" where
  "store_decline_session store session_id driver_id =
     io_bind (store_validate store) (\<lambda>_.
     io_bind (io_lift (to_postgres_ride_id session_id ''session id'')) (\<lambda>db_session_id.
     io_bind (io_lift (to_postgres_ride_id driver_id ''driver id'')) (\<lambda>db_driver_id.
     io_try (decline_targeted_bid_session db_session_id (Some db_driver_id)) (\<lambda>result.
     case result of
       Inl x \<Rightarrow>
         if x = NoRows then
           io_bind (io_map_err (\<lambda>y. if y = NoRows then ErrSessionNotFound else y)
             (get_bid_session_by_id db_session_id)) (\<lambda>existing.
           if s_target_driver_id existing \<noteq> Some db_driver_id then io_throw ErrUnauthorizedSession
           else io_throw ErrSessionClosed)
         else io_throw x
     | Inr item \<Rightarrow> io_lift (from_postgres_bid_session item)))))"

section \<open>Acceptance of an offer\<close>

record offer_acceptance =
  oa_session :: bid_session
  oa_offer :: bid_offer
  oa_ride :: ride
  oa_rejected_offers :: "bid_offer list"
  oa_withdrawn_offers :: "bid_offer_withdrawal list"

definition map_bid_offer_withdrawal :: "bid_offer_row \<times> bid_session_row \<Rightarrow> err + bid_offer_withdrawal" where
  "map_bid_offer_withdrawal = (\<lambda>(offer_item, session_item).
     case from_postgres_bid_offer offer_item of
       Inl x \<Rightarrow> Inl x
     | Inr offer \<Rightarrow>
         (case from_postgres_bid_session session_item of
            Inl x \<Rightarrow> Inl x
          | Inr session \<Rightarrow> Inr \<lparr>bw_session = session, bw_offer = offer\<rparr>))"

definition map_bid_offer_withdrawals ::
  "(bid_offer_row \<times> bid_session_row) list \<Rightarrow> err + bid_offer_withdrawal list" where
  "map_bid_offer_withdrawals rows = map_rows map_bid_offer_withdrawal rows"

text \<open>
  A transaction whose body may also return without reaching \<open>Commit\<close>: it says whether to
  commit, and the deferred rollback undoes the rest.
\<close>

definition transaction_if :: "(bool \<times> 'a) io \<Rightarrow> 'a io" where
  "transaction_if body = (\<lambda>e w.
     if env_fault e ''begin'' then (Inl (Fault ''begin''), w)
     else (case body e w of
             (Inl x, _) \<Rightarrow> (Inl x, w)
           | (Inr (False, x), _) \<Rightarrow> (Inr x, w)
           | (Inr (True, x), w') \<Rightarrow>
               if env_fault e ''commit'' then (Inl (Fault ''commit''), w) else (Inr x, w')))"

text \<open>
  When no open session can be locked, an acceptance the passenger repeats is answered from what
  was stored; anything else is the original error.
\<close>

fun replay_accepted_offer ::
  "bid_session_row \<Rightarrow> int \<Rightarrow> err \<Rightarrow> bid_offer_row list \<Rightarrow> (bool \<times> offer_acceptance) io" where
  "replay_accepted_offer existing_session db_offer_id x [] = io_throw x"
| "replay_accepted_offer existing_session db_offer_id x (candidate_offer # offers) =
     (if of_id candidate_offer = db_offer_id \<and> of_status candidate_offer = ''accepted'' \<and>
         s_accepted_driver_id existing_session = Some (of_driver_id candidate_offer)
      then
        io_try (get_ride_by_bid_session_id (Some (s_id existing_session))) (\<lambda>session_ride_row.
          case session_ride_row of
            Inl _ \<Rightarrow> replay_accepted_offer existing_session db_offer_id x offers
          | Inr row \<Rightarrow>
              (case (from_postgres_bid_session existing_session, from_postgres_bid_offer candidate_offer,
                     from_postgres_bid_session_ride_row row) of
                 (Inr session_value, Inr offer_value, Inr ride_value) \<Rightarrow>
                   io_return (False,
                     \<lparr>oa_session = session_value, oa_offer = offer_value, oa_ride = ride_value,
                      oa_rejected_offers = [], oa_withdrawn_offers = []\<rparr>)
               | _ \<Rightarrow> replay_accepted_offer existing_session db_offer_id x offers))
      else replay_accepted_offer existing_session db_offer_id x offers)"

definition repeated_acceptance :: "int \<Rightarrow> int \<Rightarrow> int \<Rightarrow> err \<Rightarrow> (bool \<times> offer_acceptance) io" where
  "repeated_acceptance db_session_id db_offer_id db_passenger_id x =
     io_try (get_bid_session_by_id db_session_id) (\<lambda>result.
       case result of
         Inl _ \<Rightarrow> io_throw x
       | Inr existing_session \<Rightarrow>
           if s_status existing_session = ''accepted'' \<and> s_passenger_id existing_session = db_passenger_id
           then
             io_try (list_bid_offers_by_session db_session_id) (\<lambda>offers.
               case offers of
                 Inl _ \<Rightarrow> io_throw x
               | Inr offers \<Rightarrow> replay_accepted_offer existing_session db_offer_id x offers)
           else io_throw x)"

text \<open>The ride and the settlement an accepted offer becomes.\<close>

definition accepted_ride_of ::
  "bid_store \<Rightarrow> bid_session_row \<Rightarrow> bid_offer_row \<Rightarrow> driver_profile_row \<Rightarrow> err + ride" where
  "accepted_ride_of store session offer profile =
     (case (from_postgres_bid_session session, from_postgres_bid_offer offer) of
        (Inl x, _) \<Rightarrow> Inl x
      | (_, Inl x) \<Rightarrow> Inl x
      | (Inr session_value, Inr offer_value) \<Rightarrow>
          if bs_id session_value \<le> 0 \<or> bs_passenger_id session_value \<le> 0 \<or>
             bo_driver_id offer_value \<le> 0 \<or> bo_session_id offer_value \<noteq> bs_id session_value
          then Inl ErrInvalidTrip
          else
            (case new_accepted_ride
                (zero_ride
                  \<lparr>rd_passenger_id := bs_passenger_id session_value,
                   rd_driver_id := Some (bo_driver_id offer_value),
                   rd_fare_amount := bo_proposed_fare_amount offer_value,
                   rd_pickup_latitude := bs_pickup_latitude session_value,
                   rd_pickup_longitude := bs_pickup_longitude session_value,
                   rd_pickup_name := bs_pickup_name session_value,
                   rd_dropoff_latitude := bs_dropoff_latitude session_value,
                   rd_dropoff_longitude := bs_dropoff_longitude session_value,
                   rd_dropoff_name := bs_dropoff_name session_value,
                   rd_distance_km := bs_distance_km session_value,
                   rd_duration_minutes := bs_duration_minutes session_value\<rparr>)
                \<lparr>da_name = dp_name profile, da_vehicle_type = dp_vehicle_type profile,
                 da_plate_number = dp_plate_number profile, da_rating = dp_rating profile\<rparr>
                (bd_platform_commission_bps store) of
               Inl x \<Rightarrow> Inl x
             | Inr ride \<Rightarrow>
                 if rd_driver_id ride = None \<or> rd_commission_bps ride = None
                 then Inl ErrInvalidSettlement else Inr ride))"

definition create_ride_from_offer :: "bid_session_row \<Rightarrow> ride \<Rightarrow> (ride_row \<times> settlement_row) io" where
  "create_ride_from_offer session accepted_ride =
     io_bind (io_lift (to_postgres_ride_id (coalesce_to (rd_driver_id accepted_ride) 0) ''driver id''))
       (\<lambda>db_accepted_driver_id.
     io_bind (io_map_err accepted_ride_conflict_error
       (create_accepted_ride (s_passenger_id session) (Some db_accepted_driver_id)
         (rd_fare_amount accepted_ride)
         (Some (rd_pickup_latitude accepted_ride)) (Some (rd_pickup_longitude accepted_ride))
         (Some (rd_pickup_name accepted_ride)) (Some (rd_dropoff_latitude accepted_ride))
         (Some (rd_dropoff_longitude accepted_ride)) (Some (rd_dropoff_name accepted_ride))
         (Some (rd_distance_km accepted_ride)) (Some (rd_duration_minutes accepted_ride))
         (Some (rd_driver_name accepted_ride)) (Some (rd_vehicle_type accepted_ride))
         (Some (rd_plate_number accepted_ride)) (ride_rating (rd_driver_rating accepted_ride))
         (Some (s_id session)))) (\<lambda>created_ride.
     io_bind (create_ride_settlement (r_id created_ride) (rd_fare_amount accepted_ride)
       (Some (wrap32 (coalesce_to (rd_commission_bps accepted_ride) 0)))
       (rd_commission_amount accepted_ride) (rd_driver_payout_amount accepted_ride)) (\<lambda>settlement_record.
     io_return (created_ride, settlement_record))))"

text \<open>The transaction once the session is locked.\<close>

definition accept_offer_transaction ::
  "bid_store \<Rightarrow> bid_session_row \<Rightarrow> int \<Rightarrow> int \<Rightarrow> int \<Rightarrow>
   (bid_session_row \<times> bid_offer_row \<times> ride_row \<times> settlement_row \<times> bid_offer list \<times>
    bid_offer_withdrawal list) io" where
  "accept_offer_transaction store session db_session_id db_offer_id db_passenger_id =
     (if s_passenger_id session \<noteq> db_passenger_id then io_throw ErrUnauthorizedSession
      else
        io_bind (get_bid_offer_driver_for_acceptance db_offer_id db_session_id) (\<lambda>offer_driver_id.
        io_bind (store_online_presence_cutoff store) (\<lambda>cutoff.
        io_bind (io_map_err (driver_unavailable_error ErrDispatchDriverUnavailable)
          (lock_online_driver_profile_for_bidding offer_driver_id
            (bd_allow_unverified_test_drivers store) cutoff)) (\<lambda>profile.
        io_bind (lock_pending_bid_offer_for_acceptance db_offer_id db_session_id) (\<lambda>offer.
        if s_target_driver_id session \<noteq> None \<and> s_target_driver_id session \<noteq> Some (of_driver_id offer)
        then io_throw ErrUnauthorizedSession
        else if dp_user_id profile \<noteq> of_driver_id offer then io_throw ErrUnauthorizedSession
        else
          io_bind (count_active_rides_for_acceptance (Some (dp_user_id profile))) (\<lambda>active_driver_rides.
          if active_driver_rides \<ge> max_active_rides_per_driver then io_throw ErrDriverCapacityReached
          else
            io_bind (has_active_passenger_ride (s_passenger_id session)) (\<lambda>active_passenger_ride.
            if active_passenger_ride then io_throw ErrActiveBooking
            else
              io_bind (mark_bid_offer_accepted (of_id offer)) (\<lambda>updated_offer.
              io_bind (reject_other_pending_bid_offers (s_id session) (of_id offer)) (\<lambda>rejected_rows.
              io_bind (io_lift (map_rows from_postgres_bid_offer rejected_rows)) (\<lambda>rejected_offers.
              io_bind
                (if active_driver_rides + 1 \<ge> max_active_rides_per_driver
                 then io_bind (reject_driver_pending_bid_offers (of_driver_id offer) (of_id offer))
                        (\<lambda>rows. io_lift (map_bid_offer_withdrawals rows))
                 else io_return []) (\<lambda>withdrawn_offers.
              io_bind (mark_bid_session_accepted (s_id session) (Some (of_driver_id offer)))
                (\<lambda>updated_session.
              io_bind (io_lift (accepted_ride_of store session offer profile)) (\<lambda>accepted_ride.
              io_bind (create_ride_from_offer session accepted_ride)
                (\<lambda>(created_ride, settlement_record).
              io_return (updated_session, updated_offer, created_ride, settlement_record,
                rejected_offers, withdrawn_offers)))))))))))))))"

definition store_accept_offer :: "bid_store \<Rightarrow> int \<Rightarrow> int \<Rightarrow> int \<Rightarrow> offer_acceptance io" where
  "store_accept_offer store session_id offer_id passenger_id =
     io_bind (store_validate store) (\<lambda>_.
     io_bind (io_lift (to_postgres_ride_id session_id ''session id'')) (\<lambda>db_session_id.
     io_bind (io_lift (to_postgres_ride_id offer_id ''offer id'')) (\<lambda>db_offer_id.
     io_bind (io_lift (to_postgres_ride_id passenger_id ''passenger id'')) (\<lambda>db_passenger_id.
     io_bind (transaction_if (
       io_bind (io_env env_now) (\<lambda>now.
       io_try (lock_active_bid_session_for_offer db_session_id now) (\<lambda>result.
       case result of
         Inl x \<Rightarrow>
           io_bind (repeated_acceptance db_session_id db_offer_id db_passenger_id x)
             (\<lambda>(commit, value). io_return (commit, Inl value))
       | Inr session \<Rightarrow>
           io_bind (accept_offer_transaction store session db_session_id db_offer_id db_passenger_id)
             (\<lambda>value. io_return (True, Inr value)))))) (\<lambda>outcome.
     case outcome of
       Inl value \<Rightarrow> io_return value
     | Inr (updated_session, updated_offer, created_ride, settlement_record, rejected_offers,
            withdrawn_offers) \<Rightarrow>
         io_bind (io_lift (from_postgres_bid_session updated_session)) (\<lambda>result_session.
         io_bind (io_lift (from_postgres_bid_offer updated_offer)) (\<lambda>result_offer.
         io_bind (io_lift (from_postgres_accepted_ride_projection created_ride settlement_record))
           (\<lambda>result_ride.
         io_return \<lparr>oa_session = result_session, oa_offer = result_offer, oa_ride = result_ride,
                    oa_rejected_offers = rejected_offers,
                    oa_withdrawn_offers = withdrawn_offers\<rparr>))))))))"

section \<open>What an acceptance has changed\<close>

lemma transaction_if_Inr:
  "transaction_if b e w = (Inr y, w') \<longleftrightarrow>
     \<not> env_fault e ''begin'' \<and>
     ((w' = w \<and> (\<exists>v. b e w = (Inr (False, y), v))) \<or>
      (\<not> env_fault e ''commit'' \<and> b e w = (Inr (True, y), w')))"
  by (auto simp: transaction_if_def split: prod.splits sum.splits bool.splits)

lemma transaction_if_body:
  assumes "transaction_if b e w = (Inr y, v)"
  obtains c v' where "b e w = (Inr (c, y), v')" and "v = (if c then v' else w)"
proof -
  consider v' where "v = w" "b e w = (Inr (False, y), v')" | "b e w = (Inr (True, y), v)"
    using assms unfolding transaction_if_Inr by blast
  then show thesis by cases (use that [of False] that [of True] in auto)
qed

lemma transaction_if_Inl: "transaction_if b e w = (Inl y, w') \<Longrightarrow> w' = w"
  by (auto simp: transaction_if_def split: prod.splits sum.splits bool.splits if_splits)

text \<open>The answers to the bidders of an accepted session: one accepted, the others rejected, with
  the driver's bids elsewhere when the driver is now full.\<close>

definition offer_after :: "int \<Rightarrow> int \<Rightarrow> int \<Rightarrow> bool \<Rightarrow> bid_offer_row \<Rightarrow> bid_offer_row" where
  "offer_after session_id offer_id driver_id full b =
     (if of_status b \<noteq> ''pending'' then b
      else if of_id b = offer_id then b\<lparr>of_status := ''accepted''\<rparr>
      else if of_session_id b = session_id \<or> (full \<and> of_driver_id b = driver_id)
      then b\<lparr>of_status := ''rejected''\<rparr> else b)"

definition offer_accepted ::
  "bid_store \<Rightarrow> int \<Rightarrow> int \<Rightarrow> int \<Rightarrow> env \<Rightarrow> world \<Rightarrow> world \<Rightarrow> bool" where
  "offer_accepted store sid oid pid e w w' \<longleftrightarrow>
     (\<exists>s b r st ss.
        s \<in> set (w_sessions w) \<and> s_id s = sid \<and> s_passenger_id s = pid \<and>
        session_live (env_now e) s \<and>
        b \<in> set (w_offers w) \<and> of_id b = oid \<and> of_session_id b = sid \<and> of_status b = ''pending'' \<and>
        (s_target_driver_id s = None \<or> s_target_driver_id s = Some (of_driver_id b)) \<and>
        count_where (driver_active_ride (Some (of_driver_id b))) (w_rides w) < max_active_rides_per_driver \<and>
        \<not> exists_where (\<lambda>r. r_passenger_id r = pid \<and> r_status r \<in> set passenger_active_statuses)
            (w_rides w) \<and>
        0 < of_driver_id b \<and> 0 < of_proposed_fare b \<and>
        new_settlement_snapshot (of_proposed_fare b) (bd_platform_commission_bps store) = Inr ss \<and>
        r_id r = env_nextval e ''rides'' \<and> \<not> exists_where (\<lambda>q. r_id q = r_id r) (w_rides w) \<and>
        r_passenger_id r = pid \<and> r_driver_id r = Some (of_driver_id b) \<and> r_status r = ''accepted'' \<and>
        r_fare_amount r = of_proposed_fare b \<and> r_bid_session_id r = Some sid \<and>
        r_created_at r = Some (env_db_now e) \<and>
        r_booking_reference r = s_booking_reference s \<and> driver_serves (w_driver_profiles w) r \<and>
        \<not> exists_where (\<lambda>q. r_bid_session_id q = Some sid) (w_rides w) \<and>
        st_ride_id st = r_id r \<and> st_gross_fare st = of_proposed_fare b \<and>
        st_commission_amount st = ss_commission_amount ss \<and>
        st_driver_payout_amount st = ss_driver_payout_amount ss \<and>
        st_commission_bps st \<noteq> None \<and>
        st_payment_status st = ''unpaid'' \<and> st_cash_outcome st = ''unpaid'' \<and>
        st_cash_received_amount st = 0 \<and> st_cash_change_amount st = 0 \<and>
        \<not> exists_where (\<lambda>q. st_id q = st_id st) (w_settlements w) \<and>
        \<not> exists_where (\<lambda>q. st_ride_id q = st_ride_id st) (w_settlements w) \<and>
        w' = w\<lparr>w_sessions := put_row s_id
                 (s\<lparr>s_status := ''accepted'', s_accepted_driver_id := Some (of_driver_id b)\<rparr>) (w_sessions w),
               w_offers := map (offer_after sid oid (of_driver_id b)
                 (max_active_rides_per_driver \<le> count_where (driver_active_ride (Some (of_driver_id b)))
                    (w_rides w) + 1)) (w_offers w),
               w_rides := w_rides w @ [r], w_settlements := w_settlements w @ [st]\<rparr>)"

text \<open>The offers after the three statements of an acceptance.\<close>

lemma offers_of_acceptance:
  assumes "distinct (map of_id os)" and "b \<in> set os" and "of_id b = oid" and "of_session_id b = sid"
  shows "upd_where (\<lambda>c. of_status c = ''pending'' \<and> of_session_id c = sid \<and> of_id c \<noteq> oid)
      (\<lambda>c. c\<lparr>of_status := ''rejected''\<rparr>)
      (upd_where (\<lambda>c. of_id c = oid \<and> of_status c = ''pending'') (\<lambda>c. c\<lparr>of_status := ''accepted''\<rparr>) os)
    = map (offer_after sid oid d False) os"
    and "upd_where (\<lambda>c. of_status c = ''pending'' \<and> of_driver_id c = d \<and> of_id c \<noteq> oid)
      (\<lambda>c. c\<lparr>of_status := ''rejected''\<rparr>) (map (offer_after sid oid d False) os)
    = map (offer_after sid oid d True) os"
  unfolding upd_where_def map_map comp_def by (auto simp: offer_after_def)

lemma from_postgres_bid_session_Inr:
  "from_postgres_bid_session s = Inr x \<Longrightarrow>
     s_expires_at s \<noteq> None \<and> s_created_at s \<noteq> None \<and> bs_id x = s_id s \<and>
     bs_passenger_id x = s_passenger_id s \<and> bs_status x = s_status s \<and>
     bs_offered_fare_amount x = s_offered_fare s \<and> bs_ride_id x = None \<and>
     bs_target_driver_id x = ride_optional_int (s_target_driver_id s) \<and>
     bs_accepted_driver_id x = ride_optional_int (s_accepted_driver_id s) \<and>
     bs_expires_at x = s_expires_at s"
  by (auto simp: from_postgres_bid_session_def split: if_splits)

lemma from_postgres_bid_offer_Inr:
  "from_postgres_bid_offer b = Inr x \<Longrightarrow>
     of_created_at b \<noteq> None \<and> bo_id x = of_id b \<and> bo_session_id x = of_session_id b \<and>
     bo_driver_id x = of_driver_id b \<and> bo_proposed_fare_amount x = of_proposed_fare b \<and>
     bo_status x = of_status b"
  by (auto simp: from_postgres_bid_offer_def split: if_splits)

lemma accepted_ride_ofE:
  assumes "accepted_ride_of store s b prof = Inr x"
  obtains ss where "0 < s_id s" and "0 < s_passenger_id s" and "0 < of_driver_id b"
    and "of_session_id b = s_id s" and "0 < of_proposed_fare b"
    and "new_settlement_snapshot (of_proposed_fare b) (bd_platform_commission_bps store) = Inr ss"
    and "rd_driver_id x = Some (of_driver_id b)" and "rd_fare_amount x = of_proposed_fare b"
    and "rd_commission_amount x = ss_commission_amount ss"
    and "rd_driver_payout_amount x = ss_driver_payout_amount ss"
    and "rd_commission_bps x = Some (ss_commission_bps ss)"
    and "rd_vehicle_type x = dp_vehicle_type prof" and "rd_plate_number x = dp_plate_number prof"
proof -
  from assms obtain sv bv where v: "from_postgres_bid_session s = Inr sv" "from_postgres_bid_offer b = Inr bv"
    by (auto simp: accepted_ride_of_def split: sum.splits)
  note f = from_postgres_bid_session_Inr [OF v(1)] from_postgres_bid_offer_Inr [OF v(2)]
  let ?ride = "zero_ride\<lparr>rd_passenger_id := bs_passenger_id sv, rd_driver_id := Some (bo_driver_id bv),
        rd_fare_amount := bo_proposed_fare_amount bv, rd_pickup_latitude := bs_pickup_latitude sv,
        rd_pickup_longitude := bs_pickup_longitude sv, rd_pickup_name := bs_pickup_name sv,
        rd_dropoff_latitude := bs_dropoff_latitude sv, rd_dropoff_longitude := bs_dropoff_longitude sv,
        rd_dropoff_name := bs_dropoff_name sv, rd_distance_km := bs_distance_km sv,
        rd_duration_minutes := bs_duration_minutes sv\<rparr>"
  let ?drv = "\<lparr>da_name = dp_name prof, da_vehicle_type = dp_vehicle_type prof,
        da_plate_number = dp_plate_number prof, da_rating = dp_rating prof\<rparr>"
  from assms v f have g: "0 < s_id s" "0 < s_passenger_id s" "0 < of_driver_id b"
      "of_session_id b = s_id s"
    and a: "new_accepted_ride ?ride ?drv (bd_platform_commission_bps store) = Inr x"
    by (auto simp: accepted_ride_of_def split: sum.splits if_splits)
  from a show thesis
  proof (rule new_accepted_rideE)
    fix d ss
    assume "0 < rd_fare_amount ?ride"
      and "new_settlement_snapshot (rd_fare_amount ?ride) (bd_platform_commission_bps store) = Inr ss"
      and "x = ?ride\<lparr>rd_status := ''accepted'', rd_driver_name := da_name ?drv,
        rd_vehicle_type := da_vehicle_type ?drv, rd_plate_number := da_plate_number ?drv,
        rd_driver_rating := da_rating ?drv,
        rd_commission_bps := Some (ss_commission_bps ss),
        rd_commission_amount := ss_commission_amount ss,
        rd_driver_payout_amount := ss_driver_payout_amount ss\<rparr>"
    with g f show thesis by (intro that [of ss]) simp_all
  qed
qed

lemma first_violation_NoneD: "first_violation cs = None \<Longrightarrow> (ok, x) \<in> set cs \<Longrightarrow> ok"
  by (induction cs rule: first_violation.induct) (auto split: if_splits)

lemma ride_violation_session:
  assumes "ride_violation w r = None" and "r_bid_session_id r = Some i"
    and "\<not> exists_where (\<lambda>q. r_id q = r_id r) (w_rides w)"
  shows "\<not> exists_where (\<lambda>q. r_bid_session_id q = Some i) (w_rides w)"
proof
  assume "exists_where (\<lambda>q. r_bid_session_id q = Some i) (w_rides w)"
  then have "exists_where (\<lambda>q. r_bid_session_id q = r_bid_session_id r)
      (filter (\<lambda>q. r_id q \<noteq> r_id r) (w_rides w))"
    using assms(2,3) by (auto simp: exists_where_def)
  moreover have "r_bid_session_id r = None \<or> \<not> exists_where (\<lambda>q. r_bid_session_id q = r_bid_session_id r)
      (filter (\<lambda>q. r_id q \<noteq> r_id r) (w_rides w))"
    using assms(1) unfolding ride_violation_def Let_def
    by (rule first_violation_NoneD [where x = "unique_violation ''rides_bid_session_id_idx''"]) simp
  ultimately show False using assms(2) by simp
qed

lemma settlement_violation_ride:
  assumes "settlement_violation w s = None" and "\<not> exists_where (\<lambda>q. st_id q = st_id s) (w_settlements w)"
  shows "\<not> exists_where (\<lambda>q. st_ride_id q = st_ride_id s) (w_settlements w)"
proof -
  have "\<not> exists_where (\<lambda>q. st_ride_id q = st_ride_id s \<and> st_id q \<noteq> st_id s) (w_settlements w)"
    using assms(1) unfolding settlement_violation_def
    by (rule first_violation_NoneD [where x = "unique_violation ''ridesettlement_ride_id''"]) simp
  with assms(2) show ?thesis by (auto simp: exists_where_def)
qed

lemma create_ride_from_offerD:
  assumes "create_ride_from_offer s x e v = (Inr (r, st), w')"
    and "rd_driver_id x = Some d" and "q \<in> set (w_sessions v)" and "s_id q = s_id s"
    and "s_booking_reference q = s_booking_reference s" and "distinct (map s_id (w_sessions v))"
  shows "r_id r = env_nextval e ''rides''" and "\<not> exists_where (\<lambda>q. r_id q = r_id r) (w_rides v)"
    and "r_passenger_id r = s_passenger_id s" and "r_driver_id r = Some d" and "r_status r = ''accepted''"
    and "r_fare_amount r = rd_fare_amount x" and "r_bid_session_id r = Some (s_id s)"
    and "r_created_at r = Some (env_db_now e)" and "r_booking_reference r = s_booking_reference s"
    and "r_vehicle_type r = Some (rd_vehicle_type x)" and "r_plate_number r = Some (rd_plate_number x)"
    and "\<not> exists_where (\<lambda>q. r_bid_session_id q = Some (s_id s)) (w_rides v)"
    and "st_ride_id st = r_id r" and "st_gross_fare st = rd_fare_amount x"
    and "st_commission_amount st = rd_commission_amount x"
    and "st_driver_payout_amount st = rd_driver_payout_amount x"
    and "st_commission_bps st \<noteq> None"
    and "st_payment_status st = ''unpaid''" and "st_cash_outcome st = ''unpaid''"
    and "st_cash_received_amount st = 0" and "st_cash_change_amount st = 0"
    and "\<not> exists_where (\<lambda>q. st_id q = st_id st) (w_settlements v)"
    and "\<not> exists_where (\<lambda>q. st_ride_id q = st_ride_id st) (w_settlements v)"
    and "w' = v\<lparr>w_rides := w_rides v @ [r], w_settlements := w_settlements v @ [st]\<rparr>"
proof -
  have f: "List.find (\<lambda>c. sql_eq (Some (s_id c)) (Some (s_id s))) (w_sessions v) = Some q"
    using find_key_unique [OF assms(6,3,4)] by (simp add: sql_eq_def)
  from assms(1,2) obtain u where
    c: "create_accepted_ride (s_passenger_id s) (Some d) (rd_fare_amount x)
         (Some (rd_pickup_latitude x)) (Some (rd_pickup_longitude x)) (Some (rd_pickup_name x))
         (Some (rd_dropoff_latitude x)) (Some (rd_dropoff_longitude x)) (Some (rd_dropoff_name x))
         (Some (rd_distance_km x)) (Some (rd_duration_minutes x)) (Some (rd_driver_name x))
         (Some (rd_vehicle_type x)) (Some (rd_plate_number x)) (ride_rating (rd_driver_rating x))
         (Some (s_id s)) e v = (Inr r, u)"
    and st: "create_ride_settlement (r_id r) (rd_fare_amount x)
       (Some (wrap32 (coalesce_to (rd_commission_bps x) 0))) (rd_commission_amount x)
       (rd_driver_payout_amount x) e u = (Inr st, w')"
    by (auto simp: create_ride_from_offer_def io_simps coalesce_to_def)
  from c f assms(5) have r: "r_id r = env_nextval e ''rides''" "\<not> exists_where (\<lambda>q. r_id q = r_id r) (w_rides v)"
    "r_passenger_id r = s_passenger_id s" "r_driver_id r = Some d" "r_status r = ''accepted''"
    "r_fare_amount r = rd_fare_amount x" "r_bid_session_id r = Some (s_id s)"
    "r_created_at r = Some (env_db_now e)" "r_booking_reference r = s_booking_reference s"
    "ride_violation v r = None" "r_vehicle_type r = Some (rd_vehicle_type x)"
    "r_plate_number r = Some (rd_plate_number x)" and u: "u = v\<lparr>w_rides := w_rides v @ [r]\<rparr>"
    by (auto simp: create_accepted_ride_def insert_ride_def io_simps)
  from st u have s: "st_ride_id st = r_id r" "st_gross_fare st = rd_fare_amount x"
    "st_commission_amount st = rd_commission_amount x"
    "st_driver_payout_amount st = rd_driver_payout_amount x" "st_commission_bps st \<noteq> None"
    "st_payment_status st = ''unpaid''" "st_cash_outcome st = ''unpaid''"
    "st_cash_received_amount st = 0" "st_cash_change_amount st = 0"
    "\<not> exists_where (\<lambda>q. st_id q = st_id st) (w_settlements v)"
    "settlement_violation u st = None"
    "w' = v\<lparr>w_rides := w_rides v @ [r], w_settlements := w_settlements v @ [st]\<rparr>"
    by (auto simp: create_ride_settlement_def io_simps)
  have "\<not> exists_where (\<lambda>q. st_ride_id q = st_ride_id st) (w_settlements v)"
    using settlement_violation_ride [OF s(11)] s(10) u by simp
  with r s ride_violation_session [OF r(10) r(7) r(2)]
  show "r_id r = env_nextval e ''rides''"
    "\<not> exists_where (\<lambda>q. r_id q = r_id r) (w_rides v)"
    "r_passenger_id r = s_passenger_id s"
    "r_driver_id r = Some d"
    "r_status r = ''accepted''"
    "r_fare_amount r = rd_fare_amount x"
    "r_bid_session_id r = Some (s_id s)"
    "r_created_at r = Some (env_db_now e)"
    "r_booking_reference r = s_booking_reference s"
    "r_vehicle_type r = Some (rd_vehicle_type x)" "r_plate_number r = Some (rd_plate_number x)"
    "\<not> exists_where (\<lambda>q. r_bid_session_id q = Some (s_id s)) (w_rides v)"
    "st_ride_id st = r_id r"
    "st_gross_fare st = rd_fare_amount x"
    "st_commission_amount st = rd_commission_amount x"
    "st_driver_payout_amount st = rd_driver_payout_amount x" "st_commission_bps st \<noteq> None"
    "st_payment_status st = ''unpaid''"
    "st_cash_outcome st = ''unpaid''"
    "st_cash_received_amount st = 0"
    "st_cash_change_amount st = 0"
    "\<not> exists_where (\<lambda>q. st_id q = st_id st) (w_settlements v)"
    "\<not> exists_where (\<lambda>q. st_ride_id q = st_ride_id st) (w_settlements v)"
    "w' = v\<lparr>w_rides := w_rides v @ [r], w_settlements := w_settlements v @ [st]\<rparr>"
    by simp_all
qed

lemma update_session_Inr:
  assumes "update_session n p f e w = (Inr y, w')" and "distinct (map s_id (w_sessions w))"
    and "\<And>q. p e q \<Longrightarrow> s_id q = i" and "\<And>q. s_id (f e q) = s_id q"
  obtains s where "s \<in> set (w_sessions w)" and "s_id s = i" and "p e s" and "y = f e s"
    and "w' = w\<lparr>w_sessions := put_row s_id (f e s) (w_sessions w)\<rparr>"
proof -
  from assms(1) obtain s where s: "List.find (p e) (w_sessions w) = Some s" and "y = f e s"
    and w': "w' = w\<lparr>w_sessions := upd_where (p e) (f e) (w_sessions w)\<rparr>"
    by (auto simp: update_session_def io_simps)
  moreover from s have "p e s" "s \<in> set (w_sessions w)" by (auto dest: find_SomeD)
  moreover from this(1) have "s_id s = i" by (rule assms(3))
  moreover have "upd_where (p e) (f e) (w_sessions w) = put_row s_id (f e s) (w_sessions w)"
    using assms s \<open>s_id s = i\<close> by (intro upd_where_put_row) auto
  ultimately show thesis using that by simp
qed

lemma reject_offers_Inr:
  "reject_other_pending_bid_offers sid oid e w = (Inr rows, w') \<Longrightarrow>
     w' = reject_pending (\<lambda>c. of_session_id c = sid \<and> of_id c \<noteq> oid) w"
  "reject_driver_pending_bid_offers d oid e w = (Inr rows', w') \<Longrightarrow>
     w' = reject_pending (\<lambda>c. of_driver_id c = d \<and> of_id c \<noteq> oid) w"
  by (auto simp: reject_other_pending_bid_offers_def reject_driver_pending_bid_offers_def io_simps Let_def)

lemma accept_offer_transaction_steps:
  assumes "accept_offer_transaction store s sid oid pid e w = (Inr (us, uo, r, st, rej, wd), w')"
  obtains b prof x v1 v2 v3 v4 rows where "s_passenger_id s = pid"
    and "List.find (\<lambda>b. of_id b = oid \<and> of_session_id b = sid \<and> of_status b = ''pending'') (w_offers w) = Some b"
    and "s_target_driver_id s = None \<or> s_target_driver_id s = Some (of_driver_id b)"
    and "dp_user_id prof = of_driver_id b" and "prof \<in> set (w_driver_profiles w)" and "dp_is_online prof"
    and "count_where (driver_active_ride (Some (of_driver_id b))) (w_rides w) < max_active_rides_per_driver"
    and "\<not> exists_where (\<lambda>r. r_passenger_id r = pid \<and> r_status r \<in> set passenger_active_statuses) (w_rides w)"
    and "mark_bid_offer_accepted (of_id b) e w = (Inr uo, v1)"
    and "v2 = reject_pending (\<lambda>c. of_session_id c = s_id s \<and> of_id c \<noteq> of_id b) v1"
    and "map_rows from_postgres_bid_offer rows = Inr rej"
    and "v3 = (if max_active_rides_per_driver \<le>
                  count_where (driver_active_ride (Some (of_driver_id b))) (w_rides w) + 1
               then reject_pending (\<lambda>c. of_driver_id c = of_driver_id b \<and> of_id c \<noteq> of_id b) v2 else v2)"
    and "mark_bid_session_accepted (s_id s) (Some (of_driver_id b)) e v3 = (Inr us, v4)"
    and "accepted_ride_of store s b prof = Inr x"
    and "create_ride_from_offer s x e v4 = (Inr (r, st), w')"
proof -
  let ?n = "\<lambda>b. count_where (driver_active_ride (Some (of_driver_id b))) (w_rides w)"
  from assms obtain b prof x v1 v2 v3 v4 rows where a: "s_passenger_id s = pid"
    "List.find (\<lambda>b. of_id b = oid \<and> of_session_id b = sid \<and> of_status b = ''pending'') (w_offers w) = Some b"
    "s_target_driver_id s = None \<or> s_target_driver_id s = Some (of_driver_id b)"
    "dp_user_id prof = of_driver_id b"
    and p: "prof \<in> set (w_driver_profiles w)" "dp_is_online prof"
    and a2: "?n b < max_active_rides_per_driver"
    "\<not> exists_where (\<lambda>r. r_passenger_id r = pid \<and> r_status r \<in> set passenger_active_statuses) (w_rides w)"
    "mark_bid_offer_accepted (of_id b) e w = (Inr uo, v1)"
    and r: "reject_other_pending_bid_offers (s_id s) (of_id b) e v1 = (Inr rows, v2)"
    and m: "map_rows from_postgres_bid_offer rows = Inr rej"
    and wd: "(if ?n b + 1 \<ge> max_active_rides_per_driver
         then io_bind (reject_driver_pending_bid_offers (of_driver_id b) (of_id b))
                (\<lambda>rows. io_lift (map_bid_offer_withdrawals rows))
         else io_return []) e v2 = (Inr wd, v3)"
    and c: "mark_bid_session_accepted (s_id s) (Some (of_driver_id b)) e v3 = (Inr us, v4)"
    "accepted_ride_of store s b prof = Inr x" "create_ride_from_offer s x e v4 = (Inr (r, st), w')"
    by (auto simp: accept_offer_transaction_def io_simps lock_pending_bid_offer_for_acceptance_def
        count_active_rides_for_acceptance_def has_active_passenger_ride_def
        get_bid_offer_driver_for_acceptance_def store_online_presence_cutoff_def
        dest!: lock_online_driverD split: if_split_asm)
  note v2 = reject_offers_Inr(1) [OF r]
  have v3: "v3 = (if max_active_rides_per_driver \<le> ?n b + 1
      then reject_pending (\<lambda>c. of_driver_id c = of_driver_id b \<and> of_id c \<noteq> of_id b) v2 else v2)"
    using wd by (auto simp: io_simps dest: reject_offers_Inr(2) split: if_splits)
  show thesis by (rule that [OF a p a2 v2 m v3 c])
qed

lemma accept_offer_transactionE:
  assumes "accept_offer_transaction store s sid oid pid e w = (Inr (us, uo, r, st, rej, wd), w')"
    and "s \<in> set (w_sessions w)" and "s_id s = sid" and "session_live (env_now e) s"
    and "distinct (map s_id (w_sessions w))" and "distinct (map of_id (w_offers w))"
  shows "offer_accepted store sid oid pid e w w'"
    and "us = s\<lparr>s_status := ''accepted'', s_accepted_driver_id := r_driver_id r\<rparr>"
    and "\<exists>b\<in>set (w_offers w). of_id b = oid \<and> uo = b\<lparr>of_status := ''accepted''\<rparr>"
    and "r_created_at r = Some (env_db_now e)"
proof -
  from assms(1) obtain b prof x v1 v2 v3 v4 rows where s: "s_passenger_id s = pid"
    and b: "List.find (\<lambda>b. of_id b = oid \<and> of_session_id b = sid \<and> of_status b = ''pending'') (w_offers w) = Some b"
    and g: "s_target_driver_id s = None \<or> s_target_driver_id s = Some (of_driver_id b)"
      "dp_user_id prof = of_driver_id b" "prof \<in> set (w_driver_profiles w)" "dp_is_online prof"
      "count_where (driver_active_ride (Some (of_driver_id b))) (w_rides w) < max_active_rides_per_driver"
      "\<not> exists_where (\<lambda>r. r_passenger_id r = pid \<and> r_status r \<in> set passenger_active_statuses) (w_rides w)"
    and o1: "mark_bid_offer_accepted (of_id b) e w = (Inr uo, v1)"
    and o2: "v2 = reject_pending (\<lambda>c. of_session_id c = s_id s \<and> of_id c \<noteq> of_id b) v1"
    and "map_rows from_postgres_bid_offer rows = Inr rej"
    and o3: "v3 = (if max_active_rides_per_driver \<le>
                  count_where (driver_active_ride (Some (of_driver_id b))) (w_rides w) + 1
               then reject_pending (\<lambda>c. of_driver_id c = of_driver_id b \<and> of_id c \<noteq> of_id b) v2 else v2)"
    and us: "mark_bid_session_accepted (s_id s) (Some (of_driver_id b)) e v3 = (Inr us, v4)"
    and x: "accepted_ride_of store s b prof = Inr x"
    and cr: "create_ride_from_offer s x e v4 = (Inr (r, st), w')"
    by (rule accept_offer_transaction_steps)
  let ?full = "max_active_rides_per_driver \<le>
      count_where (driver_active_ride (Some (of_driver_id b))) (w_rides w) + 1"
  let ?s = "s\<lparr>s_status := ''accepted'', s_accepted_driver_id := Some (of_driver_id b)\<rparr>"
  from b have b2: "b \<in> set (w_offers w)" "of_id b = oid" "of_session_id b = sid" "of_status b = ''pending''"
    by (auto dest: find_SomeD)
  from o1 have v1: "v1 = w\<lparr>w_offers := upd_where (\<lambda>c. of_id c = oid \<and> of_status c = ''pending'')
      (\<lambda>c. c\<lparr>of_status := ''accepted''\<rparr>) (w_offers w)\<rparr>"
    and uo: "\<exists>b\<in>set (w_offers w). of_id b = oid \<and> uo = b\<lparr>of_status := ''accepted''\<rparr>"
    by (auto simp: mark_bid_offer_accepted_def update_offer_def io_simps b2 dest: find_SomeD)
  note off = offers_of_acceptance [OF assms(6) b2(1-3)]
  have "v2 = w\<lparr>w_offers := map (offer_after sid oid (of_driver_id b) False) (w_offers w)\<rparr>"
    unfolding o2 v1 reject_pending_def using off(1) [of "of_driver_id b"] by (simp add: assms(3) b2(2))
  then have v3: "v3 = w\<lparr>w_offers := map (offer_after sid oid (of_driver_id b) ?full) (w_offers w)\<rparr>"
    unfolding o3 reject_pending_def using off(2) [of "of_driver_id b"] by (simp add: b2(2))
  from us obtain q where q: "q \<in> set (w_sessions v3)" "s_id q = s_id s"
    "us = q\<lparr>s_status := ''accepted'', s_accepted_driver_id := Some (of_driver_id b)\<rparr>"
    "v4 = v3\<lparr>w_sessions := put_row s_id (q\<lparr>s_status := ''accepted'',
        s_accepted_driver_id := Some (of_driver_id b)\<rparr>) (w_sessions v3)\<rparr>"
    unfolding mark_bid_session_accepted_def
    by (rule update_session_Inr [where i = "s_id s"]) (use v3 assms(5) in auto)
  have "q = s" using distinct_key_inj [OF assms(5) _ assms(2) q(2)] q(1) v3 by simp
  with q v3 have u: "us = ?s"
    and v4: "v4 = w\<lparr>w_offers := map (offer_after sid oid (of_driver_id b) ?full) (w_offers w),
      w_sessions := put_row s_id ?s (w_sessions w)\<rparr>" by simp_all
  have sin: "?s \<in> set (w_sessions v4)" using put_row_in [OF assms(2), of s_id ?s] v4 by simp
  from x obtain ss where xs: "0 < of_driver_id b" "0 < of_proposed_fare b"
    "new_settlement_snapshot (of_proposed_fare b) (bd_platform_commission_bps store) = Inr ss"
    "rd_driver_id x = Some (of_driver_id b)" "rd_fare_amount x = of_proposed_fare b"
    "rd_commission_amount x = ss_commission_amount ss" "rd_driver_payout_amount x = ss_driver_payout_amount ss"
    "rd_vehicle_type x = dp_vehicle_type prof" "rd_plate_number x = dp_plate_number prof"
    by (rule accepted_ride_ofE)
  have d4: "distinct (map s_id (w_sessions v4))" using v4 assms(5) by simp
  note r = create_ride_from_offerD [OF cr xs(4) sin _ _ d4, simplified, unfolded xs(5-7)]
  show "us = s\<lparr>s_status := ''accepted'', s_accepted_driver_id := r_driver_id r\<rparr>"
    using u r(4) by simp
  have serves: "driver_serves (w_driver_profiles w) r"
    by (rule driver_servesI [OF g(3,4)]) (use g(2) xs r in simp_all)
  show "offer_accepted store sid oid pid e w w'"
    unfolding offer_accepted_def
    by (intro exI [of _ s] exI [of _ b] exI [of _ r] exI [of _ st] exI [of _ ss] conjI)
      (use v4 s g b2 xs assms(2-4) r serves in simp_all)
  show "\<exists>b\<in>set (w_offers w). of_id b = oid \<and> uo = b\<lparr>of_status := ''accepted''\<rparr>" by (rule uo)
  show "r_created_at r = Some (env_db_now e)" by (rule r(8))
qed

text \<open>A repetition is answered without writing, and only for an accepted session of the passenger.\<close>

lemma read_only_bid_reads [io_class]:
  "read_only (get_ride_by_bid_session_id o1)" "read_only (lock_active_bid_session_for_offer i now)"
  "read_only (get_bid_session_by_id i)" "read_only (list_bid_offers_by_session i)"
  by (simp_all add: get_ride_by_bid_session_id_def lock_active_bid_session_for_offer_def
      get_bid_session_by_id_def list_bid_offers_by_session_def io_class)

lemma io_try_read:
  assumes "io_try m f e w = (r, w')" and "read_only m"
  obtains s where "m e w = (s, w)" and "f s e w = (r, w')"
proof -
  from assms(1) obtain s v where m: "m e w = (s, v)" and f: "f s e v = (r, w')"
    unfolding io_try_eq by blast
  from read_onlyD [OF assms(2) m] m f that show thesis by simp
qed

lemma replay_accepted_offer_Inr:
  assumes "replay_accepted_offer s oid x offers e w = (Inr (commit, a), w')"
  shows "\<not> commit \<and> w' = w \<and> from_postgres_bid_session s = Inr (oa_session a) \<and>
    (\<exists>b\<in>set offers. of_id b = oid \<and> of_status b = ''accepted'' \<and>
      s_accepted_driver_id s = Some (of_driver_id b) \<and> from_postgres_bid_offer b = Inr (oa_offer a))"
  using assms
proof (induction offers arbitrary: w)
  case Nil
  then show ?case by (simp add: io_simps)
next
  case (Cons c offers)
  show ?case
  proof (cases "of_id c = oid \<and> of_status c = ''accepted'' \<and> s_accepted_driver_id s = Some (of_driver_id c)")
    case False
    with Cons.prems have "replay_accepted_offer s oid x offers e w = (Inr (commit, a), w')" by auto
    with Cons.IH show ?thesis by auto
  next
    case True
    from Cons.prems [unfolded replay_accepted_offer.simps if_P [OF True]]
    obtain row where "get_ride_by_bid_session_id (Some (s_id s)) e w = (row, w)" and k: "(case row of
            Inl _ \<Rightarrow> replay_accepted_offer s oid x offers
          | Inr row \<Rightarrow>
              (case (from_postgres_bid_session s, from_postgres_bid_offer c,
                     from_postgres_bid_session_ride_row row) of
                 (Inr session_value, Inr offer_value, Inr ride_value) \<Rightarrow>
                   io_return (False,
                     \<lparr>oa_session = session_value, oa_offer = offer_value, oa_ride = ride_value,
                      oa_rejected_offers = [], oa_withdrawn_offers = []\<rparr>)
               | _ \<Rightarrow> replay_accepted_offer s oid x offers)) e w = (Inr (commit, a), w')"
      by (rule io_try_read [OF _ read_only_bid_reads(1)])
    show ?thesis
    proof (cases "replay_accepted_offer s oid x offers e w = (Inr (commit, a), w')")
      case True
      from Cons.IH [OF this] show ?thesis by auto
    next
      case False
      with k True show ?thesis
        by (auto split: sum.splits simp: io_simps)
    qed
  qed
qed

lemma repeated_acceptance_Inr:
  assumes "repeated_acceptance sid oid pid x e w = (Inr (commit, a), w')"
  shows "\<not> commit \<and> w' = w \<and>
    (\<exists>s\<in>set (w_sessions w). s_id s = sid \<and> s_passenger_id s = pid \<and> s_status s = ''accepted'' \<and>
      from_postgres_bid_session s = Inr (oa_session a))"
proof -
  from assms [unfolded repeated_acceptance_def] obtain s offers where
    g: "get_bid_session_by_id sid e w = (Inr s, w)"
    and s: "s_status s = ''accepted''" "s_passenger_id s = pid"
    and r: "replay_accepted_offer s oid x offers e w = (Inr (commit, a), w')"
    by (elim io_try_read, intro read_only_bid_reads)
      (auto simp: io_throw_eq split: sum.splits if_splits elim!: io_try_read intro: read_only_bid_reads)
  from g have s: "List.find (\<lambda>s. s_id s = sid) (w_sessions w) = Some s"
    "s_status s = ''accepted''" "s_passenger_id s = pid"
    using s by (simp_all add: get_bid_session_by_id_def io_simps)
  from replay_accepted_offer_Inr [OF r] s show ?thesis by (auto dest: find_SomeD)
qed

text \<open>What a success has run: the answer to a repetition, or the transaction.\<close>

lemma store_accept_offer_steps:
  assumes "store_accept_offer store sid oid pid e w = (Inr x, w')"
  obtains (repeated) z where "repeated_acceptance sid oid pid z e w = (Inr (False, x), w')" and "w' = w"
  | (accepted) s us uo rr st rej wd where "s \<in> set (w_sessions w)" and "s_id s = sid"
      and "session_live (env_now e) s"
      and "accept_offer_transaction store s sid oid pid e w = (Inr (us, uo, rr, st, rej, wd), w')"
      and "from_postgres_bid_session us = Inr (oa_session x)"
      and "from_postgres_accepted_ride_projection rr st = Inr (oa_ride x)"
proof -
  let ?body = "io_bind (io_env env_now) (\<lambda>now.
       io_try (lock_active_bid_session_for_offer sid now) (\<lambda>result.
       case result of
         Inl x \<Rightarrow> io_bind (repeated_acceptance sid oid pid x) (\<lambda>(commit, value). io_return (commit, Inl value))
       | Inr session \<Rightarrow>
           io_bind (accept_offer_transaction store session sid oid pid)
             (\<lambda>value. io_return (True, Inr value))))"
  from assms(1) obtain y v where b: "transaction_if ?body e w = (Inr y, v)"
    and k: "(case y of
       Inl value \<Rightarrow> io_return value
     | Inr (updated_session, updated_offer, created_ride, settlement_record, rejected_offers,
            withdrawn_offers) \<Rightarrow>
         io_bind (io_lift (from_postgres_bid_session updated_session)) (\<lambda>result_session.
         io_bind (io_lift (from_postgres_bid_offer updated_offer)) (\<lambda>result_offer.
         io_bind (io_lift (from_postgres_accepted_ride_projection created_ride settlement_record))
           (\<lambda>result_ride.
         io_return \<lparr>oa_session = result_session, oa_offer = result_offer, oa_ride = result_ride,
                    oa_rejected_offers = rejected_offers,
                    oa_withdrawn_offers = withdrawn_offers\<rparr>)))) e v = (Inr x, w')"
    by (auto simp: store_accept_offer_def store_validate_def io_simps split: if_splits)
  from b obtain c v' where bb: "?body e w = (Inr (c, y), v')" "v = (if c then v' else w)"
    by (rule transaction_if_body)
  then obtain r where l: "lock_active_bid_session_for_offer sid (env_now e) e w = (r, w)"
    and kk: "(case r of
         Inl x \<Rightarrow> io_bind (repeated_acceptance sid oid pid x) (\<lambda>(commit, value). io_return (commit, Inl value))
       | Inr session \<Rightarrow>
           io_bind (accept_offer_transaction store session sid oid pid)
             (\<lambda>value. io_return (True, Inr value))) e w = (Inr (c, y), v')"
    unfolding io_bind_Inr io_env_eq by (elim exE conjE io_try_read) (auto intro: read_only_bid_reads)
  show thesis
  proof (cases r)
    case (Inl z)
    with kk obtain a where ra: "repeated_acceptance sid oid pid z e w = (Inr (c, a), v')"
      and "y = Inl a" by (auto simp: io_simps)
    with repeated_acceptance_Inr [OF ra] k bb have "w' = w" "x = a" "v' = w" "\<not> c" by (auto simp: io_simps)
    with ra show thesis by (intro repeated) auto
  next
    case (Inr s)
    with kk obtain z where at: "accept_offer_transaction store s sid oid pid e w = (Inr z, v')"
      and y: "y = Inr z" and c by (auto simp: io_simps)
    obtain us uo rr st rej wd where z: "z = (us, uo, rr, st, rej, wd)" by (cases z) auto
    from l Inr have s: "s \<in> set (w_sessions w)" "s_id s = sid" "session_live (env_now e) s"
      by (auto simp: lock_active_bid_session_for_offer_def io_simps dest: find_SomeD)
    from k y z bb \<open>c\<close> have "w' = v'" "from_postgres_bid_session us = Inr (oa_session x)"
      "from_postgres_accepted_ride_projection rr st = Inr (oa_ride x)" by (auto simp: io_simps)
    with s at z show thesis by (intro accepted) auto
  qed
qed

lemma store_accept_offer_cases:
  assumes "store_accept_offer store sid oid pid e w = (Inr x, w')" and "schema_ok w"
  obtains (accepted) "offer_accepted store sid oid pid e w w'" and "bs_status (oa_session x) = ''accepted''"
      and "bs_id (oa_session x) = sid"
  | (repeated) "w' = w" and "bs_status (oa_session x) = ''accepted''" and "bs_passenger_id (oa_session x) = pid"
  using assms(1)
proof (cases rule: store_accept_offer_steps)
  case (repeated z)
  from repeated_acceptance_Inr [OF repeated(1)] show thesis
    by (auto dest!: from_postgres_bid_session_Inr intro: that(2))
next
  case (accepted s us uo rr st rej wd)
  note o = accept_offer_transactionE [OF accepted(4) accepted(1-3) schema_okD(8,10) [OF assms(2)]]
  from o accepted(2,5) show thesis by (intro that(1)) (auto dest!: from_postgres_bid_session_Inr)
qed

lemma store_accept_offer_fails:
  assumes "store_accept_offer store sid oid pid e w = (Inl x, w')" and "schema_ok w"
  shows "w' = w"
proof -
  let ?body = "io_bind (io_env env_now) (\<lambda>now.
       io_try (lock_active_bid_session_for_offer sid now) (\<lambda>result.
       case result of
         Inl x \<Rightarrow> io_bind (repeated_acceptance sid oid pid x) (\<lambda>(commit, value). io_return (commit, Inl value))
       | Inr session \<Rightarrow>
           io_bind (accept_offer_transaction store session sid oid pid)
             (\<lambda>value. io_return (True, Inr value))))"
  let ?k = "\<lambda>y. case y of
       Inl value \<Rightarrow> io_return value
     | Inr (updated_session, updated_offer, created_ride, settlement_record, rejected_offers,
            withdrawn_offers) \<Rightarrow>
         io_bind (io_lift (from_postgres_bid_session updated_session)) (\<lambda>result_session.
         io_bind (io_lift (from_postgres_bid_offer updated_offer)) (\<lambda>result_offer.
         io_bind (io_lift (from_postgres_accepted_ride_projection created_ride settlement_record))
           (\<lambda>result_ride.
         io_return \<lparr>oa_session = result_session, oa_offer = result_offer, oa_ride = result_ride,
                    oa_rejected_offers = rejected_offers,
                    oa_withdrawn_offers = withdrawn_offers\<rparr>)))"
  consider "w' = w" | "transaction_if ?body e w = (Inl x, w')"
    | y v where "transaction_if ?body e w = (Inr y, v)" and "?k y e v = (Inl x, w')"
    using assms(1) unfolding store_accept_offer_def store_validate_def io_bind_Inl
    by (auto simp: io_simps split: if_splits)
  then show ?thesis
  proof cases
    case (3 y v)
    obtain c v' where bb: "?body e w = (Inr (c, y), v')" "v = (if c then v' else w)"
      using 3(1) by (rule transaction_if_body)
    then obtain r where l: "lock_active_bid_session_for_offer sid (env_now e) e w = (r, w)"
      and kk: "(case r of
         Inl x \<Rightarrow> io_bind (repeated_acceptance sid oid pid x) (\<lambda>(commit, value). io_return (commit, Inl value))
       | Inr session \<Rightarrow>
           io_bind (accept_offer_transaction store session sid oid pid)
             (\<lambda>value. io_return (True, Inr value))) e w = (Inr (c, y), v')"
      unfolding io_bind_Inr io_env_eq by (elim exE conjE io_try_read) (auto intro: read_only_bid_reads)
    show ?thesis
    proof (cases r)
      case (Inl z)
      with kk 3(2) show ?thesis by (auto simp: io_simps)
    next
      case (Inr s)
      with kk obtain z where at: "accept_offer_transaction store s sid oid pid e w = (Inr z, v')"
        and y: "y = Inr z" by (auto simp: io_simps)
      obtain us uo rr st rej wd where z: "z = (us, uo, rr, st, rej, wd)" by (cases z) auto
      from l Inr have s: "s \<in> set (w_sessions w)" "s_id s = sid" "session_live (env_now e) s"
        by (auto simp: lock_active_bid_session_for_offer_def io_simps dest: find_SomeD)
      note o = accept_offer_transactionE [OF at [unfolded z] s schema_okD(8,10) [OF assms(2)]]
      have "\<exists>a. from_postgres_bid_session us = Inr a" "\<exists>a. from_postgres_bid_offer uo = Inr a"
        "\<exists>a. from_postgres_accepted_ride_projection rr st = Inr a"
        using o(2-4) s(1) schema_okD(9,11) [OF assms(2)]
        by (auto simp: from_postgres_bid_session_def from_postgres_bid_offer_def list_all_iff
            from_postgres_accepted_ride_projection_def dispatch_ride_projection_def)
      with 3(2) y z show ?thesis by (auto simp: io_bind_Inl io_simps)
    qed
  qed (auto dest: transaction_if_Inl)
qed

section \<open>The other operations\<close>

text \<open>
  They leave rides, settlements and wallets alone, and among the sessions and offers the
  accepted ones; they may publish.
\<close>

definition bids_evolve :: "world \<Rightarrow> world \<Rightarrow> bool" where
  "bids_evolve w w' \<longleftrightarrow>
     w_users w' = w_users w \<and> w_driver_profiles w' = w_driver_profiles w \<and>
     w_rides w' = w_rides w \<and> w_settlements w' = w_settlements w \<and> w_accounts w' = w_accounts w \<and>
     w_ledgers w' = w_ledgers w \<and> w_events w' = w_events w \<and> w_audits w' = w_audits w \<and>
     w_reviews w' = w_reviews w \<and> (\<exists>evs. w_published w' = w_published w @ evs) \<and>
     (schema_ok w \<longrightarrow> schema_ok w') \<and>
     filter (\<lambda>s. s_status s = ''accepted'') (w_sessions w') =
       filter (\<lambda>s. s_status s = ''accepted'') (w_sessions w) \<and>
     filter (\<lambda>b. of_status b = ''accepted'') (w_offers w') =
       filter (\<lambda>b. of_status b = ''accepted'') (w_offers w)"

lemma bids_evolve_refl [simp]: "bids_evolve w w"
  by (simp add: bids_evolve_def)

lemma bids_evolve_trans: "bids_evolve u v \<Longrightarrow> bids_evolve v w \<Longrightarrow> bids_evolve u w"
  by (auto simp: bids_evolve_def)

definition evolves :: "'a io \<Rightarrow> bool" where
  "evolves m \<longleftrightarrow> (\<forall>e w r w'. m e w = (r, w') \<longrightarrow> bids_evolve w w')"

named_theorems evolve_intros \<open>operations on bids only\<close>

lemma evolvesD: "evolves m \<Longrightarrow> m e w = (r, w') \<Longrightarrow> bids_evolve w w'"
  by (auto simp: evolves_def)

lemma evolves_read_only: "read_only m \<Longrightarrow> evolves m"
  by (auto simp: evolves_def dest: read_onlyD)

lemma evolves_bind [evolve_intros]:
  assumes "evolves m" and "\<And>x. evolves (f x)"
  shows "evolves (io_bind m f)"
  unfolding evolves_def
proof (intro allI impI)
  fix e w r w' assume "io_bind m f e w = (r, w')"
  then show "bids_evolve w w'"
    using evolvesD [OF assms(1), of e w] evolvesD [OF assms(2)]
    by (auto simp: io_bind_def split: prod.splits sum.splits intro: bids_evolve_trans)
qed

lemma evolves_try [evolve_intros]:
  assumes "evolves m" and "\<And>x. evolves (f x)"
  shows "evolves (io_try m f)"
  unfolding evolves_def io_try_eq using evolvesD [OF assms(1)] evolvesD [OF assms(2)] bids_evolve_trans
  by blast

lemma evolves_map_err [evolve_intros]: "evolves m \<Longrightarrow> evolves (io_map_err g m)"
  by (fastforce simp: evolves_def io_map_err_def split: prod.splits sum.splits)

lemma evolves_transaction [evolve_intros]: "evolves m \<Longrightarrow> evolves (transaction m)"
  by (fastforce simp: evolves_def transaction_def split: prod.splits sum.splits if_splits)

lemma filter_upd_where:
  "(\<And>r. q r \<Longrightarrow> \<not> p r \<and> \<not> p (f r)) \<Longrightarrow> filter p (upd_where q f t) = filter p t"
  by (induction t) auto

lemma list_all_upd_where:
  "(\<And>r. q r \<Longrightarrow> p r \<Longrightarrow> p (f r)) \<Longrightarrow> list_all p t \<Longrightarrow> list_all p (upd_where q f t)"
  by (induction t) auto

lemma bids_evolve_reject_pending: "bids_evolve w (reject_pending p w)"
proof -
  let ?q = "\<lambda>b. of_status b = ''pending'' \<and> p b" and ?f = "\<lambda>b. b\<lparr>of_status := ''rejected''\<rparr>"
  have "filter (\<lambda>b. of_status b = ''accepted'') (upd_where ?q ?f (w_offers w)) =
      filter (\<lambda>b. of_status b = ''accepted'') (w_offers w)"
    by (rule filter_upd_where) simp
  moreover have "map of_id (upd_where ?q ?f (w_offers w)) = map of_id (w_offers w)"
    by (rule map_upd_where_key) simp
  ultimately show ?thesis
    by (simp add: bids_evolve_def reject_pending_def schema_ok_def list_all_upd_where)
qed

lemma bids_evolve_sessions:
  assumes "\<And>s. q s \<Longrightarrow> s_status s \<noteq> ''accepted''" and "t \<noteq> ''accepted''"
  shows "bids_evolve w (w\<lparr>w_sessions := upd_where q (\<lambda>s. s\<lparr>s_status := t\<rparr>) (w_sessions w)\<rparr>)"
proof -
  let ?f = "\<lambda>s. s\<lparr>s_status := t\<rparr>"
  have "filter (\<lambda>s. s_status s = ''accepted'') (upd_where q ?f (w_sessions w)) =
      filter (\<lambda>s. s_status s = ''accepted'') (w_sessions w)"
    by (rule filter_upd_where) (use assms in simp)
  moreover have "map s_id (upd_where q ?f (w_sessions w)) = map s_id (w_sessions w)"
    by (rule map_upd_where_key) simp
  ultimately show ?thesis
    by (simp add: bids_evolve_def schema_ok_def list_all_upd_where)
qed

lemma bids_evolve_notify: "bids_evolve w (w\<lparr>w_notifications := n\<rparr>)"
  by (simp add: bids_evolve_def schema_ok_def)

lemma evolves_expire [evolve_intros]: "evolves (expire_bid_sessions pid now)"
  unfolding evolves_def
proof (intro allI impI)
  fix e w r w' assume a: "expire_bid_sessions pid now e w = (r, w')"
  let ?s = "w\<lparr>w_sessions := upd_where (session_expired pid now) (\<lambda>s. s\<lparr>s_status := ''expired''\<rparr>) (w_sessions w)\<rparr>"
  let ?n = "?s\<lparr>w_notifications := w_notifications w @
    map2 (timeout_notification e) [0..<length (filter (session_expired pid now) (w_sessions w))]
      (filter (session_expired pid now) (w_sessions w))\<rparr>"
  have "bids_evolve w ?s" by (rule bids_evolve_sessions) (simp_all add: session_expired_def)
  moreover have "bids_evolve ?s ?n" by (rule bids_evolve_notify)
  ultimately have "bids_evolve w ?n" by (rule bids_evolve_trans)
  then have "bids_evolve w (reject_pending p ?n)" for p
    using bids_evolve_reject_pending by (rule bids_evolve_trans)
  with a show "bids_evolve w w'"
    by (auto simp: expire_bid_sessions_def query_def Let_def split: if_splits)
qed

lemma evolves_cancel_bid_session [evolve_intros]: "evolves (cancel_bid_session i pid)"
  unfolding evolves_def
proof (intro allI impI)
  fix e w r w' assume a: "cancel_bid_session i pid e w = (r, w')"
  let ?p = "\<lambda>s. s_id s = i \<and> s_passenger_id s = pid \<and> s_status s = ''open''"
  let ?r = "reject_pending (\<lambda>b. of_session_id b = i) w"
  have r: "bids_evolve w ?r" by (rule bids_evolve_reject_pending)
  have "bids_evolve ?r (?r\<lparr>w_sessions := upd_where ?p (\<lambda>s. s\<lparr>s_status := ''cancelled''\<rparr>) (w_sessions ?r)\<rparr>)"
    by (rule bids_evolve_sessions) simp_all
  with r have "bids_evolve w (?r\<lparr>w_sessions := upd_where ?p (\<lambda>s. s\<lparr>s_status := ''cancelled''\<rparr>) (w_sessions w)\<rparr>)"
    by (simp add: bids_evolve_trans)
  with a r show "bids_evolve w w'"
    by (auto simp: cancel_bid_session_def query_def Let_def split: if_splits option.splits)
qed

lemma evolves_decline [evolve_intros]: "evolves (decline_targeted_bid_session i d)"
  unfolding evolves_def
proof (intro allI impI)
  fix e w r w' assume a: "decline_targeted_bid_session i d e w = (r, w')"
  let ?p = "\<lambda>s. s_id s = i \<and> sql_eq (s_target_driver_id s) d \<and>
          (s_status s = ''declined'' \<or> session_live (env_db_now e) s)"
  have "bids_evolve w (w\<lparr>w_sessions := upd_where ?p (\<lambda>s. s\<lparr>s_status := ''declined''\<rparr>) (w_sessions w)\<rparr>)"
    by (rule bids_evolve_sessions) (auto simp: session_live_def)
  with a show "bids_evolve w w'"
    by (auto simp: decline_targeted_bid_session_def update_session_def update_one_def query_def
        split: if_splits option.splits)
qed

lemma evolves_cancel_offer [evolve_intros]: "evolves (cancel_pending_bid_offer i d)"
  unfolding evolves_def
proof (intro allI impI)
  fix e w r w' assume a: "cancel_pending_bid_offer i d e w = (r, w')"
  let ?p = "\<lambda>b. of_session_id b = i \<and> of_driver_id b = d \<and>
          exists_where (\<lambda>s. s_id s = of_session_id b \<and> s_status s = ''open'') (w_sessions w)"
  have p: "(\<lambda>b. of_session_id b = i \<and> of_driver_id b = d \<and> of_status b = ''pending'' \<and>
          exists_where (\<lambda>s. s_id s = of_session_id b \<and> s_status s = ''open'') (w_sessions w)) =
      (\<lambda>b. of_status b = ''pending'' \<and> ?p b)" by auto
  from a have "w' = w \<or> w' = reject_pending ?p w"
    unfolding cancel_pending_bid_offer_def p
    by (auto simp: update_offer_def update_one_def query_def reject_pending_def
        split: if_splits option.splits)
  then show "bids_evolve w w'" using bids_evolve_reject_pending by auto
qed

lemma evolves_create_offer [evolve_intros]: "evolves (create_bid_offer i d n pl v f)"
  unfolding evolves_def
  by (auto simp: create_bid_offer_def insert_one_def query_def bids_evolve_def schema_ok_def
      exists_where_def split: if_splits option.splits)

lemma evolves_allocate [evolve_intros]: "evolves allocate_booking_reference"
  unfolding evolves_def
  by (auto simp: allocate_booking_reference_def bids_evolve_def schema_ok_def split: if_splits)

lemma evolves_insert_session:
  assumes "\<And>e. s_status (row e) \<noteq> ''accepted'' \<and> s_expires_at (row e) \<noteq> None \<and> s_created_at (row e) \<noteq> None"
  shows "evolves (insert_one n t w_sessions (\<lambda>x. w_sessions_update (\<lambda>_. x)) s_id vio row)"
  unfolding evolves_def using assms
  by (auto simp: insert_one_def query_def bids_evolve_def schema_ok_def exists_where_def
      split: if_splits option.splits)

lemma evolves_create_session [evolve_intros]:
  assumes "status \<noteq> ''accepted''" and "expires \<noteq> None"
  shows "evolves (create_bid_session pid a b c d f g h i j fare status target expires created)"
  unfolding create_bid_session_def
  by (intro evolves_bind evolves_allocate evolves_insert_session)
    (use assms in \<open>auto simp: coalesce_def split: option.splits\<close>)

lemma evolves_cutoff [evolve_intros]: "evolves (store_online_presence_cutoff store)"
  "evolves (store_validate store)"
  by (auto simp: store_online_presence_cutoff_def store_validate_def intro!: evolves_read_only io_class)

lemma read_only_dispatch_reads [io_class]:
  "read_only (lock_user_for_bid_session i)" "read_only (has_active_bid_session i now)"
  "read_only (has_active_passenger_ride i)" "read_only (has_pending_bid_offer i d)"
  "read_only (lock_online_driver_profile_for_bidding d u c)"
  "read_only (get_online_driver_profile_for_bidding d u c)"
  "read_only (count_active_rides_for_driver o1)" "read_only (list_active_bid_sessions now)"
  "read_only (list_targeted_active_bid_sessions now o1)"
  "read_only (list_pending_bid_offers_for_driver d now is)"
  by (simp_all add: lock_user_for_bid_session_def has_active_bid_session_def
      has_active_passenger_ride_def has_pending_bid_offer_def lock_online_driver_profile_for_bidding_def
      get_online_driver_profile_for_bidding_def count_active_rides_for_driver_def
      list_active_bid_sessions_def list_targeted_active_bid_sessions_def
      list_pending_bid_offers_for_driver_def io_class)

lemmas evolves_reads [evolve_intros] =
  read_only_return [THEN evolves_read_only] read_only_throw [THEN evolves_read_only]
  read_only_lift [THEN evolves_read_only] read_only_env [THEN evolves_read_only]
  read_only_bid_reads [THEN evolves_read_only] read_only_dispatch_reads [THEN evolves_read_only]

lemma evolves_if [evolve_intros]:
  "(c \<Longrightarrow> evolves m) \<Longrightarrow> (\<not> c \<Longrightarrow> evolves n) \<Longrightarrow> evolves (if c then m else n)"
  by simp

lemma evolves_option [evolve_intros]:
  "evolves m \<Longrightarrow> (\<And>x. evolves (f x)) \<Longrightarrow> evolves (case v of None \<Rightarrow> m | Some x \<Rightarrow> f x)"
  by (cases v) auto

lemma evolves_sum [evolve_intros]:
  "(\<And>x. evolves (g x)) \<Longrightarrow> (\<And>x. evolves (f x)) \<Longrightarrow> evolves (case v of Inl x \<Rightarrow> g x | Inr x \<Rightarrow> f x)"
  by (cases v) auto

lemma evolves_store:
  "bs_status v = ''open'' \<Longrightarrow> evolves (store_create_session store v)"
  "evolves (store_place_offer store b)"
  "evolves (store_cancel_session store i pid)"
  "evolves (store_cancel_offer store i d)"
  "evolves (store_decline_session store i d)"
  unfolding store_create_session_def store_place_offer_def store_cancel_session_def
    store_cancel_offer_def store_decline_session_def Let_def
  by (auto intro!: evolve_intros)

end
