(* ===== verification/Lifecycle.thy ===== *)
theory Lifecycle
  imports Ride_Store
begin

text \<open>
  The ride lifecycle service (\<open>ride/app/lifecycle.go\<close>, \<open>lifecycle_config.go\<close>,
  \<open>realtime_events.go\<close>): the guards a command passes before it reaches the repository, the
  repetitions it answers without one, and the event it publishes afterwards. The service calls
  its store through the Go interface \<open>RideLifecycleStore\<close>, a record of functions here; the
  locale \<open>lifecycle_store_contract\<close> states what the service relies on, and the repository of
  \<open>Ride_Store\<close> is its instance.
\<close>

section \<open>Publishing\<close>

text \<open>
  \<open>EventPublisher.Publish\<close> is best effort: without a publisher, or when it fails, the error is
  logged and nothing is delivered.
\<close>

definition publish_event :: "string \<Rightarrow> scope \<Rightarrow> (string \<times> payload_value) list \<Rightarrow> unit io" where
  "publish_event event_type scope payload = (\<lambda>e w.
     (Inr (), if env_fault e ''publish'' then w
              else w\<lparr>w_published := w_published w @
                      [\<lparr>rt_type = event_type, rt_scope = scope, rt_payload = payload\<rparr>]\<rparr>))"

definition publish_ride_event :: "string \<Rightarrow> ride \<Rightarrow> (string \<times> payload_value) list \<Rightarrow> unit io" where
  "publish_ride_event event_type ride payload =
     publish_event event_type
       (zero_scope\<lparr>sc_ride_id := positive_identifier (rd_id ride),
                   sc_passenger_id := positive_identifier (rd_passenger_id ride),
                   sc_driver_id := (case rd_driver_id ride of None \<Rightarrow> ''''
                                    | Some d \<Rightarrow> positive_identifier d)\<rparr>)
       payload"

section \<open>The service\<close>

record lifecycle_config =
  lc_passenger_wait_duration :: int
  lc_driver_location_max_age :: int
  lc_arrival_radius_meters :: gofloat
  lc_completion_radius_meters :: gofloat

definition default_lifecycle_config :: lifecycle_config where
  "default_lifecycle_config =
     \<lparr>lc_passenger_wait_duration = 5 * minute, lc_driver_location_max_age = 45 * second,
      lc_arrival_radius_meters = Fin 250, lc_completion_radius_meters = Fin 250\<rparr>"

definition driver_location_max_age :: "lifecycle_config \<Rightarrow> int" where
  "driver_location_max_age config =
     (if lc_driver_location_max_age config \<le> 0 then 45 * second else lc_driver_location_max_age config)"

definition arrival_radius_meters :: "lifecycle_config \<Rightarrow> gofloat" where
  "arrival_radius_meters config =
     (if f_le (lc_arrival_radius_meters config) (Fin 0) then Fin 250 else lc_arrival_radius_meters config)"

definition completion_radius_meters :: "lifecycle_config \<Rightarrow> gofloat" where
  "completion_radius_meters config =
     (if f_le (lc_completion_radius_meters config) (Fin 0) then Fin 250
      else lc_completion_radius_meters config)"

definition passenger_wait_duration :: "lifecycle_config \<Rightarrow> int" where
  "passenger_wait_duration config =
     (if lc_passenger_wait_duration config \<le> 0 then 5 * minute else lc_passenger_wait_duration config)"

record driver_location =
  dl_latitude :: gofloat
  dl_longitude :: gofloat
  dl_observed_at :: "int option"

record lifecycle_store =
  ls_get :: "int \<Rightarrow> ride io"
  ls_accept_ride :: "int \<Rightarrow> int \<Rightarrow> ride io"
  ls_mark_arrived :: "int \<Rightarrow> int \<Rightarrow> string \<Rightarrow> int \<Rightarrow> ride io"
  ls_start_trip :: "int \<Rightarrow> int \<Rightarrow> ride io"
  ls_complete_trip :: "int \<Rightarrow> int \<Rightarrow> ride io"
  ls_mark_passenger_no_show :: "int \<Rightarrow> int \<Rightarrow> ride io"
  ls_update_status :: "int \<Rightarrow> int \<Rightarrow> string \<Rightarrow> string \<Rightarrow> ride_transition \<Rightarrow> ride io"

record lifecycle_service =
  lv_store :: "lifecycle_store option"
  lv_driver_location :: "(int \<Rightarrow> env \<Rightarrow> err + driver_location) option"
  lv_config :: lifecycle_config

definition lifecycle_accept_ride :: "lifecycle_service \<Rightarrow> int \<Rightarrow> int \<Rightarrow> ride io" where
  "lifecycle_accept_ride service ride_id driver_id =
     (case lv_store service of
        None \<Rightarrow> io_throw ErrPersistenceUnavailable
      | Some store \<Rightarrow>
          io_bind (ls_get store ride_id) (\<lambda>current.
          let current_status = normalize_ride_status (rd_status current) in
          if rd_driver_id current = Some driver_id \<and> current_status \<noteq> None \<and>
             is_active (rd_status current) \<and> current_status \<noteq> Some RideRequested
          then io_return current
          else
            io_bind (ls_accept_ride store ride_id driver_id) (\<lambda>ride.
            io_bind (publish_ride_event ''ride.matched'' ride [(''ride'', PRide ride)]) (\<lambda>_.
            io_return ride))))"

text \<open>\<open>authoritativeDriverLocation\<close>: a server-observed point no older than the configured age.\<close>

definition authoritative_driver_location :: "lifecycle_service \<Rightarrow> int \<Rightarrow> (gofloat \<times> gofloat) io" where
  "authoritative_driver_location service driver_id =
     (case lv_driver_location service of
        None \<Rightarrow> io_throw ErrDriverLocationUnavailable
      | Some read_driver_location \<Rightarrow>
          io_bind (io_env (read_driver_location driver_id)) (\<lambda>result.
          case result of
            Inl x \<Rightarrow>
              if x = ContextCanceled \<or> x = ContextDeadlineExceeded then io_throw x
              else io_throw ErrDriverLocationUnavailable
          | Inr point \<Rightarrow>
              (case dl_observed_at point of
                 None \<Rightarrow> io_throw ErrDriverLocationUnavailable
               | Some observed_at \<Rightarrow>
                   io_bind (io_env env_now) (\<lambda>now.
                   let observed_age = now - observed_at in
                   if observed_age < 0 \<or> observed_age > driver_location_max_age (lv_config service)
                   then io_throw ErrDriverLocationStale
                   else io_return (dl_latitude point, dl_longitude point)))))"

text \<open>
  \<open>loadRideWithDriverLocation\<close> starts the location read beside the ride read and hands it on
  as a function; its outcome matters only where that function is called.
\<close>

definition load_ride_with_driver_location ::
  "lifecycle_service \<Rightarrow> lifecycle_store \<Rightarrow> int \<Rightarrow> int \<Rightarrow> (ride \<times> (gofloat \<times> gofloat) io) io" where
  "load_ride_with_driver_location service store ride_id driver_id =
     io_bind (ls_get store ride_id) (\<lambda>current.
     io_return (current, authoritative_driver_location service driver_id))"

definition lifecycle_start_trip :: "lifecycle_service \<Rightarrow> int \<Rightarrow> int \<Rightarrow> ride io" where
  "lifecycle_start_trip service ride_id driver_id =
     (case lv_store service of
        None \<Rightarrow> io_throw ErrPersistenceUnavailable
      | Some store \<Rightarrow>
          io_bind (load_ride_with_driver_location service store ride_id driver_id) (\<lambda>(current, location).
          if rd_driver_id current \<noteq> Some driver_id then io_throw ErrUnauthorizedRide
          else
            (case normalize_ride_status (rd_status current) of
               None \<Rightarrow> io_throw ErrInvalidStatusTransition
             | Some status \<Rightarrow>
                 if status = RideInTransit then io_return current
                 else if status \<noteq> RideArrived then io_throw ErrInvalidStatusTransition
                 else
                   io_bind location (\<lambda>(driver_lat, driver_lng).
                   io_bind (io_lift (validate_arrival_location (rd_pickup_latitude current)
                     (rd_pickup_longitude current) driver_lat driver_lng
                     (arrival_radius_meters (lv_config service)))) (\<lambda>_.
                   io_bind (io_env env_now) (\<lambda>now.
                   if (case rd_arrived_at current of None \<Rightarrow> False
                       | Some arrived_at \<Rightarrow> now - arrived_at < 3 * second)
                   then io_throw ErrInvalidStatusTransition
                   else
                     io_bind (ls_start_trip store ride_id driver_id) (\<lambda>updated.
                     io_bind (publish_ride_event ''ride.status.changed'' updated
                       [(''previous_status'', PString (status_str RideArrived)),
                        (''ride'', PRide updated)]) (\<lambda>_.
                     io_return updated))))))))"

definition lifecycle_complete_trip :: "lifecycle_service \<Rightarrow> int \<Rightarrow> int \<Rightarrow> ride io" where
  "lifecycle_complete_trip service ride_id driver_id =
     (case lv_store service of
        None \<Rightarrow> io_throw ErrPersistenceUnavailable
      | Some store \<Rightarrow>
          io_bind (ls_get store ride_id) (\<lambda>current.
          if rd_driver_id current \<noteq> Some driver_id then io_throw ErrUnauthorizedRide
          else
            (case normalize_ride_status (rd_status current) of
               None \<Rightarrow> io_throw ErrInvalidStatusTransition
             | Some status \<Rightarrow>
                 if status = RideCompleted then io_return current
                 else if status \<noteq> RideInTransit then io_throw ErrInvalidStatusTransition
                 else
                   io_bind (ls_complete_trip store ride_id driver_id) (\<lambda>updated.
                   io_bind (publish_ride_event ''ride.status.changed'' updated
                     [(''previous_status'', PString (status_str RideInTransit)),
                      (''ride'', PRide updated)]) (\<lambda>_.
                   io_return updated)))))"

definition lifecycle_mark_arrived :: "lifecycle_service \<Rightarrow> int \<Rightarrow> int \<Rightarrow> ride io" where
  "lifecycle_mark_arrived service ride_id driver_id =
     (case lv_store service of
        None \<Rightarrow> io_throw ErrPersistenceUnavailable
      | Some store \<Rightarrow>
          io_bind (load_ride_with_driver_location service store ride_id driver_id) (\<lambda>(current, location).
          if rd_driver_id current \<noteq> Some driver_id then io_throw ErrUnauthorizedRide
          else
            (case normalize_ride_status (rd_status current) of
               None \<Rightarrow> io_throw ErrInvalidStatusTransition
             | Some normalized_status \<Rightarrow>
                 if normalized_status = RideArrived then io_return current
                 else if normalized_status \<noteq> RideAssigned \<and> normalized_status \<noteq> RideAccepted
                 then io_throw ErrInvalidStatusTransition
                 else
                   io_bind location (\<lambda>(driver_latitude, driver_longitude).
                   io_bind (io_lift (validate_arrival_location (rd_pickup_latitude current)
                     (rd_pickup_longitude current) driver_latitude driver_longitude
                     (arrival_radius_meters (lv_config service)))) (\<lambda>_.
                   io_bind (ls_mark_arrived store ride_id driver_id (status_str normalized_status)
                     (passenger_wait_duration (lv_config service))) (\<lambda>updated.
                   io_bind (publish_ride_event ''ride.status.changed'' updated
                     [(''previous_status'', PString (status_str normalized_status)),
                      (''ride'', PRide updated)]) (\<lambda>_.
                   io_return updated)))))))"

definition lifecycle_mark_passenger_no_show :: "lifecycle_service \<Rightarrow> int \<Rightarrow> int \<Rightarrow> ride io" where
  "lifecycle_mark_passenger_no_show service ride_id driver_id =
     (case lv_store service of
        None \<Rightarrow> io_throw ErrPersistenceUnavailable
      | Some store \<Rightarrow>
          io_bind (ls_get store ride_id) (\<lambda>current.
          if rd_driver_id current \<noteq> Some driver_id then io_throw ErrUnauthorizedRide
          else
            (case normalize_ride_status (rd_status current) of
               None \<Rightarrow> io_throw ErrInvalidStatusTransition
             | Some status \<Rightarrow>
                 if status = RideCancelled then
                   (if rd_cancelled_by current = Some driver_id \<and>
                       normalize_cancellation_reason (rd_cancellation_reason current) = ''passenger_no_show'' \<and>
                       rd_cancellation_responsibility current = ''passenger_fault''
                    then io_return current
                    else io_throw ErrInvalidStatusTransition)
                 else if status \<noteq> RideArrived then io_throw ErrInvalidStatusTransition
                 else
                   (case rd_waiting_until current of
                      None \<Rightarrow> io_throw ErrPassengerNoShowNotReady
                    | Some waiting_until \<Rightarrow>
                        io_bind (io_env env_now) (\<lambda>now.
                        if now < waiting_until - 5 * second then io_throw ErrPassengerNoShowNotReady
                        else
                          io_bind (ls_mark_passenger_no_show store ride_id driver_id) (\<lambda>updated.
                          io_bind (publish_ride_event ''ride.status.changed'' updated
                            [(''previous_status'', PString (status_str RideArrived)),
                             (''reason'', PString ''passenger_no_show''),
                             (''responsibility'', PString ''passenger_fault''),
                             (''ride'', PRide updated)]) (\<lambda>_.
                          io_return updated)))))))"

definition lifecycle_transition ::
  "lifecycle_service \<Rightarrow> int \<Rightarrow> int \<Rightarrow> string \<Rightarrow> ride_transition \<Rightarrow> ride io" where
  "lifecycle_transition service ride_id actor_id nxt transition =
     (case lv_store service of
        None \<Rightarrow> io_throw ErrPersistenceUnavailable
      | Some store \<Rightarrow>
          io_bind (ls_get store ride_id) (\<lambda>current.
          let is_passenger = (rd_passenger_id current = actor_id);
              is_driver = (rd_driver_id current = Some actor_id)
          in
          if \<not> is_passenger \<and> \<not> is_driver then io_throw ErrUnauthorizedRide
          else
            (case (normalize_ride_status (rd_status current), normalize_ride_status nxt) of
               (Some current_status, Some next_status) \<Rightarrow>
                 if current_status = next_status then io_return current
                 else if next_status = RideCancelled \<and> tr_event_type transition = ''ride.status_changed''
                 then io_throw ErrCancellationCommand
                 else if next_status = RideArrived then io_throw ErrArrivalCommand
                 else if next_status = RideInTransit then io_throw ErrTripStartCommand
                 else if next_status = RideCompleted then io_throw ErrTripCompletionCommand
                 else if \<not> can_transition (status_str current_status) (status_str next_status)
                 then io_throw ErrInvalidStatusTransition
                 else if is_passenger \<and> next_status \<noteq> RideCancelled then io_throw ErrUnauthorizedRide
                 else if rd_driver_id current = None \<and> next_status \<noteq> RideCancelled
                 then io_throw ErrUnauthorizedRide
                 else
                   io_bind (ls_update_status store ride_id actor_id (status_str current_status)
                     (status_str next_status) transition) (\<lambda>updated.
                   io_bind (publish_ride_event ''ride.status.changed'' updated
                     [(''previous_status'', PString (status_str current_status)),
                      (''reason'', PString (tr_reason transition)),
                      (''responsibility'', PString (tr_responsibility transition)),
                      (''ride'', PRide updated)]) (\<lambda>_.
                   io_return updated))
             | _ \<Rightarrow> io_throw ErrInvalidStatusTransition)))"

definition lifecycle_update_status :: "lifecycle_service \<Rightarrow> int \<Rightarrow> int \<Rightarrow> string \<Rightarrow> ride io" where
  "lifecycle_update_status service ride_id actor_id nxt =
     lifecycle_transition service ride_id actor_id nxt
       \<lparr>tr_event_type = ''ride.status_changed'', tr_reason = '''', tr_responsibility = '''',
        tr_details = '''', tr_request_id = ''''\<rparr>"

definition lifecycle_cancel :: "lifecycle_service \<Rightarrow> cancellation_request \<Rightarrow> ride io" where
  "lifecycle_cancel service request =
     (case lv_store service of
        None \<Rightarrow> io_throw ErrPersistenceUnavailable
      | Some store \<Rightarrow>
          io_bind (ls_get store (cr_ride_id request)) (\<lambda>current.
          let actor = (if rd_passenger_id current = cr_actor_id request then Some ''passenger''
                       else if rd_driver_id current = Some (cr_actor_id request) then Some ''driver''
                       else None)
          in case actor of
               None \<Rightarrow> io_throw ErrUnauthorizedRide
             | Some actor \<Rightarrow>
                 (let normalized_reason = normalize_cancellation_reason (cr_reason request) in
                  if normalize_ride_status (rd_status current) = Some RideCancelled then
                    (if rd_cancelled_by current = Some (cr_actor_id request) \<and>
                        normalize_cancellation_reason (rd_cancellation_reason current) = normalized_reason \<and>
                        trim_space (rd_cancellation_details current) = trim_space (cr_details request)
                     then io_return current
                     else io_throw ErrInvalidStatusTransition)
                  else if normalized_reason = ''passenger_no_show'' then io_throw ErrNoShowCommand
                  else
                    io_bind (io_lift (validate_cancellation actor (rd_status current) (cr_reason request)
                      (cr_details request))) (\<lambda>(responsibility, details).
                    lifecycle_transition service (cr_ride_id request) (cr_actor_id request)
                      (status_str RideCancelled)
                      \<lparr>tr_event_type = ''ride.cancelled'', tr_reason = normalized_reason,
                       tr_responsibility = responsibility, tr_details = details,
                       tr_request_id = ''''\<rparr>))))"

definition lifecycle_emergency_stop :: "lifecycle_service \<Rightarrow> emergency_stop_request \<Rightarrow> ride io" where
  "lifecycle_emergency_stop service request =
     (case lv_store service of
        None \<Rightarrow> io_throw ErrPersistenceUnavailable
      | Some store \<Rightarrow>
          io_bind (ls_get store (es_ride_id request)) (\<lambda>current.
          let is_passenger = (rd_passenger_id current = es_actor_id request);
              is_driver = (rd_driver_id current = Some (es_actor_id request))
          in
          if \<not> is_passenger \<and> \<not> is_driver then io_throw ErrUnauthorizedRide
          else
            (let reason = normalize_emergency_stop_reason (es_reason request) in
             if rd_status current = status_str RideCancelled \<and>
                rd_cancelled_by current = Some (es_actor_id request) \<and>
                normalize_emergency_stop_reason (rd_cancellation_reason current) = reason
             then io_return current
             else
               io_bind (io_lift (validate_emergency_stop (rd_status current) (es_reason request)
                 (es_details request))) (\<lambda>(normalized_reason, details).
               io_bind (ls_update_status store (es_ride_id request) (es_actor_id request)
                 (rd_status current) (status_str RideCancelled)
                 \<lparr>tr_event_type = ''ride.emergency_stopped'', tr_reason = normalized_reason,
                  tr_responsibility = ''safety_related'', tr_details = details,
                  tr_request_id = ''''\<rparr>) (\<lambda>updated.
               io_bind (publish_ride_event ''ride.status.changed'' updated
                 [(''previous_status'', PString (rd_status current)),
                  (''reason'', PString normalized_reason),
                  (''responsibility'', PString ''safety_related''),
                  (''emergency_stop'', PBool True),
                  (''ride'', PRide updated)]) (\<lambda>_.
               io_return updated))))))"

section \<open>Commands\<close>

datatype lifecycle_command =
    AcceptRide int int
  | UpdateStatus int int string
  | StartTrip int int
  | CompleteTrip int int
  | MarkArrived int int
  | MarkPassengerNoShow int int
  | Cancel cancellation_request
  | EmergencyStop emergency_stop_request

fun run_lifecycle :: "lifecycle_service \<Rightarrow> lifecycle_command \<Rightarrow> ride io" where
  "run_lifecycle service (AcceptRide i d) = lifecycle_accept_ride service i d"
| "run_lifecycle service (UpdateStatus i a nxt) = lifecycle_update_status service i a nxt"
| "run_lifecycle service (StartTrip i d) = lifecycle_start_trip service i d"
| "run_lifecycle service (CompleteTrip i d) = lifecycle_complete_trip service i d"
| "run_lifecycle service (MarkArrived i d) = lifecycle_mark_arrived service i d"
| "run_lifecycle service (MarkPassengerNoShow i d) = lifecycle_mark_passenger_no_show service i d"
| "run_lifecycle service (Cancel request) = lifecycle_cancel service request"
| "run_lifecycle service (EmergencyStop request) = lifecycle_emergency_stop service request"

fun command_ride :: "lifecycle_command \<Rightarrow> int" where
  "command_ride (AcceptRide i d) = i"
| "command_ride (UpdateStatus i a nxt) = i"
| "command_ride (StartTrip i d) = i"
| "command_ride (CompleteTrip i d) = i"
| "command_ride (MarkArrived i d) = i"
| "command_ride (MarkPassengerNoShow i d) = i"
| "command_ride (Cancel request) = cr_ride_id request"
| "command_ride (EmergencyStop request) = es_ride_id request"

fun command_actor :: "lifecycle_command \<Rightarrow> int" where
  "command_actor (AcceptRide i d) = d"
| "command_actor (UpdateStatus i a nxt) = a"
| "command_actor (StartTrip i d) = d"
| "command_actor (CompleteTrip i d) = d"
| "command_actor (MarkArrived i d) = d"
| "command_actor (MarkPassengerNoShow i d) = d"
| "command_actor (Cancel request) = cr_actor_id request"
| "command_actor (EmergencyStop request) = es_actor_id request"

section \<open>What the service relies on\<close>

text \<open>A step that publishes at most one event after what the store has done.\<close>

definition published_after :: "world \<Rightarrow> world \<Rightarrow> bool" where
  "published_after v w' \<longleftrightarrow> w' = v \<or> (\<exists>ev. w' = v\<lparr>w_published := w_published v @ [ev]\<rparr>)"

lemma publish_ride_event_after:
  assumes "publish_ride_event t r pl e v = (s, w')"
  shows "s = Inr ()" and "published_after v w'"
proof -
  from assms show "s = Inr ()" by (simp add: publish_ride_event_def publish_event_def)
  from assms have "w' = v \<or> (\<exists>sc. w' = v\<lparr>w_published := w_published v @
      [\<lparr>rt_type = t, rt_scope = sc, rt_payload = pl\<rparr>]\<rparr>)"
    unfolding publish_ride_event_def publish_event_def by (auto split: if_splits)
  then show "published_after v w'" unfolding published_after_def by blast
qed

lemma publish_ride_event_not_Inl: "publish_ride_event t r pl e v \<noteq> (Inl x, w')"
  by (simp add: publish_ride_event_def publish_event_def)

text \<open>The store call every command ends with, and its publication.\<close>

lemma store_then_publish_Inl:
  "io_bind M (\<lambda>u. io_bind (publish_ride_event t u (pl u)) (\<lambda>_. io_return u)) e w = (Inl x, w') \<longleftrightarrow>
     M e w = (Inl x, w')"
  by (auto simp: io_bind_Inl io_simps publish_ride_event_not_Inl)

lemma store_then_publish_Inr:
  assumes "io_bind M (\<lambda>u. io_bind (publish_ride_event t u (pl u)) (\<lambda>_. io_return u)) e w = (Inr x, w')"
  obtains v where "M e w = (Inr x, v)" and "published_after v w'"
proof -
  from assms obtain v u where "M e w = (Inr x, v)"
    and "publish_ride_event t x (pl x) e v = (Inr u, w')"
    unfolding io_bind_Inr io_return_eq by blast
  with publish_ride_event_after(2) that show thesis by blast
qed

text \<open>
  \<open>ok\<close> is what a store may assume of the database; \<open>accepted i d\<close> and \<open>moved i a f t\<close> relate
  the world before and after: driver \<open>d\<close> took ride \<open>i\<close>, actor \<open>a\<close> moved it from status \<open>f\<close> to
  \<open>t\<close>. Nothing ties the answer of \<open>get\<close> to the world, so the lemmas also hold for a service
  whose read is stale when it writes.
\<close>

locale lifecycle_store_contract =
  fixes store :: lifecycle_store
    and ok :: "world \<Rightarrow> bool"
    and accepted :: "int \<Rightarrow> int \<Rightarrow> world \<Rightarrow> world \<Rightarrow> bool"
    and moved :: "int \<Rightarrow> int \<Rightarrow> string \<Rightarrow> string \<Rightarrow> world \<Rightarrow> world \<Rightarrow> bool"
  assumes get_reads: "read_only (ls_get store i)"
    and accept_fails: "ok w \<Longrightarrow> ls_accept_ride store i d e w = (Inl x, w') \<Longrightarrow> w' = w"
    and arrive_fails: "ls_mark_arrived store i d s t e w = (Inl x, w') \<Longrightarrow> w' = w"
    and start_fails: "ls_start_trip store i d e w = (Inl x, w') \<Longrightarrow> w' = w"
    and complete_fails: "ls_complete_trip store i d e w = (Inl x, w') \<Longrightarrow> w' = w"
    and no_show_fails: "ls_mark_passenger_no_show store i d e w = (Inl x, w') \<Longrightarrow> w' = w"
    and update_fails: "ls_update_status store i d s s' tr e w = (Inl x, w') \<Longrightarrow> w' = w"
    and accept_works: "ok w \<Longrightarrow> ls_accept_ride store i d e w = (Inr r, w') \<Longrightarrow> accepted i d w w'"
    and arrive_works: "ok w \<Longrightarrow> ls_mark_arrived store i d s t e w = (Inr r, w') \<Longrightarrow>
      moved i d ''assigned'' ''arrived'' w w' \<or> moved i d ''accepted'' ''arrived'' w w'"
    and start_works: "ok w \<Longrightarrow> ls_start_trip store i d e w = (Inr r, w') \<Longrightarrow>
      moved i d ''arrived'' ''in_transit'' w w'"
    and complete_works: "ok w \<Longrightarrow> ls_complete_trip store i d e w = (Inr r, w') \<Longrightarrow>
      moved i d ''in_transit'' ''completed'' w w'"
    and no_show_works: "ok w \<Longrightarrow> ls_mark_passenger_no_show store i d e w = (Inr r, w') \<Longrightarrow>
      moved i d ''arrived'' ''cancelled'' w w'"
    and update_works: "ok w \<Longrightarrow> ls_update_status store i d s s' tr e w = (Inr r, w') \<Longrightarrow>
      \<exists>c n. normalize_ride_status s = Some c \<and> normalize_ride_status s' = Some n \<and>
        moved i d (status_str c) (status_str n) w w'"
begin

lemma read_then:
  assumes "io_bind (ls_get store i) f e w = (s, w')"
  obtains (failed) x where "s = Inl x" and "w' = w" | (read) cur where "f cur e w = (s, w')"
  using assms read_onlyD [OF get_reads, of i e w]
  by (auto simp: io_bind_def split: prod.splits sum.splits)

end

text \<open>
  The possible outcomes of a command by \<open>a\<close> on ride \<open>i\<close>: an error that changed nothing; a
  repetition that changed nothing; or one store step, acceptance or a move the transition
  table allows, followed by at most one event.
\<close>

definition lifecycle_outcome ::
  "(int \<Rightarrow> int \<Rightarrow> world \<Rightarrow> world \<Rightarrow> bool) \<Rightarrow> (int \<Rightarrow> int \<Rightarrow> string \<Rightarrow> string \<Rightarrow> world \<Rightarrow> world \<Rightarrow> bool) \<Rightarrow>
   int \<Rightarrow> int \<Rightarrow> world \<Rightarrow> err + ride \<Rightarrow> world \<Rightarrow> bool" where
  "lifecycle_outcome accepted moved i a w s w' \<longleftrightarrow>
     w' = w \<or>
     (\<exists>x v. s = Inr x \<and> published_after v w' \<and>
       (accepted i a w v \<or> (\<exists>f t. can_transition f t \<and> moved i a f t w v)))"

lemma outcome_same [simp]: "lifecycle_outcome A M i a w s w"
  by (simp add: lifecycle_outcome_def)

text \<open>A command that settles in one of these outcomes, from a given world.\<close>

definition settles ::
  "(int \<Rightarrow> int \<Rightarrow> world \<Rightarrow> world \<Rightarrow> bool) \<Rightarrow> (int \<Rightarrow> int \<Rightarrow> string \<Rightarrow> string \<Rightarrow> world \<Rightarrow> world \<Rightarrow> bool) \<Rightarrow>
   int \<Rightarrow> int \<Rightarrow> env \<Rightarrow> world \<Rightarrow> ride io \<Rightarrow> bool" where
  "settles A M i a e w m \<longleftrightarrow> (\<forall>s w'. m e w = (s, w') \<longrightarrow> lifecycle_outcome A M i a w s w')"

lemma settles_throw: "settles A M i a e w (io_throw x)"
  by (simp add: settles_def io_throw_def)

lemma settles_return: "settles A M i a e w (io_return x)"
  by (simp add: settles_def io_return_def)

lemma settles_if:
  "(c \<Longrightarrow> settles A M i a e w m) \<Longrightarrow> (\<not> c \<Longrightarrow> settles A M i a e w n) \<Longrightarrow>
     settles A M i a e w (if c then m else n)"
  by simp

lemma settles_lift:
  "(\<And>y. r = Inr y \<Longrightarrow> settles A M i a e w (f y)) \<Longrightarrow> settles A M i a e w (io_bind (io_lift r) f)"
  by (cases r) (auto simp: settles_def io_bind_def io_lift_def)

lemma settles_env: "settles A M i a e w (f (g e)) \<Longrightarrow> settles A M i a e w (io_bind (io_env g) f)"
  by (auto simp: settles_def io_bind_def io_env_def)

lemma settles_reads:
  assumes "read_only m" and "\<And>x. settles A M i a e w (f x)"
  shows "settles A M i a e w (io_bind m f)"
  unfolding settles_def
proof (intro allI impI)
  fix s w' assume "io_bind m f e w = (s, w')"
  then show "lifecycle_outcome A M i a w s w'"
    using read_onlyD [OF assms(1), of e w] assms(2)
    by (auto simp: settles_def io_bind_def split: prod.splits sum.splits)
qed

lemma settles_step:
  assumes "\<And>x v. m e w = (Inl x, v) \<Longrightarrow> v = w"
    and "\<And>x v. m e w = (Inr x, v) \<Longrightarrow> A i a w v \<or> (\<exists>f t. can_transition f t \<and> M i a f t w v)"
  shows "settles A M i a e w (io_bind m (\<lambda>u. io_bind (publish_ride_event t u (pl u)) (\<lambda>_. io_return u)))"
  unfolding settles_def
proof (intro allI impI)
  fix s w'
  assume r: "io_bind m (\<lambda>u. io_bind (publish_ride_event t u (pl u)) (\<lambda>_. io_return u)) e w = (s, w')"
  show "lifecycle_outcome A M i a w s w'"
  proof (cases s)
    case (Inl x)
    with r assms(1) show ?thesis by (auto simp: store_then_publish_Inl)
  next
    case (Inr x)
    with r obtain v where "m e w = (Inr x, v)" and "published_after v w'"
      by (auto elim: store_then_publish_Inr)
    with assms(2) Inr show ?thesis unfolding lifecycle_outcome_def by blast
  qed
qed

lemma settles_option:
  "(v = None \<Longrightarrow> settles A M i a e w m) \<Longrightarrow> (\<And>x. v = Some x \<Longrightarrow> settles A M i a e w (f x)) \<Longrightarrow>
     settles A M i a e w (case v of None \<Rightarrow> m | Some x \<Rightarrow> f x)"
  by (cases v) auto

lemma settles_pair:
  "(\<And>x y. p = (x, y) \<Longrightarrow> settles A M i a e w (f x y)) \<Longrightarrow>
     settles A M i a e w (case p of (x, y) \<Rightarrow> f x y)"
  by (cases p) auto

lemmas settles_intros =
  settles_throw settles_return settles_if settles_lift settles_env settles_option settles_pair

lemma lifecycle_moves:
  "can_transition ''assigned'' ''arrived''" "can_transition ''accepted'' ''arrived''"
  "can_transition ''arrived'' ''in_transit''" "can_transition ''in_transit'' ''completed''"
  "can_transition ''arrived'' ''cancelled''"
  by code_simp+

lemma emergency_stop_moves:
  assumes "validate_emergency_stop status reason details = Inr r"
    and "normalize_ride_status status = Some c"
  shows "can_transition (status_str c) (status_str RideCancelled)"
proof -
  have "can_emergency_stop status"
    using assms(1) by (auto simp: validate_emergency_stop_def split: if_splits)
  then show ?thesis using emergency_stop_transition [of status] assms(2) by (simp add: can_transition_def)
qed

context lifecycle_store_contract begin

lemma location_reads: "read_only (authoritative_driver_location sv d)"
  unfolding authoritative_driver_location_def
  by (auto intro!: read_only_bind io_class split: option.splits sum.splits simp: Let_def)

lemmas reads = settles_reads [OF get_reads] settles_reads [OF location_reads]

lemma accept_settles:
  assumes "ok w" and "lv_store sv = Some store"
  shows "settles accepted moved i d e w (lifecycle_accept_ride sv i d)"
  unfolding lifecycle_accept_ride_def assms(2) option.case Let_def
  using accept_fails [OF assms(1)] accept_works [OF assms(1)]
  by (intro reads settles_intros settles_step) blast+

lemma start_settles:
  assumes "ok w" and "lv_store sv = Some store"
  shows "settles accepted moved i d e w (lifecycle_start_trip sv i d)"
  unfolding lifecycle_start_trip_def assms(2) option.case load_ride_with_driver_location_def
    io_bind_assoc io_bind_return_left prod.case
  using start_fails start_works [OF assms(1)] lifecycle_moves
  by (intro reads settles_intros settles_step) blast+

lemma complete_settles:
  assumes "ok w" and "lv_store sv = Some store"
  shows "settles accepted moved i d e w (lifecycle_complete_trip sv i d)"
  unfolding lifecycle_complete_trip_def assms(2) option.case
  using complete_fails complete_works [OF assms(1)] lifecycle_moves
  by (intro reads settles_intros settles_step) blast+

lemma arrive_settles:
  assumes "ok w" and "lv_store sv = Some store"
  shows "settles accepted moved i d e w (lifecycle_mark_arrived sv i d)"
  unfolding lifecycle_mark_arrived_def assms(2) option.case load_ride_with_driver_location_def
    io_bind_assoc io_bind_return_left prod.case
  using arrive_fails arrive_works [OF assms(1)] lifecycle_moves
  by (intro reads settles_intros settles_step) blast+

lemma no_show_settles:
  assumes "ok w" and "lv_store sv = Some store"
  shows "settles accepted moved i d e w (lifecycle_mark_passenger_no_show sv i d)"
  unfolding lifecycle_mark_passenger_no_show_def assms(2) option.case
  using no_show_fails no_show_works [OF assms(1)] lifecycle_moves
  by (intro reads settles_intros settles_step) blast+

lemma update_step:
  assumes "ok w" and "ls_update_status store i a (status_str c) (status_str n) t e w = (Inr x, v)"
    and "can_transition (status_str c) (status_str n)"
  shows "\<exists>f t. can_transition f t \<and> moved i a f t w v"
proof -
  have "moved i a (status_str c) (status_str n) w v"
    using update_works [OF assms(1,2)] by auto
  with assms(3) show ?thesis by blast
qed

lemma transition_settles:
  assumes "ok w" and "lv_store sv = Some store"
  shows "settles accepted moved i a e w (lifecycle_transition sv i a nxt t)"
  unfolding lifecycle_transition_def assms(2) option.case Let_def
  using update_fails update_step [OF assms(1)]
  by (intro reads settles_intros settles_step) blast+

lemma cancel_settles:
  assumes "ok w" and "lv_store sv = Some store"
  shows "settles accepted moved (cr_ride_id q) (cr_actor_id q) e w (lifecycle_cancel sv q)"
  unfolding lifecycle_cancel_def assms(2) option.case Let_def
  by (intro reads settles_intros transition_settles assms)

lemma stop_settles:
  assumes "ok w" and "lv_store sv = Some store"
  shows "settles accepted moved (es_ride_id q) (es_actor_id q) e w (lifecycle_emergency_stop sv q)"
  unfolding lifecycle_emergency_stop_def assms(2) option.case Let_def
proof (intro reads settles_intros settles_step)
  fix cur r a b x v
  assume v: "validate_emergency_stop (rd_status cur) (es_reason q) (es_details q) = Inr r"
    and u: "ls_update_status store (es_ride_id q) (es_actor_id q) (rd_status cur) (status_str RideCancelled)
       \<lparr>tr_event_type = ''ride.emergency_stopped'', tr_reason = a,
                  tr_responsibility = ''safety_related'', tr_details = b,
                  tr_request_id = ''''\<rparr> e w = (Inr x, v)"
  from update_works [OF assms(1) u] obtain c where "normalize_ride_status (rd_status cur) = Some c"
    and "moved (es_ride_id q) (es_actor_id q) (status_str c) (status_str RideCancelled) w v" by auto
  with emergency_stop_moves [OF v]
  show "accepted (es_ride_id q) (es_actor_id q) w v \<or>
      (\<exists>f t. can_transition f t \<and> moved (es_ride_id q) (es_actor_id q) f t w v)" by blast
qed (blast intro: update_fails)

lemma run_settles:
  assumes "ok w" and "lv_store sv = Some store"
  shows "settles accepted moved (command_ride c) (command_actor c) e w (run_lifecycle sv c)"
  by (cases c)
    (simp_all add: lifecycle_update_status_def assms accept_settles start_settles complete_settles
      arrive_settles no_show_settles transition_settles cancel_settles stop_settles)

lemma run_outcome:
  assumes "ok w" and "lv_store sv = Some store" and "run_lifecycle sv c e w = (s, w')"
  shows "lifecycle_outcome accepted moved (command_ride c) (command_actor c) w s w'"
  using run_settles [OF assms(1,2)] assms(3) by (simp add: settles_def)

end

section \<open>The repository meets the contract\<close>

definition repo_lifecycle_store :: "ride_repository \<Rightarrow> lifecycle_store" where
  "repo_lifecycle_store p =
     \<lparr>ls_get = repo_get p, ls_accept_ride = repo_accept_ride p, ls_mark_arrived = repo_mark_arrived p,
      ls_start_trip = repo_start_trip p, ls_complete_trip = repo_complete_trip p,
      ls_mark_passenger_no_show = repo_mark_passenger_no_show p,
      ls_update_status = repo_update_status p\<rparr>"

text \<open>
  The same store with a read taken earlier: \<open>f\<close> holds the answers of \<open>get\<close>. Between a
  command's read and its write other commands may run, so this is how the service meets the
  database when it is shared.
\<close>

definition snapshot_lifecycle_store :: "ride_repository \<Rightarrow> (int \<Rightarrow> err + ride) \<Rightarrow> lifecycle_store" where
  "snapshot_lifecycle_store p f = (repo_lifecycle_store p)\<lparr>ls_get := \<lambda>i. io_lift (f i)\<rparr>"

definition ride_accepted :: "ride_repository \<Rightarrow> int \<Rightarrow> int \<Rightarrow> world \<Rightarrow> world \<Rightarrow> bool" where
  "ride_accepted p i d w w' \<longleftrightarrow>
     (\<exists>r r' st ss. r \<in> set (w_rides w) \<and> r_id r = i \<and> r_id r' = i \<and>
        r_status r = ''requested'' \<and> r_status r' = ''accepted'' \<and> r_driver_id r' = Some d \<and>
        r_passenger_id r' = r_passenger_id r \<and> r_fare_amount r' = r_fare_amount r \<and>
        r_created_at r' = r_created_at r \<and> r_bid_session_id r' = r_bid_session_id r \<and> ride_violation w r' = None \<and>
        driver_serves (w_driver_profiles w) r' \<and>
        count_where (driver_active_ride (Some d)) (w_rides w) < max_active_rides_per_driver \<and>
        new_settlement_snapshot (r_fare_amount r) (rr_platform_commission_bps p) = Inr ss \<and>
        st_ride_id st = i \<and> st_gross_fare st = ss_fare_amount ss \<and>
        st_commission_amount st = ss_commission_amount ss \<and>
        st_driver_payout_amount st = ss_driver_payout_amount ss \<and>
        st_commission_bps st \<noteq> None \<and>
        st_payment_status st = ''unpaid'' \<and> st_cash_outcome st = ''unpaid'' \<and>
        st_cash_received_amount st = 0 \<and> st_cash_change_amount st = 0 \<and>
        \<not> exists_where (\<lambda>q. st_id q = st_id st) (w_settlements w) \<and>
        settlement_violation (w\<lparr>w_rides := put_row r_id r' (w_rides w)\<rparr>) st = None \<and>
        w' = w\<lparr>w_rides := put_row r_id r' (w_rides w), w_settlements := w_settlements w @ [st]\<rparr>)"

definition ride_moved :: "int \<Rightarrow> int \<Rightarrow> string \<Rightarrow> string \<Rightarrow> world \<Rightarrow> world \<Rightarrow> bool" where
  "ride_moved i a f t w w' \<longleftrightarrow>
     (\<exists>r r' ev audits. lifecycle_effect i a r r' ev audits w w' \<and> r_status r = f \<and> r_status r' = t)"

lemma ride_movedI:
  "lifecycle_effect i a r r' ev audits w w' \<Longrightarrow> ride_moved i a (r_status r) (r_status r') w w'"
  unfolding ride_moved_def by blast

lemma repo_accept_ride_accepted:
  assumes "schema_ok w" and "repo_accept_ride p i d e w = (Inr x, w')"
  shows "ride_accepted p i d w w'"
proof -
  from assms(2) obtain r' st where t: "accept_ride_transaction p i d e w = (Inr (r', st), w')"
    by (auto simp: repo_accept_ride_def io_simps)
  show ?thesis
    by (rule accept_ride_transactionE [OF t schema_okD(1) [OF assms(1)]])
      (unfold ride_accepted_def, intro exI conjI, assumption,
        auto simp: assign_driver_def online_driver_def intro: driver_servesI)
qed

lemma repo_store_laws:
  "ls_accept_ride (repo_lifecycle_store p) i d e w = (Inl x, w') \<Longrightarrow> schema_ok w \<Longrightarrow> w' = w"
  "ls_mark_arrived (repo_lifecycle_store p) i d s t e w = (Inl x, w') \<Longrightarrow> w' = w"
  "ls_start_trip (repo_lifecycle_store p) i d e w = (Inl x, w') \<Longrightarrow> w' = w"
  "ls_complete_trip (repo_lifecycle_store p) i d e w = (Inl x, w') \<Longrightarrow> w' = w"
  "ls_mark_passenger_no_show (repo_lifecycle_store p) i d e w = (Inl x, w') \<Longrightarrow> w' = w"
  "ls_update_status (repo_lifecycle_store p) i d s s' tr e w = (Inl x, w') \<Longrightarrow> w' = w"
  using repo_accept_ride_atomic atomic_lifecycle_commands [THEN atomicD]
  by (auto simp: repo_lifecycle_store_def)

lemma repo_arrive_moves:
  assumes "schema_ok w" and "repo_mark_arrived p i d s t e w = (Inr x, w')"
  shows "ride_moved i d ''assigned'' ''arrived'' w w' \<or> ride_moved i d ''accepted'' ''arrived'' w w'"
  using assms(2) schema_okD(1) [OF assms(1)]
  by (rule repo_mark_arrivedE) (auto dest!: ride_movedI)

lemma repo_start_moves:
  assumes "schema_ok w" and "repo_start_trip p i d e w = (Inr x, w')"
  shows "ride_moved i d ''arrived'' ''in_transit'' w w'"
  using assms(2) schema_okD(1) [OF assms(1)] by (rule repo_start_tripE) (auto dest!: ride_movedI)

lemma repo_complete_moves:
  assumes "schema_ok w" and "repo_complete_trip p i d e w = (Inr x, w')"
  shows "ride_moved i d ''in_transit'' ''completed'' w w'"
  using assms(2) schema_okD(1) [OF assms(1)] by (rule repo_complete_tripE) (auto dest!: ride_movedI)

lemma repo_no_show_moves:
  assumes "schema_ok w" and "repo_mark_passenger_no_show p i d e w = (Inr x, w')"
  shows "ride_moved i d ''arrived'' ''cancelled'' w w'"
  using assms(2) schema_okD(1) [OF assms(1)]
  by (rule repo_mark_passenger_no_showE) (auto dest!: ride_movedI)

lemma repo_update_moves:
  assumes "schema_ok w" and "repo_update_status p i d s s' tr e w = (Inr x, w')"
  shows "\<exists>c n. normalize_ride_status s = Some c \<and> normalize_ride_status s' = Some n \<and>
        ride_moved i d (status_str c) (status_str n) w w'"
  using assms(2) schema_okD(1) [OF assms(1)]
proof (rule repo_update_statusE)
  fix r r' ev audits current new
  assume m: "lifecycle_effect i d r r' ev audits w w'" and n: "normalize_ride_status s = Some current"
    "normalize_ride_status s' = Some new" "r_status r = status_str current"
    and r': "r' = r\<lparr>r_status := status_str new,
               r_cancelled_by := (if new = RideCancelled then Some d else r_cancelled_by r),
               r_cancellation_reason :=
                 (if new = RideCancelled then tr_reason tr else r_cancellation_reason r),
               r_cancellation_responsibility :=
                 (if new = RideCancelled then tr_responsibility tr else r_cancellation_responsibility r),
               r_cancellation_details :=
                 (if new = RideCancelled then tr_details tr else r_cancellation_details r),
               r_completed_at := (if is_terminal (status_str new) then Some (env_now e) else r_completed_at r)\<rparr>"
  have "r_status r' = status_str new" using r' by simp
  with ride_movedI [OF m] n show ?thesis by auto
qed

interpretation repo: lifecycle_store_contract
  "repo_lifecycle_store p" schema_ok "ride_accepted p" ride_moved for p
  using repo_accept_ride_accepted repo_arrive_moves repo_start_moves repo_complete_moves
    repo_no_show_moves repo_update_moves
  by unfold_locales
    (auto simp: repo_lifecycle_store_def read_only_repo_get
      dest: repo_store_laws [unfolded repo_lifecycle_store_def, simplified])

interpretation snapshot: lifecycle_store_contract
  "snapshot_lifecycle_store p f" schema_ok "ride_accepted p" ride_moved for p f
  using repo.accept_fails repo.arrive_fails repo.start_fails repo.complete_fails repo.no_show_fails
    repo.update_fails repo.accept_works repo.arrive_works repo.start_works repo.complete_works
    repo.no_show_works repo.update_works
  by unfold_locales (simp_all add: snapshot_lifecycle_store_def io_class)

end
