(* ===== verification/Bidding.thy ===== *)
theory Bidding
  imports Bid_Store Lifecycle
begin

text \<open>
  The bidding service (\<open>dispatch/app/bidding.go\<close>, \<open>config.go\<close>): sessions opened at the
  authoritative fare, offers within the fare window, acceptance, withdrawal and the recovery
  from failures, with the events published to the participants. The service calls its store
  through the Go interface \<open>BiddingStore\<close>; the locale \<open>bidding_store_contract\<close> states what it
  relies on, and \<open>Bid_Store\<close> is its instance.
\<close>

section \<open>The fare window\<close>

text \<open>
  The window is computed in \<open>float64\<close>. A positive double is an integer below \<open>2 ^ 53\<close> times a
  power of two, and every operation rounds to the nearest one, ties to even: \<open>round_53\<close> does
  this for integers, and so, with a fixed denominator, for the numerators of \<open>0.70 * base\<close>.
\<close>

function excess_bits :: "int \<Rightarrow> nat" where
  "excess_bits n = (if n < 2 ^ 53 then 0 else Suc (excess_bits (n div 2)))"
  by auto
termination by (relation "measure nat") auto

declare excess_bits.simps [simp del]

definition round_53 :: "int \<Rightarrow> int" where
  "round_53 n =
     (let e = excess_bits n; q = n div 2 ^ e; r = n mod 2 ^ e in
      if 2 * r > 2 ^ e \<or> (2 * r = 2 ^ e \<and> odd q) then (q + 1) * 2 ^ e else q * 2 ^ e)"

text \<open>The double nearest to \<open>0.70\<close> is this integer over \<open>2 ^ 53\<close>.\<close>

definition seventy_percent_numerator :: int where
  "seventy_percent_numerator = 6305039478318694"

text \<open>\<open>int64(math.Round(0.70*baseFare))\<close>: halves are rounded up.\<close>

definition rounded_seventy_percent :: "int \<Rightarrow> int" where
  "rounded_seventy_percent base =
     (2 * round_53 (round_53 base * seventy_percent_numerator) + 2 ^ 53) div 2 ^ 54"

text \<open>\<open>int64(math.Round(2.0*baseFare))\<close>; out of range is the smallest integer, as on amd64.\<close>

definition rounded_double :: "int \<Rightarrow> int" where
  "rounded_double base =
     (let n = 2 * round_53 base in if n < 2 ^ 63 then n else - (2 ^ 63))"

definition min_proposed_fare_centavos :: int where
  "min_proposed_fare_centavos = 5000"

definition max_proposed_fare_centavos :: int where
  "max_proposed_fare_centavos = 500000"

definition fare_window :: "int \<Rightarrow> int \<times> int" where
  "fare_window offered_fare_amount =
     (let base = offered_fare_amount;
          min_fare = min offered_fare_amount
            (max min_proposed_fare_centavos (rounded_seventy_percent base));
          max_fare = min max_proposed_fare_centavos (rounded_double base);
          max_fare = (if max_fare < min_fare then min_fare else max_fare)
      in (min_fare, max_fare))"

definition proposed_fare_allowed :: "int \<Rightarrow> int \<Rightarrow> bool" where
  "proposed_fare_allowed offered_fare_amount proposed =
     (if offered_fare_amount > 0
      then (let (min_fare, max_fare) = fare_window offered_fare_amount in
            \<not> (proposed < min_fare \<or> proposed > max_fare))
      else \<not> (proposed < min_proposed_fare_centavos \<or> proposed > max_proposed_fare_centavos))"

section \<open>How far rounding goes\<close>

lemma excess_bits_zero: "n < 2 ^ 53 \<Longrightarrow> excess_bits n = 0"
  by (simp add: excess_bits.simps)

lemma round_53_exact: "0 \<le> n \<Longrightarrow> n < 2 ^ 53 \<Longrightarrow> round_53 n = n"
  by (simp add: round_53_def excess_bits_zero Let_def)

text \<open>The excess is the least that brings the number below \<open>2 ^ 53\<close>.\<close>

lemma excess_bits_le:
  "0 \<le> n \<Longrightarrow> n < 2 ^ 53 \<or> 2 ^ (52 + excess_bits n) \<le> n"
proof (induction n rule: excess_bits.induct)
  case (1 n)
  show ?case
  proof (cases "n < 2 ^ 53")
    case False
    then have e: "excess_bits n = Suc (excess_bits (n div 2))" by (simp add: excess_bits.simps)
    from False 1 have "n div 2 < 2 ^ 53 \<or> 2 ^ (52 + excess_bits (n div 2)) \<le> n div 2" by simp
    then have "2 ^ (52 + excess_bits (n div 2)) \<le> n div 2"
      using False by (auto simp: excess_bits_zero)
    then have "2 * 2 ^ (52 + excess_bits (n div 2)) \<le> n" by linarith
    moreover have "2 ^ (52 + excess_bits n) = (2::int) * 2 ^ (52 + excess_bits (n div 2))"
      unfolding e add_Suc_right power_Suc ..
    ultimately show ?thesis by linarith
  qed simp
qed

text \<open>Rounding to the nearest multiple of \<open>2 ^ e\<close> moves a number by half of it at most.\<close>

lemma round_53_near:
  assumes "0 \<le> n"
  shows "\<bar>round_53 n - n\<bar> * 2 ^ 53 \<le> n"
proof (cases "n < 2 ^ 53")
  case True
  with assms show ?thesis by (simp add: round_53_exact)
next
  case False
  define e where "e = excess_bits n"
  define q where "q = n div 2 ^ e"
  define r where "r = n mod 2 ^ e"
  have n: "n = q * 2 ^ e + r" unfolding q_def r_def by (rule div_mult_mod_eq [symmetric])
  have r: "0 \<le> r" "r < 2 ^ e" unfolding r_def by simp_all
  have "round_53 n = (if 2 * r > 2 ^ e \<or> (2 * r = 2 ^ e \<and> odd q) then (q + 1) * 2 ^ e else q * 2 ^ e)"
    by (simp add: round_53_def Let_def e_def q_def r_def)
  then have "2 * \<bar>round_53 n - n\<bar> \<le> 2 ^ e"
    using n r by (auto simp: algebra_simps)
  then have "\<bar>round_53 n - n\<bar> * 2 ^ 53 \<le> 2 ^ e * 2 ^ 52" by simp
  also have "\<dots> \<le> n"
    using excess_bits_le [OF assms] False by (simp add: e_def power_add)
  finally show ?thesis .
qed

text \<open>Seventy per cent of a fare, computed in floating point, is that of the exact fare up to a centavo.\<close>

lemma rounded_seventy_percent_near:
  assumes "0 \<le> b" and "b < 2 ^ 49"
  shows "7 * b - 6 \<le> 10 * rounded_seventy_percent b" and "10 * rounded_seventy_percent b \<le> 7 * b + 6"
proof -
  let ?m = seventy_percent_numerator
  have m: "10 * ?m = 7 * 2 ^ 53 - 4" by (simp add: seventy_percent_numerator_def)
  have b: "round_53 b = b" using assms by (intro round_53_exact) auto
  define x where "x = round_53 (b * ?m)"
  have p: "0 \<le> b * ?m" using assms by (simp add: seventy_percent_numerator_def)
  have d: "\<bar>x - b * ?m\<bar> * 2 ^ 53 \<le> b * ?m" unfolding x_def by (rule round_53_near [OF p])
  also have "\<dots> \<le> 2 ^ 49 * 2 ^ 53"
    using assms by (intro mult_mono) (simp_all add: seventy_percent_numerator_def)
  finally have x: "\<bar>x - b * ?m\<bar> \<le> 2 ^ 49" by simp
  have y: "rounded_seventy_percent b = (2 * x + 2 ^ 53) div 2 ^ 54"
    by (simp add: rounded_seventy_percent_def b x_def)
  have lo: "2 ^ 54 * rounded_seventy_percent b \<le> 2 * x + 2 ^ 53"
    and hi: "2 * x + 2 ^ 53 < 2 ^ 54 * rounded_seventy_percent b + 2 ^ 54"
    unfolding y using mult_div_mod_eq [of "2 ^ 54" "2 * x + 2 ^ 53"]
      pos_mod_bound [of "2 ^ 54" "2 * x + 2 ^ 53"] pos_mod_sign [of "2 ^ 54" "2 * x + 2 ^ 53"]
    by (smt (verit) zero_less_power)+
  define z where "z = b * ?m"
  have "10 * z = 7 * 2 ^ 53 * b - 4 * b" using m unfolding z_def by algebra
  moreover have "\<bar>x - z\<bar> \<le> 2 ^ 49" using x by (simp add: z_def)
  ultimately show "7 * b - 6 \<le> 10 * rounded_seventy_percent b"
    and "10 * rounded_seventy_percent b \<le> 7 * b + 6"
    using lo hi assms by simp_all
qed

lemma fare_window_ordered: "fst (fare_window f) \<le> snd (fare_window f)"
  by (auto simp: fare_window_def Let_def)



section \<open>The service\<close>

record bidding_store =
  bt_create_session :: "bid_session \<Rightarrow> bid_session io"
  bt_active_sessions :: "int option \<Rightarrow> bid_session list io"
  bt_offers :: "int \<Rightarrow> bid_offer list io"
  bt_place_offer :: "bid_offer \<Rightarrow> bid_offer io"
  bt_accept_offer :: "int \<Rightarrow> int \<Rightarrow> int \<Rightarrow> offer_acceptance io"
  bt_decline_session :: "int \<Rightarrow> int \<Rightarrow> bid_session io"
  bt_cancel_session :: "int \<Rightarrow> int \<Rightarrow> bid_session io"
  bt_cancel_offer :: "int \<Rightarrow> int \<Rightarrow> bid_offer io"
  bt_session :: "int \<Rightarrow> bid_session io"

text \<open>The route resolver and the fare calculator are functions the service is given.\<close>

record bidding_service =
  bv_store :: "bidding_store option"
  bv_active_ride_checker :: "(int \<Rightarrow> env \<Rightarrow> world \<Rightarrow> err + bool) option"
  bv_resolve_route ::
    "(gofloat \<Rightarrow> gofloat \<Rightarrow> gofloat \<Rightarrow> gofloat \<Rightarrow> gofloat \<Rightarrow> gofloat \<Rightarrow> env \<Rightarrow> err + gofloat \<times> gofloat) option"
  bv_calculate_fare :: "(gofloat \<Rightarrow> gofloat \<Rightarrow> int) option"
  bv_session_duration :: int

definition default_session_duration :: int where
  "default_session_duration = 30 * second"

definition session_duration :: "bidding_service \<Rightarrow> int" where
  "session_duration service =
     (if bv_session_duration service \<le> 0 then default_session_duration else bv_session_duration service)"

definition publish_session_event ::
  "string \<Rightarrow> bid_session \<Rightarrow> (string \<times> payload_value) list \<Rightarrow> unit io" where
  "publish_session_event event_type session payload =
     publish_event event_type
       (zero_scope\<lparr>sc_passenger_id := positive_identifier (bs_passenger_id session),
                   sc_driver_pool := (bs_target_driver_id session = None \<and>
                                      bs_accepted_driver_id session = None),
                   sc_driver_id := (case bs_accepted_driver_id session of
                       Some d \<Rightarrow> positive_identifier d
                     | None \<Rightarrow> (case bs_target_driver_id session of
                          Some d \<Rightarrow> positive_identifier d | None \<Rightarrow> ''''))\<rparr>)
       payload"

definition publish_driver_offer_event :: "bid_offer \<Rightarrow> (string \<times> payload_value) list \<Rightarrow> unit io" where
  "publish_driver_offer_event offer payload =
     publish_event ''ride.offer.updated''
       (zero_scope\<lparr>sc_driver_id := positive_identifier (bo_driver_id offer)\<rparr>) payload"

definition check_active_ride :: "bidding_service \<Rightarrow> int \<Rightarrow> unit io" where
  "check_active_ride service passenger_id =
     (case bv_active_ride_checker service of
        None \<Rightarrow> io_return ()
      | Some has_active \<Rightarrow> (\<lambda>e w.
          (case has_active passenger_id e w of
             Inl x \<Rightarrow> (Inl x, w)
           | Inr active \<Rightarrow> ((if active then Inl ErrActiveBooking else Inr ()), w))))"

definition bidding_create_session :: "bidding_service \<Rightarrow> bid_session \<Rightarrow> bid_session io" where
  "bidding_create_session service session =
     (case (bv_store service, bv_resolve_route service, bv_calculate_fare service) of
        (Some store, Some resolve_route, Some calculate_fare) \<Rightarrow>
          if f_eq (bs_pickup_latitude session) (bs_dropoff_latitude session) \<and>
             f_eq (bs_pickup_longitude session) (bs_dropoff_longitude session)
          then io_throw ErrInvalidTrip
          else
            io_bind (check_active_ride service (bs_passenger_id session)) (\<lambda>_.
            io_bind (io_env (resolve_route (bs_pickup_latitude session) (bs_pickup_longitude session)
              (bs_dropoff_latitude session) (bs_dropoff_longitude session)
              (bs_distance_km session) (bs_duration_minutes session))) (\<lambda>result.
            io_bind (io_lift result) (\<lambda>(distance_km, duration_minutes).
            let minimum_fare = calculate_fare distance_km duration_minutes in
            if minimum_fare \<le> 0 then io_throw ErrInvalidTrip
            else if (case bs_custom_fare_amount session of None \<Rightarrow> False
                     | Some custom \<Rightarrow> custom < minimum_fare)
            then io_throw ErrInvalidFareOffer
            else
              io_bind (io_env env_now) (\<lambda>now.
              io_bind (bt_create_session store
                (session\<lparr>bs_distance_km := distance_km, bs_duration_minutes := duration_minutes,
                         bs_offered_fare_amount :=
                           (case bs_custom_fare_amount session of None \<Rightarrow> minimum_fare
                            | Some custom \<Rightarrow> custom),
                         bs_status := ''open'',
                         bs_expires_at := Some (now + session_duration service)\<rparr>)) (\<lambda>created.
              io_bind (publish_session_event ''ride.offer.created'' created
                [(''session'', PSession created)]) (\<lambda>_.
              io_return created))))))
      | _ \<Rightarrow> io_throw ErrPersistenceUnavailable)"

definition bidding_active_sessions :: "bidding_service \<Rightarrow> int option \<Rightarrow> bid_session list io" where
  "bidding_active_sessions service driver_id =
     (case bv_store service of
        None \<Rightarrow> io_throw ErrPersistenceUnavailable
      | Some store \<Rightarrow> bt_active_sessions store driver_id)"

definition bidding_offers :: "bidding_service \<Rightarrow> int \<Rightarrow> bid_offer list io" where
  "bidding_offers service session_id =
     (case bv_store service of
        None \<Rightarrow> io_throw ErrPersistenceUnavailable
      | Some store \<Rightarrow> bt_offers store session_id)"

text \<open>The session is read again to address the event; if that fails, only the driver is told.\<close>

definition publish_offer_update :: "bidding_store \<Rightarrow> int \<Rightarrow> bid_offer \<Rightarrow> unit io" where
  "publish_offer_update store session_id offer =
     io_try (bt_session store session_id) (\<lambda>result.
     case result of
       Inr session \<Rightarrow> publish_session_event ''ride.offer.updated'' session [(''offer'', POffer offer)]
     | Inl _ \<Rightarrow> publish_driver_offer_event offer [(''offer'', POffer offer)])"

definition recover_duplicate_offer :: "bidding_store \<Rightarrow> bid_offer \<Rightarrow> bid_offer io" where
  "recover_duplicate_offer store offer =
     io_bind (bt_offers store (bo_session_id offer)) (\<lambda>existing_offers.
     case List.find (\<lambda>existing.
            bo_session_id existing = bo_session_id offer \<and>
            bo_driver_id existing = bo_driver_id offer \<and>
            bo_proposed_fare_amount existing = bo_proposed_fare_amount offer \<and>
            (bo_status existing = ''pending'' \<or> bo_status existing = ''accepted'')) existing_offers of
       Some existing \<Rightarrow> io_return existing
     | None \<Rightarrow> io_throw ErrDuplicateBid)"

definition bidding_place_offer :: "bidding_service \<Rightarrow> bid_offer \<Rightarrow> bid_offer io" where
  "bidding_place_offer service offer =
     (case bv_store service of
        None \<Rightarrow> io_throw ErrPersistenceUnavailable
      | Some store \<Rightarrow>
          if bo_driver_id offer \<le> 0 \<or> bo_proposed_fare_amount offer < 0
          then io_throw ErrInvalidFareOffer
          else
            io_bind (bt_session store (bo_session_id offer)) (\<lambda>session.
            let offer = (if bo_proposed_fare_amount offer = 0
                         then offer\<lparr>bo_proposed_fare_amount := bs_offered_fare_amount session\<rparr>
                         else offer)
            in
            if \<not> proposed_fare_allowed (bs_offered_fare_amount session) (bo_proposed_fare_amount offer)
            then io_throw ErrInvalidFareOffer
            else
              (let offer = (if bo_status offer = '''' then offer\<lparr>bo_status := ''pending''\<rparr> else offer) in
               io_try (bt_place_offer store offer) (\<lambda>result.
               case result of
                 Inl x \<Rightarrow>
                   if x = ErrDuplicateBid then recover_duplicate_offer store offer else io_throw x
               | Inr created \<Rightarrow>
                   io_bind (publish_offer_update store (bo_session_id created) created) (\<lambda>_.
                   io_return created)))))"

text \<open>The notices to the bidders that were not chosen.\<close>

fun publish_rejected :: "bid_offer list \<Rightarrow> unit io" where
  "publish_rejected [] = io_return ()"
| "publish_rejected (offer # offers) =
     io_bind (publish_driver_offer_event offer
       [(''offer_id'', PInt (bo_id offer)), (''session_id'', PInt (bo_session_id offer)),
        (''reason'', PString ''another_driver_selected'')]) (\<lambda>_.
     publish_rejected offers)"

fun publish_withdrawn :: "bid_offer_withdrawal list \<Rightarrow> unit io" where
  "publish_withdrawn [] = io_return ()"
| "publish_withdrawn (withdrawal # withdrawals) =
     io_bind (publish_session_event ''ride.offer.updated'' (bw_session withdrawal)
       [(''offer'', POffer (bw_offer withdrawal)), (''reason'', PString ''driver_unavailable'')]) (\<lambda>_.
     publish_withdrawn withdrawals)"

definition bidding_accept_offer ::
  "bidding_service \<Rightarrow> int \<Rightarrow> int \<Rightarrow> int \<Rightarrow> (bid_session \<times> bid_offer \<times> ride) io" where
  "bidding_accept_offer service session_id offer_id passenger_id =
     (case bv_store service of
        None \<Rightarrow> io_throw ErrPersistenceUnavailable
      | Some store \<Rightarrow>
          if passenger_id \<le> 0 then io_throw ErrUnauthorizedSession
          else
            io_bind (bt_accept_offer store session_id offer_id passenger_id) (\<lambda>accepted.
            io_bind (publish_ride_event ''ride.matched'' (oa_ride accepted)
              [(''offer'', POffer (oa_offer accepted)), (''ride'', PRide (oa_ride accepted)),
               (''session'', PSession (oa_session accepted))]) (\<lambda>_.
            io_bind (publish_rejected (oa_rejected_offers accepted)) (\<lambda>_.
            io_bind (publish_withdrawn (oa_withdrawn_offers accepted)) (\<lambda>_.
            io_return (oa_session accepted, oa_offer accepted, oa_ride accepted))))))"

definition bidding_decline_session :: "bidding_service \<Rightarrow> int \<Rightarrow> int \<Rightarrow> bid_session io" where
  "bidding_decline_session service session_id driver_id =
     (case bv_store service of
        None \<Rightarrow> io_throw ErrPersistenceUnavailable
      | Some store \<Rightarrow>
          if driver_id \<le> 0 then io_throw ErrUnauthorizedSession
          else
            io_bind (bt_decline_session store session_id driver_id) (\<lambda>session.
            io_bind (publish_session_event ''ride.offer.updated'' session
              [(''session'', PSession session)]) (\<lambda>_.
            io_return session)))"

definition is_bid_status :: "string \<Rightarrow> string \<Rightarrow> bool" where
  "is_bid_status value expected = equal_fold (trim_space value) expected"

definition recover_cancelled_session :: "bidding_store \<Rightarrow> int \<Rightarrow> int \<Rightarrow> bid_session option io" where
  "recover_cancelled_session store session_id passenger_id =
     io_try (bt_session store session_id) (\<lambda>result.
     case result of
       Inl _ \<Rightarrow> io_return None
     | Inr recovered \<Rightarrow>
         if bs_passenger_id recovered \<noteq> passenger_id then io_return None
         else if is_bid_status (bs_status recovered) ''cancelled'' \<or>
                 is_bid_status (bs_status recovered) ''expired''
         then io_return (Some recovered) else io_return None)"

definition bidding_cancel_session :: "bidding_service \<Rightarrow> int \<Rightarrow> int \<Rightarrow> bid_session io" where
  "bidding_cancel_session service session_id passenger_id =
     (case bv_store service of
        None \<Rightarrow> io_throw ErrPersistenceUnavailable
      | Some store \<Rightarrow>
          if passenger_id \<le> 0 then io_throw ErrUnauthorizedSession
          else
            io_bind
              (io_try (bt_cancel_session store session_id passenger_id) (\<lambda>result.
               case result of
                 Inr session \<Rightarrow> io_return session
               | Inl x \<Rightarrow>
                   io_bind (recover_cancelled_session store session_id passenger_id) (\<lambda>recovered.
                   case recovered of None \<Rightarrow> io_throw x | Some session \<Rightarrow> io_return session))) (\<lambda>session.
            io_bind (publish_session_event ''ride.offer.updated'' session
              [(''session'', PSession session)]) (\<lambda>_.
            io_return session)))"

definition recover_rejected_offer :: "bidding_store \<Rightarrow> int \<Rightarrow> int \<Rightarrow> bid_offer option io" where
  "recover_rejected_offer store session_id driver_id =
     io_try (bt_offers store session_id) (\<lambda>result.
     case result of
       Inl _ \<Rightarrow> io_return None
     | Inr offers \<Rightarrow>
         io_return (List.find (\<lambda>offer. bo_session_id offer = session_id \<and>
           bo_driver_id offer = driver_id \<and> is_bid_status (bo_status offer) ''rejected'') offers))"

definition bidding_cancel_offer :: "bidding_service \<Rightarrow> int \<Rightarrow> int \<Rightarrow> bid_offer io" where
  "bidding_cancel_offer service session_id driver_id =
     (case bv_store service of
        None \<Rightarrow> io_throw ErrPersistenceUnavailable
      | Some store \<Rightarrow>
          io_bind
            (io_try (bt_cancel_offer store session_id driver_id) (\<lambda>result.
             case result of
               Inr offer \<Rightarrow> io_return offer
             | Inl x \<Rightarrow>
                 io_bind (recover_rejected_offer store session_id driver_id) (\<lambda>recovered.
                 case recovered of None \<Rightarrow> io_throw x | Some offer \<Rightarrow> io_return offer))) (\<lambda>offer.
          io_bind (publish_offer_update store session_id offer) (\<lambda>_.
          io_return offer)))"

definition bidding_session :: "bidding_service \<Rightarrow> int \<Rightarrow> bid_session io" where
  "bidding_session service session_id =
     (case bv_store service of
        None \<Rightarrow> io_throw ErrPersistenceUnavailable
      | Some store \<Rightarrow>
          io_bind (bt_session store session_id) (\<lambda>session.
          io_bind (io_env env_now) (\<lambda>now.
          let session = (if is_bid_status (bs_status session) ''open'' \<and>
                            \<not> now < coalesce_to (bs_expires_at session) 0
                         then session\<lparr>bs_status := ''expired''\<rparr> else session) in
          io_bind (bt_offers store session_id) (\<lambda>offers.
          io_return (session\<lparr>bs_offers := offers\<rparr>)))))"

section \<open>Commands\<close>

datatype bidding_command =
    CreateSession bid_session
  | PlaceOffer bid_offer
  | AcceptOffer int int int
  | DeclineSession int int
  | CancelSession int int
  | CancelOffer int int

text \<open>The six commands that change state, run for their effect.\<close>

definition io_ignore :: "'a io \<Rightarrow> unit io" where
  "io_ignore m = io_bind m (\<lambda>_. io_return ())"

fun run_bidding :: "bidding_service \<Rightarrow> bidding_command \<Rightarrow> unit io" where
  "run_bidding service (CreateSession session) = io_ignore (bidding_create_session service session)"
| "run_bidding service (PlaceOffer offer) = io_ignore (bidding_place_offer service offer)"
| "run_bidding service (AcceptOffer s b p) = io_ignore (bidding_accept_offer service s b p)"
| "run_bidding service (DeclineSession s d) = io_ignore (bidding_decline_session service s d)"
| "run_bidding service (CancelSession s p) = io_ignore (bidding_cancel_session service s p)"
| "run_bidding service (CancelOffer s d) = io_ignore (bidding_cancel_offer service s d)"

section \<open>What the service relies on\<close>

lemma evolves_publish [evolve_intros]: "evolves (publish_event t sc pl)"
  by (auto simp: evolves_def publish_event_def bids_evolve_def schema_ok_def split: if_splits)

lemma evolves_publish_derived [evolve_intros]:
  "evolves (publish_session_event t s pl)" "evolves (publish_driver_offer_event b pl)"
  "evolves (publish_ride_event t r pl)"
  by (simp_all add: publish_session_event_def publish_driver_offer_event_def publish_ride_event_def
      evolves_publish)

lemma evolves_check [evolve_intros]: "evolves (check_active_ride sv i)"
  by (auto simp: check_active_ride_def evolves_def io_simps split: option.splits sum.splits)

lemma evolves_notices [evolve_intros]:
  "evolves (publish_rejected bs)" "evolves (publish_withdrawn ws)"
proof -
  show "evolves (publish_rejected bs)" by (induction bs) (auto intro!: evolve_intros)
  show "evolves (publish_withdrawn ws)" by (induction ws) (auto intro!: evolve_intros)
qed

lemma evolves_ignore: "evolves m \<Longrightarrow> evolves (io_ignore m)"
  unfolding io_ignore_def by (intro evolve_intros)

text \<open>
  Only acceptance may do more than evolve the bids; nothing ties the answers of \<open>session\<close> and
  \<open>offers\<close> to the world.
\<close>

locale bidding_store_contract =
  fixes store :: bidding_store
    and ok :: "world \<Rightarrow> bool"
    and accepted :: "int \<Rightarrow> int \<Rightarrow> int \<Rightarrow> env \<Rightarrow> world \<Rightarrow> world \<Rightarrow> bool"
  assumes session_reads: "read_only (bt_session store i)"
    and offers_reads: "read_only (bt_offers store i)"
    and create_evolves: "bs_status s = ''open'' \<Longrightarrow> evolves (bt_create_session store s)"
    and place_evolves: "evolves (bt_place_offer store offer)"
    and decline_evolves: "evolves (bt_decline_session store i d)"
    and cancel_session_evolves: "evolves (bt_cancel_session store i p)"
    and cancel_offer_evolves: "evolves (bt_cancel_offer store i d)"
    and accept_fails: "ok w \<Longrightarrow> bt_accept_offer store i b p e w = (Inl x, w') \<Longrightarrow> w' = w"
    and accept_works: "ok w \<Longrightarrow> bt_accept_offer store i b p e w = (Inr a, w') \<Longrightarrow>
      w' = w \<or> accepted i b p e w w'"
begin

lemmas evolving = session_reads [THEN evolves_read_only] offers_reads [THEN evolves_read_only]
  create_evolves place_evolves decline_evolves cancel_session_evolves cancel_offer_evolves

lemma helpers_evolve:
  "evolves (publish_offer_update store i b)" "evolves (recover_duplicate_offer store b)"
  "evolves (recover_cancelled_session store i p)" "evolves (recover_rejected_offer store i d)"
  unfolding publish_offer_update_def recover_duplicate_offer_def recover_cancelled_session_def
    recover_rejected_offer_def
  by (auto intro!: evolve_intros evolving)

lemma commands_evolve:
  assumes "bv_store sv = Some store"
  shows "evolves (bidding_create_session sv s)" "evolves (bidding_place_offer sv b)"
    "evolves (bidding_decline_session sv i d)" "evolves (bidding_cancel_session sv i p)"
    "evolves (bidding_cancel_offer sv i d)"
proof -
  show "evolves (bidding_create_session sv s)"
    unfolding bidding_create_session_def assms prod.case option.case Let_def
    by (auto intro!: evolve_intros evolving split: option.split prod.split)
  show "evolves (bidding_place_offer sv b)"
    unfolding bidding_place_offer_def assms option.case Let_def
    by (intro evolve_intros evolving helpers_evolve)
  show "evolves (bidding_decline_session sv i d)"
    unfolding bidding_decline_session_def assms option.case
    by (intro evolve_intros evolving)
  show "evolves (bidding_cancel_session sv i p)"
    unfolding bidding_cancel_session_def assms option.case
    by (intro evolve_intros evolving helpers_evolve)
  show "evolves (bidding_cancel_offer sv i d)"
    unfolding bidding_cancel_offer_def assms option.case
    by (intro evolve_intros evolving helpers_evolve)
qed

lemma accept_outcome:
  assumes "bv_store sv = Some store" and "ok w" and "bidding_accept_offer sv i b p e w = (r, w')"
  shows "bids_evolve w w' \<or> (\<exists>v. accepted i b p e w v \<and> bids_evolve v w')"
proof -
  let ?k = "\<lambda>a. io_bind (publish_ride_event ''ride.matched'' (oa_ride a)
      [(''offer'', POffer (oa_offer a)), (''ride'', PRide (oa_ride a)), (''session'', PSession (oa_session a))])
      (\<lambda>_. io_bind (publish_rejected (oa_rejected_offers a)) (\<lambda>_.
      io_bind (publish_withdrawn (oa_withdrawn_offers a)) (\<lambda>_.
      io_return (oa_session a, oa_offer a, oa_ride a))))"
  have k: "evolves (?k a)" for a by (intro evolve_intros)
  consider "w' = w" | x where "bt_accept_offer store i b p e w = (Inl x, w')"
    | a v where "bt_accept_offer store i b p e w = (Inr a, v)" "?k a e v = (r, w')"
    using assms(3) unfolding bidding_accept_offer_def assms(1) option.case
    by (auto simp: io_throw_eq io_bind_def split: if_splits prod.splits sum.splits)
  then show ?thesis
  proof cases
    case (3 a v)
    then have "bids_evolve v w'" by (intro evolvesD [OF k])
    with accept_works [OF assms(2) 3(1)] show ?thesis by blast
  next
    case (2 x)
    with accept_fails [OF assms(2) 2] show ?thesis by simp
  qed simp
qed

lemma run_outcome:
  assumes "bv_store sv = Some store" and "ok w" and "run_bidding sv c e w = (r, w')"
  shows "bids_evolve w w' \<or>
    (\<exists>i b p v. c = AcceptOffer i b p \<and> accepted i b p e w v \<and> bids_evolve v w')"
proof (cases c)
  case (AcceptOffer i b p)
  with assms(3) obtain s where "bidding_accept_offer sv i b p e w = (s, w')"
    by (auto simp: io_ignore_def io_bind_def io_return_def split: prod.splits sum.splits)
  from accept_outcome [OF assms(1,2) this] AcceptOffer show ?thesis by blast
qed (use assms(3) commands_evolve [OF assms(1), THEN evolves_ignore, THEN evolvesD] in auto)

end

section \<open>The dispatch store meets the contract\<close>

definition dispatch_bidding_store :: "bid_store \<Rightarrow> bidding_store" where
  "dispatch_bidding_store p =
     \<lparr>bt_create_session = store_create_session p, bt_active_sessions = store_active_sessions p,
      bt_offers = store_offers p, bt_place_offer = store_place_offer p,
      bt_accept_offer = store_accept_offer p, bt_decline_session = store_decline_session p,
      bt_cancel_session = store_cancel_session p, bt_cancel_offer = store_cancel_offer p,
      bt_session = store_session p\<rparr>"

text \<open>The same store with the reads of sessions and offers taken at another time.\<close>

definition snapshot_bidding_store ::
  "bid_store \<Rightarrow> (int \<Rightarrow> err + bid_session) \<Rightarrow> (int \<Rightarrow> err + bid_offer list) \<Rightarrow> bidding_store" where
  "snapshot_bidding_store p f g =
     (dispatch_bidding_store p)\<lparr>bt_session := \<lambda>i. io_lift (f i), bt_offers := \<lambda>i. io_lift (g i)\<rparr>"

lemma read_only_store_reads [io_class]: "read_only (store_session p i)" "read_only (store_offers p i)"
  unfolding store_session_def store_offers_def store_validate_def
  by (auto intro!: read_only_bind read_only_try io_class split: sum.splits)

interpretation dispatch: bidding_store_contract "dispatch_bidding_store p" schema_ok "offer_accepted p" for p
  by unfold_locales
    (auto simp: dispatch_bidding_store_def intro: io_class evolves_store
      dest: store_accept_offer_fails elim: store_accept_offer_cases)

interpretation snapshot_bids: bidding_store_contract
  "snapshot_bidding_store p f g" schema_ok "offer_accepted p" for p f g
  using dispatch.create_evolves dispatch.place_evolves dispatch.decline_evolves
    dispatch.cancel_session_evolves dispatch.cancel_offer_evolves dispatch.accept_fails
    dispatch.accept_works
  by unfold_locales (simp_all add: snapshot_bidding_store_def io_class)

end
