(* ===== verification/Booking.thy ===== *)
theory Booking
  imports Bidding
begin

text \<open>
  The booking and settlement services (\<open>ride/app/booking.go\<close>, \<open>ride/app/settlement.go\<close>): a
  passenger's direct ride request, priced from the authoritative route, and the driver's cash
  report. The route resolver and the fare calculator are functions the service is given; the
  route cache in front of a configured provider is part of the resolver here.
\<close>

record booking_service =
  bk_writer :: "(ride \<Rightarrow> ride io) option"
  bk_active_ride_checker :: "(int \<Rightarrow> env \<Rightarrow> world \<Rightarrow> err + bool) option"
  bk_resolve_route ::
    "(gofloat \<Rightarrow> gofloat \<Rightarrow> gofloat \<Rightarrow> gofloat \<Rightarrow> gofloat \<Rightarrow> gofloat \<Rightarrow> env \<Rightarrow> err + gofloat \<times> gofloat) option"
  bk_calculate_fare :: "(gofloat \<Rightarrow> gofloat \<Rightarrow> int) option"
  bk_has_route_provider :: bool

definition err_unavailable :: err where
  "err_unavailable = Failure ''ride booking persistence is unavailable''"

definition booking_check_active :: "booking_service \<Rightarrow> int \<Rightarrow> unit io" where
  "booking_check_active service passenger_id =
     (case bk_active_ride_checker service of
        None \<Rightarrow> io_return ()
      | Some has_active \<Rightarrow> (\<lambda>e w.
          (case has_active passenger_id e w of
             Inl x \<Rightarrow> (Inl x, w)
           | Inr active \<Rightarrow> ((if active then Inl ErrActiveBooking else Inr ()), w))))"

definition booking_create :: "booking_service \<Rightarrow> int \<Rightarrow> int \<Rightarrow> ride io" where
  "booking_create service passenger_id amount =
     (if passenger_id \<le> 0 \<or> amount \<le> 0 then io_throw ErrInvalidTrip
      else
        (case bk_writer service of
           None \<Rightarrow> io_throw err_unavailable
         | Some create \<Rightarrow>
             io_bind (booking_check_active service passenger_id) (\<lambda>_.
             io_bind (create (zero_ride\<lparr>rd_passenger_id := passenger_id,
               rd_status := status_str RideRequested, rd_fare_amount := amount\<rparr>)) (\<lambda>ride.
             io_bind (publish_ride_event ''ride.offer.created'' ride [(''ride'', PRide ride)]) (\<lambda>_.
             io_return ride)))))"

definition booking_create_with_details :: "booking_service \<Rightarrow> ride \<Rightarrow> ride io" where
  "booking_create_with_details service ride =
     (if rd_passenger_id ride \<le> 0 then io_throw ErrInvalidTrip
      else if rd_status ride \<noteq> '''' \<and> normalize_ride_status (rd_status ride) \<noteq> Some RideRequested
      then io_throw ErrInvalidTrip
      else
        (case (bk_resolve_route service, bk_calculate_fare service, bk_writer service) of
           (Some resolve_route, Some calculate_fare, Some create) \<Rightarrow>
             io_bind (booking_check_active service (rd_passenger_id ride)) (\<lambda>_.
             io_bind (io_env (resolve_route (rd_pickup_latitude ride) (rd_pickup_longitude ride)
               (rd_dropoff_latitude ride) (rd_dropoff_longitude ride)
               (rd_distance_km ride) (rd_duration_minutes ride))) (\<lambda>result.
             io_bind (io_lift result) (\<lambda>(distance_km, duration_minutes).
             io_bind (create
               (ride\<lparr>rd_distance_km := distance_km, rd_duration_minutes := duration_minutes,
                     rd_fare_amount := calculate_fare distance_km duration_minutes,
                     rd_status := status_str RideRequested\<rparr>)) (\<lambda>created.
             io_bind (publish_ride_event ''ride.offer.created'' created [(''ride'', PRide created)]) (\<lambda>_.
             io_return created)))))
         | _ \<Rightarrow> io_throw err_unavailable))"

definition booking_estimate_fare ::
  "booking_service \<Rightarrow> gofloat option \<Rightarrow> gofloat option \<Rightarrow> gofloat option \<Rightarrow> gofloat option \<Rightarrow>
   gofloat \<Rightarrow> gofloat \<Rightarrow> ((gofloat \<times> gofloat) \<times> int) io" where
  "booking_estimate_fare service origin_latitude origin_longitude destination_latitude
     destination_longitude distance_km duration_minutes =
     (case bk_calculate_fare service of
        None \<Rightarrow> io_throw err_unavailable
      | Some calculate_fare \<Rightarrow>
          if bk_has_route_provider service then
            (case (origin_latitude, origin_longitude, destination_latitude, destination_longitude) of
               (Some p, Some l, Some q, Some m) \<Rightarrow>
                 if f_eq p q \<and> f_eq l m then io_throw ErrInvalidTrip
                 else
                   (case bk_resolve_route service of
                      None \<Rightarrow> io_throw err_unavailable
                    | Some resolve_route \<Rightarrow>
                        io_bind (io_env (resolve_route p l q m distance_km duration_minutes)) (\<lambda>result.
                        io_bind (io_lift result) (\<lambda>metrics.
                        io_return (metrics, calculate_fare (fst metrics) (snd metrics)))))
             | _ \<Rightarrow> io_throw ErrInvalidTrip)
          else
            io_bind (io_lift (validate_trip (Fin 0) (Fin 0) (Fin 0) (Fin 0) distance_km duration_minutes))
              (\<lambda>_. io_return ((distance_km, duration_minutes),
                               calculate_fare distance_km duration_minutes)))"

section \<open>Settlement\<close>

type_synonym settlement_service = "(cash_settlement_request \<Rightarrow> ride io) option"

definition settlement_settle_cash :: "settlement_service \<Rightarrow> cash_settlement_request \<Rightarrow> ride io" where
  "settlement_settle_cash service request =
     (case service of
        None \<Rightarrow> io_throw ErrSettlementPersistenceUnavailable
      | Some settle \<Rightarrow>
          if cs_ride_id request \<le> 0 \<or> cs_driver_id request \<le> 0 then io_throw ErrUnauthorizedRide
          else
            io_bind (settle request) (\<lambda>ride.
            io_bind (publish_ride_event ''ride.status.changed'' ride
              [(''ride'', PRide ride), (''payment_status'', PString (rd_payment_status ride))]) (\<lambda>_.
            io_return ride)))"

section \<open>What the services can do to the world\<close>

text \<open>A direct request: bids may have expired, and one requested ride without driver is new.\<close>

definition ride_requested :: "int \<Rightarrow> world \<Rightarrow> world \<Rightarrow> bool" where
  "ride_requested passenger_id w w' \<longleftrightarrow>
     (\<exists>v row. bids_evolve w v \<and> \<not> exists_where (\<lambda>q. r_id q = r_id row) (w_rides w) \<and>
        r_status row = ''requested'' \<and> r_driver_id row = None \<and>
        r_passenger_id row = passenger_id \<and> 0 < r_fare_amount row \<and>
        \<not> exists_where (\<lambda>q. r_passenger_id q = passenger_id \<and>
              r_status q \<in> set passenger_active_statuses) (w_rides w) \<and>
        r_bid_session_id row = None \<and> r_created_at row \<noteq> None \<and>
        w' = v\<lparr>w_rides := w_rides v @ [row]\<rparr>)"

lemma repo_create_ride_requested:
  assumes "repo_create_ride p x e w = (Inr y, w')"
  shows "ride_requested (rd_passenger_id x) w w'"
  using assms
proof (rule repo_create_rideE)
  fix row v1
  assume ex: "expire_bid_sessions (rd_passenger_id x) (env_now e) e w = (Inr (), v1)"
    and r: "0 < rd_fare_amount x" "r_passenger_id row = rd_passenger_id x"
      "r_status row = ''requested''" "r_driver_id row = None" "r_fare_amount row = rd_fare_amount x"
      "r_created_at row = Some (env_db_now e)" "r_bid_session_id row = None"
      "\<not> exists_where (\<lambda>q. r_id q = r_id row) (w_rides v1)"
      "\<not> exists_where (\<lambda>r. r_passenger_id r = rd_passenger_id x \<and>
            r_status r \<in> set passenger_active_statuses) (w_rides v1)"
    and w': "w' = v1\<lparr>w_booking_references := w_booking_references v1 @ [env_booking_reference e],
                 w_rides := w_rides v1 @ [row]\<rparr>"
  let ?v = "v1\<lparr>w_booking_references := w_booking_references v1 @ [env_booking_reference e]\<rparr>"
  have "bids_evolve w v1" using ex by (rule evolvesD [OF evolves_expire])
  moreover have "bids_evolve v1 ?v" by (simp add: bids_evolve_def schema_ok_def)
  ultimately have "bids_evolve w ?v" by (rule bids_evolve_trans)
  moreover have "w_rides w = w_rides v1" using \<open>bids_evolve w v1\<close> by (simp add: bids_evolve_def)
  ultimately show ?thesis
    unfolding ride_requested_def using r w' by (intro exI [of _ ?v] exI [of _ row]) simp
qed

text \<open>A command that either changes nothing, or makes one step and then publishes.\<close>

definition steps_then_publishes :: "(env \<Rightarrow> world \<Rightarrow> world \<Rightarrow> bool) \<Rightarrow> 'a io \<Rightarrow> bool" where
  "steps_then_publishes R m \<longleftrightarrow>
     (\<forall>e w r w'. schema_ok w \<longrightarrow> m e w = (r, w') \<longrightarrow>
        w' = w \<or> (\<exists>v. R e w v \<and> bids_evolve v w'))"

lemma steps_then_publishesD:
  "steps_then_publishes R m \<Longrightarrow> schema_ok w \<Longrightarrow> m e w = (r, w') \<Longrightarrow>
     w' = w \<or> (\<exists>v. R e w v \<and> bids_evolve v w')"
  by (auto simp: steps_then_publishes_def)

named_theorems step_intros \<open>commands that make at most one step\<close>

lemma steps_throw [step_intros]: "steps_then_publishes R (io_throw x)"
  by (simp add: steps_then_publishes_def io_throw_eq)

lemma steps_after_read [step_intros]:
  assumes "read_only m" and "\<And>x. steps_then_publishes R (f x)"
  shows "steps_then_publishes R (io_bind m f)"
  unfolding steps_then_publishes_def
proof (intro allI impI)
  fix e w r w' assume s: "schema_ok w" and b: "io_bind m f e w = (r, w')"
  then show "w' = w \<or> (\<exists>v. R e w v \<and> bids_evolve v w')"
    using read_onlyD [OF assms(1), of e w] steps_then_publishesD [OF assms(2) s]
    by (auto simp: io_bind_def split: prod.splits sum.splits)
qed

lemma steps_before_publish:
  assumes "\<And>e w x w'. schema_ok w \<Longrightarrow> m e w = (Inl x, w') \<Longrightarrow> w' = w"
    and "\<And>e w x w'. schema_ok w \<Longrightarrow> m e w = (Inr x, w') \<Longrightarrow> R e w w'"
    and "\<And>x. evolves (f x)"
  shows "steps_then_publishes R (io_bind m f)"
  unfolding steps_then_publishes_def
proof (intro allI impI)
  fix e w r w' assume s: "schema_ok w" and b: "io_bind m f e w = (r, w')"
  show "w' = w \<or> (\<exists>v. R e w v \<and> bids_evolve v w')"
  proof (cases "m e w")
    case (Pair y v)
    show ?thesis
    proof (cases y)
      case (Inl x)
      with Pair b assms(1) [OF s] show ?thesis by (auto simp: io_bind_def)
    next
      case (Inr x)
      with Pair b have "f x e v = (r, w')" by (simp add: io_bind_def)
      then have "bids_evolve v w'" by (rule evolvesD [OF assms(3)])
      with assms(2) [OF s] Pair Inr show ?thesis by auto
    qed
  qed
qed

lemma read_only_check_active [io_class]: "read_only (booking_check_active sv i)"
  by (auto simp: booking_check_active_def read_only_def io_return_def split: option.splits sum.splits)

lemma booking_steps:
  assumes "bk_writer sv = Some (repo_create_ride p)"
  shows "steps_then_publishes (\<lambda>e w w'. \<exists>i. ride_requested i w w') (booking_create sv i a)"
    and "steps_then_publishes (\<lambda>e w w'. \<exists>i. ride_requested i w w') (booking_create_with_details sv x)"
proof -
  note reads = steps_after_read [OF read_only_check_active] steps_after_read [OF read_only_env]
    steps_after_read [OF read_only_lift]
  note create = repo_create_ride_atomic repo_create_ride_requested
  show "steps_then_publishes (\<lambda>e w w'. \<exists>i. ride_requested i w w') (booking_create sv i a)"
    unfolding booking_create_def assms option.case
    by (auto intro!: steps_throw reads steps_before_publish evolve_intros dest: create)
  show "steps_then_publishes (\<lambda>e w w'. \<exists>i. ride_requested i w w') (booking_create_with_details sv x)"
    unfolding booking_create_with_details_def assms
    by (auto intro!: steps_throw reads steps_before_publish evolve_intros dest: create
        split: option.split prod.split)
qed

text \<open>A cash report: a first recording or a repetition.\<close>

definition cash_settled :: "env \<Rightarrow> world \<Rightarrow> world \<Rightarrow> bool" where
  "cash_settled e w w' \<longleftrightarrow>
     (\<exists>q r s s'. (\<exists>cs. cash_effect e q r s s' cs w w') \<or> cash_repeat q r s s' w w')"

lemma repo_settle_cash_fails:
  assumes "schema_ok w" and "repo_settle_cash p q e w = (Inl x, w')"
  shows "w' = w"
proof -
  consider "w' = w"
    | r s v where "settle_cash_transaction p q (cs_ride_id q) (cs_driver_id q) e w = (Inr (r, s), v)"
        and "from_postgres_ride_projection r (ride_settlement_projection_from_record s) = Inl x"
    using assms(2) unfolding repo_settle_cash_def validate_native_read_repository_def
    by (auto simp: io_bind_Inl io_simps dest: transaction_Inl split: if_splits)
  then show ?thesis
  proof cases
    case (2 r s v)
    from 2(1) have "r \<in> set (w_rides w)"
      by (auto elim!: settle_cash_start dest: find_SomeD)
    with schema_okD(2) [OF assms(1)] from_postgres_ride_projection_Inl [OF 2(2)]
    show ?thesis by (auto simp: list_all_iff)
  qed
qed

lemma repo_settle_cash_settled:
  assumes "schema_ok w" and "repo_settle_cash p q e w = (Inr x, w')"
  shows "cash_settled e w w'"
  by (rule repo_settle_cash_cases [OF assms(2) schema_okD(3,5,6) [OF assms(1)]])
    (unfold cash_settled_def, blast+)

lemma settlement_steps:
  "steps_then_publishes cash_settled (settlement_settle_cash (Some (repo_settle_cash p)) q)"
  unfolding settlement_settle_cash_def option.case
  by (auto intro!: steps_throw steps_before_publish evolve_intros
      dest: repo_settle_cash_fails repo_settle_cash_settled)

end
