(* ===== verification/System.thy ===== *)
theory System
  imports Booking
begin

text \<open>
  The server as a transition system. A step is a command of one of the services over the shared
  database, in any environment (clocks, sequences, failing calls) and with reads taken at any
  other time, or a change that modules outside this development make to the users and driver
  profiles. What a step has done to the database is one of a few core steps, followed by
  changes to bids and publications; the invariants are proved over the core steps.
\<close>

section \<open>Steps\<close>

text \<open>
  The tables that the ride and dispatch modules do not write; other modules may change them in
  any way. The ride and dispatch modules insert notifications, which they never read.
\<close>

definition other_modules :: "world \<Rightarrow> world \<Rightarrow> bool" where
  "other_modules w w' \<longleftrightarrow>
     (\<exists>us ps rs qs pp rr dd ns. w' = w\<lparr>w_users := us, w_driver_profiles := ps, w_reviews := rs,
        w_passenger_reviews := qs, w_passenger_profiles := pp, w_ride_reports := rr,
        w_driver_documents := dd, w_notifications := ns\<rparr>)"

lemma other_modulesD:
  assumes "other_modules w w'"
  shows "w_rides w' = w_rides w" "w_settlements w' = w_settlements w" "w_accounts w' = w_accounts w"
    "w_ledgers w' = w_ledgers w" "w_events w' = w_events w" "w_audits w' = w_audits w"
    "w_sessions w' = w_sessions w" "w_offers w' = w_offers w"
    "w_booking_references w' = w_booking_references w" "w_published w' = w_published w"
  using assms by (auto simp: other_modules_def)

inductive server_step :: "ride_repository \<Rightarrow> bid_store \<Rightarrow> world \<Rightarrow> world \<Rightarrow> bool"
  for p :: ride_repository and b :: bid_store where
  lifecycle: "lv_store sv = Some (snapshot_lifecycle_store p f) \<Longrightarrow>
     run_lifecycle sv c e w = (r, w') \<Longrightarrow> server_step p b w w'"
| bidding: "bv_store bv = Some (snapshot_bidding_store b g h) \<Longrightarrow>
     run_bidding bv d e w = (u, w') \<Longrightarrow> server_step p b w w'"
| request: "bk_writer kv = Some (repo_create_ride p) \<Longrightarrow>
     booking_create kv i a e w = (r, w') \<Longrightarrow> server_step p b w w'"
| detailed_request: "bk_writer kv = Some (repo_create_ride p) \<Longrightarrow>
     booking_create_with_details kv x e w = (r, w') \<Longrightarrow> server_step p b w w'"
| cash: "settlement_settle_cash (Some (repo_settle_cash p)) q e w = (r, w') \<Longrightarrow> server_step p b w w'"
| expiry: "expire_bid_sessions i now e w = (r, w') \<Longrightarrow> server_step p b w w'"
| accounts: "other_modules w w' \<Longrightarrow> server_step p b w w'"

inductive core_step :: "world \<Rightarrow> world \<Rightarrow> bool" where
  accepted: "ride_accepted p i d w w' \<Longrightarrow> core_step w w'"
| moved: "ride_moved i a f t w w' \<Longrightarrow> can_transition f t \<Longrightarrow> core_step w w'"
| offer: "offer_accepted b i j k e w w' \<Longrightarrow> core_step w w'"
| requested: "ride_requested i w w' \<Longrightarrow> core_step w w'"
| settled: "cash_settled e w w' \<Longrightarrow> core_step w w'"
| users: "other_modules w w' \<Longrightarrow> core_step w w'"

inductive_cases core_stepE: "core_step w w'"

lemma published_evolves: "published_after v w' \<Longrightarrow> bids_evolve v w'"
  by (auto simp: published_after_def bids_evolve_def schema_ok_def)

theorem server_step_core:
  assumes "server_step p b w w'" and "schema_ok w"
  shows "\<exists>v. (v = w \<or> core_step w v) \<and> bids_evolve v w'"
  using assms
proof cases
  case (lifecycle sv f c e r)
  from snapshot.run_outcome [OF assms(2) lifecycle] show ?thesis
    unfolding lifecycle_outcome_def by (blast intro: core_step.intros published_evolves bids_evolve_refl)
next
  case (bidding bv g h d e u)
  from snapshot_bids.run_outcome [OF bidding(1) assms(2) bidding(2)] show ?thesis
    by (blast intro: core_step.intros)
next
  case (request kv i a e r)
  from steps_then_publishesD [OF booking_steps(1) [OF request(1)] assms(2) request(2)] show ?thesis
    by (blast intro: core_step.intros bids_evolve_refl)
next
  case (detailed_request kv x e r)
  from steps_then_publishesD [OF booking_steps(2) [OF detailed_request(1)] assms(2) detailed_request(2)]
  show ?thesis by (blast intro: core_step.intros bids_evolve_refl)
next
  case (cash q e r)
  from steps_then_publishesD [OF settlement_steps assms(2) cash] show ?thesis
    by (blast intro: core_step.intros bids_evolve_refl)
next
  case (expiry i now e r)
  then have "bids_evolve w w'" by (rule evolvesD [OF evolves_expire])
  then show ?thesis by blast
next
  case accounts
  then show ?thesis by (blast intro: core_step.intros bids_evolve_refl)
qed

text \<open>Worlds the server can reach from a database whose tables are empty but for the users.\<close>

definition initial_world :: "world \<Rightarrow> bool" where
  "initial_world w \<longleftrightarrow> (\<exists>us ps. w = empty_world\<lparr>w_users := us, w_driver_profiles := ps\<rparr>)"

inductive reachable :: "ride_repository \<Rightarrow> bid_store \<Rightarrow> world \<Rightarrow> bool"
  for p :: ride_repository and b :: bid_store where
  start: "initial_world w \<Longrightarrow> reachable p b w"
| step: "reachable p b w \<Longrightarrow> server_step p b w w' \<Longrightarrow> reachable p b w'"

text \<open>An invariant of core steps that the evolution of bids keeps is an invariant of the server.\<close>

lemma reachable_induct_core:
  assumes "reachable p b w"
    and "\<And>w. initial_world w \<Longrightarrow> I w"
    and "\<And>w w'. I w \<Longrightarrow> schema_ok w \<Longrightarrow> core_step w w' \<Longrightarrow> I w' \<and> schema_ok w'"
    and "\<And>w w'. I w \<Longrightarrow> bids_evolve w w' \<Longrightarrow> I w'"
  shows "I w \<and> schema_ok w"
  using assms(1)
proof induction
  case (start w)
  then have "schema_ok w" by (auto simp: initial_world_def empty_world_def schema_ok_def)
  with assms(2) start show ?case by blast
next
  case (step w w')
  then obtain v where v: "v = w \<or> core_step w v" and e: "bids_evolve v w'"
    using server_step_core by blast
  have "I v \<and> schema_ok v" using v step.IH assms(3) by blast
  with e assms(4) show ?case by (auto simp: bids_evolve_def)
qed

section \<open>Rides\<close>

text \<open>A requested ride has no driver and no session, and statuses are the seven of the code.\<close>

definition ride_wf :: "ride_row \<Rightarrow> bool" where
  "ride_wf r \<longleftrightarrow> (\<exists>s. r_status r = status_str s) \<and>
     (r_status r = ''requested'' \<longrightarrow> r_driver_id r = None \<and> r_bid_session_id r = None)"

definition passenger_active_ride :: "int \<Rightarrow> ride_row \<Rightarrow> bool" where
  "passenger_active_ride i r \<longleftrightarrow> r_passenger_id r = i \<and> r_status r \<in> set passenger_active_statuses"

definition rides_inv :: "world \<Rightarrow> bool" where
  "rides_inv w \<longleftrightarrow> list_all ride_wf (w_rides w) \<and>
     (\<forall>d. count_where (driver_active_ride (Some d)) (w_rides w) \<le> max_active_rides_per_driver) \<and>
     (\<forall>i. count_where (passenger_active_ride i) (w_rides w) \<le> 1)"

lemma status_of_ride:
  assumes "ride_violation w r = None"
  shows "\<exists>s. r_status r = status_str s"
    and "r_status r \<noteq> ''requested'' \<Longrightarrow> r_status r \<noteq> ''cancelled'' \<Longrightarrow> r_driver_id r \<noteq> None"
proof -
  have "r_status r \<in> set passenger_active_statuses \<or> r_status r \<in> {''completed'', ''cancelled''}"
    using assms unfolding ride_violation_def Let_def
    by (rule first_violation_NoneD [where x = "check_violation ''rides_status_check''"]) simp
  then have "r_status r \<in> status_str ` UNIV"
    unfolding passenger_active_statuses_def
    by (auto simp: status_str.simps [symmetric])
  then show "\<exists>s. r_status r = status_str s" by auto
  have "r_status r \<in> {''requested'', ''cancelled''} \<or>
           (case r_driver_id r of None \<Rightarrow> False | Some d \<Rightarrow> d > 0)"
    using assms unfolding ride_violation_def Let_def
    by (rule first_violation_NoneD [where x = "check_violation ''rides_driver_assignment_check''"]) simp
  then show "r_status r \<noteq> ''requested'' \<Longrightarrow> r_status r \<noteq> ''cancelled'' \<Longrightarrow> r_driver_id r \<noteq> None"
    by (auto split: option.splits)
qed

lemma status_literals:
  "''requested'' = status_str RideRequested" "''assigned'' = status_str RideAssigned"
  "''accepted'' = status_str RideAccepted" "''arrived'' = status_str RideArrived"
  "''in_transit'' = status_str RideInTransit" "''completed'' = status_str RideCompleted"
  "''cancelled'' = status_str RideCancelled"
  by (simp_all add: status_str.simps)

lemma active_statuses:
  "status_str s \<in> set passenger_active_statuses \<longleftrightarrow> s \<noteq> RideCompleted \<and> s \<noteq> RideCancelled"
  "status_str s \<in> set driver_active_statuses \<longleftrightarrow>
     s \<noteq> RideRequested \<and> s \<noteq> RideCompleted \<and> s \<noteq> RideCancelled"
  unfolding passenger_active_statuses_def driver_active_statuses_def status_literals
  by (cases s; simp)+

lemma count_put_row_le:
  assumes "distinct (map k t)" and "r \<in> set t" and "k r' = k r" and "p r' \<Longrightarrow> p r"
  shows "count_where p (put_row k r' t) \<le> count_where p t"
  using count_where_put_row [OF assms(1-3), of p] assms(4) by (cases "p r'") auto

lemma list_all_put_row:
  "list_all p t \<Longrightarrow> p r \<Longrightarrow> list_all p (put_row k r t)"
  unfolding list_all_iff by (blast dest: in_put_row)

text \<open>A move never makes a ride active for a driver or a passenger for whom it was not.\<close>

lemma moved_ride:
  assumes "lifecycle_effect i a r r' ev audits w w'" and "can_transition (r_status r) (r_status r')"
    and "ride_wf r"
  shows "ride_wf r'" and "driver_active_ride (Some d) r' \<Longrightarrow> driver_active_ride (Some d) r"
    and "passenger_active_ride j r' \<Longrightarrow> passenger_active_ride j r"
    and "r_status r' \<noteq> ''requested''"
proof -
  from assms(1) have e: "r_passenger_id r' = r_passenger_id r" "r_driver_id r' = r_driver_id r"
    "r_bid_session_id r' = r_bid_session_id r" "ride_violation w r' = None"
    by (simp_all add: lifecycle_effect_def)
  from assms(3) obtain s where s: "r_status r = status_str s" by (auto simp: ride_wf_def)
  from status_of_ride(1) [OF e(4)] obtain t where t: "r_status r' = status_str t" by blast
  have st: "status_successor s t" using assms(2) s t by simp
  then have tr: "t \<noteq> RideRequested" by (cases s) auto
  then show nr: "r_status r' \<noteq> ''requested''" using t by (simp add: status_literals)
  with t show "ride_wf r'" by (auto simp: ride_wf_def)
  show "passenger_active_ride j r' \<Longrightarrow> passenger_active_ride j r"
    using st e s t unfolding passenger_active_ride_def by (cases s) (auto simp: active_statuses)
  show "driver_active_ride (Some d) r" if d: "driver_active_ride (Some d) r'"
  proof (cases "s = RideRequested")
    case True
    then have "r_driver_id r = None" using assms(3) s by (simp add: ride_wf_def status_literals)
    with d e show ?thesis by (simp add: driver_active_ride_def sql_eq_def)
  next
    case False
    with st d e s t show ?thesis
      unfolding driver_active_ride_def by (cases s) (auto simp: active_statuses)
  qed
qed

lemma offer_acceptedE:
  assumes "offer_accepted p sid oid pid e w w'"
  obtains s x r st full where "s \<in> set (w_sessions w)" and "s_id s = sid" and "s_passenger_id s = pid"
    and "s_status s = ''open''"
    and "x \<in> set (w_offers w)" and "of_id x = oid" and "of_session_id x = sid" and "of_status x = ''pending''"
    and "count_where (driver_active_ride (Some (of_driver_id x))) (w_rides w) < max_active_rides_per_driver"
    and "\<not> exists_where (\<lambda>r. r_passenger_id r = pid \<and> r_status r \<in> set passenger_active_statuses) (w_rides w)"
    and "\<not> exists_where (\<lambda>q. r_id q = r_id r) (w_rides w)"
    and "\<not> exists_where (\<lambda>q. r_bid_session_id q = Some sid) (w_rides w)"
    and "r_passenger_id r = pid" and "r_driver_id r = Some (of_driver_id x)" and "r_status r = ''accepted''"
    and "r_fare_amount r = of_proposed_fare x" and "r_bid_session_id r = Some sid"
    and "r_created_at r = Some (env_db_now e)"
    and "st_ride_id st = r_id r" and "st_gross_fare st = of_proposed_fare x" and "st_commission_bps st \<noteq> None"
    and "st_cash_outcome st = ''unpaid''" and "st_cash_received_amount st = 0" and "st_cash_change_amount st = 0"
    and "\<not> exists_where (\<lambda>q. st_id q = st_id st) (w_settlements w)"
    and "\<not> exists_where (\<lambda>q. st_ride_id q = st_ride_id st) (w_settlements w)"
    and "w' = w\<lparr>w_sessions := put_row s_id
           (s\<lparr>s_status := ''accepted'', s_accepted_driver_id := Some (of_driver_id x)\<rparr>) (w_sessions w),
         w_offers := map (offer_after sid oid (of_driver_id x) full) (w_offers w),
         w_rides := w_rides w @ [r], w_settlements := w_settlements w @ [st]\<rparr>"
  using assms unfolding offer_accepted_def session_live_def
  by (elim exE conjE) (rule that, assumption+)

lemma rides_inv_step:
  assumes "rides_inv w" and "schema_ok w" and "core_step w w'"
  shows "rides_inv w'"
  using assms(3)
proof cases
  case (accepted p i d)
  then obtain r r' st where r: "r \<in> set (w_rides w)" "r_id r = i" "r_id r' = i"
    "r_status r = ''requested''" "r_status r' = ''accepted''" "r_driver_id r' = Some d"
    "r_passenger_id r' = r_passenger_id r"
    and c: "count_where (driver_active_ride (Some d)) (w_rides w) < max_active_rides_per_driver"
    and w': "w' = w\<lparr>w_rides := put_row r_id r' (w_rides w), w_settlements := w_settlements w @ [st]\<rparr>"
    unfolding ride_accepted_def by blast
  note put = count_where_put_row [OF schema_okD(1) [OF assms(2)] r(1), of r']
  have wf: "ride_wf r'" using r by (auto simp: ride_wf_def status_literals)
  have p: "passenger_active_ride j r' \<longleftrightarrow> passenger_active_ride j r" for j
    using r by (simp add: passenger_active_ride_def passenger_active_statuses_def)
  have "count_where (driver_active_ride (Some d')) (put_row r_id r' (w_rides w)) \<le> max_active_rides_per_driver" for d'
  proof (cases "d' = d")
    case True
    then show ?thesis using put [of "driver_active_ride (Some d)"] c r by (auto split: if_splits)
  next
    case False
    then have "\<not> driver_active_ride (Some d') r'" using r by (simp add: driver_active_ride_def sql_eq_def)
    then have "count_where (driver_active_ride (Some d')) (put_row r_id r' (w_rides w))
        \<le> count_where (driver_active_ride (Some d')) (w_rides w)"
      by (intro count_put_row_le [OF schema_okD(1) [OF assms(2)] r(1)]) (use r in simp_all)
    with assms(1) show ?thesis unfolding rides_inv_def by (meson order_trans)
  qed
  moreover have "count_where (passenger_active_ride j) (put_row r_id r' (w_rides w)) \<le> 1" for j
    using put [of "passenger_active_ride j"] assms(1) r p unfolding rides_inv_def by (auto split: if_splits)
  ultimately show ?thesis
    using assms(1) wf w' by (simp add: rides_inv_def list_all_put_row)
next
  case (moved i a f t)
  then obtain r r' ev audits where m: "lifecycle_effect i a r r' ev audits w w'"
    "can_transition (r_status r) (r_status r')"
    unfolding ride_moved_def by blast
  then have r: "r \<in> set (w_rides w)" "r_id r' = r_id r" and w': "w_rides w' = put_row r_id r' (w_rides w)"
    by (simp_all add: lifecycle_effect_def)
  have wf: "ride_wf r" using assms(1) r by (simp add: rides_inv_def list_all_iff)
  note le = count_put_row_le [OF schema_okD(1) [OF assms(2)] r]
  note mv = moved_ride [OF m wf]
  have "count_where (driver_active_ride (Some d)) (w_rides w') \<le> max_active_rides_per_driver" for d
    using le [of "driver_active_ride (Some d)", OF mv(2)] assms(1)
    unfolding w' rides_inv_def by (meson order_trans)
  moreover have "count_where (passenger_active_ride j) (w_rides w') \<le> 1" for j
    using le [of "passenger_active_ride j", OF mv(3)] assms(1)
    unfolding w' rides_inv_def by (meson order_trans)
  ultimately show ?thesis using assms(1) mv(1) by (simp add: rides_inv_def w' list_all_put_row)
next
  case (offer b i j k e)
  then show ?thesis
  proof (rule offer_acceptedE)
    fix x r s st full
    assume c: "count_where (driver_active_ride (Some (of_driver_id x))) (w_rides w) < max_active_rides_per_driver"
        "\<not> exists_where (\<lambda>r. r_passenger_id r = k \<and> r_status r \<in> set passenger_active_statuses) (w_rides w)"
      and r: "r_passenger_id r = k" "r_driver_id r = Some (of_driver_id x)" "r_status r = ''accepted''"
      and w': "w' = w\<lparr>w_sessions := put_row s_id
           (s\<lparr>s_status := ''accepted'', s_accepted_driver_id := Some (of_driver_id x)\<rparr>) (w_sessions w),
         w_offers := map (offer_after i j (of_driver_id x) full) (w_offers w),
         w_rides := w_rides w @ [r], w_settlements := w_settlements w @ [st]\<rparr>"
    have "ride_wf r" using r by (auto simp: ride_wf_def status_literals)
    moreover have "count_where (passenger_active_ride k) (w_rides w) = 0"
      using c(2) by (simp add: exists_where_iff passenger_active_ride_def [abs_def])
    ultimately show ?thesis
      using assms(1) c(1) r unfolding rides_inv_def w'
      by (auto simp: driver_active_ride_def sql_eq_def passenger_active_ride_def)
  qed
next
  case (requested i)
  then obtain v row where r: "\<not> exists_where (\<lambda>q. r_passenger_id q = i \<and>
              r_status q \<in> set passenger_active_statuses) (w_rides w)"
      "r_status row = ''requested''" "r_driver_id row = None" "r_passenger_id row = i" "r_bid_session_id row = None"
    and w': "w_rides w' = w_rides w @ [row]"
    unfolding ride_requested_def bids_evolve_def by auto
  have "ride_wf row" using r by (auto simp: ride_wf_def status_literals)
  moreover have "count_where (passenger_active_ride i) (w_rides w) = 0"
    using r(1) by (simp add: exists_where_iff passenger_active_ride_def [abs_def])
  ultimately show ?thesis
    using assms(1) r unfolding rides_inv_def w'
    by (auto simp: driver_active_ride_def sql_eq_def passenger_active_ride_def)
next
  case (settled e)
  then have "w_rides w' = w_rides w"
    by (auto simp: cash_settled_def cash_effect_def cash_repeat_def)
  with assms(1) show ?thesis by (simp add: rides_inv_def)
next
  case users
  with assms(1) show ?thesis by (simp add: rides_inv_def other_modulesD [OF users])
qed

end
