(* ===== verification/Invariants.thy ===== *)
theory Invariants
  imports System
begin

text \<open>
  Invariants of the server: the schema's keys, the trail of ride events, the money, and the
  link between accepted bids and their rides. Each is shown for every core step and for the
  evolution of bids; \<open>reachable_induct_core\<close> carries it to the reachable worlds.
\<close>

section \<open>Core steps, table by table\<close>

lemma ride_acceptedE:
  assumes "ride_accepted p i d w w'"
  obtains r r' st where "r \<in> set (w_rides w)" and "r_id r' = r_id r" and "r_id r = i"
    and "r_status r = ''requested''" and "r_status r' = ''accepted''" and "r_driver_id r' = Some d"
    and "r_passenger_id r' = r_passenger_id r" and "r_fare_amount r' = r_fare_amount r"
    and "r_created_at r' = r_created_at r" and "r_bid_session_id r' = r_bid_session_id r"
    and "st_ride_id st = r_id r" and "st_gross_fare st = r_fare_amount r"
    and "st_commission_bps st \<noteq> None" and "st_cash_outcome st = ''unpaid''"
    and "st_cash_received_amount st = 0" and "st_cash_change_amount st = 0"
    and "\<not> exists_where (\<lambda>q. st_id q = st_id st) (w_settlements w)"
    and "\<not> exists_where (\<lambda>q. st_ride_id q = st_ride_id st) (w_settlements w)"
    and "w' = w\<lparr>w_rides := put_row r_id r' (w_rides w), w_settlements := w_settlements w @ [st]\<rparr>"
proof -
  from assms obtain r r' st ss where
    a: "r \<in> set (w_rides w)" "r_id r = i" "r_id r' = i" "r_status r = ''requested''" "r_status r' = ''accepted''"
      "r_driver_id r' = Some d" "r_passenger_id r' = r_passenger_id r" "r_fare_amount r' = r_fare_amount r"
      "r_created_at r' = r_created_at r" "r_bid_session_id r' = r_bid_session_id r"
    and ss: "new_settlement_snapshot (r_fare_amount r) (rr_platform_commission_bps p) = Inr ss"
    and s: "st_ride_id st = i" "st_gross_fare st = ss_fare_amount ss" "st_commission_bps st \<noteq> None"
      "st_cash_outcome st = ''unpaid''" "st_cash_received_amount st = 0" "st_cash_change_amount st = 0"
      "\<not> exists_where (\<lambda>q. st_id q = st_id st) (w_settlements w)"
      "settlement_violation (w\<lparr>w_rides := put_row r_id r' (w_rides w)\<rparr>) st = None"
    and w': "w' = w\<lparr>w_rides := put_row r_id r' (w_rides w), w_settlements := w_settlements w @ [st]\<rparr>"
    unfolding ride_accepted_def by blast
  have "st_gross_fare st = r_fare_amount r"
    using ss s(2) by (auto simp: new_settlement_snapshot_def Let_def split: if_splits)
  moreover have "\<not> exists_where (\<lambda>q. st_ride_id q = st_ride_id st) (w_settlements w)"
    using settlement_violation_ride [OF s(8)] s(7) by simp
  ultimately show ?thesis by (intro that [of r r' st] a s w') (simp_all add: a s)
qed

lemma ride_movedE:
  assumes "ride_moved i a f t w w'" and "can_transition f t"
  obtains r r' ev audits where "r \<in> set (w_rides w)" and "r_id r' = r_id r"
    and "r_passenger_id r' = r_passenger_id r" and "r_driver_id r' = r_driver_id r"
    and "r_fare_amount r' = r_fare_amount r" and "r_created_at r' = r_created_at r"
    and "r_bid_session_id r' = r_bid_session_id r"
    and "can_transition (r_status r) (r_status r')" and "ride_violation w r' = None"
    and "re_ride_id ev = r_id r" and "re_from_status ev = r_status r" and "re_to_status ev = r_status r'"
    and "lifecycle_effect i a r r' ev audits w w'"
    and "w' = w\<lparr>w_rides := put_row r_id r' (w_rides w), w_events := w_events w @ [ev],
            w_audits := w_audits w @ audits\<rparr>"
proof -
  from assms(1) obtain r r' ev audits where e: "lifecycle_effect i a r r' ev audits w w'"
    and s: "r_status r = f" "r_status r' = t" unfolding ride_moved_def by blast
  show ?thesis
    by (rule that [of r r' ev audits]) (use e s assms(2) in \<open>simp_all add: lifecycle_effect_def\<close>)
qed

lemma ride_requestedE:
  assumes "ride_requested i w w'"
  obtains v row where "bids_evolve w v" and "\<not> exists_where (\<lambda>q. r_id q = r_id row) (w_rides w)"
    and "r_status row = ''requested''" and "r_driver_id row = None" and "r_passenger_id row = i"
    and "r_bid_session_id row = None" and "r_created_at row \<noteq> None"
    and "w' = v\<lparr>w_rides := w_rides w @ [row]\<rparr>"
  using assms unfolding ride_requested_def bids_evolve_def by (elim exE conjE) (rule that, auto simp: bids_evolve_def)

text \<open>A cash report changes one settlement and, when money is kept, the wallet.\<close>

lemma cash_effectE:
  assumes "cash_effect e q r s s' cs w w'"
  obtains accs ledgers a where "r \<in> set (w_rides w)" and "r_driver_id r = Some (cs_driver_id q)"
    and "r_status r = ''completed''" and "s \<in> set (w_settlements w)" and "st_ride_id s = r_id r"
    and "st_gross_fare s = r_fare_amount r" and "st_cash_outcome s = ''unpaid''"
    and "st_id s' = st_id s" and "st_ride_id s' = st_ride_id s" and "st_gross_fare s' = st_gross_fare s"
    and "st_cash_outcome s' = cash_outcome cs"
    and "st_driver_payout_amount s' = ss_driver_payout_amount (cash_snapshot cs)"
    and "st_commission_bps s' \<noteq> None"
    and "\<exists>bps. new_cash_settlement (r_fare_amount r) (cs_received_amount q) (cs_change_amount q)
           (cs_outcome q) bps = Inr cs"
    and "w' = w\<lparr>w_settlements := put_row st_id s' (w_settlements w),
          w_ledgers := w_ledgers w @ ledgers, w_accounts := accs, w_audits := w_audits w @ [a]\<rparr>"
    and "distinct (map wa_id accs)" and "distinct (map wa_driver_id accs)"
    and "if ss_driver_payout_amount (cash_snapshot cs) > 0
         then (\<exists>l. ledgers = [l] \<and> wl_driver_id l = cs_driver_id q \<and> wl_ride_id l = r_id r \<and>
                 wl_amount l = ss_driver_payout_amount (cash_snapshot cs) \<and>
                 wl_idempotency_key l = cash_ledger_key (r_id r) \<and>
                 \<not> exists_where (\<lambda>k. wl_idempotency_key k = cash_ledger_key (r_id r)) (w_ledgers w))
         else ledgers = []"
    and "\<And>d. total_balance d accs = total_balance d (w_accounts w) + total_ledger d ledgers"
proof -
  from assms show ?thesis
    unfolding cash_effect_def
    by (elim exE conjE) (rule that, assumption+, blast, assumption, assumption, assumption,
      auto split: if_splits)
qed

lemma cash_settledE:
  assumes "cash_settled e w w'"
  obtains (again) s s' where "s \<in> set (w_settlements w)" and "st_commission_bps s = None"
      and "st_id s' = st_id s" and "st_ride_id s' = st_ride_id s"
      and "w' = w\<lparr>w_settlements := put_row st_id s' (w_settlements w)\<rparr>"
    | (same) "w' = w"
    | (effect) q r s s' cs where "cash_effect e q r s s' cs w w'"
  using assms unfolding cash_settled_def cash_repeat_def by blast

lemma cash_settled_tables:
  assumes "cash_settled e w w'"
  shows "w_rides w' = w_rides w" and "w_events w' = w_events w"
    and "w_sessions w' = w_sessions w" and "w_offers w' = w_offers w"
  using assms by (cases rule: cash_settledE; auto elim!: cash_effectE)+

section \<open>The keys of the schema\<close>

lemma of_id_offer_after [simp]: "of_id (offer_after i j d full x) = of_id x"
  and of_created_at_offer_after [simp]: "of_created_at (offer_after i j d full x) = of_created_at x"
  by (simp_all add: offer_after_def)

lemma distinct_keys_append:
  "distinct (map k t) \<Longrightarrow> \<not> exists_where (\<lambda>q. k q = k r) t \<Longrightarrow> distinct (map k (t @ [r]))"
  by (auto simp: exists_where_def)

lemma schema_ok_settlements:
  assumes "schema_ok w" and "s \<in> set (w_settlements w)" and "st_id s' = st_id s" and "st_ride_id s' = st_ride_id s"
  shows "schema_ok (w\<lparr>w_settlements := put_row st_id s' (w_settlements w)\<rparr>)"
proof -
  have "map st_ride_id (put_row st_id s' (w_settlements w)) = map st_ride_id (w_settlements w)"
    using schema_okD(3) [OF assms(1)] assms(2-4) by (rule map_put_row_same)
  with assms(1) show ?thesis by (simp add: schema_ok_def)
qed

lemma schema_ok_users [simp]:
  "schema_ok (w\<lparr>w_users := us, w_driver_profiles := ps\<rparr>) = schema_ok w"
  by (simp add: schema_ok_def)

lemma schema_ok_step:
  assumes "schema_ok w" and "core_step w w'"
  shows "schema_ok w'"
  using assms(2)
proof cases
  case (accepted p i d)
  then show ?thesis
  proof (rule ride_acceptedE)
    fix r r' st
    assume "r \<in> set (w_rides w)" "r_created_at r' = r_created_at r"
      and f: "\<not> exists_where (\<lambda>q. st_id q = st_id st) (w_settlements w)"
        "\<not> exists_where (\<lambda>q. st_ride_id q = st_ride_id st) (w_settlements w)"
      and w': "w' = w\<lparr>w_rides := put_row r_id r' (w_rides w), w_settlements := w_settlements w @ [st]\<rparr>"
    then have "r_created_at r' \<noteq> None" using schema_okD(2) [OF assms(1)] by (auto simp: list_all_iff)
    with assms(1) distinct_keys_append [OF _ f(1)] distinct_keys_append [OF _ f(2)] show ?thesis
      unfolding w' by (simp add: schema_ok_def list_all_put_row)
  qed
next
  case (moved i a f t)
  then show ?thesis
  proof (rule ride_movedE)
    fix r r' ev audits
    assume "r \<in> set (w_rides w)" "r_created_at r' = r_created_at r"
      and w': "w' = w\<lparr>w_rides := put_row r_id r' (w_rides w), w_events := w_events w @ [ev],
            w_audits := w_audits w @ audits\<rparr>"
    then have "r_created_at r' \<noteq> None" using schema_okD(2) [OF assms(1)] by (auto simp: list_all_iff)
    with assms(1) show ?thesis unfolding w' by (simp add: schema_ok_def list_all_put_row)
  qed
next
  case (offer b i j k e)
  then show ?thesis
  proof (rule offer_acceptedE)
    fix s x r st full
    assume s: "s \<in> set (w_sessions w)" and c: "r_created_at r = Some (env_db_now e)"
      and f: "\<not> exists_where (\<lambda>q. st_id q = st_id st) (w_settlements w)"
        "\<not> exists_where (\<lambda>q. st_ride_id q = st_ride_id st) (w_settlements w)"
        "\<not> exists_where (\<lambda>q. r_id q = r_id r) (w_rides w)"
      and w': "w' = w\<lparr>w_sessions := put_row s_id
           (s\<lparr>s_status := ''accepted'', s_accepted_driver_id := Some (of_driver_id x)\<rparr>) (w_sessions w),
         w_offers := map (offer_after i j (of_driver_id x) full) (w_offers w),
         w_rides := w_rides w @ [r], w_settlements := w_settlements w @ [st]\<rparr>"
    have "s_created_at s \<noteq> None \<and> s_expires_at s \<noteq> None"
      using schema_okD(9) [OF assms(1)] s by (simp add: list_all_iff)
    then have "list_all (\<lambda>s. s_created_at s \<noteq> None \<and> s_expires_at s \<noteq> None) (w_sessions w')"
      using schema_okD(9) [OF assms(1)] unfolding w' by (simp add: list_all_put_row)
    moreover have "list_all (\<lambda>b. of_created_at b \<noteq> None) (w_offers w')"
      using schema_okD(11) [OF assms(1)] unfolding w' by (simp add: list_all_iff)
    moreover have "map of_id (w_offers w') = map of_id (w_offers w)" unfolding w' by simp
    then have "distinct (map of_id (w_offers w'))" using schema_okD(10) [OF assms(1)] by simp
    moreover have "list_all (\<lambda>r. r_created_at r \<noteq> None) (w_rides w')"
      using schema_okD(2) [OF assms(1)] c unfolding w' by simp
    moreover have "distinct (map r_id (w_rides w'))" "distinct (map st_id (w_settlements w'))"
      "distinct (map st_ride_id (w_settlements w'))"
      using schema_okD(1,3,4) [OF assms(1)] f by (auto simp: w' exists_where_def)
    ultimately show ?thesis
      using schema_okD [OF assms(1)] unfolding schema_ok_def w' by simp
  qed
next
  case (requested i)
  then show ?thesis
  proof (rule ride_requestedE)
    fix v row
    assume v: "bids_evolve w v" and f: "\<not> exists_where (\<lambda>q. r_id q = r_id row) (w_rides w)"
      and "r_created_at row \<noteq> None" and w': "w' = v\<lparr>w_rides := w_rides w @ [row]\<rparr>"
    moreover have "schema_ok v" using v assms(1) by (simp add: bids_evolve_def)
    moreover have "distinct (map r_id (w_rides w @ [row]))"
      using schema_okD(1) [OF assms(1)] f by (rule distinct_keys_append)
    ultimately show ?thesis using schema_okD(2) [OF assms(1)] unfolding schema_ok_def by simp
  qed
next
  case (settled e)
  then show ?thesis
  proof (cases rule: cash_settledE)
    case (again s s')
    then show ?thesis using schema_ok_settlements [OF assms(1)] by simp
  next
    case same
    with assms(1) show ?thesis by simp
  next
    case (effect q r s s' cs)
    then show ?thesis
    proof (rule cash_effectE)
      fix accs ledgers a
      assume s: "s \<in> set (w_settlements w)" "st_id s' = st_id s" "st_ride_id s' = st_ride_id s"
        and w': "w' = w\<lparr>w_settlements := put_row st_id s' (w_settlements w),
          w_ledgers := w_ledgers w @ ledgers, w_accounts := accs, w_audits := w_audits w @ [a]\<rparr>"
        and a: "distinct (map wa_id accs)" "distinct (map wa_driver_id accs)"
        and l: "if ss_driver_payout_amount (cash_snapshot cs) > 0
         then (\<exists>l. ledgers = [l] \<and> wl_driver_id l = cs_driver_id q \<and> wl_ride_id l = r_id r \<and>
                 wl_amount l = ss_driver_payout_amount (cash_snapshot cs) \<and>
                 wl_idempotency_key l = cash_ledger_key (r_id r) \<and>
                 \<not> exists_where (\<lambda>k. wl_idempotency_key k = cash_ledger_key (r_id r)) (w_ledgers w))
         else ledgers = []"
      have "distinct (map wl_idempotency_key (w_ledgers w @ ledgers))"
        using l schema_okD(7) [OF assms(1)] by (auto simp: exists_where_def split: if_splits)
      then show ?thesis
        using schema_ok_settlements [OF assms(1) s] a unfolding w' by (simp add: schema_ok_def)
    qed
  qed
next
  case users
  with assms(1) show ?thesis by (simp add: schema_ok_def other_modulesD [OF users])
qed

text \<open>So an invariant of core steps need not speak of the schema.\<close>

lemma reachable_induct:
  assumes "reachable p b w"
    and "\<And>w. initial_world w \<Longrightarrow> I w"
    and "\<And>w w'. I w \<Longrightarrow> schema_ok w \<Longrightarrow> core_step w w' \<Longrightarrow> I w'"
    and "\<And>w w'. I w \<Longrightarrow> bids_evolve w w' \<Longrightarrow> I w'"
  shows "I w" and "schema_ok w"
proof -
  have "I w \<and> schema_ok w"
    using assms(1,2) by (rule reachable_induct_core) (use schema_ok_step assms(3,4) in blast)+
  then show "I w" and "schema_ok w" by simp_all
qed

section \<open>The trail of events\<close>

text \<open>
  The events of a ride lead from one status to the ride's status, each by a legal transition
  from where the one before it ended.
\<close>

definition ride_trail :: "int \<Rightarrow> world \<Rightarrow> ride_event_row list" where
  "ride_trail i w = filter (\<lambda>ev. re_ride_id ev = i) (w_events w)"

fun trail_path :: "string \<Rightarrow> ride_event_row list \<Rightarrow> string \<Rightarrow> bool" where
  "trail_path s [] t = (s = t)"
| "trail_path s (ev # evs) t =
     (re_from_status ev = s \<and> can_transition s (re_to_status ev) \<and> trail_path (re_to_status ev) evs t)"

definition trail_ok :: "world \<Rightarrow> ride_row \<Rightarrow> bool" where
  "trail_ok w r \<longleftrightarrow> (\<exists>s. trail_path s (ride_trail (r_id r) w) (r_status r)) \<and>
     (r_status r = ''requested'' \<longrightarrow> ride_trail (r_id r) w = [])"

definition trails_inv :: "world \<Rightarrow> bool" where
  "trails_inv w \<longleftrightarrow> list_all (trail_ok w) (w_rides w) \<and>
     list_all (\<lambda>ev. exists_where (\<lambda>r. r_id r = re_ride_id ev) (w_rides w)) (w_events w)"

lemma trail_path_snoc:
  "trail_path s evs t \<Longrightarrow> re_from_status ev = t \<Longrightarrow> can_transition t (re_to_status ev) \<Longrightarrow>
     trail_path s (evs @ [ev]) (re_to_status ev)"
  by (induction evs arbitrary: s) auto

lemma trail_path_history:
  "trail_path s evs t \<Longrightarrow> legal_history (s # map re_to_status evs) \<and> last (s # map re_to_status evs) = t"
  by (induction evs arbitrary: s) auto

lemma never_back_to_requested: "\<not> can_transition s ''requested''"
proof
  assume "can_transition s ''requested''"
  then obtain a where "status_successor a RideRequested" by (auto elim: can_transitionE)
  then show False by (cases a) auto
qed

lemma exists_where_put_row:
  "exists_where (\<lambda>r. k r = i) (put_row k r' t) = exists_where (\<lambda>r. k r = i) t"
proof -
  have "i \<in> set (map k (put_row k r' t)) \<longleftrightarrow> i \<in> set (map k t)" by simp
  then show ?thesis unfolding exists_where_def set_map by (auto simp: image_iff)
qed

lemma trails_inv_same:
  "trails_inv w \<Longrightarrow> w_rides w' = w_rides w \<Longrightarrow> w_events w' = w_events w \<Longrightarrow> trails_inv w'"
  by (simp add: trails_inv_def trail_ok_def [abs_def] ride_trail_def)

text \<open>A new ride has no events, since events are of rides there are.\<close>

lemma trails_inv_new:
  assumes "trails_inv w" and "\<not> exists_where (\<lambda>q. r_id q = r_id r) (w_rides w)"
    and "w_rides w' = w_rides w @ [r]" and "w_events w' = w_events w"
  shows "trails_inv w'"
proof -
  have same: "ride_trail i w' = ride_trail i w" for i by (simp add: ride_trail_def assms(4))
  have "ride_trail (r_id r) w = []"
    using assms(1,2) unfolding ride_trail_def trails_inv_def list_all_iff filter_empty_conv by force
  then have "trail_ok w' r" by (auto simp: trail_ok_def same)
  then show ?thesis
    using assms(1) unfolding trails_inv_def assms(3,4)
    by (auto simp: trail_ok_def [abs_def] same list_all_iff exists_where_def)
qed

lemma trails_inv_step:
  assumes "trails_inv w" and "schema_ok w" and "core_step w w'"
  shows "trails_inv w'"
  using assms(3)
proof cases
  case (accepted p i d)
  then show ?thesis
  proof (rule ride_acceptedE)
    fix r r' st
    assume r: "r \<in> set (w_rides w)" "r_id r' = r_id r" "r_status r = ''requested''"
      and w': "w' = w\<lparr>w_rides := put_row r_id r' (w_rides w), w_settlements := w_settlements w @ [st]\<rparr>"
    have same: "ride_trail j w' = ride_trail j w" for j by (simp add: ride_trail_def w')
    have "ride_trail (r_id r) w = []"
      using assms(1) r unfolding trails_inv_def trail_ok_def list_all_iff by blast
    then have "trail_ok w' r'" by (auto simp: trail_ok_def same r(2))
    moreover have "list_all (trail_ok w') (w_rides w)"
      using assms(1) by (simp add: trails_inv_def trail_ok_def [abs_def] same)
    ultimately show ?thesis
      using assms(1) unfolding trails_inv_def w' by (simp add: list_all_put_row exists_where_put_row)
  qed
next
  case (moved i a f t)
  then show ?thesis
  proof (rule ride_movedE)
    fix r r' ev audits
    assume r: "r \<in> set (w_rides w)" "r_id r' = r_id r" "can_transition (r_status r) (r_status r')"
      and ev: "re_ride_id ev = r_id r" "re_from_status ev = r_status r" "re_to_status ev = r_status r'"
      and w': "w' = w\<lparr>w_rides := put_row r_id r' (w_rides w), w_events := w_events w @ [ev],
            w_audits := w_audits w @ audits\<rparr>"
    have own: "ride_trail (r_id r) w' = ride_trail (r_id r) w @ [ev]"
      by (simp add: ride_trail_def w' ev)
    have other: "ride_trail j w' = ride_trail j w" if "j \<noteq> r_id r" for j
      using that by (simp add: ride_trail_def w' ev)
    obtain s where "trail_path s (ride_trail (r_id r) w) (r_status r)"
      using assms(1) r unfolding trails_inv_def trail_ok_def list_all_iff by blast
    then have "trail_path s (ride_trail (r_id r) w') (r_status r')"
      using trail_path_snoc [of s "ride_trail (r_id r) w" "r_status r" ev] r ev by (simp add: own)
    then have ok: "trail_ok w' r'"
      using r never_back_to_requested unfolding trail_ok_def by metis
    have "trail_ok w' q" if q: "q \<in> set (put_row r_id r' (w_rides w))" for q
      using in_put_row [OF q]
    proof
      assume "q = r'"
      with ok show ?thesis by simp
    next
      assume "q \<in> set (w_rides w) \<and> r_id q \<noteq> r_id r'"
      then show ?thesis
        using assms(1) other r(2) unfolding trails_inv_def trail_ok_def list_all_iff by simp
    qed
    moreover have "exists_where (\<lambda>q. r_id q = r_id r) (w_rides w)" using r by (auto simp: exists_where_def)
    ultimately show ?thesis
      using assms(1) ev unfolding trails_inv_def w' by (simp add: list_all_iff exists_where_put_row)
  qed
next
  case (offer b i j k e)
  then show ?thesis by (rule offer_acceptedE) (rule trails_inv_new [OF assms(1)], auto)
next
  case (requested i)
  then show ?thesis
    by (rule ride_requestedE) (rule trails_inv_new [OF assms(1)], auto simp: bids_evolve_def)
next
  case (settled e)
  then show ?thesis
    by (intro trails_inv_same [OF assms(1)]) (simp_all add: cash_settled_tables)
next
  case users
  then show ?thesis by (intro trails_inv_same [OF assms(1)]) (simp_all add: other_modulesD [OF users])
qed

section \<open>Money\<close>

definition ride_driver :: "int \<Rightarrow> ride_row list \<Rightarrow> int option" where
  "ride_driver i rides = (case List.find (\<lambda>r. r_id r = i) rides of None \<Rightarrow> None | Some r \<Rightarrow> r_driver_id r)"

text \<open>What a settlement has brought its driver: the payout of what was collected in cash.\<close>

definition cash_collected :: "settlement_row \<Rightarrow> bool" where
  "cash_collected st \<longleftrightarrow> st_cash_outcome st = ''paid'' \<or> st_cash_outcome st = ''partial''"

definition earned :: "ride_row list \<Rightarrow> int \<Rightarrow> settlement_row \<Rightarrow> int" where
  "earned rides d st =
     (if cash_collected st \<and> ride_driver (st_ride_id st) rides = Some d then st_driver_payout_amount st else 0)"

definition total_earned :: "int \<Rightarrow> world \<Rightarrow> int" where
  "total_earned d w = sum_list (map (earned (w_rides w) d) (w_settlements w))"

definition settlement_linked :: "ride_row list \<Rightarrow> settlement_row \<Rightarrow> bool" where
  "settlement_linked rides st \<longleftrightarrow> st_commission_bps st \<noteq> None \<and>
     (\<exists>r\<in>set rides. r_id r = st_ride_id st \<and> r_fare_amount r = st_gross_fare st \<and>
        r_status r \<noteq> ''requested'' \<and> (st_cash_outcome st \<noteq> ''unpaid'' \<longrightarrow> r_status r = ''completed''))"

definition ledger_linked :: "settlement_row list \<Rightarrow> ride_row list \<Rightarrow> wallet_ledger_row \<Rightarrow> bool" where
  "ledger_linked settlements rides l \<longleftrightarrow>
     0 < wl_amount l \<and> wl_idempotency_key l = cash_ledger_key (wl_ride_id l) \<and>
     ride_driver (wl_ride_id l) rides = Some (wl_driver_id l) \<and>
     exists_where (\<lambda>st. st_ride_id st = wl_ride_id l \<and> cash_collected st \<and>
        st_driver_payout_amount st = wl_amount l) settlements"

definition money_inv :: "world \<Rightarrow> bool" where
  "money_inv w \<longleftrightarrow> list_all (settlement_linked (w_rides w)) (w_settlements w) \<and>
     list_all (ledger_linked (w_settlements w) (w_rides w)) (w_ledgers w) \<and>
     (\<forall>d. total_balance d (w_accounts w) = total_ledger d (w_ledgers w)) \<and>
     (\<forall>d. total_ledger d (w_ledgers w) = total_earned d w)"

lemma find_put_row_other:
  "i \<noteq> k r' \<Longrightarrow> List.find (\<lambda>r. k r = i) (put_row k r' t) = List.find (\<lambda>r. k r = i) t"
  by (induction t) (auto simp: put_row_def)

lemma ride_driver_put_row:
  assumes "distinct (map r_id t)" and "r \<in> set t" and "r_id r' = r_id r"
  shows "ride_driver i (put_row r_id r' t) = (if i = r_id r then r_driver_id r' else ride_driver i t)"
  using find_put_row [OF assms] find_put_row_other [of i r_id r' t] assms(3)
  by (simp add: ride_driver_def)

lemma ride_driver_in:
  "distinct (map r_id t) \<Longrightarrow> r \<in> set t \<Longrightarrow> ride_driver (r_id r) t = r_driver_id r"
  unfolding ride_driver_def by (simp add: find_key_unique [of r_id t r "r_id r"])

lemma find_append: "List.find p (xs @ ys) = (case List.find p xs of None \<Rightarrow> List.find p ys | Some x \<Rightarrow> Some x)"
  by (induction xs) auto

lemma ride_driver_append:
  "exists_where (\<lambda>r. r_id r = i) t \<Longrightarrow> ride_driver i (t @ u) = ride_driver i t"
  by (auto simp: ride_driver_def find_append exists_where_def find_None_iff split: option.splits)

text \<open>The money of other tables does not change when no settled ride changes its driver.\<close>

lemma money_inv_rides:
  assumes "money_inv w"
    and "\<And>st. st \<in> set (w_settlements w) \<Longrightarrow> settlement_linked (w_rides w') st"
    and "\<And>st. st \<in> set (w_settlements w) \<Longrightarrow>
           ride_driver (st_ride_id st) (w_rides w') = ride_driver (st_ride_id st) (w_rides w)"
    and "list_all (\<lambda>st. settlement_linked (w_rides w') st \<and> st_cash_outcome st = ''unpaid'') new"
    and "w_settlements w' = w_settlements w @ new" and "w_ledgers w' = w_ledgers w"
    and "w_accounts w' = w_accounts w"
  shows "money_inv w'"
proof -
  have "map (earned (w_rides w') d) (w_settlements w) = map (earned (w_rides w) d) (w_settlements w)" for d
    using assms(3) by (simp add: earned_def)
  moreover have "sum_list (map (earned (w_rides w') d) new) = 0" for d
    using assms(4) by (induction new) (auto simp: earned_def cash_collected_def)
  ultimately have "total_earned d w' = total_earned d w" for d
    unfolding total_earned_def assms(5) map_append sum_list_append by (simp cong: map_cong)
  moreover have "ledger_linked (w_settlements w') (w_rides w') l"
    if "l \<in> set (w_ledgers w)" for l
  proof -
    have "ledger_linked (w_settlements w) (w_rides w) l"
      using assms(1) that by (simp add: money_inv_def list_all_iff)
    then obtain st where "st \<in> set (w_settlements w)" "st_ride_id st = wl_ride_id l" "cash_collected st"
        "st_driver_payout_amount st = wl_amount l"
      and l: "0 < wl_amount l" "wl_idempotency_key l = cash_ledger_key (wl_ride_id l)"
        "ride_driver (wl_ride_id l) (w_rides w) = Some (wl_driver_id l)"
      by (auto simp: ledger_linked_def exists_where_def)
    with assms(3) [of st] show ?thesis
      unfolding ledger_linked_def exists_where_def assms(5) by auto
  qed
  ultimately show ?thesis
    using assms(1,2,4) unfolding money_inv_def assms(5-7) by (auto simp: list_all_iff)
qed

text \<open>What a cash report of each outcome splits off.\<close>

lemma guarded_Inr:
  "(if a then Inl x else if \<not> v then Inl x else case z of Inl y \<Rightarrow> Inl y | Inr s \<Rightarrow> Inr (f s)) = Inr t
     \<longleftrightarrow> \<not> a \<and> v \<and> (\<exists>s. z = Inr s \<and> t = f s)"
  by (auto split: sum.splits)

lemma cash_snapshot_amounts:
  assumes "new_cash_settlement fare received change outcome bps = Inr cs"
  shows "cash_outcome cs = outcome" and "0 \<le> ss_driver_payout_amount (cash_snapshot cs)"
    and "outcome \<noteq> ''paid'' \<Longrightarrow> outcome \<noteq> ''partial'' \<Longrightarrow> ss_driver_payout_amount (cash_snapshot cs) = 0"
proof -
  let ?c = "wrap64 (received - change)"
  from assms obtain x where
    v: "if outcome = ''paid'' then ?c = fare
        else if outcome = ''partial'' then \<not> (?c \<le> 0 \<or> ?c \<ge> fare \<or> change \<noteq> 0)
        else if outcome = ''refused'' \<or> outcome = ''unpaid'' then ?c = 0 else False"
    and s: "(if ?c > 0 then new_settlement_snapshot ?c bps else Inr empty_snapshot) = Inr (cash_snapshot cs)"
    and oc: "cash_outcome cs = outcome"
    unfolding new_cash_settlement_def Let_def guarded_Inr by auto
  show "cash_outcome cs = outcome" by (rule oc)
  show "outcome \<noteq> ''paid'' \<Longrightarrow> outcome \<noteq> ''partial'' \<Longrightarrow> ss_driver_payout_amount (cash_snapshot cs) = 0"
    using v s by (auto simp: empty_snapshot_def dest: sym split: if_splits)
  show "0 \<le> ss_driver_payout_amount (cash_snapshot cs)"
  proof (cases "?c > 0")
    case True
    with s show ?thesis using settlement_snapshot_amounts(2) int64_range_wrap64 by simp
  next
    case False
    with s have "cash_snapshot cs = empty_snapshot" by simp
    then show ?thesis by (simp add: empty_snapshot_def)
  qed
qed

lemma settlement_linked_put_row:
  assumes "settlement_linked t st" and "r_id r' = r_id r" and "r \<in> set t" and "distinct (map r_id t)"
    and "r_fare_amount r' = r_fare_amount r" and "r_status r' \<noteq> ''requested''"
    and "r_status r = ''completed'' \<Longrightarrow> r_status r' = ''completed''"
  shows "settlement_linked (put_row r_id r' t) st"
proof -
  from assms(1) obtain q where q: "q \<in> set t" "r_id q = st_ride_id st" "r_fare_amount q = st_gross_fare st"
    "r_status q \<noteq> ''requested''" "st_cash_outcome st \<noteq> ''unpaid'' \<longrightarrow> r_status q = ''completed''"
    "st_commission_bps st \<noteq> None"
    by (auto simp: settlement_linked_def)
  show ?thesis
  proof (cases "r_id q = r_id r")
    case True
    with distinct_key_inj [OF assms(4) q(1) assms(3)] have "q = r" by simp
    with q assms put_row_in [OF q(1), of r_id r'] show ?thesis
      unfolding settlement_linked_def by (auto intro!: bexI [of _ r'])
  next
    case False
    with q put_row_other [OF q(1), of r_id r'] assms(2) show ?thesis
      unfolding settlement_linked_def by (auto intro!: bexI [of _ q])
  qed
qed

lemma settlement_linked_append: "settlement_linked t st \<Longrightarrow> settlement_linked (t @ u) st"
  by (auto simp: settlement_linked_def)

lemma linked_exists: "settlement_linked t st \<Longrightarrow> exists_where (\<lambda>r. r_id r = st_ride_id st) t"
  by (auto simp: settlement_linked_def exists_where_def)

lemma money_invD:
  assumes "money_inv w"
  shows "st \<in> set (w_settlements w) \<Longrightarrow> settlement_linked (w_rides w) st"
    and "l \<in> set (w_ledgers w) \<Longrightarrow> ledger_linked (w_settlements w) (w_rides w) l"
    and "total_balance d (w_accounts w) = total_ledger d (w_ledgers w)"
    and "total_ledger d (w_ledgers w) = total_earned d w"
  using assms by (simp_all add: money_inv_def list_all_iff)

lemma money_inv_same:
  "money_inv w \<Longrightarrow> w_rides w' = w_rides w \<Longrightarrow> w_settlements w' = w_settlements w \<Longrightarrow>
     w_ledgers w' = w_ledgers w \<Longrightarrow> w_accounts w' = w_accounts w \<Longrightarrow> money_inv w'"
  by (simp add: money_inv_def total_earned_def)

lemma completed_stays: "\<not> can_transition ''completed'' t"
  by (rule terminal_no_successor) (simp add: is_terminal_def)

text \<open>The one step that moves money: what the account gains is what the settlement now earns.\<close>

lemma money_inv_cash:
  assumes "money_inv w" and "schema_ok w" and "cash_effect e q r s s' cs w w'"
  shows "money_inv w'"
  using assms(3)
proof (rule cash_effectE)
  fix accs ledgers a
  assume r: "r \<in> set (w_rides w)" "r_driver_id r = Some (cs_driver_id q)" "r_status r = ''completed''"
    and s: "s \<in> set (w_settlements w)" "st_ride_id s = r_id r" "st_gross_fare s = r_fare_amount r"
      "st_cash_outcome s = ''unpaid''" "st_id s' = st_id s" "st_ride_id s' = st_ride_id s"
      "st_gross_fare s' = st_gross_fare s" "st_cash_outcome s' = cash_outcome cs"
      "st_driver_payout_amount s' = ss_driver_payout_amount (cash_snapshot cs)" "st_commission_bps s' \<noteq> None"
    and cs: "\<exists>bps. new_cash_settlement (r_fare_amount r) (cs_received_amount q) (cs_change_amount q)
           (cs_outcome q) bps = Inr cs"
    and w': "w' = w\<lparr>w_settlements := put_row st_id s' (w_settlements w),
          w_ledgers := w_ledgers w @ ledgers, w_accounts := accs, w_audits := w_audits w @ [a]\<rparr>"
    and l: "if ss_driver_payout_amount (cash_snapshot cs) > 0
         then (\<exists>l. ledgers = [l] \<and> wl_driver_id l = cs_driver_id q \<and> wl_ride_id l = r_id r \<and>
                 wl_amount l = ss_driver_payout_amount (cash_snapshot cs) \<and>
                 wl_idempotency_key l = cash_ledger_key (r_id r) \<and>
                 \<not> exists_where (\<lambda>k. wl_idempotency_key k = cash_ledger_key (r_id r)) (w_ledgers w))
         else ledgers = []"
    and acc: "\<And>d. total_balance d accs = total_balance d (w_accounts w) + total_ledger d ledgers"
  let ?pay = "ss_driver_payout_amount (cash_snapshot cs)"
  have pay: "0 \<le> ?pay" "\<not> cash_collected s' \<Longrightarrow> ?pay = 0"
    using cs cash_snapshot_amounts s(8) unfolding cash_collected_def by metis+
  have drv: "ride_driver (r_id r) (w_rides w) = Some (cs_driver_id q)"
    using ride_driver_in [OF schema_okD(1) [OF assms(2)] r(1)] r(2) by simp
  have gain: "earned (w_rides w) d s' = total_ledger d ledgers" for d
    using l pay drv s by (auto simp: earned_def split: if_splits)
  have "earned (w_rides w) d s = 0" for d using s(4) by (simp add: earned_def cash_collected_def)
  then have earned: "total_earned d w' = total_earned d w + total_ledger d ledgers" for d
    using sum_list_put_row [OF schema_okD(3) [OF assms(2)] s(1,5), of "earned (w_rides w) d"] gain
    by (simp add: total_earned_def w')
  have s': "s' \<in> set (w_settlements w')" using put_row_in [OF s(1), of st_id s'] s(5) by (simp add: w')
  have keep: "ledger_linked (w_settlements w') (w_rides w) k" if k: "k \<in> set (w_ledgers w)" for k
  proof -
    obtain st where st: "st \<in> set (w_settlements w)" "st_ride_id st = wl_ride_id k" "cash_collected st"
        "st_driver_payout_amount st = wl_amount k"
      and l: "0 < wl_amount k" "wl_idempotency_key k = cash_ledger_key (wl_ride_id k)"
        "ride_driver (wl_ride_id k) (w_rides w) = Some (wl_driver_id k)"
      using money_invD(2) [OF assms(1) k] by (auto simp: ledger_linked_def exists_where_def)
    have "st \<noteq> s" using st(3) s(4) by (auto simp: cash_collected_def)
    then have "st_id st \<noteq> st_id s'"
      using distinct_key_inj [OF schema_okD(3) [OF assms(2)] st(1) s(1)] s(5) by auto
    from put_row_other [OF st(1) this] st l show ?thesis
      by (auto simp: ledger_linked_def exists_where_def w')
  qed
  moreover have "list_all (ledger_linked (w_settlements w') (w_rides w)) ledgers"
  proof (cases "?pay > 0")
    case True
    with pay(2) have "cash_collected s'" by fastforce
    with True l drv s s' show ?thesis
      by (auto simp: ledger_linked_def exists_where_def intro!: bexI [of _ s'])
  qed (use l in simp)
  moreover have "settlement_linked (w_rides w) s'"
    using r s unfolding settlement_linked_def by (auto intro!: bexI [of _ r])
  then have "list_all (settlement_linked (w_rides w)) (w_settlements w')"
    using assms(1) by (simp add: w' money_inv_def list_all_put_row)
  ultimately show ?thesis
    using money_invD(3,4) [OF assms(1)] acc earned
    unfolding money_inv_def by (auto simp: w' list_all_iff)
qed

lemma money_inv_step:
  assumes "money_inv w" and "schema_ok w" and "core_step w w'"
  shows "money_inv w'"
  using assms(3)
proof cases
  case (accepted p i d)
  then show ?thesis
  proof (rule ride_acceptedE)
    fix r r' st
    assume r: "r \<in> set (w_rides w)" "r_id r' = r_id r" "r_status r = ''requested''" "r_status r' = ''accepted''"
        "r_fare_amount r' = r_fare_amount r"
      and st: "st_ride_id st = r_id r" "st_gross_fare st = r_fare_amount r" "st_commission_bps st \<noteq> None"
        "st_cash_outcome st = ''unpaid''"
        "\<not> exists_where (\<lambda>q. st_ride_id q = st_ride_id st) (w_settlements w)"
      and w': "w' = w\<lparr>w_rides := put_row r_id r' (w_rides w), w_settlements := w_settlements w @ [st]\<rparr>"
    note d = schema_okD(1) [OF assms(2)]
    show ?thesis
    proof (rule money_inv_rides [OF assms(1), of _ "[st]"])
      fix q assume q: "q \<in> set (w_settlements w)"
      then show "settlement_linked (w_rides w') q"
        using settlement_linked_put_row [OF money_invD(1) [OF assms(1) q] r(2,1) d] r by (simp add: w')
      have "st_ride_id q \<noteq> r_id r" using st q by (auto simp: exists_where_def)
      then show "ride_driver (st_ride_id q) (w_rides w') = ride_driver (st_ride_id q) (w_rides w)"
        by (simp add: w' ride_driver_put_row [OF d r(1,2)])
    next
      have "r' \<in> set (w_rides w')" using put_row_in [OF r(1), of r_id r'] r by (simp add: w')
      then show "list_all (\<lambda>st. settlement_linked (w_rides w') st \<and> st_cash_outcome st = ''unpaid'') [st]"
        using r st by (auto simp: settlement_linked_def intro!: bexI [of _ r'])
    qed (simp_all add: w')
  qed
next
  case (moved i a f t)
  then show ?thesis
  proof (rule ride_movedE)
    fix r r' ev audits
    assume r: "r \<in> set (w_rides w)" "r_id r' = r_id r" "r_driver_id r' = r_driver_id r"
        "r_fare_amount r' = r_fare_amount r" "can_transition (r_status r) (r_status r')"
      and w': "w' = w\<lparr>w_rides := put_row r_id r' (w_rides w), w_events := w_events w @ [ev],
            w_audits := w_audits w @ audits\<rparr>"
    note d = schema_okD(1) [OF assms(2)]
    have st: "r_status r' \<noteq> ''requested''" "r_status r \<noteq> ''completed''"
      using r(5) never_back_to_requested completed_stays by metis+
    show ?thesis
    proof (rule money_inv_rides [OF assms(1), of _ "[]"])
      fix q assume q: "q \<in> set (w_settlements w)"
      then show "settlement_linked (w_rides w') q"
        using settlement_linked_put_row [OF money_invD(1) [OF assms(1) q] r(2,1) d] r st by (simp add: w')
      show "ride_driver (st_ride_id q) (w_rides w') = ride_driver (st_ride_id q) (w_rides w)"
        by (simp add: w' ride_driver_put_row [OF d r(1,2)] r(3) ride_driver_in [OF d r(1)])
    qed (simp_all add: w')
  qed
next
  case (offer b i j k e)
  then show ?thesis
  proof (rule offer_acceptedE)
    fix s x r st full
    assume r: "r_status r = ''accepted''" "r_fare_amount r = of_proposed_fare x"
      and st: "st_ride_id st = r_id r" "st_gross_fare st = of_proposed_fare x" "st_commission_bps st \<noteq> None"
        "st_cash_outcome st = ''unpaid''"
      and w': "w' = w\<lparr>w_sessions := put_row s_id
           (s\<lparr>s_status := ''accepted'', s_accepted_driver_id := Some (of_driver_id x)\<rparr>) (w_sessions w),
         w_offers := map (offer_after i j (of_driver_id x) full) (w_offers w),
         w_rides := w_rides w @ [r], w_settlements := w_settlements w @ [st]\<rparr>"
    show ?thesis
    proof (rule money_inv_rides [OF assms(1), of _ "[st]"])
      fix q assume q: "q \<in> set (w_settlements w)"
      then show "settlement_linked (w_rides w') q"
        using settlement_linked_append [OF money_invD(1) [OF assms(1) q]] by (simp add: w')
      show "ride_driver (st_ride_id q) (w_rides w') = ride_driver (st_ride_id q) (w_rides w)"
        using ride_driver_append [OF linked_exists [OF money_invD(1) [OF assms(1) q]]] by (simp add: w')
    next
      show "list_all (\<lambda>st. settlement_linked (w_rides w') st \<and> st_cash_outcome st = ''unpaid'') [st]"
        using r st by (auto simp: settlement_linked_def w')
    qed (simp_all add: w')
  qed
next
  case (requested i)
  then show ?thesis
  proof (rule ride_requestedE)
    fix v row
    assume v: "bids_evolve w v" and w': "w' = v\<lparr>w_rides := w_rides w @ [row]\<rparr>"
    show ?thesis
    proof (rule money_inv_rides [OF assms(1), of _ "[]"])
      fix q assume q: "q \<in> set (w_settlements w)"
      then show "settlement_linked (w_rides w') q"
        using settlement_linked_append [OF money_invD(1) [OF assms(1) q]] by (simp add: w')
      show "ride_driver (st_ride_id q) (w_rides w') = ride_driver (st_ride_id q) (w_rides w)"
        using ride_driver_append [OF linked_exists [OF money_invD(1) [OF assms(1) q]]] by (simp add: w')
    qed (use v in \<open>simp_all add: w' bids_evolve_def\<close>)
  qed
next
  case (settled e)
  then show ?thesis
  proof (cases rule: cash_settledE)
    case (again s s')
    with money_invD(1) [OF assms(1) again(1)] show ?thesis by (simp add: settlement_linked_def)
  next
    case same
    with assms(1) show ?thesis by simp
  next
    case (effect q r s s' cs)
    with assms(1,2) show ?thesis by (rule money_inv_cash)
  qed
next
  case users
  then show ?thesis by (intro money_inv_same [OF assms(1)]) (simp_all add: other_modulesD [OF users])
qed

section \<open>Bids and their rides\<close>

text \<open>
  The accepted sessions, the accepted offers and the rides that came from a session belong
  together: same session, driver, passenger and fare, one of each.
\<close>

definition accepted_sessions :: "world \<Rightarrow> bid_session_row list" where
  "accepted_sessions w = filter (\<lambda>s. s_status s = ''accepted'') (w_sessions w)"

definition accepted_offers :: "world \<Rightarrow> bid_offer_row list" where
  "accepted_offers w = filter (\<lambda>b. of_status b = ''accepted'') (w_offers w)"

definition session_ride :: "bid_session_row \<Rightarrow> ride_row \<Rightarrow> bool" where
  "session_ride s r \<longleftrightarrow> r_bid_session_id r = Some (s_id s) \<and> r_passenger_id r = s_passenger_id s \<and>
     r_driver_id r = s_accepted_driver_id s \<and> r_driver_id r \<noteq> None \<and> r_status r \<noteq> ''requested''"

definition session_offer :: "bid_session_row \<Rightarrow> ride_row \<Rightarrow> bid_offer_row \<Rightarrow> bool" where
  "session_offer s r b \<longleftrightarrow> of_session_id b = s_id s \<and> r_driver_id r = Some (of_driver_id b) \<and>
     r_fare_amount r = of_proposed_fare b"

definition session_matched :: "world \<Rightarrow> bid_session_row \<Rightarrow> bool" where
  "session_matched w s \<longleftrightarrow>
     exists_where (\<lambda>r. session_ride s r \<and> exists_where (session_offer s r) (accepted_offers w)) (w_rides w)"

definition bids_inv :: "world \<Rightarrow> bool" where
  "bids_inv w \<longleftrightarrow> list_all (session_matched w) (accepted_sessions w) \<and>
     list_all (\<lambda>r. null_or (\<lambda>i. exists_where (\<lambda>s. s_id s = i) (accepted_sessions w)) (r_bid_session_id r)) (w_rides w) \<and>
     list_all (\<lambda>b. exists_where (\<lambda>s. s_id s = of_session_id b) (accepted_sessions w)) (accepted_offers w) \<and>
     inj_on of_session_id (set (accepted_offers w))"

lemma bids_inv_same:
  assumes "bids_inv w" and "accepted_sessions w' = accepted_sessions w"
    and "accepted_offers w' = accepted_offers w"
    and "\<And>r. r \<in> set (w_rides w) \<Longrightarrow> r_bid_session_id r \<noteq> None \<Longrightarrow>
      \<exists>r'\<in>set (w_rides w'). r_bid_session_id r' = r_bid_session_id r \<and> r_passenger_id r' = r_passenger_id r \<and>
        r_driver_id r' = r_driver_id r \<and> r_fare_amount r' = r_fare_amount r \<and>
        (r_status r \<noteq> ''requested'' \<longrightarrow> r_status r' \<noteq> ''requested'')"
    and "\<And>r'. r' \<in> set (w_rides w') \<Longrightarrow> r_bid_session_id r' \<noteq> None \<Longrightarrow>
      \<exists>r\<in>set (w_rides w). r_bid_session_id r' = r_bid_session_id r"
  shows "bids_inv w'"
proof -
  have "session_matched w' s" if "s \<in> set (accepted_sessions w)" for s
  proof -
    from assms(1) that obtain r b where r: "r \<in> set (w_rides w)" "session_ride s r"
      and b: "b \<in> set (accepted_offers w)" "session_offer s r b"
      by (auto simp: bids_inv_def list_all_iff session_matched_def exists_where_def)
    from r(2) have "r_bid_session_id r \<noteq> None" by (simp add: session_ride_def)
    from assms(4) [OF r(1) this] obtain r' where r': "r' \<in> set (w_rides w')"
      "r_bid_session_id r' = r_bid_session_id r" "r_passenger_id r' = r_passenger_id r"
      "r_driver_id r' = r_driver_id r" "r_fare_amount r' = r_fare_amount r"
      "r_status r \<noteq> ''requested'' \<longrightarrow> r_status r' \<noteq> ''requested''" by blast
    with r(2) b(2) have "session_ride s r'" "session_offer s r' b"
      by (simp_all add: session_ride_def session_offer_def)
    with r'(1) b(1) show ?thesis unfolding session_matched_def exists_where_def assms(3) by blast
  qed
  moreover have "null_or (\<lambda>i. exists_where (\<lambda>s. s_id s = i) (accepted_sessions w)) (r_bid_session_id r')"
    if "r' \<in> set (w_rides w')" for r'
  proof (cases "r_bid_session_id r'")
    case (Some i)
    with assms(5) [OF that] obtain r where "r \<in> set (w_rides w)" "r_bid_session_id r = Some i" by auto
    with assms(1) Some show ?thesis by (force simp: bids_inv_def list_all_iff)
  qed simp
  ultimately show ?thesis
    using assms(1) unfolding bids_inv_def assms(2,3) by (simp add: list_all_iff)
qed

lemma bids_inv_evolve: "bids_inv w \<Longrightarrow> bids_evolve w w' \<Longrightarrow> bids_inv w'"
  by (rule bids_inv_same) (auto simp: bids_evolve_def accepted_sessions_def accepted_offers_def)

lemma accepted_after:
  assumes "schema_ok w" and "s \<in> set (w_sessions w)" and "s_status s = ''open''"
    and "x \<in> set (w_offers w)" and "of_status x = ''pending''"
    and "w_sessions w' = put_row s_id (s\<lparr>s_status := ''accepted'', s_accepted_driver_id := d\<rparr>) (w_sessions w)"
    and "w_offers w' = map (offer_after i (of_id x) c full) (w_offers w)"
  shows "set (accepted_sessions w') =
      insert (s\<lparr>s_status := ''accepted'', s_accepted_driver_id := d\<rparr>) (set (accepted_sessions w))"
    and "set (accepted_offers w') = insert (x\<lparr>of_status := ''accepted''\<rparr>) (set (accepted_offers w))"
proof -
  let ?s = "s\<lparr>s_status := ''accepted'', s_accepted_driver_id := d\<rparr>"
  have "s_id q \<noteq> s_id s" if "q \<in> set (accepted_sessions w)" for q
    using that distinct_key_inj [OF schema_okD(8) [OF assms(1)] _ assms(2), of q] assms(3)
    by (auto simp: accepted_sessions_def)
  then have "set (accepted_sessions w) \<subseteq> set (put_row s_id ?s (w_sessions w))"
    using put_row_other [of _ "w_sessions w" s_id ?s] by (auto simp: accepted_sessions_def)
  moreover have "?s \<in> set (put_row s_id ?s (w_sessions w))" by (rule put_row_in [OF assms(2)]) simp
  moreover have "set (put_row s_id ?s (w_sessions w)) \<subseteq> insert ?s (set (w_sessions w))"
    by (auto dest!: in_put_row)
  ultimately show "set (accepted_sessions w') = insert ?s (set (accepted_sessions w))"
    unfolding accepted_sessions_def assms(6) by auto
  show "set (accepted_offers w') = insert (x\<lparr>of_status := ''accepted''\<rparr>) (set (accepted_offers w))"
  proof (intro equalityI subsetI)
    fix b assume "b \<in> set (accepted_offers w')"
    then obtain a where a: "a \<in> set (w_offers w)" "b = offer_after i (of_id x) c full a"
      and b: "of_status b = ''accepted''"
      by (auto simp: accepted_offers_def assms(7))
    show "b \<in> insert (x\<lparr>of_status := ''accepted''\<rparr>) (set (accepted_offers w))"
    proof (cases "of_status a = ''pending''")
      case True
      with a b have "of_id a = of_id x" by (auto simp: offer_after_def split: if_splits)
      with distinct_key_inj [OF schema_okD(10) [OF assms(1)] a(1) assms(4)] have "a = x" by simp
      with a True show ?thesis by (simp add: offer_after_def)
    next
      case False
      with a b show ?thesis by (simp add: offer_after_def accepted_offers_def)
    qed
  next
    fix b assume b: "b \<in> insert (x\<lparr>of_status := ''accepted''\<rparr>) (set (accepted_offers w))"
    then obtain a where "a \<in> set (w_offers w)" "b = offer_after i (of_id x) c full a" "of_status b = ''accepted''"
    proof (cases "b = x\<lparr>of_status := ''accepted''\<rparr>")
      case True
      with assms(4,5) that [of x] show ?thesis by (simp add: offer_after_def)
    next
      case False
      with b that [of b] show ?thesis by (simp add: offer_after_def accepted_offers_def)
    qed
    then show "b \<in> set (accepted_offers w')" by (auto simp: accepted_offers_def assms(7))
  qed
qed

lemma bids_inv_offer:
  assumes "bids_inv w" and "schema_ok w" and "offer_accepted b i j k e w w'"
  shows "bids_inv w'"
  using assms(3)
proof (rule offer_acceptedE)
  fix s x r st full
  assume s: "s \<in> set (w_sessions w)" "s_id s = i" "s_passenger_id s = k" "s_status s = ''open''"
    and x: "x \<in> set (w_offers w)" "of_id x = j" "of_session_id x = i" "of_status x = ''pending''"
    and r: "r_passenger_id r = k" "r_driver_id r = Some (of_driver_id x)" "r_status r = ''accepted''"
      "r_fare_amount r = of_proposed_fare x" "r_bid_session_id r = Some i"
    and w': "w' = w\<lparr>w_sessions := put_row s_id
           (s\<lparr>s_status := ''accepted'', s_accepted_driver_id := Some (of_driver_id x)\<rparr>) (w_sessions w),
         w_offers := map (offer_after i j (of_driver_id x) full) (w_offers w),
         w_rides := w_rides w @ [r], w_settlements := w_settlements w @ [st]\<rparr>"
  let ?s = "s\<lparr>s_status := ''accepted'', s_accepted_driver_id := Some (of_driver_id x)\<rparr>"
    and ?x = "x\<lparr>of_status := ''accepted''\<rparr>"
  have sess: "set (accepted_sessions w') = insert ?s (set (accepted_sessions w))"
    by (rule accepted_after(1) [OF assms(2) s(1,4) x(1,4), where i = i and c = "of_driver_id x" and full = full])
      (simp_all add: w' x(2))
  have offs: "set (accepted_offers w') = insert ?x (set (accepted_offers w))"
    by (rule accepted_after(2) [OF assms(2) s(1,4) x(1,4), where i = i and c = "of_driver_id x" and full = full])
      (simp_all add: w' x(2))
  have free: "s_id q \<noteq> i" if "q \<in> set (accepted_sessions w)" for q
    using that distinct_key_inj [OF schema_okD(8) [OF assms(2)] _ s(1), of q] s
    by (auto simp: accepted_sessions_def)
  then have unused: "of_session_id c \<noteq> i" if "c \<in> set (accepted_offers w)" for c
    using assms(1) that by (auto simp: bids_inv_def list_all_iff exists_where_def)
  have rides: "w_rides w' = w_rides w @ [r]" by (simp add: w')
  have "session_ride ?s r" "session_offer ?s r ?x"
    using s x r by (simp_all add: session_ride_def session_offer_def)
  then have "session_matched w' ?s"
    unfolding session_matched_def exists_where_def offs rides by auto
  moreover have "session_matched w' q" if "session_matched w q" for q
    using that unfolding session_matched_def exists_where_def offs rides by auto
  ultimately have "list_all (session_matched w') (accepted_sessions w')"
    using assms(1) unfolding bids_inv_def list_all_iff sess by auto
  moreover have "list_all (\<lambda>q. null_or (\<lambda>i. exists_where (\<lambda>s. s_id s = i) (accepted_sessions w'))
      (r_bid_session_id q)) (w_rides w')"
  proof -
    have "null_or (\<lambda>i. exists_where (\<lambda>s. s_id s = i) (accepted_sessions w')) (r_bid_session_id q)"
      if "q \<in> set (w_rides w)" for q
      using assms(1) that unfolding bids_inv_def list_all_iff exists_where_def sess
      by (cases "r_bid_session_id q") auto
    then show ?thesis using r(5) s(2) unfolding list_all_iff rides by (auto simp: exists_where_def sess)
  qed
  moreover have "list_all (\<lambda>b. exists_where (\<lambda>s. s_id s = of_session_id b) (accepted_sessions w')) (accepted_offers w')"
    using assms(1) s(2) x(3) unfolding bids_inv_def list_all_iff exists_where_def sess offs by auto
  moreover have "inj_on of_session_id (set (accepted_offers w'))"
    using assms(1) x(3) unfolding bids_inv_def offs by (auto simp: inj_on_insert dest!: unused)
  ultimately show ?thesis by (simp add: bids_inv_def)
qed

lemma bids_inv_step:
  assumes "bids_inv w" and "rides_inv w" and "schema_ok w" and "core_step w w'"
  shows "bids_inv w'"
  using assms(4)
proof cases
  case (accepted p i d)
  then show ?thesis
  proof (rule ride_acceptedE)
    fix r r' st
    assume r: "r \<in> set (w_rides w)" "r_id r' = r_id r" "r_status r = ''requested''"
        "r_bid_session_id r' = r_bid_session_id r"
      and w': "w' = w\<lparr>w_rides := put_row r_id r' (w_rides w), w_settlements := w_settlements w @ [st]\<rparr>"
    have none: "r_bid_session_id r = None"
      using assms(2) r by (auto simp: rides_inv_def list_all_iff ride_wf_def)
    show ?thesis
    proof (rule bids_inv_same [OF assms(1)])
      fix q assume q: "q \<in> set (w_rides w)" "r_bid_session_id q \<noteq> None"
      with none distinct_key_inj [OF schema_okD(1) [OF assms(3)] q(1) r(1)] have "r_id q \<noteq> r_id r'"
        using r(2) by auto
      with put_row_other [OF q(1)] show "\<exists>r'\<in>set (w_rides w'). r_bid_session_id r' = r_bid_session_id q \<and>
        r_passenger_id r' = r_passenger_id q \<and> r_driver_id r' = r_driver_id q \<and>
        r_fare_amount r' = r_fare_amount q \<and> (r_status q \<noteq> ''requested'' \<longrightarrow> r_status r' \<noteq> ''requested'')"
        by (auto simp: w' intro!: bexI [of _ q])
    next
      fix q assume "q \<in> set (w_rides w')" "r_bid_session_id q \<noteq> None"
      with none r(4) show "\<exists>r\<in>set (w_rides w). r_bid_session_id q = r_bid_session_id r"
        by (auto simp: w' dest!: in_put_row)
    qed (simp_all add: w' accepted_sessions_def accepted_offers_def)
  qed
next
  case (moved i a f t)
  then show ?thesis
  proof (rule ride_movedE)
    fix r r' ev audits
    assume r: "r \<in> set (w_rides w)" "r_id r' = r_id r" "r_passenger_id r' = r_passenger_id r"
        "r_driver_id r' = r_driver_id r" "r_fare_amount r' = r_fare_amount r"
        "r_bid_session_id r' = r_bid_session_id r" "can_transition (r_status r) (r_status r')"
      and w': "w' = w\<lparr>w_rides := put_row r_id r' (w_rides w), w_events := w_events w @ [ev],
            w_audits := w_audits w @ audits\<rparr>"
    have st: "r_status r' \<noteq> ''requested''" using r(7) never_back_to_requested by metis
    show ?thesis
    proof (rule bids_inv_same [OF assms(1)])
      fix q assume q: "q \<in> set (w_rides w)" "r_bid_session_id q \<noteq> None"
      show "\<exists>r'\<in>set (w_rides w'). r_bid_session_id r' = r_bid_session_id q \<and>
        r_passenger_id r' = r_passenger_id q \<and> r_driver_id r' = r_driver_id q \<and>
        r_fare_amount r' = r_fare_amount q \<and> (r_status q \<noteq> ''requested'' \<longrightarrow> r_status r' \<noteq> ''requested'')"
      proof (cases "r_id q = r_id r'")
        case True
        with distinct_key_inj [OF schema_okD(1) [OF assms(3)] q(1) r(1)] r(2) have "q = r" by simp
        with put_row_in [OF r(1), of r_id r'] r st show ?thesis by (auto simp: w' intro!: bexI [of _ r'])
      next
        case False
        with put_row_other [OF q(1)] show ?thesis by (auto simp: w' intro!: bexI [of _ q])
      qed
    next
      fix q assume "q \<in> set (w_rides w')"
      with r show "\<exists>r\<in>set (w_rides w). r_bid_session_id q = r_bid_session_id r"
        by (auto simp: w' dest!: in_put_row)
    qed (simp_all add: w' accepted_sessions_def accepted_offers_def)
  qed
next
  case (offer b i j k e)
  with assms(1,3) show ?thesis by (rule bids_inv_offer)
next
  case (requested i)
  then show ?thesis
  proof (rule ride_requestedE)
    fix v row
    assume v: "bids_evolve w v" and row: "r_bid_session_id row = None"
      and w': "w' = v\<lparr>w_rides := w_rides w @ [row]\<rparr>"
    have "w_rides v = w_rides w" using v by (simp add: bids_evolve_def)
    then show ?thesis
      by (intro bids_inv_same [OF bids_inv_evolve [OF assms(1) v]])
        (use row in \<open>auto simp: w' accepted_sessions_def accepted_offers_def\<close>)
  qed
next
  case (settled e)
  note cash_settled_tables [OF settled]
  then show ?thesis
    by (intro bids_inv_same [OF assms(1)]) (auto simp: accepted_sessions_def accepted_offers_def)
next
  case users
  then show ?thesis
    by (intro bids_inv_same [OF assms(1)])
      (auto simp: accepted_sessions_def accepted_offers_def other_modulesD [OF users])
qed

section \<open>What a step cannot undo\<close>

text \<open>A ride keeps who asked for it and for how much; its status only moves along the table.\<close>

definition ride_progress :: "ride_row \<Rightarrow> ride_row \<Rightarrow> bool" where
  "ride_progress r r' \<longleftrightarrow> r' = r \<or>
     r_id r' = r_id r \<and> r_passenger_id r' = r_passenger_id r \<and> r_fare_amount r' = r_fare_amount r \<and>
     r_created_at r' = r_created_at r \<and> r_bid_session_id r' = r_bid_session_id r \<and>
     r_driver_id r' = (if r_driver_id r = None then r_driver_id r' else r_driver_id r) \<and>
     can_transition (r_status r) (r_status r')"

definition history_kept :: "world \<Rightarrow> world \<Rightarrow> bool" where
  "history_kept w w' \<longleftrightarrow>
     list_all (\<lambda>r. exists_where (ride_progress r) (w_rides w')) (w_rides w) \<and>
     list_all (\<lambda>st. st_cash_outcome st = ''unpaid'' \<or> st \<in> set (w_settlements w')) (w_settlements w) \<and>
     (\<exists>ls. w_ledgers w' = w_ledgers w @ ls) \<and> (\<exists>evs. w_events w' = w_events w @ evs) \<and>
     (\<exists>as. w_audits w' = w_audits w @ as)"

lemma ride_progress_refl [simp]: "ride_progress r r"
  by (simp add: ride_progress_def)

lemma rides_kept_put_row:
  assumes "distinct (map r_id t)" and "r \<in> set t" and "ride_progress r r'" and "r_id r' = r_id r"
  shows "list_all (\<lambda>q. exists_where (ride_progress q) (put_row r_id r' t)) t"
  unfolding list_all_iff exists_where_def
proof
  fix q assume q: "q \<in> set t"
  show "\<exists>p\<in>set (put_row r_id r' t). ride_progress q p"
  proof (cases "r_id q = r_id r")
    case True
    with distinct_key_inj [OF assms(1) q assms(2)] have "q = r" by simp
    with put_row_in [OF assms(2), of r_id r'] assms(3,4) show ?thesis by auto
  next
    case False
    with put_row_other [OF q, of r_id r'] assms(4) show ?thesis
      by (auto intro!: bexI [of _ q])
  qed
qed

lemma history_keptI:
  assumes "list_all (\<lambda>r. exists_where (ride_progress r) (w_rides w')) (w_rides w)"
    and "w_settlements w' = w_settlements w @ sts" and "w_ledgers w' = w_ledgers w"
    and "w_events w' = w_events w @ evs" and "w_audits w' = w_audits w @ as"
  shows "history_kept w w'"
  using assms by (auto simp: history_kept_def list_all_iff)

lemma rides_kept_append: "list_all (\<lambda>r. exists_where (ride_progress r) (t @ u)) t"
  unfolding list_all_iff exists_where_def by (auto intro!: bexI)

lemma history_kept_refl: "history_kept w w"
  by (intro history_keptI [of _ _ "[]" "[]" "[]"])
    (use rides_kept_append [of "w_rides w" "[]"] in simp_all)

lemma core_step_history:
  assumes "money_inv w" and "schema_ok w" and "rides_inv w" and "core_step w w'"
  shows "history_kept w w'"
  using assms(4)
proof cases
  case (accepted p i d)
  then show ?thesis
  proof (rule ride_acceptedE)
    fix r r' st
    assume r: "r \<in> set (w_rides w)" "r_id r' = r_id r" "r_status r = ''requested''" "r_status r' = ''accepted''"
        "r_passenger_id r' = r_passenger_id r" "r_fare_amount r' = r_fare_amount r"
        "r_created_at r' = r_created_at r" "r_bid_session_id r' = r_bid_session_id r"
      and w': "w' = w\<lparr>w_rides := put_row r_id r' (w_rides w), w_settlements := w_settlements w @ [st]\<rparr>"
    have "r_driver_id r = None" using assms(3) r by (auto simp: rides_inv_def list_all_iff ride_wf_def)
    moreover have "can_transition ''requested'' ''accepted''" by (simp add: status_literals)
    ultimately have "ride_progress r r'" using r by (simp add: ride_progress_def)
    from rides_kept_put_row [OF schema_okD(1) [OF assms(2)] r(1) this r(2)] show ?thesis
      by (intro history_keptI [of _ _ "[st]" "[]" "[]"]) (simp_all add: w')
  qed
next
  case (moved i a f t)
  then show ?thesis
  proof (rule ride_movedE)
    fix r r' ev audits
    assume r: "r \<in> set (w_rides w)" "r_id r' = r_id r" "r_passenger_id r' = r_passenger_id r"
        "r_driver_id r' = r_driver_id r" "r_fare_amount r' = r_fare_amount r"
        "r_created_at r' = r_created_at r" "r_bid_session_id r' = r_bid_session_id r"
        "can_transition (r_status r) (r_status r')"
      and w': "w' = w\<lparr>w_rides := put_row r_id r' (w_rides w), w_events := w_events w @ [ev],
            w_audits := w_audits w @ audits\<rparr>"
    have "ride_progress r r'" using r by (simp add: ride_progress_def)
    from rides_kept_put_row [OF schema_okD(1) [OF assms(2)] r(1) this r(2)] show ?thesis
      by (intro history_keptI [of _ _ "[]" "[ev]" audits]) (simp_all add: w')
  qed
next
  case (offer b i j k e)
  then show ?thesis
    by (rule offer_acceptedE)
      (rule history_keptI [OF _ _ _ append_Nil2 [symmetric, THEN trans] append_Nil2 [symmetric, THEN trans]],
        simp_all add: rides_kept_append)
next
  case (requested i)
  then show ?thesis
  proof (rule ride_requestedE)
    fix v row
    assume v: "bids_evolve w v" and w': "w' = v\<lparr>w_rides := w_rides w @ [row]\<rparr>"
    then show ?thesis
      by (intro history_keptI [of _ _ "[]" "[]" "[]"]) (simp_all add: rides_kept_append bids_evolve_def)
  qed
next
  case (settled e)
  then show ?thesis
  proof (cases rule: cash_settledE)
    case (again s s')
    with money_invD(1) [OF assms(1) again(1)] show ?thesis by (simp add: settlement_linked_def)
  next
    case same
    then show ?thesis by (simp add: history_kept_refl)
  next
    case (effect q r s s' cs)
    then show ?thesis
    proof (rule cash_effectE)
      fix accs ledgers a
      assume s: "s \<in> set (w_settlements w)" "st_cash_outcome s = ''unpaid''" "st_id s' = st_id s"
        and w': "w' = w\<lparr>w_settlements := put_row st_id s' (w_settlements w),
          w_ledgers := w_ledgers w @ ledgers, w_accounts := accs, w_audits := w_audits w @ [a]\<rparr>"
      have "st \<in> set (put_row st_id s' (w_settlements w))"
        if st: "st \<in> set (w_settlements w)" "st_cash_outcome st \<noteq> ''unpaid''" for st
      proof (rule put_row_other [OF st(1)])
        show "st_id st \<noteq> st_id s'"
          using distinct_key_inj [OF schema_okD(3) [OF assms(2)] st(1) s(1)] st(2) s(2,3) by auto
      qed
      then show ?thesis
        using rides_kept_append [of "w_rides w" "[]"] unfolding history_kept_def w'
        by (auto simp: list_all_iff)
    qed
  qed
next
  case users
  then show ?thesis
    by (intro history_keptI [of _ _ "[]" "[]" "[]"])
      (use rides_kept_append [of "w_rides w" "[]"] in \<open>simp_all add: other_modulesD [OF users]\<close>)
qed

section \<open>Reachable worlds\<close>

definition server_inv :: "world \<Rightarrow> bool" where
  "server_inv w \<longleftrightarrow> rides_inv w \<and> trails_inv w \<and> money_inv w \<and> bids_inv w"

lemma rides_inv_evolve: "rides_inv w \<Longrightarrow> bids_evolve w w' \<Longrightarrow> rides_inv w'"
  by (simp add: rides_inv_def bids_evolve_def)

lemma reachable_inv:
  assumes "reachable p b w"
  shows "server_inv w" and "schema_ok w"
proof -
  have start: "server_inv w" if "initial_world w" for w
    using that by (auto simp: initial_world_def server_inv_def rides_inv_def trails_inv_def money_inv_def
        bids_inv_def empty_world_def total_earned_def accepted_sessions_def accepted_offers_def
        max_active_rides_per_driver_def)
  have core: "server_inv w'" if "server_inv w" "schema_ok w" "core_step w w'" for w w'
    using that rides_inv_step trails_inv_step money_inv_step bids_inv_step unfolding server_inv_def by blast
  have evolve: "server_inv w'" if i: "server_inv w" and e: "bids_evolve w w'" for w w'
  proof -
    from e have "w_rides w' = w_rides w" "w_events w' = w_events w" "w_settlements w' = w_settlements w"
      "w_ledgers w' = w_ledgers w" "w_accounts w' = w_accounts w" by (simp_all add: bids_evolve_def)
    with i e show ?thesis
      unfolding server_inv_def
      by (blast intro: rides_inv_evolve trails_inv_same money_inv_same bids_inv_evolve)
  qed
  show "server_inv w" "schema_ok w"
    by (rule reachable_induct [where I = server_inv, OF assms start core evolve]; assumption)+
qed

lemma reachable_step_history:
  assumes "reachable p b w" and "server_step p b w w'"
  shows "history_kept w w'"
proof -
  obtain v where v: "v = w \<or> core_step w v" and e: "bids_evolve v w'"
    using server_step_core [OF assms(2) reachable_inv(2) [OF assms(1)]] by blast
  have "history_kept w v"
    using v core_step_history history_kept_refl reachable_inv [OF assms(1)]
    unfolding server_inv_def by blast
  with e show ?thesis by (simp add: history_kept_def bids_evolve_def)
qed

end
