(* ===== verification/Sample_Run.thy ===== *)
theory Sample_Run
  imports Sample_World Invariants
begin

text \<open>
  One ride from its request to the recorded cash, run through the services on a concrete
  database: the worlds below are reached by the model's own steps, and serve the properties of
  reachable worlds as their example. Publishing fails throughout, which no command notices.
\<close>

definition run_env :: "int \<Rightarrow> env" where
  "run_env t = sample_env\<lparr>env_now := t * second, env_db_now := t * second, 
     env_nextval := \<lambda>table. if table = ''rides'' then 10 else t,
     env_request_id := itoa t, env_fault := \<lambda>n. n = ''publish''\<rparr>"

definition run_start :: world where
  "run_start = empty_world\<lparr>w_users := sample_users, w_driver_profiles := [sample_profile]\<rparr>"

definition sample_booking :: booking_service where
  "sample_booking = \<lparr>bk_writer = Some (repo_create_ride sample_repository), bk_active_ride_checker = None,
     bk_resolve_route = Some (\<lambda>_ _ _ _ _ _ _. Inr (Fin 2, Fin 5)), bk_calculate_fare = Some (\<lambda>_ _. 10000),
     bk_has_route_provider = True\<rparr>"

definition sample_view :: "string \<Rightarrow> ride" where
  "sample_view status = zero_ride\<lparr>rd_id := 10, rd_passenger_id := 1,
     rd_driver_id := (if status = ''requested'' then None else Some 2), rd_status := status,
     rd_pickup_latitude := Fin 14, rd_pickup_longitude := Fin 121, rd_pickup_name := ''A'',
     rd_dropoff_latitude := Fin 15, rd_dropoff_longitude := Fin 121, rd_dropoff_name := ''B'',
     rd_arrived_at := (if status = ''arrived'' then Some (1010 * second) else None)\<rparr>"

definition sample_service :: "string \<Rightarrow> lifecycle_service" where
  "sample_service status = \<lparr>lv_store = Some (snapshot_lifecycle_store sample_repository (\<lambda>_. Inr (sample_view status))),
     lv_driver_location = Some (\<lambda>_ e. Inr \<lparr>dl_latitude = Fin 14, dl_longitude = Fin 121,
       dl_observed_at = Some (env_now e)\<rparr>),
     lv_config = default_lifecycle_config\<rparr>"

definition sample_cash :: cash_settlement_request where
  "sample_cash = \<lparr>cs_ride_id = 10, cs_driver_id = 2, cs_received_amount = 15000,
     cs_change_amount = 5000, cs_outcome = ''paid''\<rparr>"

definition run_requested :: world where
  "run_requested = snd (booking_create_with_details sample_booking
     ((sample_view '''')\<lparr>rd_driver_id := None\<rparr>) (run_env 900) run_start)"

definition run_accepted :: world where
  "run_accepted = snd (repo_accept_ride sample_repository 10 2 (run_env 1000) run_requested)"

definition run_arrived :: world where
  "run_arrived = snd (repo_mark_arrived sample_repository 10 2 ''accepted'' (5 * minute) (run_env 1010) run_accepted)"

definition run_driving :: world where
  "run_driving = snd (repo_start_trip sample_repository 10 2 (run_env 1020) run_arrived)"

definition run_completed :: world where
  "run_completed = snd (repo_complete_trip sample_repository 10 2 (run_env 1900) run_driving)"

definition run_settled :: world where
  "run_settled = snd (settlement_settle_cash (Some (repo_settle_cash sample_repository)) sample_cash (run_env 2000) run_completed)"

text \<open>The worlds of the run, row by row.\<close>

definition run_ride :: "string \<Rightarrow> int option \<Rightarrow> int option \<Rightarrow> ride_row" where
  "run_ride status arrived completed = (sample_ride ''accepted'' (Some 2))\<lparr>r_status := status,
     r_booking_reference := ''8'', r_driver_name := Some ''Ben'', r_vehicle_type := Some ''Bao'',
     r_plate_number := Some ''B1'', r_driver_rating := Some (Fin 5),
     r_arrived_at := arrived, r_waiting_until := map_option (\<lambda>t. t + 5 * minute) arrived,
     r_completed_at := completed\<rparr>"

definition run_event :: "int \<Rightarrow> string \<Rightarrow> string \<Rightarrow> ride_event_row" where
  "run_event t f g = \<lparr>re_id = t, re_ride_id = 10, re_actor_id = 2, re_event_type = ''ride.status_changed'',
     re_from_status = f, re_to_status = g, re_reason = '''', re_responsibility = '''', re_details = '''',
     re_request_id = itoa t, re_created_at = Some (t * second)\<rparr>"

definition run_audit :: "int \<Rightarrow> string \<Rightarrow> audit_event_row" where
  "run_audit t action = \<lparr>ae_id = t, ae_actor_id = 2, ae_action = action, ae_target_type = ''ride'',
     ae_target_id = Some ''10'', ae_outcome = ''success'', ae_request_id = itoa t @ ''-audit'',
     ae_created_at = Some (t * second)\<rparr>"

lemma run_requested_code [code]:
  "run_requested = run_start\<lparr>w_rides := [(sample_ride ''requested'' None)\<lparr>r_booking_reference := ''8''\<rparr>],
     w_booking_references := [''8'']\<rparr>"
  by code_simp

lemma run_accepted_code [code]:
  "run_accepted = run_requested\<lparr>w_rides := [run_ride ''accepted'' None None],
     w_settlements := [sample_settlement\<lparr>st_id := 1000, st_created_at := Some (1000 * second),
       st_updated_at := Some (1000 * second)\<rparr>]\<rparr>"
  by code_simp

lemma run_arrived_code [code]:
  "run_arrived = run_accepted\<lparr>w_rides := [run_ride ''arrived'' (Some (1010 * second)) None],
     w_events := [run_event 1010 ''accepted'' ''arrived'']\<rparr>"
  by code_simp

lemma run_driving_code [code]:
  "run_driving = run_accepted\<lparr>w_rides := [run_ride ''in_transit'' (Some (1010 * second)) None],
     w_events := [run_event 1010 ''accepted'' ''arrived'', run_event 1020 ''arrived'' ''in_transit''],
     w_audits := [run_audit 1020 ''ride.started'']\<rparr>"
  by code_simp

lemma run_completed_code [code]:
  "run_completed = run_accepted\<lparr>w_rides := [run_ride ''completed'' (Some (1010 * second)) (Some (1900 * second))],
     w_events := [run_event 1010 ''accepted'' ''arrived'', run_event 1020 ''arrived'' ''in_transit'',
       run_event 1900 ''in_transit'' ''completed''],
     w_audits := [run_audit 1020 ''ride.started'', run_audit 1900 ''ride.completed'']\<rparr>"
  by code_simp

lemma run_settled_eval:
  "map_prod isl id (settlement_settle_cash (Some (repo_settle_cash sample_repository)) sample_cash
       (run_env 2000) run_completed) = (False, run_completed\<lparr>w_settlements := [sample_settlement\<lparr>st_id := 1000,
       st_payment_status := ''paid'', st_cash_outcome := ''paid'',
       st_cash_received_at := Some (2000 * second), st_cash_received_amount := 15000,
       st_cash_change_amount := 5000, st_settled_at := Some (2000 * second),
       st_created_at := Some (1000 * second), st_updated_at := Some (2000 * second)\<rparr>],
     w_accounts := [\<lparr>wa_id = 2000, wa_driver_id = 2, wa_balance = 8500, wa_version = 1,
       wa_created_at = Some (2000 * second), wa_updated_at = Some (2000 * second + 1)\<rparr>],
     w_ledgers := [\<lparr>wl_id = 2000, wl_driver_id = 2, wl_ride_id = 10, wl_amount = 8500,
       wl_commission_amount = 1500, wl_kind = ''cash_trip'',
       wl_idempotency_key = ''ride:10:cash-settlement'', wl_created_at = Some (2000 * second)\<rparr>],
     w_audits := [run_audit 1020 ''ride.started'', run_audit 1900 ''ride.completed'',
       (run_audit 2000 ''ride.cash_settled'')\<lparr>ae_outcome := ''paid'', ae_request_id := ''2000''\<rparr>]\<rparr>)"
  by code_simp

lemma run_settled_code [code]:
  "run_settled = run_completed\<lparr>w_settlements := [sample_settlement\<lparr>st_id := 1000,
       st_payment_status := ''paid'', st_cash_outcome := ''paid'',
       st_cash_received_at := Some (2000 * second), st_cash_received_amount := 15000,
       st_cash_change_amount := 5000, st_settled_at := Some (2000 * second),
       st_created_at := Some (1000 * second), st_updated_at := Some (2000 * second)\<rparr>],
     w_accounts := [\<lparr>wa_id = 2000, wa_driver_id = 2, wa_balance = 8500, wa_version = 1,
       wa_created_at = Some (2000 * second), wa_updated_at = Some (2000 * second + 1)\<rparr>],
     w_ledgers := [\<lparr>wl_id = 2000, wl_driver_id = 2, wl_ride_id = 10, wl_amount = 8500,
       wl_commission_amount = 1500, wl_kind = ''cash_trip'',
       wl_idempotency_key = ''ride:10:cash-settlement'', wl_created_at = Some (2000 * second)\<rparr>],
     w_audits := [run_audit 1020 ''ride.started'', run_audit 1900 ''ride.completed'',
       (run_audit 2000 ''ride.cash_settled'')\<lparr>ae_outcome := ''paid'', ae_request_id := ''2000''\<rparr>]\<rparr>"
  using arg_cong [OF run_settled_eval, of snd] by (simp add: run_settled_def)

lemma run_steps_ok:
  "isl (fst (repo_accept_ride sample_repository 10 2 (run_env 1000) run_requested)) = False"
  "isl (fst (repo_mark_arrived sample_repository 10 2 ''accepted'' (5 * minute) (run_env 1010) run_accepted)) = False"
  "isl (fst (repo_start_trip sample_repository 10 2 (run_env 1020) run_arrived)) = False"
  "isl (fst (repo_complete_trip sample_repository 10 2 (run_env 1900) run_driving)) = False"
  by code_simp+

lemma run_env_now [simp]: "env_now (run_env t) = t * second"
  and run_env_publish [simp]: "env_fault (run_env t) ''publish''"
  by (simp_all add: run_env_def)

lemmas run_eval =
  io_bind_def io_return_def io_throw_def io_env_def io_lift_def publish_ride_event_def publish_event_def
  lifecycle_accept_ride_def lifecycle_mark_arrived_def lifecycle_start_trip_def lifecycle_complete_trip_def
  load_ride_with_driver_location_def authoritative_driver_location_def validate_arrival_location_def
  snapshot_lifecycle_store_def repo_lifecycle_store_def sample_service_def sample_view_def zero_ride_def
  default_lifecycle_config_def driver_location_max_age_def arrival_radius_meters_def
  passenger_wait_duration_def second_def minute_def haversine_meters_def valid_coordinate_def valid_radius_def

text \<open>A command whose store call succeeds leads where the store call does.\<close>

lemma run_ok: "isl (fst m) = False \<Longrightarrow> \<exists>x. m = (Inr x, snd m)" for m :: "(err + ride) \<times> world"
  by (cases m; cases "fst m") auto

lemma run_command_step:
  assumes "snd (run_lifecycle (sample_service s) c (run_env t) w) = w'"
  shows "server_step sample_repository b w w'"
proof -
  have "run_lifecycle (sample_service s) c (run_env t) w =
      (fst (run_lifecycle (sample_service s) c (run_env t) w), w')"
    using assms by (metis surjective_pairing)
  then show ?thesis
    by (intro server_step.lifecycle [of "sample_service s"]) (simp_all add: sample_service_def)
qed

lemma run_command:
  assumes "reachable sample_repository b w"
    and "snd (run_lifecycle (sample_service s) c (run_env t) w) = w'"
  shows "reachable sample_repository b w'"
  using assms(1) run_command_step [OF assms(2)] by (rule reachable.step)

lemma run_reaches_requested: "reachable sample_repository b run_requested"
proof -
  have "initial_world run_start" unfolding initial_world_def run_start_def by blast
  then show ?thesis
    unfolding run_requested_def
    by (intro reachable.step [OF reachable.start server_step.detailed_request [OF _ surjective_pairing]])
      (simp_all add: sample_booking_def)
qed

lemma run_accept_step: "server_step sample_repository b run_requested run_accepted"
proof (rule run_command_step [of "''requested''" "AcceptRide 10 2" 1000])
  from run_ok [OF run_steps_ok(1)] obtain x where
    "repo_accept_ride sample_repository 10 2 (run_env 1000) run_requested = (Inr x, run_accepted)"
    unfolding run_accepted_def by blast
  then show "snd (run_lifecycle (sample_service ''requested'') (AcceptRide 10 2) (run_env 1000) run_requested) =
      run_accepted"
    by (simp add: run_eval)
qed

lemma run_reaches_accepted: "reachable sample_repository b run_accepted"
  by (rule reachable.step [OF run_reaches_requested run_accept_step])

lemma run_reaches_arrived: "reachable sample_repository b run_arrived"
proof (rule run_command [OF run_reaches_accepted, of "''accepted''" "MarkArrived 10 2" 1010])
  from run_ok [OF run_steps_ok(2)] obtain x where
    "repo_mark_arrived sample_repository 10 2 ''accepted'' (5 * minute) (run_env 1010) run_accepted = (Inr x, run_arrived)"
    unfolding run_arrived_def by blast
  then show "snd (run_lifecycle (sample_service ''accepted'') (MarkArrived 10 2) (run_env 1010) run_accepted) =
      run_arrived"
    by (simp add: run_eval status_str.simps)
qed

lemma run_start_trip:
  "\<exists>x. run_lifecycle (sample_service ''arrived'') (StartTrip 10 2) (run_env 1020) run_arrived = (Inr x, run_driving)"
proof -
  from run_ok [OF run_steps_ok(3)] obtain x where
    "repo_start_trip sample_repository 10 2 (run_env 1020) run_arrived = (Inr x, run_driving)"
    unfolding run_driving_def by blast
  then show ?thesis by (simp add: run_eval)
qed

lemma run_driving_step:
  "run_lifecycle (sample_service ''arrived'') (StartTrip 10 2) (run_env 1020) run_arrived =
     (fst (run_lifecycle (sample_service ''arrived'') (StartTrip 10 2) (run_env 1020) run_arrived), run_driving)"
  using run_start_trip by auto

lemma run_reaches_driving: "reachable sample_repository b run_driving"
  by (rule run_command [OF run_reaches_arrived, of "''arrived''" "StartTrip 10 2" 1020])
    (metis run_driving_step snd_conv)

lemma run_reaches_completed: "reachable sample_repository b run_completed"
proof (rule run_command [OF run_reaches_driving, of "''in_transit''" "CompleteTrip 10 2" 1900])
  from run_ok [OF run_steps_ok(4)] obtain x where
    "repo_complete_trip sample_repository 10 2 (run_env 1900) run_driving = (Inr x, run_completed)"
    unfolding run_completed_def by blast
  then show "snd (run_lifecycle (sample_service ''in_transit'') (CompleteTrip 10 2) (run_env 1900) run_driving) =
      run_completed"
    by (simp add: run_eval)
qed

lemma run_settled_step:
  "settlement_settle_cash (Some (repo_settle_cash sample_repository)) sample_cash (run_env 2000) run_completed =
     (fst (settlement_settle_cash (Some (repo_settle_cash sample_repository)) sample_cash (run_env 2000) run_completed),
      run_settled)"
  by (simp add: run_settled_def)

lemma run_settled_ok:
  "\<exists>x. settlement_settle_cash (Some (repo_settle_cash sample_repository)) sample_cash (run_env 2000) run_completed =
     (Inr x, run_settled)"
  using run_ok [of "settlement_settle_cash (Some (repo_settle_cash sample_repository)) sample_cash (run_env 2000) run_completed"]
    arg_cong [OF run_settled_eval, of fst] by (simp add: run_settled_def)

lemma run_reaches_settled: "reachable sample_repository b run_settled"
  by (rule reachable.step [OF run_reaches_completed server_step.cash [OF run_settled_step]])

end
