(* ===== verification/Sample_Bid.thy ===== *)
theory Sample_Bid
  imports Sample_Run
begin

text \<open>A bid from the passenger's session to the accepted offer, on the database of the sample run.\<close>

definition sample_store :: bid_store where
  "sample_store = \<lparr>bd_initialized = True, bd_platform_commission_bps = 1500,
     bd_online_presence_max_age = 0, bd_allow_unverified_test_drivers = False\<rparr>"

definition sample_session :: bid_session where
  "sample_session = \<lparr>bs_id = 30, bs_booking_reference = '''', bs_ride_id = None, bs_passenger_id = 1,
     bs_pickup_latitude = Fin 14, bs_pickup_longitude = Fin 121, bs_pickup_name = ''A'',
     bs_dropoff_latitude = Fin 15, bs_dropoff_longitude = Fin 121, bs_dropoff_name = ''B'',
     bs_passenger_note = '''', bs_distance_km = Fin 2, bs_duration_minutes = Fin 5,
     bs_offered_fare_amount = 10000, bs_custom_fare_amount = None, bs_status = '''',
     bs_target_driver_id = None, bs_accepted_driver_id = None, bs_expires_at = None,
     bs_created_at = None, bs_offers = []\<rparr>"

definition sample_offer :: bid_offer where
  "sample_offer = \<lparr>bo_id = 0, bo_session_id = 30, bo_driver_id = 2, bo_driver_name = '''',
     bo_plate_number = '''', bo_vehicle_type = '''', bo_proposed_fare_amount = 9000, bo_status = '''',
     bo_created_at = None\<rparr>"

definition sample_bidding :: bidding_service where
  "sample_bidding = \<lparr>bv_store = Some (snapshot_bidding_store sample_store (\<lambda>_. Inr sample_session) (\<lambda>_. Inr [])),
     bv_active_ride_checker = None,
     bv_resolve_route = Some (\<lambda>_ _ _ _ _ _ _. Inr (Fin 2, Fin 5)), bv_calculate_fare = Some (\<lambda>_ _. 10000),
     bv_session_duration = 0\<rparr>"

definition bid_env :: "int \<Rightarrow> env" where
  "bid_env t = (run_env t)\<lparr>env_nextval := \<lambda>table. if table = ''rides'' then 10 else if table = ''bid_sessions'' then 30
     else if table = ''bid_offers'' then 40 else t\<rparr>"

definition bid_opened :: world where
  "bid_opened = snd (run_bidding sample_bidding (CreateSession sample_session) (bid_env 1000) run_start)"

definition bid_placed :: world where
  "bid_placed = snd (run_bidding sample_bidding (PlaceOffer sample_offer) (bid_env 1005) bid_opened)"

definition bid_accepted :: world where
  "bid_accepted = snd (run_bidding sample_bidding (AcceptOffer 30 40 1) (bid_env 1010) bid_placed)"

lemma bid_command:
  assumes "reachable p sample_store w" and "snd (run_bidding sample_bidding c e w) = w'"
  shows "reachable p sample_store w'"
proof -
  have "run_bidding sample_bidding c e w = (fst (run_bidding sample_bidding c e w), w')"
    using assms(2) by (metis surjective_pairing)
  then show ?thesis
    by (intro reachable.step [OF assms(1) server_step.bidding [of sample_bidding]])
      (simp_all add: sample_bidding_def)
qed

lemma bid_reaches:
  "reachable p sample_store run_start" "reachable p sample_store bid_opened"
  "reachable p sample_store bid_placed" "reachable p sample_store bid_accepted"
proof -
  have "initial_world run_start" unfolding initial_world_def run_start_def by blast
  then show start: "reachable p sample_store run_start" by (rule reachable.start)
  show opened: "reachable p sample_store bid_opened" by (rule bid_command [OF start bid_opened_def [symmetric]])
  show placed: "reachable p sample_store bid_placed" by (rule bid_command [OF opened bid_placed_def [symmetric]])
  show "reachable p sample_store bid_accepted" by (rule bid_command [OF placed bid_accepted_def [symmetric]])
qed

lemma bid_opened_code [code]:
  "bid_opened = run_start\<lparr>w_sessions := [\<lparr>s_id = 30, s_booking_reference = ''8'', s_passenger_id = 1,
     s_ride_type = ''Solo Ride'', s_pickup_latitude = Fin 14, s_pickup_longitude = Fin 121,
     s_pickup_name = ''A'', s_dropoff_latitude = Fin 15, s_dropoff_longitude = Fin 121,
     s_dropoff_name = ''B'', s_passenger_note = Some '''', s_distance_km = Fin 2,
     s_duration_minutes = Fin 5, s_offered_fare = 10000, s_status = ''open'',
     s_target_driver_id = None, s_accepted_driver_id = None,
     s_expires_at = Some (1030 * second), s_created_at = Some (1000 * second)\<rparr>],
     w_booking_references := [''8'']\<rparr>"
  by code_simp

lemma bid_placed_code [code]:
  "bid_placed = bid_opened\<lparr>w_offers := [\<lparr>of_id = 40, of_session_id = 30, of_driver_id = 2,
     of_driver_name = Some ''Ben'', of_plate_number = Some ''B1'', of_vehicle_type = Some ''Bao'',
     of_proposed_fare = 9000, of_status = ''pending'', of_created_at = Some (1005 * second)\<rparr>]\<rparr>"
  by code_simp

lemma bid_accepted_rows:
  "map (\<lambda>r. (r_status r, r_driver_id r, r_fare_amount r)) (w_rides bid_accepted) = [(''accepted'', Some 2, 9000)]"
  "map s_id (accepted_sessions bid_accepted) = [30]" "map of_id (accepted_offers bid_accepted) = [40]"
  by code_simp+

end
