(* ===== verification/Command_Safety.thy ===== *)
theory Command_Safety
  imports Sample_Bid
begin

text \<open>
  What single commands guarantee: that a command is one step or nothing, the guards of the
  commands that start and end a trip, that cash is recorded once, and what an accepted offer
  does; each over the repository with reads taken at any time.
\<close>

section \<open>Lifecycle commands\<close>

text \<open>
  C3. A lifecycle command is all or nothing. Whatever fails and however stale its read, a
  command that reports an error has changed nothing; one that succeeds has changed nothing (a
  repetition) or done exactly one thing to the ride it names, on behalf of the actor it names:
  a driver took the requested ride, or the ride moved along the transition table with one
  event recorded.
\<close>

theorem lifecycle_command_all_or_nothing:
  assumes "schema_ok w" and "lv_store sv = Some (snapshot_lifecycle_store p f)"
    and "run_lifecycle sv c e w = (r, w')"
  shows "w' = w \<or>
    (\<exists>x v. r = Inr x \<and> published_after v w' \<and>
       (ride_accepted p (command_ride c) (command_actor c) w v \<or>
        (\<exists>f t. can_transition f t \<and> ride_moved (command_ride c) (command_actor c) f t w v)))"
  using snapshot.run_outcome [OF assms] by (simp add: lifecycle_outcome_def)

theorem lifecycle_command_all_or_nothing_witness:
  "run_driving = run_arrived \<or>
    (\<exists>x v. fst (run_lifecycle (sample_service ''arrived'') (StartTrip 10 2) (run_env 1020) run_arrived) = Inr x \<and>
       published_after v run_driving \<and>
       (ride_accepted sample_repository (command_ride (StartTrip 10 2)) (command_actor (StartTrip 10 2)) run_arrived v \<or>
        (\<exists>f t. can_transition f t \<and>
          ride_moved (command_ride (StartTrip 10 2)) (command_actor (StartTrip 10 2)) f t run_arrived v)))"
  by (rule lifecycle_command_all_or_nothing [OF reachable_inv(2) [OF run_reaches_arrived] _ run_driving_step])
    (simp add: sample_service_def)

lemma io_bind_lift: "io_bind (io_lift r) f e w = (case r of Inl x \<Rightarrow> (Inl x, w) | Inr x \<Rightarrow> f x e w)"
  by (auto simp: io_bind_def io_lift_def split: sum.splits)

lemma authoritative_location_fresh:
  assumes "authoritative_driver_location sv d e w = (Inr (a, b), w')" and "lv_driver_location sv = Some g"
  shows "\<exists>pt t. g d e = Inr pt \<and> dl_observed_at pt = Some t \<and> 0 \<le> env_now e - t \<and>
    env_now e - t \<le> driver_location_max_age (lv_config sv) \<and> a = dl_latitude pt \<and> b = dl_longitude pt \<and> w' = w"
  using assms unfolding authoritative_driver_location_def assms(2) option.case
  by (auto simp: io_simps Let_def split: sum.splits if_splits option.splits)

text \<open>
  C9. A trip starts only where and when it may. If starting a trip changes anything, the ride
  was the calling driver's and had arrived, and nothing but its status changed in the table of
  rides; the driver's position was reported at most the configured age ago, not in the future,
  and passed the arrival check against the pickup; and at least three seconds had passed since
  the arrival the service saw.
\<close>

theorem start_trip_guarded:
  assumes "schema_ok w" and "lv_store sv = Some (snapshot_lifecycle_store p f)"
    and "lv_driver_location sv = Some g"
    and "lifecycle_start_trip sv i d e w = (Inr x, w')" and "w' \<noteq> w"
  shows "\<exists>r cur pt t. r \<in> set (w_rides w) \<and> r_id r = i \<and> r_driver_id r = Some d \<and> r_status r = ''arrived'' \<and>
    w_rides w' = put_row r_id (r\<lparr>r_status := ''in_transit''\<rparr>) (w_rides w) \<and>
    f i = Inr cur \<and> rd_driver_id cur = Some d \<and>
    g d e = Inr pt \<and> dl_observed_at pt = Some t \<and> 0 \<le> env_now e - t \<and>
    env_now e - t \<le> driver_location_max_age (lv_config sv) \<and>
    validate_arrival_location (rd_pickup_latitude cur) (rd_pickup_longitude cur)
      (dl_latitude pt) (dl_longitude pt) (arrival_radius_meters (lv_config sv)) = Inr () \<and>
    (case rd_arrived_at cur of None \<Rightarrow> True | Some a \<Rightarrow> 3 * second \<le> env_now e - a)"
proof -
  have store: "ls_get (snapshot_lifecycle_store p f) i = io_lift (f i)"
    "ls_start_trip (snapshot_lifecycle_store p f) = repo_start_trip p"
    by (simp_all add: snapshot_lifecycle_store_def repo_lifecycle_store_def)
  from assms(4,5) obtain cur a b y v where
    cur: "f i = Inr cur" "rd_driver_id cur = Some d"
    and loc: "authoritative_driver_location sv d e w = (Inr (a, b), w)"
    and ok: "validate_arrival_location (rd_pickup_latitude cur) (rd_pickup_longitude cur) a b
        (arrival_radius_meters (lv_config sv)) = Inr ()"
    and late: "case rd_arrived_at cur of None \<Rightarrow> True | Some t \<Rightarrow> 3 * second \<le> env_now e - t"
    and start: "repo_start_trip p i d e w = (Inr y, v)"
    and pub: "publish_ride_event ''ride.status.changed'' y
        [(''previous_status'', PString (status_str RideArrived)), (''ride'', PRide y)] e v = (Inr (), w')"
    unfolding lifecycle_start_trip_def load_ride_with_driver_location_def assms(2) option.case store
    by (auto simp: io_simps store not_less split: if_splits option.splits
        dest!: read_onlyD [OF snapshot.location_reads])
  from start schema_okD(1) [OF assms(1)] obtain r ev au where
    r: "lifecycle_effect i d r (r\<lparr>r_status := ''in_transit''\<rparr>) ev [au] w v"
      "r_driver_id r = Some d" "r_status r = ''arrived''" by (rule repo_start_tripE)
  have "w_rides w' = w_rides v"
    using publish_ride_event_after(2) [OF pub] by (auto simp: published_after_def)
  with r have "r \<in> set (w_rides w)" "r_id r = i"
    "w_rides w' = put_row r_id (r\<lparr>r_status := ''in_transit''\<rparr>) (w_rides w)"
    by (simp_all add: lifecycle_effect_def)
  moreover obtain pt t where "g d e = Inr pt" "dl_observed_at pt = Some t" "0 \<le> env_now e - t"
    "env_now e - t \<le> driver_location_max_age (lv_config sv)" "a = dl_latitude pt" "b = dl_longitude pt"
    using authoritative_location_fresh [OF loc assms(3)] by blast
  ultimately show ?thesis using cur ok late r(2,3) by blast
qed

theorem start_trip_guarded_witness:
  "\<exists>r cur pt t. r \<in> set (w_rides run_arrived) \<and> r_id r = 10 \<and> r_driver_id r = Some 2 \<and> r_status r = ''arrived'' \<and>
    w_rides run_driving = put_row r_id (r\<lparr>r_status := ''in_transit''\<rparr>) (w_rides run_arrived) \<and>
    Inr (sample_view ''arrived'') = (Inr cur :: err + ride) \<and> rd_driver_id cur = Some 2 \<and>
    (Inr \<lparr>dl_latitude = Fin 14, dl_longitude = Fin 121, dl_observed_at = Some (env_now (run_env 1020))\<rparr> :: err + driver_location)
      = Inr pt \<and> dl_observed_at pt = Some t \<and> 0 \<le> env_now (run_env 1020) - t \<and>
    env_now (run_env 1020) - t \<le> driver_location_max_age (lv_config (sample_service ''arrived'')) \<and>
    validate_arrival_location (rd_pickup_latitude cur) (rd_pickup_longitude cur)
      (dl_latitude pt) (dl_longitude pt) (arrival_radius_meters (lv_config (sample_service ''arrived''))) = Inr () \<and>
    (case rd_arrived_at cur of None \<Rightarrow> True | Some a \<Rightarrow> 3 * second \<le> env_now (run_env 1020) - a)"
proof -
  obtain x where "lifecycle_start_trip (sample_service ''arrived'') 10 2 (run_env 1020) run_arrived = (Inr x, run_driving)"
    using run_start_trip by auto
  moreover have "run_driving \<noteq> run_arrived" by code_simp
  ultimately show ?thesis
    by (intro start_trip_guarded [OF reachable_inv(2) [OF run_reaches_arrived],
          where p = sample_repository and f = "\<lambda>_. Inr (sample_view ''arrived'')" and
          g = "\<lambda>_ e. Inr \<lparr>dl_latitude = Fin 14, dl_longitude = Fin 121, dl_observed_at = Some (env_now e)\<rparr>"])
      (simp_all add: sample_service_def)
qed

text \<open>
  C10. A passenger is charged with a no-show only after the wait the database holds. If marking
  a no-show changes anything, the ride was the calling driver's, had arrived, and the end of
  its waiting time had passed by the database's clock; it is now cancelled by that driver with
  the fault on the passenger, and no settlement, ledger entry or wallet has changed.
\<close>

theorem no_show_waits:
  assumes "schema_ok w" and "lv_store sv = Some (snapshot_lifecycle_store p f)"
    and "lifecycle_mark_passenger_no_show sv i d e w = (Inr x, w')" and "w' \<noteq> w"
  shows "\<exists>q until. q \<in> set (w_rides w) \<and> r_id q = i \<and> r_driver_id q = Some d \<and> r_status q = ''arrived'' \<and>
    r_waiting_until q = Some until \<and> until \<le> env_db_now e \<and>
    exists_where (\<lambda>q'. r_id q' = i \<and> r_status q' = ''cancelled'' \<and> r_cancelled_by q' = Some d \<and>
      r_cancellation_reason q' = ''passenger_no_show'' \<and>
      r_cancellation_responsibility q' = ''passenger_fault'' \<and> r_fare_amount q' = r_fare_amount q) (w_rides w') \<and>
    w_settlements w' = w_settlements w \<and> w_ledgers w' = w_ledgers w \<and> w_accounts w' = w_accounts w"
proof -
  have store: "ls_get (snapshot_lifecycle_store p f) i = io_lift (f i)"
    "ls_mark_passenger_no_show (snapshot_lifecycle_store p f) = repo_mark_passenger_no_show p"
    by (simp_all add: snapshot_lifecycle_store_def repo_lifecycle_store_def)
  from assms(3,4) obtain y v pl where ns: "repo_mark_passenger_no_show p i d e w = (Inr y, v)"
    and pub: "publish_ride_event ''ride.status.changed'' y pl e v = (Inr (), w')"
    unfolding lifecycle_mark_passenger_no_show_def assms(2) option.case
    by (auto simp: io_simps store split: if_splits option.splits)
  from ns schema_okD(1) [OF assms(1)] obtain q q' ev au until where
    m: "lifecycle_effect i d q q' ev [au] w v" and q: "r_driver_id q = Some d" "r_status q = ''arrived''"
      "r_waiting_until q = Some until" "until \<le> env_db_now e"
    and q': "q' = q\<lparr>r_status := ''cancelled'', r_completed_at := Some (env_db_now e),
               r_cancelled_by := Some d, r_cancellation_reason := ''passenger_no_show'',
               r_cancellation_responsibility := ''passenger_fault'',
               r_cancellation_details := ''Driver completed the server-enforced pickup wait.'',
               r_arrived_at := coalesce (r_arrived_at q) (Some (env_db_now e))\<rparr>"
    by (rule repo_mark_passenger_no_showE)
  have same: "w_rides w' = w_rides v" "w_settlements w' = w_settlements v" "w_ledgers w' = w_ledgers v"
    "w_accounts w' = w_accounts v"
    using publish_ride_event_after(2) [OF pub] by (auto simp: published_after_def)
  from m have e: "q \<in> set (w_rides w)" "r_id q = i" "w_rides w' = put_row r_id q' (w_rides w)"
    "w_settlements w' = w_settlements w" "w_ledgers w' = w_ledgers w" "w_accounts w' = w_accounts w"
    by (simp_all add: lifecycle_effect_def same)
  have "q' \<in> set (w_rides w')" unfolding e(3) by (rule put_row_in [OF e(1)]) (simp add: q')
  then show ?thesis
    using e q unfolding exists_where_def
    by (intro exI [of _ q] exI [of _ until]) (auto simp: q' intro!: bexI [of _ q'])
qed

definition no_show_service :: lifecycle_service where
  "no_show_service = (sample_service ''arrived'')\<lparr>lv_store := Some (snapshot_lifecycle_store sample_repository
     (\<lambda>_. Inr ((sample_view ''arrived'')\<lparr>rd_waiting_until := Some (1310 * second)\<rparr>)))\<rparr>"

definition run_no_show :: world where
  "run_no_show = snd (repo_mark_passenger_no_show sample_repository 10 2 (run_env 1400) run_arrived)"

lemma run_no_show_step:
  "\<exists>x. lifecycle_mark_passenger_no_show no_show_service 10 2 (run_env 1400) run_arrived = (Inr x, run_no_show)"
proof -
  have "isl (fst (repo_mark_passenger_no_show sample_repository 10 2 (run_env 1400) run_arrived)) = False"
    by code_simp
  from run_ok [OF this] obtain x where
    "repo_mark_passenger_no_show sample_repository 10 2 (run_env 1400) run_arrived = (Inr x, run_no_show)"
    unfolding run_no_show_def by blast
  then show ?thesis
    by (simp add: run_eval no_show_service_def lifecycle_mark_passenger_no_show_def)
qed

theorem no_show_waits_witness:
  "\<exists>q until. q \<in> set (w_rides run_arrived) \<and> r_id q = 10 \<and> r_driver_id q = Some 2 \<and> r_status q = ''arrived'' \<and>
    r_waiting_until q = Some until \<and> until \<le> env_db_now (run_env 1400) \<and>
    exists_where (\<lambda>q'. r_id q' = 10 \<and> r_status q' = ''cancelled'' \<and> r_cancelled_by q' = Some 2 \<and>
      r_cancellation_reason q' = ''passenger_no_show'' \<and>
      r_cancellation_responsibility q' = ''passenger_fault'' \<and> r_fare_amount q' = r_fare_amount q) (w_rides run_no_show) \<and>
    w_settlements run_no_show = w_settlements run_arrived \<and> w_ledgers run_no_show = w_ledgers run_arrived \<and>
    w_accounts run_no_show = w_accounts run_arrived"
proof -
  obtain x where "lifecycle_mark_passenger_no_show no_show_service 10 2 (run_env 1400) run_arrived = (Inr x, run_no_show)"
    using run_no_show_step by blast
  moreover have "run_no_show \<noteq> run_arrived" by code_simp
  ultimately show ?thesis
    by (intro no_show_waits [OF reachable_inv(2) [OF run_reaches_arrived]])
      (simp_all add: no_show_service_def)
qed

section \<open>Cash\<close>

lemma cash_report_amounts:
  assumes "new_cash_settlement fare received change outcome bps = Inr cs"
  shows "cash_outcome cs = outcome" and "cash_received_amount cs = received" and "cash_change_amount cs = change"
  using assms unfolding new_cash_settlement_def Let_def guarded_Inr by auto

text \<open>
  C8. Cash is recorded once. After a report with an outcome other than unpaid has been
  recorded in a reachable state, a later report for the same ride that succeeds, by whichever
  driver and repository, repeats exactly the recorded outcome and amounts, and changes no
  settlement, no wallet and no ledger entry.
\<close>

theorem cash_recorded_once:
  assumes "reachable p b w"
    and "settlement_settle_cash (Some (repo_settle_cash p)) q e w = (Inr x, v)" and "cs_outcome q \<noteq> ''unpaid''"
    and "settlement_settle_cash (Some (repo_settle_cash p)) q' e' v = (Inr y, w')" and "cs_ride_id q' = cs_ride_id q"
  shows "cs_outcome q' = cs_outcome q \<and> cs_received_amount q' = cs_received_amount q \<and>
    cs_change_amount q' = cs_change_amount q \<and> w_settlements w' = w_settlements v \<and>
    w_accounts w' = w_accounts v \<and> w_ledgers w' = w_ledgers v \<and> w_rides w' = w_rides v"
proof -
  have v: "reachable p b v" using assms(1,2) by (blast intro: reachable.step server_step.cash)
  note inv = reachable_inv [OF v] and inv0 = reachable_inv [OF assms(1)]
  have split: "\<exists>u y. repo_settle_cash p q e w = (Inr y, u) \<and> published_after u w'"
    if "settlement_settle_cash (Some (repo_settle_cash p)) q e w = (Inr x, w')" for q e w x w'
    using that unfolding settlement_settle_cash_def option.case
    by (auto simp: io_simps split: if_splits dest!: publish_ride_event_after(2))
  from split [OF assms(2)] obtain u z where u: "repo_settle_cash p q e w = (Inr z, u)" "published_after u v" by blast
  from split [OF assms(4)] obtain u' z' where u': "repo_settle_cash p q' e' v = (Inr z', u')" "published_after u' w'"
    by blast
  have recorded: "\<exists>s\<in>set (w_settlements v). st_ride_id s = cs_ride_id q \<and> st_cash_outcome s = cs_outcome q \<and>
      st_cash_received_amount s = cs_received_amount q \<and> st_cash_change_amount s = cs_change_amount q"
    using u(1) schema_okD(3,5,6) [OF inv0(2)]
  proof (cases rule: repo_settle_cash_cases)
    case (first r t t' cs)
    then obtain bps where cs: "new_cash_settlement (r_fare_amount r) (cs_received_amount q) (cs_change_amount q)
        (cs_outcome q) bps = Inr cs" by (auto simp: cash_effect_def)
    from first have t: "t \<in> set (w_settlements w)" "st_ride_id t' = cs_ride_id q" "st_id t' = st_id t"
      "st_cash_outcome t' = cash_outcome cs" "st_cash_received_amount t' = cash_received_amount cs"
      "st_cash_change_amount t' = cash_change_amount cs" "w_settlements u = put_row st_id t' (w_settlements w)"
      by (auto simp: cash_effect_def)
    have "t' \<in> set (w_settlements u)" unfolding t(7) by (rule put_row_in [OF t(1)]) (simp add: t(3))
    then show ?thesis
      using t cash_report_amounts [OF cs] u(2) by (auto simp: published_after_def)
  next
    case (again r t t')
    then have t: "t \<in> set (w_settlements w)" "st_ride_id t = cs_ride_id q" "cash_settlement_matches_record t q"
      and same: "u = w \<or> st_commission_bps t = None" by (auto simp: cash_repeat_def)
    moreover have "u = w"
      using same money_invD(1) [of w t] inv0(1) t(1) by (auto simp: server_inv_def settlement_linked_def)
    ultimately show ?thesis using u(2) by (auto simp: published_after_def cash_settlement_matches_record_def)
  qed
  then obtain s where s: "s \<in> set (w_settlements v)" "st_ride_id s = cs_ride_id q" "st_cash_outcome s = cs_outcome q"
    "st_cash_received_amount s = cs_received_amount q" "st_cash_change_amount s = cs_change_amount q" by blast
  show ?thesis
    using u'(1) schema_okD(3,5,6) [OF inv(2)]
  proof (cases rule: repo_settle_cash_cases)
    case (first r t t' cs)
    then have "t \<in> set (w_settlements v)" "st_ride_id t = cs_ride_id q'" "st_cash_outcome t = ''unpaid''"
      by (auto simp: cash_effect_def)
    with distinct_key_inj [OF schema_okD(4) [OF inv(2)] this(1) s(1)] s assms(3,5) show ?thesis by simp
  next
    case (again r t t')
    then have t: "t \<in> set (w_settlements v)" "st_ride_id t = cs_ride_id q'" "cash_settlement_matches_record t q'"
      and same: "u' = v \<or> st_commission_bps t = None" by (auto simp: cash_repeat_def)
    with distinct_key_inj [OF schema_okD(4) [OF inv(2)] t(1) s(1)] s assms(5) have "t = s" by simp
    moreover have "u' = v"
      using same money_invD(1) [of v t] inv(1) t(1) by (auto simp: server_inv_def settlement_linked_def)
    ultimately show ?thesis using t s u'(2) by (auto simp: published_after_def cash_settlement_matches_record_def)
  qed
qed

definition run_settled_again :: world where
  "run_settled_again = snd (settlement_settle_cash (Some (repo_settle_cash sample_repository)) sample_cash (run_env 2100) run_settled)"

theorem cash_recorded_once_witness:
  "cs_outcome sample_cash = cs_outcome sample_cash \<and> cs_received_amount sample_cash = cs_received_amount sample_cash \<and>
    cs_change_amount sample_cash = cs_change_amount sample_cash \<and>
    w_settlements run_settled_again = w_settlements run_settled \<and>
    w_accounts run_settled_again = w_accounts run_settled \<and> w_ledgers run_settled_again = w_ledgers run_settled \<and>
    w_rides run_settled_again = w_rides run_settled"
proof -
  let ?m = "settlement_settle_cash (Some (repo_settle_cash sample_repository)) sample_cash"
  have "isl (fst (?m (run_env 2100) run_settled)) = False" by code_simp
  from run_ok [OF this] obtain y where again: "?m (run_env 2100) run_settled = (Inr y, run_settled_again)"
    unfolding run_settled_again_def by blast
  from run_settled_ok obtain x where first: "?m (run_env 2000) run_completed = (Inr x, run_settled)" by blast
  show ?thesis
    by (rule cash_recorded_once [OF run_reaches_completed first _ again]) (simp_all add: sample_cash_def)
qed

end
