(* ===== verification/Command_Results.thy ===== *)
theory Command_Results
  imports Sample_Bid
begin

text \<open>
  What the commands that make a ride achieve: a driver taking a requested ride, a passenger
  choosing an offer, a direct request; and the commands that do not achieve what they should.
\<close>

section \<open>Taking a ride\<close>

text \<open>
  C11. A driver gets a ride only when entitled to it. If accepting succeeds, the ride was
  requested and free; the driver has a profile, an active and verified account (unless
  unverified test drivers are allowed), is online with a heartbeat inside the presence window,
  and had fewer than five rides under way; the ride is now the driver's, at the same fare, and
  has exactly one settlement, unpaid, whose commission and payout add up to the fare.
\<close>

theorem accept_ride_entitled:
  assumes "schema_ok w" and "list_all (\<lambda>r. int64_range (r_fare_amount r)) (w_rides w)"
    and "repo_accept_ride p i d e w = (Inr x, w')"
  shows "\<exists>r prof. r \<in> set (w_rides w) \<and> r_id r = i \<and> r_status r = ''requested'' \<and>
    prof \<in> set (w_driver_profiles w) \<and>
    online_driver w d (rr_allow_unverified_test_drivers p)
      (env_now e - (if rr_online_presence_max_age p \<le> 0 then default_online_presence_max_age
                    else rr_online_presence_max_age p)) prof \<and>
    count_where (driver_active_ride (Some d)) (w_rides w) < 5 \<and>
    exists_where (\<lambda>r'. r_id r' = i \<and> r_status r' = ''accepted'' \<and> r_driver_id r' = Some d \<and>
      r_passenger_id r' = r_passenger_id r \<and> r_fare_amount r' = r_fare_amount r) (w_rides w') \<and>
    count_where (\<lambda>st. st_ride_id st = i) (w_settlements w') = 1 \<and>
    exists_where (\<lambda>st. st_ride_id st = i \<and> st_gross_fare st = r_fare_amount r \<and>
      st_commission_amount st + st_driver_payout_amount st = r_fare_amount r \<and>
      0 \<le> st_commission_amount st \<and> 0 \<le> st_driver_payout_amount st \<and>
      st_payment_status st = ''unpaid'') (w_settlements w')"
proof -
  from assms(3) obtain r' st where t: "accept_ride_transaction p i d e w = (Inr (r', st), w')"
    by (auto simp: repo_accept_ride_def io_simps)
  from t schema_okD(1) [OF assms(1)] obtain r prof ss where
    r: "r \<in> set (w_rides w)" "r_id r = i" "r_status r = ''requested''"
    and prof: "prof \<in> set (w_driver_profiles w)"
      "online_driver w d (rr_allow_unverified_test_drivers p)
        (env_now e - (if rr_online_presence_max_age p \<le> 0 then default_online_presence_max_age
                      else rr_online_presence_max_age p)) prof"
    and c: "count_where (driver_active_ride (Some d)) (w_rides w) < max_active_rides_per_driver"
    and ss: "new_settlement_snapshot (r_fare_amount r) (rr_platform_commission_bps p) = Inr ss"
    and r': "r' = assign_driver ''accepted'' (Some d) (Some (dp_name prof)) (Some (dp_vehicle_type prof))
               (Some (dp_plate_number prof)) (ride_rating (dp_rating prof)) r"
    and st: "st_ride_id st = i" "st_gross_fare st = ss_fare_amount ss"
      "st_commission_amount st = ss_commission_amount ss"
      "st_driver_payout_amount st = ss_driver_payout_amount ss" "st_payment_status st = ''unpaid''"
      "\<not> exists_where (\<lambda>q. st_id q = st_id st) (w_settlements w)"
      "settlement_violation (w\<lparr>w_rides := put_row r_id r' (w_rides w)\<rparr>) st = None"
    and w': "w' = w\<lparr>w_rides := put_row r_id r' (w_rides w), w_settlements := w_settlements w @ [st]\<rparr>"
    by (rule accept_ride_transactionE)
  have "int64_range (r_fare_amount r)" using assms(2) r by (simp add: list_all_iff)
  note amounts = settlement_snapshot_amounts [OF ss this]
  have "\<not> exists_where (\<lambda>q. st_ride_id q = i) (w_settlements w)"
    using settlement_violation_ride [OF st(7)] st(1,6) by simp
  then have "count_where (\<lambda>q. st_ride_id q = i) (w_settlements w') = 1"
    using st(1) by (simp add: w' exists_where_iff)
  moreover have "exists_where (\<lambda>r'. r_id r' = i \<and> r_status r' = ''accepted'' \<and> r_driver_id r' = Some d \<and>
      r_passenger_id r' = r_passenger_id r \<and> r_fare_amount r' = r_fare_amount r) (w_rides w')"
    using put_row_in [OF r(1), of r_id r'] r(2) unfolding exists_where_def
    by (intro bexI [of _ r']) (simp_all add: w' r' assign_driver_def)
  moreover have "exists_where (\<lambda>st. st_ride_id st = i \<and> st_gross_fare st = r_fare_amount r \<and>
      st_commission_amount st + st_driver_payout_amount st = r_fare_amount r \<and>
      0 \<le> st_commission_amount st \<and> 0 \<le> st_driver_payout_amount st \<and>
      st_payment_status st = ''unpaid'') (w_settlements w')"
    using st amounts by (simp add: w' exists_where_def)
  ultimately show ?thesis
    using r prof c unfolding max_active_rides_per_driver_def by blast
qed

theorem accept_ride_entitled_witness:
  "\<exists>r prof. r \<in> set (w_rides run_requested) \<and> r_id r = 10 \<and> r_status r = ''requested'' \<and>
    prof \<in> set (w_driver_profiles run_requested) \<and>
    online_driver run_requested 2 (rr_allow_unverified_test_drivers sample_repository)
      (env_now (run_env 1000) - (if rr_online_presence_max_age sample_repository \<le> 0 then default_online_presence_max_age
                    else rr_online_presence_max_age sample_repository)) prof \<and>
    count_where (driver_active_ride (Some 2)) (w_rides run_requested) < 5 \<and>
    exists_where (\<lambda>r'. r_id r' = 10 \<and> r_status r' = ''accepted'' \<and> r_driver_id r' = Some 2 \<and>
      r_passenger_id r' = r_passenger_id r \<and> r_fare_amount r' = r_fare_amount r) (w_rides run_accepted) \<and>
    count_where (\<lambda>st. st_ride_id st = 10) (w_settlements run_accepted) = 1 \<and>
    exists_where (\<lambda>st. st_ride_id st = 10 \<and> st_gross_fare st = r_fare_amount r \<and>
      st_commission_amount st + st_driver_payout_amount st = r_fare_amount r \<and>
      0 \<le> st_commission_amount st \<and> 0 \<le> st_driver_payout_amount st \<and>
      st_payment_status st = ''unpaid'') (w_settlements run_accepted)"
proof -
  have "list_all (\<lambda>r. int64_range (r_fare_amount r)) (w_rides run_requested)" by code_simp
  moreover obtain x where "repo_accept_ride sample_repository 10 2 (run_env 1000) run_requested = (Inr x, run_accepted)"
    using run_ok [OF run_steps_ok(1)] unfolding run_accepted_def by blast
  ultimately show ?thesis by (rule accept_ride_entitled [OF reachable_inv(2) [OF run_reaches_requested]])
qed

section \<open>Choosing an offer\<close>

lemma offer_after_closes:
  "of_session_id (offer_after i j d full c) \<noteq> i \<or> of_status (offer_after i j d full c) \<noteq> ''pending''"
  by (simp add: offer_after_def)

text \<open>
  C7. Accepting an offer settles the auction. If accepting an offer changes anything, the
  caller owned the session, which was open and not expired, and the pending offer was one of
  its offers, from the targeted driver if there is one; the driver had fewer than five rides under
  way and the passenger none; afterwards the session is accepted for that driver, the offer is
  accepted, no other offer of the session is still pending, and one new ride carries the
  offer's driver and fare and the session's passenger and booking reference.
\<close>

theorem accept_offer_settles:
  assumes "schema_ok w" and "store_accept_offer st i j k e w = (Inr x, w')" and "w' \<noteq> w"
  shows "\<exists>s b r. s \<in> set (w_sessions w) \<and> s_id s = i \<and> s_passenger_id s = k \<and> session_live (env_now e) s \<and>
    b \<in> set (w_offers w) \<and> of_id b = j \<and> of_session_id b = i \<and> of_status b = ''pending'' \<and>
    (s_target_driver_id s = None \<or> s_target_driver_id s = Some (of_driver_id b)) \<and>
    count_where (driver_active_ride (Some (of_driver_id b))) (w_rides w) < 5 \<and>
    count_where (passenger_active_ride k) (w_rides w) = 0 \<and>
    s\<lparr>s_status := ''accepted'', s_accepted_driver_id := Some (of_driver_id b)\<rparr> \<in> set (w_sessions w') \<and>
    b\<lparr>of_status := ''accepted''\<rparr> \<in> set (w_offers w') \<and>
    list_all (\<lambda>c. of_session_id c \<noteq> i \<or> of_status c \<noteq> ''pending'') (w_offers w') \<and>
    w_rides w' = w_rides w @ [r] \<and> r_passenger_id r = k \<and> r_driver_id r = Some (of_driver_id b) \<and>
    r_fare_amount r = of_proposed_fare b \<and> r_booking_reference r = s_booking_reference s \<and>
    r_bid_session_id r = Some i \<and> r_status r = ''accepted''"
  using assms(2,1)
proof (cases rule: store_accept_offer_cases)
  case accepted
  then obtain s b r st' full where
    s: "s \<in> set (w_sessions w)" "s_id s = i" "s_passenger_id s = k" "session_live (env_now e) s"
    and b: "b \<in> set (w_offers w)" "of_id b = j" "of_session_id b = i" "of_status b = ''pending''"
      "s_target_driver_id s = None \<or> s_target_driver_id s = Some (of_driver_id b)"
    and c: "count_where (driver_active_ride (Some (of_driver_id b))) (w_rides w) < max_active_rides_per_driver"
      "\<not> exists_where (\<lambda>r. r_passenger_id r = k \<and> r_status r \<in> set passenger_active_statuses) (w_rides w)"
    and r: "r_passenger_id r = k" "r_driver_id r = Some (of_driver_id b)" "r_status r = ''accepted''"
      "r_fare_amount r = of_proposed_fare b" "r_bid_session_id r = Some i" "r_booking_reference r = s_booking_reference s"
    and w': "w' = w\<lparr>w_sessions := put_row s_id
         (s\<lparr>s_status := ''accepted'', s_accepted_driver_id := Some (of_driver_id b)\<rparr>) (w_sessions w),
       w_offers := map (offer_after i j (of_driver_id b) full) (w_offers w),
       w_rides := w_rides w @ [r], w_settlements := w_settlements w @ [st']\<rparr>"
    unfolding offer_accepted_def by blast
  let ?s = "s\<lparr>s_status := ''accepted'', s_accepted_driver_id := Some (of_driver_id b)\<rparr>"
  have "?s \<in> set (w_sessions w')" unfolding w' using put_row_in [OF s(1), of s_id ?s] by simp
  moreover have "offer_after i j (of_driver_id b) full b = b\<lparr>of_status := ''accepted''\<rparr>"
    using b by (simp add: offer_after_def)
  then have "b\<lparr>of_status := ''accepted''\<rparr> \<in> set (w_offers w')"
    using imageI [OF b(1), of "offer_after i j (of_driver_id b) full"] by (simp add: w')
  moreover have "list_all (\<lambda>c. of_session_id c \<noteq> i \<or> of_status c \<noteq> ''pending'') (w_offers w')"
    using offer_after_closes [of i j "of_driver_id b" full] by (simp add: w' list_all_iff)
  moreover have "count_where (passenger_active_ride k) (w_rides w) = 0"
    using c(2) by (simp add: exists_where_iff passenger_active_ride_def [abs_def])
  moreover have "w_rides w' = w_rides w @ [r]" by (simp add: w')
  ultimately show ?thesis
    using s b c(1) r unfolding max_active_rides_per_driver_def
    by (intro exI [of _ s] exI [of _ b] exI [of _ r] conjI)
next
  case repeated
  with assms(3) show ?thesis by simp
qed

definition bid_matched :: world where
  "bid_matched = snd (store_accept_offer sample_store 30 40 1 (bid_env 1010) bid_placed)"

lemma bid_matched_ok:
  "\<exists>x. store_accept_offer sample_store 30 40 1 (bid_env 1010) bid_placed = (Inr x, bid_matched)"
  "bid_matched \<noteq> bid_placed"
proof -
  have r: "map_prod isl (\<lambda>w. length (w_rides w)) (store_accept_offer sample_store 30 40 1 (bid_env 1010) bid_placed) = (False, 1)"
    by code_simp
  then show "\<exists>x. store_accept_offer sample_store 30 40 1 (bid_env 1010) bid_placed = (Inr x, bid_matched)"
    unfolding bid_matched_def
    by (cases "store_accept_offer sample_store 30 40 1 (bid_env 1010) bid_placed";
        cases "fst (store_accept_offer sample_store 30 40 1 (bid_env 1010) bid_placed)") auto
  have "length (w_rides bid_placed) = 0" by code_simp
  with arg_cong [OF r, of snd] show "bid_matched \<noteq> bid_placed" by (auto simp: bid_matched_def)
qed

theorem accept_offer_settles_witness:
  "\<exists>s b r. s \<in> set (w_sessions bid_placed) \<and> s_id s = 30 \<and> s_passenger_id s = 1 \<and> session_live (env_now (bid_env 1010)) s \<and>
    b \<in> set (w_offers bid_placed) \<and> of_id b = 40 \<and> of_session_id b = 30 \<and> of_status b = ''pending'' \<and>
    (s_target_driver_id s = None \<or> s_target_driver_id s = Some (of_driver_id b)) \<and>
    count_where (driver_active_ride (Some (of_driver_id b))) (w_rides bid_placed) < 5 \<and>
    count_where (passenger_active_ride 1) (w_rides bid_placed) = 0 \<and>
    s\<lparr>s_status := ''accepted'', s_accepted_driver_id := Some (of_driver_id b)\<rparr> \<in> set (w_sessions bid_matched) \<and>
    b\<lparr>of_status := ''accepted''\<rparr> \<in> set (w_offers bid_matched) \<and>
    list_all (\<lambda>c. of_session_id c \<noteq> 30 \<or> of_status c \<noteq> ''pending'') (w_offers bid_matched) \<and>
    w_rides bid_matched = w_rides bid_placed @ [r] \<and> r_passenger_id r = 1 \<and> r_driver_id r = Some (of_driver_id b) \<and>
    r_fare_amount r = of_proposed_fare b \<and> r_booking_reference r = s_booking_reference s \<and>
    r_bid_session_id r = Some 30 \<and> r_status r = ''accepted''"
proof -
  obtain x where "store_accept_offer sample_store 30 40 1 (bid_env 1010) bid_placed = (Inr x, bid_matched)"
    using bid_matched_ok(1) by blast
  moreover have "bid_matched \<noteq> bid_placed" by (rule bid_matched_ok(2))
  ultimately show ?thesis by (rule accept_offer_settles [OF reachable_inv(2) [OF bid_reaches(3)]])
qed

section \<open>Direct requests\<close>

lemma ride_violation_same_ends:
  assumes "r_pickup_latitude r = Some a" and "r_dropoff_latitude r = Some a"
    and "r_pickup_longitude r = Some b" and "r_dropoff_longitude r = Some b"
  shows "ride_violation w r \<noteq> None"
proof
  assume "ride_violation w r = None"
  then have "r_pickup_latitude r = None \<or> r_pickup_longitude r = None \<or>
         r_dropoff_latitude r = None \<or> r_dropoff_longitude r = None \<or>
         r_pickup_latitude r \<noteq> r_dropoff_latitude r \<or> r_pickup_longitude r \<noteq> r_dropoff_longitude r"
    unfolding ride_violation_def Let_def
    by (rule first_violation_NoneD [where x = "check_violation ''rides_pickup_dropoff_different_check''"]) simp
  with assms show False by simp
qed

lemma create_ride_same_ends:
  "create_ride i st fare (Some a) (Some b) n (Some a) (Some b) m km mins e w \<noteq> (Inr row, w')"
proof
  assume "create_ride i st fare (Some a) (Some b) n (Some a) (Some b) m km mins e w = (Inr row, w')"
  then obtain v where "ride_violation v row = None" "r_pickup_latitude row = Some a"
    "r_dropoff_latitude row = Some a" "r_pickup_longitude row = Some b" "r_dropoff_longitude row = Some b"
    by (auto simp: create_ride_def insert_ride_def io_simps)
  with ride_violation_same_ends show False by blast
qed

text \<open>
  C16. A request without coordinates never succeeds. \<open>BookingService.Create\<close> takes only a
  passenger and an amount, so the ride it stores has pickup and drop-off at the zero point, and
  the schema refuses a ride whose two ends coincide: whatever the database holds, the request
  fails and nothing is stored.
\<close>

theorem request_without_route_fails:
  assumes "bk_writer sv = Some (repo_create_ride p)"
  shows "\<exists>x. booking_create sv i amount e w = (Inl x, w)"
proof -
  have fails: "repo_create_ride p (zero_ride\<lparr>rd_passenger_id := i, rd_status := s, rd_fare_amount := a\<rparr>) e v
      \<noteq> (Inr x, v')" for s a x v v'
    unfolding repo_create_ride_def
    by (auto simp: io_simps Let_def zero_ride_def create_ride_same_ends)
  obtain r w' where r: "booking_create sv i amount e w = (r, w')" by (metis surjective_pairing)
  have "\<exists>x. r = Inl x \<and> w' = w"
  proof (cases r)
    case (Inr x)
    with r show ?thesis
      unfolding booking_create_def assms option.case
      by (auto simp: io_simps fails split: if_splits)
  next
    case (Inl x)
    with r show ?thesis
      unfolding booking_create_def assms option.case
      by (auto simp: io_simps io_bind_Inl publish_ride_event_not_Inl split: if_splits
          dest: read_onlyD [OF read_only_check_active] repo_create_ride_atomic)
  qed
  with r show ?thesis by simp
qed

theorem request_without_route_fails_witness:
  "\<exists>x. booking_create sample_booking 1 10000 (run_env 900) run_start = (Inl x, run_start)"
  by (rule request_without_route_fails [where p = sample_repository]) (simp add: sample_booking_def)



section \<open>Withdrawing from an auction\<close>

lemma reject_one:
  "of_session_id (if of_status b = ''pending'' \<and> of_session_id b = i then b\<lparr>of_status := ''rejected''\<rparr> else b) \<noteq> i \<or>
   of_status (if of_status b = ''pending'' \<and> of_session_id b = i then b\<lparr>of_status := ''rejected''\<rparr> else b) \<noteq> ''pending''"
proof (cases "of_status b = ''pending'' \<and> of_session_id b = i")
  case True
  then show ?thesis by simp
next
  case False
  then show ?thesis unfolding if_not_P [OF False] by blast
qed

text \<open>
  C14. Anyone can empty an auction. Cancelling a session one does not own is answered with
  \<open>session not found\<close>, but the statement has by then rejected every pending offer of that
  session, and nothing undoes it: the first half of the statement does not check the
  passenger, and \<open>CancelSession\<close> runs it outside a transaction.
\<close>

theorem foreign_cancel_rejects_offers:
  assumes "bd_initialized st" and "0 < i" and "i \<le> max_postgres_ride_id" and "0 < k" and "k \<le> max_postgres_ride_id"
    and "\<not> env_fault e ''ExpireBidSessions''" and "\<not> env_fault e ''CancelBidSession''"
    and "list_all (\<lambda>s. s_id s \<noteq> i \<or> s_passenger_id s \<noteq> k) (w_sessions w)"
  shows "fst (store_cancel_session st i k e w) = Inl ErrSessionNotFound \<and>
    list_all (\<lambda>b. of_session_id b \<noteq> i \<or> of_status b \<noteq> ''pending'')
      (w_offers (snd (store_cancel_session st i k e w)))"
proof -
  obtain v where v: "expire_bid_sessions k (env_now e) e w = (Inr (), v)"
    and sess: "w_sessions v = upd_where (session_expired k (env_now e)) (\<lambda>s. s\<lparr>s_status := ''expired''\<rparr>) (w_sessions w)"
    using assms(6) by (simp add: expire_bid_sessions_def query_def Let_def reject_pending_def)
  have "list_all (\<lambda>s. s_id s \<noteq> i \<or> s_passenger_id s \<noteq> k) (w_sessions v)"
    using assms(8) unfolding sess list_all_iff by (auto simp: set_upd_where)
  then have none: "List.find (\<lambda>s. s_id s = i \<and> s_passenger_id s = k \<and> s_status s = ''open'') (w_sessions v) = None"
    by (auto simp: find_None_iff list_all_iff)
  have "store_cancel_session st i k e w = (Inl ErrSessionNotFound, reject_pending (\<lambda>b. of_session_id b = i) v)"
    using assms(1-5,7) v none
    by (simp add: store_cancel_session_def store_validate_def to_postgres_ride_id_def io_bind_def io_return_def
        io_lift_def io_env_def io_map_err_def cancel_bid_session_def query_def Let_def)
  moreover have "list_all (\<lambda>b. of_session_id b \<noteq> i \<or> of_status b \<noteq> ''pending'')
      (w_offers (reject_pending (\<lambda>b. of_session_id b = i) v))"
    unfolding list_all_iff
  proof
    fix c assume "c \<in> set (w_offers (reject_pending (\<lambda>b. of_session_id b = i) v))"
    then have "c \<in> set (upd_where (\<lambda>b. of_status b = ''pending'' \<and> of_session_id b = i)
        (\<lambda>b. b\<lparr>of_status := ''rejected''\<rparr>) (w_offers v))" by (simp add: reject_pending_def)
    then obtain b where "c = (if of_status b = ''pending'' \<and> of_session_id b = i
        then b\<lparr>of_status := ''rejected''\<rparr> else b)"
      by (rule in_upd_whereE)
    with reject_one [of b i] show "of_session_id c \<noteq> i \<or> of_status c \<noteq> ''pending''" by (simp only:)
  qed
  ultimately show ?thesis by simp
qed

theorem foreign_cancel_rejects_offers_witness:
  "fst (store_cancel_session sample_store 30 2 (bid_env 1006) bid_placed) = Inl ErrSessionNotFound \<and>
    list_all (\<lambda>b. of_session_id b \<noteq> 30 \<or> of_status b \<noteq> ''pending'')
      (w_offers (snd (store_cancel_session sample_store 30 2 (bid_env 1006) bid_placed))) \<and>
    map of_status (w_offers bid_placed) = [''pending'']"
proof -
  have "list_all (\<lambda>s. s_id s \<noteq> 30 \<or> s_passenger_id s \<noteq> 2) (w_sessions bid_placed)"
    and pending: "map of_status (w_offers bid_placed) = [''pending'']" by code_simp+
  from foreign_cancel_rejects_offers [OF _ _ _ _ _ _ _ this(1), of sample_store "bid_env 1006"] pending
  show ?thesis
    by (simp add: sample_store_def bid_env_def run_env_def max_postgres_ride_id_def)
qed

definition older_offer_world :: world where
  "older_offer_world = bid_placed\<lparr>w_offers := \<lparr>of_id = 39, of_session_id = 30, of_driver_id = 2,
     of_driver_name = None, of_plate_number = None, of_vehicle_type = None, of_proposed_fare = 8000,
     of_status = ''rejected'', of_created_at = Some (1001 * second)\<rparr> # w_offers bid_placed\<rparr>"

definition withdraw_env :: env where
  "withdraw_env = (bid_env 1006)\<lparr>env_fault := \<lambda>n. n = ''CancelPendingBidOffer''\<rparr>"

definition withdrawal :: "(err + bid_offer) \<times> world" where
  "withdrawal = bidding_cancel_offer (sample_bidding\<lparr>bv_store := Some (dispatch_bidding_store sample_store)\<rparr>)
     30 2 withdraw_env older_offer_world"


end
