(* ===== verification/Progress.thy ===== *)
theory Progress
  imports Sample_Bid
begin

text \<open>
  Commands that must succeed: with nothing failing outside the program, a row that meets the
  schema's constraints and fresh identifiers, a trip under way can be completed.
\<close>

lemma from_postgres_ride_row_total:
  "r_created_at (gr_ride g) \<noteq> None \<Longrightarrow> \<exists>x. from_postgres_ride_row g = Inr x"
  by (simp add: from_postgres_ride_row_def from_postgres_ride_with_driver_profile_def
      from_postgres_ride_projection_def from_postgres_ride_def)

lemma get_ride_by_id_total:
  assumes "distinct (map r_id (w_rides w))" and "r \<in> set (w_rides w)" and "\<not> env_fault e ''GetRideByID''"
  shows "\<exists>g. get_ride_by_id (r_id r) e w = (Inr g, w) \<and> gr_ride g = r"
  using assms find_key_unique [OF assms(1,2) refl]
  by (simp add: get_ride_by_id_def select_one_def query_def Let_def)

lemma read_total:
  assumes "distinct (map r_id (w_rides w))" and "r \<in> set (w_rides w)" and "\<not> env_fault e ''GetRideByID''"
    and "r_created_at r \<noteq> None"
  shows "\<exists>x. read_ride_projection (r_id r) e w = (Inr x, w) \<and> shows_ride x r"
proof -
  obtain g where g: "get_ride_by_id (r_id r) e w = (Inr g, w)" "gr_ride g = r"
    using get_ride_by_id_total [OF assms(1-3)] by blast
  moreover obtain x where "from_postgres_ride_row g = Inr x"
    using from_postgres_ride_row_total assms(4) g(2) by blast
  ultimately show ?thesis
    using shows_ride_row [of g x] by (auto simp: read_ride_projection_def io_bind_def io_lift_def)
qed

lemma repo_get_total:
  assumes "distinct (map r_id (w_rides w))" and "r \<in> set (w_rides w)" and "\<not> env_fault e ''GetRideByID''"
    and "r_created_at r \<noteq> None" and "rr_initialized p" and "0 < r_id r" and "r_id r \<le> max_postgres_ride_id"
  shows "\<exists>x. repo_get p (r_id r) e w = (Inr x, w) \<and> shows_ride x r"
proof -
  obtain g where g: "get_ride_by_id (r_id r) e w = (Inr g, w)" "gr_ride g = r"
    using get_ride_by_id_total [OF assms(1-3)] by blast
  moreover obtain x where "from_postgres_ride_row g = Inr x"
    using from_postgres_ride_row_total assms(4) g(2) by blast
  ultimately show ?thesis
    using shows_ride_row [of g x] assms(5-7)
    by (auto simp: repo_get_def io_bind_def io_lift_def io_map_err_def validate_native_read_repository_def
        io_return_def to_postgres_ride_id_def)
qed

lemma update_ride_total:
  assumes "distinct (map r_id (w_rides w))" and "r \<in> set (w_rides w)" and "\<not> env_fault e n"
    and "p e r" and "\<And>q. p e q \<Longrightarrow> r_id q = r_id r" and "r_id (f e r) = r_id r" and "ride_violation w (f e r) = None"
  shows "update_ride n p f e w = (Inr (f e r), w\<lparr>w_rides := put_row r_id (f e r) (w_rides w)\<rparr>)"
proof -
  have find: "List.find (p e) (w_rides w) = Some r"
  proof (cases "List.find (p e) (w_rides w)")
    case None
    with assms(2,4) show ?thesis by (auto simp: find_None_iff)
  next
    case (Some q)
    then have "p e q" "q \<in> set (w_rides w)" by (auto dest: find_SomeD)
    with distinct_key_inj [OF assms(1) _ assms(2)] assms(5) Some show ?thesis by blast
  qed
  show ?thesis
    using assms(3,7) find upd_where_put_row [where f = "f e", OF assms(1) find assms(5,6)]
    by (simp add: update_ride_def update_one_def query_def)
qed

lemma completed_row_valid:
  assumes "ride_violation w r = None" and "r_status r = ''in_transit''"
  shows "ride_violation w (r\<lparr>r_status := ''completed'', r_completed_at := t\<rparr>) = None"
  using assms unfolding ride_violation_def Let_def first_violation_None
  by (auto simp: passenger_active_statuses_def)

lemma ride_driver_known:
  assumes "ride_violation w r = None" and "r_driver_id r = Some d"
  shows "user_exists w d"
proof -
  have "null_or (user_exists w) (r_driver_id r)"
    using assms(1) unfolding ride_violation_def Let_def
    by (rule first_violation_NoneD [where x = "fk_violation ''rides_driver_fk''"]) simp
  with assms(2) show ?thesis by simp
qed

text \<open>The event and the audit record of a command, when their identifiers are fresh.\<close>

definition fresh_records :: "env \<Rightarrow> world \<Rightarrow> bool" where
  "fresh_records e w \<longleftrightarrow>
     \<not> exists_where (\<lambda>v. re_id v = env_nextval e ''ride_events'' \<or> re_request_id v = env_request_id e) (w_events w) \<and>
     \<not> exists_where (\<lambda>a. ae_id a = env_nextval e ''audit_events'' \<or> ae_request_id a = env_request_id e @ ''-audit'') (w_audits w)"

lemma commit_total:
  assumes "fresh_records e w" and "\<And>n. \<not> env_fault e n" and "user_exists w d"
    and "distinct (map r_id (w_rides w))" and "r \<in> set (w_rides w)" and "r_created_at r \<noteq> None"
  shows "\<exists>x w'. commit_lifecycle_command (r_id r) d f t act e w = (Inr x, w') \<and> shows_ride x r \<and>
    w_rides w' = w_rides w"
proof -
  define ev where "ev = \<lparr>re_id = env_nextval e ''ride_events'', re_ride_id = r_id r, re_actor_id = d,
     re_event_type = ''ride.status_changed'', re_from_status = status_str f, re_to_status = status_str t,
     re_reason = '''', re_responsibility = '''', re_details = '''', re_request_id = env_request_id e,
     re_created_at = Some (env_db_now e)\<rparr>"
  define au where "au = \<lparr>ae_id = env_nextval e ''audit_events'', ae_actor_id = d, ae_action = act,
     ae_target_type = ''ride'', ae_target_id = Some (itoa (r_id r)), ae_outcome = ''success'',
     ae_request_id = env_request_id e @ ''-audit'', ae_created_at = Some (env_db_now e)\<rparr>"
  let ?v = "w\<lparr>w_events := w_events w @ [ev]\<rparr>"
  let ?u = "?v\<lparr>w_audits := w_audits w @ [au]\<rparr>"
  have fresh: "\<not> exists_where (\<lambda>v. re_id v = env_nextval e ''ride_events'') (w_events w)"
    "\<not> exists_where (\<lambda>v. re_request_id v = env_request_id e) (w_events w)"
    "\<not> exists_where (\<lambda>a. ae_id a = env_nextval e ''audit_events'') (w_audits w)"
    "\<not> exists_where (\<lambda>a. ae_request_id a = env_request_id e @ ''-audit'') (w_audits w)"
    using assms(1) by (auto simp: fresh_records_def exists_where_def)
  have ride: "exists_where (\<lambda>q. r_id q = r_id r) (w_rides w)" using assms(5) by (auto simp: exists_where_def)
  have "create_ride_event (r_id r) d ''ride.status_changed'' (status_str f) (status_str t) '''' '''' ''''
      (env_request_id e) e w = (Inr ev, ?v)"
    using assms(2,3) fresh(1,2) ride
    by (simp add: create_ride_event_def insert_one_def query_def event_violation_def ev_def rune_count.simps)
  moreover have "create_audit_event d act ''ride'' (Some (itoa (r_id r))) ''success'' (env_request_id e @ ''-audit'')
      e ?v = (Inr au, ?u)"
    using assms(2,3) fresh(3,4)
    by (simp add: create_audit_event_def insert_one_def query_def audit_violation_def au_def user_exists_def)
  moreover obtain x where "read_ride_projection (r_id r) e ?u = (Inr x, ?u)" "shows_ride x r"
    using read_total [of ?u r e] assms by auto
  ultimately show ?thesis
    using assms(2)
    by (simp add: commit_lifecycle_command_def new_audit_request_id_def query_def io_bind_def io_env_def)
qed

text \<open>
  C12. A trip under way can always be completed. With no failure outside the program and fresh
  record identifiers, the driver's command to complete a trip that is in transit, on a row that
  meets the constraints of the schema, succeeds, answers with the completed ride, and leaves it
  completed in the database.
\<close>

theorem complete_trip_succeeds:
  assumes "schema_ok w" and "rr_initialized p" and "lv_store sv = Some (repo_lifecycle_store p)"
    and "r \<in> set (w_rides w)" and "r_driver_id r = Some d" and "r_status r = ''in_transit''"
    and "ride_violation w r = None" and "0 < r_id r" and "r_id r \<le> max_postgres_ride_id"
    and "0 < d" and "d \<le> max_postgres_ride_id" and "fresh_records e w" and "\<And>n. \<not> env_fault e n"
  shows "\<exists>x w'. lifecycle_complete_trip sv (r_id r) d e w = (Inr x, w') \<and> rd_status x = ''completed'' \<and>
    exists_where (\<lambda>r'. r_id r' = r_id r \<and> r_status r' = ''completed'' \<and> r_fare_amount r' = r_fare_amount r) (w_rides w')"
proof -
  note d = schema_okD(1) [OF assms(1)]
  have created: "r_created_at r \<noteq> None" using schema_okD(2) [OF assms(1)] assms(4) by (simp add: list_all_iff)
  obtain cur where cur: "repo_get p (r_id r) e w = (Inr cur, w)" "shows_ride cur r"
    using repo_get_total [OF d assms(4) assms(13) created assms(2,8,9)] by blast
  have see: "rd_driver_id cur = Some d" "normalize_ride_status (rd_status cur) = Some RideInTransit"
    using cur(2) assms(5,6,10) by (simp_all add: shows_ride_def ride_optional_int_def)
  define r' where "r' = r\<lparr>r_status := ''completed'',
    r_completed_at := coalesce (r_completed_at r) (Some (env_db_now e))\<rparr>"
  let ?v = "w\<lparr>w_rides := put_row r_id r' (w_rides w)\<rparr>"
  have "complete_ride (r_id r) (Some d) e w = (Inr r', ?v)"
    unfolding complete_ride_def r'_def
    by (rule update_ride_total [OF d assms(4)])
      (use assms completed_row_valid in \<open>auto simp: sql_eq_def\<close>)
  moreover obtain x w' where x: "commit_lifecycle_command (r_id r) d RideInTransit RideCompleted ''ride.completed''
      e ?v = (Inr x, w')" "shows_ride x r'" "w_rides w' = w_rides ?v"
  proof -
    have "r' \<in> set (w_rides ?v)" using put_row_in [OF assms(4), of r_id r'] by (simp add: r'_def)
    moreover have "fresh_records e ?v" "user_exists ?v d" "distinct (map r_id (w_rides ?v))" "r_created_at r' \<noteq> None"
      using assms(12) ride_driver_known [OF assms(7,5)] d created
      by (simp_all add: fresh_records_def user_exists_def r'_def)
    ultimately show thesis
      using commit_total [of e ?v d r' RideInTransit RideCompleted "''ride.completed''"] assms(13) that
      by (auto simp: r'_def)
  qed
  ultimately have complete: "repo_complete_trip p (r_id r) d e w = (Inr x, w')"
    using assms(2,8-11,13)
    by (simp add: repo_complete_trip_def validate_native_read_repository_def io_bind_def io_return_def io_lift_def
        to_postgres_ride_id_def transaction_def)
  obtain w'' where pub: "publish_ride_event ''ride.status.changed'' x
      [(''previous_status'', PString (status_str RideInTransit)), (''ride'', PRide x)] e w' = (Inr (), w'')"
    and after: "published_after w' w''"
    using publish_ride_event_after by (metis surjective_pairing)
  have "lifecycle_complete_trip sv (r_id r) d e w = (Inr x, w'')"
    using cur(1) see complete pub
    by (simp add: lifecycle_complete_trip_def assms(3) repo_lifecycle_store_def io_bind_def io_return_def)
  moreover have "w_rides w'' = put_row r_id r' (w_rides w)"
    using after x(3) by (auto simp: published_after_def)
  then have "r' \<in> set (w_rides w'')" using put_row_in [OF assms(4), of r_id r'] by (simp add: r'_def)
  then have "exists_where (\<lambda>r'. r_id r' = r_id r \<and> r_status r' = ''completed'' \<and> r_fare_amount r' = r_fare_amount r) (w_rides w'')"
    unfolding exists_where_def by (rule rev_bexI) (simp add: r'_def)
  moreover have "rd_status x = ''completed''" using x(2) by (simp add: shows_ride_def r'_def)
  ultimately show ?thesis by blast
qed

theorem complete_trip_succeeds_witness:
  "\<exists>x w'. lifecycle_complete_trip ((sample_service '''')\<lparr>lv_store := Some (repo_lifecycle_store sample_repository)\<rparr>)
      10 2 ((run_env 1900)\<lparr>env_fault := \<lambda>_. False\<rparr>) run_driving = (Inr x, w') \<and> rd_status x = ''completed'' \<and>
    exists_where (\<lambda>r'. r_id r' = 10 \<and> r_status r' = ''completed'' \<and> r_fare_amount r' = 10000) (w_rides w')"
proof -
  let ?r = "run_ride ''in_transit'' (Some (1010 * second)) None"
  have "ride_violation run_driving ?r = None" by code_simp
  moreover have "fresh_records ((run_env 1900)\<lparr>env_fault := \<lambda>_. False\<rparr>) run_driving" by code_simp
  moreover have r: "r_id ?r = 10" "r_driver_id ?r = Some 2" "r_status ?r = ''in_transit''" "r_fare_amount ?r = 10000"
    by (simp_all add: run_ride_def sample_ride_def)
  moreover have "?r \<in> set (w_rides run_driving)" by (simp add: run_driving_code)
  ultimately show ?thesis
    using complete_trip_succeeds [OF reachable_inv(2) [OF run_reaches_driving], where r = ?r and d = 2 and
        p = sample_repository and e = "(run_env 1900)\<lparr>env_fault := \<lambda>_. False\<rparr>" and
        sv = "(sample_service '''')\<lparr>lv_store := Some (repo_lifecycle_store sample_repository)\<rparr>"]
    by (simp add: sample_repository_def max_postgres_ride_id_def)
qed

end
