(* ===== verification/Ride_Spec.thy ===== *)
theory Ride_Spec
  imports Invariants
begin

text \<open>
  The abstract ride: what the modules promise one another about rides, with no tables,
  strings, clocks, statements or failures. The server refines it: whatever a step of the
  server does is invisible here, or one step of this specification.
\<close>

record ride_view =
  v_passenger :: int
  v_fare :: int
  v_status :: ride_status
  v_driver :: "int option"

inductive ride_spec :: "(int \<rightharpoonup> ride_view) \<Rightarrow> (int \<rightharpoonup> ride_view) \<Rightarrow> bool" where
  request: "m i = None \<Longrightarrow>
    ride_spec m (m(i \<mapsto> \<lparr>v_passenger = k, v_fare = f, v_status = RideRequested, v_driver = None\<rparr>))"
| match: "m i = None \<Longrightarrow>
    ride_spec m (m(i \<mapsto> \<lparr>v_passenger = k, v_fare = f, v_status = RideAccepted, v_driver = Some d\<rparr>))"
| take: "m i = Some v \<Longrightarrow> v_status v = RideRequested \<Longrightarrow> v_driver v = None \<Longrightarrow>
    ride_spec m (m(i \<mapsto> v\<lparr>v_status := RideAccepted, v_driver := Some d\<rparr>))"
| move: "m i = Some v \<Longrightarrow> status_successor (v_status v) t \<Longrightarrow> ride_spec m (m(i \<mapsto> v\<lparr>v_status := t\<rparr>))"

inductive_simps ride_spec_simps: "ride_spec m m'"

text \<open>What a row shows of a ride, and a database of its rides.\<close>

definition status_view :: "string \<Rightarrow> ride_status" where
  "status_view s = (case normalize_ride_status s of Some st \<Rightarrow> st | None \<Rightarrow> RideCancelled)"

definition row_view :: "ride_row \<Rightarrow> ride_view" where
  "row_view r = \<lparr>v_passenger = r_passenger_id r, v_fare = r_fare_amount r,
     v_status = status_view (r_status r), v_driver = r_driver_id r\<rparr>"

definition rides_view :: "ride_row list \<Rightarrow> int \<rightharpoonup> ride_view" where
  "rides_view t = map_of (map (\<lambda>r. (r_id r, row_view r)) t)"

lemma rides_view_in:
  assumes "distinct (map r_id t)" and "r \<in> set t"
  shows "rides_view t (r_id r) = Some (row_view r)"
  using assms unfolding rides_view_def by (intro map_of_is_SomeI) (auto simp: comp_def)

lemma rides_view_absent: "\<not> exists_where (\<lambda>q. r_id q = i) t \<Longrightarrow> rides_view t i = None"
  by (auto simp: rides_view_def map_of_eq_None_iff exists_where_def)

lemma rides_view_append:
  assumes "\<not> exists_where (\<lambda>q. r_id q = r_id r) t"
  shows "rides_view (t @ [r]) = (rides_view t)(r_id r \<mapsto> row_view r)"
  using assms by (induction t) (auto simp: rides_view_def fun_eq_iff)

lemma rides_view_other:
  "i \<noteq> r_id r \<Longrightarrow> r_id r' = r_id r \<Longrightarrow> rides_view (put_row r_id r' t) i = rides_view t i"
  by (induction t) (auto simp: rides_view_def put_row_def)

lemma rides_view_put_row:
  "r \<in> set t \<Longrightarrow> r_id r' = r_id r \<Longrightarrow>
     rides_view (put_row r_id r' t) = (rides_view t)(r_id r \<mapsto> row_view r')"
proof (induction t)
  case (Cons q t)
  then show ?case
  proof (cases "r \<in> set t")
    case True
    with Cons show ?thesis by (auto simp: rides_view_def put_row_def fun_eq_iff)
  next
    case False
    with Cons.prems have "q = r" by simp
    moreover have "rides_view (put_row r_id r' t) i = rides_view t i" if "i \<noteq> r_id r" for i
      by (rule rides_view_other [OF that Cons.prems(2)])
    ultimately show ?thesis using Cons.prems by (auto simp: rides_view_def put_row_def fun_eq_iff)
  qed
qed simp

lemma status_view_str [simp]: "status_view (status_str s) = s"
  by (simp add: status_view_def)

lemma core_step_refines:
  assumes "schema_ok w" and "rides_inv w" and "core_step w w'"
  shows "ride_spec\<^sup>=\<^sup>= (rides_view (w_rides w)) (rides_view (w_rides w'))"
  using assms(3)
proof cases
  case (accepted p i d)
  then show ?thesis
  proof (rule ride_acceptedE)
    fix r r' st
    assume r: "r \<in> set (w_rides w)" "r_id r' = r_id r" "r_status r = ''requested''" "r_status r' = ''accepted''"
        "r_driver_id r' = Some d" "r_passenger_id r' = r_passenger_id r" "r_fare_amount r' = r_fare_amount r"
      and w': "w' = w\<lparr>w_rides := put_row r_id r' (w_rides w), w_settlements := w_settlements w @ [st]\<rparr>"
    have n: "r_driver_id r = None" using assms(2) r by (auto simp: rides_inv_def list_all_iff ride_wf_def)
    have "row_view r' = (row_view r)\<lparr>v_status := RideAccepted, v_driver := Some d\<rparr>"
      using r by (simp add: row_view_def status_literals)
    with ride_spec.take [of "rides_view (w_rides w)" "r_id r" "row_view r" d]
      rides_view_in [OF schema_okD(1) [OF assms(1)] r(1)] r n show ?thesis
      by (simp add: w' rides_view_put_row [OF r(1,2)] row_view_def status_literals)
  qed
next
  case (moved i a f t)
  then show ?thesis
  proof (rule ride_movedE)
    fix r r' ev audits
    assume r: "r \<in> set (w_rides w)" "r_id r' = r_id r" "r_passenger_id r' = r_passenger_id r"
        "r_driver_id r' = r_driver_id r" "r_fare_amount r' = r_fare_amount r"
        "can_transition (r_status r) (r_status r')"
      and w': "w' = w\<lparr>w_rides := put_row r_id r' (w_rides w), w_events := w_events w @ [ev],
            w_audits := w_audits w @ audits\<rparr>"
    have "row_view r' = (row_view r)\<lparr>v_status := status_view (r_status r')\<rparr>"
      using r by (simp add: row_view_def)
    moreover have "status_successor (v_status (row_view r)) (status_view (r_status r'))"
      using r(6) by (auto simp: row_view_def status_view_def elim!: can_transitionE)
    ultimately show ?thesis
      using ride_spec.move [of "rides_view (w_rides w)" "r_id r" "row_view r" "status_view (r_status r')"]
        rides_view_in [OF schema_okD(1) [OF assms(1)] r(1)]
      by (simp add: w' rides_view_put_row [OF r(1,2)])
  qed
next
  case (offer b i j k e)
  then show ?thesis
  proof (rule offer_acceptedE)
    fix s x r st full
    assume r: "\<not> exists_where (\<lambda>q. r_id q = r_id r) (w_rides w)" "r_driver_id r = Some (of_driver_id x)"
        "r_status r = ''accepted''"
      and w': "w' = w\<lparr>w_sessions := put_row s_id
           (s\<lparr>s_status := ''accepted'', s_accepted_driver_id := Some (of_driver_id x)\<rparr>) (w_sessions w),
         w_offers := map (offer_after i j (of_driver_id x) full) (w_offers w),
         w_rides := w_rides w @ [r], w_settlements := w_settlements w @ [st]\<rparr>"
    show ?thesis
      using ride_spec.match [of "rides_view (w_rides w)" "r_id r" "r_passenger_id r" "r_fare_amount r" "of_driver_id x"]
        rides_view_absent [OF r(1)] r
      by (simp add: w' rides_view_append [OF r(1)] row_view_def status_literals)
  qed
next
  case (requested i)
  then show ?thesis
  proof (rule ride_requestedE)
    fix v row
    assume r: "\<not> exists_where (\<lambda>q. r_id q = r_id row) (w_rides w)" "r_status row = ''requested''"
        "r_driver_id row = None"
      and w': "w' = v\<lparr>w_rides := w_rides w @ [row]\<rparr>"
    show ?thesis
      using ride_spec.request [of "rides_view (w_rides w)" "r_id row" "r_passenger_id row" "r_fare_amount row"]
        rides_view_absent [OF r(1)] r
      by (simp add: w' rides_view_append [OF r(1)] row_view_def status_literals)
  qed
next
  case (settled e)
  then show ?thesis by (simp add: cash_settled_tables)
next
  case users
  then show ?thesis by (simp add: other_modulesD [OF users])
qed

end
