(* ===== verification/Evolution.thy ===== *)
theory Evolution
  imports Commands
begin

text \<open>
  Relations that every command of a module keeps between the state before and the state after,
  whether it succeeds or fails. Such a relation is reflexive and transitive, so it follows for a
  command from its parts; the locale holds these rules for any such relation.
\<close>

definition keeps :: "('s \<Rightarrow> 's \<Rightarrow> bool) \<Rightarrow> ('s, 'a) cmd \<Rightarrow> bool" where
  "keeps R m \<longleftrightarrow> (\<forall>e w r w'. m e w = (r, w') \<longrightarrow> R w w')"

lemma keepsI: "(\<And>e w r w'. m e w = (r, w') \<Longrightarrow> R w w') \<Longrightarrow> keeps R m"
  by (auto simp: keeps_def)

lemma keepsD: "keeps R m \<Longrightarrow> m e w = (r, w') \<Longrightarrow> R w w'"
  by (auto simp: keeps_def)

lemma keeps_if: "(b \<Longrightarrow> keeps R m) \<Longrightarrow> (\<not> b \<Longrightarrow> keeps R n) \<Longrightarrow> keeps R (if b then m else n)"
  by simp

lemma keeps_let: "(\<And>x. x = v \<Longrightarrow> keeps R (f x)) \<Longrightarrow> keeps R (Let v f)"
  by (simp add: Let_def)

lemma keeps_option:
  "(y = None \<Longrightarrow> keeps R m) \<Longrightarrow> (\<And>x. y = Some x \<Longrightarrow> keeps R (f x)) \<Longrightarrow>
     keeps R (case y of None \<Rightarrow> m | Some x \<Rightarrow> f x)"
  by (cases y) simp_all

lemma keeps_sum:
  "(\<And>x. y = Inl x \<Longrightarrow> keeps R (g x)) \<Longrightarrow> (\<And>x. y = Inr x \<Longrightarrow> keeps R (f x)) \<Longrightarrow>
     keeps R (case y of Inl x \<Rightarrow> g x | Inr x \<Rightarrow> f x)"
  by (cases y) simp_all

lemma keeps_prod: "(\<And>x z. y = (x, z) \<Longrightarrow> keeps R (f x z)) \<Longrightarrow> keeps R (case y of (x, z) \<Rightarrow> f x z)"
  by (cases y) simp

locale evolution =
  fixes R :: "'s \<Rightarrow> 's \<Rightarrow> bool"
  assumes refl: "R w w"
    and trans: "R w v \<Longrightarrow> R v u \<Longrightarrow> R w u"
begin

lemma read_only: "read_only m \<Longrightarrow> keeps R m"
  by (auto intro!: keepsI dest: read_onlyD simp: refl)

lemma return: "keeps R (io_return x)"
  by (rule read_only [OF read_only_return])

lemma throw: "keeps R (io_throw x)"
  by (rule read_only [OF read_only_throw])

lemma lift: "keeps R (io_lift x)"
  by (rule read_only [OF read_only_lift])

lemma env: "keeps R (io_env f)"
  by (rule read_only [OF read_only_env])

lemma select_one: "keeps R (select_one n f)"
  by (rule read_only [OF read_only_select_one])

lemma bind:
  assumes "keeps R m" and "\<And>x. keeps R (f x)"
  shows "keeps R (io_bind m f)"
proof (rule keepsI)
  fix e w r w' assume "io_bind m f e w = (r, w')"
  then show "R w w'"
    using keepsD [OF assms(1), of e w] keepsD [OF assms(2)]
    by (auto simp: io_bind_def split: prod.splits sum.splits intro: trans)
qed

lemma attempt:
  assumes "keeps R m" and "\<And>x. keeps R (f x)"
  shows "keeps R (io_try m f)"
proof (rule keepsI)
  fix e w r w' assume "io_try m f e w = (r, w')"
  then show "R w w'"
    using keepsD [OF assms(1), of e w] keepsD [OF assms(2)] trans by (auto simp: io_simps)
qed

lemma map_err: "keeps R m \<Longrightarrow> keeps R (io_map_err g m)"
  by (auto simp: keeps_def io_map_err_def split: prod.splits sum.splits)

lemma transaction: "keeps R m \<Longrightarrow> keeps R (transaction m)"
  by (auto simp: keeps_def transaction_def refl split: prod.splits sum.splits if_splits)

lemma query: "keeps R m \<Longrightarrow> keeps R (query n m)"
  by (auto simp: keeps_def query_def refl split: if_splits)

lemmas rules = return throw lift env select_one bind attempt map_err transaction query
  keeps_if keeps_let keeps_option keeps_sum keeps_prod

end

text \<open>Reading commands keep the state itself.\<close>

interpretation same: evolution "(=)"
  by unfold_locales auto

lemma keeps_same: "keeps (=) m \<longleftrightarrow> read_only m"
proof
  assume "keeps (=) m"
  then show "read_only m" by (intro read_onlyI) (auto dest: keepsD)
next
  assume "read_only m"
  then show "keeps (=) m" by (rule same.read_only)
qed

end
