(* ===== verification/Go_Encoding.thy ===== *)
theory Go_Encoding
  imports Go_Prelude
begin

text \<open>
  The encodings of the Go standard library the server uses: \<open>strconv.Atoi\<close>,
  \<open>hex.EncodeToString\<close> and \<open>hex.DecodeString\<close>, \<open>base64.RawURLEncoding\<close> and \<open>strings.Split\<close>
  at one byte. A string and a byte slice are both lists of characters, one per byte.
\<close>

section \<open>Decimal numbers\<close>

definition is_digit :: "char \<Rightarrow> bool" where
  "is_digit c \<longleftrightarrow> byte_between 48 c 57"

definition digit_value :: "char \<Rightarrow> int" where
  "digit_value c = int (of_char c) - 48"

definition digits_value :: "string \<Rightarrow> int" where
  "digits_value s = foldl (\<lambda>n c. 10 * n + digit_value c) 0 s"

text \<open>\<open>strconv.Atoi\<close>: an optional sign and decimal digits, within the range of \<open>int\<close>.\<close>

definition atoi :: "string \<Rightarrow> int option" where
  "atoi s =
     (let negative = (s \<noteq> [] \<and> hd s = CHR ''-'');
          digits = (if s \<noteq> [] \<and> (hd s = CHR ''-'' \<or> hd s = CHR ''+'') then tl s else s);
          n = (if negative then - digits_value digits else digits_value digits)
      in if digits \<noteq> [] \<and> list_all is_digit digits \<and> int64_range n then Some n else None)"

lemma of_char_digit: "n < 10 \<Longrightarrow> of_char (char_of (48 + n :: nat)) = (48 + n :: nat)"
  by simp

lemma digits_value_snoc: "digits_value (s @ [c]) = 10 * digits_value s + digit_value c"
  by (simp add: digits_value_def)

lemma digits_value_nat_digits: "digits_value (nat_digits n) = int n"
proof (induction n rule: nat_digits.induct)
  case (1 n)
  show ?case
  proof (cases "n < 10")
    case True
    then have "nat_digits n = [char_of (48 + n)]" by (simp add: nat_digits.simps)
    with True show ?thesis by (simp add: digits_value_def digit_value_def)
  next
    case False
    then have "nat_digits n = nat_digits (n div 10) @ [char_of (48 + n mod 10)]"
      by (subst nat_digits.simps) simp
    then have "digits_value (nat_digits n) = 10 * int (n div 10) + int (n mod 10)"
      using 1 [OF False] by (simp add: digits_value_snoc digit_value_def)
    then show ?thesis by presburger
  qed
qed

lemma nat_digits_digits: "nat_digits n \<noteq> [] \<and> list_all is_digit (nat_digits n)"
proof (induction n rule: nat_digits.induct)
  case (1 n)
  have "is_digit (char_of (48 + k))" if "k < 10" for k :: nat
    using that by (simp add: is_digit_def byte_between_def)
  then show ?case
    using 1 by (subst (1 2) nat_digits.simps) (simp add: list_all_append)
qed

lemma digit_not_sign: "is_digit c \<Longrightarrow> c \<noteq> CHR ''-'' \<and> c \<noteq> CHR ''+''"
  by (auto simp: is_digit_def byte_between_def)

lemma atoi_itoa:
  assumes "int64_range n"
  shows "atoi (itoa n) = Some n"
proof (cases "n < 0")
  case True
  then have "itoa n = CHR ''-'' # nat_digits (nat (- n))" by (simp add: itoa_def)
  with True assms show ?thesis
    using nat_digits_digits [of "nat (- n)"] by (simp add: atoi_def digits_value_nat_digits)
next
  case False
  then have i: "itoa n = nat_digits (nat n)" by (simp add: itoa_def)
  obtain c s where cs: "nat_digits (nat n) = c # s"
    using nat_digits_digits [of "nat n"] by (cases "nat_digits (nat n)") auto
  then have "c \<noteq> CHR ''-'' \<and> c \<noteq> CHR ''+''"
    using nat_digits_digits [of "nat n"] by (intro digit_not_sign) simp
  with False assms show ?thesis
    using nat_digits_digits [of "nat n"] digits_value_nat_digits [of "nat n"]
    by (simp add: atoi_def i cs)
qed

section \<open>Hexadecimal\<close>

definition hex_digit :: "nat \<Rightarrow> char" where
  "hex_digit n = (if n < 10 then char_of (48 + n) else char_of (87 + n))"

definition hex_value :: "char \<Rightarrow> nat option" where
  "hex_value c =
     (if byte_between 48 c 57 then Some (of_char c - 48)
      else if byte_between 97 c 102 then Some (of_char c - 87)
      else if byte_between 65 c 70 then Some (of_char c - 55)
      else None)"

fun hex_encode :: "string \<Rightarrow> string" where
  "hex_encode [] = []"
| "hex_encode (c # s) = hex_digit (of_char c div 16) # hex_digit (of_char c mod 16) # hex_encode s"

fun hex_decode :: "string \<Rightarrow> string option" where
  "hex_decode [] = Some []"
| "hex_decode [_] = None"
| "hex_decode (a # b # s) =
     (case (hex_value a, hex_value b, hex_decode s) of
        (Some m, Some n, Some t) \<Rightarrow> Some (char_of (16 * m + n) # t)
      | _ \<Rightarrow> None)"

lemma hex_value_digit: "n < 16 \<Longrightarrow> hex_value (hex_digit n) = Some n"
  by (auto simp: hex_value_def hex_digit_def byte_between_def)

lemma of_char_less [simp]: "of_char c < (256 :: nat)"
  by (cases c) (auto simp: of_char_def split: if_splits)

lemma hex_roundtrip: "hex_decode (hex_encode s) = Some s"
proof (induction s)
  case (Cons c s)
  have "of_char c div 16 < (16 :: nat)" using of_char_less [of c] by linarith
  with Cons show ?case
    by (simp add: hex_value_digit)
qed simp

lemma length_hex_encode [simp]: "length (hex_encode s) = 2 * length s"
  by (induction s) auto

lemma hex_encode_inject: "hex_encode s = hex_encode t \<longleftrightarrow> s = t"
  by (metis hex_roundtrip option.inject)

section \<open>Base64\<close>

text \<open>
  \<open>base64.RawURLEncoding\<close>: the URL alphabet, without padding. Decoding skips line breaks and,
  since the encoding is not strict, ignores the unused bits of the last character.
\<close>

definition b64_char :: "nat \<Rightarrow> char" where
  "b64_char n =
     (if n < 26 then char_of (65 + n) else if n < 52 then char_of (71 + n)
      else if n < 62 then char_of (n - 4) else if n = 62 then CHR ''-'' else CHR ''_'')"

definition b64_value :: "char \<Rightarrow> nat option" where
  "b64_value c =
     (if byte_between 65 c 90 then Some (of_char c - 65)
      else if byte_between 97 c 122 then Some (of_char c - 71)
      else if byte_between 48 c 57 then Some (of_char c + 4)
      else if c = CHR ''-'' then Some 62
      else if c = CHR ''_'' then Some 63
      else None)"

fun b64_encode :: "string \<Rightarrow> string" where
  "b64_encode [] = []"
| "b64_encode [a] = [b64_char (of_char a div 4), b64_char (of_char a mod 4 * 16)]"
| "b64_encode [a, b] =
     [b64_char (of_char a div 4), b64_char (of_char a mod 4 * 16 + of_char b div 16),
      b64_char (of_char b mod 16 * 4)]"
| "b64_encode (a # b # c # s) =
     [b64_char (of_char a div 4), b64_char (of_char a mod 4 * 16 + of_char b div 16),
      b64_char (of_char b mod 16 * 4 + of_char c div 64), b64_char (of_char c mod 64)] @ b64_encode s"

fun b64_sextets :: "string \<Rightarrow> nat list option" where
  "b64_sextets [] = Some []"
| "b64_sextets (c # s) =
     (if c = CHR 0x0A \<or> c = CHR 0x0D then b64_sextets s
      else (case (b64_value c, b64_sextets s) of
              (Some n, Some ns) \<Rightarrow> Some (n # ns)
            | _ \<Rightarrow> None))"

fun b64_bytes :: "nat list \<Rightarrow> string option" where
  "b64_bytes [] = Some []"
| "b64_bytes [p] = None"
| "b64_bytes [p, q] = Some [char_of (p * 4 + q div 16)]"
| "b64_bytes [p, q, r] = Some [char_of (p * 4 + q div 16), char_of (q mod 16 * 16 + r div 4)]"
| "b64_bytes (p # q # r # t # ns) =
     map_option (\<lambda>s. char_of (p * 4 + q div 16) # char_of (q mod 16 * 16 + r div 4) #
       char_of (r mod 4 * 64 + t) # s) (b64_bytes ns)"

definition b64_decode :: "string \<Rightarrow> string option" where
  "b64_decode s = Option.bind (b64_sextets s) b64_bytes"

text \<open>\<open>EncodedLen\<close> of the encoding.\<close>

definition b64_encoded_len :: "nat \<Rightarrow> nat" where
  "b64_encoded_len n = n div 3 * 4 + (n mod 3 * 8 + 5) div 6"

lemma b64_value_char: "n < 64 \<Longrightarrow> b64_value (b64_char n) = Some n"
  by (auto simp: b64_value_def b64_char_def byte_between_def)

lemma b64_char_not_break: "n < 64 \<Longrightarrow> b64_char n \<noteq> CHR 0x0A \<and> b64_char n \<noteq> CHR 0x0D"
  by (auto simp: b64_char_def simp flip: of_char_eq_iff [where 'a = nat])

lemma b64_sextets_Cons: "n < 64 \<Longrightarrow> b64_sextets (b64_char n # s) = map_option (Cons n) (b64_sextets s)"
  using b64_char_not_break [of n] by (simp add: b64_value_char split: option.split)

lemma byte_parts:
  fixes a b :: nat
  assumes "a < 256" and "b < 256"
  shows "a div 4 < 64" and "a mod 4 * 16 < 64" and "a mod 4 * 16 + b div 16 < 64"
    and "a mod 16 * 4 < 64" and "a mod 16 * 4 + b div 64 < 64" and "a mod 64 < 64"
  using assms by linarith+

lemma pack_parts:
  fixes k m x :: nat
  assumes "x < m"
  shows "(k * m + x) div m = k" and "(k * m + x) mod m = x"
  using assms by simp_all

lemma byte_joins:
  fixes a b c :: nat
  assumes "b < 256" and "c < 256"
  shows "a div 4 * 4 + (a mod 4 * 16) div 16 = a"
    and "a div 4 * 4 + (a mod 4 * 16 + b div 16) div 16 = a"
    and "(a mod 4 * 16 + b div 16) mod 16 * 16 + (b mod 16 * 4) div 4 = b"
    and "(a mod 4 * 16 + b div 16) mod 16 * 16 + (b mod 16 * 4 + c div 64) div 4 = b"
    and "(b mod 16 * 4 + c div 64) mod 4 * 64 + c mod 64 = c"
proof -
  have b: "b div 16 < 16" and c: "c div 64 < 4" using assms by linarith+
  show "a div 4 * 4 + (a mod 4 * 16) div 16 = a" by simp
  show "a div 4 * 4 + (a mod 4 * 16 + b div 16) div 16 = a"
    unfolding pack_parts [OF b] by simp
  show "(a mod 4 * 16 + b div 16) mod 16 * 16 + (b mod 16 * 4) div 4 = b"
    unfolding pack_parts [OF b] by simp
  show "(a mod 4 * 16 + b div 16) mod 16 * 16 + (b mod 16 * 4 + c div 64) div 4 = b"
    unfolding pack_parts [OF b] pack_parts [OF c] by simp
  show "(b mod 16 * 4 + c div 64) mod 4 * 64 + c mod 64 = c"
    unfolding pack_parts [OF c] by simp
qed

text \<open>The characters of a group come back from its sextets.\<close>

lemma b64_bytes_group:
  assumes "x * 4 + y div 16 = of_char a"
  shows "b64_bytes [x, y] = Some [a]"
    and "y mod 16 * 16 + z div 4 = of_char b \<Longrightarrow> b64_bytes [x, y, z] = Some [a, b]"
    and "y mod 16 * 16 + z div 4 = of_char b \<Longrightarrow> z mod 4 * 64 + t = of_char c \<Longrightarrow>
      b64_bytes ns = Some s \<Longrightarrow> b64_bytes (x # y # z # t # ns) = Some (a # b # c # s)"
  using assms by simp_all

lemma b64_roundtrip: "b64_decode (b64_encode s) = Some s"
proof -
  have "\<exists>ns. b64_sextets (b64_encode s) = Some ns \<and> b64_bytes ns = Some s"
  proof (induction s rule: b64_encode.induct)
    case 1
    show ?case by simp
  next
    case (2 a)
    note p = byte_parts [OF of_char_less [of a] of_char_less [of a]]
    have "b64_sextets (b64_encode [a]) = Some [of_char a div 4, of_char a mod 4 * 16]"
      unfolding b64_encode.simps b64_sextets_Cons [OF p(1)] b64_sextets_Cons [OF p(2)] by simp
    with b64_bytes_group(1) [OF byte_joins(1) [OF of_char_less of_char_less]] show ?case by blast
  next
    case (3 a b)
    note p = byte_parts [OF of_char_less [of a] of_char_less [of b]]
    note q = byte_parts [OF of_char_less [of b] of_char_less [of b]]
    note j = byte_joins [OF of_char_less [of b] of_char_less [of b]]
    have "b64_sextets (b64_encode [a, b]) =
        Some [of_char a div 4, of_char a mod 4 * 16 + of_char b div 16, of_char b mod 16 * 4]"
      unfolding b64_encode.simps b64_sextets_Cons [OF p(1)] b64_sextets_Cons [OF p(3)]
        b64_sextets_Cons [OF q(4)] by simp
    with b64_bytes_group(2) [OF j(2) j(3)] show ?case by blast
  next
    case (4 a b c s)
    then obtain ns where ns: "b64_sextets (b64_encode s) = Some ns" "b64_bytes ns = Some s" by blast
    note p = byte_parts [OF of_char_less [of a] of_char_less [of b]]
    note q = byte_parts [OF of_char_less [of b] of_char_less [of c]]
    note r = byte_parts [OF of_char_less [of c] of_char_less [of c]]
    note j = byte_joins [OF of_char_less [of b] of_char_less [of c]]
    have "b64_sextets (b64_encode (a # b # c # s)) =
        Some ([of_char a div 4, of_char a mod 4 * 16 + of_char b div 16,
          of_char b mod 16 * 4 + of_char c div 64, of_char c mod 64] @ ns)"
      unfolding b64_encode.simps append.simps b64_sextets_Cons [OF p(1)] b64_sextets_Cons [OF p(3)]
        b64_sextets_Cons [OF q(5)] b64_sextets_Cons [OF r(6)] ns(1) by simp
    with b64_bytes_group(3) [OF j(2) j(4) j(5) ns(2)] show ?case by auto
  qed
  then show ?thesis by (auto simp: b64_decode_def)
qed

lemma length_b64_encode: "length (b64_encode s) = b64_encoded_len (length s)"
proof (induction s rule: b64_encode.induct)
  case (4 a b c s)
  have "b64_encoded_len (Suc (Suc (Suc n))) = 4 + b64_encoded_len n" for n
  proof -
    have "Suc (Suc (Suc n)) = n + 3" by simp
    then show ?thesis unfolding b64_encoded_len_def by simp
  qed
  with 4 show ?case by simp
qed (simp_all add: b64_encoded_len_def)

section \<open>Splitting\<close>

text \<open>\<open>strings.Split\<close> at a one-byte separator.\<close>

fun split_at :: "char \<Rightarrow> string \<Rightarrow> string list" where
  "split_at d [] = [[]]"
| "split_at d (c # s) =
     (if c = d then [] # split_at d s
      else (case split_at d s of [] \<Rightarrow> [[c]] | p # ps \<Rightarrow> (c # p) # ps))"

lemma split_at_none: "d \<notin> set s \<Longrightarrow> split_at d s = [s]"
  by (induction s) auto

lemma split_at_join: "d \<notin> set s \<Longrightarrow> split_at d (s @ d # t) = s # split_at d t"
  by (induction s) auto

definition has_prefix :: "string \<Rightarrow> string \<Rightarrow> bool" where
  "has_prefix s p \<longleftrightarrow> take (length p) s = p"

end
