(* ===== verification/Redis.thy ===== *)
theory Redis
  imports Commands Go_Encoding
begin

text \<open>
  The Redis commands the server uses, on a map of keys to strings with an expiry. Redis runs a
  command or a script as one step, so each is one function of the clock and the map.
\<close>

section \<open>Keys with an expiry\<close>

text \<open>A string with its expiry in milliseconds, if it has one. Durations are in microseconds.\<close>

record redis_entry =
  kv_value :: string
  kv_expires_at :: "int option"

type_synonym redis = "string \<Rightarrow> redis_entry option"

definition millisecond :: int where
  "millisecond = 1000"

text \<open>Redis reads its clock in milliseconds; a key expires once the clock is past its expiry.\<close>

definition redis_clock :: "env \<Rightarrow> int" where
  "redis_clock e = env_now e div millisecond"

definition redis_get :: "int \<Rightarrow> string \<Rightarrow> redis \<Rightarrow> redis_entry option" where
  "redis_get now k m =
     (case m k of
        None \<Rightarrow> None
      | Some x \<Rightarrow>
          (case kv_expires_at x of
             None \<Rightarrow> Some x
           | Some t \<Rightarrow> if now > t then None else Some x))"

text \<open>\<open>PTTL\<close> of a key that exists: what is left of it, or -1 when it does not expire.\<close>

definition redis_pttl :: "int \<Rightarrow> redis_entry \<Rightarrow> int" where
  "redis_pttl now x = (case kv_expires_at x of None \<Rightarrow> -1 | Some t \<Rightarrow> t - now)"

text \<open>\<open>INCR\<close>: a missing key counts as zero, the expiry of the key is kept; not a number is an error.\<close>

definition redis_incr ::
  "int \<Rightarrow> string \<Rightarrow> redis \<Rightarrow> (int \<times> redis) option" where
  "redis_incr now k m =
     (case redis_get now k m of
        None \<Rightarrow> Some (1, m(k \<mapsto> \<lparr>kv_value = ''1'', kv_expires_at = None\<rparr>))
      | Some x \<Rightarrow>
          (case atoi (kv_value x) of
             None \<Rightarrow> None
           | Some n \<Rightarrow> Some (n + 1, m(k \<mapsto> x\<lparr>kv_value := itoa (n + 1)\<rparr>))))"

text \<open>\<open>SET\<close> with an expiry, and the same only if the key does not exist (\<open>NX\<close>).\<close>

definition redis_set :: "int \<Rightarrow> string \<Rightarrow> string \<Rightarrow> int \<Rightarrow> redis \<Rightarrow> redis" where
  "redis_set now k v ttl m = m(k \<mapsto> \<lparr>kv_value = v, kv_expires_at = Some (now + ttl)\<rparr>)"

definition redis_set_nx :: "int \<Rightarrow> string \<Rightarrow> string \<Rightarrow> int \<Rightarrow> redis \<Rightarrow> bool \<times> redis" where
  "redis_set_nx now k v ttl m =
     (case redis_get now k m of
        Some _ \<Rightarrow> (False, m)
      | None \<Rightarrow> (True, redis_set now k v ttl m))"

end
