(* ===== verification/Auth_State.thy ===== *)
theory Auth_State
  imports World Redis
begin

text \<open>
  The state of the accounts: the tables \<open>users\<close>, \<open>driver_profiles\<close>, \<open>passenger_profiles\<close> and
  \<open>refresh_sessions\<close> of \<open>db/schema\<close>, the Redis keys of the verification codes and of the
  pending registrations, and the messages handed to the mail gateway; the statements of
  \<open>auth_users.sql\<close>, \<open>users.sql\<close> and \<open>refresh_sessions.sql\<close>; and the two Lua scripts of
  \<open>auth/adapter/redis/otp_store.go\<close>. Redis runs a script as one step.
\<close>

section \<open>Rows\<close>

record refresh_session_row =
  rs_id :: int
  rs_user_id :: int
  rs_token_hash :: string
  rs_expires_at :: "int option"
  rs_created_at :: "int option"
  rs_last_used_at :: "int option"
  rs_revoked_at :: "int option"
  rs_rotation_grace_until :: "int option"

record auth_state =
  a_users :: "user_row list"
  a_driver_profiles :: "driver_profile_row list"
  a_passenger_profiles :: "passenger_profile_row list"
  a_refresh_sessions :: "refresh_session_row list"
  a_redis :: "string \<Rightarrow> redis_entry option"
  a_mail :: "(string \<times> string) list"
  a_notices :: "(string \<times> string) list"

type_synonym 'a acmd = "(auth_state, 'a) cmd"

section \<open>Constraints\<close>

definition account_exists :: "auth_state \<Rightarrow> int \<Rightarrow> bool" where
  "account_exists w i = exists_where (\<lambda>u. u_id u = i) (a_users w)"

definition user_violation :: "auth_state \<Rightarrow> user_row \<Rightarrow> err option" where
  "user_violation w = users_violation (a_users w)"

definition driver_profile_violation :: "auth_state \<Rightarrow> driver_profile_row \<Rightarrow> err option" where
  "driver_profile_violation w = driver_profiles_violation (a_users w) (a_driver_profiles w)"

definition passenger_profile_violation :: "auth_state \<Rightarrow> passenger_profile_row \<Rightarrow> err option" where
  "passenger_profile_violation w = passenger_profiles_violation (a_users w) (a_passenger_profiles w)"

text \<open>\<open>db/schema/refresh_sessions.sql\<close>; 22001 is the error of a text too long for its column.\<close>

definition refresh_session_violation :: "auth_state \<Rightarrow> refresh_session_row \<Rightarrow> err option" where
  "refresh_session_violation w s =
     first_violation
       [(rune_count (rs_token_hash s) \<le> 64, PgError ''22001'' ''token_hash''),
        (rs_expires_at s \<noteq> None, PgError ''23502'' ''expires_at''),
        (\<not> exists_where (\<lambda>q. rs_id q \<noteq> rs_id s \<and> rs_token_hash q = rs_token_hash s) (a_refresh_sessions w),
          unique_violation ''refresh_sessions_token_hash_key''),
        (account_exists w (rs_user_id s), fk_violation ''refresh_sessions_user_fk'')]"

section \<open>Statements\<close>

definition update_users ::
  "string \<Rightarrow> (env \<Rightarrow> user_row \<Rightarrow> bool) \<Rightarrow> (env \<Rightarrow> user_row \<Rightarrow> user_row) \<Rightarrow> int acmd" where
  "update_users name = update_rows name a_users (\<lambda>rs w. w\<lparr>a_users := rs\<rparr>) user_violation"

definition update_refresh_sessions ::
  "string \<Rightarrow> (env \<Rightarrow> refresh_session_row \<Rightarrow> bool) \<Rightarrow>
   (env \<Rightarrow> refresh_session_row \<Rightarrow> refresh_session_row) \<Rightarrow> int acmd" where
  "update_refresh_sessions name =
     update_rows name a_refresh_sessions (\<lambda>rs w. w\<lparr>a_refresh_sessions := rs\<rparr>) refresh_session_violation"

subsection \<open>Users and profiles\<close>

definition get_user_by_email :: "string \<Rightarrow> user_row acmd" where
  "get_user_by_email email =
     select_one ''GetUserByEmail'' (\<lambda>w. List.find (\<lambda>u. u_email u = email) (a_users w))"

definition get_user_by_id :: "int \<Rightarrow> user_row acmd" where
  "get_user_by_id i = select_one ''GetUserByID'' (\<lambda>w. List.find (\<lambda>u. u_id u = i) (a_users w))"

definition update_user_email :: "string \<Rightarrow> int \<Rightarrow> string \<Rightarrow> int acmd" where
  "update_user_email new_email user_id expected_email =
     update_users ''UpdateUserEmail''
       (\<lambda>e u. u_id u = user_id \<and> u_email u = expected_email \<and> u_is_verified u)
       (\<lambda>e u. u\<lparr>u_email := new_email, u_is_verified := True, u_updated_at := Some (env_db_now e)\<rparr>)"

definition create_user :: "string option \<Rightarrow> string \<Rightarrow> string \<Rightarrow> string \<Rightarrow> string \<Rightarrow> bool \<Rightarrow> user_row acmd" where
  "create_user name phone email password_hash role is_verified =
     insert_one ''CreateUser'' ''users'' a_users (\<lambda>rs w. w\<lparr>a_users := rs\<rparr>) u_id user_violation
       (\<lambda>e. \<lparr>u_id = env_nextval e ''users'', u_name = name, u_phone = phone, u_email = email,
          u_password_hash = password_hash, u_role = role, u_is_verified = is_verified,
          u_account_status = ''active'', u_created_at = Some (env_db_now e),
          u_updated_at = Some (env_db_now e)\<rparr>)"

definition create_driver_profile :: "int \<Rightarrow> string \<Rightarrow> string \<Rightarrow> string \<Rightarrow> unit acmd" where
  "create_driver_profile user_id name vehicle_type plate_number =
     io_bind (insert_one ''CreateDriverProfile'' ''driver_profiles'' a_driver_profiles
       (\<lambda>rs w. w\<lparr>a_driver_profiles := rs\<rparr>) dp_id driver_profile_violation
       (\<lambda>e. \<lparr>dp_id = env_nextval e ''driver_profiles'', dp_user_id = user_id, dp_name = name,
          dp_vehicle_type = vehicle_type, dp_plate_number = plate_number, dp_rating = Fin 0,
          dp_is_online = False, dp_online_last_seen_at = None, dp_created_at = Some (env_db_now e),
          dp_updated_at = Some (env_db_now e)\<rparr>)) (\<lambda>_. io_return ())"

definition create_passenger_profile :: "int \<Rightarrow> string \<Rightarrow> unit acmd" where
  "create_passenger_profile user_id name =
     io_bind (insert_one ''CreatePassengerProfile'' ''passenger_profiles'' a_passenger_profiles
       (\<lambda>rs w. w\<lparr>a_passenger_profiles := rs\<rparr>) pp_id passenger_profile_violation
       (\<lambda>e. \<lparr>pp_id = env_nextval e ''passenger_profiles'', pp_user_id = user_id, pp_name = name,
          pp_address = None, pp_gender = ''Prefer not to say'', pp_avatar_storage_key = None,
          pp_avatar_content_type = None, pp_preferred_ride_type = None,
          pp_created_at = Some (env_db_now e), pp_updated_at = Some (env_db_now e)\<rparr>))
       (\<lambda>_. io_return ())"

definition get_driver_profile_by_user_id :: "int \<Rightarrow> (string \<times> string \<times> string) acmd" where
  "get_driver_profile_by_user_id user_id =
     select_one ''GetDriverProfileByUserID'' (\<lambda>w.
       map_option (\<lambda>p. (dp_name p, dp_vehicle_type p, dp_plate_number p))
         (List.find (\<lambda>p. dp_user_id p = user_id) (a_driver_profiles w)))"

definition get_passenger_profile_by_user_id :: "int \<Rightarrow> (string \<times> string option) acmd" where
  "get_passenger_profile_by_user_id user_id =
     select_one ''GetPassengerProfileByUserID'' (\<lambda>w.
       map_option (\<lambda>p. (pp_name p, pp_preferred_ride_type p))
         (List.find (\<lambda>p. pp_user_id p = user_id) (a_passenger_profiles w)))"

definition mark_user_verified :: "int \<Rightarrow> int acmd" where
  "mark_user_verified i =
     update_users ''MarkUserVerified'' (\<lambda>e u. u_id u = i)
       (\<lambda>e u. u\<lparr>u_is_verified := True, u_updated_at := Some (env_db_now e)\<rparr>)"

definition update_user_password :: "int \<Rightarrow> string \<Rightarrow> int acmd" where
  "update_user_password i password_hash =
     update_users ''UpdateUserPassword'' (\<lambda>e u. u_id u = i)
       (\<lambda>e u. u\<lparr>u_password_hash := password_hash, u_updated_at := Some (env_db_now e)\<rparr>)"

definition upgrade_user_password_hash :: "string \<Rightarrow> int \<Rightarrow> string \<Rightarrow> int acmd" where
  "upgrade_user_password_hash password_hash i expected_hash =
     update_users ''UpgradeUserPasswordHash'' (\<lambda>e u. u_id u = i \<and> u_password_hash u = expected_hash)
       (\<lambda>e u. u\<lparr>u_password_hash := password_hash, u_updated_at := Some (env_db_now e)\<rparr>)"

subsection \<open>Refresh sessions\<close>

text \<open>\<open>(revoked_at IS NULL OR rotation_grace_until > now)\<close>, and the session has not expired.\<close>

definition session_unrevoked :: "int \<Rightarrow> refresh_session_row \<Rightarrow> bool" where
  "session_unrevoked now s \<longleftrightarrow>
     rs_revoked_at s = None \<or> (case rs_rotation_grace_until s of None \<Rightarrow> False | Some g \<Rightarrow> now < g)"

definition session_active :: "int \<Rightarrow> refresh_session_row \<Rightarrow> bool" where
  "session_active now s \<longleftrightarrow>
     session_unrevoked now s \<and> (case rs_expires_at s of None \<Rightarrow> False | Some x \<Rightarrow> now < x)"

definition create_refresh_session :: "int \<Rightarrow> string \<Rightarrow> int option \<Rightarrow> unit acmd" where
  "create_refresh_session user_id token_hash expires_at =
     io_bind (insert_one ''CreateRefreshSession'' ''refresh_sessions'' a_refresh_sessions
       (\<lambda>rs w. w\<lparr>a_refresh_sessions := rs\<rparr>) rs_id refresh_session_violation
       (\<lambda>e. \<lparr>rs_id = env_nextval e ''refresh_sessions'', rs_user_id = user_id,
          rs_token_hash = token_hash, rs_expires_at = expires_at, rs_created_at = Some (env_db_now e),
          rs_last_used_at = None, rs_revoked_at = None, rs_rotation_grace_until = None\<rparr>))
       (\<lambda>_. io_return ())"

definition get_active_refresh_session :: "string \<Rightarrow> int \<Rightarrow> refresh_session_row acmd" where
  "get_active_refresh_session token_hash now =
     select_one ''GetActiveRefreshSession'' (\<lambda>w.
       List.find (\<lambda>s. rs_token_hash s = token_hash \<and> session_active now s) (a_refresh_sessions w))"

definition get_active_refresh_session_for_update :: "string \<Rightarrow> int \<Rightarrow> refresh_session_row acmd" where
  "get_active_refresh_session_for_update token_hash now =
     select_one ''GetActiveRefreshSessionForUpdate'' (\<lambda>w.
       List.find (\<lambda>s. rs_token_hash s = token_hash \<and> session_active now s) (a_refresh_sessions w))"

definition revoked :: "int \<Rightarrow> refresh_session_row \<Rightarrow> refresh_session_row" where
  "revoked now s = s\<lparr>rs_revoked_at := Some now, rs_rotation_grace_until := None\<rparr>"

definition revoke_refresh_session :: "string \<Rightarrow> int \<Rightarrow> unit acmd" where
  "revoke_refresh_session token_hash now =
     io_bind (update_refresh_sessions ''RevokeRefreshSession''
       (\<lambda>e s. rs_token_hash s = token_hash \<and> session_unrevoked now s) (\<lambda>e. revoked now))
       (\<lambda>_. io_return ())"

definition rotated :: "int \<Rightarrow> refresh_session_row \<Rightarrow> refresh_session_row" where
  "rotated now s = s\<lparr>rs_revoked_at := Some now, rs_last_used_at := Some now,
     rs_rotation_grace_until :=
       (case rs_rotation_grace_until s of None \<Rightarrow> Some (now + 30 * second) | Some g \<Rightarrow> Some g)\<rparr>"

definition revoke_refresh_session_by_id :: "int \<Rightarrow> int \<Rightarrow> int acmd" where
  "revoke_refresh_session_by_id i now =
     update_refresh_sessions ''RevokeRefreshSessionByID''
       (\<lambda>e s. rs_id s = i \<and> session_unrevoked now s) (\<lambda>e. rotated now)"

definition revoke_user_refresh_sessions :: "int \<Rightarrow> int \<Rightarrow> unit acmd" where
  "revoke_user_refresh_sessions user_id now =
     io_bind (update_refresh_sessions ''RevokeUserRefreshSessions''
       (\<lambda>e s. rs_user_id s = user_id \<and> session_unrevoked now s) (\<lambda>e. revoked now))
       (\<lambda>_. io_return ())"

end
