(* ===== verification/Auth_Redis.thy ===== *)
theory Auth_Redis
  imports Auth_State
begin

text \<open>
  The Redis side of \<open>auth/adapter/redis\<close>: verification codes with their attempt counters, and
  pending registrations. Functions of libraries the module calls but this repository does not
  contain are fields of \<open>auth_lib\<close>: the Unicode tables behind \<open>strings.ToLower\<close> and
  \<open>strings.EqualFold\<close>, \<open>net/mail.ParseAddress\<close>, SHA-256, bcrypt and the JSON text of a pending
  registration; every property holds for any choice of them that meets its hypotheses.
\<close>

record pending_registration =
  pr_email :: string
  pr_phone :: string
  pr_name :: string
  pr_password_hash :: string
  pr_role :: string
  pr_vehicle_type :: string
  pr_plate_number :: string

record auth_lib =
  al_lower :: "string \<Rightarrow> string"
  al_equal_fold :: "string \<Rightarrow> string \<Rightarrow> bool"
  al_parse_address :: "string \<Rightarrow> string option"
  al_sha256 :: "string \<Rightarrow> string"
  al_bcrypt_matches :: "string \<Rightarrow> string \<Rightarrow> bool"
  al_bcrypt_generate :: "env \<Rightarrow> string \<Rightarrow> err + string"
  al_pending_json :: "pending_registration \<Rightarrow> string"
  al_pending_parse :: "string \<Rightarrow> pending_registration option"

section \<open>Verification codes\<close>

definition max_otp_verification_attempts :: int where
  "max_otp_verification_attempts = 5"

definition otp_key :: "auth_lib \<Rightarrow> string \<Rightarrow> string \<Rightarrow> string" where
  "otp_key lib purpose email = ''auth:otp:'' @ purpose @ '':'' @ al_lower lib (trim_space email)"

definition otp_attempt_key :: "auth_lib \<Rightarrow> string \<Rightarrow> string \<Rightarrow> string" where
  "otp_attempt_key lib purpose email = otp_key lib purpose email @ '':attempts''"

text \<open>The script behind \<open>Put\<close>: the new code replaces the old one and clears its attempts.\<close>

definition otp_put_script ::
  "int \<Rightarrow> string \<Rightarrow> string \<Rightarrow> string \<Rightarrow> int \<Rightarrow> (string \<Rightarrow> redis_entry option) \<Rightarrow> (string \<Rightarrow> redis_entry option)" where
  "otp_put_script now k attempts_key code ttl m =
     (m(k \<mapsto> \<lparr>kv_value = code, kv_expires_at = Some (now + ttl)\<rparr>))(attempts_key := None)"

text \<open>The script behind \<open>Consume\<close>.\<close>

definition otp_consume_script ::
  "int \<Rightarrow> string \<Rightarrow> string \<Rightarrow> string \<Rightarrow> int \<Rightarrow> int \<Rightarrow> (string \<Rightarrow> redis_entry option) \<Rightarrow>
   (int \<times> (string \<Rightarrow> redis_entry option)) option" where
  "otp_consume_script now k attempts_key code limit fallback m =
     (case redis_get now k m of
        None \<Rightarrow> Some (0, m(attempts_key := None))
      | Some x \<Rightarrow>
          if kv_value x \<noteq> code then
            (case redis_incr now attempts_key m of
               None \<Rightarrow> None
             | Some (attempts, m') \<Rightarrow>
                 let ttl = (let t = redis_pttl now x in if t \<le> 0 then fallback else t);
                     m'' = (if attempts = 1
                            then m'(attempts_key :=
                                   map_option (\<lambda>y. y\<lparr>kv_expires_at := Some (now + ttl)\<rparr>) (m' attempts_key))
                            else m')
                 in if attempts \<ge> limit then Some (-2, (m''(k := None))(attempts_key := None))
                    else Some (-1, m''))
          else Some (1, (m(k := None))(attempts_key := None)))"

definition otp_store_put :: "auth_lib \<Rightarrow> bool \<Rightarrow> string \<Rightarrow> string \<Rightarrow> string \<Rightarrow> int \<Rightarrow> unit acmd" where
  "otp_store_put lib configured purpose email code ttl =
     (if \<not> configured then io_throw (Failure ''otp store is not configured'')
      else if ttl \<le> 0 \<or> go_quot ttl millisecond \<le> 0 then io_throw (Failure ''otp ttl must be positive'')
      else query ''OTPStore.Put'' (\<lambda>e w.
        (Inr (), w\<lparr>a_redis := otp_put_script (redis_clock e) (otp_key lib purpose email)
           (otp_attempt_key lib purpose email) code (go_quot ttl millisecond) (a_redis w)\<rparr>)))"

definition otp_store_consume :: "auth_lib \<Rightarrow> bool \<Rightarrow> string \<Rightarrow> string \<Rightarrow> string \<Rightarrow> unit acmd" where
  "otp_store_consume lib configured purpose email code =
     (if \<not> configured then io_throw (Failure ''otp store is not configured'')
      else io_bind (query ''OTPStore.Consume'' (\<lambda>e w.
        case otp_consume_script (redis_clock e) (otp_key lib purpose email)
               (otp_attempt_key lib purpose email) code max_otp_verification_attempts
               (15 * 60 * 1000) (a_redis w) of
          None \<Rightarrow> (Inl (Failure ''value is not an integer''), w)
        | Some (result, m) \<Rightarrow> (Inr result, w\<lparr>a_redis := m\<rparr>))) (\<lambda>result.
        if result = 1 then io_return ()
        else if result = -2 then io_throw (Auth ErrOTPMaxAttemptsExceeded)
        else io_throw (Auth ErrInvalidOTP)))"

section \<open>Pending registrations\<close>

definition pending_key :: "auth_lib \<Rightarrow> string \<Rightarrow> string" where
  "pending_key lib email = ''auth:registration:pending:'' @ al_lower lib (trim_space email)"

definition pending_store_put :: "auth_lib \<Rightarrow> bool \<Rightarrow> pending_registration \<Rightarrow> int \<Rightarrow> unit acmd" where
  "pending_store_put lib configured registration ttl =
     (if \<not> configured then io_throw (Failure ''pending registration store is not configured'')
      else query ''PendingRegistrationStore.Put'' (\<lambda>e w.
        (Inr (), w\<lparr>a_redis := (a_redis w)(pending_key lib (pr_email registration) \<mapsto>
           \<lparr>kv_value = al_pending_json lib registration,
            kv_expires_at = Some (redis_clock e + go_quot ttl millisecond)\<rparr>)\<rparr>)))"

definition pending_store_get :: "auth_lib \<Rightarrow> bool \<Rightarrow> string \<Rightarrow> pending_registration acmd" where
  "pending_store_get lib configured email =
     (if \<not> configured then io_throw (Failure ''pending registration store is not configured'')
      else query ''PendingRegistrationStore.Get'' (\<lambda>e w.
        case redis_get (redis_clock e) (pending_key lib email) (a_redis w) of
          None \<Rightarrow> (Inl (Auth ErrPendingRegistrationNotFound), w)
        | Some x \<Rightarrow>
            (case al_pending_parse lib (kv_value x) of
               None \<Rightarrow> (Inl (Failure ''decode pending registration''), w)
             | Some registration \<Rightarrow> (Inr registration, w))))"

definition pending_store_delete :: "auth_lib \<Rightarrow> bool \<Rightarrow> string \<Rightarrow> unit acmd" where
  "pending_store_delete lib configured email =
     (if \<not> configured then io_throw (Failure ''pending registration store is not configured'')
      else query ''PendingRegistrationStore.Delete'' (\<lambda>e w.
        (Inr (), w\<lparr>a_redis := (a_redis w)(pending_key lib email := None)\<rparr>)))"

section \<open>How often a code can be guessed\<close>

text \<open>
  A run of \<open>Consume\<close> calls against one code: times and guesses, oldest first, and whether each
  was accepted.
\<close>

fun otp_guesses ::
  "string \<Rightarrow> string \<Rightarrow> (int \<times> string) list \<Rightarrow> (string \<Rightarrow> redis_entry option) \<Rightarrow> bool list" where
  "otp_guesses k a [] m = []"
| "otp_guesses k a ((now, guess) # gs) m =
     (case otp_consume_script now k a guess max_otp_verification_attempts (15 * 60 * 1000) m of
        None \<Rightarrow> False # otp_guesses k a gs m
      | Some (result, m') \<Rightarrow> (result = 1) # otp_guesses k a gs m')"

text \<open>
  What the two keys hold between the guesses: no code at all, or the code with its expiry and a
  counter of at most four wrong guesses that lives at least as long as the code.
\<close>

definition otp_counted :: "string \<Rightarrow> string \<Rightarrow> string \<Rightarrow> int \<Rightarrow> nat \<Rightarrow> (string \<Rightarrow> redis_entry option) \<Rightarrow> bool" where
  "otp_counted k a code expiry n m \<longleftrightarrow>
     m k = Some \<lparr>kv_value = code, kv_expires_at = Some expiry\<rparr> \<and> n < 5 \<and>
     (if n = 0 then m a = None
      else (\<exists>t \<ge> expiry. m a = Some \<lparr>kv_value = itoa (int n), kv_expires_at = Some t\<rparr>))"

text \<open>The code is gone, or has expired before \<open>lo\<close>.\<close>

definition otp_dead :: "string \<Rightarrow> int \<Rightarrow> (string \<Rightarrow> redis_entry option) \<Rightarrow> bool" where
  "otp_dead k lo m \<longleftrightarrow>
     (case m k of
        None \<Rightarrow> True
      | Some x \<Rightarrow> (case kv_expires_at x of None \<Rightarrow> False | Some t \<Rightarrow> t < lo))"

lemma otp_dead_get: "otp_dead k lo m \<Longrightarrow> lo \<le> now \<Longrightarrow> redis_get now k m = None"
  by (auto simp: otp_dead_def redis_get_def split: option.splits)

lemma otp_dead_keep: "k \<noteq> a \<Longrightarrow> otp_dead k lo (m(a := x)) = otp_dead k lo m"
  by (simp add: otp_dead_def)

lemma otp_guesses_dead:
  assumes "otp_dead k lo m" and "k \<noteq> a" and "\<forall>g \<in> set gs. lo \<le> fst g" and "i < length gs"
  shows "\<not> otp_guesses k a gs m ! i"
  using assms
proof (induction gs arbitrary: m i)
  case (Cons g gs)
  obtain now guess where g: "g = (now, guess)" by (cases g)
  then have "redis_get now k m = None" using Cons.prems otp_dead_get by auto
  then have "otp_guesses k a (g # gs) m = False # otp_guesses k a gs (m(a := None))"
    by (simp add: g otp_consume_script_def)
  moreover have "\<not> otp_guesses k a gs (m(a := None)) ! j" if "j < length gs" for j
  proof (rule Cons.IH)
    show "otp_dead k lo (m(a := None))" using Cons.prems(1,2) otp_dead_keep by metis
  qed (use Cons.prems that in simp_all)
  ultimately show ?case using Cons.prems(4) by (cases i) simp_all
qed simp

text \<open>One guess against a live code.\<close>

lemma otp_guess_right:
  assumes "otp_counted k a code expiry n m" and "now \<le> expiry"
  shows "otp_consume_script now k a code limit fallback m = Some (1, (m(k := None))(a := None))"
  using assms by (simp add: otp_consume_script_def otp_counted_def redis_get_def)

lemma otp_incr_counted:
  assumes "otp_counted k a code expiry n m" and "now \<le> expiry"
  shows "\<exists>m'. redis_incr now a m = Some (int n + 1, m') \<and> m' = m(a := m' a) \<and>
    (if n = 0 then m' a = Some \<lparr>kv_value = itoa 1, kv_expires_at = None\<rparr>
     else (\<exists>t \<ge> expiry. m' a = Some \<lparr>kv_value = itoa (int n + 1), kv_expires_at = Some t\<rparr>))"
proof (cases "n = 0")
  case True
  moreover have "itoa 1 = ''1''" by code_simp
  ultimately show ?thesis using assms by (simp add: otp_counted_def redis_incr_def redis_get_def)
next
  case False
  then obtain t where "expiry \<le> t" "m a = Some \<lparr>kv_value = itoa (int n), kv_expires_at = Some t\<rparr>"
    using assms(1) by (auto simp: otp_counted_def)
  moreover have "atoi (itoa (int n)) = Some (int n)"
    using assms(1) by (intro atoi_itoa) (simp add: otp_counted_def int64_range_def)
  ultimately show ?thesis using False assms(2) by (simp add: redis_incr_def redis_get_def)
qed

lemma otp_guess_wrong:
  assumes "otp_counted k a code expiry n m" and "now \<le> expiry" and "guess \<noteq> code" and "k \<noteq> a"
    and "0 < fallback"
  shows "\<exists>r m'. otp_consume_script now k a guess 5 fallback m = Some (r, m') \<and> r \<noteq> 1 \<and>
    (if n = 4 then m' k = None else otp_counted k a code expiry (Suc n) m')"
proof -
  obtain m' where m': "redis_incr now a m = Some (int n + 1, m')" "m' = m(a := m' a)"
    and c: "if n = 0 then m' a = Some \<lparr>kv_value = itoa 1, kv_expires_at = None\<rparr>
     else (\<exists>t \<ge> expiry. m' a = Some \<lparr>kv_value = itoa (int n + 1), kv_expires_at = Some t\<rparr>)"
    using otp_incr_counted [OF assms(1,2)] by blast
  have k: "m' k = Some \<lparr>kv_value = code, kv_expires_at = Some expiry\<rparr>" "n < 5"
    using assms(1,4) fun_cong [OF m'(2), of k] by (auto simp: otp_counted_def)
  have g: "redis_get now k m = Some \<lparr>kv_value = code, kv_expires_at = Some expiry\<rparr>"
    using assms(1,2) by (simp add: otp_counted_def redis_get_def)
  show ?thesis
  proof (cases "n = 0")
    case True
    with m' c k g assms(2-5) show ?thesis
      by (auto simp: otp_consume_script_def redis_pttl_def Let_def otp_counted_def)
  next
    case False
    then obtain t where "expiry \<le> t" "m' a = Some \<lparr>kv_value = itoa (int n + 1), kv_expires_at = Some t\<rparr>"
      using c by auto
    with False m' k g assms(3,4) show ?thesis
      by (auto simp: otp_consume_script_def redis_pttl_def Let_def otp_counted_def add.commute)
  qed
qed

lemma otp_guesses_counted:
  assumes "otp_counted k a code expiry n m" and "k \<noteq> a"
    and "sorted (map fst (xs @ (t, g) # zs))"
    and "otp_guesses k a (xs @ (t, g) # zs) m ! length xs"
  shows "g = code \<and> t \<le> expiry \<and> list_all (\<lambda>x. snd x \<noteq> code) xs \<and> n + length xs < 5"
  using assms
proof (induction xs arbitrary: n m)
  case Nil
  have "t \<le> expiry"
  proof (rule ccontr)
    assume "\<not> t \<le> expiry"
    then have "otp_dead k t m" using Nil.prems(1) by (simp add: otp_dead_def otp_counted_def)
    then have "redis_get t k m = None" by (rule otp_dead_get) simp
    then show False using Nil.prems(4) by (simp add: otp_consume_script_def)
  qed
  moreover have "g = code"
  proof (rule ccontr)
    assume "g \<noteq> code"
    from otp_guess_wrong [OF Nil.prems(1) \<open>t \<le> expiry\<close> this Nil.prems(2), of "15 * 60 * 1000"]
      Nil.prems(4) show False by (auto simp: max_otp_verification_attempts_def)
  qed
  ultimately show ?case using Nil.prems(1) by (simp add: otp_counted_def)
next
  case (Cons x xs)
  obtain now guess where x: "x = (now, guess)" by (cases x)
  have later: "\<forall>y \<in> set (xs @ (t, g) # zs). now \<le> fst y" using Cons.prems(3) by (auto simp: x)
  have dead: "\<not> otp_guesses k a (xs @ (t, g) # zs) m' ! length xs" if "otp_dead k now m'" for m'
    by (rule otp_guesses_dead [OF that Cons.prems(2) later]) simp
  have "now \<le> expiry"
  proof (rule ccontr)
    assume "\<not> now \<le> expiry"
    then have d: "otp_dead k now m" using Cons.prems(1) by (simp add: otp_dead_def otp_counted_def)
    then have "redis_get now k m = None" by (rule otp_dead_get) simp
    then show False
      using Cons.prems(4) dead [of "m(a := None)"] d Cons.prems(2)
      by (simp add: x otp_consume_script_def otp_dead_keep)
  qed
  moreover have "guess \<noteq> code"
  proof
    assume "guess = code"
    then have "otp_guesses k a (xs @ (t, g) # zs) ((m(k := None))(a := None)) ! length xs"
      using Cons.prems(4) otp_guess_right [OF Cons.prems(1) \<open>now \<le> expiry\<close>] by (simp add: x)
    moreover have "otp_dead k now ((m(k := None))(a := None))"
      using Cons.prems(2) by (simp add: otp_dead_def)
    ultimately show False using dead by blast
  qed
  ultimately obtain r m' where
    r: "otp_consume_script now k a guess 5 (15 * 60 * 1000) m = Some (r, m')" "r \<noteq> 1"
      "if n = 4 then m' k = None else otp_counted k a code expiry (Suc n) m'"
    using otp_guess_wrong [OF Cons.prems(1) _ _ Cons.prems(2), of now guess "15 * 60 * 1000"] by auto
  have acc: "otp_guesses k a (xs @ (t, g) # zs) m' ! length xs"
    using Cons.prems(4) r(1) by (simp add: x max_otp_verification_attempts_def)
  have "n \<noteq> 4"
  proof
    assume "n = 4"
    then have "otp_dead k now m'" using r(3) by (simp add: otp_dead_def)
    with acc dead show False by blast
  qed
  with r(3) have "otp_counted k a code expiry (Suc n) m'" by simp
  from Cons.IH [OF this Cons.prems(2) _ acc] Cons.prems(3) \<open>guess \<noteq> code\<close>
  show ?case by (simp add: x)
qed

section \<open>The bound\<close>

lemma otp_keys_differ: "otp_key lib p m \<noteq> otp_attempt_key lib p m"
  by (simp add: otp_attempt_key_def)

text \<open>
  C23. A code can be guessed at most five times. Whatever calls of \<open>Consume\<close> follow a \<open>Put\<close>, in
  the order Redis runs them: one that is accepted gave the code, in time, after fewer than five
  calls, none of which gave the code. So a code is accepted once, and never after five wrong
  guesses, until a new one is put.
\<close>

theorem otp_five_guesses:
  assumes "sorted (t0 # map fst (xs @ (t, g) # zs))"
    and "otp_guesses (otp_key lib p em) (otp_attempt_key lib p em) (xs @ (t, g) # zs)
      (otp_put_script t0 (otp_key lib p em) (otp_attempt_key lib p em) code ttl m) ! length xs"
  shows "g = code \<and> t \<le> t0 + ttl \<and> list_all (\<lambda>x. snd x \<noteq> code) xs \<and> length xs < 5"
proof -
  have "otp_counted (otp_key lib p em) (otp_attempt_key lib p em) code (t0 + ttl) 0
      (otp_put_script t0 (otp_key lib p em) (otp_attempt_key lib p em) code ttl m)"
    using otp_keys_differ [of lib p em] by (simp add: otp_counted_def otp_put_script_def)
  from otp_guesses_counted [OF this otp_keys_differ _ assms(2)] assms(1) show ?thesis by simp
qed

text \<open>Libraries for the witnesses: ASCII case, no mail syntax, a digest that is the start of the text.\<close>

definition sample_lib :: auth_lib where
  "sample_lib =
     \<lparr>al_lower = to_lower, al_equal_fold = equal_fold, al_parse_address = Some, al_sha256 = take 8,
      al_bcrypt_matches = (\<lambda>h p. h = ''$2a$'' @ p), al_bcrypt_generate = (\<lambda>e p. Inr (''$2a$'' @ p)),
      al_pending_json = (\<lambda>r. pr_name r), al_pending_parse = (\<lambda>s. None)\<rparr>"

definition sample_guesses :: "(int \<times> string) list" where
  "sample_guesses = [(10, ''000001''), (20, ''000002''), (30, ''000003''), (40, ''000004'')]"

theorem otp_five_guesses_witness:
  "otp_guesses (otp_key sample_lib ''reset'' ''a@b.ph'') (otp_attempt_key sample_lib ''reset'' ''a@b.ph'')
     (sample_guesses @ [(50, ''123456''), (60, ''123456'')])
     (otp_put_script 0 (otp_key sample_lib ''reset'' ''a@b.ph'') (otp_attempt_key sample_lib ''reset'' ''a@b.ph'')
        ''123456'' 600000 Map.empty) = [False, False, False, False, True, False] \<and>
   (50 :: int) \<le> 0 + 600000 \<and> list_all (\<lambda>x. snd x \<noteq> ''123456'') sample_guesses \<and> length sample_guesses < 5"
proof -
  let ?r = "otp_guesses (otp_key sample_lib ''reset'' ''a@b.ph'') (otp_attempt_key sample_lib ''reset'' ''a@b.ph'')
     (sample_guesses @ [(50, ''123456''), (60, ''123456'')])
     (otp_put_script 0 (otp_key sample_lib ''reset'' ''a@b.ph'') (otp_attempt_key sample_lib ''reset'' ''a@b.ph'')
        ''123456'' 600000 Map.empty)"
  have r: "?r = [False, False, False, False, True, False]" by code_simp
  have n: "length sample_guesses = 4" by code_simp
  then have "?r ! length sample_guesses" by (simp add: r)
  moreover have "sorted (0 # map fst (sample_guesses @ [(50, ''123456''), (60, ''123456'')]))" by code_simp
  ultimately show ?thesis using otp_five_guesses [of 0 sample_guesses 50 "''123456''" "[(60, ''123456'')]"] r by blast
qed

end
