(* ===== verification/Auth_Store.thy ===== *)
theory Auth_Store
  imports Auth_Redis
begin

text \<open>
  The PostgreSQL repositories of \<open>auth/adapter/postgres\<close>: accounts (\<open>user_repository.go\<close>) and
  refresh sessions (\<open>session_store.go\<close>). A repository without its pool is the argument
  \<open>False\<close>. The interfaces \<open>UserStore\<close>, \<open>SessionStore\<close>, \<open>OTPStore\<close> and
  \<open>PendingRegistrationStore\<close> of \<open>auth/app/ports.go\<close> are records of their operations.
\<close>

section \<open>Domain values\<close>

record account =
  ac_id :: int
  ac_email :: string
  ac_phone :: string
  ac_name :: string
  ac_role :: string
  ac_password_hash :: string
  ac_is_verified :: bool
  ac_vehicle_type :: string
  ac_plate_number :: string
  ac_account_status :: string

record refresh_session =
  fs_user_id :: int
  fs_token_hash :: string
  fs_expires_at :: int

section \<open>Ports\<close>

record user_store =
  us_create :: "account \<Rightarrow> account acmd"
  us_find_by_email :: "string \<Rightarrow> account acmd"
  us_find_by_id :: "int \<Rightarrow> account acmd"
  us_update_password :: "int \<Rightarrow> string \<Rightarrow> unit acmd"
  us_upgrade_password_hash :: "int \<Rightarrow> string \<Rightarrow> string \<Rightarrow> bool acmd"
  us_mark_verified :: "int \<Rightarrow> unit acmd"

record session_store =
  sn_create :: "refresh_session \<Rightarrow> unit acmd"
  sn_find_active :: "string \<Rightarrow> int \<Rightarrow> refresh_session acmd"
  sn_rotate :: "string \<Rightarrow> refresh_session \<Rightarrow> int \<Rightarrow> unit acmd"
  sn_revoke :: "string \<Rightarrow> int \<Rightarrow> unit acmd"
  sn_revoke_all :: "int \<Rightarrow> int \<Rightarrow> unit acmd"

record otp_store =
  ot_put :: "string \<Rightarrow> string \<Rightarrow> string \<Rightarrow> int \<Rightarrow> unit acmd"
  ot_consume :: "string \<Rightarrow> string \<Rightarrow> string \<Rightarrow> unit acmd"

record pending_store =
  pn_put :: "pending_registration \<Rightarrow> int \<Rightarrow> unit acmd"
  pn_get :: "string \<Rightarrow> pending_registration acmd"
  pn_delete :: "string \<Rightarrow> unit acmd"

section \<open>Accounts\<close>

definition user_repository_validate :: "bool \<Rightarrow> unit acmd" where
  "user_repository_validate initialized =
     (if initialized then io_return ()
      else io_throw (Failure ''postgresql user repository is not initialized''))"

definition to_postgres_user_id :: "int \<Rightarrow> err + int" where
  "to_postgres_user_id user_id =
     (if user_id < - (2 ^ 31) \<or> user_id > 2 ^ 31 - 1
      then Inl (Failure ''user id is outside PostgreSQL integer range'') else Inr user_id)"

definition validate_user_role :: "string \<Rightarrow> err + unit" where
  "validate_user_role role =
     (if role = ''driver'' \<or> role = ''passenger'' then Inr () else Inl (Auth ErrInvalidRole))"

definition text_value :: "string option \<Rightarrow> string" where
  "text_value v = (case v of None \<Rightarrow> '''' | Some s \<Rightarrow> s)"

definition from_postgres_user :: "user_row \<Rightarrow> account" where
  "from_postgres_user u =
     \<lparr>ac_id = u_id u, ac_email = u_email u, ac_phone = u_phone u, ac_name = text_value (u_name u),
      ac_role = u_role u, ac_password_hash = u_password_hash u, ac_is_verified = u_is_verified u,
      ac_vehicle_type = '''', ac_plate_number = '''', ac_account_status = u_account_status u\<rparr>"

definition unique_violation_error :: "err \<Rightarrow> bool" where
  "unique_violation_error x = (case x of PgError code _ \<Rightarrow> code = ''23505'' | _ \<Rightarrow> False)"

definition with_profile :: "account \<Rightarrow> account acmd" where
  "with_profile account =
     (if ac_role account = ''driver'' then
        io_bind (get_driver_profile_by_user_id (ac_id account)) (\<lambda>(name, vehicle_type, plate_number).
        io_return (account\<lparr>ac_name := name, ac_vehicle_type := vehicle_type, ac_plate_number := plate_number\<rparr>))
      else if ac_role account = ''passenger'' then
        io_bind (get_passenger_profile_by_user_id (ac_id account)) (\<lambda>(name, _).
        io_return (account\<lparr>ac_name := name\<rparr>))
      else io_throw (Auth ErrInvalidRole))"

definition user_repo_create :: "bool \<Rightarrow> account \<Rightarrow> account acmd" where
  "user_repo_create initialized account =
     io_bind (user_repository_validate initialized) (\<lambda>_.
     io_bind (io_lift (validate_user_role (ac_role account))) (\<lambda>_.
     io_bind (transaction (
       io_bind (io_map_err (\<lambda>x. if unique_violation_error x then Auth ErrAccountConflict else x)
         (create_user (Some (ac_name account)) (ac_phone account) (ac_email account)
           (ac_password_hash account) (ac_role account) (ac_is_verified account))) (\<lambda>created.
       io_bind
         (if ac_role account = ''driver''
          then create_driver_profile (u_id created) (ac_name account) (ac_vehicle_type account)
                 (ac_plate_number account)
          else if ac_role account = ''passenger''
          then create_passenger_profile (u_id created) (ac_name account)
          else io_return ()) (\<lambda>_.
       io_return created)))) (\<lambda>created.
     io_return ((from_postgres_user created)\<lparr>ac_name := ac_name account,
       ac_vehicle_type := ac_vehicle_type account, ac_plate_number := ac_plate_number account\<rparr>))))"

definition user_repo_mark_verified :: "bool \<Rightarrow> int \<Rightarrow> unit acmd" where
  "user_repo_mark_verified initialized user_id =
     io_bind (user_repository_validate initialized) (\<lambda>_.
     io_bind (io_lift (to_postgres_user_id user_id)) (\<lambda>db_user_id.
     io_bind (mark_user_verified db_user_id) (\<lambda>rows.
     if rows = 0 then io_throw NoRows else io_return ())))"

definition user_not_found :: "err \<Rightarrow> err" where
  "user_not_found x = (if x = NoRows then Auth ErrUserNotFound else x)"

definition user_repo_find_by_email :: "bool \<Rightarrow> string \<Rightarrow> account acmd" where
  "user_repo_find_by_email initialized email =
     io_bind (user_repository_validate initialized) (\<lambda>_.
     io_bind (io_map_err user_not_found (get_user_by_email email)) (\<lambda>u.
     with_profile (from_postgres_user u)))"

definition user_repo_find_by_id :: "bool \<Rightarrow> int \<Rightarrow> account acmd" where
  "user_repo_find_by_id initialized user_id =
     io_bind (user_repository_validate initialized) (\<lambda>_.
     io_bind (io_lift (to_postgres_user_id user_id)) (\<lambda>db_user_id.
     io_bind (io_map_err user_not_found (get_user_by_id db_user_id)) (\<lambda>u.
     with_profile (from_postgres_user u))))"

definition user_repo_update_password :: "bool \<Rightarrow> int \<Rightarrow> string \<Rightarrow> unit acmd" where
  "user_repo_update_password initialized user_id password_hash =
     io_bind (user_repository_validate initialized) (\<lambda>_.
     io_bind (io_lift (to_postgres_user_id user_id)) (\<lambda>db_user_id.
     io_bind (update_user_password db_user_id password_hash) (\<lambda>rows.
     if rows = 0 then io_throw NoRows else io_return ())))"

definition user_repo_upgrade_password_hash :: "bool \<Rightarrow> int \<Rightarrow> string \<Rightarrow> string \<Rightarrow> bool acmd" where
  "user_repo_upgrade_password_hash initialized user_id expected_hash password_hash =
     io_bind (user_repository_validate initialized) (\<lambda>_.
     io_bind (io_lift (to_postgres_user_id user_id)) (\<lambda>db_user_id.
     io_bind (upgrade_user_password_hash password_hash db_user_id expected_hash) (\<lambda>rows.
     io_return (rows > 0))))"

definition user_repo_update_email :: "bool \<Rightarrow> int \<Rightarrow> string \<Rightarrow> string \<Rightarrow> unit acmd" where
  "user_repo_update_email initialized user_id expected_email new_email =
     io_bind (user_repository_validate initialized) (\<lambda>_.
     io_bind (io_lift (to_postgres_user_id user_id)) (\<lambda>db_user_id.
     io_bind (io_map_err (\<lambda>x. if unique_violation_error x then Auth ErrEmailTaken else x)
       (update_user_email new_email db_user_id expected_email)) (\<lambda>rows.
     if rows = 0 then io_throw (Auth ErrEmailChangeStale) else io_return ())))"

section \<open>Refresh sessions\<close>

definition session_repository_validate :: "bool \<Rightarrow> unit acmd" where
  "session_repository_validate initialized =
     (if initialized then io_return ()
      else io_throw (Failure ''postgresql refresh session repository is not initialized''))"

definition from_postgres_refresh_session :: "refresh_session_row \<Rightarrow> err + refresh_session" where
  "from_postgres_refresh_session s =
     (case rs_expires_at s of
        None \<Rightarrow> Inl (Failure ''refresh session expiry is null'')
      | Some t \<Rightarrow> Inr \<lparr>fs_user_id = rs_user_id s, fs_token_hash = rs_token_hash s, fs_expires_at = t\<rparr>)"

definition session_not_found :: "err \<Rightarrow> err" where
  "session_not_found x = (if x = NoRows then Auth ErrInvalidRefreshToken else x)"

definition session_repo_create :: "bool \<Rightarrow> refresh_session \<Rightarrow> unit acmd" where
  "session_repo_create initialized session =
     io_bind (session_repository_validate initialized) (\<lambda>_.
     io_bind (io_lift (to_postgres_user_id (fs_user_id session))) (\<lambda>user_id.
     create_refresh_session user_id (fs_token_hash session) (Some (fs_expires_at session))))"

definition session_repo_find_active :: "bool \<Rightarrow> string \<Rightarrow> int \<Rightarrow> refresh_session acmd" where
  "session_repo_find_active initialized token_hash now =
     io_bind (session_repository_validate initialized) (\<lambda>_.
     io_bind (io_map_err session_not_found (get_active_refresh_session token_hash now)) (\<lambda>row.
     io_lift (from_postgres_refresh_session row)))"

definition session_repo_rotate :: "bool \<Rightarrow> string \<Rightarrow> refresh_session \<Rightarrow> int \<Rightarrow> unit acmd" where
  "session_repo_rotate initialized token_hash replacement now =
     io_bind (session_repository_validate initialized) (\<lambda>_.
     io_bind (io_lift (to_postgres_user_id (fs_user_id replacement))) (\<lambda>replacement_user_id.
     transaction (
       io_bind (io_map_err session_not_found (get_active_refresh_session_for_update token_hash now))
         (\<lambda>current.
       if rs_user_id current \<noteq> replacement_user_id then io_throw (Auth ErrInvalidRefreshToken)
       else
         io_bind (revoke_refresh_session_by_id (rs_id current) now) (\<lambda>rows.
         if rows \<noteq> 1 then io_throw NoRows
         else create_refresh_session replacement_user_id (fs_token_hash replacement)
                (Some (fs_expires_at replacement)))))))"

definition session_repo_revoke :: "bool \<Rightarrow> string \<Rightarrow> int \<Rightarrow> unit acmd" where
  "session_repo_revoke initialized token_hash now =
     io_bind (session_repository_validate initialized) (\<lambda>_.
     revoke_refresh_session token_hash now)"

definition session_repo_revoke_all :: "bool \<Rightarrow> int \<Rightarrow> int \<Rightarrow> unit acmd" where
  "session_repo_revoke_all initialized user_id now =
     io_bind (session_repository_validate initialized) (\<lambda>_.
     io_bind (io_lift (to_postgres_user_id user_id)) (\<lambda>db_user_id.
     revoke_user_refresh_sessions db_user_id now))"

section \<open>The adapters behind the ports\<close>

definition postgres_users :: user_store where
  "postgres_users =
     \<lparr>us_create = user_repo_create True, us_find_by_email = user_repo_find_by_email True,
      us_find_by_id = user_repo_find_by_id True, us_update_password = user_repo_update_password True,
      us_upgrade_password_hash = user_repo_upgrade_password_hash True,
      us_mark_verified = user_repo_mark_verified True\<rparr>"

definition postgres_sessions :: session_store where
  "postgres_sessions =
     \<lparr>sn_create = session_repo_create True, sn_find_active = session_repo_find_active True,
      sn_rotate = session_repo_rotate True, sn_revoke = session_repo_revoke True,
      sn_revoke_all = session_repo_revoke_all True\<rparr>"

definition redis_otps :: "auth_lib \<Rightarrow> otp_store" where
  "redis_otps lib = \<lparr>ot_put = otp_store_put lib True, ot_consume = otp_store_consume lib True\<rparr>"

definition redis_pending :: "auth_lib \<Rightarrow> pending_store" where
  "redis_pending lib =
     \<lparr>pn_put = pending_store_put lib True, pn_get = pending_store_get lib True,
      pn_delete = pending_store_delete lib True\<rparr>"

end
