(* ===== verification/Auth_Token.thy ===== *)
theory Auth_Token
  imports Auth_Store
begin

text \<open>
  Passwords (\<open>platform/security/password.go\<close>) and session tokens (\<open>auth/app/token.go\<close>): refresh
  tokens are 32 random bytes in base64, kept in the database only as their SHA-256 digest.
\<close>

section \<open>Passwords\<close>

definition bcrypt_hash :: "string \<Rightarrow> bool" where
  "bcrypt_hash stored \<longleftrightarrow>
     has_prefix stored ''$2a$'' \<or> has_prefix stored ''$2b$'' \<or> has_prefix stored ''$2y$''"

definition legacy_password_hash :: "auth_lib \<Rightarrow> string \<Rightarrow> string" where
  "legacy_password_hash lib password = hex_encode (al_sha256 lib password)"

definition verify_password :: "auth_lib \<Rightarrow> string \<Rightarrow> string \<Rightarrow> bool" where
  "verify_password lib stored password =
     (if bcrypt_hash stored then al_bcrypt_matches lib stored password
      else stored = legacy_password_hash lib password)"

definition is_legacy_password_hash :: "string \<Rightarrow> bool" where
  "is_legacy_password_hash stored \<longleftrightarrow> length stored = 64 \<and> hex_decode stored \<noteq> None"

definition hash_password :: "auth_lib \<Rightarrow> env \<Rightarrow> string \<Rightarrow> err + string" where
  "hash_password lib e password =
     (if length password > 72 then Inl (Auth ErrPasswordTooLong)
      else al_bcrypt_generate lib e password)"

section \<open>Tokens\<close>

definition refresh_token_bytes :: nat where
  "refresh_token_bytes = 32"

text \<open>\<open>security.RefreshTokenLifetime\<close>, thirty days.\<close>

definition refresh_token_lifetime :: int where
  "refresh_token_lifetime = 30 * 24 * 60 * minute"

text \<open>A \<open>TokenIssuer\<close>, which may also be a \<open>roleTokenIssuer\<close>.\<close>

record token_issuer =
  ti_issue :: "string \<Rightarrow> string acmd"
  ti_issue_with_role :: "(string \<Rightarrow> string \<Rightarrow> string acmd) option"

record session_tokens =
  access_token :: string
  refresh_token :: string

definition unavailable_error :: "err \<Rightarrow> err" where
  "unavailable_error _ = Auth ErrRefreshSessionUnavailable"

definition issue_token :: "token_issuer option \<Rightarrow> string \<Rightarrow> string \<Rightarrow> string acmd" where
  "issue_token issuer subject role =
     (case issuer of
        None \<Rightarrow> io_throw (Failure ''token issuer is nil'')
      | Some i \<Rightarrow>
          (case ti_issue_with_role i of
             Some issue \<Rightarrow> issue subject role
           | None \<Rightarrow> ti_issue i subject))"

definition hash_refresh_token :: "auth_lib \<Rightarrow> string \<Rightarrow> string" where
  "hash_refresh_token lib token = hex_encode (al_sha256 lib token)"

definition new_refresh_token :: "auth_lib \<Rightarrow> (string \<times> string) acmd" where
  "new_refresh_token lib = query ''rand.Read'' (\<lambda>e w.
     let token = b64_encode (env_random e ''refresh token'') in
     (Inr (token, hash_refresh_token lib token), w))"

definition valid_refresh_token :: "string \<Rightarrow> bool" where
  "valid_refresh_token token =
     (if length token \<noteq> b64_encoded_len refresh_token_bytes then False
      else (case b64_decode token of
              None \<Rightarrow> False
            | Some decoded \<Rightarrow> length decoded = refresh_token_bytes))"

definition subject_id :: "string \<Rightarrow> err + int" where
  "subject_id subject =
     (case atoi subject of
        None \<Rightarrow> Inl (Failure ''invalid account subject'')
      | Some user_id \<Rightarrow> if user_id \<le> 0 then Inl (Failure ''invalid account subject'') else Inr user_id)"

definition issue_refresh_token ::
  "auth_lib \<Rightarrow> session_store option \<Rightarrow> string \<Rightarrow> string \<Rightarrow> string acmd" where
  "issue_refresh_token lib sessions subject role =
     (case sessions of
        None \<Rightarrow> io_throw (Auth ErrRefreshSessionUnavailable)
      | Some store \<Rightarrow>
          io_bind (io_lift (subject_id subject)) (\<lambda>user_id.
          io_bind (new_refresh_token lib) (\<lambda>(refresh_token, token_hash).
          io_bind (io_env env_now) (\<lambda>now.
          io_bind (io_map_err unavailable_error (sn_create store
            \<lparr>fs_user_id = user_id, fs_token_hash = token_hash,
             fs_expires_at = now + refresh_token_lifetime\<rparr>)) (\<lambda>_.
          io_return refresh_token)))))"

definition issue_session_tokens ::
  "auth_lib \<Rightarrow> session_store option \<Rightarrow> token_issuer option \<Rightarrow> string \<Rightarrow> string \<Rightarrow> session_tokens acmd" where
  "issue_session_tokens lib sessions issuer subject role =
     io_bind (issue_token issuer subject role) (\<lambda>access.
     io_bind (issue_refresh_token lib sessions subject role) (\<lambda>refresh.
     io_return \<lparr>access_token = access, refresh_token = refresh\<rparr>))"

definition replacement_refresh_session :: "auth_lib \<Rightarrow> int \<Rightarrow> int \<Rightarrow> (string \<times> refresh_session) acmd" where
  "replacement_refresh_session lib user_id now =
     io_bind (new_refresh_token lib) (\<lambda>(refresh_token, token_hash).
     io_return (refresh_token,
       \<lparr>fs_user_id = user_id, fs_token_hash = token_hash, fs_expires_at = now + refresh_token_lifetime\<rparr>))"

lemma valid_encoded_token:
  "length bytes = refresh_token_bytes \<Longrightarrow> valid_refresh_token (b64_encode bytes)"
  by (simp add: valid_refresh_token_def length_b64_encode b64_roundtrip)

end
