(* ===== verification/Auth_Service.thy ===== *)
theory Auth_Service
  imports Auth_Token
begin

text \<open>
  The use cases of \<open>auth/app\<close>: logging in, refreshing and logging out (\<open>authenticate.go\<close>),
  registering (\<open>register.go\<close>), and the verification, password-reset and e-mail-change flows
  (\<open>otp.go\<close>). A missing dependency is \<open>None\<close>; log messages are not kept. Login, refresh and
  password reset are composed of the parts between which other requests can run.
\<close>

section \<open>Login\<close>

record authenticate_service =
  au_repository :: "user_store option"
  au_tokens :: "token_issuer option"
  au_sessions :: "session_store option"
  au_hash_password :: "env \<Rightarrow> string \<Rightarrow> err + string"
  au_dummy_hash :: string
  au_lib :: auth_lib

definition dummy_bcrypt_hash :: string where
  "dummy_bcrypt_hash = ''$2a$12$sjZVk/NciE592gulJMkQWOigSaIF6q6HExHI0yRsy.XMYD7ffKW3i''"

definition get_dummy_hash :: "authenticate_service \<Rightarrow> string" where
  "get_dummy_hash service = (if au_dummy_hash service \<noteq> '''' then au_dummy_hash service else dummy_bcrypt_hash)"

definition account_suspended :: "account \<Rightarrow> bool" where
  "account_suspended account \<longleftrightarrow>
     ac_account_status account \<noteq> '''' \<and> ac_account_status account \<noteq> ''active''"

text \<open>The upgrade of a legacy hash; its value is the hash the session is tied to.\<close>

definition upgrade_legacy_hash :: "authenticate_service \<Rightarrow> user_store \<Rightarrow> account \<Rightarrow> string \<Rightarrow> string acmd" where
  "upgrade_legacy_hash service repository account password =
     (if is_legacy_password_hash (ac_password_hash account) then
        io_bind (io_env (\<lambda>e. au_hash_password service e password)) (\<lambda>hashed.
        case hashed of
          Inl _ \<Rightarrow> io_return (ac_password_hash account)
        | Inr upgraded_hash \<Rightarrow>
            io_try (us_upgrade_password_hash repository (ac_id account) (ac_password_hash account) upgraded_hash)
              (\<lambda>upgraded. io_return (if upgraded = Inr True then upgraded_hash else ac_password_hash account)))
      else io_return (ac_password_hash account))"

text \<open>\<open>execute\<close> up to the point where the credentials are known to be right.\<close>

definition authenticate_verify ::
  "authenticate_service \<Rightarrow> user_store \<Rightarrow> string \<Rightarrow> string \<Rightarrow> string \<Rightarrow> (account \<times> string) acmd" where
  "authenticate_verify service repository email password role =
     io_try (us_find_by_email repository (al_lower (au_lib service) (trim_space email))) (\<lambda>found.
     case found of
       Inl x \<Rightarrow> io_throw (if x = Auth ErrUserNotFound then Auth ErrInvalidCredentials else x)
     | Inr account \<Rightarrow>
         let hash_to_verify =
               (if ac_password_hash account = '''' then get_dummy_hash service else ac_password_hash account)
         in
           if \<not> verify_password (au_lib service) hash_to_verify password
           then io_throw (Auth ErrInvalidCredentials)
           else if role \<noteq> '''' \<and> ac_role account \<noteq> role then io_throw (Auth ErrInvalidCredentials)
           else if account_suspended account then io_throw (Auth ErrAccountSuspended)
           else
             io_bind (upgrade_legacy_hash service repository account password) (\<lambda>current_hash.
             io_return (account, current_hash)))"

definition ensure_credentials_unchanged :: "authenticate_service \<Rightarrow> user_store \<Rightarrow> int \<Rightarrow> string \<Rightarrow> unit acmd" where
  "ensure_credentials_unchanged service repository user_id verified_hash =
     (case au_sessions service of
        None \<Rightarrow> io_return ()
      | Some sessions \<Rightarrow>
          io_try (us_find_by_id repository user_id) (\<lambda>latest.
          if (case latest of Inl _ \<Rightarrow> False | Inr a \<Rightarrow> ac_password_hash a = verified_hash)
          then io_return ()
          else
            io_bind (io_env env_now) (\<lambda>now.
            io_try (sn_revoke_all sessions user_id now) (\<lambda>_.
            case latest of Inl x \<Rightarrow> io_throw x | Inr _ \<Rightarrow> io_throw (Auth ErrInvalidCredentials)))))"

definition authenticate_issue :: "authenticate_service \<Rightarrow> account \<Rightarrow> session_tokens acmd" where
  "authenticate_issue service account =
     issue_session_tokens (au_lib service) (au_sessions service) (au_tokens service)
       (itoa (ac_id account)) (ac_role account)"

definition authenticate_execute ::
  "authenticate_service \<Rightarrow> string \<Rightarrow> string \<Rightarrow> string \<Rightarrow> (account \<times> session_tokens) acmd" where
  "authenticate_execute service email password role =
     (case au_repository service of
        None \<Rightarrow> io_throw (Auth ErrInvalidCredentials)
      | Some repository \<Rightarrow>
          io_bind (authenticate_verify service repository email password role) (\<lambda>(account, current_hash).
          io_bind (authenticate_issue service account) (\<lambda>tokens.
          io_bind (ensure_credentials_unchanged service repository (ac_id account) current_hash) (\<lambda>_.
          io_return (account, tokens)))))"

section \<open>Refresh and logout\<close>

text \<open>\<open>Refresh\<close> up to the rotation; its value is what the rotation needs.\<close>

definition refresh_find ::
  "authenticate_service \<Rightarrow> user_store \<Rightarrow> session_store \<Rightarrow> string \<Rightarrow> int \<Rightarrow> (refresh_session \<times> account) acmd" where
  "refresh_find service repository sessions raw_token now =
     io_bind (io_map_err (\<lambda>x. if x = Auth ErrInvalidRefreshToken then x else unavailable_error x)
       (sn_find_active sessions (hash_refresh_token (au_lib service) raw_token) now)) (\<lambda>current.
     io_bind (io_map_err unavailable_error (us_find_by_id repository (fs_user_id current))) (\<lambda>account.
     if ac_id account \<noteq> fs_user_id current then io_throw (Auth ErrInvalidRefreshToken)
     else if account_suspended account then io_throw (Auth ErrAccountSuspended)
     else io_return (current, account)))"

definition refresh_rotate ::
  "authenticate_service \<Rightarrow> session_store \<Rightarrow> refresh_session \<Rightarrow> account \<Rightarrow> int \<Rightarrow> session_tokens acmd" where
  "refresh_rotate service sessions current account now =
     io_bind (issue_token (au_tokens service) (itoa (ac_id account)) (ac_role account)) (\<lambda>access.
     io_bind (replacement_refresh_session (au_lib service) (ac_id account) now) (\<lambda>(replacement_token, replacement).
     io_bind (io_map_err (\<lambda>x. if x = Auth ErrInvalidRefreshToken then x else unavailable_error x)
       (sn_rotate sessions (fs_token_hash current) replacement now)) (\<lambda>_.
     io_return \<lparr>access_token = access, refresh_token = replacement_token\<rparr>)))"

definition authenticate_refresh :: "authenticate_service \<Rightarrow> string \<Rightarrow> session_tokens acmd" where
  "authenticate_refresh service raw_token =
     (case (au_sessions service, au_repository service) of
        (Some sessions, Some repository) \<Rightarrow>
          let raw_token = trim_space raw_token in
          if \<not> valid_refresh_token raw_token then io_throw (Auth ErrInvalidRefreshToken)
          else
            io_bind (io_env env_now) (\<lambda>now.
            io_bind (refresh_find service repository sessions raw_token now) (\<lambda>(current, account).
            refresh_rotate service sessions current account now))
      | _ \<Rightarrow> io_throw (Auth ErrRefreshSessionUnavailable))"

definition authenticate_logout :: "authenticate_service \<Rightarrow> string \<Rightarrow> unit acmd" where
  "authenticate_logout service raw_token =
     (case au_sessions service of
        None \<Rightarrow> io_throw (Auth ErrRefreshSessionUnavailable)
      | Some sessions \<Rightarrow>
          let raw_token = trim_space raw_token in
          if \<not> valid_refresh_token raw_token then io_throw (Auth ErrInvalidRefreshToken)
          else
            io_bind (io_env env_now) (\<lambda>now.
            io_map_err unavailable_error
              (sn_revoke sessions (hash_refresh_token (au_lib service) raw_token) now)))"

section \<open>Registration\<close>

record register_input =
  ri_email :: string
  ri_phone :: string
  ri_name :: string
  ri_password :: string
  ri_vehicle_type :: string
  ri_plate_number :: string

record register_service =
  rg_repository :: "user_store option"
  rg_tokens :: "token_issuer option"
  rg_sessions :: "session_store option"
  rg_hash_password :: "env \<Rightarrow> string \<Rightarrow> err + string"
  rg_lib :: auth_lib

text \<open>The regular expression \<open>^\\+[1-9][0-9]{7,14}$\<close>.\<close>

definition e164_phone :: "string \<Rightarrow> bool" where
  "e164_phone s =
     (case s of
        p # d # ds \<Rightarrow> p = CHR ''+'' \<and> byte_between 49 d 57 \<and> 7 \<le> length ds \<and> length ds \<le> 14 \<and>
          list_all is_digit ds
      | _ \<Rightarrow> False)"

definition valid_email :: "auth_lib \<Rightarrow> string \<Rightarrow> bool" where
  "valid_email lib v =
     (if v = '''' \<or> length v > 254 then False
      else (case al_parse_address lib v of None \<Rightarrow> False | Some address \<Rightarrow> al_equal_fold lib address v))"

text \<open>The normalized registration has the fields of a pending one.\<close>

definition normalize_input :: "register_service \<Rightarrow> register_input \<Rightarrow> string \<Rightarrow> env \<Rightarrow> err + pending_registration" where
  "normalize_input service input role e =
     (let email = al_lower (rg_lib service) (trim_space (ri_email input));
          name = trim_space (ri_name input);
          phone = trim_space (ri_phone input);
          vehicle_type = trim_space (ri_vehicle_type input);
          plate_number = trim_space (ri_plate_number input);
          invalid_name = (name = '''' \<or> rune_count name > 100);
          invalid_password = (length (ri_password input) < 8 \<or> length (ri_password input) > 72)
      in
        if \<not> valid_email (rg_lib service) email \<or> invalid_name \<or> \<not> e164_phone phone \<or> invalid_password
        then Inl (Auth ErrInvalidCredentials)
        else if role = ''driver'' \<and>
          (vehicle_type = '''' \<or> rune_count vehicle_type > 80 \<or> plate_number = '''' \<or> rune_count plate_number > 32)
        then Inl (Auth ErrInvalidCredentials)
        else (case rg_hash_password service e (ri_password input) of
                Inl x \<Rightarrow> Inl x
              | Inr password_hash \<Rightarrow>
                  Inr \<lparr>pr_email = email, pr_phone = phone, pr_name = name, pr_password_hash = password_hash,
                       pr_role = role, pr_vehicle_type = vehicle_type, pr_plate_number = plate_number\<rparr>))"

text \<open>The address must not belong to an account yet.\<close>

definition ensure_unregistered :: "user_store \<Rightarrow> string \<Rightarrow> unit acmd" where
  "ensure_unregistered repository email =
     io_try (us_find_by_email repository email) (\<lambda>existing.
     case existing of
       Inr account \<Rightarrow> if ac_id account \<noteq> 0 then io_throw (Auth ErrEmailTaken) else io_return ()
     | Inl x \<Rightarrow> if x = Auth ErrUserNotFound then io_return () else io_throw x)"

definition register_prepare_passenger :: "register_service \<Rightarrow> register_input \<Rightarrow> pending_registration acmd" where
  "register_prepare_passenger service input =
     (case rg_repository service of
        None \<Rightarrow> io_throw (Auth ErrRegistrationUnavailable)
      | Some repository \<Rightarrow>
          io_bind (io_env (normalize_input service input ''passenger'')) (\<lambda>normalized.
          io_bind (io_lift normalized) (\<lambda>registration.
          io_bind (ensure_unregistered repository (pr_email registration)) (\<lambda>_.
          io_return registration))))"

definition account_of_registration :: "pending_registration \<Rightarrow> bool \<Rightarrow> account" where
  "account_of_registration registration verified =
     \<lparr>ac_id = 0, ac_email = pr_email registration, ac_phone = pr_phone registration,
      ac_name = pr_name registration, ac_role = pr_role registration,
      ac_password_hash = pr_password_hash registration, ac_is_verified = verified,
      ac_vehicle_type = pr_vehicle_type registration, ac_plate_number = pr_plate_number registration,
      ac_account_status = ''''\<rparr>"

definition register_create :: "register_service \<Rightarrow> user_store \<Rightarrow> account \<Rightarrow> (account \<times> string) acmd" where
  "register_create service repository account =
     io_bind (us_create repository account) (\<lambda>created.
     io_bind (issue_token (rg_tokens service) (itoa (ac_id created)) (ac_role created)) (\<lambda>token.
     io_return (created, token)))"

definition commit_pending_passenger :: "register_service \<Rightarrow> pending_registration \<Rightarrow> (account \<times> string) acmd" where
  "commit_pending_passenger service pending =
     (case rg_repository service of
        None \<Rightarrow> io_throw (Auth ErrRegistrationUnavailable)
      | Some repository \<Rightarrow>
          if pr_role pending \<noteq> ''passenger'' \<or> pr_email pending = '''' \<or> pr_password_hash pending = ''''
          then io_throw (Auth ErrInvalidCredentials)
          else
            io_bind (ensure_unregistered repository (pr_email pending)) (\<lambda>_.
            register_create service repository (account_of_registration pending True)))"

definition register_account :: "register_service \<Rightarrow> register_input \<Rightarrow> string \<Rightarrow> (account \<times> string) acmd" where
  "register_account service input role =
     (case rg_repository service of
        None \<Rightarrow> io_throw (Auth ErrRegistrationUnavailable)
      | Some repository \<Rightarrow>
          io_bind (io_env (normalize_input service input role)) (\<lambda>normalized.
          io_bind (io_lift normalized) (\<lambda>registration.
          io_bind (ensure_unregistered repository (pr_email registration)) (\<lambda>_.
          register_create service repository (account_of_registration registration False)))))"

end
