(* ===== verification/Auth_Otp.thy ===== *)
theory Auth_Otp
  imports Auth_Service
begin

text \<open>
  The flows of \<open>auth/app/otp.go\<close>: passenger registration and verification, password reset and
  change of the e-mail address. \<open>ResetPasswordForRole\<close> is composed of the parts between which
  other requests can run.
\<close>

record otp_service =
  op_users :: "user_store option"
  op_email_changes :: "(int \<Rightarrow> string \<Rightarrow> string \<Rightarrow> unit acmd) option"
  op_email_notifier :: "(string \<Rightarrow> string \<Rightarrow> unit acmd) option"
  op_store :: "otp_store option"
  op_gateway :: "(string \<Rightarrow> string \<Rightarrow> unit acmd) option"
  op_tokens :: "token_issuer option"
  op_sessions :: "session_store option"
  op_pending :: "pending_store option"
  op_registrations :: "register_service option"
  op_hash_password :: "env \<Rightarrow> string \<Rightarrow> err + string"
  op_generate_code :: "(env \<Rightarrow> err + string) option"
  op_lib :: auth_lib

definition otp_lifetime :: int where
  "otp_lifetime = 10 * minute"

section \<open>Codes\<close>

text \<open>
  \<open>rand.Int(rand.Reader, 1000000)\<close> is a number below a million made of random bytes, printed
  with six digits.
\<close>

definition random_number :: "string \<Rightarrow> nat \<Rightarrow> nat" where
  "random_number bytes limit = foldl (\<lambda>n c. 256 * n + of_char c) 0 bytes mod limit"

definition six_digits :: "nat \<Rightarrow> string" where
  "six_digits n = replicate (6 - length (nat_digits n)) (CHR ''0'') @ nat_digits n"

definition generate_otp :: "env \<Rightarrow> err + string" where
  "generate_otp e =
     (if env_fault e ''rand.Int'' then Inl (Fault ''rand.Int'')
      else Inr (six_digits (random_number (env_random e ''otp'') 1000000)))"

definition otp_generate :: "otp_service \<Rightarrow> env \<Rightarrow> err + string" where
  "otp_generate service e =
     (case op_generate_code service of Some generate \<Rightarrow> generate e | None \<Rightarrow> generate_otp e)"

definition otp_unavailable :: "err \<Rightarrow> err" where
  "otp_unavailable _ = Auth ErrOTPUnavailable"

text \<open>The errors of \<open>Consume\<close> the caller may see; any other is reported as unavailability.\<close>

definition otp_consume_error :: "err \<Rightarrow> err" where
  "otp_consume_error x =
     (if x = Auth ErrInvalidOTP \<or> x = Auth ErrOTPMaxAttemptsExceeded then x else Auth ErrOTPUnavailable)"

definition request_code :: "otp_service \<Rightarrow> string \<Rightarrow> string \<Rightarrow> unit acmd" where
  "request_code service purpose email =
     (case (op_store service, op_gateway service) of
        (Some store, Some send) \<Rightarrow>
          io_bind (io_env (otp_generate service)) (\<lambda>generated.
          io_bind (io_lift generated) (\<lambda>code.
          io_bind (io_map_err otp_unavailable (ot_put store purpose email code otp_lifetime)) (\<lambda>_.
          io_map_err otp_unavailable (send email code))))
      | _ \<Rightarrow> io_throw (Auth ErrOTPUnavailable))"

section \<open>Registration of a passenger\<close>

definition otp_register_new :: "otp_service \<Rightarrow> pending_store \<Rightarrow> register_service \<Rightarrow> register_input \<Rightarrow> pending_registration acmd" where
  "otp_register_new service pending registrations input =
     io_bind (register_prepare_passenger registrations input) (\<lambda>registration.
     io_bind (io_map_err otp_unavailable (pn_put pending registration otp_lifetime)) (\<lambda>_.
     io_try (request_code service ''verification'' (pr_email registration)) (\<lambda>requested.
     case requested of
       Inr _ \<Rightarrow> io_return registration
     | Inl x \<Rightarrow> io_try (pn_delete pending (pr_email registration)) (\<lambda>_. io_throw x))))"

definition otp_register_passenger :: "otp_service \<Rightarrow> register_input \<Rightarrow> pending_registration acmd" where
  "otp_register_passenger service input =
     (case (op_pending service, op_registrations service) of
        (Some pending, Some registrations) \<Rightarrow>
          (case op_users service of
             None \<Rightarrow> otp_register_new service pending registrations input
           | Some users \<Rightarrow>
               io_try (us_find_by_email users (al_lower (op_lib service) (trim_space (ri_email input))))
                 (\<lambda>found.
               case found of
                 Inr account \<Rightarrow>
                   if ac_id account \<noteq> 0 then
                     (if ac_role account \<noteq> ''passenger'' \<or> ac_is_verified account
                      then io_throw (Auth ErrEmailTaken)
                      else
                        io_bind (request_code service ''verification'' (ac_email account)) (\<lambda>_.
                        io_return \<lparr>pr_email = ac_email account, pr_phone = '''', pr_name = '''',
                          pr_password_hash = '''', pr_role = ''passenger'', pr_vehicle_type = '''',
                          pr_plate_number = ''''\<rparr>))
                   else otp_register_new service pending registrations input
               | Inl x \<Rightarrow>
                   if x \<noteq> Auth ErrUserNotFound then io_throw (Auth ErrOTPUnavailable)
                   else otp_register_new service pending registrations input))
      | _ \<Rightarrow> io_throw (Auth ErrOTPUnavailable))"

text \<open>The part of \<open>RequestVerification\<close> for an address without an account.\<close>

definition request_pending_verification :: "otp_service \<Rightarrow> string \<Rightarrow> unit acmd" where
  "request_pending_verification service email =
     (case op_pending service of
        None \<Rightarrow> io_return ()
      | Some pending \<Rightarrow>
          io_try (pn_get pending email) (\<lambda>found.
          case found of
            Inr registration \<Rightarrow>
              if pr_role registration = ''passenger''
              then request_code service ''verification'' (pr_email registration)
              else io_return ()
          | Inl x \<Rightarrow>
              if x \<noteq> Auth ErrPendingRegistrationNotFound then io_throw (Auth ErrOTPUnavailable)
              else io_return ()))"

definition otp_request_verification :: "otp_service \<Rightarrow> string \<Rightarrow> unit acmd" where
  "otp_request_verification service email =
     (let email = al_lower (op_lib service) (trim_space email) in
      case op_users service of
        None \<Rightarrow> io_throw (Auth ErrOTPUnavailable)
      | Some users \<Rightarrow>
          io_try (us_find_by_email users email) (\<lambda>found.
          case found of
            Inr account \<Rightarrow>
              if ac_id account \<noteq> 0 then
                (if ac_role account \<noteq> ''passenger'' then io_return ()
                 else if account_suspended account then io_return ()
                 else request_code service ''verification'' (ac_email account))
              else request_pending_verification service email
          | Inl x \<Rightarrow>
              if x \<noteq> Auth ErrUserNotFound then io_throw (Auth ErrOTPUnavailable)
              else request_pending_verification service email))"

section \<open>Verification\<close>

text \<open>\<open>VerifyPassenger\<close> once the code is consumed: an account that exists, or a pending one.\<close>

definition verify_existing :: "otp_service \<Rightarrow> user_store \<Rightarrow> account \<Rightarrow> (account \<times> string) acmd" where
  "verify_existing service users account =
     (if ac_role account \<noteq> ''passenger'' then io_throw (Auth ErrInvalidOTP)
      else if account_suspended account then io_throw (Auth ErrAccountSuspended)
      else
        io_bind (us_mark_verified users (ac_id account)) (\<lambda>_.
        io_bind (issue_token (op_tokens service) (itoa (ac_id account)) (ac_role account)) (\<lambda>token.
        io_return (account\<lparr>ac_is_verified := True\<rparr>, token))))"

definition verify_pending :: "otp_service \<Rightarrow> string \<Rightarrow> (account \<times> string) acmd" where
  "verify_pending service email =
     (case (op_pending service, op_registrations service) of
        (Some pending, Some registrations) \<Rightarrow>
          io_bind (io_map_err (\<lambda>x. if x = Auth ErrPendingRegistrationNotFound then Auth ErrInvalidOTP
                                else Auth ErrOTPUnavailable) (pn_get pending email)) (\<lambda>registration.
          if pr_role registration \<noteq> ''passenger'' then io_throw (Auth ErrInvalidOTP)
          else
            io_bind (commit_pending_passenger registrations registration) (\<lambda>committed.
            io_try (pn_delete pending (pr_email registration)) (\<lambda>_. io_return committed)))
      | _ \<Rightarrow> io_throw (Auth ErrInvalidOTP))"

definition otp_verify_passenger :: "otp_service \<Rightarrow> string \<Rightarrow> string \<Rightarrow> (account \<times> string) acmd" where
  "otp_verify_passenger service email code =
     (let email = al_lower (op_lib service) (trim_space email) in
      case (op_store service, op_users service) of
        (Some store, Some users) \<Rightarrow>
          io_bind (io_map_err otp_consume_error (ot_consume store ''verification'' email (trim_space code)))
            (\<lambda>_.
          io_try (us_find_by_email users email) (\<lambda>found.
          case found of
            Inr account \<Rightarrow>
              if ac_id account \<noteq> 0 then verify_existing service users account
              else verify_pending service email
          | Inl x \<Rightarrow>
              if x \<noteq> Auth ErrUserNotFound then io_throw (Auth ErrOTPUnavailable)
              else verify_pending service email))
      | _ \<Rightarrow> io_throw (Auth ErrOTPUnavailable))"

section \<open>Password reset\<close>

definition otp_account :: "otp_service \<Rightarrow> string \<Rightarrow> account acmd" where
  "otp_account service email =
     (case op_users service of
        None \<Rightarrow> io_throw (Auth ErrOTPUnavailable)
      | Some users \<Rightarrow> us_find_by_email users (al_lower (op_lib service) (trim_space email)))"

definition account_for_role :: "otp_service \<Rightarrow> string \<Rightarrow> string \<Rightarrow> account acmd" where
  "account_for_role service email role =
     io_bind (io_map_err (\<lambda>x. if x = Auth ErrOTPUnavailable then x else Auth ErrInvalidCredentials)
       (otp_account service email)) (\<lambda>account.
     if ac_role account \<noteq> role then io_throw (Auth ErrInvalidCredentials)
     else if account_suspended account then io_throw (Auth ErrAccountSuspended)
     else io_return account)"

definition request_password_reset_for_role :: "otp_service \<Rightarrow> string \<Rightarrow> string \<Rightarrow> unit acmd" where
  "request_password_reset_for_role service email role =
     io_try (account_for_role service email role) (\<lambda>found.
     case found of
       Inl x \<Rightarrow> if x = Auth ErrInvalidCredentials \<or> x = Auth ErrAccountSuspended then io_return () else io_throw x
     | Inr account \<Rightarrow> request_code service ''reset'' (ac_email account))"

text \<open>Up to the first revocation.\<close>

definition reset_consume :: "otp_service \<Rightarrow> string \<Rightarrow> string \<Rightarrow> string \<Rightarrow> string \<Rightarrow> account acmd" where
  "reset_consume service email code password role =
     io_bind (account_for_role service email role) (\<lambda>account.
     if length password < 8 \<or> length password > 72 then io_throw (Auth ErrInvalidCredentials)
     else
       (case op_store service of
          None \<Rightarrow> io_throw (Auth ErrOTPUnavailable)
        | Some store \<Rightarrow>
            io_bind (io_map_err otp_consume_error (ot_consume store ''reset'' (ac_email account) (trim_space code)))
              (\<lambda>_. io_return account)))"

definition reset_revoke :: "session_store \<Rightarrow> account \<Rightarrow> unit acmd" where
  "reset_revoke sessions account =
     io_bind (io_env env_now) (\<lambda>now.
     io_map_err unavailable_error (sn_revoke_all sessions (ac_id account) now))"

text \<open>The new password is in place.\<close>

definition reset_update :: "otp_service \<Rightarrow> user_store \<Rightarrow> account \<Rightarrow> string \<Rightarrow> unit acmd" where
  "reset_update service users account password =
     io_bind (io_env (\<lambda>e. op_hash_password service e password)) (\<lambda>hashed.
     io_bind (io_lift hashed) (\<lambda>password_hash.
     us_update_password users (ac_id account) password_hash))"

definition reset_password_for_role :: "otp_service \<Rightarrow> string \<Rightarrow> string \<Rightarrow> string \<Rightarrow> string \<Rightarrow> unit acmd" where
  "reset_password_for_role service email code password role =
     io_bind (reset_consume service email code password role) (\<lambda>account.
     case (op_sessions service, op_users service) of
       (Some sessions, Some users) \<Rightarrow>
         io_bind (reset_revoke sessions account) (\<lambda>_.
         io_bind (reset_update service users account password) (\<lambda>_.
         reset_revoke sessions account))
     | _ \<Rightarrow> io_throw (Auth ErrRefreshSessionUnavailable))"

section \<open>Change of the e-mail address\<close>

definition normalize_change_email :: "auth_lib \<Rightarrow> string \<Rightarrow> err + string" where
  "normalize_change_email lib email =
     (let email = al_lower lib (trim_space email) in
      if email = '''' \<or> length email > 254 then Inl (Auth ErrInvalidEmail)
      else (case al_parse_address lib email of
              None \<Rightarrow> Inl (Auth ErrInvalidEmail)
            | Some address \<Rightarrow>
                if \<not> al_equal_fold lib address email then Inl (Auth ErrInvalidEmail) else Inr email))"

definition email_change_purpose :: "auth_lib \<Rightarrow> int \<Rightarrow> string \<Rightarrow> string \<Rightarrow> string" where
  "email_change_purpose lib user_id current_email new_email =
     ''email-change:'' @ itoa user_id @ '':'' @
       hex_encode (al_sha256 lib (al_lower lib (trim_space current_email) @ CHR 0x00 # new_email))"

definition ensure_email_available :: "user_store \<Rightarrow> int \<Rightarrow> string \<Rightarrow> unit acmd" where
  "ensure_email_available users user_id email =
     io_try (us_find_by_email users email) (\<lambda>found.
     case found of
       Inr account \<Rightarrow>
         if ac_id account \<noteq> 0 \<and> ac_id account \<noteq> user_id then io_throw (Auth ErrEmailTaken) else io_return ()
     | Inl x \<Rightarrow> if x = Auth ErrUserNotFound then io_return () else io_throw (Auth ErrOTPUnavailable))"

text \<open>The account of the caller, with the checks both steps share.\<close>

definition email_change_account ::
  "otp_service \<Rightarrow> user_store \<Rightarrow> int \<Rightarrow> (account \<Rightarrow> bool) \<Rightarrow> string \<Rightarrow> account acmd" where
  "email_change_account service users user_id credentials new_email =
     io_bind (io_map_err (\<lambda>x. if x \<noteq> Auth ErrUserNotFound then Auth ErrOTPUnavailable
                           else Auth ErrInvalidCredentials) (us_find_by_id users user_id)) (\<lambda>account.
     if ac_id account \<noteq> user_id \<or> \<not> ac_is_verified account \<or> \<not> credentials account
     then io_throw (Auth ErrInvalidCredentials)
     else if account_suspended account then io_throw (Auth ErrAccountSuspended)
     else if al_equal_fold (op_lib service) (trim_space (ac_email account)) new_email
     then io_throw (Auth ErrEmailUnchanged)
     else io_bind (ensure_email_available users user_id new_email) (\<lambda>_. io_return account))"

definition otp_request_email_change :: "otp_service \<Rightarrow> int \<Rightarrow> string \<Rightarrow> string \<Rightarrow> unit acmd" where
  "otp_request_email_change service user_id current_password new_email =
     (case (op_users service, op_email_changes service, op_store service, op_gateway service) of
        (Some users, Some _, Some store, Some send) \<Rightarrow>
          if user_id \<le> 0 \<or> current_password = '''' then io_throw (Auth ErrInvalidCredentials)
          else
            io_bind (io_lift (normalize_change_email (op_lib service) new_email)) (\<lambda>new_email.
            io_bind (email_change_account service users user_id
              (\<lambda>account. verify_password (op_lib service) (ac_password_hash account) current_password)
              new_email) (\<lambda>account.
            io_bind (io_env (otp_generate service)) (\<lambda>generated.
            io_bind (io_lift generated) (\<lambda>code.
            io_bind (io_map_err otp_unavailable
              (ot_put store (email_change_purpose (op_lib service) user_id (ac_email account) new_email)
                (itoa user_id) code otp_lifetime)) (\<lambda>_.
            io_map_err otp_unavailable (send new_email code))))))
      | _ \<Rightarrow> io_throw (Auth ErrOTPUnavailable))"

text \<open>Three attempts at the revocation.\<close>

fun revoke_attempts :: "nat \<Rightarrow> session_store \<Rightarrow> int \<Rightarrow> err \<Rightarrow> unit acmd" where
  "revoke_attempts 0 sessions user_id x = io_throw x"
| "revoke_attempts (Suc n) sessions user_id x =
     io_bind (io_env env_now) (\<lambda>now.
     io_try (sn_revoke_all sessions user_id now) (\<lambda>r.
     case r of Inr _ \<Rightarrow> io_return () | Inl y \<Rightarrow> revoke_attempts n sessions user_id y))"

definition revoke_sessions_after_email_change :: "otp_service \<Rightarrow> int \<Rightarrow> unit acmd" where
  "revoke_sessions_after_email_change service user_id =
     (case op_sessions service of
        None \<Rightarrow> io_return ()
      | Some sessions \<Rightarrow> revoke_attempts 3 sessions user_id NoRows)"

definition otp_confirm_email_change :: "otp_service \<Rightarrow> int \<Rightarrow> string \<Rightarrow> string \<Rightarrow> unit acmd" where
  "otp_confirm_email_change service user_id new_email code =
     (case (op_users service, op_email_changes service, op_store service) of
        (Some users, Some update_email, Some store) \<Rightarrow>
          if user_id \<le> 0 then io_throw (Auth ErrInvalidCredentials)
          else
            io_bind (io_lift (normalize_change_email (op_lib service) new_email)) (\<lambda>new_email.
            let code = trim_space code in
            if code = '''' then io_throw (Auth ErrOTPRequired)
            else
              io_bind (email_change_account service users user_id (\<lambda>_. True) new_email) (\<lambda>account.
              io_bind (io_map_err otp_consume_error
                (ot_consume store (email_change_purpose (op_lib service) user_id (ac_email account) new_email)
                  (itoa user_id) code)) (\<lambda>_.
              io_bind (io_map_err (\<lambda>x. if x = Auth ErrEmailTaken \<or> x = Auth ErrEmailChangeStale then x
                                    else Auth ErrOTPUnavailable)
                (update_email user_id (ac_email account) new_email)) (\<lambda>_.
              io_try (revoke_sessions_after_email_change service user_id) (\<lambda>revoked.
              io_bind (case op_email_notifier service of
                         None \<Rightarrow> io_return ()
                       | Some notify \<Rightarrow> io_try (notify (ac_email account) new_email) (\<lambda>_. io_return ())) (\<lambda>_.
              io_lift revoked))))))
      | _ \<Rightarrow> io_throw (Auth ErrOTPUnavailable))"

end
