(* ===== verification/Jwt.thy ===== *)
theory Jwt
  imports Auth_Token
begin

text \<open>
  Access tokens: \<open>platform/security/jwt.go\<close>. The text of a token (its three parts in base64, the
  dots, the claims and their checks) is modelled; HMAC-SHA-256 and the JSON text of the header
  and of the claims are parameters.
\<close>

record claims =
  cl_subject :: string
  cl_role :: string
  cl_expires :: int
  cl_token_type :: string

record identity =
  id_subject :: string
  id_role :: string
  id_token_type :: string
  id_expires_at :: int

record jwt_lib =
  jl_hmac :: "string \<Rightarrow> string \<Rightarrow> string"
  jl_header_parse :: "string \<Rightarrow> (string \<times> string) option"
  jl_claims_json :: "claims \<Rightarrow> string"
  jl_claims_parse :: "string \<Rightarrow> claims option"

record token_manager =
  tm_secret :: string
  tm_lifetime :: int

definition minimum_token_secret_bytes :: nat where
  "minimum_token_secret_bytes = 32"

definition access_token_lifetime :: int where
  "access_token_lifetime = 30 * minute"

definition access_token_type :: string where
  "access_token_type = ''access''"

definition new_token_manager :: "string \<Rightarrow> token_manager" where
  "new_token_manager secret = \<lparr>tm_secret = secret, tm_lifetime = access_token_lifetime\<rparr>"

definition validate_token_secret :: "string \<Rightarrow> err + unit" where
  "validate_token_secret secret =
     (if length (trim_space secret) < minimum_token_secret_bytes
      then Inl (Failure ''token secret must be at least 32 bytes'') else Inr ())"

text \<open>\<open>Time.Unix()\<close>.\<close>

definition unix :: "int \<Rightarrow> int" where
  "unix t = t div second"

definition jwt_header :: string where
  "jwt_header =
     CHR ''{'' # CHR 0x22 # ''alg'' @ CHR 0x22 # CHR '':'' # CHR 0x22 # ''HS256'' @ CHR 0x22 # CHR '','' #
       CHR 0x22 # ''typ'' @ CHR 0x22 # CHR '':'' # CHR 0x22 # ''JWT'' @ CHR 0x22 # ''}''"

definition sign :: "jwt_lib \<Rightarrow> token_manager \<Rightarrow> string \<Rightarrow> string" where
  "sign lib manager message = jl_hmac lib (tm_secret manager) message"

definition issue_jwt :: "jwt_lib \<Rightarrow> token_manager \<Rightarrow> string \<Rightarrow> string \<Rightarrow> string \<Rightarrow> int \<Rightarrow> env \<Rightarrow> err + string" where
  "issue_jwt lib manager subject role token_type lifetime e =
     (if tm_secret manager = '''' then Inl (Failure ''token secret is required'')
      else
        let header = b64_encode jwt_header;
            payload = b64_encode (jl_claims_json lib
              \<lparr>cl_subject = subject, cl_role = role, cl_expires = unix (env_now e + lifetime),
               cl_token_type = token_type\<rparr>);
            signature = sign lib manager (header @ ''.'' @ payload)
        in Inr (header @ ''.'' @ payload @ ''.'' @ b64_encode signature))"

definition issue_with_role :: "jwt_lib \<Rightarrow> token_manager \<Rightarrow> string \<Rightarrow> string \<Rightarrow> env \<Rightarrow> err + string" where
  "issue_with_role lib manager subject role e =
     issue_jwt lib manager subject role access_token_type (tm_lifetime manager) e"

text \<open>\<open>verify\<close>; the checks are in the order of the code.\<close>

definition verify_jwt :: "jwt_lib \<Rightarrow> token_manager \<Rightarrow> string \<Rightarrow> env \<Rightarrow> err + identity" where
  "verify_jwt lib manager raw_token e =
     (if raw_token = '''' then Inl (Auth ErrMissingToken)
      else
        (case split_at (CHR ''.'') raw_token of
           [p, q, r] \<Rightarrow>
             if tm_secret manager = '''' then Inl (Auth ErrInvalidToken)
             else
               (case b64_decode r of
                  None \<Rightarrow> Inl (Auth ErrInvalidToken)
                | Some signature \<Rightarrow>
                    if signature \<noteq> sign lib manager (p @ ''.'' @ q) then Inl (Auth ErrInvalidToken)
                    else
                      (case b64_decode p of
                         None \<Rightarrow> Inl (Auth ErrInvalidToken)
                       | Some header \<Rightarrow>
                           if jl_header_parse lib header \<noteq> Some (''HS256'', ''JWT'')
                           then Inl (Auth ErrInvalidToken)
                           else
                             (case b64_decode q of
                                None \<Rightarrow> Inl (Auth ErrInvalidToken)
                              | Some payload \<Rightarrow>
                                  (case jl_claims_parse lib payload of
                                     None \<Rightarrow> Inl (Auth ErrInvalidToken)
                                   | Some c \<Rightarrow>
                                       if cl_subject c = '''' \<or> cl_expires c \<le> unix (env_now e)
                                       then Inl (Auth ErrInvalidToken)
                                       else Inr \<lparr>id_subject = cl_subject c, id_role = cl_role c,
                                              id_token_type = cl_token_type c,
                                              id_expires_at = cl_expires c * second\<rparr>))))
         | _ \<Rightarrow> Inl (Auth ErrInvalidToken)))"

definition verify_identity :: "jwt_lib \<Rightarrow> token_manager \<Rightarrow> string \<Rightarrow> env \<Rightarrow> err + identity" where
  "verify_identity lib manager raw_token e =
     (case verify_jwt lib manager raw_token e of
        Inl x \<Rightarrow> Inl x
      | Inr identity \<Rightarrow>
          if id_token_type identity \<noteq> access_token_type then Inl (Auth ErrInvalidToken) else Inr identity)"

text \<open>The token manager as the issuer of the auth services.\<close>

definition jwt_issuer :: "jwt_lib \<Rightarrow> token_manager \<Rightarrow> token_issuer" where
  "jwt_issuer lib manager =
     \<lparr>ti_issue = (\<lambda>subject e w. (issue_with_role lib manager subject '''' e, w)),
      ti_issue_with_role = Some (\<lambda>subject role e w. (issue_with_role lib manager subject role e, w))\<rparr>"

section \<open>What a verified token says\<close>

lemma b64_char_no_dot: "n < 64 \<Longrightarrow> b64_char n \<noteq> CHR ''.''"
  by (auto simp: b64_char_def simp flip: of_char_eq_iff [where 'a = nat])

lemma b64_encode_no_dot: "CHR ''.'' \<notin> set (b64_encode s)"
proof (induction s rule: b64_encode.induct)
  case (2 a)
  note p = byte_parts [OF of_char_less [of a] of_char_less [of a]]
  show ?case using b64_char_no_dot [OF p(1)] b64_char_no_dot [OF p(2)] by auto
next
  case (3 a b)
  note p = byte_parts [OF of_char_less [of a] of_char_less [of b]]
  note q = byte_parts [OF of_char_less [of b] of_char_less [of b]]
  show ?case using b64_char_no_dot [OF p(1)] b64_char_no_dot [OF p(3)] b64_char_no_dot [OF q(4)] by auto
next
  case (4 a b c s)
  note p = byte_parts [OF of_char_less [of a] of_char_less [of b]]
  note q = byte_parts [OF of_char_less [of b] of_char_less [of c]]
  note r = byte_parts [OF of_char_less [of c] of_char_less [of c]]
  show ?case
    using b64_char_no_dot [OF p(1)] b64_char_no_dot [OF p(3)] b64_char_no_dot [OF q(5)]
      b64_char_no_dot [OF r(6)] 4 by auto
qed simp

lemma split_three:
  assumes "d \<notin> set p" and "d \<notin> set q" and "d \<notin> set r"
  shows "split_at d (p @ d # q @ d # r) = [p, q, r]"
  using assms by (simp add: split_at_join split_at_none)

definition access_claims :: "token_manager \<Rightarrow> string \<Rightarrow> string \<Rightarrow> env \<Rightarrow> claims" where
  "access_claims manager subject role e =
     \<lparr>cl_subject = subject, cl_role = role, cl_expires = unix (env_now e + tm_lifetime manager),
      cl_token_type = ''access''\<rparr>"

lemma verify_issued:
  assumes "issue_with_role lib manager subject role e = Inr token" and "subject \<noteq> ''''"
    and "jl_header_parse lib jwt_header = Some (''HS256'', ''JWT'')"
    and "jl_claims_parse lib (jl_claims_json lib (access_claims manager subject role e)) =
      Some (access_claims manager subject role e)"
  shows "verify_identity lib manager token e' =
    (if unix (env_now e') < unix (env_now e + tm_lifetime manager)
     then Inr \<lparr>id_subject = subject, id_role = role, id_token_type = ''access'',
            id_expires_at = unix (env_now e + tm_lifetime manager) * second\<rparr>
     else Inl (Auth ErrInvalidToken))"
proof -
  let ?c = "access_claims manager subject role e"
  let ?h = "b64_encode jwt_header" and ?p = "b64_encode (jl_claims_json lib ?c)"
  let ?s = "sign lib manager (?h @ ''.'' @ ?p)"
  have secret: "tm_secret manager \<noteq> ''''"
    and token: "token = ?h @ CHR ''.'' # ?p @ CHR ''.'' # b64_encode ?s"
    using assms(1)
    by (auto simp: issue_with_role_def issue_jwt_def Let_def access_claims_def access_token_type_def
        split: if_splits)
  have "split_at (CHR ''.'') token = [?h, ?p, b64_encode ?s]"
    unfolding token by (intro split_three b64_encode_no_dot)
  then show ?thesis
    using secret assms(2,3) token
    by (simp add: verify_identity_def verify_jwt_def b64_roundtrip assms(4) access_token_type_def)
      (simp add: access_claims_def)
qed

text \<open>
  C24. A token says for half an hour what it was issued for. A token issued for a subject and a
  role is accepted exactly while its expiry, half an hour later in whole seconds, lies in the
  future, and then shows that subject, role and expiry; provided that the JSON texts of the
  header and of these claims read back as what was written.
\<close>

theorem token_roundtrip:
  assumes "issue_with_role lib manager subject role e = Inr token" and "subject \<noteq> ''''"
    and "jl_header_parse lib jwt_header = Some (''HS256'', ''JWT'')"
    and "jl_claims_parse lib (jl_claims_json lib (access_claims manager subject role e)) =
      Some (access_claims manager subject role e)"
  shows "verify_identity lib manager token e' =
    (if unix (env_now e') < unix (env_now e + tm_lifetime manager)
     then Inr \<lparr>id_subject = subject, id_role = role, id_token_type = ''access'',
            id_expires_at = unix (env_now e + tm_lifetime manager) * second\<rparr>
     else Inl (Auth ErrInvalidToken))"
  by (rule verify_issued [OF assms])

text \<open>
  C25. Only signed tokens are accepted. Whatever text is presented, an identity comes out only
  if the text is three parts whose last one decodes to the signature of the first two under the
  secret, and the signed claims name a subject, are of the access type and have not expired; the
  identity is what those claims say.
\<close>

theorem only_signed_tokens:
  assumes "verify_identity lib manager token e = Inr identity"
  shows "\<exists>p q r payload c. split_at (CHR ''.'') token = [p, q, r] \<and> tm_secret manager \<noteq> '''' \<and>
    b64_decode r = Some (sign lib manager (p @ ''.'' @ q)) \<and> b64_decode q = Some payload \<and>
    jl_claims_parse lib payload = Some c \<and> cl_subject c \<noteq> '''' \<and> cl_token_type c = ''access'' \<and>
    unix (env_now e) < cl_expires c \<and> id_subject identity = cl_subject c \<and> id_role identity = cl_role c"
  using assms unfolding verify_identity_def verify_jwt_def access_token_type_def
  by (auto split: if_splits list.splits option.splits sum.splits)

text \<open>A JSON stand-in for the witnesses, and a signature that is the secret and the start of the message.\<close>

definition sample_claims_json :: "claims \<Rightarrow> string" where
  "sample_claims_json c =
     hex_encode (cl_subject c) @ '','' @ hex_encode (cl_role c) @ '','' @ itoa (cl_expires c) @ '','' @
       hex_encode (cl_token_type c)"

definition sample_claims_parse :: "string \<Rightarrow> claims option" where
  "sample_claims_parse s =
     (case split_at (CHR '','') s of
        [a, b, x, t] \<Rightarrow>
          (case (hex_decode a, hex_decode b, atoi x, hex_decode t) of
             (Some sub, Some role, Some n, Some typ) \<Rightarrow>
               Some \<lparr>cl_subject = sub, cl_role = role, cl_expires = n, cl_token_type = typ\<rparr>
           | _ \<Rightarrow> None)
      | _ \<Rightarrow> None)"

definition sample_jwt :: jwt_lib where
  "sample_jwt =
     \<lparr>jl_hmac = (\<lambda>secret message. secret @ take 3 message), jl_header_parse = (\<lambda>s. Some (''HS256'', ''JWT'')),
      jl_claims_json = sample_claims_json, jl_claims_parse = sample_claims_parse\<rparr>"

definition sample_manager :: token_manager where
  "sample_manager = new_token_manager ''secret''"

definition sample_time :: "int \<Rightarrow> env" where
  "sample_time t =
     \<lparr>env_now = t * second, env_db_now = t * second, env_nextval = (\<lambda>_. 1), env_booking_reference = '''',
      env_request_id = '''', env_random = (\<lambda>_. replicate 32 (CHR ''r'')), env_fault = (\<lambda>_. False)\<rparr>"

definition sample_token :: string where
  "sample_token = (case issue_with_role sample_jwt sample_manager ''7'' ''driver'' (sample_time 100) of
     Inl _ \<Rightarrow> '''' | Inr t \<Rightarrow> t)"

lemma sample_token: "issue_with_role sample_jwt sample_manager ''7'' ''driver'' (sample_time 100) = Inr sample_token"
  by (simp add: sample_token_def issue_with_role_def issue_jwt_def sample_manager_def new_token_manager_def Let_def)

lemma sample_reads_back:
  "jl_header_parse sample_jwt jwt_header = Some (''HS256'', ''JWT'')"
  "jl_claims_parse sample_jwt
      (jl_claims_json sample_jwt (access_claims sample_manager ''7'' ''driver'' (sample_time 100))) =
      Some (access_claims sample_manager ''7'' ''driver'' (sample_time 100))"
  by (simp add: sample_jwt_def) code_simp

lemma sample_times:
  "unix (env_now (sample_time 100) + tm_lifetime sample_manager) = 1900"
  "unix (env_now (sample_time 1899)) = 1899" "unix (env_now (sample_time 1900)) = 1900"
  by code_simp+

theorem token_roundtrip_witness:
  "verify_identity sample_jwt sample_manager sample_token (sample_time 1899) =
     Inr \<lparr>id_subject = ''7'', id_role = ''driver'', id_token_type = ''access'', id_expires_at = 1900 * second\<rparr> \<and>
   verify_identity sample_jwt sample_manager sample_token (sample_time 1900) = Inl (Auth ErrInvalidToken)"
  using token_roundtrip [OF sample_token _ sample_reads_back, of "sample_time 1899"]
    token_roundtrip [OF sample_token _ sample_reads_back, of "sample_time 1900"]
  by (simp add: sample_times)

theorem only_signed_tokens_witness:
  "\<exists>p q r payload c. split_at (CHR ''.'') sample_token = [p, q, r] \<and> tm_secret sample_manager \<noteq> '''' \<and>
    b64_decode r = Some (sign sample_jwt sample_manager (p @ ''.'' @ q)) \<and> b64_decode q = Some payload \<and>
    jl_claims_parse sample_jwt payload = Some c \<and> cl_subject c \<noteq> '''' \<and> cl_token_type c = ''access'' \<and>
    unix (env_now (sample_time 1899)) < cl_expires c \<and> ''7'' = cl_subject c \<and> ''driver'' = cl_role c"
proof -
  have "verify_identity sample_jwt sample_manager sample_token (sample_time 1899) =
     Inr \<lparr>id_subject = ''7'', id_role = ''driver'', id_token_type = ''access'', id_expires_at = 1900 * second\<rparr>"
    using verify_issued [OF sample_token _ sample_reads_back, of "sample_time 1899"]
    by (simp add: sample_times)
  from only_signed_tokens [OF this] show ?thesis by simp
qed

end
