(* ===== verification/Auth_Sessions.thy ===== *)
theory Auth_Sessions
  imports Evolution Auth_Otp Jwt
begin

text \<open>
  What the operations of the auth module do to the refresh sessions: a session never changes its
  owner or its digest, and once it is revoked or rotated it can only come closer to its end.
\<close>

section \<open>The table of refresh sessions\<close>

text \<open>The keys of the schema, and that only a rotated session has a grace period.\<close>

definition sessions_ok :: "auth_state \<Rightarrow> bool" where
  "sessions_ok w \<longleftrightarrow>
     distinct (map rs_id (a_refresh_sessions w)) \<and>
     distinct (map rs_token_hash (a_refresh_sessions w)) \<and>
     list_all (\<lambda>s. rs_rotation_grace_until s = None \<or> rs_revoked_at s \<noteq> None) (a_refresh_sessions w)"

text \<open>A later version of a session.\<close>

definition session_later :: "refresh_session_row \<Rightarrow> refresh_session_row \<Rightarrow> bool" where
  "session_later s s' \<longleftrightarrow>
     rs_id s' = rs_id s \<and> rs_user_id s' = rs_user_id s \<and> rs_token_hash s' = rs_token_hash s \<and>
     rs_expires_at s' = rs_expires_at s \<and>
     (rs_revoked_at s \<noteq> None \<longrightarrow> rs_revoked_at s' \<noteq> None \<and>
        (rs_rotation_grace_until s' = None \<or> rs_rotation_grace_until s' = rs_rotation_grace_until s))"

definition sessions_evolve :: "auth_state \<Rightarrow> auth_state \<Rightarrow> bool" where
  "sessions_evolve w w' \<longleftrightarrow>
     (sessions_ok w \<longrightarrow> sessions_ok w' \<and>
        (\<forall>s \<in> set (a_refresh_sessions w). \<exists>s' \<in> set (a_refresh_sessions w'). session_later s s'))"

lemma session_later_refl: "session_later s s"
  by (simp add: session_later_def)

lemma session_later_trans: "session_later s t \<Longrightarrow> session_later t u \<Longrightarrow> session_later s u"
  unfolding session_later_def by auto

interpretation sessions: evolution sessions_evolve
proof
  show "sessions_evolve w w" for w
    using session_later_refl by (auto simp: sessions_evolve_def)
  show "sessions_evolve w u" if "sessions_evolve w v" and "sessions_evolve v u" for w v u
    using that unfolding sessions_evolve_def by (meson session_later_trans)
qed

lemma sessions_evolve_same:
  "a_refresh_sessions w' = a_refresh_sessions w \<Longrightarrow> sessions_evolve w w'"
  using session_later_refl by (auto simp: sessions_evolve_def sessions_ok_def)

lemma update_users_keeps: "keeps sessions_evolve (update_users n p f)"
  by (auto intro!: keepsI sessions_evolve_same dest!: update_rows_cases simp: update_users_def)

text \<open>An update that makes sessions later versions of themselves.\<close>

lemma update_sessions_keeps:
  assumes "\<And>e s. p e s \<Longrightarrow> rs_rotation_grace_until s = None \<or> rs_revoked_at s \<noteq> None \<Longrightarrow>
      session_later s (f e s) \<and> (rs_rotation_grace_until (f e s) = None \<or> rs_revoked_at (f e s) \<noteq> None)"
  shows "keeps sessions_evolve (update_refresh_sessions n p f)"
proof (rule keepsI)
  fix e w r w' assume "update_refresh_sessions n p f e w = (r, w')"
  then have "w' = w \<or> w' = w\<lparr>a_refresh_sessions := upd_where (p e) (f e) (a_refresh_sessions w)\<rparr>"
    unfolding update_refresh_sessions_def by (rule update_rows_cases)
  moreover have "sessions_evolve w (w\<lparr>a_refresh_sessions := upd_where (p e) (f e) (a_refresh_sessions w)\<rparr>)"
    unfolding sessions_evolve_def
  proof (intro impI conjI ballI)
    assume ok: "sessions_ok w"
    let ?t = "a_refresh_sessions w"
    have g: "rs_rotation_grace_until s = None \<or> rs_revoked_at s \<noteq> None" if "s \<in> set ?t" for s
      using ok that by (auto simp: sessions_ok_def list_all_iff)
    have later: "session_later s (if p e s then f e s else s)" if "s \<in> set ?t" for s
      using assms [OF _ g [OF that], of e] session_later_refl by auto
    have "map rs_id (upd_where (p e) (f e) ?t) = map rs_id ?t"
      "map rs_token_hash (upd_where (p e) (f e) ?t) = map rs_token_hash ?t"
      using later unfolding upd_where_def by (auto simp: session_later_def)
    moreover have "list_all (\<lambda>s. rs_rotation_grace_until s = None \<or> rs_revoked_at s \<noteq> None)
        (upd_where (p e) (f e) ?t)"
      using assms g by (fastforce simp: list_all_iff set_upd_where)
    ultimately show "sessions_ok (w\<lparr>a_refresh_sessions := upd_where (p e) (f e) ?t\<rparr>)"
      using ok by (simp add: sessions_ok_def)
    show "\<exists>s' \<in> set (a_refresh_sessions (w\<lparr>a_refresh_sessions := upd_where (p e) (f e) ?t\<rparr>)). session_later s s'"
      if "s \<in> set ?t" for s
    proof (rule bexI)
      show "session_later s (if p e s then f e s else s)" by (rule later [OF that])
    qed (use that in \<open>simp add: set_upd_where\<close>)
  qed
  ultimately show "sessions_evolve w w'" using sessions.refl by blast
qed

lemma revoke_keeps: "keeps sessions_evolve (update_refresh_sessions n p (\<lambda>e. revoked now))"
  by (rule update_sessions_keeps) (simp add: session_later_def revoked_def)

lemma rotated_later:
  assumes "session_unrevoked now s" and "rs_rotation_grace_until s = None \<or> rs_revoked_at s \<noteq> None"
  shows "session_later s (rotated now s)" and "rs_revoked_at (rotated now s) = Some now"
  using assms by (auto simp: session_later_def rotated_def session_unrevoked_def split: option.splits)

lemma create_session_keeps: "keeps sessions_evolve (create_refresh_session u h x)"
proof (rule keepsI)
  fix e w r w' assume a: "create_refresh_session u h x e w = (r, w')"
  let ?s = "\<lparr>rs_id = env_nextval e ''refresh_sessions'', rs_user_id = u, rs_token_hash = h,
    rs_expires_at = x, rs_created_at = Some (env_db_now e), rs_last_used_at = None,
    rs_revoked_at = None, rs_rotation_grace_until = None\<rparr>"
  show "sessions_evolve w w'"
  proof (cases "w' = w")
    case True
    then show ?thesis using sessions.refl by simp
  next
    case False
    with a have new: "\<not> exists_where (\<lambda>q. rs_id q = rs_id ?s) (a_refresh_sessions w)"
      and vio: "refresh_session_violation w ?s = None"
      and w': "w' = w\<lparr>a_refresh_sessions := a_refresh_sessions w @ [?s]\<rparr>"
      by (auto simp: create_refresh_session_def io_bind_def insert_one_def query_def io_return_def
          split: if_splits option.splits prod.splits sum.splits)
    from vio have "list_all fst [(rune_count h \<le> 64, PgError ''22001'' ''token_hash''),
        (x \<noteq> None, PgError ''23502'' ''expires_at''),
        (\<not> exists_where (\<lambda>q. rs_id q \<noteq> rs_id ?s \<and> rs_token_hash q = h) (a_refresh_sessions w),
          unique_violation ''refresh_sessions_token_hash_key''),
        (account_exists w u, fk_violation ''refresh_sessions_user_fk'')]"
      unfolding refresh_session_violation_def first_violation_None by simp
    with new have "\<not> exists_where (\<lambda>q. rs_token_hash q = rs_token_hash ?s) (a_refresh_sessions w)"
      by (auto simp: exists_where_def)
    with new show ?thesis
      by (auto simp: sessions_evolve_def sessions_ok_def w' exists_where_def session_later_refl
          intro: session_later_refl)
  qed
qed

lemma frame_keeps:
  "(\<And>e w r w'. m e w = (r, w') \<Longrightarrow> a_refresh_sessions w' = a_refresh_sessions w) \<Longrightarrow> keeps sessions_evolve m"
  by (auto intro!: keepsI sessions_evolve_same)

end
