(* ===== verification/Auth_System.thy ===== *)
theory Auth_System
  imports Auth_Sessions
begin

text \<open>
  The auth module as \<open>app/wiring.go\<close> puts it together, with PostgreSQL, Redis and the token
  manager behind the ports, and the requests it answers as steps on the state. The mail gateway
  records what it sends.
\<close>

section \<open>Wiring\<close>

definition mail_send :: "string \<Rightarrow> string \<Rightarrow> unit acmd" where
  "mail_send recipient code =
     query ''MailGateway.Send'' (\<lambda>e w. (Inr (), w\<lparr>a_mail := a_mail w @ [(recipient, code)]\<rparr>))"

definition mail_notify :: "string \<Rightarrow> string \<Rightarrow> unit acmd" where
  "mail_notify previous_email new_email =
     query ''MailGateway.NotifyEmailChanged''
       (\<lambda>e w. (Inr (), w\<lparr>a_notices := a_notices w @ [(previous_email, new_email)]\<rparr>))"

definition server_register :: "auth_lib \<Rightarrow> jwt_lib \<Rightarrow> string \<Rightarrow> register_service" where
  "server_register lib jl secret =
     \<lparr>rg_repository = Some postgres_users, rg_tokens = Some (jwt_issuer jl (new_token_manager secret)),
      rg_sessions = Some postgres_sessions, rg_hash_password = hash_password lib, rg_lib = lib\<rparr>"

definition server_authenticate :: "auth_lib \<Rightarrow> jwt_lib \<Rightarrow> string \<Rightarrow> authenticate_service" where
  "server_authenticate lib jl secret =
     \<lparr>au_repository = Some postgres_users, au_tokens = Some (jwt_issuer jl (new_token_manager secret)),
      au_sessions = Some postgres_sessions, au_hash_password = hash_password lib,
      au_dummy_hash = dummy_bcrypt_hash, au_lib = lib\<rparr>"

definition server_otp :: "auth_lib \<Rightarrow> jwt_lib \<Rightarrow> string \<Rightarrow> otp_service" where
  "server_otp lib jl secret =
     \<lparr>op_users = Some postgres_users, op_email_changes = Some (user_repo_update_email True),
      op_email_notifier = Some mail_notify, op_store = Some (redis_otps lib), op_gateway = Some mail_send,
      op_tokens = Some (jwt_issuer jl (new_token_manager secret)), op_sessions = Some postgres_sessions,
      op_pending = Some (redis_pending lib), op_registrations = Some (server_register lib jl secret),
      op_hash_password = hash_password lib, op_generate_code = None, op_lib = lib\<rparr>"

section \<open>Requests\<close>

text \<open>\<open>registerDecoded\<close> for a driver, and \<open>VerifyOTP\<close>: the account first, then its session.\<close>

definition driver_registration :: "auth_lib \<Rightarrow> jwt_lib \<Rightarrow> string \<Rightarrow> register_input \<Rightarrow> (account \<times> session_tokens) acmd" where
  "driver_registration lib jl secret input =
     io_bind (register_account (server_register lib jl secret) input ''driver'') (\<lambda>(account, token).
     io_bind (issue_refresh_token lib (rg_sessions (server_register lib jl secret)) (itoa (ac_id account))
       (ac_role account)) (\<lambda>refresh.
     io_return (account, \<lparr>access_token = token, refresh_token = refresh\<rparr>)))"

definition passenger_verification :: "auth_lib \<Rightarrow> jwt_lib \<Rightarrow> string \<Rightarrow> string \<Rightarrow> string \<Rightarrow> (account \<times> session_tokens) acmd" where
  "passenger_verification lib jl secret email code =
     io_bind (otp_verify_passenger (server_otp lib jl secret) email code) (\<lambda>(account, token).
     io_bind (issue_refresh_token lib (op_sessions (server_otp lib jl secret)) (itoa (ac_id account))
       (ac_role account)) (\<lambda>refresh.
     io_return (account, \<lparr>access_token = token, refresh_token = refresh\<rparr>)))"

inductive auth_step :: "auth_lib \<Rightarrow> jwt_lib \<Rightarrow> string \<Rightarrow> auth_state \<Rightarrow> auth_state \<Rightarrow> bool" for lib jl secret where
  login: "authenticate_execute (server_authenticate lib jl secret) email password role e w = (r, w') \<Longrightarrow>
    auth_step lib jl secret w w'"
| refresh: "authenticate_refresh (server_authenticate lib jl secret) raw e w = (r', w') \<Longrightarrow>
    auth_step lib jl secret w w'"
| logout: "authenticate_logout (server_authenticate lib jl secret) raw e w = (r'', w') \<Longrightarrow>
    auth_step lib jl secret w w'"
| register_driver: "driver_registration lib jl secret input e w = (r, w') \<Longrightarrow> auth_step lib jl secret w w'"
| register_passenger: "otp_register_passenger (server_otp lib jl secret) input e w = (r3, w') \<Longrightarrow>
    auth_step lib jl secret w w'"
| request_verification: "otp_request_verification (server_otp lib jl secret) email e w = (r'', w') \<Longrightarrow>
    auth_step lib jl secret w w'"
| verify: "passenger_verification lib jl secret email code e w = (r, w') \<Longrightarrow> auth_step lib jl secret w w'"
| request_reset: "request_password_reset_for_role (server_otp lib jl secret) email role e w = (r'', w') \<Longrightarrow>
    auth_step lib jl secret w w'"
| reset: "reset_password_for_role (server_otp lib jl secret) email code password role e w = (r'', w') \<Longrightarrow>
    auth_step lib jl secret w w'"
| request_email_change:
    "otp_request_email_change (server_otp lib jl secret) i password email e w = (r'', w') \<Longrightarrow>
    auth_step lib jl secret w w'"
| confirm_email_change:
    "otp_confirm_email_change (server_otp lib jl secret) i email code e w = (r'', w') \<Longrightarrow>
    auth_step lib jl secret w w'"

inductive_cases auth_stepE: "auth_step lib jl secret w w'"

section \<open>Every request lets the sessions evolve\<close>

named_theorems auth_keeps \<open>commands that keep the relation of the sessions\<close>

lemma redis_keeps [auth_keeps]:
  "keeps sessions_evolve (otp_store_put lib c p m code ttl)"
  "keeps sessions_evolve (otp_store_consume lib c p m code)"
  "keeps sessions_evolve (pending_store_put lib c r ttl)"
  "keeps sessions_evolve (pending_store_get lib c m)"
  "keeps sessions_evolve (pending_store_delete lib c m)"
  "keeps sessions_evolve (mail_send m code)" "keeps sessions_evolve (mail_notify m n)"
  unfolding otp_store_put_def otp_store_consume_def pending_store_put_def pending_store_get_def
    pending_store_delete_def mail_send_def mail_notify_def
  by (intro sessions.rules frame_keeps; auto split: option.splits prod.splits)+

lemma profile_keeps [auth_keeps]:
  "keeps sessions_evolve (create_user n p m h r v)"
  "keeps sessions_evolve (create_driver_profile i nm vt p)"
  "keeps sessions_evolve (create_passenger_profile i nm)"
  unfolding create_user_def create_driver_profile_def create_passenger_profile_def
  by (intro sessions.rules frame_keeps;
      auto simp: insert_one_def query_def split: option.splits if_splits)+

lemma user_repo_keeps [auth_keeps]:
  "keeps sessions_evolve (user_repo_create c a)"
  "keeps sessions_evolve (user_repo_find_by_email c m)"
  "keeps sessions_evolve (user_repo_find_by_id c i)"
  "keeps sessions_evolve (user_repo_update_password c i h)"
  "keeps sessions_evolve (user_repo_upgrade_password_hash c i h h')"
  "keeps sessions_evolve (user_repo_mark_verified c i)"
  "keeps sessions_evolve (user_repo_update_email c i m m')"
  unfolding user_repo_create_def user_repo_find_by_email_def user_repo_find_by_id_def
    user_repo_update_password_def user_repo_upgrade_password_hash_def user_repo_mark_verified_def
    user_repo_update_email_def user_repository_validate_def with_profile_def
    get_user_by_email_def get_user_by_id_def get_driver_profile_by_user_id_def
    get_passenger_profile_by_user_id_def update_user_password_def upgrade_user_password_hash_def
    mark_user_verified_def update_user_email_def
  by (intro sessions.rules profile_keeps update_users_keeps)+

lemma session_repo_keeps [auth_keeps]:
  "keeps sessions_evolve (session_repo_create c s)"
  "keeps sessions_evolve (session_repo_find_active c h now)"
  "keeps sessions_evolve (session_repo_rotate c h s now)"
  "keeps sessions_evolve (session_repo_revoke c h now)"
  "keeps sessions_evolve (session_repo_revoke_all c i now)"
proof -
  have rotate: "keeps sessions_evolve (revoke_refresh_session_by_id j now)" for j
    unfolding revoke_refresh_session_by_id_def
    by (rule update_sessions_keeps) (auto dest: rotated_later)
  show "keeps sessions_evolve (session_repo_create c s)"
    "keeps sessions_evolve (session_repo_find_active c h now)"
    "keeps sessions_evolve (session_repo_rotate c h s now)"
    "keeps sessions_evolve (session_repo_revoke c h now)"
    "keeps sessions_evolve (session_repo_revoke_all c i now)"
    unfolding session_repo_create_def session_repo_find_active_def session_repo_rotate_def
      session_repo_revoke_def session_repo_revoke_all_def session_repository_validate_def
      revoke_refresh_session_def revoke_user_refresh_sessions_def get_active_refresh_session_def
      get_active_refresh_session_for_update_def
    by (intro sessions.rules rotate revoke_keeps create_session_keeps)+
qed

lemma port_simps:
  "us_create postgres_users = user_repo_create True"
  "us_find_by_email postgres_users = user_repo_find_by_email True"
  "us_find_by_id postgres_users = user_repo_find_by_id True"
  "us_update_password postgres_users = user_repo_update_password True"
  "us_upgrade_password_hash postgres_users = user_repo_upgrade_password_hash True"
  "us_mark_verified postgres_users = user_repo_mark_verified True"
  "sn_create postgres_sessions = session_repo_create True"
  "sn_find_active postgres_sessions = session_repo_find_active True"
  "sn_rotate postgres_sessions = session_repo_rotate True"
  "sn_revoke postgres_sessions = session_repo_revoke True"
  "sn_revoke_all postgres_sessions = session_repo_revoke_all True"
  "ot_put (redis_otps lib) = otp_store_put lib True"
  "ot_consume (redis_otps lib) = otp_store_consume lib True"
  "pn_put (redis_pending lib) = pending_store_put lib True"
  "pn_get (redis_pending lib) = pending_store_get lib True"
  "pn_delete (redis_pending lib) = pending_store_delete lib True"
  by (simp_all add: postgres_users_def postgres_sessions_def redis_otps_def redis_pending_def)

lemma wiring_simps:
  "rg_repository (server_register lib jl secret) = Some postgres_users"
  "rg_tokens (server_register lib jl secret) = Some (jwt_issuer jl (new_token_manager secret))"
  "rg_sessions (server_register lib jl secret) = Some postgres_sessions"
  "rg_hash_password (server_register lib jl secret) = hash_password lib"
  "rg_lib (server_register lib jl secret) = lib"
  "au_repository (server_authenticate lib jl secret) = Some postgres_users"
  "au_tokens (server_authenticate lib jl secret) = Some (jwt_issuer jl (new_token_manager secret))"
  "au_sessions (server_authenticate lib jl secret) = Some postgres_sessions"
  "au_hash_password (server_authenticate lib jl secret) = hash_password lib"
  "au_lib (server_authenticate lib jl secret) = lib"
  "op_users (server_otp lib jl secret) = Some postgres_users"
  "op_email_changes (server_otp lib jl secret) = Some (user_repo_update_email True)"
  "op_email_notifier (server_otp lib jl secret) = Some mail_notify"
  "op_store (server_otp lib jl secret) = Some (redis_otps lib)"
  "op_gateway (server_otp lib jl secret) = Some mail_send"
  "op_tokens (server_otp lib jl secret) = Some (jwt_issuer jl (new_token_manager secret))"
  "op_sessions (server_otp lib jl secret) = Some postgres_sessions"
  "op_pending (server_otp lib jl secret) = Some (redis_pending lib)"
  "op_registrations (server_otp lib jl secret) = Some (server_register lib jl secret)"
  "op_hash_password (server_otp lib jl secret) = hash_password lib"
  "op_lib (server_otp lib jl secret) = lib"
  by (simp_all add: server_register_def server_authenticate_def server_otp_def)

lemmas wired = wiring_simps port_simps option.case prod.case

lemma token_keeps [auth_keeps]:
  "keeps sessions_evolve (issue_token (Some (jwt_issuer jl m)) subject role)"
  "keeps sessions_evolve (new_refresh_token lib)"
  "keeps sessions_evolve (issue_refresh_token lib (Some postgres_sessions) subject role)"
  "keeps sessions_evolve (replacement_refresh_session lib i now)"
proof -
  show n: "keeps sessions_evolve (new_refresh_token lib)"
    unfolding new_refresh_token_def by (intro sessions.rules frame_keeps) (auto simp: Let_def)
  show "keeps sessions_evolve (issue_token (Some (jwt_issuer jl m)) subject role)"
    by (rule frame_keeps) (auto simp: issue_token_def jwt_issuer_def)
  show "keeps sessions_evolve (issue_refresh_token lib (Some postgres_sessions) subject role)"
    "keeps sessions_evolve (replacement_refresh_session lib i now)"
    unfolding issue_refresh_token_def replacement_refresh_session_def wired
    by (intro sessions.rules n auth_keeps)+
qed

lemma register_keeps [auth_keeps]:
  "keeps sessions_evolve (register_account (server_register lib jl secret) input role)"
  "keeps sessions_evolve (register_prepare_passenger (server_register lib jl secret) input)"
  "keeps sessions_evolve (commit_pending_passenger (server_register lib jl secret) p)"
  unfolding register_account_def register_prepare_passenger_def commit_pending_passenger_def
    register_create_def ensure_unregistered_def wired
  by (intro sessions.rules auth_keeps)+

lemma login_keeps [auth_keeps]:
  "keeps sessions_evolve (authenticate_execute (server_authenticate lib jl secret) email password role)"
  "keeps sessions_evolve (authenticate_refresh (server_authenticate lib jl secret) raw)"
  "keeps sessions_evolve (authenticate_logout (server_authenticate lib jl secret) raw)"
  unfolding authenticate_execute_def authenticate_verify_def authenticate_issue_def
    ensure_credentials_unchanged_def upgrade_legacy_hash_def issue_session_tokens_def
    authenticate_refresh_def refresh_find_def refresh_rotate_def authenticate_logout_def wired
  by (intro sessions.rules auth_keeps)+

lemma request_code_keeps [auth_keeps]:
  "keeps sessions_evolve (request_code (server_otp lib jl secret) purpose email)"
  unfolding request_code_def wired
  by (intro sessions.rules auth_keeps)

lemma otp_flow_keeps [auth_keeps]:
  "keeps sessions_evolve (otp_register_passenger (server_otp lib jl secret) input)"
  "keeps sessions_evolve (otp_request_verification (server_otp lib jl secret) email)"
  "keeps sessions_evolve (otp_verify_passenger (server_otp lib jl secret) email code)"
  unfolding otp_register_passenger_def otp_register_new_def otp_request_verification_def
    request_pending_verification_def otp_verify_passenger_def verify_existing_def verify_pending_def wired
  by (intro sessions.rules auth_keeps)+

lemma reset_keeps [auth_keeps]:
  "keeps sessions_evolve (request_password_reset_for_role (server_otp lib jl secret) email role)"
  "keeps sessions_evolve (reset_password_for_role (server_otp lib jl secret) email code password role)"
  unfolding request_password_reset_for_role_def reset_password_for_role_def reset_consume_def
    reset_revoke_def reset_update_def account_for_role_def otp_account_def wired
  by (intro sessions.rules auth_keeps)+

lemma revoke_attempts_keeps [auth_keeps]: "keeps sessions_evolve (revoke_attempts n postgres_sessions i x)"
proof (induction n arbitrary: x)
  case (Suc n)
  then show ?case unfolding revoke_attempts.simps wired by (intro sessions.rules auth_keeps)
qed (simp add: sessions.throw)

lemma email_change_keeps [auth_keeps]:
  "keeps sessions_evolve (otp_request_email_change (server_otp lib jl secret) i password email)"
  "keeps sessions_evolve (otp_confirm_email_change (server_otp lib jl secret) i email code)"
  unfolding otp_request_email_change_def otp_confirm_email_change_def email_change_account_def
    ensure_email_available_def revoke_sessions_after_email_change_def wired
  by (intro sessions.rules auth_keeps)+

lemma session_request_keeps [auth_keeps]:
  "keeps sessions_evolve (driver_registration lib jl secret input)"
  "keeps sessions_evolve (passenger_verification lib jl secret email code)"
  unfolding driver_registration_def passenger_verification_def wired
  by (intro sessions.rules auth_keeps)+

lemma auth_step_evolves: "auth_step lib jl secret w w' \<Longrightarrow> sessions_evolve w w'"
  by (erule auth_stepE) (erule keepsD [rotated], rule auth_keeps)+

lemma auth_steps_evolve: "(auth_step lib jl secret)\<^sup>*\<^sup>* w w' \<Longrightarrow> sessions_evolve w w'"
  by (induction rule: rtranclp_induct) (auto intro: sessions.refl sessions.trans auth_step_evolves)

end
