(* ===== verification/Auth_Properties.thy ===== *)
theory Auth_Properties
  imports Auth_System
begin

text \<open>
  What the auth module promises about sessions: when a refresh token stops working, what a login
  and a password reset have done, and the samples on which these are evaluated.
\<close>

section \<open>The end of a session\<close>

lemma unrevoked_later:
  assumes "\<not> session_unrevoked t s" and "session_later s s'"
  shows "\<not> session_unrevoked t s'"
  using assms unfolding session_unrevoked_def session_later_def
  by (auto split: option.splits)

lemma dead_stays:
  assumes "sessions_ok w" and "sessions_evolve w w'"
    and "s \<in> set (a_refresh_sessions w)" and "\<not> session_unrevoked t s"
    and "s' \<in> set (a_refresh_sessions w')" and "rs_token_hash s' = rs_token_hash s"
  shows "\<not> session_unrevoked t s'"
proof -
  from assms(1-3) obtain s'' where s'': "s'' \<in> set (a_refresh_sessions w')" "session_later s s''"
    and ok: "sessions_ok w'" by (auto simp: sessions_evolve_def)
  have "s'' = s'"
    using distinct_key_inj [of rs_token_hash "a_refresh_sessions w'" s'' s'] ok s'' assms(5,6)
    by (auto simp: sessions_ok_def session_later_def)
  with unrevoked_later [OF assms(4) s''(2)] show ?thesis by simp
qed

lemma find_none_refresh:
  assumes "\<And>s. s \<in> set (a_refresh_sessions w) \<Longrightarrow> rs_token_hash s = hash_refresh_token lib (trim_space raw) \<Longrightarrow>
      \<not> session_unrevoked (env_now e) s"
  shows "\<exists>x. authenticate_refresh (server_authenticate lib jl secret) raw e w = (Inl x, w)"
proof -
  have "List.find (\<lambda>s. rs_token_hash s = hash_refresh_token lib (trim_space raw) \<and> session_active (env_now e) s)
      (a_refresh_sessions w) = None"
    using assms by (auto simp: find_None_iff session_active_def)
  then show ?thesis
    by (simp add: authenticate_refresh_def refresh_find_def wired session_repo_find_active_def
        session_repository_validate_def get_active_refresh_session_def select_one_def query_def
        io_bind_def io_map_err_def io_env_def io_return_def io_throw_def Let_def)
qed

lemma rotateE:
  assumes "session_repo_rotate True h r now e w = (Inr (), v)"
  obtains s n where "s \<in> set (a_refresh_sessions w)" and "rs_token_hash s = h" and "session_active now s"
    and "rs_user_id s = fs_user_id r"
    and "a_refresh_sessions v = upd_where (\<lambda>q. rs_id q = rs_id s \<and> session_unrevoked now q) (rotated now)
      (a_refresh_sessions w) @ [n]"
    and "rs_user_id n = fs_user_id r" and "rs_token_hash n = fs_token_hash r"
    and "rs_expires_at n = Some (fs_expires_at r)" and "rs_revoked_at n = None"
    and "a_users v = a_users w"
proof -
  from assms obtain s where f: "List.find (\<lambda>s. rs_token_hash s = h \<and> session_active now s) (a_refresh_sessions w) = Some s"
    and u: "rs_user_id s = fs_user_id r"
    and v: "\<exists>n. a_refresh_sessions v = upd_where (\<lambda>q. rs_id q = rs_id s \<and> session_unrevoked now q) (rotated now)
        (a_refresh_sessions w) @ [n] \<and> rs_user_id n = fs_user_id r \<and> rs_token_hash n = fs_token_hash r \<and>
      rs_expires_at n = Some (fs_expires_at r) \<and> rs_revoked_at n = None" "a_users v = a_users w"
    by (auto simp: session_repo_rotate_def session_repository_validate_def to_postgres_user_id_def
        get_active_refresh_session_for_update_def revoke_refresh_session_by_id_def
        update_refresh_sessions_def create_refresh_session_def io_simps split: if_splits)
  from find_SomeD [OF f] u v that show thesis by blast
qed

lemma account_reads:
  "keeps (=) (user_repo_find_by_email c m)" "keeps (=) (user_repo_find_by_id c i)"
  "keeps (=) (session_repo_find_active c h now)"
  unfolding user_repo_find_by_email_def user_repo_find_by_id_def session_repo_find_active_def
    user_repository_validate_def session_repository_validate_def with_profile_def
    get_user_by_email_def get_user_by_id_def get_driver_profile_by_user_id_def
    get_passenger_profile_by_user_id_def get_active_refresh_session_def
  by (intro same.rules)+

lemma refresh_find_reads:
  "keeps (=) (refresh_find (server_authenticate lib jl secret) postgres_users postgres_sessions raw now)"
  unfolding refresh_find_def wired by (intro same.rules account_reads)

lemma with_profile_same:
  assumes "with_profile a e w = (Inr b, w')"
  shows "w' = w \<and> ac_id b = ac_id a \<and> ac_email b = ac_email a \<and> ac_role b = ac_role a \<and>
    ac_password_hash b = ac_password_hash a \<and> ac_is_verified b = ac_is_verified a \<and>
    ac_account_status b = ac_account_status a"
  using assms
  by (auto simp: with_profile_def get_driver_profile_by_user_id_def get_passenger_profile_by_user_id_def
      io_simps split: if_splits prod.splits)

text \<open>An account that is found shows its row.\<close>

definition shows_user :: "account \<Rightarrow> user_row \<Rightarrow> bool" where
  "shows_user a u \<longleftrightarrow> ac_id a = u_id u \<and> ac_email a = u_email u \<and> ac_role a = u_role u \<and>
     ac_password_hash a = u_password_hash u \<and> ac_is_verified a = u_is_verified u \<and>
     ac_account_status a = u_account_status u"

lemma find_by_emailE:
  assumes "user_repo_find_by_email True m e w = (Inr a, w')"
  obtains u where "u \<in> set (a_users w)" and "u_email u = m" and "shows_user a u" and "w' = w"
proof -
  from assms obtain u where u: "List.find (\<lambda>u. u_email u = m) (a_users w) = Some u"
    and p: "with_profile (from_postgres_user u) e w = (Inr a, w')"
    by (auto simp: user_repo_find_by_email_def user_repository_validate_def get_user_by_email_def io_simps)
  from find_SomeD [OF u] with_profile_same [OF p] that show thesis
    by (auto simp: shows_user_def from_postgres_user_def)
qed

lemma find_by_idE:
  assumes "user_repo_find_by_id True i e w = (Inr a, w')"
  obtains u where "u \<in> set (a_users w)" and "u_id u = i" and "shows_user a u" and "w' = w"
proof -
  from assms obtain u where u: "List.find (\<lambda>u. u_id u = i) (a_users w) = Some u"
    and p: "with_profile (from_postgres_user u) e w = (Inr a, w')"
    by (auto simp: user_repo_find_by_id_def user_repository_validate_def get_user_by_id_def
        to_postgres_user_id_def io_simps split: if_splits)
  from find_SomeD [OF u] with_profile_same [OF p] that show thesis
    by (auto simp: shows_user_def from_postgres_user_def)
qed

lemma issue_tokenE:
  assumes "issue_token (Some (jwt_issuer jl m)) subject role e w = (Inr t, w')"
  obtains "w' = w" and "issue_with_role jl m subject role e = Inr t"
  using assms by (auto simp: issue_token_def jwt_issuer_def)

lemma refreshE:
  assumes "authenticate_refresh (server_authenticate lib jl secret) raw e w = (Inr tokens, v)"
  obtains r where "session_repo_rotate True (hash_refresh_token lib (trim_space raw)) r (env_now e) e w = (Inr (), v)"
    and "refresh_token tokens = b64_encode (env_random e ''refresh token'')"
    and "fs_token_hash r = hash_refresh_token lib (refresh_token tokens)"
    and "fs_expires_at r = env_now e + refresh_token_lifetime"
    and "valid_refresh_token (trim_space raw)"
proof -
  from assms obtain s a x where val: "valid_refresh_token (trim_space raw)"
    and f: "refresh_find (server_authenticate lib jl secret) postgres_users postgres_sessions (trim_space raw)
      (env_now e) e w = (Inr (s, a), x)"
    and rot: "refresh_rotate (server_authenticate lib jl secret) postgres_sessions s a (env_now e) e x = (Inr tokens, v)"
    by (auto simp: authenticate_refresh_def wired Let_def io_simps split: if_splits)
  from keepsD [OF refresh_find_reads f] have x: "x = w" by simp
  from f obtain q where "session_repo_find_active True (hash_refresh_token lib (trim_space raw)) (env_now e) e w = (Inr s, q)"
    by (auto simp: refresh_find_def wired io_simps split: if_splits)
  then have h: "fs_token_hash s = hash_refresh_token lib (trim_space raw)"
    by (auto simp: session_repo_find_active_def session_repository_validate_def get_active_refresh_session_def
        from_postgres_refresh_session_def io_simps dest!: find_SomeD split: option.splits)
  from rot obtain y where "session_repo_rotate True (fs_token_hash s)
      \<lparr>fs_user_id = ac_id a, fs_token_hash = hash_refresh_token lib (refresh_token tokens),
       fs_expires_at = env_now e + refresh_token_lifetime\<rparr> (env_now e) e w = (Inr (), v)"
    and "refresh_token tokens = b64_encode (env_random e ''refresh token'')"
    by (auto simp: refresh_rotate_def replacement_refresh_session_def new_refresh_token_def wired Let_def
        io_simps x elim!: issue_tokenE)
  with h val show thesis by (intro that) auto
qed

section \<open>Refreshing\<close>

text \<open>
  C29. A refresh token lives at most thirty seconds after its first use. Once a refresh with a
  token that was not rotated before has succeeded, no refresh with it succeeds from thirty
  seconds later on, whatever requests come in between; such a refresh changes nothing.
\<close>

theorem refresh_token_dies:
  assumes "sessions_ok w"
    and "authenticate_refresh (server_authenticate lib jl secret) raw e w = (Inr tokens, v)"
    and "list_all (\<lambda>s. rs_token_hash s \<noteq> hash_refresh_token lib (trim_space raw) \<or> rs_revoked_at s = None)
      (a_refresh_sessions w)"
    and "(auth_step lib jl secret)\<^sup>*\<^sup>* v w'"
    and "env_now e + 30 * second \<le> env_now e'"
  shows "\<exists>x. authenticate_refresh (server_authenticate lib jl secret) raw e' w' = (Inl x, w')"
proof (rule find_none_refresh)
  let ?h = "hash_refresh_token lib (trim_space raw)"
  fix s' assume s': "s' \<in> set (a_refresh_sessions w')" "rs_token_hash s' = ?h"
  from assms(2) obtain r where "session_repo_rotate True ?h r (env_now e) e w = (Inr (), v)"
    by (rule refreshE)
  then obtain s n where s: "s \<in> set (a_refresh_sessions w)" "rs_token_hash s = ?h" "session_active (env_now e) s"
    and v: "a_refresh_sessions v = upd_where (\<lambda>q. rs_id q = rs_id s \<and> session_unrevoked (env_now e) q)
      (rotated (env_now e)) (a_refresh_sessions w) @ [n]"
    by (rule rotateE) blast
  from s assms(1,3) have "rs_revoked_at s = None" "rs_rotation_grace_until s = None"
    by (auto simp: list_all_iff sessions_ok_def)
  then have dead: "\<not> session_unrevoked (env_now e') (rotated (env_now e) s)"
    using assms(5) by (simp add: session_unrevoked_def rotated_def)
  have "rotated (env_now e) s \<in> set (a_refresh_sessions v)"
    using s by (force simp: v set_upd_where session_active_def)
  moreover have "sessions_ok v"
    using auth_step_evolves [OF auth_step.refresh [OF assms(2)]] assms(1) by (simp add: sessions_evolve_def)
  ultimately show "\<not> session_unrevoked (env_now e') s'"
    using dead_stays [OF _ auth_steps_evolve [OF assms(4)] _ dead s'(1)] s' s(2) by (simp add: rotated_def)
qed

section \<open>Logging in\<close>

lemma issue_session_tokensE:
  assumes "issue_session_tokens lib (Some postgres_sessions) (Some (jwt_issuer jl m)) subject role e w = (Inr tokens, v)"
  obtains s where "issue_with_role jl m subject role e = Inr (access_token tokens)"
    and "v = w\<lparr>a_refresh_sessions := a_refresh_sessions w @ [s]\<rparr>"
    and "Inr (rs_user_id s) = subject_id subject"
    and "rs_token_hash s = hash_refresh_token lib (refresh_token tokens)"
    and "rs_expires_at s = Some (env_now e + refresh_token_lifetime)" and "rs_revoked_at s = None"
    and "rs_rotation_grace_until s = None"
  using assms
  by (auto simp: issue_session_tokens_def issue_refresh_token_def new_refresh_token_def wired
      session_repo_create_def session_repository_validate_def create_refresh_session_def
      to_postgres_user_id_def Let_def io_simps split: if_splits elim!: issue_tokenE)

lemma subject_id_itoa: "subject_id (itoa i) = Inr j \<Longrightarrow> int64_range i \<Longrightarrow> j = i"
  by (auto simp: subject_id_def atoi_itoa split: if_splits)

definition password_changed :: "int \<Rightarrow> string \<Rightarrow> string \<Rightarrow> int \<Rightarrow> user_row list \<Rightarrow> user_row list" where
  "password_changed i h h' now = upd_where (\<lambda>u. u_id u = i \<and> u_password_hash u = h)
     (\<lambda>u. u\<lparr>u_password_hash := h', u_updated_at := Some now\<rparr>)"

lemma upgrade_legacy_hashE:
  assumes "upgrade_legacy_hash (server_authenticate lib jl secret) postgres_users a password e w = (Inr h, v)"
  obtains us where "v = w\<lparr>a_users := us\<rparr>"
    and "us = a_users w \<and> h = ac_password_hash a \<or>
      is_legacy_password_hash (ac_password_hash a) \<and> hash_password lib e password = Inr h \<and>
      us = password_changed (ac_id a) (ac_password_hash a) h (env_db_now e) (a_users w)"
proof (cases "is_legacy_password_hash (ac_password_hash a)")
  case False
  with assms have "v = w\<lparr>a_users := a_users w\<rparr>" "h = ac_password_hash a"
    by (auto simp: upgrade_legacy_hash_def io_simps)
  then show thesis by (intro that [of "a_users w"]) simp_all
next
  case True
  show thesis
  proof (cases "hash_password lib e password")
    case (Inl x)
    with assms True have "v = w\<lparr>a_users := a_users w\<rparr>" "h = ac_password_hash a"
      by (auto simp: upgrade_legacy_hash_def wired io_simps)
    then show thesis by (intro that [of "a_users w"]) simp_all
  next
    case (Inr h')
    let ?m = "user_repo_upgrade_password_hash True (ac_id a) (ac_password_hash a) h'"
    obtain r v' where m: "?m e w = (r, v')" by fastforce
    with assms True Inr have v: "v = v'" and h: "h = (if r = Inr True then h' else ac_password_hash a)"
      by (auto simp: upgrade_legacy_hash_def wired io_simps)
    let ?n = "int (count_where (\<lambda>u. u_id u = ac_id a \<and> u_password_hash u = ac_password_hash a) (a_users w))"
    have "v' = w \<and> r \<noteq> Inr True \<or>
      v' = w\<lparr>a_users := password_changed (ac_id a) (ac_password_hash a) h' (env_db_now e) (a_users w)\<rparr> \<and>
      r = Inr (?n > 0)"
      using m by (auto simp: user_repo_upgrade_password_hash_def user_repository_validate_def
          to_postgres_user_id_def upgrade_user_password_hash_def update_users_def update_rows_def query_def
          password_changed_def io_bind_def io_return_def io_lift_def split: if_splits option.splits)
    moreover have "password_changed (ac_id a) (ac_password_hash a) h' (env_db_now e) (a_users w) = a_users w"
      if "\<not> ?n > 0"
      using that unfolding password_changed_def
      by (intro upd_where_none) (auto simp: count_where_def filter_empty_conv)
    ultimately consider "v' = w" "r \<noteq> Inr True"
      | "v' = w\<lparr>a_users := password_changed (ac_id a) (ac_password_hash a) h' (env_db_now e) (a_users w)\<rparr>" "r = Inr True"
      by (cases "?n > 0") auto
    then show thesis
    proof cases
      case 1
      then show thesis using v h by (intro that [of "a_users w"]) simp_all
    next
      case 2
      then show thesis using v h True Inr by (intro that) auto
    qed
  qed
qed

lemma authenticate_verifyE:
  assumes "authenticate_verify (server_authenticate lib jl secret) postgres_users email password role e w = (Inr (a, h), v)"
  obtains u us where "u \<in> set (a_users w)" and "u_email u = al_lower lib (trim_space email)"
    and "shows_user a u" and "role = '''' \<or> u_role u = role"
    and "u_account_status u = '''' \<or> u_account_status u = ''active''"
    and "verify_password lib (if u_password_hash u = '''' then dummy_bcrypt_hash else u_password_hash u) password"
    and "v = w\<lparr>a_users := us\<rparr>"
    and "us = a_users w \<and> h = u_password_hash u \<or>
      is_legacy_password_hash (u_password_hash u) \<and> hash_password lib e password = Inr h \<and>
      us = password_changed (u_id u) (u_password_hash u) h (env_db_now e) (a_users w)"
proof -
  let ?s = "server_authenticate lib jl secret"
  obtain r w1 where f: "user_repo_find_by_email True (al_lower lib (trim_space email)) e w = (r, w1)" by fastforce
  from keepsD [OF account_reads(1) f] have w1: "w1 = w" by simp
  from assms f obtain b where r: "r = Inr b"
    by (cases r) (auto simp: authenticate_verify_def wired io_simps)
  with f w1 obtain u where u: "u \<in> set (a_users w)" "u_email u = al_lower lib (trim_space email)" "shows_user b u"
    by (auto elim: find_by_emailE)
  have d: "get_dummy_hash ?s = dummy_bcrypt_hash"
    by (simp add: get_dummy_hash_def server_authenticate_def)
  from assms f r w1 have ok: "verify_password lib (if ac_password_hash b = '''' then dummy_bcrypt_hash else ac_password_hash b) password"
    "role = '''' \<or> ac_role b = role" "\<not> account_suspended b" "a = b"
    and up: "upgrade_legacy_hash ?s postgres_users b password e w = (Inr h, v)"
    by (auto simp: authenticate_verify_def wired io_simps Let_def d split: if_splits)
  from up obtain us where us: "v = w\<lparr>a_users := us\<rparr>"
      "us = a_users w \<and> h = ac_password_hash b \<or>
      is_legacy_password_hash (ac_password_hash b) \<and> hash_password lib e password = Inr h \<and>
      us = password_changed (ac_id b) (ac_password_hash b) h (env_db_now e) (a_users w)"
    by (rule upgrade_legacy_hashE)
  show thesis
    using u ok us by (intro that [of u us]) (auto simp: shows_user_def account_suspended_def)
qed

lemma ensure_unchangedE:
  assumes "ensure_credentials_unchanged (server_authenticate lib jl secret) postgres_users i h e w = (Inr (), v)"
  obtains u where "u \<in> set (a_users w)" and "u_id u = i" and "u_password_hash u = h" and "v = w"
proof -
  obtain r w1 where f: "user_repo_find_by_id True i e w = (r, w1)" by fastforce
  from keepsD [OF account_reads(2) f] have w1: "w1 = w" by simp
  from assms f obtain a where r: "r = Inr a" "ac_password_hash a = h" "v = w"
    by (cases r) (auto simp: ensure_credentials_unchanged_def wired w1 io_simps split: if_splits)
  with f w1 obtain u where "u \<in> set (a_users w)" "u_id u = i" "shows_user a u"
    by (auto elim: find_by_idE)
  with r that show thesis by (simp add: shows_user_def)
qed

text \<open>
  C26. A login succeeds only with the right password, and gives exactly one session. The account
  found under the address accepts the password (an account without a hash never does, unless the
  password is the one of the dummy hash), has the requested role and is not suspended; one
  session of that account is added, for thirty days, under the digest of the refresh token that
  is returned; the access token is for that account; and nothing else changes, except that an
  outdated hash of the same password may be replaced.
\<close>

theorem login_sound:
  assumes "authenticate_execute (server_authenticate lib jl secret) email password role e w = (Inr (a, tokens), v)"
    and "list_all (\<lambda>u. int64_range (u_id u)) (a_users w)"
  shows "\<exists>u s us. u \<in> set (a_users w) \<and> u_email u = al_lower lib (trim_space email) \<and> shows_user a u \<and>
    verify_password lib (if u_password_hash u = '''' then dummy_bcrypt_hash else u_password_hash u) password \<and>
    (role = '''' \<or> u_role u = role) \<and> (u_account_status u = '''' \<or> u_account_status u = ''active'') \<and>
    v = w\<lparr>a_users := us, a_refresh_sessions := a_refresh_sessions w @ [s]\<rparr> \<and>
    rs_user_id s = u_id u \<and> rs_token_hash s = hash_refresh_token lib (refresh_token tokens) \<and>
    rs_expires_at s = Some (env_now e + refresh_token_lifetime) \<and> session_active (env_now e) s \<and>
    issue_with_role jl (new_token_manager secret) (itoa (u_id u)) (u_role u) e = Inr (access_token tokens) \<and>
    (us = a_users w \<or> is_legacy_password_hash (u_password_hash u))"
proof -
  let ?s = "server_authenticate lib jl secret"
  from assms(1) obtain h w1 w2 where
    ver: "authenticate_verify ?s postgres_users email password role e w = (Inr (a, h), w1)"
    and iss: "issue_session_tokens lib (Some postgres_sessions) (Some (jwt_issuer jl (new_token_manager secret)))
      (itoa (ac_id a)) (ac_role a) e w1 = (Inr tokens, w2)"
    and ens: "ensure_credentials_unchanged ?s postgres_users (ac_id a) h e w2 = (Inr (), v)"
    by (auto simp: authenticate_execute_def authenticate_issue_def wired io_simps)
  from ver obtain u us where u: "u \<in> set (a_users w)" "u_email u = al_lower lib (trim_space email)" "shows_user a u"
      "role = '''' \<or> u_role u = role" "u_account_status u = '''' \<or> u_account_status u = ''active''"
      "verify_password lib (if u_password_hash u = '''' then dummy_bcrypt_hash else u_password_hash u) password"
    and w1: "w1 = w\<lparr>a_users := us\<rparr>"
    and us: "us = a_users w \<and> h = u_password_hash u \<or>
      is_legacy_password_hash (u_password_hash u) \<and> hash_password lib e password = Inr h \<and>
      us = password_changed (u_id u) (u_password_hash u) h (env_db_now e) (a_users w)"
    by (rule authenticate_verifyE)
  from iss obtain s where s: "issue_with_role jl (new_token_manager secret) (itoa (ac_id a)) (ac_role a) e = Inr (access_token tokens)"
      "w2 = w1\<lparr>a_refresh_sessions := a_refresh_sessions w1 @ [s]\<rparr>"
      "Inr (rs_user_id s) = subject_id (itoa (ac_id a))"
      "rs_token_hash s = hash_refresh_token lib (refresh_token tokens)"
      "rs_expires_at s = Some (env_now e + refresh_token_lifetime)" "rs_revoked_at s = None"
    by (rule issue_session_tokensE)
  from ens have v: "v = w2" by (rule ensure_unchangedE)
  have "rs_user_id s = ac_id a"
    using subject_id_itoa [OF s(3) [symmetric]] assms(2) u(1,3) by (simp add: list_all_iff shows_user_def)
  moreover have "session_active (env_now e) s"
    using s(5,6) by (simp add: session_active_def session_unrevoked_def refresh_token_lifetime_def minute_def second_def)
  ultimately show ?thesis
    using u s us unfolding v w1
    by (intro exI [of _ u] exI [of _ s] exI [of _ us]) (auto simp: shows_user_def)
qed

section \<open>Password reset\<close>

lemma otp_consumeE:
  assumes "otp_store_consume lib True purpose m code e w = (Inr (), v)"
  obtains x where "redis_get (redis_clock e) (otp_key lib purpose m) (a_redis w) = Some x"
    and "kv_value x = code"
    and "v = w\<lparr>a_redis := (a_redis w)(otp_key lib purpose m := None, otp_attempt_key lib purpose m := None)\<rparr>"
proof -
  from assms obtain m' where "otp_consume_script (redis_clock e) (otp_key lib purpose m) (otp_attempt_key lib purpose m)
      code max_otp_verification_attempts (15 * 60 * 1000) (a_redis w) = Some (1, m')" and v: "v = w\<lparr>a_redis := m'\<rparr>"
    by (auto simp: otp_store_consume_def io_simps split: option.splits if_splits prod.splits)
  then obtain x where "redis_get (redis_clock e) (otp_key lib purpose m) (a_redis w) = Some x" "kv_value x = code"
      "m' = (a_redis w)(otp_key lib purpose m := None, otp_attempt_key lib purpose m := None)"
    by (auto simp: otp_consume_script_def Let_def split: option.splits if_splits)
  with v that show thesis by blast
qed

lemma revoke_all_eq:
  assumes "session_repo_revoke_all True i now e w = (Inr (), v)"
  shows "v = w\<lparr>a_refresh_sessions :=
    upd_where (\<lambda>s. rs_user_id s = i \<and> session_unrevoked now s) (revoked now) (a_refresh_sessions w)\<rparr>"
  using assms
  by (auto simp: session_repo_revoke_all_def session_repository_validate_def to_postgres_user_id_def
      revoke_user_refresh_sessions_def update_refresh_sessions_def io_simps split: if_splits)

text \<open>After the revocation no session of the account is left at any later time.\<close>

lemma revoked_dead: "\<not> session_unrevoked t (revoked now s)"
  by (simp add: session_unrevoked_def revoked_def)

lemma revoke_all_dead:
  assumes "session_repo_revoke_all True i now e w = (Inr (), v)"
    and "s \<in> set (a_refresh_sessions v)" and "rs_user_id s = i" and "now \<le> t"
  shows "\<not> session_unrevoked t s"
proof -
  from assms(1) have "v = w\<lparr>a_refresh_sessions :=
      upd_where (\<lambda>s. rs_user_id s = i \<and> session_unrevoked now s) (revoked now) (a_refresh_sessions w)\<rparr>"
    by (rule revoke_all_eq)
  with assms(2) obtain q where q: "q \<in> set (a_refresh_sessions w)"
    "s = (if rs_user_id q = i \<and> session_unrevoked now q then revoked now q else q)"
    by (auto elim: in_upd_whereE)
  show ?thesis
  proof (cases "rs_user_id q = i \<and> session_unrevoked now q")
    case True
    with q revoked_dead show ?thesis by simp
  next
    case False
    with q(2) have "s = q" by (simp only: if_False)
    with False assms(3,4) show ?thesis by (auto simp: session_unrevoked_def split: option.splits)
  qed
qed

lemma account_for_roleE:
  assumes "account_for_role (server_otp lib jl secret) email role e w = (Inr a, v)"
  obtains u where "u \<in> set (a_users w)" and "u_email u = al_lower lib (trim_space email)" and "shows_user a u"
    and "u_role u = role" and "u_account_status u = '''' \<or> u_account_status u = ''active''" and "v = w"
  using assms
  by (auto simp: account_for_role_def otp_account_def wired io_simps account_suspended_def shows_user_def
      split: if_splits elim!: find_by_emailE)

lemma update_passwordE:
  assumes "user_repo_update_password True i h e w = (Inr (), v)"
  shows "v = w\<lparr>a_users := upd_where (\<lambda>u. u_id u = i)
    (\<lambda>u. u\<lparr>u_password_hash := h, u_updated_at := Some (env_db_now e)\<rparr>) (a_users w)\<rparr>"
  using assms
  by (auto simp: user_repo_update_password_def user_repository_validate_def to_postgres_user_id_def
      update_user_password_def update_users_def io_simps split: if_splits)

lemma reset_passwordE:
  assumes "reset_password_for_role (server_otp lib jl secret) email code password role e w = (Inr (), v)"
  obtains u x h v1 v2 where "u \<in> set (a_users w)" and "u_email u = al_lower lib (trim_space email)"
    and "u_role u = role" and "u_account_status u = '''' \<or> u_account_status u = ''active''"
    and "8 \<le> length password" and "length password \<le> 72"
    and "redis_get (redis_clock e) (otp_key lib ''reset'' (u_email u)) (a_redis w) = Some x"
    and "kv_value x = trim_space code" and "hash_password lib e password = Inr h"
    and "a_redis v = (a_redis w)(otp_key lib ''reset'' (u_email u) := None, otp_attempt_key lib ''reset'' (u_email u) := None)"
    and "a_users v = upd_where (\<lambda>q. u_id q = u_id u)
      (\<lambda>q. q\<lparr>u_password_hash := h, u_updated_at := Some (env_db_now e)\<rparr>) (a_users w)"
    and "session_repo_revoke_all True (u_id u) (env_now e) e v1 = (Inr (), v2)"
    and "v = v2"
proof -
  from assms obtain a w1 w2 h w3 where con: "reset_consume (server_otp lib jl secret) email code password role e w = (Inr a, w1)"
    and r1: "session_repo_revoke_all True (ac_id a) (env_now e) e w1 = (Inr (), w2)"
    and h: "hash_password lib e password = Inr h" and up: "user_repo_update_password True (ac_id a) h e w2 = (Inr (), w3)"
    and r2: "session_repo_revoke_all True (ac_id a) (env_now e) e w3 = (Inr (), v)"
    by (auto simp: reset_password_for_role_def reset_revoke_def reset_update_def wired io_simps)
  from con obtain w0 where acc: "account_for_role (server_otp lib jl secret) email role e w = (Inr a, w0)"
    and len: "8 \<le> length password" "length password \<le> 72"
    and otp: "otp_store_consume lib True ''reset'' (ac_email a) (trim_space code) e w0 = (Inr (), w1)"
    by (auto simp: reset_consume_def wired io_simps split: if_splits)
  from acc obtain u where u: "u \<in> set (a_users w)" "u_email u = al_lower lib (trim_space email)" "shows_user a u"
      "u_role u = role" "u_account_status u = '''' \<or> u_account_status u = ''active''" "w0 = w"
    by (rule account_for_roleE)
  then have a: "ac_id a = u_id u" "ac_email a = u_email u" by (simp_all add: shows_user_def)
  note up = update_passwordE [OF up]
  from otp obtain x where x: "redis_get (redis_clock e) (otp_key lib ''reset'' (ac_email a)) (a_redis w0) = Some x"
      "kv_value x = trim_space code"
      "w1 = w0\<lparr>a_redis := (a_redis w0)(otp_key lib ''reset'' (ac_email a) := None, otp_attempt_key lib ''reset'' (ac_email a) := None)\<rparr>"
    by (rule otp_consumeE)
  note states = revoke_all_eq [OF r2] up revoke_all_eq [OF r1] x(3)
  show thesis
  proof (rule that [OF u(1,2,4,5) len])
    show "redis_get (redis_clock e) (otp_key lib ''reset'' (u_email u)) (a_redis w) = Some x"
      "kv_value x = trim_space code" "hash_password lib e password = Inr h"
      using x(1,2) h by (simp_all add: a(2) u(6))
    show "session_repo_revoke_all True (u_id u) (env_now e) e w3 = (Inr (), v)"
      using r2 by (simp add: a(1))
  qed (simp_all add: states a u(6))
qed

text \<open>
  C27. A reset replaces the password by the one the code was used for. If a reset succeeds, the
  address belongs to an active account of that role, the code was the one stored for it and is
  gone, the new password has between 8 and 72 bytes and is now the account's, and no refresh
  session of the account is usable at any time from then on.
\<close>

theorem reset_takes_over:
  assumes "reset_password_for_role (server_otp lib jl secret) email code password role e w = (Inr (), v)"
    and "env_now e \<le> t"
  shows "\<exists>u x h. u \<in> set (a_users w) \<and> u_email u = al_lower lib (trim_space email) \<and> u_role u = role \<and>
    (u_account_status u = '''' \<or> u_account_status u = ''active'') \<and>
    redis_get (redis_clock e) (otp_key lib ''reset'' (u_email u)) (a_redis w) = Some x \<and>
    kv_value x = trim_space code \<and> a_redis v (otp_key lib ''reset'' (u_email u)) = None \<and>
    8 \<le> length password \<and> length password \<le> 72 \<and> al_bcrypt_generate lib e password = Inr h \<and>
    u\<lparr>u_password_hash := h, u_updated_at := Some (env_db_now e)\<rparr> \<in> set (a_users v) \<and>
    list_all (\<lambda>s. rs_user_id s \<noteq> u_id u \<or> \<not> session_active t s) (a_refresh_sessions v)"
proof -
  from assms(1) obtain u x h v1 v2 where u: "u \<in> set (a_users w)" "u_email u = al_lower lib (trim_space email)"
      "u_role u = role" "u_account_status u = '''' \<or> u_account_status u = ''active''"
      "8 \<le> length password" "length password \<le> 72"
      "redis_get (redis_clock e) (otp_key lib ''reset'' (u_email u)) (a_redis w) = Some x"
      "kv_value x = trim_space code" "hash_password lib e password = Inr h"
    and red: "a_redis v = (a_redis w)(otp_key lib ''reset'' (u_email u) := None, otp_attempt_key lib ''reset'' (u_email u) := None)"
    and us: "a_users v = upd_where (\<lambda>q. u_id q = u_id u)
      (\<lambda>q. q\<lparr>u_password_hash := h, u_updated_at := Some (env_db_now e)\<rparr>) (a_users w)"
    and rev: "session_repo_revoke_all True (u_id u) (env_now e) e v1 = (Inr (), v2)" "v = v2"
    by (rule reset_passwordE)
  have "u\<lparr>u_password_hash := h, u_updated_at := Some (env_db_now e)\<rparr> \<in> set (a_users v)"
    using u(1) by (force simp: us set_upd_where)
  moreover have "list_all (\<lambda>s. rs_user_id s \<noteq> u_id u \<or> \<not> session_active t s) (a_refresh_sessions v)"
    using revoke_all_dead [OF rev(1) _ _ assms(2)] rev(2) by (auto simp: list_all_iff session_active_def)
  moreover have "al_bcrypt_generate lib e password = Inr h"
    using u(6,9) by (simp add: hash_password_def split: if_splits)
  moreover have "a_redis v (otp_key lib ''reset'' (u_email u)) = None" by (simp add: red)
  ultimately show ?thesis using u by blast
qed

text \<open>
  C28. A reset ends every session for good. A refresh token whose session belonged to the account
  before a successful reset is refused ever after, whatever requests come in between.
\<close>

theorem reset_ends_sessions:
  assumes "sessions_ok w" and "distinct (map u_email (a_users w))"
    and "reset_password_for_role (server_otp lib jl secret) email code password role e w = (Inr (), v)"
    and "u \<in> set (a_users w)" and "u_email u = al_lower lib (trim_space email)"
    and "s \<in> set (a_refresh_sessions w)" and "rs_user_id s = u_id u"
    and "rs_token_hash s = hash_refresh_token lib (trim_space raw)"
    and "(auth_step lib jl secret)\<^sup>*\<^sup>* v w'" and "env_now e \<le> env_now e'"
  shows "\<exists>x. authenticate_refresh (server_authenticate lib jl secret) raw e' w' = (Inl x, w')"
proof (rule find_none_refresh)
  fix s' assume s': "s' \<in> set (a_refresh_sessions w')" "rs_token_hash s' = hash_refresh_token lib (trim_space raw)"
  have ev: "sessions_evolve w v" by (rule auth_step_evolves [OF auth_step.reset [OF assms(3)]])
  from assms(3) obtain q v1 v2 where q: "q \<in> set (a_users w)" "u_email q = al_lower lib (trim_space email)"
    and rev: "session_repo_revoke_all True (u_id q) (env_now e) e v1 = (Inr (), v2)" "v = v2"
    by (rule reset_passwordE) blast
  have "q = u" by (rule distinct_key_inj [OF assms(2) q(1) assms(4)]) (simp add: q(2) assms(5))
  from ev assms(1,6) obtain s1 where s1: "s1 \<in> set (a_refresh_sessions v)" "session_later s s1" and ok: "sessions_ok v"
    by (auto simp: sessions_evolve_def)
  then have "\<not> session_unrevoked (env_now e') s1"
    using revoke_all_dead [OF rev(1) _ _ assms(10)] rev(2) \<open>q = u\<close> assms(7) by (simp add: session_later_def)
  from dead_stays [OF ok auth_steps_evolve [OF assms(9)] s1(1) this s'(1)] s'(2) s1(2) assms(8)
  show "\<not> session_unrevoked (env_now e') s'" by (simp add: session_later_def)
qed

end
