(* ===== verification/Auth_Race.thy ===== *)
theory Auth_Race
  imports Auth_Properties
begin

text \<open>
  Logins, refreshes and password resets of one account, interleaved between their database
  calls (\<^verbatim>\<open>execute\<close>, \<^verbatim>\<open>Refresh\<close> and \<^verbatim>\<open>ResetPasswordForRole\<close> of
  \<^verbatim>\<open>src/server/internal/modules/auth/app\<close>). A login is three steps (credentials, session, recheck), a reset is three (code and first
  revocation, new password, second revocation), a refresh is one. The configuration keeps,
  beside the state, what has happened: how often the password was reset, under which password
  each session was opened, and which refresh tokens a client has received. A step has the time
  of its clock, which does not run backwards.
\<close>

section \<open>Configurations\<close>

datatype login =
    Verified account string nat
  | Issued account string nat string

datatype reset_phase = Revoked account | Updated account

record race =
  rc_state :: auth_state
  rc_clock :: int
  rc_generation :: nat
  rc_hashes :: "string set"
  rc_born :: "string \<Rightarrow> nat option"
  rc_released :: "string set"
  rc_logins :: "login set"
  rc_resets :: "reset_phase set"

definition user_hash :: "int \<Rightarrow> auth_state \<Rightarrow> string option" where
  "user_hash i w = map_option u_password_hash (List.find (\<lambda>u. u_id u = i) (a_users w))"

definition sessions_of :: "int \<Rightarrow> auth_state \<Rightarrow> refresh_session_row list" where
  "sessions_of i w = filter (\<lambda>s. rs_user_id s = i) (a_refresh_sessions w)"

text \<open>Every session of the account is a later version of one it had.\<close>

definition no_new_session :: "int \<Rightarrow> auth_state \<Rightarrow> auth_state \<Rightarrow> bool" where
  "no_new_session i w w' \<longleftrightarrow>
     (\<forall>s' \<in> set (sessions_of i w'). \<exists>s \<in> set (sessions_of i w). session_later s s')"

section \<open>Steps\<close>

text \<open>
  A new password hash has never been in use: bcrypt salts it. A token is only presented by a
  client that received it. \<open>other\<close> stands for the requests that neither open a session of the
  account nor change its password.
\<close>

inductive race_step :: "auth_lib \<Rightarrow> jwt_lib \<Rightarrow> string \<Rightarrow> int \<Rightarrow> race \<Rightarrow> race \<Rightarrow> bool" for lib jl secret i where
  verify: "authenticate_verify (server_authenticate lib jl secret) postgres_users email password role e (rc_state c)
      = (Inr (a, h), w) \<Longrightarrow> ac_id a = i \<Longrightarrow> rc_clock c \<le> env_now e \<Longrightarrow>
    h = ac_password_hash a \<or> h \<notin> rc_hashes c \<Longrightarrow>
    race_step lib jl secret i c (c\<lparr>rc_state := w, rc_clock := env_now e, rc_hashes := insert h (rc_hashes c),
      rc_logins := insert (Verified a h (rc_generation c)) (rc_logins c)\<rparr>)"
| issue: "Verified a h g \<in> rc_logins c \<Longrightarrow>
    authenticate_issue (server_authenticate lib jl secret) a e (rc_state c) = (Inr tokens, w) \<Longrightarrow>
    rc_clock c \<le> env_now e \<Longrightarrow> t = hash_refresh_token lib (refresh_token tokens) \<Longrightarrow>
    race_step lib jl secret i c (c\<lparr>rc_state := w, rc_clock := env_now e, rc_born := (rc_born c)(t \<mapsto> g),
      rc_logins := insert (Issued a h g t) (rc_logins c - {Verified a h g})\<rparr>)"
| recheck: "Issued a h g t \<in> rc_logins c \<Longrightarrow>
    ensure_credentials_unchanged (server_authenticate lib jl secret) postgres_users (ac_id a) h e (rc_state c) = (r, w) \<Longrightarrow>
    rc_clock c \<le> env_now e \<Longrightarrow>
    race_step lib jl secret i c (c\<lparr>rc_state := w, rc_clock := env_now e,
      rc_released := (if r = Inr () then insert t (rc_released c) else rc_released c),
      rc_logins := rc_logins c - {Issued a h g t}\<rparr>)"
| refresh: "hash_refresh_token lib (trim_space raw) \<in> rc_released c \<Longrightarrow>
    authenticate_refresh (server_authenticate lib jl secret) raw e (rc_state c) = (Inr tokens, w) \<Longrightarrow>
    rc_clock c \<le> env_now e \<Longrightarrow> t = hash_refresh_token lib (refresh_token tokens) \<Longrightarrow>
    race_step lib jl secret i c (c\<lparr>rc_state := w, rc_clock := env_now e,
      rc_born := (rc_born c)(t := rc_born c (hash_refresh_token lib (trim_space raw))),
      rc_released := insert t (rc_released c)\<rparr>)"
| reset_begin: "reset_consume (server_otp lib jl secret) email code password role e (rc_state c) = (Inr a, v) \<Longrightarrow>
    ac_id a = i \<Longrightarrow> reset_revoke postgres_sessions a e v = (Inr (), w) \<Longrightarrow> rc_clock c \<le> env_now e \<Longrightarrow>
    race_step lib jl secret i c (c\<lparr>rc_state := w, rc_clock := env_now e,
      rc_resets := insert (Revoked a) (rc_resets c)\<rparr>)"
| reset_write: "Revoked a \<in> rc_resets c \<Longrightarrow>
    reset_update (server_otp lib jl secret) postgres_users a password e (rc_state c) = (Inr (), w) \<Longrightarrow>
    hash_password lib e password = Inr h \<Longrightarrow> h \<notin> rc_hashes c \<Longrightarrow> rc_clock c \<le> env_now e \<Longrightarrow>
    race_step lib jl secret i c (c\<lparr>rc_state := w, rc_clock := env_now e, rc_generation := Suc (rc_generation c),
      rc_hashes := insert h (rc_hashes c), rc_resets := insert (Updated a) (rc_resets c - {Revoked a})\<rparr>)"
| reset_end: "Updated a \<in> rc_resets c \<Longrightarrow>
    reset_revoke postgres_sessions a e (rc_state c) = (Inr (), w) \<Longrightarrow> rc_clock c \<le> env_now e \<Longrightarrow>
    race_step lib jl secret i c (c\<lparr>rc_state := w, rc_clock := env_now e, rc_resets := rc_resets c - {Updated a}\<rparr>)"
| other: "sessions_evolve (rc_state c) w \<Longrightarrow> no_new_session i (rc_state c) w \<Longrightarrow>
    user_hash i w = user_hash i (rc_state c) \<Longrightarrow> distinct (map u_id (a_users w)) \<Longrightarrow>
    rc_clock c \<le> now \<Longrightarrow> race_step lib jl secret i c (c\<lparr>rc_state := w, rc_clock := now\<rparr>)"

section \<open>The invariant\<close>

definition login_ok :: "int \<Rightarrow> race \<Rightarrow> login \<Rightarrow> bool" where
  "login_ok i c l =
     (case l of
        Verified a h g \<Rightarrow> ac_id a = i \<and> h \<in> rc_hashes c \<and> (user_hash i (rc_state c) = Some h \<longrightarrow> g = rc_generation c)
      | Issued a h g t \<Rightarrow> ac_id a = i \<and> h \<in> rc_hashes c \<and> (user_hash i (rc_state c) = Some h \<longrightarrow> g = rc_generation c) \<and>
          rc_born c t = Some g \<and> (\<exists>s \<in> set (a_refresh_sessions (rc_state c)). rs_token_hash s = t))"

text \<open>
  Unless a reset has set the password and not yet revoked the sessions again, every session that
  is still usable and whose token a client holds was opened under the current password.
\<close>

definition race_safe :: "int \<Rightarrow> race \<Rightarrow> bool" where
  "race_safe i c \<longleftrightarrow>
     ((\<exists>a. Updated a \<in> rc_resets c) \<or>
      (\<forall>s \<in> set (sessions_of i (rc_state c)). session_unrevoked (rc_clock c) s \<longrightarrow>
         rs_token_hash s \<in> rc_released c \<longrightarrow> rc_born c (rs_token_hash s) = Some (rc_generation c)))"

definition race_inv :: "int \<Rightarrow> race \<Rightarrow> bool" where
  "race_inv i c \<longleftrightarrow>
     sessions_ok (rc_state c) \<and> distinct (map u_id (a_users (rc_state c))) \<and>
     (\<forall>h. user_hash i (rc_state c) = Some h \<longrightarrow> h \<in> rc_hashes c) \<and>
     (\<forall>t \<in> rc_released c. \<exists>s \<in> set (a_refresh_sessions (rc_state c)). rs_token_hash s = t) \<and>
     (\<forall>l \<in> rc_logins c. login_ok i c l) \<and>
     (\<forall>a. Revoked a \<in> rc_resets c \<or> Updated a \<in> rc_resets c \<longrightarrow> ac_id a = i) \<and>
     race_safe i c"

text \<open>Before any login: the sessions there are were opened under the current password.\<close>

definition race_start :: "int \<Rightarrow> auth_state \<Rightarrow> int \<Rightarrow> race" where
  "race_start i w now =
     \<lparr>rc_state = w, rc_clock = now, rc_generation = 0, rc_hashes = set (map u_password_hash (a_users w)),
      rc_born = (\<lambda>_. Some 0), rc_released = set (map rs_token_hash (a_refresh_sessions w)),
      rc_logins = {}, rc_resets = {}\<rparr>"

lemma unrevoked_earlier: "session_unrevoked t s \<Longrightarrow> t' \<le> t \<Longrightarrow> session_unrevoked t' s"
  by (auto simp: session_unrevoked_def split: option.splits)

lemma user_hashI:
  assumes "distinct (map u_id (a_users w))" and "u \<in> set (a_users w)"
  shows "user_hash (u_id u) w = Some (u_password_hash u)"
  using find_key_unique [OF assms] by (simp add: user_hash_def)

lemma user_hashE:
  assumes "user_hash i w = Some h"
  obtains u where "u \<in> set (a_users w)" and "u_id u = i" and "u_password_hash u = h"
  using assms find_SomeD unfolding user_hash_def by fastforce

lemma race_inv_start:
  assumes "sessions_ok w" and "distinct (map u_id (a_users w))"
  shows "race_inv i (race_start i w now)"
  using assms unfolding race_inv_def race_start_def race_safe_def
  by (auto elim: user_hashE)

section \<open>Every step keeps the invariant\<close>

lemma race_invI:
  assumes "sessions_ok (rc_state c)" and "distinct (map u_id (a_users (rc_state c)))"
    and "\<And>h. user_hash i (rc_state c) = Some h \<Longrightarrow> h \<in> rc_hashes c"
    and "\<And>t. t \<in> rc_released c \<Longrightarrow> \<exists>s \<in> set (a_refresh_sessions (rc_state c)). rs_token_hash s = t"
    and "\<And>l. l \<in> rc_logins c \<Longrightarrow> login_ok i c l"
    and "\<And>a. Revoked a \<in> rc_resets c \<or> Updated a \<in> rc_resets c \<Longrightarrow> ac_id a = i"
    and "race_safe i c"
  shows "race_inv i c"
  using assms unfolding race_inv_def by blast

lemma race_invD:
  assumes "race_inv i c"
  shows "sessions_ok (rc_state c)" and "distinct (map u_id (a_users (rc_state c)))"
    and "user_hash i (rc_state c) = Some h \<Longrightarrow> h \<in> rc_hashes c"
    and "t \<in> rc_released c \<Longrightarrow> \<exists>s \<in> set (a_refresh_sessions (rc_state c)). rs_token_hash s = t"
    and "l \<in> rc_logins c \<Longrightarrow> login_ok i c l"
    and "Revoked a \<in> rc_resets c \<or> Updated a \<in> rc_resets c \<Longrightarrow> ac_id a = i"
    and "race_safe i c"
  using assms unfolding race_inv_def by blast+

lemma no_new_session_same: "a_refresh_sessions w = a_refresh_sessions v \<Longrightarrow> no_new_session i v w"
  using session_later_refl by (auto simp: no_new_session_def sessions_of_def)

lemma user_hash_same: "a_users w = a_users v \<Longrightarrow> user_hash i w = user_hash i v"
  by (simp add: user_hash_def)

text \<open>A step that opens no session and leaves the password keeps the invariant.\<close>

lemma race_inv_quiet:
  assumes "race_inv i c" and "sessions_evolve (rc_state c) w" and "no_new_session i (rc_state c) w"
    and "user_hash i w = user_hash i (rc_state c)" and "distinct (map u_id (a_users w))" and "rc_clock c \<le> t"
  shows "race_inv i (c\<lparr>rc_state := w, rc_clock := t\<rparr>)"
proof -
  have ok: "sessions_ok (rc_state c)" and safe: "race_safe i c"
    and logins: "\<And>l. l \<in> rc_logins c \<Longrightarrow> login_ok i c l"
    using assms(1) by (auto simp: race_inv_def)
  have kept: "\<exists>s \<in> set (a_refresh_sessions w). rs_token_hash s = k"
    if "\<exists>s \<in> set (a_refresh_sessions (rc_state c)). rs_token_hash s = k" for k
    using that assms(2) ok unfolding sessions_evolve_def session_later_def by metis
  have "race_safe i (c\<lparr>rc_state := w, rc_clock := t\<rparr>)"
  proof (cases "\<exists>a. Updated a \<in> rc_resets c")
    case False
    show ?thesis unfolding race_safe_def
    proof (intro disjI2 ballI impI)
      fix s' assume s': "s' \<in> set (sessions_of i (rc_state (c\<lparr>rc_state := w, rc_clock := t\<rparr>)))"
        "session_unrevoked (rc_clock (c\<lparr>rc_state := w, rc_clock := t\<rparr>)) s'"
        "rs_token_hash s' \<in> rc_released (c\<lparr>rc_state := w, rc_clock := t\<rparr>)"
      then obtain s where s: "s \<in> set (sessions_of i (rc_state c))" "session_later s s'"
        using assms(3) unfolding no_new_session_def by auto
      have "session_unrevoked (rc_clock c) s"
        using s'(2) unrevoked_later [OF _ s(2), of t] unrevoked_earlier [of t s "rc_clock c"] assms(6) by auto
      with s s'(3) safe False show "rc_born (c\<lparr>rc_state := w, rc_clock := t\<rparr>) (rs_token_hash s') =
          Some (rc_generation (c\<lparr>rc_state := w, rc_clock := t\<rparr>))"
        by (auto simp: race_safe_def session_later_def)
    qed
  qed (simp add: race_safe_def)
  moreover have "login_ok i (c\<lparr>rc_state := w, rc_clock := t\<rparr>) l" if "l \<in> rc_logins c" for l
  proof (cases l)
    case (Verified a h g)
    with logins [OF that] assms(4) show ?thesis by (simp add: login_ok_def)
  next
    case (Issued a h g k)
    with logins [OF that] assms(4) kept [of k] show ?thesis by (simp add: login_ok_def)
  qed
  moreover have "sessions_ok w" using assms(2) ok by (simp add: sessions_evolve_def)
  moreover have "user_hash i w = Some h \<Longrightarrow> h \<in> rc_hashes c" for h
    using race_invD(3) [OF assms(1)] assms(4) by simp
  moreover have "t \<in> rc_released c \<Longrightarrow> \<exists>s \<in> set (a_refresh_sessions w). rs_token_hash s = t" for t
    using race_invD(4) [OF assms(1)] kept by blast
  ultimately show ?thesis
    using race_invD(6) [OF assms(1)] assms(5) by (intro race_invI) simp_all
qed

text \<open>Every login that is under way may end, and new hashes may be counted as used.\<close>

lemma race_inv_logins:
  assumes "race_inv i c" and "L \<subseteq> rc_logins c"
  shows "race_inv i (c\<lparr>rc_logins := L\<rparr>)"
  using assms by (auto simp: race_inv_def login_ok_def race_safe_def split: login.splits)

lemma race_inv_begin:
  assumes "race_inv i c" and "ac_id a = i"
  shows "race_inv i (c\<lparr>rc_resets := insert (Revoked a) (rc_resets c)\<rparr>)"
  using assms by (auto simp: race_inv_def login_ok_def race_safe_def split: login.splits)

text \<open>A token that a client receives was opened under the password in force.\<close>

lemma race_inv_release:
  assumes "race_inv i c" and "\<exists>s \<in> set (a_refresh_sessions (rc_state c)). rs_token_hash s = t"
    and "rc_born c t = Some (rc_generation c)"
  shows "race_inv i (c\<lparr>rc_released := insert t (rc_released c)\<rparr>)"
  using assms by (auto simp: race_inv_def login_ok_def race_safe_def split: login.splits)

text \<open>
  What changes the password hash of the account: the logins and the sessions stay as they are.
\<close>

lemma user_hash_changed:
  assumes "distinct (map u_id us)" and "u \<in> set us" and "u_id u = i" and "p u"
  shows "user_hash i (w\<lparr>a_users := upd_where (\<lambda>q. u_id q = i \<and> p q)
      (\<lambda>q. q\<lparr>u_password_hash := h, u_updated_at := Some now\<rparr>) us\<rparr>) = Some h"
    and "distinct (map u_id (upd_where (\<lambda>q. u_id q = i \<and> p q)
      (\<lambda>q. q\<lparr>u_password_hash := h, u_updated_at := Some now\<rparr>) us))"
proof -
  let ?us = "upd_where (\<lambda>q. u_id q = i \<and> p q) (\<lambda>q. q\<lparr>u_password_hash := h, u_updated_at := Some now\<rparr>) us"
  have m: "map u_id ?us = map u_id us" by (rule map_upd_where_key) simp
  then show d: "distinct (map u_id ?us)" using assms(1) by simp
  have "u\<lparr>u_password_hash := h, u_updated_at := Some now\<rparr> \<in> set ?us"
    using assms(2-4) by (force simp: upd_where_def)
  from user_hashI [of "w\<lparr>a_users := ?us\<rparr>" "u\<lparr>u_password_hash := h, u_updated_at := Some now\<rparr>"] d this
  show "user_hash i (w\<lparr>a_users := ?us\<rparr>) = Some h" using assms(3) by simp
qed

lemma race_inv_verify:
  assumes "race_inv i c"
    and "authenticate_verify (server_authenticate lib jl secret) postgres_users email password role e (rc_state c)
      = (Inr (a, h), w)"
    and "ac_id a = i" and "rc_clock c \<le> env_now e" and "h = ac_password_hash a \<or> h \<notin> rc_hashes c"
  shows "race_inv i (c\<lparr>rc_state := w, rc_clock := env_now e, rc_hashes := insert h (rc_hashes c),
      rc_logins := insert (Verified a h (rc_generation c)) (rc_logins c)\<rparr>)" (is "race_inv i ?c")
proof -
  from assms(2) obtain u us where u: "u \<in> set (a_users (rc_state c))" "shows_user a u"
    and w: "w = (rc_state c)\<lparr>a_users := us\<rparr>"
    and us: "us = a_users (rc_state c) \<and> h = u_password_hash u \<or>
      us = password_changed (u_id u) (u_password_hash u) h (env_db_now e) (a_users (rc_state c))"
    by (rule authenticate_verifyE) blast
  note D = race_invD [OF assms(1)]
  have i: "u_id u = i" "ac_password_hash a = u_password_hash u" using u(2) assms(3) by (auto simp: shows_user_def)
  have old: "user_hash i (rc_state c) = Some (u_password_hash u)" using user_hashI [OF D(2) u(1)] i by simp
  have new: "user_hash i w = Some h \<and> distinct (map u_id (a_users w))"
    using us
  proof
    assume "us = a_users (rc_state c) \<and> h = u_password_hash u"
    with old D(2) show ?thesis by (simp add: w user_hash_def)
  next
    assume "us = password_changed (u_id u) (u_password_hash u) h (env_db_now e) (a_users (rc_state c))"
    with user_hash_changed [OF D(2) u(1) i(1), of "\<lambda>q. u_password_hash q = u_password_hash u"]
    show ?thesis by (simp add: w password_changed_def i(1))
  qed
  have sessions: "a_refresh_sessions w = a_refresh_sessions (rc_state c)" by (simp add: w)
  have "login_ok i ?c l" if "l \<in> rc_logins c" for l
    using D(5) [OF that] new old assms(5) i(2) sessions by (cases l) (auto simp: login_ok_def)
  moreover have "race_safe i ?c"
    using D(7) unrevoked_earlier assms(4) unfolding race_safe_def sessions_of_def by (fastforce simp: sessions)
  moreover have "sessions_ok w" using D(1) by (simp add: sessions_ok_def sessions)
  ultimately show ?thesis
    using D(4,6) new assms(3) sessions by (intro race_invI) (auto simp: login_ok_def)
qed

lemma race_inv_issue:
  assumes "race_inv i c" and "Verified a h g \<in> rc_logins c"
    and "authenticate_issue (server_authenticate lib jl secret) a e (rc_state c) = (Inr tokens, w)"
    and "rc_clock c \<le> env_now e" and "t = hash_refresh_token lib (refresh_token tokens)"
  shows "race_inv i (c\<lparr>rc_state := w, rc_clock := env_now e, rc_born := (rc_born c)(t \<mapsto> g),
      rc_logins := insert (Issued a h g t) (rc_logins c - {Verified a h g})\<rparr>)" (is "race_inv i ?c")
proof -
  note D = race_invD [OF assms(1)]
  from assms(3) obtain s where "w = (rc_state c)\<lparr>a_refresh_sessions := a_refresh_sessions (rc_state c) @ [s]\<rparr>"
    and s: "rs_token_hash s = t"
    unfolding authenticate_issue_def wired assms(5) by (rule issue_session_tokensE) blast
  then have w: "a_refresh_sessions w = a_refresh_sessions (rc_state c) @ [s]" "a_users w = a_users (rc_state c)"
    by simp_all
  have "keeps sessions_evolve (authenticate_issue (server_authenticate lib jl secret) a)"
    unfolding authenticate_issue_def issue_session_tokens_def wired by (intro sessions.rules auth_keeps)
  from keepsD [OF this assms(3)] D(1) have ok: "sessions_ok w" by (simp add: sessions_evolve_def)
  then have "rs_token_hash s \<notin> rs_token_hash ` set (a_refresh_sessions (rc_state c))"
    by (simp add: w sessions_ok_def)
  then have new: "rs_token_hash q \<noteq> t" if "q \<in> set (a_refresh_sessions (rc_state c))" for q
    using that s by (metis image_eqI)
  with D(4) have unreleased: "t \<notin> rc_released c" by blast
  have hash: "user_hash i w = user_hash i (rc_state c)" by (rule user_hash_same) (rule w)
  have "login_ok i ?c l" if "l \<in> rc_logins ?c" for l
  proof (cases "l = Issued a h g t")
    case True
    with D(5) [OF assms(2)] s unreleased show ?thesis by (simp add: login_ok_def hash w)
  next
    case False
    with that have "l \<in> rc_logins c" by simp
    from D(5) [OF this] new show ?thesis by (cases l) (auto simp: login_ok_def hash w)
  qed
  moreover have "race_safe i ?c"
  proof (cases "\<exists>a. Updated a \<in> rc_resets c")
    case False
    have "rc_born ?c (rs_token_hash q) = Some (rc_generation c)"
      if "q \<in> set (sessions_of i w)" "session_unrevoked (env_now e) q" "rs_token_hash q \<in> rc_released c" for q
    proof -
      have "q \<in> set (sessions_of i (rc_state c))"
        using that(1,3) s unreleased by (auto simp: sessions_of_def w split: if_splits)
      moreover have "rs_token_hash q \<noteq> t" using that(3) unreleased by blast
      ultimately show ?thesis
        using D(7) False that(2,3) unrevoked_earlier [OF that(2) assms(4)] by (simp add: race_safe_def)
    qed
    then show ?thesis by (simp add: race_safe_def)
  qed (simp add: race_safe_def)
  moreover have "k \<in> rc_released c \<Longrightarrow> \<exists>q \<in> set (a_refresh_sessions w). rs_token_hash q = k" for k
    using D(4) [of k] by (auto simp: w)
  ultimately show ?thesis
    using D(2,3,6) ok hash by (intro race_invI) (simp_all add: w)
qed

lemma race_inv_refresh:
  assumes "race_inv i c" and "k \<in> rc_released c" and "k = hash_refresh_token lib (trim_space raw)"
    and "authenticate_refresh (server_authenticate lib jl secret) raw e (rc_state c) = (Inr tokens, w)"
    and "rc_clock c \<le> env_now e" and "t = hash_refresh_token lib (refresh_token tokens)"
  shows "race_inv i (c\<lparr>rc_state := w, rc_clock := env_now e, rc_born := (rc_born c)(t := rc_born c k),
      rc_released := insert t (rc_released c)\<rparr>)" (is "race_inv i ?c")
proof -
  note D = race_invD [OF assms(1)]
  let ?old = "a_refresh_sessions (rc_state c)"
  from assms(4) obtain r where rot: "session_repo_rotate True k r (env_now e) e (rc_state c) = (Inr (), w)"
    and r: "fs_token_hash r = t"
    unfolding assms(3,6) by (rule refreshE) blast
  from rot obtain s n where s: "s \<in> set ?old" "rs_token_hash s = k" "session_active (env_now e) s"
    "rs_user_id s = fs_user_id r"
    and w: "a_refresh_sessions w = upd_where (\<lambda>q. rs_id q = rs_id s \<and> session_unrevoked (env_now e) q) (rotated (env_now e)) ?old @ [n]"
    "a_users w = a_users (rc_state c)"
    and n: "rs_user_id n = fs_user_id r" "rs_token_hash n = fs_token_hash r" by (rule rotateE) blast
  have ev: "sessions_evolve (rc_state c) w" using keepsD [OF login_keeps(2) assms(4)] .
  with D(1) have ok: "sessions_ok w" by (simp add: sessions_evolve_def)
  let ?mid = "upd_where (\<lambda>q. rs_id q = rs_id s \<and> session_unrevoked (env_now e) q) (rotated (env_now e)) ?old"
  have mid: "\<exists>q \<in> set ?old. rs_user_id q' = rs_user_id q \<and> rs_token_hash q' = rs_token_hash q \<and>
      (session_unrevoked (env_now e) q' \<longrightarrow> session_unrevoked (env_now e) q)" if "q' \<in> set ?mid" for q'
    using that by (auto simp: rotated_def elim!: in_upd_whereE split: if_splits)
  have hashes: "map rs_token_hash ?mid = map rs_token_hash ?old" by (rule map_upd_where_key) (simp add: rotated_def)
  have new: "t \<notin> set (map rs_token_hash ?old)"
    using ok n r by (simp add: sessions_ok_def w hashes [symmetric])
  have kept: "j \<in> set (map rs_token_hash ?old) \<Longrightarrow> \<exists>q \<in> set (a_refresh_sessions w). rs_token_hash q = j" for j
    using hashes [symmetric] by (auto simp: w image_iff)
  have unreleased: "t \<notin> rc_released c" using new D(4) by auto
  have hash: "user_hash i w = user_hash i (rc_state c)" by (rule user_hash_same) (rule w)
  have "login_ok i ?c l" if "l \<in> rc_logins c" for l
  proof (cases l)
    case (Verified a h g)
    with D(5) [OF that] show ?thesis by (simp add: login_ok_def hash)
  next
    case (Issued a h g j)
    with D(5) [OF that] have l: "ac_id a = i" "h \<in> rc_hashes c" "user_hash i (rc_state c) = Some h \<longrightarrow> g = rc_generation c"
      "rc_born c j = Some g" "j \<in> set (map rs_token_hash ?old)"
      by (auto simp: login_ok_def)
    with new have "j \<noteq> t" by blast
    with l kept [OF l(5)] Issued show ?thesis by (simp add: login_ok_def hash)
  qed
  moreover have "race_safe i ?c"
  proof (cases "\<exists>a. Updated a \<in> rc_resets c")
    case False
    have born: "rc_born c (rs_token_hash q) = Some (rc_generation c)"
      if "q \<in> set ?old" "rs_user_id q = i" "session_unrevoked (env_now e) q" "rs_token_hash q \<in> rc_released c" for q
      using that D(7) False unrevoked_earlier [OF that(3) assms(5)] by (simp add: race_safe_def sessions_of_def)
    have "rc_born ?c (rs_token_hash q) = Some (rc_generation c)"
      if q: "q \<in> set (a_refresh_sessions w)" "rs_user_id q = i" "session_unrevoked (env_now e) q"
        "rs_token_hash q = t \<or> rs_token_hash q \<in> rc_released c" for q
    proof (cases "q = n")
      case True
      with q(2) born [OF s(1)] s assms(2) n r show ?thesis by (simp add: session_active_def)
    next
      case False
      with q(1) mid [of q] obtain q0 where q0: "q0 \<in> set ?old" "rs_user_id q0 = i" "rs_token_hash q0 = rs_token_hash q"
        "session_unrevoked (env_now e) q0" using q(2,3) by (auto simp: w)
      then have "rs_token_hash q \<noteq> t" using new by (metis image_eqI list.set_map)
      with q(4) born [OF q0(1,2,4)] q0(3) show ?thesis by simp
    qed
    then show ?thesis by (simp add: race_safe_def sessions_of_def)
  qed (simp add: race_safe_def)
  moreover have "\<exists>q \<in> set (a_refresh_sessions w). rs_token_hash q = j" if "j \<in> rc_released ?c" for j
  proof (cases "j = t")
    case True
    with n r show ?thesis by (auto simp: w)
  next
    case False
    with that D(4) [of j] have "j \<in> set (map rs_token_hash ?old)" by auto
    then show ?thesis by (rule kept)
  qed
  ultimately show ?thesis
    using D(2,3,6) ok hash by (intro race_invI) (simp_all add: w)
qed

lemma revoke_all_quiet:
  assumes "session_repo_revoke_all True i now e w = (r, v)"
  shows "sessions_evolve w v \<and> no_new_session j w v \<and> a_users v = a_users w"
proof -
  have ev: "sessions_evolve w v" using keepsD [OF session_repo_keeps(5) assms] .
  let ?t = "upd_where (\<lambda>s. rs_user_id s = i \<and> session_unrevoked now s) (revoked now) (a_refresh_sessions w)"
  from assms have "v = w \<or> v = w\<lparr>a_refresh_sessions := ?t\<rparr>"
    by (auto simp: session_repo_revoke_all_def session_repository_validate_def to_postgres_user_id_def
        revoke_user_refresh_sessions_def update_refresh_sessions_def io_bind_def io_map_err_def io_lift_def
        io_return_def dest: update_rows_cases split: if_splits prod.splits sum.splits)
  moreover have "no_new_session j w (w\<lparr>a_refresh_sessions := ?t\<rparr>)"
    unfolding no_new_session_def sessions_of_def
    by (fastforce simp: revoked_def session_later_def elim!: in_upd_whereE)
  ultimately show ?thesis using ev no_new_session_same [of v w j] by auto
qed

lemma race_inv_recheck:
  assumes "race_inv i c" and "Issued a h g t \<in> rc_logins c"
    and "ensure_credentials_unchanged (server_authenticate lib jl secret) postgres_users (ac_id a) h e (rc_state c) = (r, w)"
    and "rc_clock c \<le> env_now e"
  shows "race_inv i (c\<lparr>rc_state := w, rc_clock := env_now e,
      rc_released := (if r = Inr () then insert t (rc_released c) else rc_released c),
      rc_logins := rc_logins c - {Issued a h g t}\<rparr>)"
proof -
  note D = race_invD [OF assms(1)]
  note l = D(5) [OF assms(2), unfolded login_ok_def, simplified]
  have q: "sessions_evolve (rc_state c) w \<and> no_new_session i (rc_state c) w \<and> a_users w = a_users (rc_state c)"
  proof -
    obtain s v where f: "user_repo_find_by_id True (ac_id a) e (rc_state c) = (s, v)" by fastforce
    from keepsD [OF account_reads(2) f] have v: "v = rc_state c" by simp
    have "w = rc_state c \<or> (\<exists>x y. session_repo_revoke_all True (ac_id a) x e (rc_state c) = (y, w))"
      using assms(3) by (auto simp: ensure_credentials_unchanged_def wired io_try_def io_bind_def io_env_def
          io_return_def io_throw_def f v split: if_splits sum.splits prod.splits)
    then show ?thesis
      using revoke_all_quiet sessions.refl no_new_session_same [of "rc_state c" "rc_state c"] by auto
  qed
  let ?q = "c\<lparr>rc_state := w, rc_clock := env_now e\<rparr>"
  have quiet: "race_inv i ?q"
    using q D(2) user_hash_same [of w "rc_state c"] assms(4) by (intro race_inv_quiet [OF assms(1)]) auto
  show ?thesis
  proof (cases "r = Inr ()")
    case True
    with assms(3) obtain u where u: "u \<in> set (a_users (rc_state c))" "u_id u = ac_id a" "u_password_hash u = h"
      by (auto elim: ensure_unchangedE)
    from user_hashI [OF D(2) u(1)] u l have "user_hash i (rc_state c) = Some h" by simp
    with l have "rc_born c t = Some (rc_generation c)" "\<exists>s \<in> set (a_refresh_sessions (rc_state c)). rs_token_hash s = t"
      by simp_all
    moreover from this(2) q D(1) have "\<exists>s \<in> set (a_refresh_sessions w). rs_token_hash s = t"
      unfolding sessions_evolve_def session_later_def by metis
    ultimately have "race_inv i (?q\<lparr>rc_released := insert t (rc_released ?q)\<rparr>)"
      by (intro race_inv_release [OF quiet]) simp_all
    from race_inv_logins [OF this, of "rc_logins c - {Issued a h g t}"] True show ?thesis by simp
  next
    case False
    from race_inv_logins [OF quiet, of "rc_logins c - {Issued a h g t}"] False show ?thesis by simp
  qed
qed

lemma reset_consume_state:
  assumes "reset_consume (server_otp lib jl secret) email code password role e w = (Inr a, v)"
  shows "v = w\<lparr>a_redis := (a_redis w)(otp_key lib ''reset'' (ac_email a) := None,
    otp_attempt_key lib ''reset'' (ac_email a) := None)\<rparr>"
proof -
  from assms obtain w0 where acc: "account_for_role (server_otp lib jl secret) email role e w = (Inr a, w0)"
    and otp: "otp_store_consume lib True ''reset'' (ac_email a) (trim_space code) e w0 = (Inr (), v)"
    by (auto simp: reset_consume_def wired io_simps split: if_splits)
  from acc have "w0 = w" by (rule account_for_roleE)
  with otp show ?thesis by (auto elim!: otp_consumeE)
qed

lemma reset_revoke_all:
  "reset_revoke postgres_sessions a e w = (Inr (), v) \<Longrightarrow>
     session_repo_revoke_all True (ac_id a) (env_now e) e w = (Inr (), v)"
  by (auto simp: reset_revoke_def wired io_simps)

lemma reset_update_password:
  "reset_update (server_otp lib jl secret) postgres_users a password e w = (Inr (), v) \<Longrightarrow>
     hash_password lib e password = Inr h \<Longrightarrow> user_repo_update_password True (ac_id a) h e w = (Inr (), v)"
  by (auto simp: reset_update_def wired io_simps)

lemma race_inv_reset_begin:
  assumes "race_inv i c"
    and "reset_consume (server_otp lib jl secret) email code password role e (rc_state c) = (Inr a, v)"
    and "ac_id a = i" and "reset_revoke postgres_sessions a e v = (Inr (), w)" and "rc_clock c \<le> env_now e"
  shows "race_inv i (c\<lparr>rc_state := w, rc_clock := env_now e, rc_resets := insert (Revoked a) (rc_resets c)\<rparr>)"
proof -
  note D = race_invD [OF assms(1)]
  from reset_consume_state [OF assms(2)] obtain m where v: "v = (rc_state c)\<lparr>a_redis := m\<rparr>" by blast
  note rev = reset_revoke_all [OF assms(4)]
  from v have "sessions_evolve (rc_state c) v" "a_users v = a_users (rc_state c)"
    by (simp_all add: sessions_evolve_same)
  moreover from v have "no_new_session i (rc_state c) w"
    using revoke_all_quiet [OF rev, of i] by (simp add: no_new_session_def sessions_of_def)
  ultimately have "race_inv i (c\<lparr>rc_state := w, rc_clock := env_now e\<rparr>)"
    using revoke_all_quiet [OF rev] sessions.trans D(2) user_hash_same [of w "rc_state c"] assms(5)
    by (intro race_inv_quiet [OF assms(1)]) auto
  from race_inv_begin [OF this assms(3)] show ?thesis by simp
qed

lemma race_inv_reset_write:
  assumes "race_inv i c" and "Revoked a \<in> rc_resets c"
    and "reset_update (server_otp lib jl secret) postgres_users a password e (rc_state c) = (Inr (), w)"
    and "hash_password lib e password = Inr h" and "h \<notin> rc_hashes c" and "rc_clock c \<le> env_now e"
  shows "race_inv i (c\<lparr>rc_state := w, rc_clock := env_now e, rc_generation := Suc (rc_generation c),
      rc_hashes := insert h (rc_hashes c), rc_resets := insert (Updated a) (rc_resets c - {Revoked a})\<rparr>)" (is "race_inv i ?c")
proof -
  note D = race_invD [OF assms(1)]
  have a: "ac_id a = i" using D(6) assms(2) by blast
  note w = update_passwordE [OF reset_update_password [OF assms(3,4)], unfolded a]
  then have us: "a_users w = upd_where (\<lambda>q. u_id q = i \<and> True)
      (\<lambda>q. q\<lparr>u_password_hash := h, u_updated_at := Some (env_db_now e)\<rparr>) (a_users (rc_state c))"
    and sessions: "a_refresh_sessions w = a_refresh_sessions (rc_state c)" by simp_all
  have ids: "map u_id (a_users w) = map u_id (a_users (rc_state c))"
    unfolding us by (rule map_upd_where_key) simp
  have hash: "user_hash i w = None \<or> user_hash i w = Some h"
  proof (cases "user_hash i w")
    case (Some h')
    then obtain u' where u': "u' \<in> set (a_users w)" "u_id u' = i" "u_password_hash u' = h'" by (rule user_hashE)
    from u'(1) obtain q where "u' = (if u_id q = i \<and> True
        then q\<lparr>u_password_hash := h, u_updated_at := Some (env_db_now e)\<rparr> else q)"
      unfolding us by (rule in_upd_whereE)
    with u'(2,3) have "h' = h" by (simp split: if_splits)
    with Some show ?thesis by simp
  qed simp
  have "login_ok i ?c l" if "l \<in> rc_logins c" for l
    using D(5) [OF that] hash assms(5) by (cases l) (auto simp: login_ok_def sessions)
  moreover have "race_safe i ?c" by (auto simp: race_safe_def)
  moreover have "sessions_ok w" using D(1) by (simp add: sessions_ok_def sessions)
  ultimately show ?thesis
  proof (intro race_invI)
    show "h' \<in> rc_hashes ?c" if "user_hash i (rc_state ?c) = Some h'" for h'
      using that hash by auto
    show "\<exists>s \<in> set (a_refresh_sessions (rc_state ?c)). rs_token_hash s = k" if "k \<in> rc_released ?c" for k
      using that D(4) [of k] by (simp add: sessions)
    show "ac_id b = i" if "Revoked b \<in> rc_resets ?c \<or> Updated b \<in> rc_resets ?c" for b
      using that D(6) [of b] a by auto
  qed (use D(2) ids in simp_all)
qed

lemma race_inv_reset_end:
  assumes "race_inv i c" and "Updated a \<in> rc_resets c"
    and "reset_revoke postgres_sessions a e (rc_state c) = (Inr (), w)" and "rc_clock c \<le> env_now e"
  shows "race_inv i (c\<lparr>rc_state := w, rc_clock := env_now e, rc_resets := rc_resets c - {Updated a}\<rparr>)" (is "race_inv i ?c")
proof -
  note D = race_invD [OF assms(1)]
  have a: "ac_id a = i" using D(6) assms(2) by blast
  note rev = reset_revoke_all [OF assms(3), unfolded a]
  have "race_inv i (c\<lparr>rc_state := w, rc_clock := env_now e\<rparr>)"
    using revoke_all_quiet [OF rev] D(2) user_hash_same [of w "rc_state c"] assms(4)
    by (intro race_inv_quiet [OF assms(1)]) auto
  note D' = race_invD [OF this]
  have "login_ok i ?c l" if "l \<in> rc_logins c" for l
    using D'(5) [of l] that by (cases l) (simp_all add: login_ok_def)
  moreover have "race_safe i ?c"
    using revoke_all_dead [OF rev, of _ "env_now e"] by (auto simp: race_safe_def sessions_of_def)
  ultimately show ?thesis
    using D'(1-4,6) by (intro race_invI) auto
qed

lemma race_inv_step:
  assumes "race_step lib jl secret i c c'" and "race_inv i c"
  shows "race_inv i c'"
  using assms(1)
proof cases
  case (verify email password role e a h w)
  then show ?thesis using race_inv_verify [OF assms(2) verify(2)] by blast
next
  case (issue a h g e tokens w t)
  then show ?thesis using race_inv_issue [OF assms(2) issue(2,3)] by blast
next
  case (recheck a h g t e r w)
  then show ?thesis using race_inv_recheck [OF assms(2) recheck(2,3)] by blast
next
  case (refresh raw e tokens w t)
  then show ?thesis using race_inv_refresh [OF assms(2) refresh(2) refl refresh(3)] by blast
next
  case (reset_begin email code password role e a v w)
  then show ?thesis using race_inv_reset_begin [OF assms(2) reset_begin(2,3,4)] by blast
next
  case (reset_write a password e w h)
  then show ?thesis using race_inv_reset_write [OF assms(2) reset_write(2,3)] by blast
next
  case (reset_end a e w)
  then show ?thesis using race_inv_reset_end [OF assms(2) reset_end(2,3)] by blast
next
  case (other w now)
  then show ?thesis using race_inv_quiet [OF assms(2) other(2,3)] by blast
qed

lemma race_inv_reachable:
  assumes "(race_step lib jl secret i)\<^sup>*\<^sup>* (race_start i w now) c"
    and "sessions_ok w" and "distinct (map u_id (a_users w))"
  shows "race_inv i c"
  using assms(1) by (induction rule: rtranclp_induct) (auto intro: race_inv_start [OF assms(2,3)] race_inv_step)

section \<open>No session outlives its password\<close>

text \<open>
  The sessions of the account that a client can still use although they were opened under a
  password that a reset has replaced.
\<close>

definition stale_sessions :: "int \<Rightarrow> race \<Rightarrow> refresh_session_row list" where
  "stale_sessions i c =
     filter (\<lambda>s. session_unrevoked (rc_clock c) s \<and> rs_token_hash s \<in> rc_released c \<and>
       rc_born c (rs_token_hash s) \<noteq> Some (rc_generation c)) (sessions_of i (rc_state c))"


end
