(* ===== verification/Sample_Auth.thy ===== *)
theory Sample_Auth
  imports Auth_Properties
begin

text \<open>
  A passenger who logs in and refreshes once, evaluated step by step: the states on which the
  properties of the auth module are instantiated.
\<close>

definition plain_jwt :: jwt_lib where
  "plain_jwt =
     \<lparr>jl_hmac = (\<lambda>_ _. ''s''), jl_header_parse = (\<lambda>_. Some (''HS256'', ''JWT'')),
      jl_claims_json = (\<lambda>c. cl_subject c), jl_claims_parse = (\<lambda>_. None)\<rparr>"

definition auth_env :: "int \<Rightarrow> env" where
  "auth_env t = (sample_time t)\<lparr>env_nextval := (\<lambda>_. t),
     env_random := (\<lambda>_. replicate 32 (char_of (nat (t mod 128))))\<rparr>"

definition auth_user :: user_row where
  "auth_user =
     \<lparr>u_id = 7, u_name = Some ''Ana'', u_phone = ''+639170000000'', u_email = ''a@b.ph'',
      u_password_hash = ''$2a$password'', u_role = ''passenger'', u_is_verified = True,
      u_account_status = ''active'', u_created_at = None, u_updated_at = None\<rparr>"

definition auth_profile :: passenger_profile_row where
  "auth_profile =
     \<lparr>pp_id = 3, pp_user_id = 7, pp_name = ''Ana'', pp_address = None, pp_gender = ''Female'',
      pp_avatar_storage_key = None, pp_avatar_content_type = None, pp_preferred_ride_type = None,
      pp_created_at = None, pp_updated_at = None\<rparr>"

text \<open>The token of thirty-two bytes 10, in a session that was opened at second 10.\<close>

definition auth_token :: string where
  "auth_token = concat (replicate 10 ''CgoK'') @ ''Cgo''"

definition auth_session :: refresh_session_row where
  "auth_session =
     \<lparr>rs_id = 10, rs_user_id = 7, rs_token_hash = ''43676f4b43676f4b'',
      rs_expires_at = Some (10 * second + refresh_token_lifetime), rs_created_at = Some (10 * second),
      rs_last_used_at = None, rs_revoked_at = None, rs_rotation_grace_until = None\<rparr>"

definition auth_start :: auth_state where
  "auth_start =
     \<lparr>a_users = [auth_user], a_driver_profiles = [], a_passenger_profiles = [auth_profile],
      a_refresh_sessions = [auth_session], a_redis = Map.empty, a_mail = [], a_notices = []\<rparr>"

abbreviation sample_authenticate :: authenticate_service where
  "sample_authenticate \<equiv> server_authenticate sample_lib plain_jwt ''k''"

definition auth_refreshed :: auth_state where
  "auth_refreshed = snd (authenticate_refresh sample_authenticate auth_token (auth_env 20) auth_start)"

lemma auth_refresh_ok:
  "\<exists>tokens. authenticate_refresh sample_authenticate auth_token (auth_env 20) auth_start = (Inr tokens, auth_refreshed)"
proof -
  have "\<not> isl (fst (authenticate_refresh sample_authenticate auth_token (auth_env 20) auth_start))" by code_simp
  then show ?thesis
    unfolding auth_refreshed_def
    by (cases "authenticate_refresh sample_authenticate auth_token (auth_env 20) auth_start";
        cases "fst (authenticate_refresh sample_authenticate auth_token (auth_env 20) auth_start)") auto
qed

lemma auth_start_ok: "sessions_ok auth_start"
  by code_simp

theorem refresh_token_dies_witness:
  "\<exists>x. authenticate_refresh sample_authenticate auth_token (auth_env 50) auth_refreshed = (Inl x, auth_refreshed)"
proof -
  obtain tokens where
    r: "authenticate_refresh sample_authenticate auth_token (auth_env 20) auth_start = (Inr tokens, auth_refreshed)"
    using auth_refresh_ok by blast
  have "list_all (\<lambda>s. rs_token_hash s \<noteq> hash_refresh_token sample_lib (trim_space auth_token) \<or> rs_revoked_at s = None)
      (a_refresh_sessions auth_start)"
    by (simp add: auth_start_def auth_session_def)
  from refresh_token_dies [OF auth_start_ok r this rtranclp.rtrancl_refl, of "auth_env 50"]
  show ?thesis by (simp add: auth_env_def sample_time_def second_def)
qed

section \<open>A login\<close>

definition auth_logged :: "(err + account \<times> session_tokens) \<times> auth_state" where
  "auth_logged = authenticate_execute sample_authenticate '' A@b.ph'' ''password'' ''passenger'' (auth_env 30) auth_start"

lemma auth_logged_ok: "\<exists>a tokens. authenticate_execute sample_authenticate '' A@b.ph'' ''password'' ''passenger''
    (auth_env 30) auth_start = (Inr (a, tokens), snd auth_logged)"
proof -
  have "\<not> isl (fst auth_logged)" by code_simp
  then obtain a tokens where "fst auth_logged = Inr (a, tokens)"
    by (cases "fst auth_logged") auto
  then show ?thesis unfolding auth_logged_def [symmetric] by (metis prod.collapse)
qed

theorem login_sound_witness:
  "\<exists>a tokens u s us. authenticate_execute sample_authenticate '' A@b.ph'' ''password'' ''passenger''
      (auth_env 30) auth_start = (Inr (a, tokens), snd auth_logged) \<and>
    u \<in> set (a_users auth_start) \<and> u_email u = al_lower sample_lib (trim_space '' A@b.ph'') \<and> shows_user a u \<and>
    verify_password sample_lib (if u_password_hash u = '''' then dummy_bcrypt_hash else u_password_hash u) ''password'' \<and>
    snd auth_logged = auth_start\<lparr>a_users := us, a_refresh_sessions := a_refresh_sessions auth_start @ [s]\<rparr> \<and>
    rs_user_id s = u_id u \<and> rs_token_hash s = hash_refresh_token sample_lib (refresh_token tokens) \<and>
    session_active (env_now (auth_env 30)) s"
proof -
  obtain a tokens where r: "authenticate_execute sample_authenticate '' A@b.ph'' ''password'' ''passenger''
      (auth_env 30) auth_start = (Inr (a, tokens), snd auth_logged)"
    using auth_logged_ok by blast
  have "list_all (\<lambda>u. int64_range (u_id u)) (a_users auth_start)" by code_simp
  from login_sound [OF r this] r show ?thesis by blast
qed

section \<open>A password reset\<close>

definition auth_code_sent :: auth_state where
  "auth_code_sent = auth_start\<lparr>a_redis := [otp_key sample_lib ''reset'' ''a@b.ph'' \<mapsto>
     \<lparr>kv_value = ''123456'', kv_expires_at = Some 600000\<rparr>]\<rparr>"

abbreviation sample_otp :: otp_service where
  "sample_otp \<equiv> server_otp sample_lib plain_jwt ''k''"

definition auth_reset :: auth_state where
  "auth_reset = snd (reset_password_for_role sample_otp ''a@b.ph'' ''123456'' ''new password'' ''passenger''
     (auth_env 30) auth_code_sent)"

lemma auth_reset_ok:
  "reset_password_for_role sample_otp ''a@b.ph'' ''123456'' ''new password'' ''passenger''
     (auth_env 30) auth_code_sent = (Inr (), auth_reset)"
proof -
  have "fst (reset_password_for_role sample_otp ''a@b.ph'' ''123456'' ''new password'' ''passenger''
     (auth_env 30) auth_code_sent) = Inr ()" by code_simp
  then show ?thesis unfolding auth_reset_def by (metis prod.collapse)
qed

theorem reset_takes_over_witness:
  "\<exists>u x h. u \<in> set (a_users auth_code_sent) \<and> u_email u = al_lower sample_lib (trim_space ''a@b.ph'') \<and>
    u_role u = ''passenger'' \<and> (u_account_status u = '''' \<or> u_account_status u = ''active'') \<and>
    redis_get (redis_clock (auth_env 30)) (otp_key sample_lib ''reset'' (u_email u)) (a_redis auth_code_sent) = Some x \<and>
    kv_value x = trim_space ''123456'' \<and> a_redis auth_reset (otp_key sample_lib ''reset'' (u_email u)) = None \<and>
    8 \<le> length ''new password'' \<and> length ''new password'' \<le> 72 \<and>
    al_bcrypt_generate sample_lib (auth_env 30) ''new password'' = Inr h \<and>
    u\<lparr>u_password_hash := h, u_updated_at := Some (env_db_now (auth_env 30))\<rparr> \<in> set (a_users auth_reset) \<and>
    list_all (\<lambda>s. rs_user_id s \<noteq> u_id u \<or> \<not> session_active (40 * second) s) (a_refresh_sessions auth_reset)"
  by (rule reset_takes_over [OF auth_reset_ok]) (simp add: auth_env_def sample_time_def second_def)

theorem reset_ends_sessions_witness:
  "\<exists>x. authenticate_refresh sample_authenticate auth_token (auth_env 40) auth_reset = (Inl x, auth_reset)"
proof (rule reset_ends_sessions [OF _ _ auth_reset_ok])
  show "sessions_ok auth_code_sent" "distinct (map u_email (a_users auth_code_sent))" by code_simp+
  show "auth_user \<in> set (a_users auth_code_sent)" "auth_session \<in> set (a_refresh_sessions auth_code_sent)"
    by (simp_all add: auth_code_sent_def auth_start_def)
  show "u_email auth_user = al_lower sample_lib (trim_space ''a@b.ph'')" by code_simp
  show "rs_token_hash auth_session = hash_refresh_token sample_lib (trim_space auth_token)" by code_simp
qed (simp_all add: auth_session_def auth_user_def auth_env_def sample_time_def second_def)

end
