(* ===== verification/Sample_Race.thy ===== *)
theory Sample_Race
  imports Auth_Race Sample_Auth
begin

text \<open>
  A login that a password reset overtakes, evaluated step by step, and two runs in which requests
  of the auth module disturb each other.
\<close>

section \<open>A reset during a login\<close>

definition ana :: account where
  "ana =
     \<lparr>ac_id = 7, ac_email = ''a@b.ph'', ac_phone = ''+639170000000'', ac_name = ''Ana'',
      ac_role = ''passenger'', ac_password_hash = ''$2a$password'', ac_is_verified = True,
      ac_vehicle_type = '''', ac_plate_number = '''', ac_account_status = ''active''\<rparr>"

definition race_revoked :: auth_state where
  "race_revoked = auth_start\<lparr>a_refresh_sessions := [revoked (31 * second) auth_session]\<rparr>"

definition race_written :: auth_state where
  "race_written = race_revoked\<lparr>a_users := [auth_user\<lparr>u_password_hash := ''$2a$new password'', u_updated_at := Some (32 * second)\<rparr>]\<rparr>"

lemma pair_of: "fst p = a \<Longrightarrow> p = (a, snd p)"
  by (metis prod.collapse)

lemma auth_env_time: "env_now (auth_env t) = t * second" "env_db_now (auth_env t) = t * second"
  by (simp_all add: auth_env_def sample_time_def)

lemma race_verify:
  "authenticate_verify sample_authenticate postgres_users '' A@b.ph'' ''password'' ''passenger''
     (auth_env 30) auth_code_sent = (Inr (ana, ''$2a$password''), auth_code_sent)"
proof -
  have "fst (authenticate_verify sample_authenticate postgres_users '' A@b.ph'' ''password'' ''passenger''
     (auth_env 30) auth_code_sent) = Inr (ana, ''$2a$password'')" by code_simp
  note run = pair_of [OF this]
  from run obtain u us where "u \<in> set (a_users auth_code_sent)"
    and us: "snd (authenticate_verify sample_authenticate postgres_users '' A@b.ph'' ''password'' ''passenger''
      (auth_env 30) auth_code_sent) = auth_code_sent\<lparr>a_users := us\<rparr>"
      "us = a_users auth_code_sent \<or> is_legacy_password_hash (u_password_hash u)"
    by (rule authenticate_verifyE) blast
  then have "us = a_users auth_code_sent"
    by (simp add: auth_code_sent_def auth_start_def auth_user_def is_legacy_password_hash_def)
  with run us(1) show ?thesis by simp
qed

lemma race_reset_begin:
  "reset_consume sample_otp ''a@b.ph'' ''123456'' ''new password'' ''passenger'' (auth_env 31) auth_code_sent = (Inr ana, auth_start)"
  "reset_revoke postgres_sessions ana (auth_env 31) auth_start = (Inr (), race_revoked)"
proof -
  have "fst (reset_consume sample_otp ''a@b.ph'' ''123456'' ''new password'' ''passenger'' (auth_env 31) auth_code_sent) = Inr ana"
    by code_simp
  from pair_of [OF this] reset_consume_state [OF pair_of [OF this]]
  show "reset_consume sample_otp ''a@b.ph'' ''123456'' ''new password'' ''passenger'' (auth_env 31) auth_code_sent = (Inr ana, auth_start)"
    by (simp add: auth_code_sent_def ana_def auth_start_def fun_upd_def fun_eq_iff)
  have "fst (reset_revoke postgres_sessions ana (auth_env 31) auth_start) = Inr ()" by code_simp
  from pair_of [OF this] revoke_all_eq [OF reset_revoke_all [OF pair_of [OF this]]]
  show "reset_revoke postgres_sessions ana (auth_env 31) auth_start = (Inr (), race_revoked)"
    by (simp add: race_revoked_def auth_start_def ana_def auth_session_def session_unrevoked_def upd_where_def
        auth_env_time second_def refresh_token_lifetime_def)
qed

lemma race_reset_write:
  "reset_update sample_otp postgres_users ana ''new password'' (auth_env 32) race_revoked = (Inr (), race_written)"
proof -
  have "fst (reset_update sample_otp postgres_users ana ''new password'' (auth_env 32) race_revoked) = Inr ()" by code_simp
  from pair_of [OF this] update_passwordE [OF reset_update_password [OF pair_of [OF this]]]
  show ?thesis
    by (simp add: race_written_def race_revoked_def auth_start_def auth_user_def ana_def upd_where_def auth_env_time
        hash_password_def sample_lib_def)
qed

lemma race_reset_end:
  "reset_revoke postgres_sessions ana (auth_env 33) race_written = (Inr (), race_written)"
proof -
  have "fst (reset_revoke postgres_sessions ana (auth_env 33) race_written) = Inr ()" by code_simp
  from pair_of [OF this] revoke_all_eq [OF reset_revoke_all [OF pair_of [OF this]]]
  show ?thesis
    by (simp add: race_written_def race_revoked_def auth_start_def ana_def revoked_def session_unrevoked_def upd_where_def)
qed

definition race_run :: race where
  "race_run =
     \<lparr>rc_state = race_written, rc_clock = 33 * second, rc_generation = 1,
      rc_hashes = {''$2a$new password'', ''$2a$password''}, rc_born = (\<lambda>_. Some 0),
      rc_released = {''43676f4b43676f4b''}, rc_logins = {Verified ana ''$2a$password'' 0}, rc_resets = {}\<rparr>"

lemma race_runs:
  "(race_step sample_lib plain_jwt ''k'' 7)\<^sup>*\<^sup>* (race_start 7 auth_code_sent (10 * second)) race_run"
proof -
  let ?step = "race_step sample_lib plain_jwt ''k'' 7"
  let ?s = "race_start 7 auth_code_sent (10 * second)"
  define c1 where "c1 = ?s\<lparr>rc_clock := 30 * second, rc_logins := {Verified ana ''$2a$password'' 0}\<rparr>"
  define c2 where "c2 = c1\<lparr>rc_state := race_revoked, rc_clock := 31 * second, rc_resets := {Revoked ana}\<rparr>"
  define c3 where "c3 = c2\<lparr>rc_state := race_written, rc_clock := 32 * second, rc_generation := 1,
    rc_hashes := insert ''$2a$new password'' (rc_hashes c2), rc_resets := {Updated ana}\<rparr>"
  have start: "rc_hashes (race_start 7 auth_code_sent t) = {''$2a$password''}"
    "rc_released (race_start 7 auth_code_sent t) = {''43676f4b43676f4b''}"
    "rc_generation (race_start 7 auth_code_sent t) = 0" for t
    by (simp_all add: race_start_def auth_code_sent_def auth_start_def auth_user_def auth_session_def)
  have full: "race_start 7 auth_code_sent t = \<lparr>rc_state = auth_code_sent, rc_clock = t, rc_generation = 0,
      rc_hashes = {''$2a$password''}, rc_born = (\<lambda>_. Some 0), rc_released = {''43676f4b43676f4b''},
      rc_logins = {}, rc_resets = {}\<rparr>" for t
    using start [of t] by (simp add: race_start_def)
  have hash: "hash_password sample_lib (auth_env 32) ''new password'' = Inr ''$2a$new password''"
    by (simp add: hash_password_def sample_lib_def)
  have states: "rc_state ?s = auth_code_sent" "rc_state c1 = auth_code_sent" "rc_state c2 = race_revoked"
    "rc_state c3 = race_written" by (simp_all add: c1_def c2_def c3_def race_start_def)
  have "?step ?s c1"
    using race_step.verify [of sample_lib plain_jwt "''k''" "'' A@b.ph''" "''password''" "''passenger''" "auth_env 30" ?s
        ana "''$2a$password''" auth_code_sent 7] race_verify start
    by (simp add: c1_def race_start_def ana_def auth_env_time second_def insert_absorb)
  moreover have "?step c1 c2"
    using race_step.reset_begin [of sample_lib plain_jwt "''k''" "''a@b.ph''" "''123456''" "''new password''" "''passenger''"
        "auth_env 31" c1 ana auth_start 7 race_revoked] race_reset_begin
    by (simp add: states) (simp add: c1_def c2_def race_start_def ana_def auth_env_time second_def)
  moreover have "?step c2 c3"
    using race_step.reset_write [of ana c2 sample_lib plain_jwt "''k''" "''new password''" "auth_env 32" race_written
        "''$2a$new password''" 7] race_reset_write
    by (simp add: states) (simp add: c1_def c2_def c3_def auth_env_time second_def start hash)
  moreover have "?step c3 race_run"
    using race_step.reset_end [of ana c3 "auth_env 33" race_written sample_lib plain_jwt "''k''" 7] race_reset_end
    by (simp add: states) (simp add: c1_def c2_def c3_def race_run_def auth_env_time second_def full)
  ultimately show ?thesis by (meson converse_rtranclp_into_rtranclp rtranclp.rtrancl_refl)
qed


section \<open>Requests that disturb each other\<close>

text \<open>
  A refresh keeps the time at which it began. A token whose grace period ends between that time and
  a revocation of all sessions is not revoked, because it has already ended, and is then still
  rotated at the earlier time: the account has a usable session after all its sessions were revoked.
\<close>

definition grace_start :: auth_state where
  "grace_start = auth_start\<lparr>a_refresh_sessions := [auth_session\<lparr>rs_revoked_at := Some (20 * second),
     rs_last_used_at := Some (20 * second), rs_rotation_grace_until := Some (50 * second)\<rparr>]\<rparr>"

definition grace_found :: refresh_session where
  "grace_found = \<lparr>fs_user_id = 7, fs_token_hash = ''43676f4b43676f4b'', fs_expires_at = 10 * second + refresh_token_lifetime\<rparr>"

definition grace_revoked :: auth_state where
  "grace_revoked = snd (reset_revoke postgres_sessions ana (auth_env 51) grace_start)"

lemma stale_refresh_outlives_revocation:
  "fst (refresh_find sample_authenticate postgres_users postgres_sessions auth_token (49 * second) (auth_env 49) grace_start)
     = Inr (grace_found, ana) \<and>
   fst (reset_revoke postgres_sessions ana (auth_env 51) grace_start) = Inr () \<and>
   map rs_user_id (filter (session_active (52 * second)) (a_refresh_sessions grace_revoked)) = [] \<and>
   map rs_user_id (filter (session_active (52 * second)) (a_refresh_sessions (snd
     (refresh_rotate sample_authenticate postgres_sessions grace_found ana (49 * second) (auth_env 52) grace_revoked)))) = [7]"
  by (intro conjI) code_simp+

text \<open>
  Two logins of an account whose hash is still a legacy one, both with the right password: the
  one that finds the hash already replaced by the other compares the recheck with the legacy hash,
  fails with the error of a wrong password, and revokes the session of the other.
\<close>

definition legacy_ana :: account where
  "legacy_ana = ana\<lparr>ac_password_hash := replicate 64 (CHR ''a'')\<rparr>"

lemma parallel_legacy_login_refused:
  "fst (upgrade_legacy_hash sample_authenticate postgres_users legacy_ana ''password'' (auth_env 30) auth_start)
     = Inr (ac_password_hash legacy_ana) \<and>
   fst (ensure_credentials_unchanged sample_authenticate postgres_users 7 (ac_password_hash legacy_ana) (auth_env 30) auth_start)
     = Inl (Auth ErrInvalidCredentials) \<and>
   map rs_user_id (filter (session_active (30 * second)) (a_refresh_sessions auth_start)) = [7] \<and>
   map rs_user_id (filter (session_active (30 * second)) (a_refresh_sessions (snd (ensure_credentials_unchanged
     sample_authenticate postgres_users 7 (ac_password_hash legacy_ana) (auth_env 30) auth_start)))) = []"
  by (intro conjI) code_simp+

end
