(* ===== verification/Http.thy ===== *)
theory Http
  imports Jwt "HOL-Library.AList"
begin

text \<open>
  Requests, responses and handlers of \<open>net/http\<close> as far as the middleware of
  \<^verbatim>\<open>src/server/internal/platform/httpx\<close> uses them, the error responses of
  \<^verbatim>\<open>response/writer.go\<close>, and the small middlewares: request identifier, body limit,
  control characters, security headers, CORS, authentication and roles. A handler is a function
  of the request, the environment, the response so far and a state of any type. Header names are
  in their canonical form, as \<open>Header.Get\<close> and \<open>Header.Set\<close> make them. A handler that panics,
  a hijacked connection and the flushing of a response are not modelled.
\<close>

section \<open>Requests and responses\<close>

record principal =
  pl_user_id :: int
  pl_role :: string

text \<open>
  \<open>rq_read_limit\<close> is the limit of a \<open>http.MaxBytesReader\<close> around the body. The last five fields
  are the values the middlewares put into the request's context.
\<close>

record request =
  rq_method :: string
  rq_target :: string
  rq_path :: string
  rq_raw_query :: string
  rq_header :: "string \<Rightarrow> string list"
  rq_body :: "string option"
  rq_read_limit :: "int option"
  rq_content_length :: int
  rq_remote_addr :: string
  rq_tls :: bool
  rq_client_ip :: "string option"
  rq_scheme :: "string option"
  rq_request_id :: "string option"
  rq_identity :: "identity option"
  rq_principal :: "principal option"

text \<open>A response under construction; status 0 until the header is written.\<close>

record writer =
  wr_status :: int
  wr_header :: "(string \<times> string list) list"
  wr_body :: string

type_synonym 's handler = "request \<Rightarrow> env \<Rightarrow> writer \<Rightarrow> 's \<Rightarrow> writer \<times> 's"
type_synonym 's middleware = "'s handler \<Rightarrow> 's handler"

definition new_writer :: writer where
  "new_writer = \<lparr>wr_status = 0, wr_header = [], wr_body = ''''\<rparr>"

definition header_get :: "string \<Rightarrow> request \<Rightarrow> string" where
  "header_get k r = (case rq_header r k of [] \<Rightarrow> '''' | v # _ \<Rightarrow> v)"

definition header_put :: "string \<Rightarrow> string list \<Rightarrow> (string \<times> string list) list \<Rightarrow> (string \<times> string list) list" where
  "header_put k vs h = AList.update k vs h"

definition set_header :: "string \<Rightarrow> string \<Rightarrow> writer \<Rightarrow> writer" where
  "set_header k v w = w\<lparr>wr_header := header_put k [v] (wr_header w)\<rparr>"

text \<open>Only the first \<open>WriteHeader\<close> counts; a write before it means status 200.\<close>

definition write_header :: "int \<Rightarrow> writer \<Rightarrow> writer" where
  "write_header status w = (if wr_status w \<noteq> 0 then w else w\<lparr>wr_status := status\<rparr>)"

definition write_body :: "string \<Rightarrow> writer \<Rightarrow> writer" where
  "write_body s w = (write_header 200 w)\<lparr>wr_body := wr_body w @ s\<rparr>"

section \<open>Problems\<close>

record problem =
  pb_type :: string
  pb_title :: string
  pb_status :: int
  pb_code :: string
  pb_detail :: string
  pb_error :: string
  pb_message :: string
  pb_request_id :: string

text \<open>Library functions that are not in the repository: SHA-256, and the JSON text of a problem.\<close>

record http_lib =
  hl_sha256 :: "string \<Rightarrow> string"
  hl_problem_json :: "problem \<Rightarrow> string"

definition status_text :: "int \<Rightarrow> string" where
  "status_text status =
     (if status = 400 then ''Bad Request'' else if status = 401 then ''Unauthorized''
      else if status = 403 then ''Forbidden'' else if status = 404 then ''Not Found''
      else if status = 405 then ''Method Not Allowed'' else if status = 409 then ''Conflict''
      else if status = 413 then ''Request Entity Too Large''
      else if status = 422 then ''Unprocessable Entity'' else if status = 423 then ''Locked''
      else if status = 429 then ''Too Many Requests''
      else if status = 500 then ''Internal Server Error'' else if status = 503 then ''Service Unavailable''
      else '''')"

definition problem_code :: "int \<Rightarrow> string" where
  "problem_code status =
     (if status = 400 \<or> status = 422 then ''validation_error''
      else if status = 401 then ''unauthorized''
      else if status = 403 then ''forbidden''
      else if status = 404 then ''not_found''
      else if status = 405 then ''method_not_allowed''
      else if status = 409 \<or> status = 423 then ''conflict''
      else if status = 413 then ''payload_too_large''
      else if status = 429 then ''rate_limited''
      else if status = 503 then ''service_unavailable''
      else if status = 500 then ''internal_error''
      else ''request_failed'')"

definition or_else :: "string \<Rightarrow> string \<Rightarrow> string" where
  "or_else s t = (if s = '''' then t else s)"

definition write_json :: "int \<Rightarrow> string \<Rightarrow> writer \<Rightarrow> writer" where
  "write_json status payload w = write_body (payload @ [CHR 0x0A]) (write_header status w)"

text \<open>\<open>WriteProblem\<close>: the defaults are filled in, in the order of the code.\<close>

definition write_problem :: "http_lib \<Rightarrow> problem \<Rightarrow> writer \<Rightarrow> writer" where
  "write_problem lib p w =
     (let p = p\<lparr>pb_status := (if pb_status p < 100 \<or> pb_status p > 999 then 500 else pb_status p)\<rparr>;
          p = p\<lparr>pb_type := or_else (pb_type p) ''about:blank'',
                pb_title := or_else (pb_title p) (status_text (pb_status p)),
                pb_code := or_else (pb_code p) (problem_code (pb_status p)),
                pb_detail := or_else (pb_detail p) (pb_message p)\<rparr>;
          p = p\<lparr>pb_message := or_else (pb_message p) (pb_detail p),
                pb_error := or_else (pb_error p) (pb_detail p),
                pb_request_id := or_else (pb_request_id p)
                  (case map_of (wr_header w) ''X-Request-Id'' of Some (v # _) \<Rightarrow> v | _ \<Rightarrow> '''')\<rparr>
      in write_json (pb_status p) (hl_problem_json lib p)
           (set_header ''Content-Type'' ''application/problem+json'' w))"

definition error_response :: "http_lib \<Rightarrow> int \<Rightarrow> string \<Rightarrow> writer \<Rightarrow> writer" where
  "error_response lib status message w =
     write_problem lib
       \<lparr>pb_type = ''about:blank'', pb_title = status_text status, pb_status = status,
        pb_code = problem_code status, pb_detail = message, pb_error = message, pb_message = message,
        pb_request_id = ''''\<rparr> w"

definition write_security_error :: "http_lib \<Rightarrow> int \<Rightarrow> string \<Rightarrow> writer \<Rightarrow> writer" where
  "write_security_error lib status message w = error_response lib status message w"

lemma status_write_header: "wr_status (write_header s w) = (if wr_status w = 0 then s else wr_status w)"
  by (simp add: write_header_def)

lemma status_error_response:
  "100 \<le> s \<Longrightarrow> s \<le> 999 \<Longrightarrow> wr_status w = 0 \<Longrightarrow> wr_status (error_response lib s m w) = s"
  by (simp add: error_response_def write_problem_def write_json_def write_body_def write_header_def
      set_header_def Let_def)

section \<open>Request identifiers and control characters\<close>

definition contains_control_character :: "string \<Rightarrow> bool" where
  "contains_control_character value = list_ex (\<lambda>c. of_char c < (32 :: nat) \<or> c = CHR 0x7F) value"

definition valid_request_id :: "string \<Rightarrow> bool" where
  "valid_request_id value \<longleftrightarrow> 8 \<le> length value \<and> length value \<le> 128 \<and> \<not> contains_control_character value"

text \<open>Sixteen random bytes in hexadecimal; the clock when there are none.\<close>

definition new_request_id :: "env \<Rightarrow> string" where
  "new_request_id e =
     (if env_fault e ''rand'' then ''request-'' @ itoa (1000 * env_now e)
      else hex_encode (env_random e ''request id''))"

definition request_id_middleware :: "'s middleware" where
  "request_id_middleware next r e w s =
     (let i = trim_space (header_get ''X-Request-Id'' r);
          i = (if valid_request_id i then i else new_request_id e)
      in next (r\<lparr>rq_request_id := Some i\<rparr>) e (set_header ''X-Request-Id'' i w) s)"

definition reject_control_characters :: "http_lib \<Rightarrow> 's middleware" where
  "reject_control_characters lib next r e w s =
     (if contains_control_character (rq_path r) \<or> contains_control_character (rq_raw_query r)
      then (write_security_error lib 400 ''invalid request target'' w, s)
      else next r e w s)"

section \<open>Limits of the body\<close>

definition default_json_body_limit :: int where
  "default_json_body_limit = 16 * 1024"

definition default_upload_body_limit :: int where
  "default_upload_body_limit = 10 * 1024 * 1024"

definition multipart_envelope_limit :: int where
  "multipart_envelope_limit = 64 * 1024"

record security_config =
  sc_allowed_origins :: "string list"
  sc_enable_hsts :: bool
  sc_json_body_limit :: int
  sc_upload_body_limit :: int

definition normalized_security_config :: "security_config \<Rightarrow> security_config" where
  "normalized_security_config c =
     c\<lparr>sc_json_body_limit := (if sc_json_body_limit c \<le> 0 then default_json_body_limit else sc_json_body_limit c),
       sc_upload_body_limit := (if sc_upload_body_limit c \<le> 0 then default_upload_body_limit else sc_upload_body_limit c)\<rparr>"

text \<open>
  \<open>http.MaxBytesReader\<close>, and \<open>io.ReadAll\<close> of the body: an error once the limit is exceeded.
\<close>

definition max_bytes_reader :: "int \<Rightarrow> request \<Rightarrow> request" where
  "max_bytes_reader limit r =
     r\<lparr>rq_read_limit := Some (case rq_read_limit r of None \<Rightarrow> limit | Some n \<Rightarrow> min n limit)\<rparr>"

definition read_all :: "request \<Rightarrow> string option" where
  "read_all r =
     (case rq_body r of
        None \<Rightarrow> Some []
      | Some body \<Rightarrow>
          (case rq_read_limit r of
             None \<Rightarrow> Some body
           | Some n \<Rightarrow> if int (length body) > n then None else Some body))"

text \<open>\<open>requestBodyLimit\<close>.\<close>

definition body_limit :: "int \<Rightarrow> int \<Rightarrow> bool \<Rightarrow> request \<Rightarrow> int" where
  "body_limit json_limit upload_limit document_upload r =
     (let c = normalized_security_config \<lparr>sc_allowed_origins = [], sc_enable_hsts = False,
            sc_json_body_limit = json_limit, sc_upload_body_limit = upload_limit\<rparr>;
          upload = sc_upload_body_limit c
      in if has_prefix ''multipart/'' (to_lower (header_get ''Content-Type'' r))
         then (if document_upload \<and> upload \<le> max_int64 - multipart_envelope_limit
               then upload + multipart_envelope_limit else upload)
         else if document_upload then upload
         else sc_json_body_limit c)"

definition request_body_limit :: "http_lib \<Rightarrow> int \<Rightarrow> int \<Rightarrow> bool \<Rightarrow> 's middleware" where
  "request_body_limit lib json_limit upload_limit document_upload next r e w s =
     (case rq_body r of
        None \<Rightarrow> next r e w s
      | Some _ \<Rightarrow>
          let limit = body_limit json_limit upload_limit document_upload r in
          if rq_content_length r > limit
          then (write_security_error lib 413 ''request body is too large'' w, s)
          else next (max_bytes_reader limit r) e w s)"

section \<open>Security headers and CORS\<close>

definition connection_scheme :: "request \<Rightarrow> string" where
  "connection_scheme r = (if rq_tls r then ''https'' else ''http'')"

definition request_scheme :: "request \<Rightarrow> string" where
  "request_scheme r =
     (case rq_scheme r of Some v \<Rightarrow> if v \<noteq> '''' then v else connection_scheme r | None \<Rightarrow> connection_scheme r)"

definition security_headers :: "bool \<Rightarrow> 's middleware" where
  "security_headers hsts next r e w s =
     (let w = set_header ''X-Content-Type-Options'' ''nosniff'' w;
          w = set_header ''X-Frame-Options'' ''DENY'' w;
          w = set_header ''Referrer-Policy'' ''no-referrer'' w;
          w = set_header ''Permissions-Policy'' ''camera=(), geolocation=(), microphone=()'' w;
          w = set_header ''Content-Security-Policy''
                (''default-src '' @ [CHR 0x27] @ ''none'' @ [CHR 0x27] @ ''; frame-ancestors '' @ [CHR 0x27] @ ''none''
                  @ [CHR 0x27] @ ''; base-uri '' @ [CHR 0x27] @ ''none'' @ [CHR 0x27]) w;
          w = (if hsts \<or> request_scheme r = ''https''
               then set_header ''Strict-Transport-Security'' ''max-age=31536000; includeSubDomains'' w else w)
      in next r e w s)"

definition cors :: "http_lib \<Rightarrow> string list \<Rightarrow> 's middleware" where
  "cors lib allowed_origins next r e w s =
     (let origin = trim_space (header_get ''Origin'' r) in
      if origin \<noteq> '''' \<and> origin \<notin> set (map trim_space allowed_origins)
      then (write_security_error lib 403 ''origin is not allowed'' w, s)
      else
        let w = (if origin = '''' then w
                 else set_header ''Access-Control-Expose-Headers'' ''X-Request-ID, Retry-After''
                       (set_header ''Access-Control-Allow-Credentials'' ''true''
                       (set_header ''Vary'' ''Origin''
                       (set_header ''Access-Control-Allow-Origin'' origin w))))
        in if rq_method r = ''OPTIONS''
           then (if origin = '''' then (write_security_error lib 403 ''origin is required'' w, s)
                 else (write_header 204
                        (set_header ''Access-Control-Allow-Headers''
                           ''Authorization, Content-Type, Idempotency-Key, X-Request-ID''
                        (set_header ''Access-Control-Allow-Methods'' ''GET, POST, PUT, PATCH, DELETE, OPTIONS'' w)), s))
           else next r e w s)"

definition secure_http :: "http_lib \<Rightarrow> security_config \<Rightarrow> 's middleware" where
  "secure_http lib config next =
     request_id_middleware (security_headers (sc_enable_hsts config)
       (cors lib (sc_allowed_origins config) (reject_control_characters lib next)))"

section \<open>Authentication\<close>

text \<open>\<open>strings.Fields\<close>: the fields between runs of \<open>unicode.IsSpace\<close>.\<close>

definition space_size :: "string \<Rightarrow> nat" where
  "space_size s =
     (case s of
        a # b # c # _ \<Rightarrow> if ascii_space a then 1 else if space2 a b then 2 else if space3 a b c then 3 else 0
      | [a, b] \<Rightarrow> if ascii_space a then 1 else if space2 a b then 2 else 0
      | [a] \<Rightarrow> if ascii_space a then 1 else 0
      | [] \<Rightarrow> 0)"

fun fields_from :: "string \<Rightarrow> string \<Rightarrow> string list" where
  "fields_from acc [] = (if acc = [] then [] else [rev acc])"
| "fields_from acc (c # s) =
     (let n = space_size (c # s) in
      if n = 0 then fields_from (c # acc) s
      else if acc = [] then fields_from [] (drop (n - 1) s)
      else rev acc # fields_from [] (drop (n - 1) s))"

definition bearer_token :: "string \<Rightarrow> string option" where
  "bearer_token header =
     (case fields_from [] header of
        [scheme, token] \<Rightarrow> if equal_fold scheme ''Bearer'' then Some token else None
      | _ \<Rightarrow> None)"

definition context_identity :: "request \<Rightarrow> identity option" where
  "context_identity r = (case rq_identity r of Some i \<Rightarrow> if id_subject i \<noteq> '''' then Some i else None | None \<Rightarrow> None)"

definition principal_from_request :: "request \<Rightarrow> principal option" where
  "principal_from_request r =
     (case rq_principal r of Some p \<Rightarrow> if 0 < pl_user_id p then Some p else None | None \<Rightarrow> None)"

definition identity_from_request :: "jwt_lib \<Rightarrow> token_manager option \<Rightarrow> request \<Rightarrow> env \<Rightarrow> identity option" where
  "identity_from_request lib manager r e =
     (case context_identity r of
        Some i \<Rightarrow> Some i
      | None \<Rightarrow>
          (case manager of
             None \<Rightarrow> None
           | Some m \<Rightarrow>
               (case bearer_token (header_get ''Authorization'' r) of
                  None \<Rightarrow> None
                | Some raw \<Rightarrow>
                    (case verify_identity lib m raw e of
                       Inl _ \<Rightarrow> None
                     | Inr i \<Rightarrow> if id_subject i \<noteq> '''' then Some i else None))))"

definition session_expired :: string where
  "session_expired = ''Your session has expired. Please sign in again to continue.''"

definition require_auth :: "http_lib \<Rightarrow> jwt_lib \<Rightarrow> token_manager option \<Rightarrow> 's middleware" where
  "require_auth lib jl manager next r e w s =
     (case identity_from_request jl manager r e of
        None \<Rightarrow> (error_response lib 401 session_expired w, s)
      | Some i \<Rightarrow>
          (case atoi (id_subject i) of
             None \<Rightarrow> (error_response lib 401 session_expired w, s)
           | Some n \<Rightarrow>
               if n \<le> 0 then (error_response lib 401 session_expired w, s)
               else next (r\<lparr>rq_identity := Some i, rq_principal := Some \<lparr>pl_user_id = n, pl_role = id_role i\<rparr>\<rparr>) e w s))"

definition require_role :: "http_lib \<Rightarrow> string list \<Rightarrow> 's middleware" where
  "require_role lib roles next r e w s =
     (case principal_from_request r of
        None \<Rightarrow> (error_response lib 401 session_expired w, s)
      | Some p \<Rightarrow>
          if pl_role p \<notin> set (filter (\<lambda>x. x \<noteq> '''') (map trim_space roles))
          then (error_response lib 403 ''You do not have permission to access this resource.'' w, s)
          else next r e w s)"

text \<open>\<open>NewAdminAuthorizer\<close> keeps the positive numbers of the list, in their canonical form.\<close>

definition admin_ids :: "string \<Rightarrow> string list" where
  "admin_ids raw =
     map itoa (filter (\<lambda>n. 0 < n) (List.map_filter (\<lambda>x. atoi (trim_space x)) (split_at (CHR '','') raw)))"

definition is_admin :: "string list option \<Rightarrow> string \<Rightarrow> bool" where
  "is_admin authorizer subject = (case authorizer of None \<Rightarrow> False | Some ids \<Rightarrow> subject \<noteq> '''' \<and> subject \<in> set ids)"

definition require_admin :: "http_lib \<Rightarrow> string list option \<Rightarrow> 's middleware" where
  "require_admin lib authorizer next r e w s =
     (case principal_from_request r of
        None \<Rightarrow> (error_response lib 401 session_expired w, s)
      | Some p \<Rightarrow>
          if \<not> is_admin authorizer (itoa (pl_user_id p))
          then (error_response lib 403 ''You do not have permission to access this resource.'' w, s)
          else next r e w s)"

definition authenticated_user_id :: "jwt_lib \<Rightarrow> token_manager option \<Rightarrow> request \<Rightarrow> env \<Rightarrow> int option" where
  "authenticated_user_id jl manager r e =
     (case principal_from_request r of
        Some p \<Rightarrow> Some (pl_user_id p)
      | None \<Rightarrow>
          (case identity_from_request jl manager r e of
             None \<Rightarrow> None
           | Some i \<Rightarrow> (case atoi (id_subject i) of None \<Rightarrow> None | Some n \<Rightarrow> if n \<le> 0 then None else Some n)))"

end
