(* ===== verification/Rate_Limit.thy ===== *)
theory Rate_Limit
  imports Http
begin

text \<open>
  The rate limiter of \<^verbatim>\<open>platform/httpx/middleware/rate_limiter.go\<close> with its two counter stores,
  and the limiter of verification attempts of \<^verbatim>\<open>auth/transport/http/otp_rate_limiter.go\<close>.
  A store's operation is one step: Redis runs the script as one, the memory store holds its
  mutex. The locale says what a store must do for the limiter to count the requests of a client
  in a window exactly; both stores do.
\<close>

section \<open>Policies\<close>

datatype route_policy =
    RouteDefault
  | RouteHealth
  | RouteAuthentication
  | RouteRefresh
  | RouteRealtimeConnection
  | RouteTelemetry
  | RouteLocationQuery
  | RouteFareQuery
  | RouteDocumentUpload
  | RouteOnlinePresence
  | RouteCommand
  | RouteRead

definition is_state_changing_method :: "string \<Rightarrow> bool" where
  "is_state_changing_method m \<longleftrightarrow> m \<in> {''POST'', ''PUT'', ''PATCH'', ''DELETE''}"

record rate_limit_config =
  rc_authentication :: int
  rc_refresh :: int
  rc_location :: int
  rc_fare :: int
  rc_connection :: int
  rc_telemetry :: int
  rc_mutation :: int
  rc_read :: int
  rc_window :: int

definition default_rate_limit_config :: rate_limit_config where
  "default_rate_limit_config =
     \<lparr>rc_authentication = 10, rc_refresh = 10, rc_location = 60, rc_fare = 30, rc_connection = 30,
      rc_telemetry = 600, rc_mutation = 120, rc_read = 300, rc_window = minute\<rparr>"

definition positive_or :: "int \<Rightarrow> int \<Rightarrow> int" where
  "positive_or x d = (if x \<le> 0 then d else x)"

definition normalized_rate_limit_config :: "rate_limit_config \<Rightarrow> rate_limit_config" where
  "normalized_rate_limit_config c =
     \<lparr>rc_authentication = positive_or (rc_authentication c) (rc_authentication default_rate_limit_config),
      rc_refresh = positive_or (rc_refresh c) (rc_refresh default_rate_limit_config),
      rc_location = positive_or (rc_location c) (rc_location default_rate_limit_config),
      rc_fare = positive_or (rc_fare c) (rc_fare default_rate_limit_config),
      rc_connection = positive_or (rc_connection c) (rc_connection default_rate_limit_config),
      rc_telemetry = positive_or (rc_telemetry c) (rc_telemetry default_rate_limit_config),
      rc_mutation = positive_or (rc_mutation c) (rc_mutation default_rate_limit_config),
      rc_read = positive_or (rc_read c) (rc_read default_rate_limit_config),
      rc_window = positive_or (rc_window c) (rc_window default_rate_limit_config)\<rparr>"

record rate_limit_policy =
  rp_scope :: string
  rp_limit :: int
  rp_fail_closed :: bool

fun rate_policy :: "rate_limit_config \<Rightarrow> route_policy \<Rightarrow> rate_limit_policy option" where
  "rate_policy c RouteHealth = None"
| "rate_policy c RouteAuthentication = Some \<lparr>rp_scope = ''authentication'', rp_limit = rc_authentication c, rp_fail_closed = True\<rparr>"
| "rate_policy c RouteRefresh = Some \<lparr>rp_scope = ''refresh'', rp_limit = rc_refresh c, rp_fail_closed = True\<rparr>"
| "rate_policy c RouteLocationQuery = Some \<lparr>rp_scope = ''location'', rp_limit = rc_location c, rp_fail_closed = True\<rparr>"
| "rate_policy c RouteFareQuery = Some \<lparr>rp_scope = ''fare'', rp_limit = rc_fare c, rp_fail_closed = True\<rparr>"
| "rate_policy c RouteRealtimeConnection = Some \<lparr>rp_scope = ''connection'', rp_limit = rc_connection c, rp_fail_closed = True\<rparr>"
| "rate_policy c RouteTelemetry = Some \<lparr>rp_scope = ''telemetry'', rp_limit = rc_telemetry c, rp_fail_closed = False\<rparr>"
| "rate_policy c RouteCommand = Some \<lparr>rp_scope = ''mutation'', rp_limit = rc_mutation c, rp_fail_closed = False\<rparr>"
| "rate_policy c RouteDocumentUpload = Some \<lparr>rp_scope = ''mutation'', rp_limit = rc_mutation c, rp_fail_closed = False\<rparr>"
| "rate_policy c RouteOnlinePresence = Some \<lparr>rp_scope = ''mutation'', rp_limit = rc_mutation c, rp_fail_closed = False\<rparr>"
| "rate_policy c RouteRead = Some \<lparr>rp_scope = ''read'', rp_limit = rc_read c, rp_fail_closed = False\<rparr>"
| "rate_policy c RouteDefault = None"

section \<open>Counter stores\<close>

type_synonym 's counter_store = "string \<Rightarrow> int \<Rightarrow> ('s, int) cmd"

definition atomic_increment_script :: "int \<Rightarrow> string \<Rightarrow> int \<Rightarrow> redis \<Rightarrow> (int \<times> redis) option" where
  "atomic_increment_script now k ttl m =
     (case redis_incr now k m of
        None \<Rightarrow> None
      | Some (count, m') \<Rightarrow>
          Some (count,
            if count = 1 then m'(k := map_option (\<lambda>x. x\<lparr>kv_expires_at := Some (now + ttl)\<rparr>) (m' k)) else m'))"

definition cache_increment :: "bool \<Rightarrow> redis counter_store" where
  "cache_increment configured k window = (\<lambda>e m.
     if \<not> configured then (Inl (Failure ''redis counter store is not configured''), m)
     else if env_fault e ''context'' then (Inl ContextCanceled, m)
     else if window \<le> 0 then (Inl (Failure ''counter window must be positive''), m)
     else
       let ttl = (if go_quot window millisecond \<le> 0 then 1 else go_quot window millisecond) in
         if env_fault e ''counter'' then (Inl (Fault ''counter''), m)
         else (case atomic_increment_script (redis_clock e) k ttl m of
                 None \<Rightarrow> (Inl (Fault ''counter''), m)
               | Some (count, m') \<Rightarrow> (Inr count, m')))"

record memory_counter =
  mc_count :: int
  mc_expires :: int

record memory_counters =
  ms_entries :: "string \<Rightarrow> memory_counter option"
  ms_operations :: int

definition memory_counter_cleanup_interval :: int where
  "memory_counter_cleanup_interval = 128"

definition drop_expired :: "int \<Rightarrow> (string \<Rightarrow> memory_counter option) \<Rightarrow> (string \<Rightarrow> memory_counter option)" where
  "drop_expired now m = (\<lambda>k. case m k of None \<Rightarrow> None | Some x \<Rightarrow> if \<not> now < mc_expires x then None else Some x)"

definition memory_increment :: "memory_counters counter_store" where
  "memory_increment k window = (\<lambda>e s.
     if env_fault e ''context'' then (Inl ContextCanceled, s)
     else if window \<le> 0 then (Inl (Failure ''counter window must be positive''), s)
     else
       let now = env_now e;
           n = (ms_operations s + 1) mod 2 ^ 64;
           m = (if n mod memory_counter_cleanup_interval = 0 then drop_expired now (ms_entries s) else ms_entries s);
           entry = (case m k of
                      None \<Rightarrow> \<lparr>mc_count = 0, mc_expires = now + window\<rparr>
                    | Some x \<Rightarrow> if \<not> now < mc_expires x then \<lparr>mc_count = 0, mc_expires = now + window\<rparr> else x);
           entry = entry\<lparr>mc_count := wrap64 (mc_count entry + 1)\<rparr>
       in (Inr (mc_count entry), \<lparr>ms_entries = m(k \<mapsto> entry), ms_operations = n\<rparr>))"

definition new_memory_counters :: memory_counters where
  "new_memory_counters = \<lparr>ms_entries = Map.empty, ms_operations = 0\<rparr>"

section \<open>The limiter\<close>

text \<open>\<open>UnixNano\<close> divided by the window: both are nonnegative here, and in microseconds.\<close>

definition window_key :: "int \<Rightarrow> int \<Rightarrow> int" where
  "window_key now window = go_quot now (if window \<le> 0 then second else window)"

definition retry_after_seconds :: "int \<Rightarrow> int \<Rightarrow> int" where
  "retry_after_seconds now window =
     (if window \<le> 0 then 1
      else
        let remaining = window - go_rem now window;
            seconds = go_quot remaining second;
            seconds = (if go_rem remaining second \<noteq> 0 then seconds + 1 else seconds)
        in max 1 seconds)"

definition client_ip :: "(string \<Rightarrow> string option) \<Rightarrow> request \<Rightarrow> string" where
  "client_ip parse r =
     (case rq_client_ip r of
        Some (c # v) \<Rightarrow> c # v
      | _ \<Rightarrow>
          (case parse (rq_remote_addr r) of
             Some a \<Rightarrow> a
           | None \<Rightarrow> let v = trim_space (rq_remote_addr r) in if v \<noteq> '''' then v else ''unknown''))"

text \<open>
  \<open>rl_address\<close> is \<open>parseRequestAddress\<close>, the library's parser of addresses, rendered.
\<close>

record 's rate_limiter =
  rl_store :: "'s counter_store option"
  rl_config :: rate_limit_config
  rl_address :: "string \<Rightarrow> string option"

definition new_rate_limiter ::
  "'s counter_store option \<Rightarrow> rate_limit_config \<Rightarrow> (string \<Rightarrow> string option) \<Rightarrow> 's rate_limiter" where
  "new_rate_limiter store config address =
     \<lparr>rl_store = store, rl_config = normalized_rate_limit_config config, rl_address = address\<rparr>"

definition rate_key :: "rate_limit_config \<Rightarrow> (string \<Rightarrow> string option) \<Rightarrow> rate_limit_policy \<Rightarrow> request \<Rightarrow> int \<Rightarrow> string" where
  "rate_key config address policy r now =
     ''rate:'' @ rp_scope policy @ '':'' @ client_ip address r @ '':'' @ itoa (window_key now (rc_window config))"

text \<open>What the limiter does with the count it gets.\<close>

definition rate_reply :: "http_lib \<Rightarrow> int \<Rightarrow> rate_limit_policy \<Rightarrow> int \<Rightarrow> 's middleware" where
  "rate_reply lib window policy count next r e w s =
     (let w = set_header ''X-Ratelimit-Limit'' (itoa (rp_limit policy)) w;
          w = set_header ''X-Ratelimit-Remaining'' (itoa (max 0 (rp_limit policy - count))) w
      in if count > rp_limit policy
         then (write_security_error lib 429 ''too many requests''
                 (set_header ''Retry-After'' (itoa (retry_after_seconds (env_now e) window)) w), s)
         else next r e w s)"

definition policy_middleware :: "http_lib \<Rightarrow> 's rate_limiter \<Rightarrow> route_policy \<Rightarrow> 's middleware" where
  "policy_middleware lib limiter route next r e w s =
     (case rl_store limiter of
        None \<Rightarrow> next r e w s
      | Some increment \<Rightarrow>
          if rq_method r = ''OPTIONS'' then next r e w s
          else
            (case rate_policy (rl_config limiter) route of
               None \<Rightarrow> next r e w s
             | Some policy \<Rightarrow>
                 let window = rc_window (rl_config limiter);
                     key = rate_key (rl_config limiter) (rl_address limiter) policy r (env_now e)
                 in (case increment key window e s of
                       (Inl _, s') \<Rightarrow>
                         if rp_fail_closed policy
                         then (write_security_error lib 503 ''request protection is temporarily unavailable''
                                 (set_header ''Retry-After'' ''1'' w), s')
                         else next r e w s'
                     | (Inr count, s') \<Rightarrow> rate_reply lib window policy count next r e w s')))"

definition rate_middleware_for :: "http_lib \<Rightarrow> 's rate_limiter \<Rightarrow> route_policy \<Rightarrow> 's middleware" where
  "rate_middleware_for lib limiter route next r e w s =
     (if route = RouteDefault
      then (if is_state_changing_method (rq_method r)
            then policy_middleware lib limiter RouteCommand next r e w s
            else policy_middleware lib limiter RouteRead next r e w s)
      else policy_middleware lib limiter route next r e w s)"

section \<open>Verification attempts\<close>

definition otp_verification_window :: int where
  "otp_verification_window = 15 * minute"

definition otp_counter_key :: "http_lib \<Rightarrow> string \<Rightarrow> string \<Rightarrow> string" where
  "otp_counter_key lib scope value = ''rate:otp-verify:'' @ scope @ '':'' @ hex_encode (hl_sha256 lib value)"

definition otp_limiter_middleware ::
  "http_lib \<Rightarrow> (string \<Rightarrow> string option) \<Rightarrow> 's counter_store option \<Rightarrow> 's middleware" where
  "otp_limiter_middleware lib address store next r e w s =
     (case store of
        None \<Rightarrow> next r e w s
      | Some increment \<Rightarrow>
          (case increment (otp_counter_key lib ''ip'' (client_ip address r)) otp_verification_window e s of
             (Inl _, s') \<Rightarrow>
               (error_response lib 503 ''request protection is temporarily unavailable''
                  (set_header ''Retry-After'' ''1'' w), s')
           | (Inr count, s') \<Rightarrow>
               let w = set_header ''X-Ratelimit-Limit'' (itoa max_otp_verification_attempts) w;
                   w = set_header ''X-Ratelimit-Remaining'' (itoa (max 0 (max_otp_verification_attempts - count))) w
               in if count > max_otp_verification_attempts
                  then (error_response lib 429 ''too many verification attempts'' (set_header ''Retry-After'' ''900'' w), s')
                  else next r e w s'))"

section \<open>Requests one after the other\<close>

fun serve_all :: "(route_policy \<Rightarrow> 's handler) \<Rightarrow> (route_policy \<times> request \<times> env) list \<Rightarrow> 's \<Rightarrow> writer list" where
  "serve_all h [] s = []"
| "serve_all h ((route, r, e) # rs) s = (case h route r e new_writer s of (w, s') \<Rightarrow> w # serve_all h rs s')"

text \<open>What is behind the limiter does not touch its counters.\<close>

definition behind :: "(request \<Rightarrow> env \<Rightarrow> writer \<Rightarrow> writer) \<Rightarrow> 's handler" where
  "behind pass r e w s = (pass r e w, s)"

definition limited ::
  "http_lib \<Rightarrow> 's counter_store \<Rightarrow> rate_limit_config \<Rightarrow> (string \<Rightarrow> string option) \<Rightarrow>
   (request \<Rightarrow> env \<Rightarrow> writer \<Rightarrow> writer) \<Rightarrow> route_policy \<Rightarrow> 's handler" where
  "limited lib increment config address pass route =
     rate_middleware_for lib (new_rate_limiter (Some increment) config address) route (behind pass)"

text \<open>
  The reference: the keys of all counted requests so far, and the count of a key is the number of
  its occurrences. A key names the scope, the client and the window.
\<close>

definition log_increment :: "string list counter_store" where
  "log_increment k window = (\<lambda>e used. (Inr (int (count_list used k) + 1), used @ [k]))"

definition available :: "env \<Rightarrow> bool" where
  "available e \<longleftrightarrow> \<not> env_fault e ''context'' \<and> \<not> env_fault e ''counter''"

text \<open>The policy a request of a route falls under, if any.\<close>

definition applied_policy :: "rate_limit_config \<Rightarrow> route_policy \<Rightarrow> request \<Rightarrow> rate_limit_policy option" where
  "applied_policy c route r =
     (if rq_method r = ''OPTIONS'' then None
      else rate_policy c (if route = RouteDefault then
        (if is_state_changing_method (rq_method r) then RouteCommand else RouteRead) else route))"

lemma limited_free:
  "applied_policy (normalized_rate_limit_config config) route r = None \<Longrightarrow>
     limited lib increment config address pass route r e w s = (pass r e w, s)"
  by (auto simp: limited_def applied_policy_def rate_middleware_for_def policy_middleware_def
      new_rate_limiter_def behind_def split: if_splits)

definition counted_reply ::
  "http_lib \<Rightarrow> int \<Rightarrow> rate_limit_policy \<Rightarrow> int \<Rightarrow> (request \<Rightarrow> env \<Rightarrow> writer \<Rightarrow> writer) \<Rightarrow> request \<Rightarrow> env \<Rightarrow> writer \<Rightarrow> writer" where
  "counted_reply lib window policy count pass r e w =
     fst (rate_reply lib window policy count (behind pass) r e w ())"

lemma limited_counted:
  assumes "applied_policy (normalized_rate_limit_config config) route r = Some policy"
    and "increment (rate_key (normalized_rate_limit_config config) address policy r (env_now e))
      (rc_window (normalized_rate_limit_config config)) e s = (Inr count, s')"
  shows "limited lib increment config address pass route r e w s =
    (counted_reply lib (rc_window (normalized_rate_limit_config config)) policy count pass r e w, s')"
  using assms
  by (auto simp: limited_def applied_policy_def rate_middleware_for_def policy_middleware_def counted_reply_def
      new_rate_limiter_def behind_def rate_reply_def Let_def split: if_splits)

section \<open>Keys\<close>

lemma after_last:
  assumes "a @ d # u = b @ d # v" and "d \<notin> set u" and "d \<notin> set v"
  shows "u = v"
proof -
  have cut: "takeWhile (\<lambda>c. c \<noteq> d) (rev x @ d # y) = rev x" if "d \<notin> set x" for x y
    using that by (subst takeWhile_append2) auto
  have "rev u @ d # rev a = rev v @ d # rev b"
    using arg_cong [OF assms(1), of rev] by simp
  from arg_cong [OF this, of "takeWhile (\<lambda>c. c \<noteq> d)"] cut [OF assms(2)] cut [OF assms(3)] show ?thesis by simp
qed

lemma digits_no_colon: "CHR '':'' \<notin> set (nat_digits n)"
proof -
  have "list_all is_digit (nat_digits n)" using nat_digits_digits by simp
  moreover have "\<not> is_digit (CHR '':'')" by (simp add: is_digit_def byte_between_def)
  ultimately show ?thesis by (auto simp: list_all_iff)
qed

lemma itoa_no_colon: "CHR '':'' \<notin> set (itoa n)"
  using digits_no_colon by (simp add: itoa_def)

lemma itoa_inject:
  assumes "itoa m = itoa n" and "int64_range m" and "int64_range n"
  shows "m = n"
  using arg_cong [OF assms(1), of atoi] atoi_itoa assms(2,3) by simp

lemma same_window:
  assumes "go_quot t w = go_quot t' w" and "0 \<le> t" and "0 \<le> t'" and "0 < w"
  shows "t' < t + w"
proof -
  have q: "t div w = t' div w" using assms by (simp add: go_quot_pos)
  have "t = t div w * w + t mod w" "t' = t' div w * w + t' mod w" by simp_all
  moreover have "t' mod w < w" "0 \<le> t mod w" using assms(4) by simp_all
  ultimately show ?thesis unfolding q by linarith
qed

lemma rate_key_window:
  assumes "rate_key c a p r t = rate_key c' a' p' r' t'" and "rc_window c = w" and "rc_window c' = w"
    and "0 \<le> t" and "0 \<le> t'" and "t < max_int64" and "t' < max_int64" and "0 < w"
  shows "t' < t + w"
proof (rule same_window)
  have "itoa (window_key t w) = itoa (window_key t' w)"
    using assms(1-3) itoa_no_colon
      after_last [of "''rate:'' @ rp_scope p @ '':'' @ client_ip a r" "CHR '':''" "itoa (window_key t w)"
        "''rate:'' @ rp_scope p' @ '':'' @ client_ip a' r'" "itoa (window_key t' w)"]
    by (simp add: rate_key_def)
  moreover have "int64_range (window_key t w)" "int64_range (window_key t' w)"
    using assms(4-8) zdiv_mono2 [of t 1 w] zdiv_mono2 [of t' 1 w]
      pos_imp_zdiv_nonneg_iff [of w t] pos_imp_zdiv_nonneg_iff [of w t']
    by (auto simp: window_key_def go_quot_pos int64_range_def max_int64_def)
  ultimately show "go_quot t w = go_quot t' w"
    using assms(8) itoa_inject by (auto simp: window_key_def)
qed (use assms in auto)

section \<open>What a store must do\<close>

text \<open>
  \<open>agrees used window now s\<close>: after the operations of the used, the last of them at \<open>now\<close>, the
  store is \<open>s\<close>. A store counts right as long as a key is only used within the window that began
  with its first use.
\<close>

locale counting_store =
  fixes increment :: "'s counter_store"
    and agrees :: "(string \<times> int) list \<Rightarrow> int \<Rightarrow> int \<Rightarrow> 's \<Rightarrow> bool"
    and start :: 's
  assumes agrees_start: "agrees [] window now start"
    and increments: "agrees used window now s \<Longrightarrow> available e \<Longrightarrow> 0 < window \<Longrightarrow> millisecond dvd window \<Longrightarrow>
      now \<le> env_now e \<Longrightarrow> int (length used) < max_int64 \<Longrightarrow>
      (\<And>t. (k, t) \<in> set used \<Longrightarrow> t \<le> now \<and> env_now e < t + window) \<Longrightarrow>
      \<exists>s'. increment k window e s = (Inr (int (count_list (map fst used) k) + 1), s') \<and>
        agrees (used @ [(k, env_now e)]) window (env_now e) s'"
begin

lemma serves_like_log:
  assumes "agrees used window now s" and "0 < window" and "millisecond dvd window"
    and "rc_window (normalized_rate_limit_config config) = window"
    and "sorted (now # map (\<lambda>x. env_now (snd (snd x))) reqs)" and "0 \<le> now"
    and "list_all (\<lambda>x. available (snd (snd x)) \<and> env_now (snd (snd x)) < max_int64) reqs"
    and "int (length used + length reqs) < max_int64"
    and "\<And>k t. (k, t) \<in> set used \<Longrightarrow> 0 \<le> t \<and> t \<le> now \<and>
      (\<exists>p r. k = rate_key (normalized_rate_limit_config config) address p r t)"
  shows "serve_all (limited lib increment config address pass) reqs s =
    serve_all (limited lib log_increment config address pass) reqs (map fst used)"
  using assms(1,5-9)
proof (induction reqs arbitrary: used now s)
  case Nil
  then show ?case by simp
next
  case (Cons x reqs)
  obtain route r e where x: "x = (route, r, e)" by (cases x)
  let ?c = "normalized_rate_limit_config config"
  have t: "now \<le> env_now e" "available e" "env_now e < max_int64" using Cons.prems(2,4) by (auto simp: x)
  show ?case
  proof (cases "applied_policy ?c route r")
    case None
    have "serve_all (limited lib increment config address pass) reqs s =
        serve_all (limited lib log_increment config address pass) reqs (map fst used)"
      using Cons.prems by (intro Cons.IH) (auto simp: x)
    with None show ?thesis by (simp add: x limited_free)
  next
    case (Some policy)
    let ?k = "rate_key ?c address policy r (env_now e)"
    have "q \<le> now \<and> env_now e < q + window" if q: "(?k, q) \<in> set used" for q
    proof -
      obtain p' r' where "?k = rate_key ?c address p' r' q" "0 \<le> q" "q \<le> now" using Cons.prems(6) [OF q] by blast
      then show ?thesis
        using rate_key_window [of ?c address p' r' q ?c address policy r "env_now e" window] t assms(2,4) by auto
    qed
    from increments [OF Cons.prems(1) t(2) assms(2,3) t(1) _ this] Cons.prems(5)
    obtain s' where inc: "increment ?k window e s = (Inr (int (count_list (map fst used) ?k) + 1), s')"
      and agrees: "agrees (used @ [(?k, env_now e)]) window (env_now e) s'" by auto
    have "serve_all (limited lib increment config address pass) reqs s' =
        serve_all (limited lib log_increment config address pass) reqs (map fst (used @ [(?k, env_now e)]))"
    proof (rule Cons.IH [OF agrees])
      fix k q assume "(k, q) \<in> set (used @ [(?k, env_now e)])"
      then show "0 \<le> q \<and> q \<le> env_now e \<and> (\<exists>p r. k = rate_key ?c address p r q)"
        using Cons.prems(3,6) t(1) by (auto intro: order_trans)
    qed (use Cons.prems t in \<open>auto simp: x\<close>)
    moreover have "log_increment ?k window e (map fst used) =
        (Inr (int (count_list (map fst used) ?k) + 1), map fst used @ [?k])" by (simp add: log_increment_def)
    ultimately show ?thesis
      using limited_counted [OF Some, of increment address e s] inc
        limited_counted [OF Some, of log_increment address e "map fst used"] by (simp add: x assms(4))
  qed
qed

end

section \<open>Both stores do it\<close>

definition cache_agrees :: "(string \<times> int) list \<Rightarrow> int \<Rightarrow> int \<Rightarrow> redis \<Rightarrow> bool" where
  "cache_agrees used window now m \<longleftrightarrow>
     (\<forall>k. if k \<in> fst ` set used
          then \<exists>t. (k, t) \<in> set used \<and> m k = Some \<lparr>kv_value = itoa (int (count_list (map fst used) k)),
                 kv_expires_at = Some (t div millisecond + go_quot window millisecond)\<rparr>
          else m k = None)"

definition memory_agrees :: "(string \<times> int) list \<Rightarrow> int \<Rightarrow> int \<Rightarrow> memory_counters \<Rightarrow> bool" where
  "memory_agrees used window now s \<longleftrightarrow>
     (\<forall>k. if k \<in> fst ` set used
          then \<exists>t. (k, t) \<in> set used \<and> (ms_entries s k = None \<and> t + window \<le> now \<or>
                 ms_entries s k = Some \<lparr>mc_count = int (count_list (map fst used) k), mc_expires = t + window\<rparr>)
          else ms_entries s k = None)"

lemma itoa_one: "itoa 1 = ''1''"
  by code_simp

lemma count_list_absent: "k \<notin> fst ` set used \<Longrightarrow> count_list (map fst used) k = 0"
  by (simp add: count_list_0_iff)

lemma count_list_range:
  assumes "int (length used) < max_int64"
  shows "int64_range (int (count_list (map fst used) k) + 1)"
  using count_le_length [of "map fst used" k] assms by (simp add: int64_range_def max_int64_def)

lemma within_window:
  assumes "now < t + window" and "millisecond dvd window" and "0 < window"
  shows "\<not> t div millisecond + go_quot window millisecond < now div millisecond"
proof -
  have "(t + window) div millisecond = t div millisecond + window div millisecond"
    using assms(2) by (simp add: div_plus_div_distrib_dvd_right)
  moreover have "now div millisecond \<le> (t + window) div millisecond"
    using assms(1) by (intro zdiv_mono1) (auto simp: millisecond_def)
  moreover have "go_quot window millisecond = window div millisecond"
    using assms(3) by (simp add: go_quot_pos millisecond_def)
  ultimately show ?thesis by simp
qed

lemma window_milliseconds: "millisecond dvd window \<Longrightarrow> 0 < window \<Longrightarrow> 0 < go_quot window millisecond"
  by (auto simp: go_quot_pos millisecond_def dvd_def)

interpretation cached: counting_store "cache_increment True" cache_agrees Map.empty
proof
  show "cache_agrees [] window now Map.empty" for window now
    by (simp add: cache_agrees_def)
next
  fix used window now m e k
  assume agrees: "cache_agrees used window now m" and ok: "available e" and w: "0 < window" "millisecond dvd window"
    and "now \<le> env_now e" and len: "int (length used) < max_int64"
    and recent: "\<And>t. (k, t) \<in> set used \<Longrightarrow> t \<le> now \<and> env_now e < t + window"
  let ?n = "int (count_list (map fst used) k)"
  let ?ttl = "go_quot window millisecond"
  have "\<exists>t. (k, t) \<in> set (used @ [(k, env_now e)]) \<and>
      atomic_increment_script (redis_clock e) k ?ttl m = Some (?n + 1,
        m(k \<mapsto> \<lparr>kv_value = itoa (?n + 1), kv_expires_at = Some (t div millisecond + ?ttl)\<rparr>))"
  proof (cases "k \<in> fst ` set used")
    case True
    with agrees obtain t where t: "(k, t) \<in> set used" "m k = Some \<lparr>kv_value = itoa ?n,
        kv_expires_at = Some (t div millisecond + ?ttl)\<rparr>"
      unfolding cache_agrees_def by metis
    have n: "?n \<noteq> 0" using True by (simp add: count_list_0_iff)
    have "redis_get (redis_clock e) k m = m k"
      using within_window [of "env_now e" t window] recent [OF t(1)] w t(2) by (simp add: redis_get_def redis_clock_def)
    moreover have "int64_range ?n"
      using count_list_range [OF len, of k] by (auto simp: int64_range_def)
    ultimately have "atomic_increment_script (redis_clock e) k ?ttl m = Some (?n + 1,
        m(k \<mapsto> \<lparr>kv_value = itoa (?n + 1), kv_expires_at = Some (t div millisecond + ?ttl)\<rparr>))"
      using t(2) n by (simp add: atomic_increment_script_def redis_incr_def atoi_itoa)
    with t(1) show ?thesis by auto
  next
    case False
    with agrees have "m k = None" unfolding cache_agrees_def by metis
    then have "redis_get (redis_clock e) k m = None" by (simp add: redis_get_def)
    then show ?thesis
      using count_list_absent [OF False]
      by (intro exI [of _ "env_now e"])
        (simp add: atomic_increment_script_def redis_incr_def redis_clock_def itoa_one)
  qed
  then obtain t where t: "(k, t) \<in> set (used @ [(k, env_now e)])"
    and script: "atomic_increment_script (redis_clock e) k ?ttl m = Some (?n + 1,
      m(k \<mapsto> \<lparr>kv_value = itoa (?n + 1), kv_expires_at = Some (t div millisecond + ?ttl)\<rparr>))" by blast
  let ?m = "m(k \<mapsto> \<lparr>kv_value = itoa (?n + 1), kv_expires_at = Some (t div millisecond + ?ttl)\<rparr>)"
  have "cache_increment True k window e m = (Inr (?n + 1), ?m)"
    using ok w window_milliseconds [of window] script by (simp add: cache_increment_def available_def Let_def)
  moreover have "cache_agrees (used @ [(k, env_now e)]) window (env_now e) ?m"
    unfolding cache_agrees_def
  proof
    fix j
    show "if j \<in> fst ` set (used @ [(k, env_now e)])
      then \<exists>t. (j, t) \<in> set (used @ [(k, env_now e)]) \<and> ?m j = Some
        \<lparr>kv_value = itoa (int (count_list (map fst (used @ [(k, env_now e)])) j)),
         kv_expires_at = Some (t div millisecond + ?ttl)\<rparr>
      else ?m j = None"
    proof (cases "j = k")
      case True
      with t show ?thesis by (auto simp: add.commute)
    next
      case False
      with agrees [unfolded cache_agrees_def, rule_format, of j] show ?thesis by (auto split: if_splits)
    qed
  qed
  ultimately show "\<exists>m'. cache_increment True k window e m = (Inr (?n + 1), m') \<and>
      cache_agrees (used @ [(k, env_now e)]) window (env_now e) m'" by blast
qed

lemma memory_increment_apply:
  assumes "available e" and "0 < window"
    and "m = (if (ms_operations s + 1) mod 2 ^ 64 mod memory_counter_cleanup_interval = 0
      then drop_expired (env_now e) (ms_entries s) else ms_entries s)"
    and "x = (case m k of None \<Rightarrow> \<lparr>mc_count = 0, mc_expires = env_now e + window\<rparr>
      | Some x \<Rightarrow> if \<not> env_now e < mc_expires x then \<lparr>mc_count = 0, mc_expires = env_now e + window\<rparr> else x)"
  shows "memory_increment k window e s = (Inr (wrap64 (mc_count x + 1)),
    \<lparr>ms_entries = m(k \<mapsto> x\<lparr>mc_count := wrap64 (mc_count x + 1)\<rparr>), ms_operations = (ms_operations s + 1) mod 2 ^ 64\<rparr>)"
  using assms(1,2) by (simp add: memory_increment_def available_def Let_def assms(3,4))

interpretation in_memory: counting_store memory_increment memory_agrees new_memory_counters
proof
  show "memory_agrees [] window now new_memory_counters" for window now
    by (simp add: memory_agrees_def new_memory_counters_def)
next
  fix used window now s e k
  assume agrees: "memory_agrees used window now s" and ok: "available e" and w: "0 < window" "millisecond dvd window"
    and later: "now \<le> env_now e" and len: "int (length used) < max_int64"
    and recent: "\<And>t. (k, t) \<in> set used \<Longrightarrow> t \<le> now \<and> env_now e < t + window"
  let ?n = "int (count_list (map fst used) k)"
  let ?o = "(ms_operations s + 1) mod 2 ^ 64"
  define m where "m = (if ?o mod memory_counter_cleanup_interval = 0 then drop_expired (env_now e) (ms_entries s)
    else ms_entries s)"
  have kept: "if j \<in> fst ` set used
      then \<exists>t. (j, t) \<in> set used \<and> (m j = None \<and> t + window \<le> env_now e \<or>
        m j = Some \<lparr>mc_count = int (count_list (map fst used) j), mc_expires = t + window\<rparr>)
      else m j = None" for j
    using agrees [unfolded memory_agrees_def, rule_format, of j] later
    by (fastforce simp: m_def drop_expired_def split: if_splits)
  have "\<exists>t. (k, t) \<in> set (used @ [(k, env_now e)]) \<and>
      memory_increment k window e s = (Inr (?n + 1),
        \<lparr>ms_entries = m(k \<mapsto> \<lparr>mc_count = ?n + 1, mc_expires = t + window\<rparr>), ms_operations = ?o\<rparr>)"
  proof (cases "k \<in> fst ` set used")
    case True
    with kept [of k] obtain t where t: "(k, t) \<in> set used" "m k = None \<and> t + window \<le> env_now e \<or>
        m k = Some \<lparr>mc_count = ?n, mc_expires = t + window\<rparr>" by auto
    with recent [OF t(1)] have "m k = Some \<lparr>mc_count = ?n, mc_expires = t + window\<rparr>" by auto
    with t(1) recent [OF t(1)] show ?thesis
      using ok w count_list_range [OF len, of k]
      by (intro exI [of _ t]) (simp add: memory_increment_apply [OF ok w(1) m_def refl] wrap64_id)
  next
    case False
    with kept [of k] have "m k = None" by simp
    then show ?thesis
      using ok w count_list_absent [OF False]
      by (intro exI [of _ "env_now e"])
        (simp add: memory_increment_apply [OF ok w(1) m_def refl] wrap64_id int64_range_def)
  qed
  then obtain t where t: "(k, t) \<in> set (used @ [(k, env_now e)])"
    and inc: "memory_increment k window e s = (Inr (?n + 1),
      \<lparr>ms_entries = m(k \<mapsto> \<lparr>mc_count = ?n + 1, mc_expires = t + window\<rparr>), ms_operations = ?o\<rparr>)" by blast
  let ?m = "m(k \<mapsto> \<lparr>mc_count = ?n + 1, mc_expires = t + window\<rparr>)"
  have "memory_agrees (used @ [(k, env_now e)]) window (env_now e) \<lparr>ms_entries = ?m, ms_operations = ?o\<rparr>"
    unfolding memory_agrees_def
  proof
    fix j
    show "if j \<in> fst ` set (used @ [(k, env_now e)])
      then \<exists>t. (j, t) \<in> set (used @ [(k, env_now e)]) \<and>
        (ms_entries \<lparr>ms_entries = ?m, ms_operations = ?o\<rparr> j = None \<and> t + window \<le> env_now e \<or>
         ms_entries \<lparr>ms_entries = ?m, ms_operations = ?o\<rparr> j = Some
          \<lparr>mc_count = int (count_list (map fst (used @ [(k, env_now e)])) j), mc_expires = t + window\<rparr>)
      else ms_entries \<lparr>ms_entries = ?m, ms_operations = ?o\<rparr> j = None"
    proof (cases "j = k")
      case True
      with t show ?thesis by (auto simp: add.commute)
    next
      case False
      with kept [of j] show ?thesis by (auto split: if_splits)
    qed
  qed
  with inc show "\<exists>s'. memory_increment k window e s = (Inr (?n + 1), s') \<and>
      memory_agrees (used @ [(k, env_now e)]) window (env_now e) s'" by blast
qed

section \<open>The limiter counts exactly\<close>

text \<open>
  What the responses should be, without any store: request number \<open>i\<close> is counted under a key that
  names its scope, client and window, and is answered according to how many of the requests up to
  it have the same key.
\<close>

definition request_key ::
  "rate_limit_config \<Rightarrow> (string \<Rightarrow> string option) \<Rightarrow> route_policy \<times> request \<times> env \<Rightarrow> string option" where
  "request_key c address x =
     (case x of (route, r, e) \<Rightarrow> map_option (\<lambda>p. rate_key c address p r (env_now e)) (applied_policy c route r))"

definition expected_response ::
  "http_lib \<Rightarrow> rate_limit_config \<Rightarrow> (string \<Rightarrow> string option) \<Rightarrow> (request \<Rightarrow> env \<Rightarrow> writer \<Rightarrow> writer) \<Rightarrow>
   string list \<Rightarrow> (route_policy \<times> request \<times> env) list \<Rightarrow> nat \<Rightarrow> writer" where
  "expected_response lib c address pass used reqs i =
     (case reqs ! i of (route, r, e) \<Rightarrow>
        (case applied_policy c route r of
           None \<Rightarrow> pass r e new_writer
         | Some p \<Rightarrow>
             let k = rate_key c address p r (env_now e) in
               counted_reply lib (rc_window c) p
                 (int (count_list used k + count_list (map (request_key c address) (take (Suc i) reqs)) (Some k)))
                 pass r e new_writer))"

lemma serve_all_log:
  "serve_all (limited lib log_increment config address pass) reqs used =
     map (expected_response lib (normalized_rate_limit_config config) address pass used reqs) [0..<length reqs]"
proof (induction reqs arbitrary: used)
  case Nil
  then show ?case by simp
next
  case (Cons x reqs)
  obtain route r e where x: "x = (route, r, e)" by (cases x)
  let ?c = "normalized_rate_limit_config config"
  let ?exp = "expected_response lib ?c address pass"
  have shift: "map (?exp used (x # reqs)) [0..<length (x # reqs)] =
      ?exp used (x # reqs) 0 # map (\<lambda>i. ?exp used (x # reqs) (Suc i)) [0..<length reqs]"
    by (simp add: map_upt_Suc del: upt_Suc)
  show ?case
  proof (cases "applied_policy ?c route r")
    case None
    then have "?exp used (x # reqs) (Suc i) = ?exp used reqs i" for i
      by (auto simp: expected_response_def request_key_def x split: prod.split option.split)
    moreover have "?exp used (x # reqs) 0 = pass r e new_writer"
      using None by (simp add: expected_response_def x)
    ultimately show ?thesis
      unfolding shift using None by (simp add: x limited_free Cons.IH)
  next
    case (Some policy)
    let ?k = "rate_key ?c address policy r (env_now e)"
    have "log_increment ?k (rc_window ?c) e used = (Inr (int (count_list used ?k) + 1), used @ [?k])"
      by (simp add: log_increment_def)
    with limited_counted [OF Some, of log_increment address e used]
    have head: "limited lib log_increment config address pass route r e new_writer used =
        (?exp used (x # reqs) 0, used @ [?k])"
      by (simp add: expected_response_def request_key_def x Some add.commute)
    have "?exp used (x # reqs) (Suc i) = ?exp (used @ [?k]) reqs i" for i
      by (auto simp: expected_response_def request_key_def x Some Let_def ac_simps split: prod.split option.split)
    then show ?thesis
      unfolding shift using head by (simp add: x Cons.IH)
  qed
qed

text \<open>
  C31. The two counter stores are equivalent and count exactly. For requests that arrive in order,
  through any routes and from any clients, the limiter over Redis and the limiter over the memory
  store give the same responses, and these are the ones a counter without any expiry, clean-up or
  text encoding would give: a request passes the limiter iff no more requests of its client in its
  window and scope have arrived than the limit, itself included, and the headers tell the rest.
\<close>

theorem rate_limit_stores_agree:
  assumes "millisecond dvd rc_window (normalized_rate_limit_config config)"
    and "sorted (0 # map (\<lambda>x. env_now (snd (snd x))) reqs)"
    and "list_all (\<lambda>x. available (snd (snd x)) \<and> env_now (snd (snd x)) < max_int64) reqs"
    and "int (length reqs) < max_int64"
  shows "serve_all (limited lib (cache_increment True) config address pass) reqs Map.empty =
      map (expected_response lib (normalized_rate_limit_config config) address pass [] reqs) [0..<length reqs] \<and>
    serve_all (limited lib memory_increment config address pass) reqs new_memory_counters =
      map (expected_response lib (normalized_rate_limit_config config) address pass [] reqs) [0..<length reqs]"
proof -
  have w: "0 < rc_window (normalized_rate_limit_config config)"
    by (simp add: normalized_rate_limit_config_def positive_or_def default_rate_limit_config_def minute_def second_def)
  show ?thesis
    using cached.serves_like_log [OF cached.agrees_start w assms(1) refl assms(2) order_refl assms(3)]
      in_memory.serves_like_log [OF in_memory.agrees_start w assms(1) refl assms(2) order_refl assms(3)]
      assms(4) serve_all_log
    by simp
qed

definition plain_http :: http_lib where
  "plain_http = \<lparr>hl_sha256 = take 8, hl_problem_json = pb_detail\<rparr>"

definition sample_request :: request where
  "sample_request =
     \<lparr>rq_method = ''GET'', rq_target = ''/v1/rides'', rq_path = ''/v1/rides'', rq_raw_query = '''', rq_header = (\<lambda>_. []),
      rq_body = None, rq_read_limit = None, rq_content_length = 0, rq_remote_addr = ''10.0.0.9'', rq_tls = False,
      rq_client_ip = Some ''10.0.0.9'', rq_scheme = None, rq_request_id = None, rq_identity = None,
      rq_principal = None\<rparr>"

definition one_read :: rate_limit_config where
  "one_read = default_rate_limit_config\<lparr>rc_read := 1\<rparr>"

definition sample_reads :: "(route_policy \<times> request \<times> env) list" where
  "sample_reads = map (\<lambda>t. (RouteRead, sample_request, sample_time t)) [61, 70, 130]"

theorem rate_limit_stores_agree_witness:
  "map wr_status (serve_all (limited plain_http (cache_increment True) one_read Some (\<lambda>r e. write_body ''ok''))
     sample_reads Map.empty) = [200, 429, 200] \<and>
   serve_all (limited plain_http memory_increment one_read Some (\<lambda>r e. write_body ''ok'')) sample_reads new_memory_counters =
   serve_all (limited plain_http (cache_increment True) one_read Some (\<lambda>r e. write_body ''ok'')) sample_reads Map.empty"
proof -
  have "millisecond dvd rc_window (normalized_rate_limit_config one_read)" by code_simp
  moreover have "sorted (0 # map (\<lambda>x. env_now (snd (snd x))) sample_reads)" by code_simp
  moreover have "list_all (\<lambda>x. available (snd (snd x)) \<and> env_now (snd (snd x)) < max_int64) sample_reads" by code_simp
  moreover have "int (length sample_reads) < max_int64" by code_simp
  moreover have "map wr_status (map (expected_response plain_http (normalized_rate_limit_config one_read) Some
      (\<lambda>r e. write_body ''ok'') [] sample_reads) [0..<length sample_reads]) = [200, 429, 200]" by code_simp
  ultimately show ?thesis
    using rate_limit_stores_agree [of one_read sample_reads plain_http Some "\<lambda>r e. write_body ''ok''"] by simp
qed

end
