(* ===== verification/Idempotency.thy ===== *)
theory Idempotency
  imports Rate_Limit
begin

text \<open>
  The idempotency middleware of \<^verbatim>\<open>platform/httpx/middleware/idempotency.go\<close>: the Redis store, the
  memory store with its eviction, and the middleware, cut at its calls of the store so that
  requests can be interleaved (\<open>Idempotency_Run\<close>). A call of the store that fails has changed
  nothing. The iteration order of a Go map is a parameter of what depends on it.
\<close>

section \<open>Stores\<close>

record 's idempotency_store =
  is_get :: "string \<Rightarrow> ('s, string option) cmd"
  is_set :: "string \<Rightarrow> string \<Rightarrow> int \<Rightarrow> ('s, unit) cmd"
  is_set_nx :: "string \<Rightarrow> string \<Rightarrow> int \<Rightarrow> ('s, bool) cmd"
  is_delete_if_value :: "string \<Rightarrow> string \<Rightarrow> ('s, unit) cmd"

subsection \<open>Redis\<close>

definition cache_call :: "bool \<Rightarrow> string \<Rightarrow> (redis, 'a) cmd \<Rightarrow> (redis, 'a) cmd" where
  "cache_call configured name m =
     (if \<not> configured then io_throw (Failure ''redis idempotency store is not configured'') else query name m)"

definition cache_get :: "bool \<Rightarrow> string \<Rightarrow> (redis, string option) cmd" where
  "cache_get configured k = cache_call configured ''get idempotency response''
     (\<lambda>e m. (Inr (map_option kv_value (redis_get (redis_clock e) k m)), m))"

definition cache_set :: "bool \<Rightarrow> string \<Rightarrow> string \<Rightarrow> int \<Rightarrow> (redis, unit) cmd" where
  "cache_set configured k v expiration = cache_call configured ''set idempotency response''
     (\<lambda>e m. (Inr (), redis_set (redis_clock e) k v (go_quot expiration millisecond) m))"

definition cache_set_nx :: "bool \<Rightarrow> string \<Rightarrow> string \<Rightarrow> int \<Rightarrow> (redis, bool) cmd" where
  "cache_set_nx configured k v expiration = cache_call configured ''acquire idempotency lock''
     (\<lambda>e m. case redis_set_nx (redis_clock e) k v (go_quot expiration millisecond) m of (acquired, m') \<Rightarrow> (Inr acquired, m'))"

text \<open>The script that releases a lock only if it is still the caller's.\<close>

definition release_lock_script :: "int \<Rightarrow> string \<Rightarrow> string \<Rightarrow> redis \<Rightarrow> redis" where
  "release_lock_script now k v m = (if map_option kv_value (redis_get now k m) = Some v then m(k := None) else m)"

definition cache_delete_if_value :: "bool \<Rightarrow> string \<Rightarrow> string \<Rightarrow> (redis, unit) cmd" where
  "cache_delete_if_value configured k v = cache_call configured ''release idempotency lock''
     (\<lambda>e m. (Inr (), release_lock_script (redis_clock e) k v m))"

definition cache_idempotency_store :: "bool \<Rightarrow> redis idempotency_store" where
  "cache_idempotency_store configured =
     \<lparr>is_get = cache_get configured, is_set = cache_set configured, is_set_nx = cache_set_nx configured,
      is_delete_if_value = cache_delete_if_value configured\<rparr>"

subsection \<open>Memory\<close>

record memory_entry =
  me_value :: string
  me_expires :: int

text \<open>
  The map of entries is an association list with distinct keys; \<open>order\<close> gives the order in which
  \<open>range\<close> visits the entries.
\<close>

record memory_idempotency =
  mi_entries :: "(string \<times> memory_entry) list"
  mi_capacity :: int
  mi_last_eviction :: int

type_synonym map_order = "(string \<times> memory_entry) list \<Rightarrow> (string \<times> memory_entry) list"

definition default_memory_idempotency_capacity :: int where
  "default_memory_idempotency_capacity = 4096"

definition memory_idempotency_eviction_interval :: int where
  "memory_idempotency_eviction_interval = minute"

text \<open>The zero \<open>time.Time\<close>, the first of January of the year 1.\<close>

definition zero_time :: int where
  "zero_time = -62135596800 * second"

definition new_memory_idempotency :: "int \<Rightarrow> memory_idempotency" where
  "new_memory_idempotency capacity =
     \<lparr>mi_entries = [], mi_capacity = (if capacity \<le> 0 then default_memory_idempotency_capacity else capacity),
      mi_last_eviction = zero_time\<rparr>"

text \<open>The inner loop: the key with the earliest expiry, the first one visited on a tie.\<close>

fun oldest_key :: "string \<times> int \<Rightarrow> (string \<times> memory_entry) list \<Rightarrow> string \<times> int" where
  "oldest_key best [] = best"
| "oldest_key (oldest, expires) ((k, v) # entries) =
     oldest_key (if oldest = '''' \<or> me_expires v < expires then (k, me_expires v) else (oldest, expires)) entries"

text \<open>
  The outer loop. Every round but the last removes an entry, so as many rounds as there are
  entries are enough.
\<close>

fun evict_oldest :: "map_order \<Rightarrow> nat \<Rightarrow> int \<Rightarrow> int \<Rightarrow> (string \<times> memory_entry) list \<Rightarrow> (string \<times> memory_entry) list" where
  "evict_oldest order 0 capacity target entries = entries"
| "evict_oldest order (Suc n) capacity target entries =
     (if int (length entries) \<ge> capacity \<and> int (length entries) > target
      then let k = fst (oldest_key ('''', zero_time) (order entries)) in
             if k = '''' then entries else evict_oldest order n capacity target (AList.delete k entries)
      else entries)"

definition memory_capacity :: "memory_idempotency \<Rightarrow> int" where
  "memory_capacity s = (if mi_capacity s \<le> 0 then default_memory_idempotency_capacity else mi_capacity s)"

definition evict_locked :: "map_order \<Rightarrow> int \<Rightarrow> memory_idempotency \<Rightarrow> memory_idempotency" where
  "evict_locked order now s =
     (if mi_entries s = [] then s
      else
        let capacity = memory_capacity s;
            s = (if int (length (mi_entries s)) \<ge> capacity
                    \<or> now - mi_last_eviction s \<ge> memory_idempotency_eviction_interval
                 then s\<lparr>mi_last_eviction := now, mi_entries := filter (\<lambda>(k, v). now < me_expires v) (mi_entries s)\<rparr>
                 else s)
        in if int (length (mi_entries s)) \<ge> capacity
           then let target = max 1 (go_quot (capacity * 9) 10) in
                  s\<lparr>mi_entries := evict_oldest order (length (mi_entries s)) capacity target (mi_entries s)\<rparr>
           else s)"

definition memory_call :: "(memory_idempotency, 'a) cmd \<Rightarrow> (memory_idempotency, 'a) cmd" where
  "memory_call m = (\<lambda>e s. if env_fault e ''context'' then (Inl ContextCanceled, s) else m e s)"

definition memory_get :: "string \<Rightarrow> (memory_idempotency, string option) cmd" where
  "memory_get k = memory_call (\<lambda>e s.
     case map_of (mi_entries s) k of
       None \<Rightarrow> (Inr None, s\<lparr>mi_entries := AList.delete k (mi_entries s)\<rparr>)
     | Some x \<Rightarrow>
         if \<not> env_now e < me_expires x then (Inr None, s\<lparr>mi_entries := AList.delete k (mi_entries s)\<rparr>)
         else (Inr (Some (me_value x)), s))"

definition memory_put :: "string \<Rightarrow> string \<Rightarrow> int \<Rightarrow> memory_idempotency \<Rightarrow> memory_idempotency" where
  "memory_put k v expires s = s\<lparr>mi_entries := AList.update k \<lparr>me_value = v, me_expires = expires\<rparr> (mi_entries s)\<rparr>"

definition memory_set :: "map_order \<Rightarrow> string \<Rightarrow> string \<Rightarrow> int \<Rightarrow> (memory_idempotency, unit) cmd" where
  "memory_set order k v expiration = memory_call (\<lambda>e s.
     (Inr (), memory_put k v (env_now e + expiration) (evict_locked order (env_now e) s)))"

definition memory_set_nx :: "map_order \<Rightarrow> string \<Rightarrow> string \<Rightarrow> int \<Rightarrow> (memory_idempotency, bool) cmd" where
  "memory_set_nx order k v expiration = memory_call (\<lambda>e s.
     let s = evict_locked order (env_now e) s in
       case map_of (mi_entries s) k of
         Some x \<Rightarrow> if env_now e < me_expires x then (Inr False, s)
                   else (Inr True, memory_put k v (env_now e + expiration) s)
       | None \<Rightarrow> (Inr True, memory_put k v (env_now e + expiration) s))"

definition memory_delete_if_value :: "string \<Rightarrow> string \<Rightarrow> (memory_idempotency, unit) cmd" where
  "memory_delete_if_value k v = memory_call (\<lambda>e s.
     case map_of (mi_entries s) k of
       Some x \<Rightarrow> if me_value x = v then (Inr (), s\<lparr>mi_entries := AList.delete k (mi_entries s)\<rparr>) else (Inr (), s)
     | None \<Rightarrow> (Inr (), s))"

definition memory_idempotency_store :: "map_order \<Rightarrow> memory_idempotency idempotency_store" where
  "memory_idempotency_store order =
     \<lparr>is_get = memory_get, is_set = memory_set order, is_set_nx = memory_set_nx order,
      is_delete_if_value = memory_delete_if_value\<rparr>"

section \<open>Keys and fingerprints\<close>

definition authorization_scope :: "http_lib \<Rightarrow> request \<Rightarrow> string" where
  "authorization_scope lib r =
     (case principal_from_request r of
        Some p \<Rightarrow> hex_encode (hl_sha256 lib (pl_role p @ '':'' @ itoa (pl_user_id p)))
      | None \<Rightarrow> hex_encode (hl_sha256 lib (trim_space (header_get ''Authorization'' r))))"

definition request_target_scope :: "http_lib \<Rightarrow> request \<Rightarrow> string" where
  "request_target_scope lib r = hex_encode (hl_sha256 lib (rq_method r @ [CHR 0x0A] @ rq_target r))"

definition valid_idempotency_key :: "string \<Rightarrow> bool" where
  "valid_idempotency_key value \<longleftrightarrow>
     8 \<le> length value \<and> length value \<le> 128 \<and> \<not> contains_control_character value"

definition request_fingerprint :: "http_lib \<Rightarrow> request \<Rightarrow> string \<Rightarrow> string" where
  "request_fingerprint lib r body =
     hex_encode (hl_sha256 lib (rq_method r @ [CHR 0x0A] @ rq_target r @ [CHR 0x0A] @ authorization_scope lib r
       @ [CHR 0x0A] @ body))"

definition idempotency_base_key :: "http_lib \<Rightarrow> request \<Rightarrow> string \<Rightarrow> string" where
  "idempotency_base_key lib r key =
     ''idempotency:'' @ request_target_scope lib r @ '':'' @ authorization_scope lib r @ '':'' @ key"

definition result_key :: "string \<Rightarrow> string" where
  "result_key base = base @ '':result''"

definition lock_key :: "string \<Rightarrow> string" where
  "lock_key base = base @ '':lock''"

definition new_lock_token :: "env \<Rightarrow> err + string" where
  "new_lock_token e =
     (if env_fault e ''rand'' then Inl (Fault ''rand'') else Inr (take 16 (env_random e ''lock token'')))"

section \<open>Recorded responses\<close>

record idempotent_response =
  ip_fingerprint :: string
  ip_status :: int
  ip_headers :: "(string \<times> string list) list"
  ip_body :: string

text \<open>The JSON text of a recorded response.\<close>

record idempotency_lib =
  il_http :: http_lib
  il_json :: "idempotent_response \<Rightarrow> string option"
  il_parse :: "string \<Rightarrow> idempotent_response option"

definition max_idempotency_body_bytes :: int where
  "max_idempotency_body_bytes = 10 * 1024 * 1024"

definition kept_header :: "string \<Rightarrow> bool" where
  "kept_header k \<longleftrightarrow>
     \<not> equal_fold k ''X-Request-ID'' \<and> \<not> has_prefix ''x-ratelimit-'' (to_lower k) \<and> \<not> equal_fold k ''Retry-After''"

definition clone_headers :: "(string \<times> string list) list \<Rightarrow> (string \<times> string list) list" where
  "clone_headers h = filter (\<lambda>(k, vs). kept_header k) h"

text \<open>
  What the capturing writer has seen of a response that started empty: more than the limit makes
  it uncacheable, and only a status from 200 to 299 is recorded.
\<close>

definition cacheable :: "writer \<Rightarrow> bool" where
  "cacheable w \<longleftrightarrow> int (length (wr_body w)) \<le> max_idempotency_body_bytes \<and> 200 \<le> wr_status w \<and> wr_status w < 300"

definition captured_response :: "string \<Rightarrow> writer \<Rightarrow> idempotent_response" where
  "captured_response fingerprint w =
     \<lparr>ip_fingerprint = fingerprint, ip_status = wr_status w, ip_headers = clone_headers (wr_header w),
      ip_body = wr_body w\<rparr>"

definition put_headers :: "(string \<times> string list) list \<Rightarrow> writer \<Rightarrow> writer" where
  "put_headers hs w = w\<lparr>wr_header := foldl (\<lambda>h (k, vs). header_put k vs h) (wr_header w) hs\<rparr>"

definition replay_idempotent_response :: "idempotency_lib \<Rightarrow> string \<Rightarrow> string \<Rightarrow> writer \<Rightarrow> writer" where
  "replay_idempotent_response lib encoded fingerprint w =
     (case il_parse lib encoded of
        None \<Rightarrow> write_security_error (il_http lib) 409 ''idempotency key was used with a different request'' w
      | Some response \<Rightarrow>
          if ip_fingerprint response \<noteq> fingerprint
          then write_security_error (il_http lib) 409 ''idempotency key was used with a different request'' w
          else write_body (ip_body response) (write_header (ip_status response) (put_headers (ip_headers response) w)))"

section \<open>The middleware\<close>

record 's idempotency =
  id_store :: "'s idempotency_store option"
  id_expiration :: int
  id_lock_timeout :: int

definition default_idempotency_expiration :: int where
  "default_idempotency_expiration = 10 * minute"

definition new_idempotency :: "'s idempotency_store option \<Rightarrow> int option \<Rightarrow> 's idempotency" where
  "new_idempotency store expiration =
     \<lparr>id_store = store,
      id_expiration = (case expiration of Some x \<Rightarrow> if 0 < x then x else default_idempotency_expiration
                         | None \<Rightarrow> default_idempotency_expiration),
      id_lock_timeout = minute\<rparr>"

datatype idempotency_plan =
    Unprotected
  | Refused int string
  | Protected string string string

text \<open>
  Everything before the first call of the store: the base key, the fingerprint and the body that
  was read.
\<close>

definition idempotency_plan :: "http_lib \<Rightarrow> request \<Rightarrow> idempotency_plan" where
  "idempotency_plan lib r =
     (if \<not> is_state_changing_method (rq_method r) then Unprotected
      else
        let key = trim_space (header_get ''Idempotency-Key'' r) in
          if key = '''' then Unprotected
          else if \<not> valid_idempotency_key key then Refused 400 ''invalid idempotency key''
          else
            (case read_all (max_bytes_reader max_idempotency_body_bytes r) of
               None \<Rightarrow> Refused 413 ''request body is too large''
             | Some body \<Rightarrow> Protected (idempotency_base_key lib r key) (request_fingerprint lib r body) body))"

definition protection_unavailable :: "http_lib \<Rightarrow> writer \<Rightarrow> writer" where
  "protection_unavailable lib w =
     write_security_error lib 503 ''request protection is temporarily unavailable'' (set_header ''Retry-After'' ''1'' w)"

text \<open>A lookup, which answers from a recorded response when there is one.\<close>

definition idempotency_lookup ::
  "idempotency_lib \<Rightarrow> 's idempotency_store \<Rightarrow> string \<Rightarrow> string \<Rightarrow> writer \<Rightarrow> env \<Rightarrow> 's \<Rightarrow> writer option \<times> 's" where
  "idempotency_lookup lib store base fingerprint w e s =
     (case is_get store (result_key base) e s of
        (Inl _, s') \<Rightarrow> (Some (protection_unavailable (il_http lib) w), s')
      | (Inr (Some (c # cached)), s') \<Rightarrow> (Some (replay_idempotent_response lib (c # cached) fingerprint w), s')
      | (Inr _, s') \<Rightarrow> (None, s'))"

text \<open>Taking the lock: an answer, or the token that holds it.\<close>

definition idempotency_acquire ::
  "idempotency_lib \<Rightarrow> 's idempotency_store \<Rightarrow> int \<Rightarrow> string \<Rightarrow> writer \<Rightarrow> env \<Rightarrow> 's \<Rightarrow> (writer + string) \<times> 's" where
  "idempotency_acquire lib store timeout base w e s =
     (case new_lock_token e of
        Inl _ \<Rightarrow> (Inl (protection_unavailable (il_http lib) w), s)
      | Inr token \<Rightarrow>
          (case is_set_nx store (lock_key base) token timeout e s of
             (Inl _, s') \<Rightarrow> (Inl (protection_unavailable (il_http lib) w), s')
           | (Inr acquired, s') \<Rightarrow>
               if acquired then (Inr token, s')
               else (Inl (write_security_error (il_http lib) 409
                       ''request with this idempotency key is already in progress'' w), s')))"

text \<open>Recording the response the handler gave.\<close>

definition idempotency_record ::
  "idempotency_lib \<Rightarrow> 's idempotency_store \<Rightarrow> int \<Rightarrow> string \<Rightarrow> string \<Rightarrow> writer \<Rightarrow> env \<Rightarrow> 's \<Rightarrow> 's" where
  "idempotency_record lib store expiration base fingerprint w e s =
     (if \<not> cacheable w then s
      else
        (case il_json lib (captured_response fingerprint w) of
           None \<Rightarrow> s
         | Some record_text \<Rightarrow> snd (is_set store (result_key base) record_text expiration e s)))"

definition idempotency_release :: "'s idempotency_store \<Rightarrow> string \<Rightarrow> string \<Rightarrow> env \<Rightarrow> 's \<Rightarrow> 's" where
  "idempotency_release store base token e s = snd (is_delete_if_value store (lock_key base) token e s)"

text \<open>The request that takes the lock, up to the release of the lock that \<open>defer\<close> makes certain.\<close>

definition idempotency_locked ::
  "idempotency_lib \<Rightarrow> 's idempotency_store \<Rightarrow> int \<Rightarrow> string \<Rightarrow> string \<Rightarrow> string \<Rightarrow> 's middleware" where
  "idempotency_locked lib store expiration base fingerprint token next r e w s =
     (case idempotency_lookup lib store base fingerprint w e s of
        (Some answer, s') \<Rightarrow> (answer, idempotency_release store base token e s')
      | (None, s') \<Rightarrow>
          (case next r e w s' of (w', s'') \<Rightarrow>
             (w', idempotency_release store base token e
                    (idempotency_record lib store expiration base fingerprint w' e s''))))"

definition idempotency_middleware :: "idempotency_lib \<Rightarrow> 's idempotency \<Rightarrow> 's middleware" where
  "idempotency_middleware lib idem next r e w s =
     (case id_store idem of
        None \<Rightarrow> next r e w s
      | Some store \<Rightarrow>
          (case idempotency_plan (il_http lib) r of
             Unprotected \<Rightarrow> next r e w s
           | Refused status message \<Rightarrow> (write_security_error (il_http lib) status message w, s)
           | Protected base fingerprint body \<Rightarrow>
               let r = r\<lparr>rq_body := Some body, rq_read_limit := None\<rparr> in
               (case idempotency_lookup lib store base fingerprint w e s of
                  (Some answer, s1) \<Rightarrow> (answer, s1)
                | (None, s1) \<Rightarrow>
                    (case idempotency_acquire lib store (id_lock_timeout idem) base w e s1 of
                       (Inl answer, s2) \<Rightarrow> (answer, s2)
                     | (Inr token, s2) \<Rightarrow>
                         idempotency_locked lib store (id_expiration idem) base fingerprint token next r e w s2))))"

end
