(* ===== verification/Idempotency_Run.thy ===== *)
theory Idempotency_Run
  imports Idempotency
begin

text \<open>
  Requests with idempotency keys, interleaved between their calls of the store. The contract of a
  store of keys with an expiry is a locale; under it a response that has been recorded is the
  answer to every further request with its key until it expires, and no handler runs for it.
\<close>

section \<open>Requests in flight\<close>

text \<open>
  A request after its first lookup, with its lock, cleared by its second lookup, answered by its
  handler, and with nothing left but the release of the lock. The time is that of the lock.
\<close>

datatype flight =
    Looked string string
  | Locked string string string int
  | Cleared string string string int
  | Ran string string string int writer
  | Leaving string string

text \<open>A handler ran for a base key, and a response was recorded under it.\<close>

datatype idem_event =
    Executed string int
  | Recorded string int

record 's idem_run =
  ir_state :: 's
  ir_clock :: int
  ir_flights :: "nat \<Rightarrow> flight option"
  ir_tokens :: "string set"
  ir_log :: "idem_event list"

definition idem_start :: "'s \<Rightarrow> int \<Rightarrow> 's idem_run" where
  "idem_start s now = \<lparr>ir_state = s, ir_clock = now, ir_flights = Map.empty, ir_tokens = {}, ir_log = []\<rparr>"

text \<open>
  Whether \<open>idempotency_record\<close> stores a response.
\<close>

definition records :: "idempotency_lib \<Rightarrow> 's idempotency_store \<Rightarrow> int \<Rightarrow> string \<Rightarrow> string \<Rightarrow> writer \<Rightarrow> env \<Rightarrow> 's \<Rightarrow> bool" where
  "records lib store expiration base fingerprint w e s \<longleftrightarrow>
     cacheable w \<and>
     (case il_json lib (captured_response fingerprint w) of
        None \<Rightarrow> False
      | Some text \<Rightarrow> fst (is_set store (result_key base) text expiration e s) = Inr ())"

text \<open>
  The steps. \<open>room\<close> is what the store needs in order not to lose a live entry; the token of a lock
  is fresh; a handler runs and its response is recorded while its lock lasts. The response of the
  handler is arbitrary, and its effects are not on the keys of the middleware.
\<close>

inductive idem_step ::
  "idempotency_lib \<Rightarrow> 's idempotency_store \<Rightarrow> ('s \<Rightarrow> bool) \<Rightarrow> int \<Rightarrow> int \<Rightarrow> 's idem_run \<Rightarrow> 's idem_run \<Rightarrow> bool"
  for lib store room expiration timeout where
  look: "ir_flights c n = None \<Longrightarrow> room (ir_state c) \<Longrightarrow> ir_clock c \<le> env_now e \<Longrightarrow>
    idempotency_lookup lib store base fingerprint w e (ir_state c) = (answer, s) \<Longrightarrow>
    idem_step lib store room expiration timeout c (c\<lparr>ir_state := s, ir_clock := env_now e,
      ir_flights := (if answer = None then (ir_flights c)(n \<mapsto> Looked base fingerprint) else ir_flights c)\<rparr>)"
| acquire: "ir_flights c n = Some (Looked base fingerprint) \<Longrightarrow> room (ir_state c) \<Longrightarrow> ir_clock c \<le> env_now e \<Longrightarrow>
    idempotency_acquire lib store timeout base w e (ir_state c) = (Inr token, s) \<Longrightarrow> token \<notin> ir_tokens c \<Longrightarrow>
    idem_step lib store room expiration timeout c (c\<lparr>ir_state := s, ir_clock := env_now e,
      ir_flights := (ir_flights c)(n \<mapsto> Locked base fingerprint token (env_now e)),
      ir_tokens := insert token (ir_tokens c)\<rparr>)"
| refuse: "ir_flights c n = Some (Looked base fingerprint) \<Longrightarrow> room (ir_state c) \<Longrightarrow> ir_clock c \<le> env_now e \<Longrightarrow>
    idempotency_acquire lib store timeout base w e (ir_state c) = (Inl answer, s) \<Longrightarrow>
    idem_step lib store room expiration timeout c (c\<lparr>ir_state := s, ir_clock := env_now e,
      ir_flights := (ir_flights c)(n := None)\<rparr>)"
| check: "ir_flights c n = Some (Locked base fingerprint token t0) \<Longrightarrow> room (ir_state c) \<Longrightarrow> ir_clock c \<le> env_now e \<Longrightarrow>
    idempotency_lookup lib store base fingerprint w e (ir_state c) = (answer, s) \<Longrightarrow>
    idem_step lib store room expiration timeout c (c\<lparr>ir_state := s, ir_clock := env_now e,
      ir_flights := (ir_flights c)(n \<mapsto>
        (if answer = None then Cleared base fingerprint token t0 else Leaving base token))\<rparr>)"
| run: "ir_flights c n = Some (Cleared base fingerprint token t0) \<Longrightarrow> ir_clock c \<le> now \<Longrightarrow>
    now + millisecond \<le> t0 + timeout \<Longrightarrow>
    idem_step lib store room expiration timeout c (c\<lparr>ir_clock := now,
      ir_flights := (ir_flights c)(n \<mapsto> Ran base fingerprint token t0 w),
      ir_log := ir_log c @ [Executed base now]\<rparr>)"
| record_response: "ir_flights c n = Some (Ran base fingerprint token t0 w) \<Longrightarrow> room (ir_state c) \<Longrightarrow> ir_clock c \<le> env_now e \<Longrightarrow>
    env_now e + millisecond \<le> t0 + timeout \<Longrightarrow>
    idem_step lib store room expiration timeout c (c\<lparr>
      ir_state := idempotency_record lib store expiration base fingerprint w e (ir_state c), ir_clock := env_now e,
      ir_flights := (ir_flights c)(n \<mapsto> Leaving base token),
      ir_log := ir_log c @ (if records lib store expiration base fingerprint w e (ir_state c)
        then [Recorded base (env_now e)] else [])\<rparr>)"
| release: "ir_flights c n = Some (Leaving base token) \<Longrightarrow> room (ir_state c) \<Longrightarrow> ir_clock c \<le> env_now e \<Longrightarrow>
    idem_step lib store room expiration timeout c (c\<lparr>ir_state := idempotency_release store base token e (ir_state c),
      ir_clock := env_now e, ir_flights := (ir_flights c)(n := None)\<rparr>)"

text \<open>An execution after a record of the same key comes only when the record has expired.\<close>

definition separated :: "int \<Rightarrow> idem_event \<Rightarrow> idem_event \<Rightarrow> bool" where
  "separated expiration x y =
     (case (x, y) of
        (Recorded b t, Executed b' t') \<Rightarrow> b \<noteq> b' \<or> t + expiration < t' + millisecond
      | _ \<Rightarrow> True)"

fun flight_lock :: "flight \<Rightarrow> (string \<times> string \<times> int) option" where
  "flight_lock (Looked b f) = None"
| "flight_lock (Locked b f token t) = Some (b, token, t)"
| "flight_lock (Cleared b f token t) = Some (b, token, t)"
| "flight_lock (Ran b f token t w) = Some (b, token, t)"
| "flight_lock (Leaving b token) = None"

fun flight_token :: "flight \<Rightarrow> string option" where
  "flight_token (Looked b f) = None"
| "flight_token (Locked b f token t) = Some token"
| "flight_token (Cleared b f token t) = Some token"
| "flight_token (Ran b f token t w) = Some token"
| "flight_token (Leaving b token) = Some token"

lemma result_not_lock [simp]: "result_key b \<noteq> lock_key b'" "lock_key b' \<noteq> result_key b"
proof -
  have "last (result_key b) \<noteq> last (lock_key b')" by (simp add: result_key_def lock_key_def)
  then show "result_key b \<noteq> lock_key b'" "lock_key b' \<noteq> result_key b" by metis+
qed

lemma key_inject [simp]: "result_key b = result_key b' \<longleftrightarrow> b = b'" "lock_key b = lock_key b' \<longleftrightarrow> b = b'"
  by (simp_all add: result_key_def lock_key_def)

section \<open>What a store must do\<close>

text \<open>
  \<open>view s t k\<close> is what a lookup of \<open>k\<close> at the time \<open>t\<close> gives if nothing happens before. Every call
  leaves the view of the other keys as it is, and what is set is seen until its expiry, up to the
  millisecond to which a store may round.
\<close>

locale expiring_store =
  fixes store :: "'s idempotency_store" and view :: "'s \<Rightarrow> int \<Rightarrow> string \<Rightarrow> string option" and room :: "'s \<Rightarrow> bool"
  assumes view_earlier: "view s t' k = Some v \<Longrightarrow> t \<le> t' \<Longrightarrow> view s t k = Some v"
    and get_view: "is_get store k e s = (q, s') \<Longrightarrow> env_now e \<le> t \<Longrightarrow> view s' t j = view s t j"
    and get_value: "is_get store k e s = (Inr found, s') \<Longrightarrow> found = view s (env_now e) k"
    and set_other: "is_set store k v d e s = (r, s') \<Longrightarrow> room s \<Longrightarrow> r = Inr () \<Longrightarrow> j \<noteq> k \<Longrightarrow> env_now e \<le> t \<Longrightarrow>
      view s' t j = view s t j"
    and set_failed: "is_set store k v d e s = (Inl x, s') \<Longrightarrow> s' = s"
    and set_live: "is_set store k v d e s = (Inr (), s') \<Longrightarrow> 0 < d \<Longrightarrow> millisecond dvd d \<Longrightarrow> env_now e \<le> t \<Longrightarrow>
      t + millisecond \<le> env_now e + d \<Longrightarrow> view s' t k = Some v"
    and set_nx_other: "is_set_nx store k v d e s = (a, s') \<Longrightarrow> room s \<Longrightarrow> j \<noteq> k \<or> a \<noteq> Inr True \<Longrightarrow> env_now e \<le> t \<Longrightarrow>
      view s' t j = view s t j"
    and set_nx_free: "is_set_nx store k v d e s = (Inr True, s') \<Longrightarrow> room s \<Longrightarrow> view s (env_now e) k = None"
    and set_nx_live: "is_set_nx store k v d e s = (Inr True, s') \<Longrightarrow> 0 < d \<Longrightarrow> millisecond dvd d \<Longrightarrow> env_now e \<le> t \<Longrightarrow>
      t + millisecond \<le> env_now e + d \<Longrightarrow> view s' t k = Some v"
    and delete_view: "is_delete_if_value store k v e s = (r, s') \<Longrightarrow> env_now e \<le> t \<Longrightarrow>
      view s' t j = (if r = Inr () \<and> j = k \<and> view s t k = Some v then None else view s t j)"
begin

definition holds_locks :: "int \<Rightarrow> 's idem_run \<Rightarrow> bool" where
  "holds_locks timeout c \<longleftrightarrow>
     (\<forall>n x b token t0 t. ir_flights c n = Some x \<longrightarrow> flight_lock x = Some (b, token, t0) \<longrightarrow> ir_clock c \<le> t \<longrightarrow>
        t + millisecond \<le> t0 + timeout \<longrightarrow> view (ir_state c) t (lock_key b) = Some token)"

definition own_tokens :: "'s idem_run \<Rightarrow> bool" where
  "own_tokens c \<longleftrightarrow>
     (\<forall>n x token. ir_flights c n = Some x \<longrightarrow> flight_token x = Some token \<longrightarrow> token \<in> ir_tokens c) \<and>
     (\<forall>n m x y token. ir_flights c n = Some x \<longrightarrow> ir_flights c m = Some y \<longrightarrow> flight_token x = Some token \<longrightarrow>
        flight_token y = Some token \<longrightarrow> n = m)"

definition shows_records :: "int \<Rightarrow> 's idem_run \<Rightarrow> bool" where
  "shows_records expiration c \<longleftrightarrow>
     (\<forall>b ts. Recorded b ts \<in> set (ir_log c) \<longrightarrow> ts \<le> ir_clock c \<and>
        (\<forall>t. ir_clock c \<le> t \<longrightarrow> t + millisecond \<le> ts + expiration \<longrightarrow>
          view (ir_state c) t (result_key b) \<notin> {None, Some ''''}))"

definition cleared_safe :: "int \<Rightarrow> int \<Rightarrow> 's idem_run \<Rightarrow> bool" where
  "cleared_safe expiration timeout c \<longleftrightarrow>
     (\<forall>n b f token t0 ts. ir_flights c n = Some (Cleared b f token t0) \<longrightarrow> Recorded b ts \<in> set (ir_log c) \<longrightarrow>
        ts + expiration < ir_clock c + millisecond \<or> t0 + timeout < ir_clock c + millisecond)"

definition idem_inv :: "int \<Rightarrow> int \<Rightarrow> 's idem_run \<Rightarrow> bool" where
  "idem_inv expiration timeout c \<longleftrightarrow>
     holds_locks timeout c \<and> own_tokens c \<and> shows_records expiration c \<and> cleared_safe expiration timeout c \<and>
     sorted_wrt (separated expiration) (ir_log c)"

lemma holds_locksD:
  assumes "holds_locks timeout c" and "ir_flights c n = Some x" and "flight_lock x = Some (b, token, t0)"
    and "ir_clock c \<le> t" and "t + millisecond \<le> t0 + timeout"
  shows "view (ir_state c) t (lock_key b) = Some token"
  using assms unfolding holds_locks_def by blast

lemma shows_recordsD:
  assumes "shows_records expiration c" and "Recorded b ts \<in> set (ir_log c)"
    and "ir_clock c \<le> t" and "t + millisecond \<le> ts + expiration"
  shows "view (ir_state c) t (result_key b) \<notin> {None, Some ''''}"
  using assms unfolding shows_records_def by blast

lemma own_tokensD:
  assumes "own_tokens c" and "ir_flights c n = Some x" and "flight_token x = Some token"
  shows "token \<in> ir_tokens c" and "ir_flights c m = Some y \<Longrightarrow> flight_token y = Some token \<Longrightarrow> n = m"
  using assms unfolding own_tokens_def by blast+

lemma idem_inv_start: "idem_inv expiration timeout (idem_start s now)"
  by (simp add: idem_inv_def idem_start_def holds_locks_def own_tokens_def shows_records_def cleared_safe_def)

lemma lookup_view:
  assumes "idempotency_lookup lib store b f w e s = (a, s')" and "env_now e \<le> t"
  shows "view s' t j = view s t j"
  using assms get_view
  by (auto simp: idempotency_lookup_def split: prod.splits sum.splits option.splits list.splits)

lemma lookup_none:
  assumes "idempotency_lookup lib store b f w e s = (None, s')"
  shows "view s (env_now e) (result_key b) \<in> {None, Some ''''}"
  using assms get_value
  by (fastforce simp: idempotency_lookup_def split: prod.splits sum.splits option.splits list.splits)

lemma acquire_ok:
  assumes "idempotency_acquire lib store timeout b w e s = (Inr token, s')" and "room s"
    and "0 < timeout" and "millisecond dvd timeout" and "env_now e \<le> t"
  shows "j \<noteq> lock_key b \<Longrightarrow> view s' t j = view s t j"
    and "view s (env_now e) (lock_key b) = None"
    and "t + millisecond \<le> env_now e + timeout \<Longrightarrow> view s' t (lock_key b) = Some token"
proof -
  from assms(1) have nx: "is_set_nx store (lock_key b) token timeout e s = (Inr True, s')"
    by (auto simp: idempotency_acquire_def split: prod.splits sum.splits if_splits)
  show "j \<noteq> lock_key b \<Longrightarrow> view s' t j = view s t j" using set_nx_other [OF nx assms(2) _ assms(5)] by simp
  show "view s (env_now e) (lock_key b) = None" using set_nx_free [OF nx assms(2)] .
  show "t + millisecond \<le> env_now e + timeout \<Longrightarrow> view s' t (lock_key b) = Some token"
    using set_nx_live [OF nx assms(3-5)] .
qed

lemma acquire_failed:
  assumes "idempotency_acquire lib store timeout b w e s = (Inl x, s')" and "room s" and "env_now e \<le> t"
  shows "view s' t j = view s t j"
  using assms set_nx_other [of "lock_key b" _ timeout e s _ s' j t]
  by (fastforce simp: idempotency_acquire_def split: prod.splits sum.splits if_splits)

lemma release_view:
  assumes "env_now e \<le> t"
  shows "view (idempotency_release store b token e s) t j =
    (if fst (is_delete_if_value store (lock_key b) token e s) = Inr () \<and> j = lock_key b \<and> view s t j = Some token
     then None else view s t j)"
  using delete_view [of "lock_key b" token e s _ _ t j] assms
  by (cases "is_delete_if_value store (lock_key b) token e s") (auto simp: idempotency_release_def)

text \<open>Recording: the other keys stay, and a recorded response is seen until it expires.\<close>

lemma record_cases:
  obtains "\<not> records lib store expiration b f w e s" and "idempotency_record lib store expiration b f w e s = s"
  | json s' where "records lib store expiration b f w e s" and "il_json lib (captured_response f w) = Some json"
    and "is_set store (result_key b) json expiration e s = (Inr (), s')"
    and "idempotency_record lib store expiration b f w e s = s'"
proof (cases "cacheable w \<and> il_json lib (captured_response f w) \<noteq> None")
  case True
  then obtain json where json: "cacheable w" "il_json lib (captured_response f w) = Some json" by auto
  obtain r s' where set: "is_set store (result_key b) json expiration e s = (r, s')" by fastforce
  show thesis
  proof (cases r)
    case (Inl x)
    then have "s' = s" using set set_failed by simp
    with Inl json set show thesis by (intro that(1)) (simp_all add: records_def idempotency_record_def)
  next
    case (Inr u)
    with json set show thesis by (intro that(2)) (simp_all add: records_def idempotency_record_def)
  qed
next
  case False
  then show thesis by (intro that(1)) (auto simp: records_def idempotency_record_def)
qed

lemma not_recorded:
  assumes "\<not> records lib store expiration b f w e s"
  shows "idempotency_record lib store expiration b f w e s = s"
  by (rule record_cases [of lib expiration b f w e s]) (use assms in simp_all)

lemma record_view:
  assumes "room s" and "env_now e \<le> t"
  shows "j \<noteq> result_key b \<Longrightarrow> view (idempotency_record lib store expiration b f w e s) t j = view s t j"
  using record_cases [of lib expiration b f w e s] set_other [OF _ assms(1) _ _ assms(2)] by metis

lemma recorded_live:
  assumes "records lib store expiration b f w e s" and "0 < expiration" and "millisecond dvd expiration"
    and "env_now e \<le> t" and "t + millisecond \<le> env_now e + expiration" and "\<And>r. il_json lib r \<noteq> Some ''''"
  shows "view (idempotency_record lib store expiration b f w e s) t (result_key b) \<notin> {None, Some ''''}"
proof -
  from assms(1) obtain json where json: "il_json lib (captured_response f w) = Some json"
    "view (idempotency_record lib store expiration b f w e s) t (result_key b) = Some json"
    using record_cases [of lib expiration b f w e s] set_live [OF _ assms(2-5)] by metis
  with assms(6) show ?thesis by auto
qed

text \<open>A step replaces one request in flight and keeps what the locks of the others need.\<close>

lemma holds_locks_update:
  assumes "holds_locks timeout c" and "ir_clock c \<le> ir_clock c'" and "ir_flights c' = (ir_flights c)(n := y)"
    and "\<And>m x b token t0 t. m \<noteq> n \<Longrightarrow> ir_flights c m = Some x \<Longrightarrow> flight_lock x = Some (b, token, t0) \<Longrightarrow>
      ir_clock c' \<le> t \<Longrightarrow> t + millisecond \<le> t0 + timeout \<Longrightarrow> view (ir_state c) t (lock_key b) = Some token \<Longrightarrow>
      view (ir_state c') t (lock_key b) = Some token"
    and "\<And>x b token t0 t. y = Some x \<Longrightarrow> flight_lock x = Some (b, token, t0) \<Longrightarrow> ir_clock c' \<le> t \<Longrightarrow>
      t + millisecond \<le> t0 + timeout \<Longrightarrow> view (ir_state c') t (lock_key b) = Some token"
  shows "holds_locks timeout c'"
  unfolding holds_locks_def
proof (intro allI impI)
  fix m x b token t0 t
  assume a: "ir_flights c' m = Some x" "flight_lock x = Some (b, token, t0)" "ir_clock c' \<le> t"
    "t + millisecond \<le> t0 + timeout"
  show "view (ir_state c') t (lock_key b) = Some token"
  proof (cases "m = n")
    case True
    with a(1) assms(3) have "y = Some x" by simp
    then show ?thesis using a(2-4) by (rule assms(5))
  next
    case False
    with a(1) assms(3) have old: "ir_flights c m = Some x" by simp
    have "ir_clock c \<le> t" using assms(2) a(3) by simp
    then have "view (ir_state c) t (lock_key b) = Some token"
      using assms(1) old a(2,4) unfolding holds_locks_def by blast
    with False old a(2-4) show ?thesis by (intro assms(4))
  qed
qed

lemma own_tokens_update:
  assumes "own_tokens c" and "ir_flights c' = (ir_flights c)(n := y)" and "ir_tokens c \<subseteq> ir_tokens c'"
    and "\<And>x token. y = Some x \<Longrightarrow> flight_token x = Some token \<Longrightarrow> token \<in> ir_tokens c' \<and>
      (token \<notin> ir_tokens c \<or> (\<exists>z. ir_flights c n = Some z \<and> flight_token z = Some token))"
  shows "own_tokens c'"
proof -
  note own = assms(1) [unfolded own_tokens_def]
  have "token \<in> ir_tokens c'" if "ir_flights c' m = Some x" "flight_token x = Some token" for m x token
    using that own assms(2-4) by (cases "m = n") auto
  moreover have "m = n" if "ir_flights c m = Some x" "flight_token x = Some token"
      "y = Some z" "flight_token z = Some token" for m x z token
    using that own assms(4) [OF that(3,4)] by blast
  ultimately show ?thesis
    using own assms(2) unfolding own_tokens_def by (auto split: if_splits)
qed

lemma shows_records_update:
  assumes "shows_records expiration c" and "ir_clock c \<le> ir_clock c'" and "set (ir_log c') \<subseteq> L \<union> set (ir_log c)"
    and "\<And>b ts t. ir_clock c' \<le> t \<Longrightarrow> ts \<le> ir_clock c' \<Longrightarrow> t + millisecond \<le> ts + expiration \<Longrightarrow>
      view (ir_state c) t (result_key b) \<notin> {None, Some ''''} \<Longrightarrow>
      view (ir_state c') t (result_key b) \<notin> {None, Some ''''}"
    and "\<And>b ts t. Recorded b ts \<in> L \<Longrightarrow> ir_clock c' \<le> t \<Longrightarrow> t + millisecond \<le> ts + expiration \<Longrightarrow>
      view (ir_state c') t (result_key b) \<notin> {None, Some ''''}"
    and "\<And>b ts. Recorded b ts \<in> L \<Longrightarrow> ts \<le> ir_clock c'"
  shows "shows_records expiration c'"
  unfolding shows_records_def
proof (intro allI impI conjI)
  fix b ts
  assume rec: "Recorded b ts \<in> set (ir_log c')"
  show ts: "ts \<le> ir_clock c'"
    using rec assms(1-3,6) unfolding shows_records_def by fastforce
  fix t assume a: "ir_clock c' \<le> t" "t + millisecond \<le> ts + expiration"
  show "view (ir_state c') t (result_key b) \<notin> {None, Some ''''}"
  proof (cases "Recorded b ts \<in> L")
    case True
    then show ?thesis using a by (rule assms(5))
  next
    case False
    with rec assms(3) have "Recorded b ts \<in> set (ir_log c)" by blast
    moreover have "ir_clock c \<le> t" using assms(2) a(1) by simp
    ultimately have "view (ir_state c) t (result_key b) \<notin> {None, Some ''''}"
      using assms(1) a(2) unfolding shows_records_def by blast
    then show ?thesis using a ts by (intro assms(4)) auto
  qed
qed

lemma cleared_safe_update:
  assumes "cleared_safe expiration timeout c" and "ir_clock c \<le> ir_clock c'" and "ir_flights c' = (ir_flights c)(n := y)"
    and "\<And>b f token t0 ts. y = Some (Cleared b f token t0) \<Longrightarrow> Recorded b ts \<in> set (ir_log c') \<Longrightarrow>
      ts + expiration < ir_clock c' + millisecond"
    and "\<And>m b f token t0 ts. m \<noteq> n \<Longrightarrow> ir_flights c m = Some (Cleared b f token t0) \<Longrightarrow> Recorded b ts \<in> set (ir_log c') \<Longrightarrow>
      Recorded b ts \<notin> set (ir_log c) \<Longrightarrow> t0 + timeout < ir_clock c' + millisecond"
  shows "cleared_safe expiration timeout c'"
  unfolding cleared_safe_def
proof (intro allI impI)
  fix m b f token t0 ts
  assume a: "ir_flights c' m = Some (Cleared b f token t0)" "Recorded b ts \<in> set (ir_log c')"
  show "ts + expiration < ir_clock c' + millisecond \<or> t0 + timeout < ir_clock c' + millisecond"
  proof (cases "m = n")
    case True
    with a assms(3,4) show ?thesis by auto
  next
    case False
    with a(1) assms(3) have old: "ir_flights c m = Some (Cleared b f token t0)" by simp
    show ?thesis
    proof (cases "Recorded b ts \<in> set (ir_log c)")
      case True
      with assms(1) old have "ts + expiration < ir_clock c + millisecond \<or> t0 + timeout < ir_clock c + millisecond"
        unfolding cleared_safe_def by blast
      with assms(2) show ?thesis by linarith
    next
      case False
      with assms(5) [OF \<open>m \<noteq> n\<close> old a(2)] show ?thesis by simp
    qed
  qed
qed

text \<open>While two locks of one key last, they are the same lock.\<close>

lemma one_lock:
  assumes "holds_locks timeout c" and "own_tokens c"
    and "ir_flights c n = Some x" and "flight_lock x = Some (b, token, t0)"
    and "ir_flights c m = Some y" and "flight_lock y = Some (b, token', t1)"
    and "ir_clock c \<le> t" and "t + millisecond \<le> t0 + timeout" and "t + millisecond \<le> t1 + timeout"
  shows "n = m"
proof -
  have "view (ir_state c) t (lock_key b) = Some token" "view (ir_state c) t (lock_key b) = Some token'"
    using assms unfolding holds_locks_def by blast+
  then have "token = token'" by simp
  moreover have "flight_token x = Some token" "flight_token y = Some token'"
    using assms(4,6) by (cases x; cases y; simp)+
  ultimately show ?thesis using assms(2,3,5) unfolding own_tokens_def by blast
qed

lemma idem_inv_quiet:
  assumes "idem_inv expiration timeout c" and "ir_clock c \<le> ir_clock c'" and "ir_flights c' = (ir_flights c)(n := y)"
    and "\<And>t j. ir_clock c' \<le> t \<Longrightarrow> view (ir_state c') t j = view (ir_state c) t j"
    and "ir_tokens c' = ir_tokens c" and "ir_log c' = ir_log c"
    and "\<And>x. y = Some x \<Longrightarrow> flight_lock x = None \<and> flight_token x = None"
  shows "idem_inv expiration timeout c'"
  unfolding idem_inv_def
proof (intro conjI)
  note inv = assms(1) [unfolded idem_inv_def]
  show "holds_locks timeout c'"
    using inv assms(4,7) by (intro holds_locks_update [OF _ assms(2,3)]) auto
  show "own_tokens c'"
    using inv assms(5,7) by (intro own_tokens_update [OF _ assms(3)]) auto
  show "shows_records expiration c'"
    using inv assms(4,6) by (intro shows_records_update [OF _ assms(2), where L = "{}"]) auto
  have "y \<noteq> Some (Cleared b f token t0)" for b f token t0 using assms(7) by fastforce
  then show "cleared_safe expiration timeout c'"
    using inv assms(6) by (intro cleared_safe_update [OF _ assms(2,3)]) auto
  show "sorted_wrt (separated expiration) (ir_log c')" using inv assms(6) by simp
qed

lemma idem_inv_step:
  assumes "idem_step lib store room expiration timeout c c'" and "idem_inv expiration timeout c"
    and "0 < expiration" and "millisecond dvd expiration" and "0 < timeout" and "millisecond dvd timeout"
    and "\<And>r. il_json lib r \<noteq> Some ''''"
  shows "idem_inv expiration timeout c'"
proof -
  have inv: "holds_locks timeout c" "own_tokens c" "shows_records expiration c" "cleared_safe expiration timeout c"
    "sorted_wrt (separated expiration) (ir_log c)" using assms(2) by (simp_all add: idem_inv_def)
  from assms(1) show ?thesis
  proof cases
    case (look n e base f w answer s)
    let ?y = "if answer = None then Some (Looked base f) else None"
    have fl: "ir_flights c' = (ir_flights c)(n := ?y)" using look(1,2) by (auto simp: fun_upd_idem_iff)
    note same = lookup_view [OF look(5)]
    show ?thesis
      using look(1,4) same by (intro idem_inv_quiet [OF assms(2) _ fl]) (auto split: if_splits)
  next
    case (acquire n base f e w token s)
    have fl: "ir_flights c' = (ir_flights c)(n := Some (Locked base f token (env_now e)))" using acquire(1) by simp
    note ok = acquire_ok [OF acquire(5,3) assms(5,6)]
    have other: "view s t (lock_key b) = Some k" if "view (ir_state c) t (lock_key b) = Some k" "env_now e \<le> t" for t b k
    proof -
      have "view (ir_state c) (env_now e) (lock_key b) = Some k" using view_earlier [OF that] .
      with ok(2) that(2) have "b \<noteq> base" by auto
      with ok(1) [OF that(2), of "lock_key b"] that(1) show ?thesis by simp
    qed
    have "holds_locks timeout c'"
      using acquire(1,4) other ok(3) 
        by (intro holds_locks_update [OF inv(1) _ fl]) (auto split: if_splits)
    moreover have "own_tokens c'" using acquire(1,6) 
        by (intro own_tokens_update [OF inv(2) fl]) (auto split: if_splits)
    moreover have "shows_records expiration c'"
      using acquire(1,4) ok(1) by (intro shows_records_update [OF inv(3), where L = "{}"]) auto
    moreover have "cleared_safe expiration timeout c'"
      using acquire(1,4) 
        by (intro cleared_safe_update [OF inv(4) _ fl]) (auto split: if_splits)
    ultimately show ?thesis using inv(5) acquire(1) by (simp add: idem_inv_def)
  next
    case (refuse n base f e w answer s)
    have fl: "ir_flights c' = (ir_flights c)(n := None)" using refuse(1) by simp
    note same = acquire_failed [OF refuse(5,3)]
    show ?thesis
      using refuse(1,4) same by (intro idem_inv_quiet [OF assms(2) _ fl]) simp_all
  next
    case (check n base f token t0 e w answer s)
    let ?x = "if answer = None then Cleared base f token t0 else Leaving base token"
    have fl: "ir_flights c' = (ir_flights c)(n := Some ?x)" using check(1) by simp
    note same = lookup_view [OF check(5)]
    have lock: "view s t (lock_key base) = Some token" if "env_now e \<le> t" "t + millisecond \<le> t0 + timeout" for t
    proof -
      have "view (ir_state c) t (lock_key base) = Some token"
        using holds_locksD [OF inv(1) check(2), of base token t0 t] check(4) that by simp
      then show ?thesis by (simp add: same [OF that(1)])
    qed
    have expired: "ts + expiration < env_now e + millisecond" if "answer = None" "Recorded base ts \<in> set (ir_log c)" for ts
    proof (rule ccontr)
      assume "\<not> ts + expiration < env_now e + millisecond"
      then have "view (ir_state c) (env_now e) (result_key base) \<notin> {None, Some ''''}"
        using shows_recordsD [OF inv(3) that(2) check(4)] by simp
      moreover have "view (ir_state c) (env_now e) (result_key base) \<in> {None, Some ''''}"
        using check(5) that(1) lookup_none by blast
      ultimately show False by blast
    qed
    have "holds_locks timeout c'"
      using check(1,4) same lock 
        by (intro holds_locks_update [OF inv(1) _ fl]) (auto split: if_splits)
    moreover have "own_tokens c'"
      using check(1,2) own_tokensD(1) [OF inv(2) check(2)]
        by (intro own_tokens_update [OF inv(2) fl]) (auto split: if_splits)
    moreover have "shows_records expiration c'"
      using check(1,4) same by (intro shows_records_update [OF inv(3), where L = "{}"]) auto
    moreover have "cleared_safe expiration timeout c'"
      using check(1,4) expired 
        by (intro cleared_safe_update [OF inv(4) _ fl]) (auto split: if_splits)
    ultimately show ?thesis using inv(5) check(1) by (simp add: idem_inv_def)
  next
    case (run n base f token t0 now w)
    have fl: "ir_flights c' = (ir_flights c)(n := Some (Ran base f token t0 w))" using run(1) by simp
    have lock: "view (ir_state c) t (lock_key base) = Some token" if "ir_clock c \<le> t" "t + millisecond \<le> t0 + timeout" for t
      using holds_locksD [OF inv(1) run(2), of base token t0 t] that by simp
    have "ts + expiration < now + millisecond" if "Recorded base ts \<in> set (ir_log c)" for ts
      using inv(4) run(2-4) that unfolding cleared_safe_def by fastforce
    then have "sorted_wrt (separated expiration) (ir_log c @ [Executed base now])"
      using inv(5) by (auto simp: sorted_wrt_append separated_def split: idem_event.splits)
    moreover have "holds_locks timeout c'"
      using run(1,3) lock 
        by (intro holds_locks_update [OF inv(1) _ fl]) (auto split: if_splits)
    moreover have "own_tokens c'"
      using run(1,2) own_tokensD(1) [OF inv(2) run(2)]
        by (intro own_tokens_update [OF inv(2) fl]) (auto split: if_splits)
    moreover have "shows_records expiration c'"
      using run(1,3) by (intro shows_records_update [OF inv(3), where L = "{Executed base now}"]) auto
    moreover have "cleared_safe expiration timeout c'"
      using run(1,3) 
        by (intro cleared_safe_update [OF inv(4) _ fl]) (auto split: if_splits)
    ultimately show ?thesis using run(1) by (simp add: idem_inv_def)
  next
    case (record_response n base f token t0 w e)
    let ?r = "records lib store expiration base f w e (ir_state c)"
    let ?L = "if ?r then {Recorded base (env_now e)} else {}"
    have fl: "ir_flights c' = (ir_flights c)(n := Some (Leaving base token))" using record_response(1) by simp
    note other = record_view [OF record_response(3)]
    have "holds_locks timeout c'"
      using record_response(1,4) other 
        by (intro holds_locks_update [OF inv(1) _ fl]) (auto split: if_splits)
    moreover have "own_tokens c'"
      using record_response(1,2) own_tokensD(1) [OF inv(2) record_response(2)]
        by (intro own_tokens_update [OF inv(2) fl]) (auto split: if_splits)
    moreover have "shows_records expiration c'"
    proof (rule shows_records_update [OF inv(3), of c' ?L])
      fix b ts t assume t: "ir_clock c' \<le> t" "ts \<le> ir_clock c'" "t + millisecond \<le> ts + expiration"
        and v: "view (ir_state c) t (result_key b) \<notin> {None, Some ''''}"
      then have now: "env_now e \<le> t" "t + millisecond \<le> env_now e + expiration" using record_response(1) by simp_all
      show "view (ir_state c') t (result_key b) \<notin> {None, Some ''''}"
      proof (cases "b = base \<and> ?r")
        case True
        with recorded_live [OF _ assms(3,4) now assms(7), of base f w "ir_state c"] record_response(1)
        show ?thesis by simp
      next
        case False
        have "view (ir_state c') t (result_key b) = view (ir_state c) t (result_key b)"
        proof (cases "b = base")
          case True
          with False not_recorded record_response(1) show ?thesis by simp
        next
          case False
          with other [OF now(1), of "result_key b" base lib expiration f w] record_response(1) show ?thesis by simp
        qed
        with v show ?thesis by simp
      qed
    next
      fix b ts t assume "Recorded b ts \<in> ?L" "ir_clock c' \<le> t" "t + millisecond \<le> ts + expiration"
      then show "view (ir_state c') t (result_key b) \<notin> {None, Some ''''}"
        using recorded_live [OF _ assms(3,4) _ _ assms(7), of base f w e "ir_state c" t] record_response(1)
        by (simp split: if_splits)
    qed (use record_response(1,4) in \<open>auto split: if_splits\<close>)
    moreover have "cleared_safe expiration timeout c'"
    proof (rule cleared_safe_update [OF inv(4) _ fl])
      fix m b f' token' t1 ts
      assume m: "m \<noteq> n" "ir_flights c m = Some (Cleared b f' token' t1)" "Recorded b ts \<in> set (ir_log c')"
        "Recorded b ts \<notin> set (ir_log c)"
      then have b: "b = base" using record_response(1) by (simp split: if_splits)
      show "t1 + timeout < ir_clock c' + millisecond"
        using one_lock [OF inv(1,2) m(2) _ record_response(2), of b token' t1 token t0 "env_now e"] m(1) b
          record_response(1,4,5) by (auto simp: not_less [symmetric])
    qed (use record_response(1,4) in simp_all)
    moreover have "sorted_wrt (separated expiration) (ir_log c')"
      using inv(5) record_response(1) by (auto simp: sorted_wrt_append separated_def split: idem_event.splits)
    ultimately show ?thesis by (simp add: idem_inv_def)
  next
    case (release n base token e)
    have fl: "ir_flights c' = (ir_flights c)(n := None)" using release(1) by simp
    note gone = release_view [of e]
    have "holds_locks timeout c'"
    proof (rule holds_locks_update [OF inv(1) _ fl])
      fix m x b k t0 t
      assume m: "m \<noteq> n" "ir_flights c m = Some x" "flight_lock x = Some (b, k, t0)" "ir_clock c' \<le> t"
        "view (ir_state c) t (lock_key b) = Some k"
      have "flight_token x = Some k" using m(3) by (cases x) simp_all
      then have "k \<noteq> token" using own_tokensD(2) [OF inv(2) m(2) _ release(2), of token] m(1) by auto
      with m(4,5) release(1) gone show "view (ir_state c') t (lock_key b) = Some k" by simp
    qed (use release(1,4) in simp_all)
    moreover have "own_tokens c'" using release(1) 
        by (intro own_tokens_update [OF inv(2) fl]) (auto split: if_splits)
    moreover have "shows_records expiration c'"
      using release(1,4) gone by (intro shows_records_update [OF inv(3), where L = "{}"]) auto
    moreover have "cleared_safe expiration timeout c'"
      using release(1,4) 
        by (intro cleared_safe_update [OF inv(4) _ fl]) (auto split: if_splits)
    ultimately show ?thesis using inv(5) release(1) by (simp add: idem_inv_def)
  qed
qed

lemma idem_inv_reachable:
  assumes "(idem_step lib store room expiration timeout)\<^sup>*\<^sup>* (idem_start s now) c"
    and "0 < expiration" and "millisecond dvd expiration" and "0 < timeout" and "millisecond dvd timeout"
    and "\<And>r. il_json lib r \<noteq> Some ''''"
  shows "idem_inv expiration timeout c"
  using assms(1)
  by (induction rule: rtranclp_induct) (auto intro: idem_inv_start idem_inv_step [OF _ _ assms(2-6)])

end

section \<open>Redis does it\<close>

definition cache_view :: "redis \<Rightarrow> int \<Rightarrow> string \<Rightarrow> string option" where
  "cache_view m t k = map_option kv_value (redis_get (t div millisecond) k m)"

lemma millisecond_bounds:
  assumes "0 < d" and "millisecond dvd d" and "t + millisecond \<le> now + d"
  shows "t div millisecond \<le> now div millisecond + go_quot d millisecond"
proof -
  have "(t + millisecond) div millisecond \<le> (now + d) div millisecond"
    using assms(3) by (intro zdiv_mono1) (simp_all add: millisecond_def)
  moreover have "(now + d) div millisecond = now div millisecond + d div millisecond"
    using assms(2) by (simp add: div_plus_div_distrib_dvd_right)
  moreover have "go_quot d millisecond = d div millisecond"
    using assms(1) by (simp add: go_quot_pos millisecond_def)
  ultimately show ?thesis by (simp add: millisecond_def)
qed

lemma redis_get_later: "now' \<le> now \<Longrightarrow> redis_get now' k m = None \<Longrightarrow> redis_get now k m = None"
  by (auto simp: redis_get_def split: option.splits if_splits)

lemma redis_get_earlier: "redis_get now k m = Some x \<Longrightarrow> now' \<le> now \<Longrightarrow> redis_get now' k m = Some x"
  by (auto simp: redis_get_def split: option.splits if_splits)

lemma redis_get_set:
  "redis_get t j (redis_set now k v ttl m) =
     (if j = k then (if t > now + ttl then None else Some \<lparr>kv_value = v, kv_expires_at = Some (now + ttl)\<rparr>)
      else redis_get t j m)"
  by (simp add: redis_get_def redis_set_def)

lemma redis_get_release:
  assumes "now \<le> u"
  shows "redis_get u j (release_lock_script now k v m) =
    (if j = k \<and> map_option kv_value (redis_get u k m) = Some v then None else redis_get u j m)"
proof -
  have drop: "redis_get u j (m(k := None)) = (if j = k then None else redis_get u j m)" for j
    by (simp add: redis_get_def)
  show ?thesis
  proof (cases "redis_get now k m")
    case None
    with redis_get_later [OF assms] show ?thesis by (simp add: release_lock_script_def)
  next
    case (Some x)
    then have "redis_get u k m = Some x \<or> redis_get u k m = None"
      using redis_get_earlier [OF _ assms, of k m] by (cases "redis_get u k m") auto
    with Some show ?thesis by (auto simp: release_lock_script_def drop)
  qed
qed

interpretation cached_results: expiring_store "cache_idempotency_store True" cache_view "\<lambda>_. True"
proof
  fix s t t' k v
  show "cache_view s t' k = Some v \<Longrightarrow> t \<le> t' \<Longrightarrow> cache_view s t k = Some v"
    unfolding cache_view_def
    using redis_get_earlier [of "t' div millisecond" k s _ "t div millisecond"]
    by (auto simp: zdiv_mono1 millisecond_def)
next
  fix k e s q s' t j
  show "is_get (cache_idempotency_store True) k e s = (q, s') \<Longrightarrow> env_now e \<le> t \<Longrightarrow> cache_view s' t j = cache_view s t j"
    by (auto simp: cache_idempotency_store_def cache_get_def cache_call_def query_def split: if_splits)
next
  fix k e s found s'
  show "is_get (cache_idempotency_store True) k e s = (Inr found, s') \<Longrightarrow> found = cache_view s (env_now e) k"
    by (auto simp: cache_idempotency_store_def cache_get_def cache_call_def query_def cache_view_def redis_clock_def
        split: if_splits)
next
  fix k v d e s r s' j t
  show "is_set (cache_idempotency_store True) k v d e s = (r, s') \<Longrightarrow> True \<Longrightarrow> r = Inr () \<Longrightarrow> j \<noteq> k \<Longrightarrow> env_now e \<le> t \<Longrightarrow>
      cache_view s' t j = cache_view s t j"
    by (auto simp: cache_idempotency_store_def cache_set_def cache_call_def query_def cache_view_def redis_get_set
        split: if_splits)
next
  fix k v d e s x s'
  show "is_set (cache_idempotency_store True) k v d e s = (Inl x, s') \<Longrightarrow> s' = s"
    by (auto simp: cache_idempotency_store_def cache_set_def cache_call_def query_def split: if_splits)
next
  fix k v d e s s' t
  show "is_set (cache_idempotency_store True) k v d e s = (Inr (), s') \<Longrightarrow> 0 < d \<Longrightarrow> millisecond dvd d \<Longrightarrow> env_now e \<le> t \<Longrightarrow>
      t + millisecond \<le> env_now e + d \<Longrightarrow> cache_view s' t k = Some v"
    using millisecond_bounds [of d t "env_now e"]
    by (auto simp: cache_idempotency_store_def cache_set_def cache_call_def query_def cache_view_def redis_get_set
        redis_clock_def split: if_splits)
next
  fix k v d e s a s' j t
  show "is_set_nx (cache_idempotency_store True) k v d e s = (a, s') \<Longrightarrow> True \<Longrightarrow> j \<noteq> k \<or> a \<noteq> Inr True \<Longrightarrow> env_now e \<le> t \<Longrightarrow>
      cache_view s' t j = cache_view s t j"
    by (auto simp: cache_idempotency_store_def cache_set_nx_def cache_call_def query_def cache_view_def redis_get_set
        redis_set_nx_def split: if_splits option.splits)
next
  fix k v d e s s'
  show "is_set_nx (cache_idempotency_store True) k v d e s = (Inr True, s') \<Longrightarrow> True \<Longrightarrow> cache_view s (env_now e) k = None"
    by (auto simp: cache_idempotency_store_def cache_set_nx_def cache_call_def query_def cache_view_def
        redis_set_nx_def redis_clock_def split: if_splits option.splits)
next
  fix k v d e s s' t
  show "is_set_nx (cache_idempotency_store True) k v d e s = (Inr True, s') \<Longrightarrow> 0 < d \<Longrightarrow> millisecond dvd d \<Longrightarrow> env_now e \<le> t \<Longrightarrow>
      t + millisecond \<le> env_now e + d \<Longrightarrow> cache_view s' t k = Some v"
    using millisecond_bounds [of d t "env_now e"]
    by (auto simp: cache_idempotency_store_def cache_set_nx_def cache_call_def query_def cache_view_def redis_get_set
        redis_set_nx_def redis_clock_def split: if_splits option.splits)
next
  fix k v e s r s' t j
  show "is_delete_if_value (cache_idempotency_store True) k v e s = (r, s') \<Longrightarrow> env_now e \<le> t \<Longrightarrow>
      cache_view s' t j = (if r = Inr () \<and> j = k \<and> cache_view s t k = Some v then None else cache_view s t j)"
    using redis_get_release [of "redis_clock e" "t div millisecond" j k v s] zdiv_mono1 [of "env_now e" t millisecond]
    by (auto simp: cache_idempotency_store_def cache_delete_if_value_def cache_call_def query_def cache_view_def
        redis_clock_def millisecond_def split: if_splits)
qed

section \<open>The memory store does it below its capacity\<close>

definition memory_view :: "memory_idempotency \<Rightarrow> int \<Rightarrow> string \<Rightarrow> string option" where
  "memory_view s t k =
     (case map_of (mi_entries s) k of None \<Rightarrow> None | Some x \<Rightarrow> if t < me_expires x then Some (me_value x) else None)"

definition memory_room :: "memory_idempotency \<Rightarrow> bool" where
  "memory_room s \<longleftrightarrow> distinct (map fst (mi_entries s)) \<and>
     int (length (mi_entries s)) < memory_capacity s"

lemma map_of_filter_values:
  "distinct (map fst xs) \<Longrightarrow> map_of (filter (\<lambda>(k, v). p v) xs) k =
     (case map_of xs k of None \<Rightarrow> None | Some v \<Rightarrow> if p v then Some v else None)"
proof (induction xs)
  case (Cons x xs)
  then have "fst x \<notin> fst ` set xs" by simp
  then have "map_of xs (fst x) = None" by (simp add: map_of_eq_None_iff)
  with Cons show ?case by (cases x) (auto split: option.splits)
qed simp

lemma evict_entries:
  assumes "memory_room s"
  shows "mi_entries (evict_locked order now s) \<in> {mi_entries s, filter (\<lambda>(k, v). now < me_expires v) (mi_entries s)}"
proof -
  let ?f = "filter (\<lambda>(k, v). now < me_expires v) (mi_entries s)"
  have "\<not> int (length (mi_entries s)) \<ge> memory_capacity s" "\<not> int (length ?f) \<ge> memory_capacity s"
    using assms length_filter_le [of "\<lambda>(k, v). now < me_expires v" "mi_entries s"] unfolding memory_room_def by linarith+
  then show ?thesis by (simp add: evict_locked_def Let_def)
qed

lemma evict_room:
  assumes "memory_room s" and "now \<le> t"
  shows "memory_view (evict_locked order now s) t k = memory_view s t k"
proof -
  have "map_of (filter (\<lambda>(k, v). now < me_expires v) (mi_entries s)) k =
      (case map_of (mi_entries s) k of None \<Rightarrow> None | Some v \<Rightarrow> if now < me_expires v then Some v else None)"
    using assms(1) by (intro map_of_filter_values) (simp add: memory_room_def)
  with evict_entries [OF assms(1), of order now] assms(2) show ?thesis
    by (auto simp: memory_view_def split: option.splits if_splits)
qed

lemma memory_view_put:
  "memory_view (memory_put k v x s) t j = (if j = k then (if t < x then Some v else None) else memory_view s t j)"
  by (simp add: memory_view_def memory_put_def update_conv')

lemma memory_view_delete:
  "memory_view (s\<lparr>mi_entries := AList.delete k (mi_entries s)\<rparr>) t j = (if j = k then None else memory_view s t j)"
  by (simp add: memory_view_def delete_conv')

lemmas memory_store_defs =
  memory_idempotency_store_def memory_get_def memory_set_def memory_set_nx_def memory_delete_if_value_def memory_call_def

interpretation memory_results: expiring_store "memory_idempotency_store order" memory_view memory_room for order
proof
  fix s t t' k v
  show "memory_view s t' k = Some v \<Longrightarrow> t \<le> t' \<Longrightarrow> memory_view s t k = Some v"
    by (auto simp: memory_view_def split: option.splits if_splits)
next
  fix k e s q s' t j
  assume g: "is_get (memory_idempotency_store order) k e s = (q, s')" and t: "env_now e \<le> t"
  then have "s' = s \<or> s' = s\<lparr>mi_entries := AList.delete k (mi_entries s)\<rparr> \<and> memory_view s t k = None"
    by (auto simp: memory_store_defs memory_view_def split: option.splits if_splits)
  then show "memory_view s' t j = memory_view s t j" by (auto simp: memory_view_delete)
next
  fix k e s found s'
  show "is_get (memory_idempotency_store order) k e s = (Inr found, s') \<Longrightarrow> found = memory_view s (env_now e) k"
    by (auto simp: memory_store_defs memory_view_def split: option.splits if_splits)
next
  fix k v d e s r s' j t
  show "is_set (memory_idempotency_store order) k v d e s = (r, s') \<Longrightarrow> memory_room s \<Longrightarrow> r = Inr () \<Longrightarrow> j \<noteq> k \<Longrightarrow>
      env_now e \<le> t \<Longrightarrow> memory_view s' t j = memory_view s t j"
    by (auto simp: memory_store_defs memory_view_put evict_room split: if_splits)
next
  fix k v d e s x s'
  show "is_set (memory_idempotency_store order) k v d e s = (Inl x, s') \<Longrightarrow> s' = s"
    by (auto simp: memory_store_defs split: if_splits)
next
  fix k v d e s s' t
  show "is_set (memory_idempotency_store order) k v d e s = (Inr (), s') \<Longrightarrow> 0 < d \<Longrightarrow> millisecond dvd d \<Longrightarrow> env_now e \<le> t \<Longrightarrow>
      t + millisecond \<le> env_now e + d \<Longrightarrow> memory_view s' t k = Some v"
    by (auto simp: memory_store_defs memory_view_put millisecond_def split: if_splits)
next
  fix k v d e s a s' j t
  show "is_set_nx (memory_idempotency_store order) k v d e s = (a, s') \<Longrightarrow> memory_room s \<Longrightarrow> j \<noteq> k \<or> a \<noteq> Inr True \<Longrightarrow>
      env_now e \<le> t \<Longrightarrow> memory_view s' t j = memory_view s t j"
    by (auto simp: memory_store_defs memory_view_put evict_room Let_def split: if_splits option.splits)
next
  fix k v d e s s'
  assume nx: "is_set_nx (memory_idempotency_store order) k v d e s = (Inr True, s')" and room: "memory_room s"
  from nx have "memory_view (evict_locked order (env_now e) s) (env_now e) k = None"
    by (auto simp: memory_store_defs memory_view_def Let_def split: if_splits option.splits)
  with evict_room [OF room] show "memory_view s (env_now e) k = None" by simp
next
  fix k v d e s s' t
  show "is_set_nx (memory_idempotency_store order) k v d e s = (Inr True, s') \<Longrightarrow> 0 < d \<Longrightarrow> millisecond dvd d \<Longrightarrow>
      env_now e \<le> t \<Longrightarrow> t + millisecond \<le> env_now e + d \<Longrightarrow> memory_view s' t k = Some v"
    by (auto simp: memory_store_defs memory_view_put millisecond_def Let_def split: if_splits option.splits)
next
  fix k v e s r s' t j
  assume d: "is_delete_if_value (memory_idempotency_store order) k v e s = (r, s')" and t: "env_now e \<le> t"
  show "memory_view s' t j = (if r = Inr () \<and> j = k \<and> memory_view s t k = Some v then None else memory_view s t j)"
  proof (cases "\<exists>x. map_of (mi_entries s) k = Some x \<and> me_value x = v \<and> r = Inr ()")
    case True
    then have "memory_view s t k = Some v \<or> memory_view s t k = None" by (auto simp: memory_view_def split: if_splits)
    with True d show ?thesis by (auto simp: memory_store_defs memory_view_delete split: if_splits)
  next
    case False
    then have "s' = s" "\<not> (r = Inr () \<and> memory_view s t k = Some v)"
      using d by (auto simp: memory_store_defs memory_view_def split: if_splits option.splits)
    then show ?thesis by auto
  qed
qed

section \<open>A recorded response is final\<close>

text \<open>
  C32. A request is carried out once. However the requests with idempotency keys interleave
  between their calls of the store, with failing calls, as long as every handler is done before
  its lock expires: after a response has been recorded under a key, no handler runs for a
  request with that key (the same method, target, caller and key) before the record expires, up
  to the millisecond. The same holds for the memory store below its capacity.
\<close>

theorem recorded_once:
  assumes "(idem_step lib (cache_idempotency_store True) (\<lambda>_. True) expiration timeout)\<^sup>*\<^sup>* (idem_start m now) c"
    and "(idem_step lib (memory_idempotency_store order) memory_room expiration timeout)\<^sup>*\<^sup>* (idem_start s now) d"
    and "0 < expiration" and "millisecond dvd expiration" and "0 < timeout" and "millisecond dvd timeout"
    and "\<And>r. il_json lib r \<noteq> Some ''''"
  shows "sorted_wrt (separated expiration) (ir_log c) \<and> sorted_wrt (separated expiration) (ir_log d)"
  using cached_results.idem_inv_reachable [OF assms(1,3-7)] memory_results.idem_inv_reachable [OF assms(2,3-7)]
  unfolding cached_results.idem_inv_def memory_results.idem_inv_def by blast

section \<open>Replays\<close>

lemma put_headers_fresh:
  assumes "distinct (map fst h)"
  shows "wr_header (put_headers h (w\<lparr>wr_header := []\<rparr>)) = h"
proof -
  have "foldl (\<lambda>h (k, vs). header_put k vs h) acc h = acc @ h" if "distinct (map fst (acc @ h))" for acc
    using that
  proof (induction h arbitrary: acc)
    case (Cons x h)
    have "header_put (fst x) (snd x) acc = acc @ [x]"
    proof -
      have "fst x \<notin> fst ` set acc" using Cons.prems by auto
      then show ?thesis unfolding header_put_def by (induction acc) (auto simp: prod_eq_iff)
    qed
    with Cons.IH [of "acc @ [x]"] Cons.prems show ?case by (cases x) simp
  qed simp
  from this [of "[]"] assms show ?thesis by (simp add: put_headers_def)
qed

lemma distinct_clone_headers: "distinct (map fst h) \<Longrightarrow> distinct (map fst (clone_headers h))"
  by (auto simp: clone_headers_def distinct_map intro: inj_on_subset)

text \<open>
  C33. A repetition gets the response of the first request. A request whose key is new reaches
  its handler, and when the response is one that is recorded, any later request with the same key
  and fingerprint gets, until ten minutes later, the same status, body and headers (all but the
  request identifier and the rate limit), from the record and without its handler.
\<close>

theorem replay_faithful:
  assumes "idempotency_plan (il_http lib) r = Protected b f body" and "idempotency_plan (il_http lib) r' = Protected b f body'"
    and "redis_get (redis_clock e) (result_key b) m = None" and "redis_get (redis_clock e) (lock_key b) m = None"
    and "env_fault e = (\<lambda>_. False)" and "env_fault e' = (\<lambda>_. False)"
    and "w = pass (r\<lparr>rq_body := Some body, rq_read_limit := None\<rparr>) e new_writer" and "cacheable w"
    and "distinct (map fst (wr_header w))"
    and "il_json lib (captured_response f w) = Some (c # json)" and "il_parse lib (c # json) = Some (captured_response f w)"
    and "env_now e \<le> env_now e'" and "env_now e' + millisecond \<le> env_now e + 10 * minute"
  shows "\<exists>m'. idempotency_middleware lib (new_idempotency (Some (cache_idempotency_store True)) None) (behind pass) r e new_writer m = (w, m') \<and>
    idempotency_middleware lib (new_idempotency (Some (cache_idempotency_store True)) None) next' r' e' new_writer m' =
      (\<lparr>wr_status = wr_status w, wr_header = clone_headers (wr_header w), wr_body = wr_body w\<rparr>, m')"
proof -
  let ?s = "cache_idempotency_store True"
  let ?token = "take 16 (env_random e ''lock token'')"
  let ?m1 = "redis_set (redis_clock e) (lock_key b) ?token (go_quot minute millisecond) m"
  let ?m2 = "redis_set (redis_clock e) (result_key b) (c # json) (go_quot (10 * minute) millisecond) ?m1"
  let ?m3 = "?m2(lock_key b := None)"
  have pos: "0 \<le> go_quot minute millisecond" "0 < 10 * minute" "millisecond dvd 10 * minute"
    by (simp_all add: go_quot_def minute_def second_def millisecond_def)
  have look: "idempotency_lookup lib ?s b f new_writer e m = (None, m)" "idempotency_lookup lib ?s b f new_writer e ?m1 = (None, ?m1)"
    using assms(3,5) by (simp_all add: idempotency_lookup_def cache_idempotency_store_def cache_get_def cache_call_def
        query_def redis_get_set)
  have lock: "idempotency_acquire lib ?s minute b new_writer e m = (Inr ?token, ?m1)"
    using assms(4,5) by (simp add: idempotency_acquire_def new_lock_token_def cache_idempotency_store_def cache_set_nx_def
        cache_call_def query_def redis_set_nx_def)
  have rec: "idempotency_record lib ?s (10 * minute) b f w e ?m1 = ?m2"
    using assms(5,8,10) by (simp add: idempotency_record_def cache_idempotency_store_def cache_set_def cache_call_def query_def)
  have rel: "idempotency_release ?s b ?token e ?m2 = ?m3"
    using assms(5) pos(1) by (simp add: idempotency_release_def cache_idempotency_store_def cache_delete_if_value_def
        cache_call_def query_def release_lock_script_def redis_get_set)
  have first: "idempotency_middleware lib (new_idempotency (Some ?s) None) (behind pass) r e new_writer m = (w, ?m3)"
    using look lock rec rel assms(1,7)
    by (simp add: idempotency_middleware_def new_idempotency_def default_idempotency_expiration_def idempotency_locked_def
        behind_def)
  have "redis_clock e' \<le> redis_clock e + go_quot (10 * minute) millisecond"
    using millisecond_bounds [OF pos(2,3) assms(13)] by (simp add: redis_clock_def)
  then have "redis_get (redis_clock e') (result_key b) ?m3 = Some \<lparr>kv_value = c # json,
      kv_expires_at = Some (redis_clock e + go_quot (10 * minute) millisecond)\<rparr>"
    by (simp add: redis_get_def redis_set_def)
  then have answer: "idempotency_lookup lib ?s b f new_writer e' ?m3 =
      (Some (replay_idempotent_response lib (c # json) f new_writer), ?m3)"
    using assms(6) by (simp add: idempotency_lookup_def cache_idempotency_store_def cache_get_def cache_call_def query_def)
  have status: "wr_status w \<noteq> 0" using assms(8) by (simp add: cacheable_def)
  have "wr_header (put_headers (clone_headers (wr_header w)) new_writer) = clone_headers (wr_header w)"
    using put_headers_fresh [OF distinct_clone_headers [OF assms(9)], of new_writer] by (simp add: new_writer_def)
  then have "replay_idempotent_response lib (c # json) f new_writer =
      \<lparr>wr_status = wr_status w, wr_header = clone_headers (wr_header w), wr_body = wr_body w\<rparr>"
    using assms(11) status by (simp add: replay_idempotent_response_def captured_response_def write_body_def write_header_def
        put_headers_def new_writer_def)
  with first answer assms(2) show ?thesis
    by (simp add: idempotency_middleware_def new_idempotency_def)
qed

end
