(* ===== verification/Sample_Http.thy ===== *)
theory Sample_Http
  imports Idempotency_Run
begin

text \<open>
  A command with an idempotency key over Redis, evaluated step by step, and the limits of the
  middleware: which live entries the memory store gives up first, and how few.
\<close>

definition plain_idem :: idempotency_lib where
  "plain_idem =
     \<lparr>il_http = plain_http, il_json = (\<lambda>r. Some (''#'' @ ip_body r)),
      il_parse = (\<lambda>s. Some \<lparr>ip_fingerprint = ''f'', ip_status = 201, ip_headers = [], ip_body = drop 1 s\<rparr>)\<rparr>"

definition done_writer :: writer where
  "done_writer = write_body ''ok'' (write_header 201 new_writer)"

definition lock_entry :: redis_entry where
  "lock_entry = \<lparr>kv_value = replicate 16 (CHR ''r''), kv_expires_at = Some 62000\<rparr>"

definition result_entry :: redis_entry where
  "result_entry = \<lparr>kv_value = ''#ok'', kv_expires_at = Some 605000\<rparr>"

definition idem_done :: "redis idem_run" where
  "idem_done =
     \<lparr>ir_state = [result_key ''b'' \<mapsto> result_entry], ir_clock = 6 * second, ir_flights = Map.empty,
      ir_tokens = {replicate 16 (CHR ''r'')}, ir_log = [Executed ''b'' (4 * second), Recorded ''b'' (5 * second)]\<rparr>"

abbreviation redis_step :: "redis idem_run \<Rightarrow> redis idem_run \<Rightarrow> bool" where
  "redis_step \<equiv> idem_step plain_idem (cache_idempotency_store True) (\<lambda>_. True) (10 * minute) minute"

lemma redis_ops:
  "idempotency_lookup plain_idem (cache_idempotency_store True) ''b'' ''f'' new_writer (sample_time 1) Map.empty = (None, Map.empty)"
  "idempotency_acquire plain_idem (cache_idempotency_store True) minute ''b'' new_writer (sample_time 2) Map.empty =
     (Inr (replicate 16 (CHR ''r'')), [lock_key ''b'' \<mapsto> lock_entry])"
  "idempotency_lookup plain_idem (cache_idempotency_store True) ''b'' ''f'' new_writer (sample_time 3) [lock_key ''b'' \<mapsto> lock_entry] =
     (None, [lock_key ''b'' \<mapsto> lock_entry])"
  "idempotency_record plain_idem (cache_idempotency_store True) (10 * minute) ''b'' ''f'' done_writer (sample_time 5)
     [lock_key ''b'' \<mapsto> lock_entry] = [lock_key ''b'' \<mapsto> lock_entry, result_key ''b'' \<mapsto> result_entry]"
  "records plain_idem (cache_idempotency_store True) (10 * minute) ''b'' ''f'' done_writer (sample_time 5)
     [lock_key ''b'' \<mapsto> lock_entry]"
  "idempotency_release (cache_idempotency_store True) ''b'' (replicate 16 (CHR ''r'')) (sample_time 6)
     [lock_key ''b'' \<mapsto> lock_entry, result_key ''b'' \<mapsto> result_entry] = [result_key ''b'' \<mapsto> result_entry]"
  by (simp_all add: idempotency_lookup_def idempotency_acquire_def idempotency_record_def records_def idempotency_release_def
      cache_idempotency_store_def cache_get_def cache_set_def cache_set_nx_def cache_delete_if_value_def cache_call_def
      query_def sample_time_def new_lock_token_def redis_get_def redis_set_def redis_set_nx_def release_lock_script_def
      redis_clock_def millisecond_def second_def minute_def go_quot_def lock_entry_def result_entry_def plain_idem_def
      done_writer_def write_body_def write_header_def new_writer_def cacheable_def captured_response_def
      max_idempotency_body_bytes_def take_replicate fun_upd_twist)

lemma idem_runs: "redis_step\<^sup>*\<^sup>* (idem_start Map.empty 0) idem_done"
proof -
  let ?t = "replicate 16 (CHR ''r'')"
  let ?c0 = "idem_start Map.empty 0 :: redis idem_run"
  let ?c1 = "?c0\<lparr>ir_clock := second, ir_flights := [0 \<mapsto> Looked ''b'' ''f'']\<rparr>"
  let ?c2 = "?c1\<lparr>ir_state := [lock_key ''b'' \<mapsto> lock_entry], ir_clock := 2 * second,
    ir_flights := [0 \<mapsto> Locked ''b'' ''f'' ?t (2 * second)], ir_tokens := {?t}\<rparr>"
  let ?c3 = "?c2\<lparr>ir_clock := 3 * second, ir_flights := [0 \<mapsto> Cleared ''b'' ''f'' ?t (2 * second)]\<rparr>"
  let ?c4 = "?c3\<lparr>ir_clock := 4 * second, ir_flights := [0 \<mapsto> Ran ''b'' ''f'' ?t (2 * second) done_writer],
    ir_log := [Executed ''b'' (4 * second)]\<rparr>"
  let ?c5 = "?c4\<lparr>ir_state := [lock_key ''b'' \<mapsto> lock_entry, result_key ''b'' \<mapsto> result_entry], ir_clock := 5 * second,
    ir_flights := [0 \<mapsto> Leaving ''b'' ?t], ir_log := [Executed ''b'' (4 * second), Recorded ''b'' (5 * second)]\<rparr>"
  have "redis_step ?c0 ?c1"
    using idem_step.look [of ?c0 0 "\<lambda>_. True" "sample_time 1" plain_idem "cache_idempotency_store True" "''b''" "''f''"
        new_writer None Map.empty "10 * minute" minute] redis_ops(1)
    by (simp add: idem_start_def sample_time_def second_def)
  moreover have "redis_step ?c1 ?c2"
    using idem_step.acquire [of ?c1 0 "''b''" "''f''" "\<lambda>_. True" "sample_time 2" plain_idem "cache_idempotency_store True"
        minute new_writer ?t "[lock_key ''b'' \<mapsto> lock_entry]" "10 * minute"] redis_ops(2)
    by (simp add: idem_start_def sample_time_def second_def)
  moreover have "redis_step ?c2 ?c3"
    using idem_step.check [of ?c2 0 "''b''" "''f''" ?t "2 * second" "\<lambda>_. True" "sample_time 3" plain_idem
        "cache_idempotency_store True" new_writer None "[lock_key ''b'' \<mapsto> lock_entry]" "10 * minute" minute] redis_ops(3)
    by (simp add: idem_start_def sample_time_def second_def)
  moreover have "redis_step ?c3 ?c4"
    using idem_step.run [of ?c3 0 "''b''" "''f''" ?t "2 * second" "4 * second" minute plain_idem
        "cache_idempotency_store True" "\<lambda>_. True" "10 * minute" done_writer]
    by (simp add: idem_start_def second_def minute_def millisecond_def)
  moreover have "redis_step ?c4 ?c5"
    using idem_step.record_response [of ?c4 0 "''b''" "''f''" ?t "2 * second" done_writer "\<lambda>_. True" "sample_time 5"
        minute plain_idem "cache_idempotency_store True" "10 * minute"] redis_ops(4,5)
    by (simp add: idem_start_def sample_time_def second_def minute_def millisecond_def)
  moreover have "redis_step ?c5 idem_done"
    using idem_step.release [of ?c5 0 "''b''" ?t "\<lambda>_. True" "sample_time 6" plain_idem "cache_idempotency_store True"
        "10 * minute" minute] redis_ops(6)
    by (simp add: idem_start_def sample_time_def second_def idem_done_def)
  ultimately show ?thesis by (meson converse_rtranclp_into_rtranclp rtranclp.rtrancl_refl)
qed

theorem recorded_once_witness:
  "sorted_wrt (separated (10 * minute)) (ir_log idem_done) \<and>
   ir_log idem_done = [Executed ''b'' (4 * second), Recorded ''b'' (5 * second)] \<and>
   map_option wr_status (fst (idempotency_lookup plain_idem (cache_idempotency_store True) ''b'' ''f'' new_writer
     (sample_time 600) (ir_state idem_done))) = Some 201"
proof -
  have "il_json plain_idem r \<noteq> Some ''''" for r by (simp add: plain_idem_def)
  moreover have "0 < 10 * minute" "millisecond dvd 10 * minute" "0 < minute" "millisecond dvd minute"
    by (simp_all add: minute_def second_def millisecond_def)
  ultimately have "sorted_wrt (separated (10 * minute)) (ir_log idem_done)"
    using recorded_once [OF idem_runs rtranclp.rtrancl_refl [of "idem_step plain_idem (memory_idempotency_store id)
      memory_room (10 * minute) minute" "idem_start (new_memory_idempotency 1) 0"]] by blast
  moreover have "map_option wr_status (fst (idempotency_lookup plain_idem (cache_idempotency_store True) ''b'' ''f'' new_writer
     (sample_time 600) (ir_state idem_done))) = Some 201"
    by (simp add: idem_done_def idempotency_lookup_def cache_idempotency_store_def cache_get_def cache_call_def query_def
        sample_time_def redis_get_def redis_clock_def result_entry_def second_def millisecond_def plain_idem_def
        replay_idempotent_response_def write_body_def write_header_def put_headers_def new_writer_def)
  ultimately show ?thesis by (simp add: idem_done_def)
qed

section \<open>A full memory store\<close>

text \<open>
  The memory store at its capacity gives up the entry that expires first: a lock, which lasts a
  minute, before any recorded response, which lasts ten. The loop stops once it is below the
  capacity, so only one entry goes, although the target is nine tenths.
\<close>

definition full_store :: memory_idempotency where
  "full_store = \<lparr>mi_entries = (''lock'', \<lparr>me_value = ''t'', me_expires = 60 * second\<rparr>) #
       map (\<lambda>i. (itoa i, \<lparr>me_value = ''r'', me_expires = 600 * second\<rparr>)) [0..18],
     mi_capacity = 20, mi_last_eviction = 0\<rparr>"

lemma eviction_drops_live_lock:
  "fst (memory_set_nx id ''lock'' ''u'' minute (sample_time 2) full_store) = Inr True \<and>
   map fst (mi_entries (evict_locked id (2 * second) full_store)) = map itoa [0..18]"
  by code_simp

section \<open>A repeated request\<close>

definition keyed_request :: request where
  "keyed_request = sample_request\<lparr>rq_method := ''POST'',
     rq_header := (\<lambda>k. if k = ''Idempotency-Key'' then [''key-0001''] else [])\<rparr>"

definition keyed_reply :: "request \<Rightarrow> env \<Rightarrow> writer \<Rightarrow> writer" where
  "keyed_reply r e w = write_body ''ok'' (write_header 201 (set_header ''X-Request-Id'' ''req-0001''
     (set_header ''Content-Type'' ''text/plain'' w)))"

definition keyed_writer :: writer where
  "keyed_writer = \<lparr>wr_status = 201, wr_header = [(''Content-Type'', [''text/plain'']), (''X-Request-Id'', [''req-0001''])],
     wr_body = ''ok''\<rparr>"

definition keyed_base :: string where
  "keyed_base = idempotency_base_key plain_http keyed_request ''key-0001''"

definition keyed_print :: string where
  "keyed_print = request_fingerprint plain_http keyed_request ''''"

definition keyed_idem :: idempotency_lib where
  "keyed_idem = \<lparr>il_http = plain_http, il_json = (\<lambda>_. Some ''json''),
     il_parse = (\<lambda>_. Some (captured_response keyed_print keyed_writer))\<rparr>"

lemma keyed_plan: "idempotency_plan plain_http keyed_request = Protected keyed_base keyed_print ''''"
proof -
  have "valid_idempotency_key ''key-0001''" "trim_space ''key-0001'' = ''key-0001''" by code_simp+
  moreover have "header_get ''Idempotency-Key'' keyed_request = ''key-0001''"
    "is_state_changing_method (rq_method keyed_request)"
    "read_all (max_bytes_reader max_idempotency_body_bytes keyed_request) = Some ''''"
    by (simp_all add: keyed_request_def sample_request_def is_state_changing_method_def header_get_def read_all_def
        max_bytes_reader_def)
  ultimately show ?thesis
    by (simp add: idempotency_plan_def Let_def keyed_base_def keyed_print_def)
qed

theorem replay_faithful_witness:
  "\<exists>m. idempotency_middleware keyed_idem (new_idempotency (Some (cache_idempotency_store True)) None) (behind keyed_reply)
      keyed_request (sample_time 10) new_writer Map.empty = (keyed_writer, m) \<and>
    idempotency_middleware keyed_idem (new_idempotency (Some (cache_idempotency_store True)) None) (\<lambda>r e w s. (new_writer, Map.empty))
      keyed_request (sample_time 500) new_writer m =
    (\<lparr>wr_status = 201, wr_header = [(''Content-Type'', [''text/plain''])], wr_body = ''ok''\<rparr>, m)"
proof -
  have clone: "clone_headers (wr_header keyed_writer) = [(''Content-Type'', [''text/plain''])]" by code_simp
  have writer: "keyed_writer = keyed_reply (keyed_request\<lparr>rq_body := Some '''', rq_read_limit := None\<rparr>) (sample_time 10) new_writer"
    by (simp add: keyed_writer_def keyed_reply_def write_body_def write_header_def set_header_def header_put_def new_writer_def)
  have ok: "cacheable keyed_writer" "distinct (map fst (wr_header keyed_writer))" by code_simp+
  have time: "env_now (sample_time 10) \<le> env_now (sample_time 500)"
    "env_now (sample_time 500) + millisecond \<le> env_now (sample_time 10) + 10 * minute"
    by (simp_all add: sample_time_def second_def millisecond_def minute_def)
  have plan: "idempotency_plan (il_http keyed_idem) keyed_request = Protected keyed_base keyed_print ''''"
    using keyed_plan by (simp add: keyed_idem_def)
  have none: "redis_get t k Map.empty = None" for t k by (simp add: redis_get_def)
  have fault: "env_fault (sample_time t) = (\<lambda>_. False)" for t by (simp add: sample_time_def)
  have json: "il_json keyed_idem (captured_response keyed_print keyed_writer) = Some (CHR ''j'' # ''son'')"
    "il_parse keyed_idem (CHR ''j'' # ''son'') = Some (captured_response keyed_print keyed_writer)"
    by (simp_all add: keyed_idem_def)
  have w: "wr_status keyed_writer = 201" "wr_body keyed_writer = ''ok''" by (simp_all add: keyed_writer_def)
  show ?thesis
    using replay_faithful [where pass = keyed_reply and r = keyed_request and e = "sample_time 10" and e' = "sample_time 500",
        OF plan plan none none fault fault writer ok json time] unfolding clone w .
qed

end
