(* ===== verification/Circuit_Breaker.thy ===== *)
theory Circuit_Breaker
  imports Commands
begin

text \<open>
  The circuit breaker of \<^verbatim>\<open>platform/resilience/circuit_breaker.go\<close>. Each of its methods holds the
  mutex, so it is one step; calls overlap between their admission and their end. The zero time of
  \<open>openedAt\<close> is \<open>None\<close>.
\<close>

section \<open>The breaker\<close>

record circuit_breaker =
  cb_failure_threshold :: int
  cb_reset_after :: int
  cb_failures :: int
  cb_opened_at :: "int option"
  cb_half_open :: bool

definition default_failure_threshold :: int where
  "default_failure_threshold = 5"

definition default_reset_after :: int where
  "default_reset_after = 30 * second"

definition new_circuit_breaker :: "int \<Rightarrow> int \<Rightarrow> circuit_breaker" where
  "new_circuit_breaker threshold reset_after =
     \<lparr>cb_failure_threshold = (if threshold \<le> 0 then default_failure_threshold else threshold),
      cb_reset_after = (if reset_after \<le> 0 then default_reset_after else reset_after),
      cb_failures = 0, cb_opened_at = None, cb_half_open = False\<rparr>"

definition breaker_allow :: "int \<Rightarrow> circuit_breaker \<Rightarrow> bool \<times> circuit_breaker" where
  "breaker_allow now b =
     (case cb_opened_at b of
        None \<Rightarrow> (True, b)
      | Some t \<Rightarrow>
          if now - t < cb_reset_after b then (False, b)
          else if cb_half_open b then (False, b)
          else (True, b\<lparr>cb_half_open := True\<rparr>))"

definition breaker_record_failure :: "int \<Rightarrow> circuit_breaker \<Rightarrow> circuit_breaker" where
  "breaker_record_failure now b =
     (let b = b\<lparr>cb_failures := wrap64 (cb_failures b + 1)\<rparr> in
      if cb_opened_at b \<noteq> None \<or> cb_failures b \<ge> cb_failure_threshold b
      then b\<lparr>cb_opened_at := Some now, cb_half_open := False\<rparr> else b)"

definition breaker_record_success :: "circuit_breaker \<Rightarrow> circuit_breaker" where
  "breaker_record_success b = b\<lparr>cb_failures := 0, cb_opened_at := None, cb_half_open := False\<rparr>"

definition breaker_record_panic :: "int \<Rightarrow> circuit_breaker \<Rightarrow> circuit_breaker" where
  "breaker_record_panic now b =
     (let b = b\<lparr>cb_failures := wrap64 (cb_failures b + 1)\<rparr>;
          b = (if cb_opened_at b \<noteq> None \<or> cb_failures b \<ge> cb_failure_threshold b
               then b\<lparr>cb_opened_at := Some now\<rparr> else b)
      in b\<lparr>cb_half_open := False\<rparr>)"

definition breaker_release :: "circuit_breaker \<Rightarrow> circuit_breaker" where
  "breaker_release b = b\<lparr>cb_half_open := False\<rparr>"

text \<open>How an admitted operation ends; a cancellation is one by the caller.\<close>

datatype outcome = Succeeds | Fails | Cancelled | Panics

fun breaker_finish :: "int \<Rightarrow> outcome \<Rightarrow> circuit_breaker \<Rightarrow> circuit_breaker" where
  "breaker_finish now Succeeds b = breaker_record_success b"
| "breaker_finish now Fails b = breaker_record_failure now b"
| "breaker_finish now Cancelled b = breaker_release b"
| "breaker_finish now Panics b = breaker_record_panic now b"

text \<open>\<open>Do\<close> with an operation that does not panic, alone.\<close>

definition circuit_do :: "('s, 'a) cmd \<Rightarrow> (circuit_breaker \<times> 's, 'a) cmd" where
  "circuit_do operation = (\<lambda>e (b, s).
     if env_fault e ''context'' then (Inl ContextCanceled, (b, s))
     else
       (case breaker_allow (env_now e) b of
          (False, b) \<Rightarrow> (Inl (Platform ErrCircuitOpen), (b, s))
        | (True, b) \<Rightarrow>
            (case operation e s of
               (Inr x, s) \<Rightarrow> (Inr x, (breaker_finish (env_now e) Succeeds b, s))
             | (Inl x, s) \<Rightarrow>
                 (Inl x, (breaker_finish (env_now e)
                    (if x = ContextCanceled \<and> env_fault e ''canceled'' then Cancelled else Fails) b, s)))))"

section \<open>Overlapping calls\<close>

text \<open>A call in flight is a probe if the breaker was open when it was admitted.\<close>

record breaker_run =
  br_breaker :: circuit_breaker
  br_clock :: int
  br_calls :: "nat \<Rightarrow> bool option"

definition is_open :: "circuit_breaker \<Rightarrow> bool" where
  "is_open b \<longleftrightarrow> cb_opened_at b \<noteq> None"

inductive breaker_step :: "(bool \<Rightarrow> circuit_breaker \<Rightarrow> bool) \<Rightarrow> breaker_run \<Rightarrow> breaker_run \<Rightarrow> bool" for may_finish where
  admit: "br_calls c n = None \<Longrightarrow> br_clock c \<le> now \<Longrightarrow> breaker_allow now (br_breaker c) = (True, b) \<Longrightarrow>
    breaker_step may_finish c (c\<lparr>br_breaker := b, br_clock := now,
      br_calls := (br_calls c)(n \<mapsto> is_open (br_breaker c))\<rparr>)"
| reject: "br_clock c \<le> now \<Longrightarrow> breaker_allow now (br_breaker c) = (False, b) \<Longrightarrow>
    breaker_step may_finish c (c\<lparr>br_breaker := b, br_clock := now\<rparr>)"
| finish: "br_calls c n = Some probe \<Longrightarrow> may_finish probe (br_breaker c) \<Longrightarrow> br_clock c \<le> now \<Longrightarrow>
    breaker_step may_finish c (c\<lparr>br_breaker := breaker_finish now outcome (br_breaker c), br_clock := now,
      br_calls := (br_calls c)(n := None)\<rparr>)"

inductive_cases breaker_stepE: "breaker_step may_finish c c'"

text \<open>Calls that were admitted before the breaker opened end before it opens, or after it closes.\<close>

definition no_straggler :: "bool \<Rightarrow> circuit_breaker \<Rightarrow> bool" where
  "no_straggler probe b \<longleftrightarrow> probe \<or> \<not> is_open b"

definition any_order :: "bool \<Rightarrow> circuit_breaker \<Rightarrow> bool" where
  "any_order probe b \<longleftrightarrow> True"

definition breaker_start :: "circuit_breaker \<Rightarrow> int \<Rightarrow> breaker_run" where
  "breaker_start b now = \<lparr>br_breaker = b, br_clock = now, br_calls = Map.empty\<rparr>"

section \<open>One probe\<close>

definition breaker_inv :: "breaker_run \<Rightarrow> bool" where
  "breaker_inv c \<longleftrightarrow>
     (cb_half_open (br_breaker c) \<longrightarrow> is_open (br_breaker c)) \<and>
     (\<forall>n. br_calls c n = Some True \<longrightarrow> cb_half_open (br_breaker c)) \<and>
     (\<forall>n m. br_calls c n = Some True \<longrightarrow> br_calls c m = Some True \<longrightarrow> n = m)"

lemma breaker_inv_step:
  assumes "breaker_step no_straggler c c'" and "breaker_inv c"
  shows "breaker_inv c'"
  using assms(1)
proof cases
  case (admit n now b)
  then show ?thesis
    using assms(2) by (auto simp: breaker_inv_def breaker_allow_def is_open_def split: option.splits if_splits)
next
  case (reject now b)
  then show ?thesis
    using assms(2) by (auto simp: breaker_inv_def breaker_allow_def is_open_def split: option.splits if_splits)
next
  case (finish n probe now outcome)
  have none: "m = n" if "br_calls c m = Some True" for m
    using that assms(2) finish(2,3) by (auto simp: breaker_inv_def no_straggler_def)
  have shut: "cb_half_open (breaker_finish now outcome (br_breaker c)) \<longrightarrow> is_open (breaker_finish now outcome (br_breaker c))"
    using assms(2) by (cases outcome) (auto simp: breaker_inv_def breaker_record_success_def breaker_record_failure_def
        breaker_record_panic_def breaker_release_def is_open_def Let_def)
  show ?thesis
    using none shut finish(1) unfolding breaker_inv_def by (auto split: if_splits)
qed

lemma breaker_inv_reachable:
  assumes "(breaker_step no_straggler)\<^sup>*\<^sup>* (breaker_start (new_circuit_breaker threshold reset_after) now) c"
  shows "breaker_inv c"
  using assms
proof (induction rule: rtranclp_induct)
  case base
  show ?case by (simp add: breaker_inv_def breaker_start_def new_circuit_breaker_def)
next
  case (step c c')
  then show ?case by (blast intro: breaker_inv_step)
qed

text \<open>
  C34. A breaker that has opened lets nothing through before its reset time and then one call. In
  every reachable state, as long as no call that was admitted before the breaker opened ends while
  it is open, a call admitted to an open breaker comes at least the reset time after it opened,
  finds no other such call in flight, and no further call is admitted until it ends.
\<close>

theorem one_probe:
  assumes "(breaker_step no_straggler)\<^sup>*\<^sup>* (breaker_start (new_circuit_breaker threshold reset_after) now) c"
    and "cb_opened_at (br_breaker c) = Some t" and "breaker_allow now' (br_breaker c) = (True, b)"
  shows "t + cb_reset_after (br_breaker c) \<le> now' \<and> Some True \<notin> range (br_calls c) \<and>
    fst (breaker_allow later b) = False"
proof -
  have "\<not> cb_half_open (br_breaker c)" "t + cb_reset_after (br_breaker c) \<le> now'"
    "b = (br_breaker c)\<lparr>cb_half_open := True\<rparr>"
    using assms(2,3) by (auto simp: breaker_allow_def split: if_splits)
  moreover have "Some True \<notin> range (br_calls c)"
    using calculation(1) breaker_inv_reachable [OF assms(1)] by (fastforce simp: breaker_inv_def)
  ultimately show ?thesis using assms(2) by (simp add: breaker_allow_def)
qed

definition opened_run :: breaker_run where
  "opened_run = \<lparr>br_breaker = \<lparr>cb_failure_threshold = 1, cb_reset_after = 30 * second, cb_failures = 1,
       cb_opened_at = Some (2 * second), cb_half_open = False\<rparr>, br_clock = 2 * second, br_calls = Map.empty\<rparr>"

lemma opened_run_reachable:
  "(breaker_step no_straggler)\<^sup>*\<^sup>* (breaker_start (new_circuit_breaker 1 0) 0) opened_run"
proof -
  let ?s = "breaker_start (new_circuit_breaker 1 0) 0"
  let ?c = "?s\<lparr>br_clock := second, br_calls := [0 \<mapsto> False]\<rparr>"
  have "breaker_step no_straggler ?s ?c"
    using breaker_step.admit [of ?s 0 second "br_breaker ?s" no_straggler]
    by (simp add: breaker_start_def new_circuit_breaker_def breaker_allow_def is_open_def second_def)
  moreover have "breaker_step no_straggler ?c opened_run"
    using breaker_step.finish [of ?c 0 False no_straggler "2 * second" Fails]
    by (simp add: breaker_start_def new_circuit_breaker_def opened_run_def no_straggler_def is_open_def second_def
        breaker_record_failure_def default_reset_after_def wrap64_def)
  ultimately show ?thesis by (meson converse_rtranclp_into_rtranclp rtranclp.rtrancl_refl)
qed

theorem one_probe_witness:
  "Some True \<notin> range (br_calls opened_run) \<and> fst (breaker_allow (31 * second) (br_breaker opened_run)) = False \<and>
   fst (breaker_allow (32 * second) (br_breaker opened_run)) = True \<and>
   fst (breaker_allow (90 * second) (snd (breaker_allow (32 * second) (br_breaker opened_run)))) = False"
proof -
  have a: "cb_opened_at (br_breaker opened_run) = Some (2 * second)"
    "breaker_allow (32 * second) (br_breaker opened_run) = (True, snd (breaker_allow (32 * second) (br_breaker opened_run)))"
    "fst (breaker_allow (31 * second) (br_breaker opened_run)) = False"
    by (simp_all add: opened_run_def breaker_allow_def second_def)
  from one_probe [OF opened_run_reachable a(1,2), of "90 * second"] a(2,3) show ?thesis by (metis fst_conv)
qed

text \<open>
  A call that was admitted before the breaker opened frees the place of the probe when its caller
  cancels it while the probe is in flight: a second probe is admitted at once.
\<close>

lemma straggler_admits_second_probe:
  "\<exists>c. (breaker_step any_order)\<^sup>*\<^sup>* (breaker_start (new_circuit_breaker 1 0) 0) c \<and>
     br_calls c 2 = Some True \<and> br_calls c 3 = Some True"
proof -
  let ?s = "breaker_start (new_circuit_breaker 1 0) 0"
  let ?c1 = "?s\<lparr>br_calls := [0 \<mapsto> False]\<rparr>"
  let ?c2 = "?s\<lparr>br_calls := [0 \<mapsto> False, 1 \<mapsto> False]\<rparr>"
  let ?open = "\<lparr>cb_failure_threshold = 1, cb_reset_after = 30 * second, cb_failures = 1, cb_opened_at = Some second,
    cb_half_open = False\<rparr>"
  let ?c3 = "\<lparr>br_breaker = ?open, br_clock = second, br_calls = [0 \<mapsto> False]\<rparr>"
  let ?c4 = "\<lparr>br_breaker = ?open\<lparr>cb_half_open := True\<rparr>, br_clock = 40 * second, br_calls = [0 \<mapsto> False, 2 \<mapsto> True]\<rparr>"
  let ?c5 = "\<lparr>br_breaker = ?open, br_clock = 41 * second, br_calls = [2 \<mapsto> True]\<rparr>"
  let ?c6 = "\<lparr>br_breaker = ?open\<lparr>cb_half_open := True\<rparr>, br_clock = 42 * second, br_calls = [2 \<mapsto> True, 3 \<mapsto> True]\<rparr>"
  note defs = breaker_start_def new_circuit_breaker_def breaker_allow_def is_open_def second_def any_order_def
    breaker_record_failure_def breaker_release_def default_reset_after_def wrap64_def fun_upd_twist
  have "breaker_step any_order ?s ?c1"
    using breaker_step.admit [of ?s 0 0 "br_breaker ?s" any_order] by (simp add: defs)
  moreover have "breaker_step any_order ?c1 ?c2"
    using breaker_step.admit [of ?c1 1 0 "br_breaker ?s" any_order] by (simp add: defs)
  moreover have "breaker_step any_order ?c2 ?c3"
    using breaker_step.finish [of ?c2 1 False any_order second Fails] by (simp add: defs)
  moreover have "breaker_step any_order ?c3 ?c4"
    using breaker_step.admit [of ?c3 2 "40 * second" "?open\<lparr>cb_half_open := True\<rparr>" any_order] by (simp add: defs)
  moreover have "breaker_step any_order ?c4 ?c5"
    using breaker_step.finish [of ?c4 0 False any_order "41 * second" Cancelled] by (simp add: defs)
  moreover have "breaker_step any_order ?c5 ?c6"
    using breaker_step.admit [of ?c5 3 "42 * second" "?open\<lparr>cb_half_open := True\<rparr>" any_order] by (simp add: defs)
  ultimately have "(breaker_step any_order)\<^sup>*\<^sup>* ?s ?c6" by (meson converse_rtranclp_into_rtranclp rtranclp.rtrancl_refl)
  then show ?thesis by (intro exI [of _ ?c6]) simp
qed

end
