(* ===== verification/Endpoint.thy ===== *)
theory Endpoint
  imports Http
begin

text \<open>
  The handlers of the modules, between the middleware of \<open>Http\<close> and the services. A handler gets
  the authenticated account, the parameters of the path and the query, and the decoded body
  (\<open>None\<close> when \<open>DecodeJSON\<close> refuses it), and answers with \<open>response.Error\<close> or \<open>response.JSON\<close>;
  the JSON text of a value is a parameter.
\<close>

section \<open>Answers\<close>

type_synonym 'a answer = "(int \<times> string) + (int \<times> 'a)"
type_synonym ('s, 'a) endpoint = "env \<Rightarrow> 's \<Rightarrow> 'a answer \<times> 's"

definition refuse :: "int \<Rightarrow> string \<Rightarrow> ('s, 'a) endpoint" where
  "refuse status message = (\<lambda>e s. (Inl (status, message), s))"

definition answer :: "int \<Rightarrow> 'a \<Rightarrow> ('s, 'a) endpoint" where
  "answer status value = (\<lambda>e s. (Inr (status, value), s))"

text \<open>A call of the service; its error becomes a status and a message.\<close>

definition call_service ::
  "('s, 'b) cmd \<Rightarrow> (err \<Rightarrow> int \<times> string) \<Rightarrow> ('b \<Rightarrow> ('s, 'a) endpoint) \<Rightarrow> ('s, 'a) endpoint" where
  "call_service m on_error f = (\<lambda>e s.
     case m e s of (Inl x, s) \<Rightarrow> (Inl (on_error x), s) | (Inr y, s) \<Rightarrow> f y e s)"

definition write_answer :: "http_lib \<Rightarrow> ('a \<Rightarrow> string) \<Rightarrow> 'a answer \<Rightarrow> writer \<Rightarrow> writer" where
  "write_answer lib json a w =
     (case a of Inl (status, message) \<Rightarrow> error_response lib status message w
      | Inr (status, value) \<Rightarrow> write_json status (json value) w)"

section \<open>The usual guards\<close>

definition authenticated :: "int option \<Rightarrow> (int \<Rightarrow> ('s, 'a) endpoint) \<Rightarrow> ('s, 'a) endpoint" where
  "authenticated actor f = (case actor of None \<Rightarrow> refuse 401 ''unauthorized'' | Some i \<Rightarrow> f i)"

definition path_number :: "string \<Rightarrow> int \<times> string \<Rightarrow> (int \<Rightarrow> ('s, 'a) endpoint) \<Rightarrow> ('s, 'a) endpoint" where
  "path_number param bad f =
     (case atoi param of None \<Rightarrow> refuse (fst bad) (snd bad) | Some i \<Rightarrow> f i)"

definition guard :: "bool \<Rightarrow> int \<Rightarrow> string \<Rightarrow> ('s, 'a) endpoint \<Rightarrow> ('s, 'a) endpoint" where
  "guard ok status message f = (if ok then f else refuse status message)"

definition decoded :: "'b option \<Rightarrow> int \<times> string \<Rightarrow> ('b \<Rightarrow> ('s, 'a) endpoint) \<Rightarrow> ('s, 'a) endpoint" where
  "decoded body bad f = (case body of None \<Rightarrow> refuse (fst bad) (snd bad) | Some b \<Rightarrow> f b)"

section \<open>Reasoning\<close>

named_theorems endpoint_simps \<open>when an endpoint leads to an answer\<close>

lemma refuse_eq [endpoint_simps]: "refuse st m e s = (r, s') \<longleftrightarrow> r = Inl (st, m) \<and> s' = s"
  by (auto simp: refuse_def)

lemma answer_eq [endpoint_simps]: "answer st v e s = (r, s') \<longleftrightarrow> r = Inr (st, v) \<and> s' = s"
  by (auto simp: answer_def)

lemma call_service_eq [endpoint_simps]:
  "call_service m h f e s = (r, s') \<longleftrightarrow>
     (\<exists>x. m e s = (Inl x, s') \<and> r = Inl (h x)) \<or> (\<exists>y v. m e s = (Inr y, v) \<and> f y e v = (r, s'))"
  by (auto simp: call_service_def split: prod.splits sum.splits)

lemma authenticated_eq [endpoint_simps]:
  "authenticated actor f e s = (r, s') \<longleftrightarrow>
     (actor = None \<and> r = Inl (401, ''unauthorized'') \<and> s' = s) \<or> (\<exists>i. actor = Some i \<and> f i e s = (r, s'))"
  by (cases actor) (auto simp: authenticated_def refuse_def)

lemma path_number_eq [endpoint_simps]:
  "path_number param bad f e s = (r, s') \<longleftrightarrow>
     (atoi param = None \<and> r = Inl bad \<and> s' = s) \<or> (\<exists>i. atoi param = Some i \<and> f i e s = (r, s'))"
  by (cases "atoi param") (auto simp: path_number_def refuse_def)

lemma guard_eq [endpoint_simps]:
  "guard ok st m f e s = (r, s') \<longleftrightarrow> (if ok then f e s = (r, s') else r = Inl (st, m) \<and> s' = s)"
  by (auto simp: guard_def refuse_def)

lemma decoded_eq [endpoint_simps]:
  "decoded body bad f e s = (r, s') \<longleftrightarrow>
     (body = None \<and> r = Inl bad \<and> s' = s) \<or> (\<exists>b. body = Some b \<and> f b e s = (r, s'))"
  by (cases body) (auto simp: decoded_def refuse_def)

text \<open>A relation that the calls keep is kept by the handler.\<close>

definition keeps_state :: "('s \<Rightarrow> 's \<Rightarrow> bool) \<Rightarrow> ('s, 'a) endpoint \<Rightarrow> bool" where
  "keeps_state R f \<longleftrightarrow> (\<forall>e s r s'. f e s = (r, s') \<longrightarrow> R s s')"

lemma keeps_stateD: "keeps_state R f \<Longrightarrow> f e s = (r, s') \<Longrightarrow> R s s'"
  by (auto simp: keeps_state_def)

end
