(* ===== verification/Pagination.thy ===== *)
theory Pagination
  imports Endpoint "HOL-Library.Product_Lexorder"
begin

text \<open>
  Paged lists: \<open>platform/httpx/request/pagination.go\<close> and \<open>cursor.go\<close>, which read the page a
  request asks for, \<open>platform/httpx/response/pagination.go\<close>, which cuts the page out of one item
  more than it holds, and the \<open>ORDER BY\<close>, \<open>LIMIT\<close> and \<open>OFFSET\<close> of the statements behind them.
\<close>

section \<open>Statements\<close>

text \<open>\<open>LIMIT\<close> and \<open>OFFSET\<close>, and \<open>ORDER BY\<close> a key \<open>DESC\<close>.\<close>

definition sql_page :: "int \<Rightarrow> int \<Rightarrow> 'a list \<Rightarrow> 'a list" where
  "sql_page limit offset xs = take (nat limit) (drop (nat offset) xs)"

definition order_desc :: "('a \<Rightarrow> 'k :: linorder) \<Rightarrow> 'a list \<Rightarrow> 'a list" where
  "order_desc k xs = rev (sort_key k xs)"

section \<open>Offsets\<close>

text \<open>\<open>url.Values\<close>: the values of each name. \<open>Get\<close> is the first value.\<close>

type_synonym url_values = "string \<Rightarrow> string list option"

definition values_get :: "url_values \<Rightarrow> string \<Rightarrow> string" where
  "values_get v k = (case v k of Some (x # _) \<Rightarrow> x | _ \<Rightarrow> '''')"

record offset_pagination =
  pg_limit :: int
  pg_offset :: int

definition parse_offset_pagination :: "url_values \<Rightarrow> int \<Rightarrow> int \<Rightarrow> err + offset_pagination" where
  "parse_offset_pagination v default_limit max_limit =
     (if default_limit \<le> 0 \<or> max_limit < default_limit then Inl (Platform ErrInvalidPagination)
      else
        (case (if v ''limit'' = None then Some default_limit else atoi (values_get v ''limit'')) of
           None \<Rightarrow> Inl (Platform ErrInvalidPagination)
         | Some limit \<Rightarrow>
             if v ''limit'' \<noteq> None \<and> (limit \<le> 0 \<or> limit > max_limit) then Inl (Platform ErrInvalidPagination)
             else
               (case (if v ''offset'' = None then Some 0 else atoi (values_get v ''offset'')) of
                  None \<Rightarrow> Inl (Platform ErrInvalidPagination)
                | Some offset \<Rightarrow>
                    if offset < 0 \<or> offset > 1000000 then Inl (Platform ErrInvalidPagination)
                    else Inr \<lparr>pg_limit = limit, pg_offset = offset\<rparr>)))"

lemma parse_offset_pagination_bounds:
  "parse_offset_pagination v d m = Inr page \<Longrightarrow>
     0 < pg_limit page \<and> pg_limit page \<le> m \<and> 0 \<le> pg_offset page \<and> pg_offset page \<le> 1000000"
  by (auto simp: parse_offset_pagination_def split: if_splits option.splits)

text \<open>A page of a list: the items, whether there are more, and where the next page begins.\<close>

record 'a offset_page =
  op_items :: "'a list"
  op_has_more :: bool
  op_next_offset :: "int option"
  op_next_cursor :: "string option"

definition new_offset_page :: "'a list \<Rightarrow> int \<Rightarrow> int \<Rightarrow> 'a offset_page" where
  "new_offset_page items limit offset =
     (let has_more = int (length items) > limit;
          items = (if has_more then take (nat limit) items else items)
      in \<lparr>op_items = items, op_has_more = has_more,
          op_next_offset = (if has_more then Some (offset + int (length items)) else None),
          op_next_cursor = None\<rparr>)"

definition new_cursor_page :: "'a list \<Rightarrow> int \<Rightarrow> string \<Rightarrow> 'a offset_page" where
  "new_cursor_page items limit next_cursor =
     (new_offset_page items limit 0)\<lparr>op_next_offset := None, op_next_cursor := Some next_cursor\<rparr>"

section \<open>Cursors\<close>

text \<open>The zero \<open>time.Time\<close>, January 1 of the year 1, in nanoseconds since 1970.\<close>

definition zero_time :: int where
  "zero_time = - 62135596800 * second"

record list_cursor =
  lc_scope :: string
  lc_created_at :: int
  lc_id :: int

text \<open>
  The parts of \<open>encoding/json\<close> and \<open>time\<close> that are parameters: \<open>MarshalJSON\<close> of a time, between its
  quotes, which fails outside the years 0 to 9999, and \<open>Unmarshal\<close> of a cursor. Their laws are the
  documented ones: what was marshalled is read back, and the text of a time is at most 35 characters.
\<close>

record cursor_lib =
  cl_time_text :: "int \<Rightarrow> string option"
  cl_unmarshal :: "string \<Rightarrow> list_cursor option"

definition quoted :: "string \<Rightarrow> string" where
  "quoted s = CHR 0x22 # s @ [CHR 0x22]"

text \<open>The scopes contain no character that JSON escapes.\<close>

definition cursor_json :: "string \<Rightarrow> string \<Rightarrow> int \<Rightarrow> string" where
  "cursor_json scope time_text i =
     ''{'' @ quoted ''scope'' @ '':'' @ quoted scope @ '','' @ quoted ''created_at'' @ '':'' @ quoted time_text @
     '','' @ quoted ''id'' @ '':'' @ itoa i @ ''}''"

definition plain_char :: "char \<Rightarrow> bool" where
  "plain_char c \<longleftrightarrow> is_digit c \<or> c \<in> set ''abcdefghijklmnopqrstuvwxyz:-''"

definition max_int32 :: int where
  "max_int32 = 2147483647"

definition cursor_lib_ok :: "cursor_lib \<Rightarrow> bool" where
  "cursor_lib_ok lib \<longleftrightarrow>
     (\<forall>t s. cl_time_text lib t = Some s \<longrightarrow> length s \<le> 35 \<and>
        (\<forall>scope i. list_all plain_char scope \<and> 0 < i \<and> i \<le> max_int32 \<longrightarrow>
           cl_unmarshal lib (cursor_json scope s i) = Some \<lparr>lc_scope = scope, lc_created_at = t, lc_id = i\<rparr>))"

definition encode_list_cursor :: "cursor_lib \<Rightarrow> string \<Rightarrow> int \<Rightarrow> int \<Rightarrow> err + string" where
  "encode_list_cursor lib scope created_at i =
     (if created_at = zero_time \<or> i \<le> 0 \<or> i > max_int32 then Inl (Platform ErrInvalidPagination)
      else
        (case cl_time_text lib created_at of
           None \<Rightarrow> Inl (Failure ''json: year outside of range [0,9999]'')
         | Some s \<Rightarrow> Inr (b64_encode (cursor_json scope s i))))"

record cursor_pagination = offset_pagination +
  cp_enabled :: bool
  cp_before_created_at :: int
  cp_before_id :: int

definition parse_cursor_pagination ::
  "cursor_lib \<Rightarrow> url_values \<Rightarrow> int \<Rightarrow> int \<Rightarrow> string \<Rightarrow> err + cursor_pagination" where
  "parse_cursor_pagination lib v default_limit max_limit scope =
     (case parse_offset_pagination v default_limit max_limit of
        Inl x \<Rightarrow> Inl x
      | Inr page \<Rightarrow>
          (let first_page = \<lparr>pg_limit = pg_limit page, pg_offset = pg_offset page,
                 cp_enabled = (v ''cursor'' \<noteq> None), cp_before_created_at = zero_time, cp_before_id = 0\<rparr>;
               raw = values_get v ''cursor'' in
           if \<not> cp_enabled first_page then Inr first_page
           else if pg_offset page \<noteq> 0 \<or> map_option length (v ''cursor'') \<noteq> Some 1
           then Inl (Platform ErrInvalidPagination)
           else if raw = '''' then Inr first_page
           else if length raw > 512 then Inl (Platform ErrInvalidPagination)
           else
             (case Option.bind (b64_decode raw) (cl_unmarshal lib) of
                None \<Rightarrow> Inl (Platform ErrInvalidPagination)
              | Some c \<Rightarrow>
                  if lc_scope c \<noteq> scope \<or> lc_created_at c = zero_time \<or> lc_id c \<le> 0 \<or> lc_id c > max_int32
                  then Inl (Platform ErrInvalidPagination)
                  else Inr (first_page\<lparr>cp_before_created_at := lc_created_at c, cp_before_id := lc_id c\<rparr>))))"

section \<open>Cursors are read back\<close>

lemma length_nat_digits: "n < 10 ^ k \<Longrightarrow> 0 < k \<Longrightarrow> length (nat_digits n) \<le> k"
proof (induction n arbitrary: k rule: nat_digits.induct)
  case (1 n)
  show ?case
  proof (cases "n < 10")
    case True
    with 1 show ?thesis by (subst nat_digits.simps) simp
  next
    case False
    then obtain j where k: "k = Suc j" "0 < j"
      using "1.prems" by (cases k; cases "k - 1") auto
    then have "n div 10 < 10 ^ j" using "1.prems" by (simp add: less_mult_imp_div_less mult.commute)
    with 1 False k show ?thesis by (subst nat_digits.simps) simp
  qed
qed

lemma length_itoa_id: "0 < i \<Longrightarrow> i \<le> max_int32 \<Longrightarrow> length (itoa i) \<le> 10"
  using length_nat_digits [of "nat i" 10] by (simp add: itoa_def max_int32_def)

lemma length_cursor_json:
  "length s \<le> 35 \<Longrightarrow> 0 < i \<Longrightarrow> i \<le> max_int32 \<Longrightarrow> length scope \<le> 100 \<Longrightarrow> length (cursor_json scope s i) \<le> 180"
  using length_itoa_id [of i] by (simp add: cursor_json_def quoted_def)

text \<open>What \<open>EncodeListCursor\<close> gives the client is the boundary \<open>ParseCursorPagination\<close> finds, in its scope.\<close>

lemma cursor_read_back:
  assumes "cursor_lib_ok lib" and "encode_list_cursor lib scope t i = Inr c"
    and "list_all plain_char scope" and "length scope \<le> 100"
    and "v ''cursor'' = Some [c]" and "parse_offset_pagination v d m = Inr page" and "pg_offset page = 0"
  shows "parse_cursor_pagination lib v d m scope =
    Inr \<lparr>pg_limit = pg_limit page, pg_offset = 0, cp_enabled = True, cp_before_created_at = t, cp_before_id = i\<rparr>"
proof -
  from assms(2) obtain s where t: "t \<noteq> zero_time" "0 < i" "i \<le> max_int32" and s: "cl_time_text lib t = Some s"
    and c: "c = b64_encode (cursor_json scope s i)"
    by (auto simp: encode_list_cursor_def split: if_splits option.splits)
  from assms(1,3) s t(2,3) have l: "length s \<le> 35"
    and u: "cl_unmarshal lib (cursor_json scope s i) = Some \<lparr>lc_scope = scope, lc_created_at = t, lc_id = i\<rparr>"
    by (auto simp: cursor_lib_ok_def)
  have "length c \<le> 512"
    using length_cursor_json [OF l t(2,3) assms(4)] unfolding c length_b64_encode b64_encoded_len_def by simp
  moreover have "b64_decode c = Some (cursor_json scope s i)" by (simp add: c b64_roundtrip)
  moreover from this have "c \<noteq> ''''" using b64_roundtrip [of "''''"] by (auto simp: cursor_json_def)
  ultimately show ?thesis
    using assms(5-7) t u by (simp add: parse_cursor_pagination_def values_get_def c b64_roundtrip Let_def)
qed

section \<open>Pages of an ordered list\<close>

text \<open>Rows with distinct keys, newest first, are strictly descending.\<close>

lemma order_desc_sorted:
  assumes "distinct (map k xs)"
  shows "sorted_wrt (\<lambda>x y. k y < k x) (order_desc k xs)"
proof -
  have "distinct (map k (sort_key k xs))" 
    using assms by (simp add: distinct_map)
  moreover have "sorted (map k (sort_key k xs))" by simp
  ultimately have "sorted_wrt (<) (map k (sort_key k xs))" by (simp add: strict_sorted_iff)
  then have "sorted_wrt (\<lambda>x y. k x < k y) (sort_key k xs)" by (simp add: sorted_wrt_map)
  then show ?thesis by (simp add: order_desc_def sorted_wrt_rev)
qed

lemma filter_order_desc: "filter p (order_desc k xs) = order_desc k (filter p xs)"
  by (simp add: order_desc_def rev_filter [symmetric] filter_sort)

text \<open>The rows below the last row of a page are the rest of the list.\<close>

lemma keyset_rest:
  assumes "sorted_wrt (\<lambda>x y. k y < k x) (ys @ x # zs)"
  shows "filter (\<lambda>y. k y < (k x :: 'k :: linorder)) (ys @ x # zs) = zs"
proof -
  have "filter (\<lambda>y. k y < k x) ys = []" using assms by (auto simp: sorted_wrt_append filter_empty_conv dest: order.asym)
  moreover have "filter (\<lambda>y. k y < k x) zs = zs" using assms by (auto simp: sorted_wrt_append filter_id_conv)
  ultimately show ?thesis by simp
qed

end
