(* ===== verification/Profile_Store.thy ===== *)
theory Profile_Store
  imports Ride_Store Pagination
begin

text \<open>
  The profiles of drivers and passengers and the notifications: the statements of
  \<open>sqlc/user_profiles.sql.go\<close>, the repository of \<open>user/adapter/postgres\<close> and the service of
  \<open>user/app\<close>. The avatars and the object store they are kept in are not modelled.
\<close>

section \<open>Statements\<close>

definition find_user :: "int \<Rightarrow> user_row io" where
  "find_user i = select_one ''GetUserByID'' (\<lambda>w. List.find (\<lambda>u. u_id u = i) (w_users w))"

definition update_user_profile :: "int \<Rightarrow> string option \<Rightarrow> user_row io" where
  "update_user_profile i name =
     update_one ''UpdateUserProfile'' w_users (\<lambda>x. w_users_update (\<lambda>_. x)) (\<lambda>w. users_violation (w_users w))
       (\<lambda>e u. u_id u = i) (\<lambda>e u. u\<lparr>u_name := name, u_updated_at := Some (env_db_now e)\<rparr>)"

definition update_profiles ::
  "string \<Rightarrow> (env \<Rightarrow> world \<Rightarrow> driver_profile_row \<Rightarrow> bool) \<Rightarrow>
   (env \<Rightarrow> driver_profile_row \<Rightarrow> driver_profile_row) \<Rightarrow> driver_profile_row io" where
  "update_profiles name p f = (\<lambda>e w.
     update_one name w_driver_profiles (\<lambda>x. w_driver_profiles_update (\<lambda>_. x))
       (\<lambda>w. driver_profiles_violation (w_users w) (w_driver_profiles w)) (\<lambda>e. p e w) f e w)"

definition lock_driver_profile_by_user_id :: "int \<Rightarrow> driver_profile_row io" where
  "lock_driver_profile_by_user_id user_id =
     select_one ''LockDriverProfileByUserID'' (\<lambda>w. find_profile w (Some user_id))"

definition online_status_target :: "int \<Rightarrow> int \<Rightarrow> driver_profile_row \<Rightarrow> bool" where
  "online_status_target user_id target_id q \<longleftrightarrow>
     dp_user_id q = user_id \<and> (dp_user_id q = target_id \<or> dp_id q = target_id)"

definition lock_driver_profile_for_online_status :: "int \<Rightarrow> int \<Rightarrow> driver_profile_row io" where
  "lock_driver_profile_for_online_status user_id target_id =
     select_one ''LockDriverProfileForOnlineStatus'' (\<lambda>w.
       List.find (online_status_target user_id target_id) (w_driver_profiles w))"

definition update_driver_online_status :: "bool \<Rightarrow> int \<Rightarrow> int \<Rightarrow> bool \<Rightarrow> driver_profile_row io" where
  "update_driver_online_status is_online user_id target_id allow_unverified =
     update_profiles ''UpdateDriverOnlineStatus''
       (\<lambda>e w q. online_status_target user_id target_id q \<and>
          exists_where (\<lambda>u. u_id u = dp_user_id q \<and>
            (\<not> is_online \<or> u_account_status u = ''active'' \<and> (u_is_verified u \<or> allow_unverified))) (w_users w))
       (\<lambda>e q. q\<lparr>dp_is_online := is_online,
          dp_online_last_seen_at := (if is_online then Some (env_db_now e) else None),
          dp_updated_at := Some (env_db_now e)\<rparr>)"

definition with_average_rating :: "world \<Rightarrow> driver_profile_row \<Rightarrow> driver_profile_row" where
  "with_average_rating w q =
     q\<lparr>dp_rating := coalesce_to
         (sql_avg (map rv_rating (filter (\<lambda>v. rv_driver_id v = dp_user_id q) (w_reviews w)))) (dp_rating q)\<rparr>"

definition update_driver_profile :: "int \<Rightarrow> string \<Rightarrow> string \<Rightarrow> string \<Rightarrow> driver_profile_row io" where
  "update_driver_profile i name vehicle_type plate_number =
     io_bind (update_profiles ''UpdateDriverProfile'' (\<lambda>e w q. dp_id q = i)
       (\<lambda>e q. q\<lparr>dp_name := name, dp_vehicle_type := vehicle_type, dp_plate_number := plate_number,
          dp_updated_at := Some (env_db_now e)\<rparr>))
       (\<lambda>q e w. (Inr (with_average_rating w q), w))"

definition find_passenger_profile :: "int \<Rightarrow> world \<Rightarrow> passenger_profile_row option" where
  "find_passenger_profile user_id w = List.find (\<lambda>q. pp_user_id q = user_id) (w_passenger_profiles w)"

definition get_passenger_profile_by_user_id_full :: "int \<Rightarrow> passenger_profile_row io" where
  "get_passenger_profile_by_user_id_full user_id =
     select_one ''GetPassengerProfileByUserIDFull'' (find_passenger_profile user_id)"

definition update_passenger_profile :: "int \<Rightarrow> string \<Rightarrow> string option \<Rightarrow> string \<Rightarrow> passenger_profile_row io" where
  "update_passenger_profile i name address gender =
     update_one ''UpdatePassengerProfile'' w_passenger_profiles (\<lambda>x. w_passenger_profiles_update (\<lambda>_. x))
       (\<lambda>w. passenger_profiles_violation (w_users w) (w_passenger_profiles w)) (\<lambda>e q. pp_id q = i)
       (\<lambda>e q. q\<lparr>pp_name := name, pp_address := address, pp_gender := gender,
          pp_updated_at := Some (env_db_now e)\<rparr>)"

definition list_notifications :: "int \<Rightarrow> int \<Rightarrow> int \<Rightarrow> notification_row list io" where
  "list_notifications user_id limit offset = select_value ''ListNotifications'' (\<lambda>w.
     sql_page limit offset (order_desc n_id (filter (\<lambda>n. n_user_id n = user_id) (w_notifications w))))"

definition mark_all_notifications_read :: "int \<Rightarrow> int io" where
  "mark_all_notifications_read user_id =
     update_rows ''MarkAllNotificationsRead'' w_notifications (\<lambda>x. w_notifications_update (\<lambda>_. x))
       (\<lambda>_ _. None) (\<lambda>e n. n_user_id n = user_id \<and> \<not> n_is_read n) (\<lambda>e n. n\<lparr>n_is_read := True\<rparr>)"

definition delete_notification :: "int \<Rightarrow> int \<Rightarrow> int io" where
  "delete_notification i user_id = query ''DeleteNotification'' (\<lambda>e w.
     let gone = (\<lambda>n. n_id n = i \<and> n_user_id n = user_id) in
     (Inr (int (count_where gone (w_notifications w))),
      w\<lparr>w_notifications := filter (\<lambda>n. \<not> gone n) (w_notifications w)\<rparr>))"

section \<open>Domain values\<close>

record profile =
  pf_id :: int
  pf_user_id :: int
  pf_role :: string
  pf_name :: string
  pf_phone :: string
  pf_email :: string
  pf_address :: string
  pf_gender :: string
  pf_avatar_url :: string
  pf_vehicle_type :: string
  pf_plate_number :: string
  pf_rating :: gofloat
  pf_is_online :: bool
  pf_online_last_seen_at :: "int option"

definition default_gender :: string where
  "default_gender = ''Prefer not to say''"

definition normalize_gender :: "string \<Rightarrow> string option" where
  "normalize_gender v =
     (let s = to_lower (trim_space v) in
      if s = '''' then Some default_gender
      else if s = ''female'' then Some ''Female''
      else if s = ''male'' then Some ''Male''
      else if s = ''non-binary'' \<or> s = ''non_binary'' then Some ''Non-binary''
      else if s = ''prefer not to say'' \<or> s = ''prefer_not_to_say'' then Some default_gender
      else None)"

text \<open>The time of a notification is formatted to the second.\<close>

record notification =
  nt_id :: int
  nt_user_id :: int
  nt_type :: string
  nt_title :: string
  nt_body :: string
  nt_is_read :: bool
  nt_created_at :: int

section \<open>The repository\<close>

record profile_repository =
  pr_initialized :: bool
  pr_allow_unverified_test_drivers :: bool

definition profile_validate :: "profile_repository \<Rightarrow> unit io" where
  "profile_validate p =
     (if pr_initialized p then io_return ()
      else io_throw (Failure ''postgresql profile repository is not initialized''))"

definition to_postgres_profile_page_value :: "int \<Rightarrow> string \<Rightarrow> err + int" where
  "to_postgres_profile_page_value value field =
     (if value < 0 \<or> value > max_postgres_ride_id
      then Inl (Failure (field @ '' is outside PostgreSQL integer range'')) else Inr value)"

definition profile_missing :: "err \<Rightarrow> err" where
  "profile_missing x = (if x = NoRows then UserErr ErrProfileNotFound else x)"

definition driver_profile_from_row :: "user_row \<Rightarrow> driver_profile_row \<Rightarrow> profile" where
  "driver_profile_from_row account q =
     \<lparr>pf_id = dp_id q, pf_user_id = dp_user_id q, pf_role = ''driver'', pf_name = dp_name q,
      pf_phone = u_phone account, pf_email = u_email account, pf_address = '''', pf_gender = '''',
      pf_avatar_url = '''', pf_vehicle_type = dp_vehicle_type q, pf_plate_number = dp_plate_number q,
      pf_rating = dp_rating q, pf_is_online = dp_is_online q,
      pf_online_last_seen_at = dp_online_last_seen_at q\<rparr>"

definition passenger_avatar_url :: "int \<Rightarrow> string \<Rightarrow> string" where
  "passenger_avatar_url user_id storage_key =
     (if user_id \<le> 0 \<or> trim_space storage_key = '''' then ''''
      else ''/api/v1/passengers/'' @ itoa user_id @ ''/avatar'')"

definition passenger_profile_from_postgres :: "user_row \<Rightarrow> passenger_profile_row \<Rightarrow> profile" where
  "passenger_profile_from_postgres account q =
     \<lparr>pf_id = pp_id q, pf_user_id = pp_user_id q, pf_role = ''passenger'', pf_name = pp_name q,
      pf_phone = u_phone account, pf_email = u_email account,
      pf_address = ride_text_value (pp_address q), pf_gender = pp_gender q,
      pf_avatar_url = passenger_avatar_url (pp_user_id q) (ride_text_value (pp_avatar_storage_key q)),
      pf_vehicle_type = '''', pf_plate_number = '''', pf_rating = Fin 0, pf_is_online = False,
      pf_online_last_seen_at = None\<rparr>"

definition profile_get :: "profile_repository \<Rightarrow> int \<Rightarrow> profile io" where
  "profile_get p user_id =
     io_bind (profile_validate p) (\<lambda>_.
     io_bind (io_lift (to_postgres_ride_id user_id ''user id'')) (\<lambda>db_user_id.
     io_bind (io_map_err profile_missing (find_user db_user_id)) (\<lambda>account.
     io_try (get_driver_profile_by_user_id_full db_user_id) (\<lambda>result.
     case result of
       Inr q \<Rightarrow> io_return (driver_profile_from_row account q)
     | Inl x \<Rightarrow>
         if x \<noteq> NoRows then io_throw x
         else
           io_bind (io_map_err profile_missing (get_passenger_profile_by_user_id_full db_user_id))
             (\<lambda>q. io_return (passenger_profile_from_postgres account q))))))"

definition save_driver_profile :: "int \<Rightarrow> int \<Rightarrow> user_row \<Rightarrow> profile \<Rightarrow> profile io" where
  "save_driver_profile db_user_id db_profile_id account x =
     io_bind (io_map_err profile_missing (lock_driver_profile_by_user_id db_user_id)) (\<lambda>current.
     if dp_is_online current \<and>
        (dp_vehicle_type current \<noteq> pf_vehicle_type x \<or> dp_plate_number current \<noteq> pf_plate_number x)
     then io_throw (UserErr ErrDriverVehicleChangeWhileOnline)
     else
       io_bind (io_map_err profile_missing
         (update_driver_profile db_profile_id (pf_name x) (pf_vehicle_type x) (pf_plate_number x)))
         (\<lambda>q. io_return (driver_profile_from_row account q)))"

definition profile_save :: "profile_repository \<Rightarrow> profile \<Rightarrow> profile io" where
  "profile_save p x =
     io_bind (profile_validate p) (\<lambda>_.
     if pf_role x \<noteq> ''driver'' \<and> pf_role x \<noteq> ''passenger'' then io_throw (UserErr ErrProfileInvalidRole)
     else
       io_bind (io_lift (to_postgres_ride_id (pf_user_id x) ''user id'')) (\<lambda>db_user_id.
       io_bind (io_lift (to_postgres_ride_id (pf_id x) ''profile id'')) (\<lambda>db_profile_id.
       transaction (
         io_bind (io_map_err profile_missing (update_user_profile db_user_id (Some (pf_name x)))) (\<lambda>account.
         if pf_role x = ''driver'' then save_driver_profile db_user_id db_profile_id account x
         else
           io_bind (io_map_err profile_missing
             (update_passenger_profile db_profile_id (pf_name x) (Some (pf_address x)) (pf_gender x)))
             (\<lambda>q. io_return (passenger_profile_from_postgres account q)))))))"

text \<open>The transaction of \<open>UpdateOnlineStatus\<close>, up to its commit.\<close>

definition update_online_body :: "profile_repository \<Rightarrow> int \<Rightarrow> int \<Rightarrow> bool \<Rightarrow> driver_profile_row io" where
  "update_online_body p db_user_id db_target_id is_online =
     io_bind (io_map_err profile_missing (lock_driver_profile_for_online_status db_user_id db_target_id)) (\<lambda>locked.
     io_bind (if is_online then io_return 0 else count_active_rides_for_driver (Some (dp_user_id locked)))
       (\<lambda>active_rides.
     if active_rides > 0 then io_throw (UserErr ErrDriverAvailabilityBlocked)
     else
       io_map_err profile_missing
         (update_driver_online_status is_online db_user_id db_target_id
           (pr_allow_unverified_test_drivers p))))"

definition profile_update_online_status :: "profile_repository \<Rightarrow> int \<Rightarrow> int \<Rightarrow> bool \<Rightarrow> profile io" where
  "profile_update_online_status p user_id target_id is_online =
     io_bind (profile_validate p) (\<lambda>_.
     io_bind (io_lift (to_postgres_ride_id user_id ''user id'')) (\<lambda>db_user_id.
     io_bind (io_lift (to_postgres_ride_id target_id ''target id'')) (\<lambda>db_target_id.
     io_bind (transaction (update_online_body p db_user_id db_target_id is_online)) (\<lambda>q.
     io_return
       \<lparr>pf_id = dp_id q, pf_user_id = dp_user_id q, pf_role = ''driver'', pf_name = '''', pf_phone = '''',
        pf_email = '''', pf_address = '''', pf_gender = '''', pf_avatar_url = '''', pf_vehicle_type = '''',
        pf_plate_number = '''', pf_rating = Fin 0, pf_is_online = dp_is_online q,
        pf_online_last_seen_at = dp_online_last_seen_at q\<rparr>))))"

definition from_postgres_notification :: "notification_row \<Rightarrow> err + notification" where
  "from_postgres_notification n =
     (case n_created_at n of
        None \<Rightarrow> Inl (Failure ''notification creation time is null'')
      | Some t \<Rightarrow>
          Inr \<lparr>nt_id = n_id n, nt_user_id = n_user_id n, nt_type = n_type n, nt_title = n_title n,
               nt_body = n_body n, nt_is_read = n_is_read n, nt_created_at = t - t mod second\<rparr>)"

definition profile_notifications :: "profile_repository \<Rightarrow> int \<Rightarrow> int \<Rightarrow> int \<Rightarrow> notification list io" where
  "profile_notifications p user_id limit offset =
     io_bind (profile_validate p) (\<lambda>_.
     io_bind (io_lift (to_postgres_ride_id user_id ''user id'')) (\<lambda>db_user_id.
     if limit \<le> 0 then io_throw (Failure ''notification limit must be positive'')
     else if limit = max_int64 then io_throw (Failure ''notification limit exceeds native integer range'')
     else
       io_bind (io_lift (to_postgres_profile_page_value (limit + 1) ''limit'')) (\<lambda>db_limit.
       io_bind (io_lift (to_postgres_profile_page_value offset ''offset'')) (\<lambda>db_offset.
       io_bind (io_env env_now) (\<lambda>now.
       io_bind (expire_bid_sessions db_user_id now) (\<lambda>_.
       io_bind (list_notifications db_user_id db_limit db_offset) (\<lambda>items.
       io_lift (map_rows from_postgres_notification items))))))))"

definition profile_mark_all_read :: "profile_repository \<Rightarrow> int \<Rightarrow> unit io" where
  "profile_mark_all_read p user_id =
     io_bind (profile_validate p) (\<lambda>_.
     io_bind (io_lift (to_postgres_ride_id user_id ''user id'')) (\<lambda>db_user_id.
     io_bind (mark_all_notifications_read db_user_id) (\<lambda>_. io_return ())))"

definition profile_delete_notification :: "profile_repository \<Rightarrow> int \<Rightarrow> int \<Rightarrow> unit io" where
  "profile_delete_notification p user_id notification_id =
     io_bind (profile_validate p) (\<lambda>_.
     io_bind (io_lift (to_postgres_ride_id user_id ''user id'')) (\<lambda>db_user_id.
     io_bind (io_lift (to_postgres_ride_id notification_id ''notification id'')) (\<lambda>db_notification_id.
     io_bind (delete_notification db_notification_id db_user_id) (\<lambda>deleted.
     if deleted = 0 then io_throw (UserErr ErrNotificationNotFound) else io_return ()))))"

section \<open>The service\<close>

text \<open>The service may have been built without a repository.\<close>

type_synonym profile_service = "profile_repository option"

definition with_profiles :: "profile_service \<Rightarrow> err \<Rightarrow> (profile_repository \<Rightarrow> 'a io) \<Rightarrow> 'a io" where
  "with_profiles service unavailable f = (case service of None \<Rightarrow> io_throw unavailable | Some p \<Rightarrow> f p)"

definition user_profile_get :: "profile_service \<Rightarrow> int \<Rightarrow> profile io" where
  "user_profile_get service user_id =
     with_profiles service (UserErr ErrProfileUnavailable) (\<lambda>p. profile_get p user_id)"

definition user_profile_update :: "profile_service \<Rightarrow> profile \<Rightarrow> profile io" where
  "user_profile_update service x =
     with_profiles service (UserErr ErrProfileUnavailable) (\<lambda>p. profile_save p x)"

definition user_profile_update_online :: "profile_service \<Rightarrow> int \<Rightarrow> int \<Rightarrow> bool \<Rightarrow> profile io" where
  "user_profile_update_online service user_id target_id is_online =
     with_profiles service (UserErr ErrProfileUnavailable)
       (\<lambda>p. profile_update_online_status p user_id target_id is_online)"

definition user_notifications :: "profile_service \<Rightarrow> int \<Rightarrow> int \<Rightarrow> int \<Rightarrow> notification list io" where
  "user_notifications service user_id limit offset =
     with_profiles service (UserErr ErrNotificationUnavailable) (\<lambda>p.
       if user_id \<le> 0 then io_throw (Failure ''notification user id is invalid'')
       else if limit \<le> 0 \<or> limit > 100 \<or> offset < 0 \<or> offset > 1000000
       then io_throw (Failure ''notification pagination is invalid'')
       else profile_notifications p user_id limit offset)"

definition user_delete_notification :: "profile_service \<Rightarrow> int \<Rightarrow> int \<Rightarrow> unit io" where
  "user_delete_notification service user_id notification_id =
     with_profiles service (UserErr ErrNotificationUnavailable) (\<lambda>p.
       if user_id \<le> 0 \<or> notification_id \<le> 0
       then io_throw (Failure ''notification identity is invalid'')
       else profile_delete_notification p user_id notification_id)"

definition user_mark_all_read :: "profile_service \<Rightarrow> int \<Rightarrow> unit io" where
  "user_mark_all_read service user_id =
     with_profiles service (UserErr ErrNotificationUnavailable) (\<lambda>p.
       if user_id \<le> 0 then io_throw (Failure ''notification user id is invalid'')
       else profile_mark_all_read p user_id)"

end
