(* ===== verification/Profile_Http.thy ===== *)
theory Profile_Http
  imports Profile_Store
begin

text \<open>
  The handlers of \<open>user/transport/http\<close>: one's profile, its update, the notifications and the
  online status. A value is answered as its response record, whose fields are those of the
  domain value, the time last seen online excepted.
\<close>

record update_profile_request =
  up_name :: "string option"
  up_phone :: "string option"
  up_email :: "string option"
  up_address :: "string option"
  up_gender :: "string option"
  up_vehicle_type :: "string option"
  up_plate_number :: "string option"

definition is_profile_not_found :: "err \<Rightarrow> bool" where
  "is_profile_not_found x \<longleftrightarrow> x = UserErr ErrProfileNotFound"

definition profile_read_error :: "err \<Rightarrow> int \<times> string" where
  "profile_read_error x =
     (if is_profile_not_found x then (404, ''Profile not found.'')
      else (500, ''Your profile is temporarily unavailable.''))"

definition user_me :: "profile_service \<Rightarrow> int option \<Rightarrow> (world, profile) endpoint" where
  "user_me service actor = authenticated actor (\<lambda>i.
     call_service (user_profile_get service i) profile_read_error (answer 200))"

definition apply_profile_update :: "profile \<Rightarrow> update_profile_request \<Rightarrow> profile" where
  "apply_profile_update current input =
     current\<lparr>pf_name := coalesce_to (up_name input) (pf_name current),
       pf_address := coalesce_to (up_address input) (pf_address current),
       pf_gender := coalesce_to (up_gender input) (pf_gender current),
       pf_vehicle_type := coalesce_to (up_vehicle_type input) (pf_vehicle_type current),
       pf_plate_number := coalesce_to (up_plate_number input) (pf_plate_number current)\<rparr>"

definition profile_update_error :: "err \<Rightarrow> int \<times> string" where
  "profile_update_error x =
     (if x = UserErr ErrDriverVehicleChangeWhileOnline
      then (409, ''Go offline before changing vehicle information.'')
      else if x = UserErr ErrProfileInvalidRole then (400, ''unsupported profile role'')
      else (500, ''Your profile is temporarily unavailable. Please try again.''))"

definition user_update ::
  "profile_service \<Rightarrow> int option \<Rightarrow> update_profile_request option \<Rightarrow> (world, profile) endpoint" where
  "user_update service actor body = authenticated actor (\<lambda>i.
     decoded body (400, ''invalid JSON'') (\<lambda>input.
     call_service (user_profile_get service i) profile_read_error (\<lambda>current.
     guard (null_or (\<lambda>s. equal_fold (trim_space s) (trim_space (pf_email current))) (up_email input))
       422 ''Use the email verification flow to change your email.'' (
     guard (null_or (\<lambda>s. trim_space s = trim_space (pf_phone current)) (up_phone input))
       422 ''Phone changes require verification and cannot be made here.'' (
     guard (null_or (\<lambda>s. normalize_gender s \<noteq> None) (up_gender input))
       422 ''Please choose a valid gender.'' (
     call_service
       (user_profile_update service (apply_profile_update current
         (input\<lparr>up_gender := Option.bind (up_gender input) normalize_gender\<rparr>)))
       profile_update_error (answer 200)))))))"

text \<open>The handlers with an account in their path serve it to its owner only.\<close>

definition own_path :: "int option \<Rightarrow> string \<Rightarrow> (int \<Rightarrow> ('s, 'a) endpoint) \<Rightarrow> ('s, 'a) endpoint" where
  "own_path actor param f = authenticated actor (\<lambda>i.
     path_number param (400, ''invalid passenger id'') (\<lambda>target.
     guard (0 < target) 400 ''invalid passenger id'' (
     guard (target = i) 403 ''forbidden'' (f target))))"

definition user_profile :: "profile_service \<Rightarrow> int option \<Rightarrow> string \<Rightarrow> (world, profile) endpoint" where
  "user_profile service actor param = own_path actor param (\<lambda>target.
     call_service (user_profile_get service target) profile_read_error (answer 200))"

definition user_profile_put ::
  "profile_service \<Rightarrow> int option \<Rightarrow> string \<Rightarrow> update_profile_request option \<Rightarrow> (world, profile) endpoint" where
  "user_profile_put service actor param body = own_path actor param (\<lambda>_. user_update service actor body)"

definition user_notifications_get ::
  "profile_service \<Rightarrow> int option \<Rightarrow> string \<Rightarrow> url_values \<Rightarrow> (world, notification offset_page) endpoint" where
  "user_notifications_get service actor param v = own_path actor param (\<lambda>target.
     case parse_offset_pagination v 50 100 of
       Inl _ \<Rightarrow> refuse 400 ''invalid pagination''
     | Inr page \<Rightarrow>
         call_service (user_notifications service target (pg_limit page) (pg_offset page))
           (\<lambda>_. (500, ''Notifications are temporarily unavailable.''))
           (\<lambda>items. answer 200 (new_offset_page items (pg_limit page) (pg_offset page))))"

definition user_notifications_read :: "profile_service \<Rightarrow> int option \<Rightarrow> string \<Rightarrow> (world, unit) endpoint" where
  "user_notifications_read service actor param = own_path actor param (\<lambda>target.
     call_service (user_mark_all_read service target)
       (\<lambda>_. (500, ''Notifications could not be marked as read.'')) (\<lambda>_. answer 204 ()))"

definition user_notification_delete ::
  "profile_service \<Rightarrow> int option \<Rightarrow> string \<Rightarrow> string \<Rightarrow> (world, unit) endpoint" where
  "user_notification_delete service actor param notification_param = own_path actor param (\<lambda>target.
     path_number notification_param (400, ''invalid notification'') (\<lambda>notification_id.
     guard (0 < notification_id) 400 ''invalid notification'' (
     call_service (user_delete_notification service target notification_id)
       (\<lambda>x. if x = UserErr ErrNotificationNotFound then (404, ''notification not found'')
             else (500, ''The notification could not be deleted.''))
       (\<lambda>_. answer 204 ()))))"

record online_request =
  on_is_online :: "bool option"
  on_legacy_is_online :: "bool option"

definition user_online ::
  "profile_service \<Rightarrow> int option \<Rightarrow> string \<Rightarrow> online_request option \<Rightarrow> (world, profile) endpoint" where
  "user_online service actor param body = authenticated actor (\<lambda>i.
     path_number param (403, ''forbidden'') (\<lambda>target.
     decoded body (400, ''invalid online status'') (\<lambda>input.
     decoded (if on_is_online input \<noteq> None then on_is_online input else on_legacy_is_online input)
       (400, ''is_online is required'') (\<lambda>is_online.
     call_service (user_profile_update_online service i target is_online)
       (\<lambda>x. if x = UserErr ErrDriverAvailabilityBlocked
             then (409, ''Finish your active ride before going offline.'')
             else if is_profile_not_found x then (403, ''forbidden'')
             else (500, ''could not update online status''))
       (answer 200)))))"

end
