(* ===== verification/Profile_System.thy ===== *)
theory Profile_System
  imports Sample_Run Sample_Bid Profile_Http Evolution
begin

text \<open>
  Profiles and rides together. A driver with an active ride is online and drives the vehicle that
  the ride shows: accepting needs an online driver, going offline is refused with an active ride,
  and the vehicle cannot change while online.
\<close>

section \<open>What the profile commands change\<close>

text \<open>Only users, profiles and notifications: for the ride modules they are another module.\<close>

lemma other_modules_iff:
  "other_modules w w' \<longleftrightarrow>
     w_rides w' = w_rides w \<and> w_settlements w' = w_settlements w \<and> w_accounts w' = w_accounts w \<and>
     w_ledgers w' = w_ledgers w \<and> w_events w' = w_events w \<and> w_audits w' = w_audits w \<and>
     w_sessions w' = w_sessions w \<and> w_offers w' = w_offers w \<and>
     w_booking_references w' = w_booking_references w \<and> w_published w' = w_published w"
  (is "_ \<longleftrightarrow> ?same")
proof
  assume ?same
  then have "w' = w\<lparr>w_users := w_users w', w_driver_profiles := w_driver_profiles w', w_reviews := w_reviews w',
      w_passenger_reviews := w_passenger_reviews w', w_passenger_profiles := w_passenger_profiles w',
      w_ride_reports := w_ride_reports w', w_driver_documents := w_driver_documents w',
      w_notifications := w_notifications w'\<rparr>" by (intro world.equality) simp_all
  then show "other_modules w w'" unfolding other_modules_def by blast
qed (simp add: other_modulesD)

interpretation modules: evolution other_modules
  by unfold_locales (auto simp: other_modules_iff)

lemma profiles_are_other_modules:
  "keeps other_modules (update_profiles n p f)"
  "keeps other_modules (update_user_profile i name)"
  "keeps other_modules (update_passenger_profile i name' address gender)"
  "keeps other_modules (mark_all_notifications_read i)"
  "keeps other_modules (delete_notification i j)"
  by (auto intro!: keepsI simp: update_profiles_def update_user_profile_def update_passenger_profile_def
      mark_all_notifications_read_def delete_notification_def update_one_def update_rows_def query_def
      other_modules_iff Let_def split: if_splits option.splits)


lemmas profile_command_defs = user_profile_get_def user_profile_update_def user_profile_update_online_def
  with_profiles_def profile_get_def profile_save_def profile_update_online_status_def update_online_body_def save_driver_profile_def
  update_driver_profile_def update_driver_online_status_def

lemma read_only_profile_reads:
  "read_only (profile_validate p)" "read_only (find_user i)" "read_only (get_driver_profile_by_user_id_full i)"
  "read_only (get_passenger_profile_by_user_id_full i)" "read_only (lock_driver_profile_by_user_id i)"
  "read_only (lock_driver_profile_for_online_status i j)" "read_only (count_active_rides_for_driver d)"
  by (auto simp: profile_validate_def find_user_def get_driver_profile_by_user_id_full_def
      get_passenger_profile_by_user_id_full_def lock_driver_profile_by_user_id_def
      lock_driver_profile_for_online_status_def count_active_rides_for_driver_def io_class)

lemma read_only_pure: "read_only (\<lambda>e w. (g w, w))"
  by (simp add: read_only_def)

lemma profile_commands_are_other_modules:
  "keeps other_modules (user_profile_get sv i)"
  "keeps other_modules (user_profile_update sv x)"
  "keeps other_modules (user_profile_update_online sv i j on)"
  unfolding profile_command_defs
  by (intro modules.rules profiles_are_other_modules modules.read_only read_only_profile_reads read_only_pure)+

section \<open>Steps\<close>

text \<open>
  A profile that is saved was read before, perhaps long ago: its identifiers are those of a row,
  and the rest may be out of date.
\<close>

definition own_profile :: "world \<Rightarrow> profile \<Rightarrow> bool" where
  "own_profile w x \<longleftrightarrow> pf_role x \<noteq> ''driver'' \<or>
     exists_where (\<lambda>q. dp_id q = pf_id x \<and> dp_user_id q = pf_user_id x) (w_driver_profiles w)"

inductive live_step :: "ride_repository \<Rightarrow> bid_store \<Rightarrow> world \<Rightarrow> world \<Rightarrow> bool"
  for p :: ride_repository and b :: bid_store where
  rides: "server_step p b w w' \<Longrightarrow> w_driver_profiles w' = w_driver_profiles w \<Longrightarrow> live_step p b w w'"
| save: "own_profile w x \<Longrightarrow> user_profile_update sv x e w = (r, w') \<Longrightarrow> live_step p b w w'"
| online: "user_profile_update_online sv i j on e w = (r, w') \<Longrightarrow> live_step p b w w'"
| register: "\<not> dp_is_online q \<Longrightarrow>
     \<not> exists_where (\<lambda>c. dp_id c = dp_id q \<or> dp_user_id c = dp_user_id q) (w_driver_profiles w) \<Longrightarrow>
     live_step p b w (w\<lparr>w_driver_profiles := w_driver_profiles w @ [q]\<rparr>)"

lemma live_step_server: "live_step p b w w' \<Longrightarrow> server_step p b w w'"
proof (induction rule: live_step.induct)
  case (register q w)
  show ?case by (rule server_step.accounts) (simp add: other_modules_iff)
qed (blast intro: server_step.accounts keepsD [OF profile_commands_are_other_modules(2)]
    keepsD [OF profile_commands_are_other_modules(3)])+

definition profiles_unique :: "world \<Rightarrow> bool" where
  "profiles_unique w \<longleftrightarrow>
     distinct (map dp_id (w_driver_profiles w)) \<and> distinct (map dp_user_id (w_driver_profiles w))"

inductive live_reachable :: "ride_repository \<Rightarrow> bid_store \<Rightarrow> world \<Rightarrow> bool"
  for p :: ride_repository and b :: bid_store where
  start: "initial_world w \<Longrightarrow> profiles_unique w \<Longrightarrow> live_reachable p b w"
| step: "live_reachable p b w \<Longrightarrow> live_step p b w w' \<Longrightarrow> live_reachable p b w'"

lemma live_reachable_reachable: "live_reachable p b w \<Longrightarrow> reachable p b w"
  by (induction rule: live_reachable.induct) (blast intro: reachable.intros live_step_server)+

section \<open>Drivers serve their rides\<close>

definition active_rides :: "world \<Rightarrow> ride_row list" where
  "active_rides w = filter (\<lambda>r. r_status r \<in> set driver_active_statuses) (w_rides w)"

definition served :: "world \<Rightarrow> bool" where
  "served w \<longleftrightarrow> list_all (driver_serves (w_driver_profiles w)) (active_rides w)"

lemma driver_serves_iff:
  "driver_serves profiles r \<longleftrightarrow>
     (\<exists>q\<in>set profiles. r_driver_id r = Some (dp_user_id q) \<and> dp_is_online q \<and>
        r_vehicle_type r = Some (dp_vehicle_type q) \<and> r_plate_number r = Some (dp_plate_number q))"
  by (auto simp: driver_serves_def exists_where_iff count_where_def filter_empty_conv)

lemma driver_serves_same:
  "driver_serves profiles r \<Longrightarrow> r_driver_id r' = r_driver_id r \<Longrightarrow> r_vehicle_type r' = r_vehicle_type r \<Longrightarrow>
     r_plate_number r' = r_plate_number r \<Longrightarrow> driver_serves profiles r'"
  by (simp add: driver_serves_def)

text \<open>A change of profiles that keeps each online profile of a driver with active rides.\<close>

lemma served_profiles:
  assumes "served w" and "w_rides w' = w_rides w"
    and "\<And>q r. q \<in> set (w_driver_profiles w) \<Longrightarrow> dp_is_online q \<Longrightarrow> r \<in> set (active_rides w) \<Longrightarrow>
      r_driver_id r = Some (dp_user_id q) \<Longrightarrow>
      \<exists>q'\<in>set (w_driver_profiles w'). dp_user_id q' = dp_user_id q \<and> dp_is_online q' \<and>
        dp_vehicle_type q' = dp_vehicle_type q \<and> dp_plate_number q' = dp_plate_number q"
  shows "served w'"
  unfolding served_def list_all_iff
proof
  fix r assume r: "r \<in> set (active_rides w')"
  then have r2: "r \<in> set (active_rides w)" by (simp add: active_rides_def assms(2))
  with assms(1) obtain q where q: "q \<in> set (w_driver_profiles w)" "r_driver_id r = Some (dp_user_id q)"
    "dp_is_online q" "r_vehicle_type r = Some (dp_vehicle_type q)" "r_plate_number r = Some (dp_plate_number q)"
    by (auto simp: served_def list_all_iff driver_serves_iff)
  from assms(3) [OF q(1,3) r2 q(2)] obtain q' where q': "q' \<in> set (w_driver_profiles w')"
    "dp_user_id q' = dp_user_id q" "dp_is_online q'" "dp_vehicle_type q' = dp_vehicle_type q"
    "dp_plate_number q' = dp_plate_number q" by blast
  with q show "driver_serves (w_driver_profiles w') r" by (intro driver_servesI [OF q'(1,3)]) simp_all
qed

lemma upd_where_key: "(\<And>q. k (f q) = k q) \<Longrightarrow> map k (upd_where p f qs) = map k qs"
  by (induction qs) (auto simp: upd_where_def)

lemma update_profiles_cases:
  assumes "update_profiles n p f e w = (r, w')"
  shows "w' = w \<or> w' = w\<lparr>w_driver_profiles := upd_where (p e w) (f e) (w_driver_profiles w)\<rparr>"
  using assms by (auto simp: update_profiles_def update_one_def query_def split: if_splits option.splits)

lemma update_profiles_Inr:
  assumes "update_profiles n p f e w = (Inr q, w')"
  shows "w' = w\<lparr>w_driver_profiles := upd_where (p e w) (f e) (w_driver_profiles w)\<rparr>"
  using assms by (auto simp: update_profiles_def update_one_Inr)

text \<open>Both profile commands change nothing when they fail.\<close>

lemmas atomic_after_read = atomic_bind_read_only [OF read_only_profile_reads(1)] atomic_bind_read_only [OF read_only_lift]

lemma atomic_profile_commands:
  "atomic (user_profile_update_online sv i j on)" "atomic (user_profile_update sv x)"
  unfolding user_profile_update_online_def user_profile_update_def with_profiles_def
    profile_update_online_status_def profile_save_def
  by (cases sv; auto intro!: atomic_after_read atomic_bind_return [OF atomic_transaction] io_class)+

text \<open>Going on or off line.\<close>

definition set_online :: "bool \<Rightarrow> env \<Rightarrow> driver_profile_row \<Rightarrow> driver_profile_row" where
  "set_online on e q = q\<lparr>dp_is_online := on, dp_online_last_seen_at := (if on then Some (env_db_now e) else None),
     dp_updated_at := Some (env_db_now e)\<rparr>"

lemma update_online_bodyE:
  assumes "update_online_body p i j on e w = (Inr q, w')"
  obtains locked n where "online_status_target i j locked"
    and "(if on then io_return 0 else count_active_rides_for_driver (Some (dp_user_id locked))) e w = (Inr n, w)"
    and "update_driver_online_status on i j (pr_allow_unverified_test_drivers p) e w = (Inr q, w')"
    and "n = 0"
proof -
  from assms obtain locked v n v' where
    l: "lock_driver_profile_for_online_status i j e w = (Inr locked, v)"
    and n: "(if on then io_return 0 else count_active_rides_for_driver (Some (dp_user_id locked))) e v = (Inr n, v')"
    and rest: "(if n > 0 then io_throw (UserErr ErrDriverAvailabilityBlocked)
      else io_map_err profile_missing
        (update_driver_online_status on i j (pr_allow_unverified_test_drivers p))) e v' = (Inr q, w')"
    by (auto simp only: update_online_body_def io_bind_Inr io_map_err_Inr)
  from l have v: "v = w" "online_status_target i j locked"
    by (auto simp: lock_driver_profile_for_online_status_def io_simps dest: find_SomeD)
  from n have v': "v' = v"
    by (cases on) (auto simp: count_active_rides_for_driver_def io_simps)
  from rest have z: "n = 0" by (cases "n > 0") (simp_all add: io_simps)
  with rest have "update_driver_online_status on i j (pr_allow_unverified_test_drivers p) e v' = (Inr q, w')"
    by (simp add: io_map_err_Inr)
  with that v v' n z show thesis by blast
qed

lemma online_effect:
  assumes "user_profile_update_online sv i j on e w = (Inr x, w')"
  shows "(on \<or> count_where (driver_active_ride (Some i)) (w_rides w) = 0) \<and>
    (\<exists>p. (\<forall>q. p q \<longrightarrow> dp_user_id q = i) \<and>
      w' = w\<lparr>w_driver_profiles := upd_where p (set_online on e) (w_driver_profiles w)\<rparr>)"
proof -
  from assms obtain p q where b: "update_online_body p i j on e w = (Inr q, w')"
    by (auto simp: user_profile_update_online_def with_profiles_def profile_update_online_status_def
        profile_validate_def io_simps split: option.splits if_splits)
  from update_online_bodyE [OF b] obtain locked n where
    l: "online_status_target i j locked"
    and n: "(if on then io_return 0 else count_active_rides_for_driver (Some (dp_user_id locked))) e w = (Inr n, w)"
    and u: "update_driver_online_status on i j (pr_allow_unverified_test_drivers p) e w = (Inr q, w')"
    and z: "n = 0" by blast
  have a: "on \<or> count_where (driver_active_ride (Some i)) (w_rides w) = 0"
    using l n z by (cases on) (simp_all add: online_status_target_def count_active_rides_for_driver_def io_simps)
  have "set_online on e = (\<lambda>q. q\<lparr>dp_is_online := on,
      dp_online_last_seen_at := (if on then Some (env_db_now e) else None), dp_updated_at := Some (env_db_now e)\<rparr>)"
    by (simp add: fun_eq_iff set_online_def)
  with update_profiles_Inr [OF u [unfolded update_driver_online_status_def]]
  have w': "w' = w\<lparr>w_driver_profiles := upd_where (\<lambda>q. online_status_target i j q \<and>
      exists_where (\<lambda>u. u_id u = dp_user_id q \<and> (\<not> on \<or> u_account_status u = ''active'' \<and>
        (u_is_verified u \<or> pr_allow_unverified_test_drivers p))) (w_users w))
      (set_online on e) (w_driver_profiles w)\<rparr>" by (simp only:)
  show ?thesis
    by (rule conjI [OF a], rule exI, rule conjI [OF _ w']) (simp add: online_status_target_def)
qed

text \<open>Saving a driver's profile.\<close>

definition set_vehicle :: "profile \<Rightarrow> env \<Rightarrow> driver_profile_row \<Rightarrow> driver_profile_row" where
  "set_vehicle x e q = q\<lparr>dp_name := pf_name x, dp_vehicle_type := pf_vehicle_type x,
     dp_plate_number := pf_plate_number x, dp_updated_at := Some (env_db_now e)\<rparr>"

lemma save_effect:
  assumes "user_profile_update sv x e w = (Inr y, w')"
  shows "w_rides w' = w_rides w \<and>
    (pf_role x \<noteq> ''driver'' \<and> w_driver_profiles w' = w_driver_profiles w \<or>
     pf_role x = ''driver'' \<and>
       (\<exists>q. find_profile w (Some (pf_user_id x)) = Some q \<and>
         (dp_is_online q \<longrightarrow> dp_vehicle_type q = pf_vehicle_type x \<and> dp_plate_number q = pf_plate_number x)) \<and>
       w_driver_profiles w' = upd_where (\<lambda>q. dp_id q = pf_id x) (set_vehicle x e) (w_driver_profiles w))"
proof (cases "pf_role x = ''driver''")
  case True
  with assms obtain account v where
    a: "update_user_profile (pf_user_id x) (Some (pf_name x)) e w = (Inr account, v)"
    and s: "save_driver_profile (pf_user_id x) (pf_id x) account x e v = (Inr y, w')"
    by (auto simp: user_profile_update_def with_profiles_def profile_save_def profile_validate_def io_simps
        split: option.splits if_splits)
  from a have v: "w_rides v = w_rides w" "w_driver_profiles v = w_driver_profiles w"
    by (auto simp: update_user_profile_def io_simps)
  from s obtain q u where q: "find_profile v (Some (pf_user_id x)) = Some q"
      "dp_is_online q \<longrightarrow> dp_vehicle_type q = pf_vehicle_type x \<and> dp_plate_number q = pf_plate_number x"
    and up: "update_driver_profile (pf_id x) (pf_name x) (pf_vehicle_type x) (pf_plate_number x) e v = (Inr u, w')"
    by (auto simp: save_driver_profile_def lock_driver_profile_by_user_id_def io_simps split: if_splits)
  have "set_vehicle x e = (\<lambda>q. q\<lparr>dp_name := pf_name x, dp_vehicle_type := pf_vehicle_type x,
      dp_plate_number := pf_plate_number x, dp_updated_at := Some (env_db_now e)\<rparr>)"
    by (simp add: fun_eq_iff set_vehicle_def)
  with up have "w' = v\<lparr>w_driver_profiles := upd_where (\<lambda>q. dp_id q = pf_id x) (set_vehicle x e) (w_driver_profiles v)\<rparr>"
    by (auto simp: update_driver_profile_def io_bind_Inr dest!: update_profiles_Inr)
  with True v q show ?thesis by (auto simp: find_profile_def)
next
  case False
  with assms obtain p account v q where
    "update_user_profile (pf_user_id x) (Some (pf_name x)) e w = (Inr account, v)"
    "update_passenger_profile (pf_id x) (pf_name x) (Some (pf_address x)) (pf_gender x) e v = (Inr q, w')"
    by (auto simp: user_profile_update_def with_profiles_def profile_save_def profile_validate_def io_simps
        split: option.splits if_splits)
  with False show ?thesis by (auto simp: update_user_profile_def update_passenger_profile_def io_simps)
qed

lemma in_upd_where: "q \<in> set t \<Longrightarrow> (if p q then f q else q) \<in> set (upd_where p f t)"
  by (auto simp: upd_where_def)

text \<open>The invariant: unique profiles, and every active ride is served.\<close>

definition live_inv :: "world \<Rightarrow> bool" where
  "live_inv w \<longleftrightarrow> profiles_unique w \<and> served w"

lemma profiles_unique_upd:
  assumes "profiles_unique w" and "w_driver_profiles w' = upd_where p f (w_driver_profiles w)"
    and "\<And>q. dp_id (f q) = dp_id q" and "\<And>q. dp_user_id (f q) = dp_user_id q"
  shows "profiles_unique w'"
  using assms by (simp add: profiles_unique_def upd_where_key)

lemma live_inv_online:
  assumes "live_inv w" and "user_profile_update_online sv i j on e w = (r, w')"
  shows "live_inv w'"
proof (cases r)
  case (Inl x)
  with assms show ?thesis using atomicD [OF atomic_profile_commands(1)] by blast
next
  case (Inr x)
  with online_effect assms(2) obtain p where
    c: "on \<or> count_where (driver_active_ride (Some i)) (w_rides w) = 0"
    and p: "\<And>q. p q \<Longrightarrow> dp_user_id q = i"
    and w': "w' = w\<lparr>w_driver_profiles := upd_where p (set_online on e) (w_driver_profiles w)\<rparr>" by blast
  have "served w'"
  proof (rule served_profiles)
    show "served w" using assms(1) by (simp add: live_inv_def)
    show "w_rides w' = w_rides w" using w' by simp
    fix q ride assume q: "q \<in> set (w_driver_profiles w)" "dp_is_online q" "ride \<in> set (active_rides w)"
      "r_driver_id ride = Some (dp_user_id q)"
    let ?q = "if p q then set_online on e q else q"
    have "on" if "p q"
    proof (rule ccontr)
      assume "\<not> on"
      with c have "count_where (driver_active_ride (Some i)) (w_rides w) = 0" by simp
      moreover have "driver_active_ride (Some i) ride" "ride \<in> set (w_rides w)"
        using q p [OF that] by (auto simp: driver_active_ride_def sql_eq_def active_rides_def)
      ultimately show False by (auto simp: count_where_def filter_empty_conv)
    qed
    then have "dp_user_id ?q = dp_user_id q" "dp_is_online ?q" "dp_vehicle_type ?q = dp_vehicle_type q"
      "dp_plate_number ?q = dp_plate_number q"
      using q(2) by (auto simp: set_online_def)
    with in_upd_where [OF q(1), of p "set_online on e"] w'
    show "\<exists>q'\<in>set (w_driver_profiles w'). dp_user_id q' = dp_user_id q \<and> dp_is_online q' \<and>
        dp_vehicle_type q' = dp_vehicle_type q \<and> dp_plate_number q' = dp_plate_number q" by auto
  qed
  moreover have "profiles_unique w'"
    by (rule profiles_unique_upd [of w _ p "set_online on e"]) (use assms(1) w' in \<open>simp_all add: live_inv_def set_online_def\<close>)
  ultimately show ?thesis by (simp add: live_inv_def)
qed

lemma own_profile_unique:
  assumes "profiles_unique w" and "own_profile w x" and "pf_role x = ''driver''"
    and "find_profile w (Some (pf_user_id x)) = Some q"
    and "c \<in> set (w_driver_profiles w)" and "dp_id c = pf_id x"
  shows "c = q"
proof -
  from assms(2,3) obtain c2 where c2: "c2 \<in> set (w_driver_profiles w)" "dp_id c2 = pf_id x" "dp_user_id c2 = pf_user_id x"
    by (auto simp: own_profile_def exists_where_iff count_where_def filter_empty_conv)
  have "c2 = c" using assms(1,5,6) c2 by (intro distinct_key_inj [of dp_id]) (auto simp: profiles_unique_def)
  moreover have "c2 = q"
    using assms(1,4) c2 by (intro distinct_key_inj [of dp_user_id])
      (auto simp: profiles_unique_def find_profile_def sql_eq_def dest!: find_SomeD)
  ultimately show ?thesis by simp
qed

lemma live_inv_save:
  assumes "live_inv w" and "own_profile w x" and "user_profile_update sv x e w = (r, w')"
  shows "live_inv w'"
proof (cases r)
  case (Inl y)
  with assms show ?thesis using atomicD [OF atomic_profile_commands(2)] by blast
next
  case (Inr y)
  from save_effect assms(3) Inr have rides: "w_rides w' = w_rides w"
    and cases: "pf_role x \<noteq> ''driver'' \<and> w_driver_profiles w' = w_driver_profiles w \<or>
     pf_role x = ''driver'' \<and>
       (\<exists>q. find_profile w (Some (pf_user_id x)) = Some q \<and>
         (dp_is_online q \<longrightarrow> dp_vehicle_type q = pf_vehicle_type x \<and> dp_plate_number q = pf_plate_number x)) \<and>
       w_driver_profiles w' = upd_where (\<lambda>q. dp_id q = pf_id x) (set_vehicle x e) (w_driver_profiles w)"
    by blast+
  show ?thesis
  proof (cases "pf_role x = ''driver''")
    case False
    with cases rides assms(1) show ?thesis by (simp add: live_inv_def profiles_unique_def served_def active_rides_def)
  next
    case True
    with cases obtain q where q: "find_profile w (Some (pf_user_id x)) = Some q"
      and same: "dp_is_online q \<Longrightarrow> dp_vehicle_type q = pf_vehicle_type x \<and> dp_plate_number q = pf_plate_number x"
      and w': "w_driver_profiles w' = upd_where (\<lambda>q. dp_id q = pf_id x) (set_vehicle x e) (w_driver_profiles w)" by blast
    have u: "profiles_unique w" using assms(1) by (simp add: live_inv_def)
    have "served w'"
    proof (rule served_profiles [of w])
      show "served w" using assms(1) by (simp add: live_inv_def)
      fix c ride assume c: "c \<in> set (w_driver_profiles w)" "dp_is_online c"
      let ?c = "if dp_id c = pf_id x then set_vehicle x e c else c"
      have "dp_vehicle_type ?c = dp_vehicle_type c \<and> dp_plate_number ?c = dp_plate_number c"
        using own_profile_unique [OF u assms(2) True q c(1)] same c(2) by (auto simp: set_vehicle_def)
      moreover have "dp_user_id ?c = dp_user_id c" "dp_is_online ?c" using c(2) by (simp_all add: set_vehicle_def)
      ultimately show "\<exists>q'\<in>set (w_driver_profiles w'). dp_user_id q' = dp_user_id c \<and> dp_is_online q' \<and>
          dp_vehicle_type q' = dp_vehicle_type c \<and> dp_plate_number q' = dp_plate_number c"
        using in_upd_where [OF c(1), of "\<lambda>q. dp_id q = pf_id x" "set_vehicle x e"] w' by auto
    qed (rule rides)
    moreover have "profiles_unique w'" using u w' by (rule profiles_unique_upd) (simp_all add: set_vehicle_def)
    ultimately show ?thesis by (simp add: live_inv_def)
  qed
qed

lemma served_core:
  assumes "served w" and "rides_inv w" and "core_step w v" and "w_driver_profiles v = w_driver_profiles w"
  shows "served v"
  using assms(3)
proof cases
  case (accepted p i d)
  then obtain r' st where "driver_serves (w_driver_profiles w) r'"
    and "w_rides v = put_row r_id r' (w_rides w)"
    unfolding ride_accepted_def by auto
  with assms(1,4) show ?thesis
    by (fastforce simp: served_def active_rides_def list_all_iff dest: in_put_row)
next
  case (moved i a f t)
  then obtain r r' ev audits where m: "lifecycle_effect i a r r' ev audits w v"
    "can_transition (r_status r) (r_status r')"
    unfolding ride_moved_def by blast
  then have r: "r \<in> set (w_rides w)" and v: "w_rides v = put_row r_id r' (w_rides w)"
    and same: "r_driver_id r' = r_driver_id r" "r_vehicle_type r' = r_vehicle_type r" "r_plate_number r' = r_plate_number r"
    by (simp_all add: lifecycle_effect_def)
  have wf: "ride_wf r" using assms(2) r by (simp add: rides_inv_def list_all_iff)
  have "driver_serves (w_driver_profiles w) r'" if "r_status r' \<in> set driver_active_statuses"
  proof (cases "r_driver_id r'")
    case None
    with status_of_ride(2) [of w r'] m that moved_ride(4) [OF m wf] show ?thesis
      by (auto simp: lifecycle_effect_def driver_active_statuses_def)
  next
    case (Some d)
    with that have "driver_active_ride (Some d) r'" by (simp add: driver_active_ride_def sql_eq_def)
    then have "driver_active_ride (Some d) r" by (rule moved_ride(2) [OF m wf])
    then have "r \<in> set (active_rides w)" using r by (simp add: active_rides_def driver_active_ride_def)
    with assms(1) have "driver_serves (w_driver_profiles w) r" by (simp add: served_def list_all_iff)
    then show ?thesis using same by (rule driver_serves_same)
  qed
  with assms(1,4) v show ?thesis
    by (fastforce simp: served_def active_rides_def list_all_iff dest: in_put_row)
next
  case (offer b i j k e)
  then obtain r where "driver_serves (w_driver_profiles w) r" and "w_rides v = w_rides w @ [r]"
    unfolding offer_accepted_def by auto
  with assms(1,4) show ?thesis by (auto simp: served_def active_rides_def)
next
  case (requested i)
  then obtain row where "r_status row = ''requested''" and "w_rides v = w_rides w @ [row]"
    unfolding ride_requested_def bids_evolve_def by auto
  with assms(1,4) show ?thesis by (simp add: served_def active_rides_def driver_active_statuses_def)
next
  case (settled e)
  then have "w_rides v = w_rides w" by (auto simp: cash_settled_def cash_effect_def cash_repeat_def)
  with assms(1,4) show ?thesis by (simp add: served_def active_rides_def)
next
  case users
  with assms(1,4) show ?thesis by (simp add: served_def active_rides_def other_modulesD)
qed

lemma live_inv_rides:
  assumes "live_inv w" and "reachable p b w" and "server_step p b w w'"
    and "w_driver_profiles w' = w_driver_profiles w"
  shows "live_inv w'"
proof -
  have inv: "rides_inv w" "schema_ok w" using reachable_inv [OF assms(2)] by (auto simp: server_inv_def)
  from server_step_core [OF assms(3) inv(2)] obtain v where v: "v = w \<or> core_step w v" and e: "bids_evolve v w'"
    by blast
  from e have same: "w_driver_profiles w' = w_driver_profiles v" "w_rides w' = w_rides v" by (simp_all add: bids_evolve_def)
  have "served v"
    using v assms(1,4) served_core [OF _ inv(1)] same(1) by (auto simp: live_inv_def)
  with same assms(1,4) show ?thesis
    by (simp add: live_inv_def profiles_unique_def served_def active_rides_def)
qed

lemma live_inv_reachable: "live_reachable p b w \<Longrightarrow> live_inv w"
proof (induction rule: live_reachable.induct)
  case (start w)
  then show ?case by (auto simp: live_inv_def initial_world_def empty_world_def served_def active_rides_def)
next
  case (step w w')
  note r = live_reachable_reachable [OF step.hyps(1)]
  from step.hyps(2) show ?case
  proof cases
    case rides
    with step.IH r show ?thesis by (rule live_inv_rides)
  next
    case (save x sv e r)
    with step.IH show ?thesis by (blast intro: live_inv_save)
  next
    case (online sv i j on e r)
    with step.IH show ?thesis by (blast intro: live_inv_online)
  next
    case (register q)
    have "served w'"
      by (rule served_profiles [of w]) (use step.IH register in \<open>auto simp: live_inv_def\<close>)
    moreover have "dp_id q \<notin> dp_id ` set (w_driver_profiles w)" "dp_user_id q \<notin> dp_user_id ` set (w_driver_profiles w)"
      using register(3) by (auto simp: exists_where_def)
    then have "profiles_unique w'" using step.IH register(1) by (simp add: live_inv_def profiles_unique_def)
    ultimately show ?thesis by (simp add: live_inv_def)
  qed
qed

section \<open>A run with an active ride\<close>

lemma live_run_accepted: "live_reachable sample_repository b run_accepted"
proof -
  have "profiles_unique run_start" by code_simp
  then have s: "live_reachable sample_repository b run_start"
    unfolding run_start_def by (intro live_reachable.start) (auto simp: initial_world_def)
  have p: "w_driver_profiles run_requested = w_driver_profiles run_start"
    "w_driver_profiles run_accepted = w_driver_profiles run_requested" by code_simp+
  have r: "live_reachable sample_repository b run_requested"
    by (rule live_reachable.step [OF s live_step.rides [OF _ p(1)]])
      (unfold run_requested_def, intro server_step.detailed_request [OF _ surjective_pairing],
        simp_all add: sample_booking_def)
  show ?thesis
    by (rule live_reachable.step [OF r live_step.rides [OF run_accept_step p(2)]])
qed

text \<open>
  C35. In every state that rides, bids, profile updates, registrations and changes of the online
  status can reach, in any order and with any failure, the driver of every active ride is online,
  and the vehicle and plate the ride shows are those of the driver's profile.
\<close>

theorem drivers_serve_their_rides:
  assumes "live_reachable p b w"
  shows "list_all (driver_serves (w_driver_profiles w))
    (filter (\<lambda>r. r_status r \<in> set driver_active_statuses) (w_rides w))"
  using live_inv_reachable [OF assms] by (simp add: live_inv_def served_def active_rides_def)

lemma drivers_serve_their_rides_witness:
  "list_all (driver_serves (w_driver_profiles run_accepted))
     (filter (\<lambda>r. r_status r \<in> set driver_active_statuses) (w_rides run_accepted)) \<and>
   map r_driver_id (filter (\<lambda>r. r_status r \<in> set driver_active_statuses) (w_rides run_accepted)) = [Some 2]"
  by (rule conjI [OF drivers_serve_their_rides [OF live_run_accepted [of sample_store]]]) code_simp

end
