(* ===== verification/Ride_History.thy ===== *)
theory Ride_History
  imports Profile_Store Booking
begin

text \<open>
  Trip history: the statements of \<open>sqlc/ride_history.sql.go\<close>, their reader in
  \<open>ride/adapter/postgres/ride_history_reader.go\<close>, the service of \<open>ride/app/service.go\<close> and the
  handlers that page through it with a cursor. A page is read by its boundary, the creation time
  and the number of the last ride shown before, so rides booked meanwhile do not shift it.
\<close>

section \<open>Statements\<close>

text \<open>\<open>ORDER BY ride.created_at DESC, ride.id DESC\<close> (a missing time comes first), and the row comparison.\<close>

definition created_key :: "ride_row \<Rightarrow> bool \<times> int \<times> int" where
  "created_key r = (r_created_at r = None, coalesce_to (r_created_at r) 0, r_id r)"

definition created_before :: "int option \<Rightarrow> int \<Rightarrow> ride_row \<Rightarrow> bool" where
  "created_before before_created_at before_id r \<longleftrightarrow>
     (case before_created_at of None \<Rightarrow> True
      | Some b \<Rightarrow> (case r_created_at r of None \<Rightarrow> False | Some t \<Rightarrow> (t, r_id r) < (b, before_id)))"

record driver_ride_row = ride_projection_row +
  dr_passenger_name :: string
  dr_passenger_phone :: string
  dr_passenger_rating :: "gofloat option"
  dr_passenger_feedback :: "string option"

record passenger_ride_row = ride_projection_row +
  pa_driver_profile_name :: string
  pa_driver_profile_vehicle_type :: string
  pa_driver_profile_plate_number :: string

definition nullif_empty :: "string option \<Rightarrow> string option" where
  "nullif_empty s = (if s = Some '''' then None else s)"

text \<open>Settlements, users, profiles and reviews are unique for a ride, a user, a user and a ride.\<close>

definition driver_ride :: "world \<Rightarrow> ride_row \<Rightarrow> driver_ride_row" where
  "driver_ride w r =
     (let account = List.find (\<lambda>u. u_id u = r_passenger_id r) (w_users w);
          review = List.find (\<lambda>v. sql_eq (rv_ride_id v) (Some (r_id r))) (w_reviews w)
      in ride_projection_row.extend (project_ride w r)
        \<lparr>dr_passenger_name = coalesce_to (coalesce
             (nullif_empty (map_option pp_name (find_passenger_profile (r_passenger_id r) w)))
             (Option.bind account u_name)) '''',
         dr_passenger_phone = coalesce_to (map_option u_phone account) '''',
         dr_passenger_rating = map_option rv_rating review,
         dr_passenger_feedback = Option.bind review rv_comment\<rparr>)"

definition passenger_ride :: "world \<Rightarrow> ride_row \<Rightarrow> passenger_ride_row" where
  "passenger_ride w r =
     (let profile = find_profile w (r_driver_id r)
      in ride_projection_row.extend (project_ride w r)
        \<lparr>pa_driver_profile_name = coalesce_to (map_option dp_name profile) '''',
         pa_driver_profile_vehicle_type = coalesce_to (map_option dp_vehicle_type profile) '''',
         pa_driver_profile_plate_number = coalesce_to (map_option dp_plate_number profile) ''''\<rparr>)"

definition list_driver_rides ::
  "int option \<Rightarrow> bool \<Rightarrow> int option \<Rightarrow> int \<Rightarrow> int \<Rightarrow> int \<Rightarrow> driver_ride_row list io" where
  "list_driver_rides driver_id active_only before_created_at before_id offset limit =
     select_value ''ListDriverRides'' (\<lambda>w. map (driver_ride w) (sql_page limit offset (order_desc created_key
       (filter (\<lambda>r. sql_eq (r_driver_id r) driver_id \<and>
          (if active_only then r_status r \<in> set driver_active_statuses
           else r_status r \<in> set [''completed'', ''cancelled'']) \<and>
          created_before before_created_at before_id r) (w_rides w)))))"

definition list_passenger_rides :: "int \<Rightarrow> int option \<Rightarrow> int \<Rightarrow> int \<Rightarrow> int \<Rightarrow> passenger_ride_row list io" where
  "list_passenger_rides passenger_id before_created_at before_id offset limit =
     select_value ''ListPassengerRides'' (\<lambda>w. map (passenger_ride w) (sql_page limit offset (order_desc created_key
       (filter (\<lambda>r. r_passenger_id r = passenger_id \<and> created_before before_created_at before_id r)
         (w_rides w)))))"

definition list_recent_passenger_rides :: "int \<Rightarrow> int \<Rightarrow> passenger_ride_row list io" where
  "list_recent_passenger_rides passenger_id limit =
     select_value ''ListRecentPassengerRides'' (\<lambda>w. map (passenger_ride w)
       (sql_page limit 0 (order_desc r_id (filter (\<lambda>r. r_passenger_id r = passenger_id) (w_rides w)))))"

section \<open>The reader\<close>

record trip_history_query =
  tq_limit :: int
  tq_offset :: int
  tq_active_only :: bool
  tq_before_created_at :: int
  tq_before_id :: int

definition to_postgres_pagination_value :: "int \<Rightarrow> string \<Rightarrow> err + int" where
  "to_postgres_pagination_value value field =
     (if value < 0 \<or> value > max_int32 then Inl (Failure (field @ '' is outside PostgreSQL integer range''))
      else Inr value)"

text \<open>The columns of the settlement; the time it was settled at is not selected.\<close>

definition listed_projection :: "('a) ride_projection_row_scheme \<Rightarrow> ride_settlement_projection" where
  "listed_projection item =
     \<lparr>rp_payment_status = gr_payment_status item, rp_cash_received_amount = gr_cash_received_amount item,
      rp_cash_change_amount = gr_cash_change_amount item, rp_cash_outcome = gr_cash_outcome item,
      rp_cash_settled = False, rp_commission_bps = gr_commission_bps item,
      rp_commission_amount = gr_commission_amount item,
      rp_driver_payout_amount = gr_driver_payout_amount item\<rparr>"

definition from_postgres_driver_ride :: "driver_ride_row \<Rightarrow> err + ride" where
  "from_postgres_driver_ride item =
     (case from_postgres_ride_projection (gr_ride item) (listed_projection item) of
        Inl x \<Rightarrow> Inl x
      | Inr ride \<Rightarrow>
          Inr (ride
            \<lparr>rd_passenger_name := dr_passenger_name item,
             rd_passenger_phone := dr_passenger_phone item,
             rd_passenger_rating := coalesce_to (dr_passenger_rating item) (rd_passenger_rating ride),
             rd_passenger_feedback :=
               coalesce_to (map_option trim_space (dr_passenger_feedback item)) (rd_passenger_feedback ride)\<rparr>))"

definition from_postgres_passenger_ride :: "passenger_ride_row \<Rightarrow> err + ride" where
  "from_postgres_passenger_ride item =
     from_postgres_ride_with_driver_profile (gr_ride item) (listed_projection item)
       (pa_driver_profile_name item) (pa_driver_profile_vehicle_type item) (pa_driver_profile_plate_number item)"

text \<open>A boundary at the zero time is none; its number is cast to 32 bits.\<close>

definition before_param :: "trip_history_query \<Rightarrow> int option" where
  "before_param q = (if tq_before_created_at q = zero_time then None else Some (tq_before_created_at q))"

definition repo_driver_trips :: "ride_repository \<Rightarrow> int \<Rightarrow> trip_history_query \<Rightarrow> ride list io" where
  "repo_driver_trips repository driver_id q =
     io_bind (validate_native_read_repository repository) (\<lambda>_.
     io_bind (io_lift (to_postgres_ride_id driver_id ''driver id'')) (\<lambda>db_driver_id.
     io_bind (io_lift (to_postgres_pagination_value (tq_limit q + 1) ''trip history limit'')) (\<lambda>limit.
     io_bind (io_lift (to_postgres_pagination_value (tq_offset q) ''trip history offset'')) (\<lambda>offset.
     io_bind (list_driver_rides (Some db_driver_id) (tq_active_only q) (before_param q)
       (wrap32 (tq_before_id q)) offset limit) (\<lambda>items.
     io_lift (map_rows from_postgres_driver_ride items))))))"

definition repo_passenger_rides :: "ride_repository \<Rightarrow> int \<Rightarrow> trip_history_query \<Rightarrow> ride list io" where
  "repo_passenger_rides repository passenger_id q =
     io_bind (validate_native_read_repository repository) (\<lambda>_.
     io_bind (io_lift (to_postgres_ride_id passenger_id ''passenger id'')) (\<lambda>db_passenger_id.
     io_bind (io_lift (to_postgres_pagination_value (tq_limit q + 1) ''trip history limit'')) (\<lambda>limit.
     io_bind (io_lift (to_postgres_pagination_value (tq_offset q) ''trip history offset'')) (\<lambda>offset.
     io_bind (list_passenger_rides db_passenger_id (before_param q) (wrap32 (tq_before_id q)) offset limit) (\<lambda>items.
     io_lift (map_rows from_postgres_passenger_ride items))))))"

definition repo_passenger_recent_rides :: "ride_repository \<Rightarrow> int \<Rightarrow> int \<Rightarrow> ride list io" where
  "repo_passenger_recent_rides repository passenger_id limit =
     io_bind (validate_native_read_repository repository) (\<lambda>_.
     io_bind (io_lift (to_postgres_ride_id passenger_id ''passenger id'')) (\<lambda>db_passenger_id.
     io_bind (io_lift (to_postgres_pagination_value limit ''recent rides limit'')) (\<lambda>db_limit.
     io_bind (list_recent_passenger_rides db_passenger_id db_limit) (\<lambda>items.
     io_lift (map_rows from_postgres_passenger_ride items)))))"

section \<open>The service\<close>

definition validate_trip_history_query :: "trip_history_query \<Rightarrow> err + unit" where
  "validate_trip_history_query q =
     (if tq_limit q \<le> 0 \<or> tq_limit q > 100 \<or> tq_offset q < 0 \<or> tq_offset q > 1000000
      then Inl (Failure ''trip history pagination is invalid'')
      else if tq_active_only q \<and> tq_limit q > 20 then Inl (Failure ''active trip history limit is invalid'')
      else Inr ())"

text \<open>The repository of the service may be missing.\<close>

definition with_rides :: "ride_repository option \<Rightarrow> string \<Rightarrow> (ride_repository \<Rightarrow> 'a io) \<Rightarrow> 'a io" where
  "with_rides service unavailable f = (case service of None \<Rightarrow> io_throw (Failure unavailable) | Some p \<Rightarrow> f p)"

definition ride_driver_trips :: "ride_repository option \<Rightarrow> int \<Rightarrow> trip_history_query \<Rightarrow> ride list io" where
  "ride_driver_trips service driver_id q =
     with_rides service ''driver trip persistence is unavailable'' (\<lambda>p.
       io_bind (io_lift (validate_trip_history_query q)) (\<lambda>_. repo_driver_trips p driver_id q))"

definition ride_passenger_rides :: "ride_repository option \<Rightarrow> int \<Rightarrow> trip_history_query \<Rightarrow> ride list io" where
  "ride_passenger_rides service passenger_id q =
     with_rides service ''passenger ride persistence is unavailable'' (\<lambda>p.
       io_bind (io_lift (validate_trip_history_query q)) (\<lambda>_. repo_passenger_rides p passenger_id q))"

definition ride_passenger_recent_rides :: "ride_repository option \<Rightarrow> int \<Rightarrow> int \<Rightarrow> ride list io" where
  "ride_passenger_recent_rides service passenger_id limit =
     (if passenger_id \<le> 0 \<or> limit \<le> 0 \<or> limit > 100
      then io_throw (Failure ''invalid passenger recent rides request'')
      else
        (case service of
           Some p \<Rightarrow> repo_passenger_recent_rides p passenger_id limit
         | None \<Rightarrow>
             io_bind (ride_passenger_rides None passenger_id
               \<lparr>tq_limit = limit, tq_offset = 0, tq_active_only = False, tq_before_created_at = zero_time,
                tq_before_id = 0\<rparr>)
               (\<lambda>rides. io_return (take (nat limit) rides))))"

section \<open>The handlers\<close>

text \<open>A ride is answered as its response record, which has the fields of the domain value.\<close>

definition write_ride_history_page ::
  "cursor_lib \<Rightarrow> ride list \<Rightarrow> cursor_pagination \<Rightarrow> string \<Rightarrow> (world, ride offset_page) endpoint" where
  "write_ride_history_page lib items page scope =
     (if \<not> cp_enabled page then answer 200 (new_offset_page items (pg_limit page) (pg_offset page))
      else if int (length items) > pg_limit page then
        (let last_ride = items ! nat (pg_limit page - 1) in
         (case rd_created_at last_ride of
            None \<Rightarrow> refuse 500 ''Trip history is temporarily unavailable.''
          | Some t \<Rightarrow>
              (case encode_list_cursor lib scope t (rd_id last_ride) of
                 Inl _ \<Rightarrow> refuse 500 ''Trip history is temporarily unavailable.''
               | Inr next_cursor \<Rightarrow> answer 200 (new_cursor_page items (pg_limit page) next_cursor))))
      else answer 200 (new_cursor_page items (pg_limit page) ''''))"

definition passenger_scope :: "int \<Rightarrow> string" where
  "passenger_scope i = ''passenger-rides:'' @ itoa i"

definition passenger_rides_get ::
  "cursor_lib \<Rightarrow> ride_repository option \<Rightarrow> int option \<Rightarrow> string \<Rightarrow> url_values \<Rightarrow> (world, ride offset_page) endpoint" where
  "passenger_rides_get lib service actor param v = authenticated actor (\<lambda>actor_id.
     path_number param (403, ''forbidden'') (\<lambda>target.
     guard (target = actor_id) 403 ''forbidden'' (
     case parse_cursor_pagination lib v 25 100 (passenger_scope target) of
       Inl _ \<Rightarrow> refuse 400 ''invalid pagination''
     | Inr page \<Rightarrow>
         call_service (ride_passenger_rides service target
             \<lparr>tq_limit = pg_limit page, tq_offset = pg_offset page, tq_active_only = False,
              tq_before_created_at = cp_before_created_at page, tq_before_id = cp_before_id page\<rparr>)
           (\<lambda>_. (500, ''Your trip history is temporarily unavailable.''))
           (\<lambda>items. write_ride_history_page lib items page (passenger_scope target)))))"

definition driver_scope :: "int \<Rightarrow> bool \<Rightarrow> string" where
  "driver_scope i active_only =
     ''driver-trips:'' @ itoa i @ '':'' @ (if active_only then ''true'' else ''false'')"

definition driver_trips_get ::
  "cursor_lib \<Rightarrow> ride_repository option \<Rightarrow> int option \<Rightarrow> string \<Rightarrow> url_values \<Rightarrow> (world, ride offset_page) endpoint" where
  "driver_trips_get lib service actor param v = authenticated actor (\<lambda>actor_id.
     path_number param (400, ''invalid driver id'') (\<lambda>driver_id.
     guard (driver_id = actor_id) 403 ''forbidden'' (
     let scope = values_get v ''scope''; active_only = (scope = ''active'') in
     guard (scope \<in> set ['''', ''all'', ''active'']) 400 ''invalid trip scope'' (
     case parse_cursor_pagination lib v (if active_only then 10 else 25) (if active_only then 20 else 100)
         (driver_scope driver_id active_only) of
       Inl _ \<Rightarrow> refuse 400 ''invalid pagination''
     | Inr page \<Rightarrow>
         call_service (ride_driver_trips service driver_id
             \<lparr>tq_limit = pg_limit page, tq_offset = pg_offset page, tq_active_only = active_only,
              tq_before_created_at = cp_before_created_at page, tq_before_id = cp_before_id page\<rparr>)
           (\<lambda>_. (500, ''Driver trip history is temporarily unavailable.''))
           (\<lambda>items. write_ride_history_page lib items page (driver_scope driver_id active_only))))))"

end
