(* ===== verification/History_Pages.thy ===== *)
theory History_Pages
  imports Ride_History Sample_Run
begin

text \<open>
  A passenger who follows the cursors of the trip history sees every ride of the first moment
  once, newest first, whatever is booked or changed between the pages.
\<close>

section \<open>Following the cursors\<close>

definition history_values :: "int \<Rightarrow> string \<Rightarrow> url_values" where
  "history_values limit cursor = [''limit'' \<mapsto> [itoa limit], ''cursor'' \<mapsto> [cursor]]"

text \<open>One request per state; it ends at an empty next cursor, with \<open>None\<close> when a request fails.\<close>

primrec follow_history ::
  "cursor_lib \<Rightarrow> ride_repository \<Rightarrow> int \<Rightarrow> int \<Rightarrow> string \<Rightarrow> (env \<times> world) list \<Rightarrow> ride list option" where
  "follow_history lib p i limit cursor [] = None"
| "follow_history lib p i limit cursor (m # ms) =
     (case fst (passenger_rides_get lib (Some p) (Some i) (itoa i) (history_values limit cursor) (fst m) (snd m)) of
        Inl _ \<Rightarrow> None
      | Inr (_, page) \<Rightarrow>
          (case op_next_cursor page of
             None \<Rightarrow> None
           | Some next_cursor \<Rightarrow>
               if next_cursor = '''' then Some (op_items page)
               else map_option ((@) (op_items page)) (follow_history lib p i limit next_cursor ms)))"

section \<open>The rides of a passenger, newest first\<close>

definition own_marks :: "int \<Rightarrow> world \<Rightarrow> (bool \<times> int \<times> int) list" where
  "own_marks i w = map created_key (filter (\<lambda>r. r_passenger_id r = i) (w_rides w))"

definition newest_first :: "int \<Rightarrow> world \<Rightarrow> (bool \<times> int \<times> int) list" where
  "newest_first i w = rev (sort (own_marks i w))"

text \<open>
  Later states keep the passenger's rides, and what they add is newer: creation time and number
  never change, and a new ride gets the present time and the next number.
\<close>

definition booked_since :: "int \<Rightarrow> world \<Rightarrow> world \<Rightarrow> bool" where
  "booked_since i w w' \<longleftrightarrow>
     list_all (\<lambda>k. k \<in> set (own_marks i w')) (own_marks i w) \<and>
     list_all (\<lambda>k. k \<in> set (own_marks i w) \<or> list_all (\<lambda>c. c < k) (own_marks i w)) (own_marks i w')"

text \<open>What the schema gives each ride, and a creation time that has a text.\<close>

definition listable :: "cursor_lib \<Rightarrow> world \<Rightarrow> bool" where
  "listable lib w \<longleftrightarrow> distinct (map r_id (w_rides w)) \<and>
     list_all (\<lambda>r. 0 < r_id r \<and> r_id r \<le> max_int32 \<and>
       (case r_created_at r of None \<Rightarrow> False | Some t \<Rightarrow> t \<noteq> zero_time \<and> cl_time_text lib t \<noteq> None)) (w_rides w)"

lemma map_insort_key: "map k (insort_key k x xs) = insort (k x) (map k xs)"
  by (induction xs) simp_all

lemma map_sort_key: "map k (sort_key k xs) = sort (map k xs)"
  by (induction xs) (simp_all add: map_insort_key)

lemma map_order_desc: "map k (order_desc k xs) = rev (sort (map k xs))"
  by (simp add: order_desc_def rev_map [symmetric] map_sort_key)

definition below :: "(bool \<times> int \<times> int) option \<Rightarrow> bool \<times> int \<times> int \<Rightarrow> bool" where
  "below b k \<longleftrightarrow> (case b of None \<Rightarrow> True | Some c \<Rightarrow> k < c)"

lemma below_down: "below b c \<Longrightarrow> k < c \<Longrightarrow> below b k"
  unfolding below_def by (cases b) (auto simp only: option.case intro: order.strict_trans)

definition rest_marks :: "int \<Rightarrow> (bool \<times> int \<times> int) option \<Rightarrow> world \<Rightarrow> (bool \<times> int \<times> int) list" where
  "rest_marks i b w = filter (below b) (newest_first i w)"

lemma set_newest_first [simp]: "set (newest_first i w) = set (own_marks i w)"
  by (simp add: newest_first_def)

lemma listable_marks:
  assumes "listable lib w"
  shows "distinct (own_marks i w)"
    and "k \<in> set (own_marks i w) \<Longrightarrow> \<exists>t n. k = (False, t, n) \<and> 0 < n \<and> n \<le> max_int32 \<and> t \<noteq> zero_time \<and>
      (\<exists>s. cl_time_text lib t = Some s)"
proof -
  from assms have "inj_on r_id (set (w_rides w))" "distinct (w_rides w)"
    by (simp_all add: listable_def distinct_map)
  then show "distinct (own_marks i w)"
    by (auto simp: own_marks_def distinct_map created_key_def intro!: inj_onI dest: inj_onD)
  assume "k \<in> set (own_marks i w)"
  then obtain r where "r \<in> set (w_rides w)" "k = created_key r" by (auto simp: own_marks_def)
  with assms show "\<exists>t n. k = (False, t, n) \<and> 0 < n \<and> n \<le> max_int32 \<and> t \<noteq> zero_time \<and>
      (\<exists>s. cl_time_text lib t = Some s)"
    by (fastforce simp: listable_def list_all_iff created_key_def split: option.splits)
qed

lemma rest_marks_sorted: "listable lib w \<Longrightarrow> sorted_wrt (\<lambda>x y. y < x) (rest_marks i b w)"
proof -
  assume "listable lib w"
  then have "sorted_wrt (<) (sort (own_marks i w))"
    using listable_marks(1) by (simp add: strict_sorted_iff)
  then show ?thesis by (simp add: rest_marks_def newest_first_def sorted_wrt_rev sorted_wrt_filter)
qed

text \<open>Below one of the first state's marks, all later states agree.\<close>

lemma rest_marks_stable:
  assumes "booked_since i w w'" and "listable lib w" and "listable lib w'" and "c \<in> set (own_marks i w)"
  shows "rest_marks i (Some c) w' = rest_marks i (Some c) w"
proof -
  have "set (rest_marks i (Some c) w') = set (rest_marks i (Some c) w)"
    using assms(1,4) by (auto simp: rest_marks_def below_def booked_since_def list_all_iff dest: order.asym)
  moreover have "sorted_wrt (<) (rev (rest_marks i (Some c) w'))" "sorted_wrt (<) (rev (rest_marks i (Some c) w))"
    using rest_marks_sorted assms(2,3) by (simp_all add: sorted_wrt_rev)
  ultimately have "rev (rest_marks i (Some c) w') = rev (rest_marks i (Some c) w)"
    by (intro strict_sorted_equal) simp_all
  then show ?thesis by simp
qed

lemma rest_marks_drop:
  assumes "listable lib w" and "n < length (rest_marks i b w)"
  shows "rest_marks i (Some (rest_marks i b w ! n)) w = drop (Suc n) (rest_marks i b w)"
proof -
  let ?L = "rest_marks i b w" and ?c = "rest_marks i b w ! n"
  have L: "take n ?L @ ?c # drop (Suc n) ?L = ?L" by (rule id_take_nth_drop [OF assms(2), symmetric])
  have "?c \<in> set ?L" using assms(2) by simp
  then have "below b ?c" by (simp add: rest_marks_def)
  then have "k < ?c \<longleftrightarrow> below (Some ?c) k" "below (Some ?c) k \<longrightarrow> below b k" for k
    using below_down by (simp_all add: below_def [of "Some _"])
  then have "filter (\<lambda>k. k < ?c) ?L = rest_marks i (Some ?c) w"
    unfolding rest_marks_def filter_filter by (intro filter_cong refl) blast
  moreover have "filter (\<lambda>k. k < ?c) ?L = drop (Suc n) ?L"
    using keyset_rest [of "\<lambda>k. k" "take n ?L" ?c "drop (Suc n) ?L"] rest_marks_sorted [OF assms(1), of i b]
    unfolding L by simp
  ultimately show ?thesis by simp
qed

section \<open>One page\<close>

lemma created_before_below:
  assumes "r_created_at r \<noteq> None"
  shows "created_before None n r = below None (created_key r)"
    and "created_before (Some t) n r = below (Some (False, t, n)) (created_key r)"
  using assms by (auto simp: created_before_def below_def created_key_def)

lemma from_postgres_passenger_ride_total:
  assumes "r_created_at r \<noteq> None"
  obtains x where "from_postgres_passenger_ride (passenger_ride w r) = Inr x"
    and "rd_id x = r_id r" and "rd_created_at x = r_created_at r"
proof -
  have "gr_ride (passenger_ride w r) = r"
    by (simp add: passenger_ride_def project_ride_def Let_def ride_projection_row.defs)
  with assms that show thesis
    by (auto simp: from_postgres_passenger_ride_def from_postgres_ride_with_driver_profile_def
        from_postgres_ride_projection_def from_postgres_ride_def ride_timestamp_def)
qed

lemma map_rows_listed:
  assumes "list_all (\<lambda>r. r_created_at r \<noteq> None) rs"
  shows "\<exists>xs. map_rows from_postgres_passenger_ride (map (passenger_ride w) rs) = Inr xs \<and>
    map rd_id xs = map r_id rs \<and> map rd_created_at xs = map r_created_at rs"
  using assms
proof (induction rs)
  case (Cons r rs)
  then have "r_created_at r \<noteq> None" by simp
  from from_postgres_passenger_ride_total [OF this, of w] obtain x where
    "from_postgres_passenger_ride (passenger_ride w r) = Inr x" "rd_id x = r_id r" "rd_created_at x = r_created_at r" .
  moreover from Cons obtain xs where "map_rows from_postgres_passenger_ride (map (passenger_ride w) rs) = Inr xs"
    "map rd_id xs = map r_id rs" "map rd_created_at xs = map r_created_at rs" by auto
  ultimately show ?case by simp
qed simp

definition mark_of :: "ride \<Rightarrow> bool \<times> int \<times> int" where
  "mark_of x = (rd_created_at x = None, coalesce_to (rd_created_at x) 0, rd_id x)"

text \<open>The repository answers with the next rides below the boundary, one more than the limit.\<close>

lemma passenger_rides_read:
  assumes "listable lib w" and "rr_initialized p" and "0 < i" and "i \<le> max_postgres_ride_id"
    and "0 < limit" and "limit \<le> 100" and "\<not> env_fault e ''ListPassengerRides''"
    and "b = None \<and> t = zero_time \<or> b = Some (False, t, n) \<and> t \<noteq> zero_time \<and> 0 < n \<and> n \<le> max_int32"
  shows "\<exists>xs. ride_passenger_rides (Some p) i
      \<lparr>tq_limit = limit, tq_offset = 0, tq_active_only = False, tq_before_created_at = t, tq_before_id = n\<rparr> e w =
      (Inr xs, w) \<and> map mark_of xs = take (nat (limit + 1)) (rest_marks i b w)"
proof -
  define q where "q = \<lparr>tq_limit = limit, tq_offset = 0, tq_active_only = False, tq_before_created_at = t, tq_before_id = n\<rparr>"
  have created: "r_created_at r \<noteq> None" if "r \<in> set (w_rides w)" for r
    using assms(1) that by (cases "r_created_at r") (auto simp: listable_def list_all_iff)
  have n: "wrap32 n = n" if "0 < n" "n \<le> max_int32"
    using that by (intro wrap32_id) (simp_all add: max_int32_def)
  have pred: "created_before (before_param q) (wrap32 n) r = below b (created_key r)" if "r \<in> set (w_rides w)" for r
    using assms(8) n created_before_below [OF created [OF that]]
    by (auto simp: before_param_def q_def)
  define rows where "rows = filter (\<lambda>r. r_passenger_id r = i \<and> created_before (before_param q) (wrap32 n) r) (w_rides w)"
  define page where "page = sql_page (limit + 1) 0 (order_desc created_key rows)"
  have "filter (below b) (own_marks i w) = map created_key rows"
    unfolding own_marks_def filter_map rows_def filter_filter
    by (intro arg_cong [where f = "map created_key"] filter_cong refl) (auto simp: pred)
  then have keys: "map created_key page = take (nat (limit + 1)) (rest_marks i b w)"
    by (simp add: page_def sql_page_def take_map [symmetric] map_order_desc rest_marks_def newest_first_def
        rev_filter [symmetric] filter_sort)
  have "set page \<subseteq> set (w_rides w)"
    by (auto simp: page_def sql_page_def order_desc_def rows_def dest: in_set_takeD)
  then have "list_all (\<lambda>r. r_created_at r \<noteq> None) page" using created by (auto simp: list_all_iff)
  from map_rows_listed [OF this, of w] obtain xs where
    xs: "map_rows from_postgres_passenger_ride (map (passenger_ride w) page) = Inr xs"
      "map rd_id xs = map r_id page" "map rd_created_at xs = map r_created_at page" by blast
  have "map mark_of xs = map created_key page"
    using xs(2,3) by (auto simp: mark_of_def created_key_def list_eq_iff_nth_eq)
  moreover have "ride_passenger_rides (Some p) i q e w = (Inr xs, w)"
    using assms(2-7) xs(1)
    by (simp add: ride_passenger_rides_def with_rides_def validate_trip_history_query_def repo_passenger_rides_def
        validate_native_read_repository_def to_postgres_ride_id_def to_postgres_pagination_value_def
        list_passenger_rides_def io_simps q_def [symmetric] page_def rows_def)
      (simp add: q_def max_int32_def)
  ultimately show ?thesis using keys by (auto simp: q_def)
qed

text \<open>A cursor stands for a boundary: none before the first page.\<close>

definition stands_for :: "cursor_lib \<Rightarrow> int \<Rightarrow> (bool \<times> int \<times> int) option \<Rightarrow> string \<Rightarrow> bool" where
  "stands_for lib i b cursor \<longleftrightarrow> b = None \<and> cursor = '''' \<or>
     (\<exists>t n. b = Some (False, t, n) \<and> encode_list_cursor lib (passenger_scope i) t n = Inr cursor)"

lemma encode_list_cursorD:
  assumes "encode_list_cursor lib scope t n = Inr c"
  shows "t \<noteq> zero_time" "0 < n" "n \<le> max_int32" "c \<noteq> ''''"
proof -
  from assms obtain s where c: "c = b64_encode (cursor_json scope s n)" and "t \<noteq> zero_time" "0 < n" "n \<le> max_int32"
    by (auto simp: encode_list_cursor_def split: if_splits option.splits)
  moreover have "b64_decode c = Some (cursor_json scope s n)" by (simp add: c b64_roundtrip)
  then have "c \<noteq> ''''" using b64_roundtrip [of "''''"] by (auto simp: cursor_json_def)
  ultimately show "t \<noteq> zero_time" "0 < n" "n \<le> max_int32" "c \<noteq> ''''" by simp_all
qed

lemma passenger_scope_plain:
  assumes "0 < i" and "i \<le> max_int32"
  shows "list_all plain_char (passenger_scope i)" and "length (passenger_scope i) \<le> 100"
proof -
  have "list_all is_digit (itoa i)" using assms(1) nat_digits_digits [of "nat i"] by (simp add: itoa_def)
  then have "list_all plain_char (itoa i)" by (auto simp: list_all_iff plain_char_def)
  moreover have "list_all plain_char ''passenger-rides:''" by (simp add: plain_char_def)
  ultimately show "list_all plain_char (passenger_scope i)" by (simp only: passenger_scope_def list_all_append)
  show "length (passenger_scope i) \<le> 100" using length_itoa_id [OF assms] by (simp add: passenger_scope_def)
qed

lemma history_values_parsed:
  assumes "cursor_lib_ok lib" and "0 < i" and "i \<le> max_int32" and "0 < limit" and "limit \<le> 100"
    and "stands_for lib i b cursor"
  obtains t n where "parse_cursor_pagination lib (history_values limit cursor) 25 100 (passenger_scope i) =
      Inr \<lparr>pg_limit = limit, pg_offset = 0, cp_enabled = True, cp_before_created_at = t, cp_before_id = n\<rparr>"
    and "b = None \<and> t = zero_time \<or> b = Some (False, t, n) \<and> t \<noteq> zero_time \<and> 0 < n \<and> n \<le> max_int32"
proof -
  have "int64_range limit" using assms(4,5) by (simp add: int64_range_def)
  then have o: "parse_offset_pagination (history_values limit cursor) 25 100 = Inr \<lparr>pg_limit = limit, pg_offset = 0\<rparr>"
    using assms(4,5) by (simp add: parse_offset_pagination_def history_values_def values_get_def atoi_itoa)
  from assms(6) consider "b = None" "cursor = ''''" | t n where "b = Some (False, t, n)"
    "encode_list_cursor lib (passenger_scope i) t n = Inr cursor" by (auto simp: stands_for_def)
  then show thesis
  proof cases
    case 1
    with o have "parse_cursor_pagination lib (history_values limit cursor) 25 100 (passenger_scope i) =
        Inr \<lparr>pg_limit = limit, pg_offset = 0, cp_enabled = True, cp_before_created_at = zero_time, cp_before_id = 0\<rparr>"
      by (simp add: parse_cursor_pagination_def Let_def) (simp add: history_values_def values_get_def)
    with 1 that show thesis by blast
  next
    case 2
    with cursor_read_back [OF assms(1) 2(2) passenger_scope_plain [OF assms(2,3)] _ o]
    have "parse_cursor_pagination lib (history_values limit cursor) 25 100 (passenger_scope i) =
        Inr \<lparr>pg_limit = limit, pg_offset = 0, cp_enabled = True, cp_before_created_at = t, cp_before_id = n\<rparr>"
      by (simp add: history_values_def)
    with 2 encode_list_cursorD [OF 2(2)] that show thesis by blast
  qed
qed

lemma max_ids: "max_postgres_ride_id = max_int32"
  by (simp add: max_postgres_ride_id_def max_int32_def)

lemma one_page:
  assumes "cursor_lib_ok lib" and "listable lib w" and "rr_initialized p" and "0 < i" and "i \<le> max_int32"
    and "0 < limit" and "limit \<le> 100" and "\<not> env_fault e ''ListPassengerRides''"
    and "stands_for lib i b cursor" and "L = rest_marks i b w"
  obtains page next_cursor where
    "passenger_rides_get lib (Some p) (Some i) (itoa i) (history_values limit cursor) e w = (Inr (200, page), w)"
    and "map mark_of (op_items page) = take (nat limit) L" and "op_next_cursor page = Some next_cursor"
    and "if length L \<le> nat limit then next_cursor = ''''
      else next_cursor \<noteq> '''' \<and> stands_for lib i (Some (L ! (nat limit - 1))) next_cursor"
proof -
  obtain t n where parsed: "parse_cursor_pagination lib (history_values limit cursor) 25 100 (passenger_scope i) =
      Inr \<lparr>pg_limit = limit, pg_offset = 0, cp_enabled = True, cp_before_created_at = t, cp_before_id = n\<rparr>"
      (is "_ = Inr ?page")
    and b: "b = None \<and> t = zero_time \<or> b = Some (False, t, n) \<and> t \<noteq> zero_time \<and> 0 < n \<and> n \<le> max_int32"
    by (rule history_values_parsed [OF assms(1,4-7,9)])
  from passenger_rides_read [OF assms(2,3,4) _ assms(6,7,8) b] assms(5,10) obtain xs where
    xs: "ride_passenger_rides (Some p) i \<lparr>tq_limit = limit, tq_offset = 0, tq_active_only = False,
        tq_before_created_at = t, tq_before_id = n\<rparr> e w = (Inr xs, w)"
      and marks: "map mark_of xs = take (nat (limit + 1)) L" by (auto simp: max_ids)
  have "int64_range i" using assms(4,5) by (simp add: int64_range_def max_int32_def)
  then have get: "passenger_rides_get lib (Some p) (Some i) (itoa i) (history_values limit cursor) e w =
      write_ride_history_page lib xs ?page (passenger_scope i) e w"
    by (simp add: passenger_rides_get_def authenticated_def path_number_def atoi_itoa guard_def parsed
        call_service_def xs)
  have nat_limit: "nat (limit + 1) = Suc (nat limit)" using assms(6) by simp
  have len: "length xs = min (length L) (Suc (nat limit))"
    using arg_cong [OF marks, of length] by (simp add: nat_limit)
  have items: "map mark_of (op_items (new_cursor_page xs limit c)) = take (nat limit) L" for c
    using marks len assms(6) by (auto simp: new_cursor_page_def new_offset_page_def Let_def take_map [symmetric] nat_limit)
  show thesis
  proof (cases "length L \<le> nat limit")
    case True
    then have "\<not> limit < int (length xs)" using len assms(6) by simp
    then have "write_ride_history_page lib xs ?page (passenger_scope i) e w =
        (Inr (200, new_cursor_page xs limit ''''), w)" by (simp add: write_ride_history_page_def answer_def)
    with get items True show thesis
      by (intro that [of "new_cursor_page xs limit ''''" "''''"]) (simp_all add: new_cursor_page_def)
  next
    case False
    let ?x = "xs ! (nat limit - 1)" and ?k = "L ! (nat limit - 1)"
    have more: "limit < int (length xs)" "nat limit - 1 < length xs" "nat limit - 1 < length L"
      using False len assms(6) by simp_all
    then have "mark_of ?x = ?k" using arg_cong [OF marks, of "\<lambda>ys. ys ! (nat limit - 1)"] by (simp add: nat_limit)
    moreover have "?k \<in> set L" using more(3) by simp
    then have "?k \<in> set (own_marks i w)" by (simp add: assms(10) rest_marks_def)
    ultimately obtain u m s where x: "rd_created_at ?x = Some u" "rd_id ?x = m" and k: "?k = (False, u, m)"
      and range: "0 < m" "m \<le> max_int32" "u \<noteq> zero_time" and s: "cl_time_text lib u = Some s"
      using listable_marks(2) [OF assms(2), of ?k i] by (auto simp: mark_of_def)
    obtain c where c: "encode_list_cursor lib (passenger_scope i) u m = Inr c"
      using range s by (simp add: encode_list_cursor_def)
    have "nat (limit - 1) = nat limit - 1" by simp
    then have "write_ride_history_page lib xs ?page (passenger_scope i) e w = (Inr (200, new_cursor_page xs limit c), w)"
      using more(1) x c by (simp add: write_ride_history_page_def answer_def Let_def)
    with get items False c k encode_list_cursorD [OF c] show thesis
      by (intro that [of "new_cursor_page xs limit c" c]) (simp_all add: new_cursor_page_def stands_for_def)
  qed
qed

section \<open>All pages\<close>

definition page_states_ok :: "cursor_lib \<Rightarrow> int \<Rightarrow> world \<Rightarrow> (env \<times> world) list \<Rightarrow> bool" where
  "page_states_ok lib i w ms \<longleftrightarrow>
     list_all (\<lambda>m. listable lib (snd m) \<and> booked_since i w (snd m) \<and> \<not> env_fault (fst m) ''ListPassengerRides'') ms"

lemma follow_rest:
  assumes "cursor_lib_ok lib" and "rr_initialized p" and "0 < i" and "i \<le> max_int32" and "0 < limit" and "limit \<le> 100"
    and "listable lib w" and "page_states_ok lib i w ms" and "stands_for lib i (Some c) cursor"
    and "c \<in> set (own_marks i w)" and "length (rest_marks i (Some c) w) \<le> nat limit * length ms" and "ms \<noteq> []"
  shows "map_option (map mark_of) (follow_history lib p i limit cursor ms) = Some (rest_marks i (Some c) w)"
  using assms(8-)
proof (induction ms arbitrary: c cursor)
  case (Cons m ms)
  let ?L = "rest_marks i (Some c) w"
  have m: "listable lib (snd m)" "booked_since i w (snd m)" "\<not> env_fault (fst m) ''ListPassengerRides''"
    and ms: "page_states_ok lib i w ms"
    using Cons.prems(1) by (simp_all add: page_states_ok_def)
  have L: "?L = rest_marks i (Some c) (snd m)"
    using rest_marks_stable [OF m(2) assms(7) m(1) Cons.prems(3)] by simp
  from one_page [OF assms(1) m(1) assms(2-6) m(3) Cons.prems(2) L] obtain page next_cursor where
    page: "passenger_rides_get lib (Some p) (Some i) (itoa i) (history_values limit cursor) (fst m) (snd m) =
        (Inr (200, page), snd m)" "map mark_of (op_items page) = take (nat limit) ?L"
      "op_next_cursor page = Some next_cursor"
    and nxt: "if length ?L \<le> nat limit then next_cursor = ''''
      else next_cursor \<noteq> '''' \<and> stands_for lib i (Some (?L ! (nat limit - 1))) next_cursor" by blast
  show ?case
  proof (cases "length ?L \<le> nat limit")
    case True
    with page nxt show ?thesis by simp
  next
    case False
    let ?c = "?L ! (nat limit - 1)"
    have l: "nat limit - 1 < length ?L" "Suc (nat limit - 1) = nat limit" using False assms(5) by simp_all
    then have "?c \<in> set ?L" by simp
    then have c: "?c \<in> set (own_marks i w)" by (simp add: rest_marks_def)
    have d: "rest_marks i (Some ?c) w = drop (nat limit) ?L"
      using rest_marks_drop [OF assms(7) l(1)] l(2) by simp
    have "ms \<noteq> []" using False Cons.prems(4) by auto
    moreover have "length (rest_marks i (Some ?c) w) \<le> nat limit * length ms"
      using Cons.prems(4) d by simp
    ultimately have "map_option (map mark_of) (follow_history lib p i limit next_cursor ms) = Some (drop (nat limit) ?L)"
      using Cons.IH [OF ms _ c] nxt False d by simp
    then obtain ys where "follow_history lib p i limit next_cursor ms = Some ys" "map mark_of ys = drop (nat limit) ?L"
      by blast
    with page nxt False show ?thesis by simp
  qed
qed simp

text \<open>
  C37. A passenger who asks for the trip history from \<open>cursor=\<close> on and follows each next cursor,
  with any page size, gets every ride that existed at the first request exactly once, newest
  first, within as many requests as the pages hold, and then an empty cursor; rides booked and
  changed between the requests neither repeat nor hide one.
\<close>

theorem history_read_through:
  assumes "cursor_lib_ok lib" and "rr_initialized p" and "0 < i" and "i \<le> max_int32"
    and "0 < limit" and "limit \<le> 100"
    and "listable lib w" and "\<not> env_fault e ''ListPassengerRides''" and "page_states_ok lib i w ms"
    and "length (own_marks i w) \<le> nat limit * Suc (length ms)"
  shows "map_option (map mark_of) (follow_history lib p i limit '''' ((e, w) # ms)) = Some (newest_first i w)"
proof -
  let ?L = "newest_first i w"
  have L: "?L = rest_marks i None w" by (simp add: rest_marks_def below_def)
  have start: "stands_for lib i None ''''" by (simp add: stands_for_def)
  from one_page [OF assms(1,7,2-6,8) start L] obtain page next_cursor where
    page: "passenger_rides_get lib (Some p) (Some i) (itoa i) (history_values limit '''') e w = (Inr (200, page), w)"
      "map mark_of (op_items page) = take (nat limit) ?L" "op_next_cursor page = Some next_cursor"
    and nxt: "if length ?L \<le> nat limit then next_cursor = ''''
      else next_cursor \<noteq> '''' \<and> stands_for lib i (Some (?L ! (nat limit - 1))) next_cursor" by blast
  show ?thesis
  proof (cases "length ?L \<le> nat limit")
    case True
    with page nxt show ?thesis by simp
  next
    case False
    let ?c = "?L ! (nat limit - 1)"
    have l: "nat limit - 1 < length ?L" "Suc (nat limit - 1) = nat limit" using False assms(5) by simp_all
    then have "?c \<in> set ?L" by (simp only: nth_mem)
    then have c: "?c \<in> set (own_marks i w)" by simp
    have d: "rest_marks i (Some ?c) w = drop (nat limit) ?L"
      using rest_marks_drop [OF assms(7), of "nat limit - 1" i None] l by (simp add: L)
    have n: "length ?L \<le> nat limit * Suc (length ms)" using assms(10) by (simp add: newest_first_def)
    then have "ms \<noteq> []" using False by auto
    moreover have "length (rest_marks i (Some ?c) w) \<le> nat limit * length ms" using n d by simp
    ultimately have "map_option (map mark_of) (follow_history lib p i limit next_cursor ms) = Some (drop (nat limit) ?L)"
      using follow_rest [OF assms(1-7,9) _ c] nxt False d by simp
    then obtain ys where "follow_history lib p i limit next_cursor ms = Some ys" "map mark_of ys = drop (nat limit) ?L"
      by blast
    with page nxt False show ?thesis by simp
  qed
qed

section \<open>An example\<close>

text \<open>Times written as numbers, and the reader of a cursor that goes with them.\<close>

definition sample_cursor_lib :: cursor_lib where
  "sample_cursor_lib =
     \<lparr>cl_time_text = (\<lambda>t. if int64_range t \<and> length (itoa t) \<le> 35 then Some (itoa t) else None),
      cl_unmarshal = (\<lambda>s. case split_at (CHR 0x22) s of
         [_, _, _, scope, _, _, _, time_text, _, _, rest] \<Rightarrow>
           (case (atoi time_text, atoi (butlast (tl rest))) of
              (Some t, Some i) \<Rightarrow> Some \<lparr>lc_scope = scope, lc_created_at = t, lc_id = i\<rparr>
            | _ \<Rightarrow> None)
       | _ \<Rightarrow> None)\<rparr>"

lemma nat_digits_no_quote: "CHR 0x22 \<notin> set (nat_digits n)"
  using nat_digits_digits [of n] by (auto simp: list_all_iff is_digit_def byte_between_def)

lemma itoa_no_quote: "CHR 0x22 \<notin> set (itoa i)"
  using nat_digits_no_quote by (simp add: itoa_def)

lemma sample_cursor_lib_ok: "cursor_lib_ok sample_cursor_lib"
proof -
  have "cl_unmarshal sample_cursor_lib (cursor_json scope (itoa t) i) =
      Some \<lparr>lc_scope = scope, lc_created_at = t, lc_id = i\<rparr>"
    if "int64_range t" and "list_all plain_char scope" and "0 < i" "i \<le> max_int32" for t scope i
  proof -
    have scope: "CHR 0x22 \<notin> set scope"
      using that(2) by (auto simp: list_all_iff plain_char_def is_digit_def byte_between_def)
    have "int64_range i" using that(3,4) by (simp add: int64_range_def max_int32_def)
    moreover have "split_at (CHR 0x22) ('':'' @ itoa i @ ''}'') = ['':'' @ itoa i @ ''}'']"
      by (rule split_at_none) (simp add: itoa_no_quote)
    ultimately show ?thesis
      using that(1) split_at_join [OF scope] split_at_join [OF itoa_no_quote]
      by (simp add: sample_cursor_lib_def cursor_json_def quoted_def atoi_itoa butlast_append)
  qed
  then show ?thesis by (simp add: cursor_lib_ok_def sample_cursor_lib_def)
qed

definition listed_ride :: "int \<Rightarrow> int \<Rightarrow> ride_row" where
  "listed_ride t n = (sample_ride ''completed'' (Some 2))\<lparr>r_id := n, r_created_at := Some t\<rparr>"

definition history_start :: world where
  "history_start = empty_world\<lparr>w_rides := [listed_ride 900 10, listed_ride 950 11, listed_ride 950 12]\<rparr>"

definition history_later :: world where
  "history_later = empty_world\<lparr>w_rides := w_rides history_start @ [listed_ride 960 13]\<rparr>"

lemma history_read_through_witness:
  "map_option (map mark_of) (follow_history sample_cursor_lib sample_repository 1 2 ''''
     [(run_env 1000, history_start), (run_env 1001, history_later)]) = Some (newest_first 1 history_start) \<and>
   newest_first 1 history_start =
     [(False, 950, 12), (False, 950, 11), (False, 900, 10)]"
proof (intro conjI history_read_through [OF sample_cursor_lib_ok])
  show "page_states_ok sample_cursor_lib 1 history_start [(run_env 1001, history_later)]" by code_simp
qed code_simp+

end
