(* ===== verification/Ride_Reports.thy ===== *)
theory Ride_Reports
  imports Ride_History Sample_World
begin

text \<open>
  Safety reports, the other participant of a ride and the figures of drivers and passengers:
  \<open>sqlc/ride_reports.sql.go\<close>, \<open>sqlc/ride_analytics.sql.go\<close>, the readers of
  \<open>ride/adapter/postgres\<close> and their use in \<open>ride/app/service.go\<close>.
\<close>

section \<open>Safety reports\<close>

definition ride_report_violation :: "world \<Rightarrow> ride_report_row \<Rightarrow> err option" where
  "ride_report_violation w v =
     first_violation
       [(rt_reporter_role v \<in> set [''driver'', ''passenger''], check_violation ''ride_reports_reporter_role_check''),
        (rt_category v \<in> set ride_report_categories, check_violation ''ride_reports_category_check''),
        (rt_severity v \<in> set [''standard'', ''high'', ''critical''],
          check_violation ''ride_reports_severity_check''),
        (rt_status v \<in> set [''submitted'', ''under_review'', ''resolved'', ''dismissed''],
          check_violation ''ride_reports_status_check''),
        (1 \<le> rune_count (rt_description v) \<and> rune_count (rt_description v) \<le> 2000,
          check_violation ''ride_reports_description_length_check''),
        (rt_reporter_id v \<noteq> rt_reported_user_id v, check_violation ''ride_reports_participants_differ_check''),
        (\<not> exists_where (\<lambda>q. rt_ride_id q = rt_ride_id v \<and> rt_reporter_id q = rt_reporter_id v \<and>
             rt_category q = rt_category v) (w_ride_reports w),
          unique_violation ''ride_reports_reporter_ride_category''),
        (exists_where (\<lambda>r. r_id r = rt_ride_id v) (w_rides w), fk_violation ''ride_reports_ride_id_fkey''),
        (user_exists w (rt_reporter_id v), fk_violation ''ride_reports_reporter_id_fkey''),
        (user_exists w (rt_reported_user_id v), fk_violation ''ride_reports_reported_user_id_fkey'')]"

text \<open>The ride a participant may report, with the other participant.\<close>

definition reportable :: "int \<Rightarrow> int \<Rightarrow> string \<Rightarrow> ride_row \<Rightarrow> bool" where
  "reportable ride_id reporter_id reporter_role r \<longleftrightarrow> r_id r = ride_id \<and> r_driver_id r \<noteq> None \<and>
     (reporter_role = ''passenger'' \<and> r_passenger_id r = reporter_id \<or>
      reporter_role = ''driver'' \<and> r_driver_id r = Some reporter_id \<and> r_status r = ''completed'')"

definition create_ride_report ::
  "int \<Rightarrow> int \<Rightarrow> string \<Rightarrow> string \<Rightarrow> string \<Rightarrow> string \<Rightarrow> ride_report_row io" where
  "create_ride_report ride_id reporter_id reporter_role category severity description = (\<lambda>e w.
     case List.find (reportable ride_id reporter_id reporter_role) (w_rides w) of
       None \<Rightarrow> query ''CreateRideReport'' (\<lambda>e w. (Inl NoRows, w)) e w
     | Some r \<Rightarrow>
         insert_one ''CreateRideReport'' ''ride_reports'' w_ride_reports (\<lambda>x. w_ride_reports_update (\<lambda>_. x))
           rt_id ride_report_violation
           (\<lambda>e. \<lparr>rt_id = env_nextval e ''ride_reports'', rt_ride_id = r_id r, rt_reporter_id = reporter_id,
              rt_reported_user_id =
                (if reporter_role = ''passenger'' then the (r_driver_id r) else r_passenger_id r),
              rt_reporter_role = reporter_role, rt_category = category, rt_severity = severity,
              rt_description = description, rt_status = ''submitted'', rt_created_at = Some (env_db_now e)\<rparr>) e w)"

definition get_ride_report_by_reporter_category :: "int \<Rightarrow> int \<Rightarrow> string \<Rightarrow> ride_report_row io" where
  "get_ride_report_by_reporter_category ride_id reporter_id category =
     select_one ''GetRideReportByReporterCategory'' (\<lambda>w. List.find (\<lambda>v. rt_ride_id v = ride_id \<and>
       rt_reporter_id v = reporter_id \<and> rt_category v = category) (w_ride_reports w))"

text \<open>The time of a report is formatted to the second.\<close>

record safety_report =
  sr_id :: int
  sr_ride_id :: int
  sr_reporter_id :: int
  sr_reported_user_id :: int
  sr_reporter_role :: string
  sr_category :: string
  sr_severity :: string
  sr_description :: string
  sr_status :: string
  sr_created_at :: "int option"

definition from_postgres_safety_report :: "ride_report_row \<Rightarrow> err + safety_report" where
  "from_postgres_safety_report item =
     (case rt_created_at item of
        None \<Rightarrow> Inl (Failure ''safety report creation time is null'')
      | Some t \<Rightarrow>
          Inr \<lparr>sr_id = rt_id item, sr_ride_id = rt_ride_id item, sr_reporter_id = rt_reporter_id item,
               sr_reported_user_id = rt_reported_user_id item, sr_reporter_role = rt_reporter_role item,
               sr_category = rt_category item, sr_severity = rt_severity item,
               sr_description = rt_description item, sr_status = rt_status item,
               sr_created_at = Some (t - t mod second)\<rparr>)"

definition report_outcome :: "int \<Rightarrow> int \<Rightarrow> string \<Rightarrow> err + ride_report_row \<Rightarrow> safety_report io" where
  "report_outcome ride_id reporter_id category result =
     (case result of
        Inr item \<Rightarrow> io_lift (from_postgres_safety_report item)
      | Inl x \<Rightarrow>
          if x = NoRows then io_throw (RideErr ErrSafetyReportNotAllowed)
          else if is_postgres_unique_violation x then
            io_bind (get_ride_report_by_reporter_category ride_id reporter_id category)
              (\<lambda>existing. io_lift (from_postgres_safety_report existing))
          else io_throw x)"

definition repo_create_safety_report :: "ride_repository \<Rightarrow> safety_report \<Rightarrow> safety_report io" where
  "repo_create_safety_report repository report =
     io_bind (validate_native_read_repository repository) (\<lambda>_.
     let reporter_role = to_lower (trim_space (sr_reporter_role report));
         category = to_lower (trim_space (sr_category report));
         description = trim_space (sr_description report) in
     (case validate_safety_report reporter_role category description of
        None \<Rightarrow> io_throw (RideErr ErrSafetyReportInvalid)
      | Some severity \<Rightarrow>
          io_bind (io_map_err (\<lambda>_. RideErr ErrSafetyReportNotAllowed)
            (io_lift (to_postgres_ride_id (sr_ride_id report) ''ride id''))) (\<lambda>ride_id.
          io_bind (io_map_err (\<lambda>_. RideErr ErrSafetyReportNotAllowed)
            (io_lift (to_postgres_ride_id (sr_reporter_id report) ''reporter id''))) (\<lambda>reporter_id.
          io_try (create_ride_report ride_id reporter_id reporter_role category severity description)
            (report_outcome ride_id reporter_id category)))))"

definition ride_create_safety_report :: "ride_repository option \<Rightarrow> safety_report \<Rightarrow> safety_report io" where
  "ride_create_safety_report service report =
     with_rides service ''safety report persistence is unavailable'' (\<lambda>p.
       let report = report\<lparr>sr_reporter_role := to_lower (trim_space (sr_reporter_role report)),
             sr_category := to_lower (trim_space (sr_category report)),
             sr_description := trim_space (sr_description report)\<rparr> in
       (case validate_safety_report (sr_reporter_role report) (sr_category report) (sr_description report) of
          None \<Rightarrow> io_throw (RideErr ErrSafetyReportInvalid)
        | Some severity \<Rightarrow> repo_create_safety_report p (report\<lparr>sr_severity := severity\<rparr>)))"

section \<open>The other participant\<close>

record counterparty =
  co_ride_id :: int
  co_user_id :: int
  co_role :: string
  co_name :: string
  co_phone :: string
  co_rating :: gofloat
  co_vehicle_type :: string
  co_plate_number :: string
  co_ride_status :: string
  co_contact_allowed :: bool
  co_contact_allowed_until :: "int option"

definition ride_contact_window :: int where
  "ride_contact_window = 24 * 60 * minute"

definition counterparty_identity_from_ride :: "ride \<Rightarrow> int \<Rightarrow> err + int \<times> string" where
  "counterparty_identity_from_ride x actor_id =
     (if rd_passenger_id x = actor_id then
        (case rd_driver_id x of
           None \<Rightarrow> Inl (RideErr ErrCounterpartyUnavailable)
         | Some d \<Rightarrow> if d \<le> 0 then Inl (RideErr ErrCounterpartyUnavailable) else Inr (d, ''driver''))
      else if rd_driver_id x = Some actor_id then Inr (rd_passenger_id x, ''passenger'')
      else Inl ErrUnauthorizedRide)"

definition ride_contact_availability_from_ride :: "int \<Rightarrow> ride \<Rightarrow> bool \<times> int option" where
  "ride_contact_availability_from_ride now x =
     (if rd_status x \<in> set driver_active_statuses then (True, None)
      else if rd_status x = ''completed'' then
        (case rd_completed_at x of
           None \<Rightarrow> (False, None)
         | Some t \<Rightarrow>
             let until = t + ride_contact_window in (now < until, Some (until - until mod second)))
      else (False, None))"

definition first_non_empty :: "string \<Rightarrow> string \<Rightarrow> string" where
  "first_non_empty preferred fallback = (if preferred \<noteq> '''' then preferred else fallback)"

definition counterparty_account :: "int \<Rightarrow> ride \<Rightarrow> int \<Rightarrow> string \<Rightarrow> user_row \<Rightarrow> counterparty" where
  "counterparty_account now x target_id target_role account =
     (let contact = ride_contact_availability_from_ride now x in
      \<lparr>co_ride_id = rd_id x, co_user_id = target_id, co_role = target_role,
       co_name = ride_text_value (u_name account), co_phone = (if fst contact then u_phone account else ''''),
       co_rating = Fin 0, co_vehicle_type = '''', co_plate_number = '''', co_ride_status = rd_status x,
       co_contact_allowed = fst contact, co_contact_allowed_until = snd contact\<rparr>)"

definition counterparty_profile :: "int \<Rightarrow> counterparty \<Rightarrow> counterparty io" where
  "counterparty_profile db_target_id result =
     (if co_role result = ''driver'' then
        io_try (get_driver_profile_by_user_id_full db_target_id) (\<lambda>profile. case profile of
          Inl err \<Rightarrow> if err = NoRows then io_return result else io_throw err
        | Inr q \<Rightarrow>
            io_return (result\<lparr>co_name := first_non_empty (dp_name q) (co_name result), co_rating := dp_rating q,
              co_vehicle_type := dp_vehicle_type q, co_plate_number := dp_plate_number q\<rparr>))
      else
        io_try (get_passenger_profile_by_user_id_full db_target_id) (\<lambda>profile. case profile of
          Inl err \<Rightarrow> if err = NoRows then io_return result else io_throw err
        | Inr q \<Rightarrow> io_return (result\<lparr>co_name := first_non_empty (pp_name q) (co_name result)\<rparr>)))"

definition repo_counterparty :: "ride_repository \<Rightarrow> int \<Rightarrow> int \<Rightarrow> counterparty io" where
  "repo_counterparty repository ride_id actor_id =
     io_bind (repo_get repository ride_id) (\<lambda>x.
     io_bind (io_lift (counterparty_identity_from_ride x actor_id)) (\<lambda>(target_id, target_role).
     io_bind (io_lift (to_postgres_ride_id target_id ''counterparty id'')) (\<lambda>db_target_id.
     io_bind (find_user db_target_id) (\<lambda>account.
     io_bind (io_env env_now) (\<lambda>now.
     counterparty_profile db_target_id (counterparty_account now x target_id target_role account))))))"

definition ride_counterparty :: "ride_repository option \<Rightarrow> int \<Rightarrow> int \<Rightarrow> counterparty io" where
  "ride_counterparty service ride_id actor_id =
     (if ride_id \<le> 0 \<or> actor_id \<le> 0 then io_throw ErrUnauthorizedRide
      else with_rides service ''ride counterparty lookup is unavailable''
        (\<lambda>p. repo_counterparty p ride_id actor_id))"

section \<open>Figures\<close>

text \<open>A completed ride of a period, by its completion or, when that is missing, its creation.\<close>

definition completed_within :: "int \<Rightarrow> int \<Rightarrow> ride_row \<Rightarrow> bool" where
  "completed_within lo hi r \<longleftrightarrow> r_status r = ''completed'' \<and>
     (case coalesce (r_completed_at r) (r_created_at r) of None \<Rightarrow> False | Some t \<Rightarrow> lo \<le> t \<and> t < hi)"

text \<open>\<open>SUM\<close> of a column, cast to \<open>bigint\<close>.\<close>

definition bigint_sum :: "int list \<Rightarrow> err + int" where
  "bigint_sum xs = (if int64_range (sum_list xs) then Inr (sum_list xs) else Inl (PgError ''22003'' ''''))"

definition payouts :: "world \<Rightarrow> ride_row list \<Rightarrow> int list" where
  "payouts w rs = map (\<lambda>r. coalesce_to (map_option st_driver_payout_amount (find_settlement w (r_id r))) 0) rs"

record passenger_activity_row =
  pv_this_week_fare_amount :: int
  pv_this_week_completed_rides :: int

definition get_passenger_activity_summary :: "int \<Rightarrow> int \<Rightarrow> int \<Rightarrow> passenger_activity_row io" where
  "get_passenger_activity_summary week_start week_end passenger_id =
     query ''GetPassengerActivitySummary'' (\<lambda>e w.
       let rs = filter (\<lambda>r. r_passenger_id r = passenger_id \<and> completed_within week_start week_end r) (w_rides w) in
       (case bigint_sum (map r_fare_amount rs) of
          Inl x \<Rightarrow> (Inl x, w)
        | Inr amount \<Rightarrow>
            (Inr \<lparr>pv_this_week_fare_amount = amount, pv_this_week_completed_rides = int (length rs)\<rparr>, w)))"

record driver_stats_row =
  dst_total_trips :: int
  dst_completed_trips :: int
  dst_active_trips :: int
  dst_total_earnings_amount :: int
  dst_today_completed_trips :: int
  dst_today_earnings_amount :: int
  dst_average_rating :: gofloat
  dst_star_counts :: "int list"
  dst_settled_trips :: int
  dst_cancellation_counts :: "int list"

definition rating_between :: "int \<Rightarrow> review_row \<Rightarrow> bool" where
  "rating_between n v \<longleftrightarrow>
     (if n = 5 then rv_rating v = Fin 5
      else f_le (Fin (of_int n)) (rv_rating v) \<and> f_lt (rv_rating v) (Fin (of_int (n + 1))))"

definition standing_responsibilities :: "string list" where
  "standing_responsibilities = [''driver_fault'', ''passenger_fault'', ''system_fault'', ''no_fault'',
     ''safety_related'', ''pending_review'', ''admin_override'']"

definition get_driver_stats :: "int \<Rightarrow> int \<Rightarrow> int \<Rightarrow> driver_stats_row io" where
  "get_driver_stats day_start day_end driver_id = query ''GetDriverStats'' (\<lambda>e w.
     let rs = filter (\<lambda>r. r_driver_id r = Some driver_id) (w_rides w);
         completed = filter (\<lambda>r. r_status r = ''completed'') rs;
         today = filter (completed_within day_start day_end) rs;
         reviews = filter (\<lambda>v. rv_driver_id v = driver_id) (w_reviews w) in
     (case (bigint_sum (payouts w completed), bigint_sum (payouts w today)) of
        (Inr amount, Inr earned) \<Rightarrow>
          (Inr \<lparr>dst_total_trips = int (length rs), dst_completed_trips = int (length completed),
             dst_active_trips = int (count_where (\<lambda>r. r_status r \<in> set passenger_active_statuses) rs),
             dst_total_earnings_amount = amount, dst_today_completed_trips = int (length today),
             dst_today_earnings_amount = earned,
             dst_average_rating = coalesce_to (sql_avg (map rv_rating reviews)) (Fin 0),
             dst_star_counts = map (\<lambda>n. int (count_where (rating_between n) reviews)) [1, 2, 3, 4, 5],
             dst_settled_trips = int (count_where (\<lambda>r. r_status r \<in> set [''completed'', ''cancelled'']) rs),
             dst_cancellation_counts = map (\<lambda>x. int (count_where (\<lambda>r. r_status r = ''cancelled'' \<and>
               r_cancellation_responsibility r = x) rs)) standing_responsibilities\<rparr>, w)
      | (Inl x, _) \<Rightarrow> (Inl x, w)
      | (_, Inl x) \<Rightarrow> (Inl x, w)))"

section \<open>The readers and the service\<close>

definition to_native_ride_count :: "int \<Rightarrow> string \<Rightarrow> err + int" where
  "to_native_ride_count value field =
     (if value < 0 \<or> value > max_int64 then Inl (Failure (field @ '' is outside native integer range''))
      else Inr value)"

record driver_stats =
  sd_driver_id :: int
  sd_total_trips :: int
  sd_completed_trips :: int
  sd_active_trips :: int
  sd_total_earnings :: int
  sd_today_completed_trips :: int
  sd_today_earnings :: int
  sd_average_rating :: gofloat
  sd_rating_distribution :: "int list"
  sd_standing :: driver_standing

definition from_postgres_driver_standing :: "driver_stats_row \<Rightarrow> err + driver_standing" where
  "from_postgres_driver_standing row =
     (case map_rows (\<lambda>n. to_native_ride_count n ''count'')
         (dst_settled_trips row # dst_completed_trips row # dst_cancellation_counts row) of
        Inr [settled, completed, driver_fault, passenger_fault, system_fault, no_fault, safety_related,
             pending_review, admin_override] \<Rightarrow>
          build_driver_standing settled completed driver_fault passenger_fault system_fault no_fault
            safety_related pending_review admin_override
      | Inr _ \<Rightarrow> Inl ErrInvalidDriverStanding
      | Inl x \<Rightarrow> Inl x)"

definition from_postgres_driver_stats :: "int \<Rightarrow> driver_stats_row \<Rightarrow> err + driver_stats" where
  "from_postgres_driver_stats driver_id row =
     (case map_rows (\<lambda>n. to_native_ride_count n ''count'')
         [dst_total_trips row, dst_completed_trips row, dst_active_trips row, dst_today_completed_trips row] of
        Inr [total_trips, completed, active, today] \<Rightarrow>
          (case map_rows (\<lambda>n. to_native_ride_count n ''rating count'') (dst_star_counts row) of
             Inl x \<Rightarrow> Inl x
           | Inr ratings \<Rightarrow>
               (case from_postgres_driver_standing row of
                  Inl x \<Rightarrow> Inl x
                | Inr standing \<Rightarrow>
                    Inr \<lparr>sd_driver_id = driver_id, sd_total_trips = total_trips,
                      sd_completed_trips = completed, sd_active_trips = active,
                      sd_total_earnings = dst_total_earnings_amount row,
                      sd_today_completed_trips = today,
                      sd_today_earnings = dst_today_earnings_amount row,
                      sd_average_rating = dst_average_rating row, sd_rating_distribution = ratings,
                      sd_standing = standing\<rparr>))
      | Inr _ \<Rightarrow> Inl ErrInvalidDriverStanding
      | Inl x \<Rightarrow> Inl x)"

definition repo_driver_stats :: "ride_repository \<Rightarrow> int \<Rightarrow> int \<Rightarrow> int \<Rightarrow> driver_stats io" where
  "repo_driver_stats repository driver_id day_start day_end =
     io_bind (validate_native_read_repository repository) (\<lambda>_.
     io_bind (io_lift (to_postgres_ride_id driver_id ''driver id'')) (\<lambda>db_driver_id.
     io_bind (get_driver_stats day_start day_end db_driver_id) (\<lambda>row.
     io_lift (from_postgres_driver_stats driver_id row))))"

definition repo_passenger_activity_summary ::
  "ride_repository \<Rightarrow> int \<Rightarrow> int \<Rightarrow> int \<Rightarrow> passenger_activity_row io" where
  "repo_passenger_activity_summary repository passenger_id week_start week_end =
     io_bind (validate_native_read_repository repository) (\<lambda>_.
     io_bind (io_lift (to_postgres_ride_id passenger_id ''passenger id'')) (\<lambda>db_passenger_id.
     io_bind (get_passenger_activity_summary week_start week_end db_passenger_id) (\<lambda>row.
     io_bind (io_lift (to_native_ride_count (pv_this_week_completed_rides row) ''completed rides'')) (\<lambda>n.
     io_return \<lparr>pv_this_week_fare_amount = pv_this_week_fare_amount row, pv_this_week_completed_rides = n\<rparr>))))"

text \<open>
  Days of the reporting zone, whose offset from UTC does not change (Manila: eight hours). The
  first of January 1970 was a Thursday, and a week begins on Monday.
\<close>

definition day_length :: int where
  "day_length = 24 * 60 * minute"

definition local_day :: "int \<Rightarrow> int \<Rightarrow> int" where
  "local_day offset t = (t + offset) div day_length"

definition day_start :: "int \<Rightarrow> int \<Rightarrow> int" where
  "day_start offset d = d * day_length - offset"

definition weekday_of :: "int \<Rightarrow> int" where
  "weekday_of d = (d + 4) mod 7"

definition week_first_day :: "int \<Rightarrow> int" where
  "week_first_day d = d - (weekday_of d + 6) mod 7"

definition default_reporting_offset :: int where
  "default_reporting_offset = 8 * 60 * minute"

definition reporting_day_bounds :: "int \<Rightarrow> int \<Rightarrow> int \<times> int" where
  "reporting_day_bounds offset now =
     (let d = local_day offset now in (day_start offset d, day_start offset (d + 1)))"

definition reporting_week_bounds :: "int \<Rightarrow> int \<Rightarrow> int \<times> int" where
  "reporting_week_bounds offset now =
     (let d = week_first_day (local_day offset now) in (day_start offset d, day_start offset (d + 7)))"

definition ride_driver_stats :: "ride_repository option \<Rightarrow> int \<Rightarrow> int \<Rightarrow> driver_stats io" where
  "ride_driver_stats service offset driver_id =
     with_rides service ''driver analytics persistence is unavailable'' (\<lambda>p.
       io_bind (io_env env_now) (\<lambda>now.
       let (lo, hi) = reporting_day_bounds offset now in repo_driver_stats p driver_id lo hi))"

definition ride_passenger_activity_summary ::
  "ride_repository option \<Rightarrow> int \<Rightarrow> int \<Rightarrow> passenger_activity_row io" where
  "ride_passenger_activity_summary service offset passenger_id =
     with_rides service ''passenger activity persistence is unavailable'' (\<lambda>p.
       io_bind (io_env env_now) (\<lambda>now.
       let (lo, hi) = reporting_week_bounds offset now in
       repo_passenger_activity_summary p passenger_id lo hi))"

section \<open>Who sees whom\<close>

lemma completed_at_shown:
  "from_postgres_ride_row g = Inr x \<Longrightarrow> rd_completed_at x = r_completed_at (gr_ride g)"
  by (auto simp: from_postgres_ride_row_def from_postgres_ride_with_driver_profile_def
      from_postgres_ride_projection_def from_postgres_ride_def ride_timestamp_def split: sum.splits if_splits)

lemma read_only_counterparty: "read_only (ride_counterparty service i a)"
  unfolding ride_counterparty_def with_rides_def repo_counterparty_def counterparty_profile_def find_user_def
    get_driver_profile_by_user_id_full_def get_passenger_profile_by_user_id_full_def Let_def
  by (auto intro!: io_class read_only_bind read_only_try split: option.splits sum.splits prod.splits)

definition contact_open :: "int \<Rightarrow> ride_row \<Rightarrow> bool" where
  "contact_open now r \<longleftrightarrow> r_status r \<in> set driver_active_statuses \<or>
     r_status r = ''completed'' \<and>
       (case r_completed_at r of None \<Rightarrow> False | Some t \<Rightarrow> now < t + ride_contact_window)"

lemma contact_availability:
  assumes "rd_status x = r_status r" and "rd_completed_at x = r_completed_at r"
  shows "fst (ride_contact_availability_from_ride now x) = contact_open now r"
  using assms
  by (auto simp: ride_contact_availability_from_ride_def contact_open_def driver_active_statuses_def Let_def
      split: option.splits)

lemma counterparty_profile_keeps:
  assumes "counterparty_profile i c e w = (Inr c', w')"
  shows "w' = w \<and> co_user_id c' = co_user_id c \<and> co_phone c' = co_phone c \<and>
    co_contact_allowed c' = co_contact_allowed c"
proof (cases "co_role c = ''driver''")
  case True
  have ro: "read_only (get_driver_profile_by_user_id_full i)"
    by (auto simp: get_driver_profile_by_user_id_full_def io_class)
  from assms True obtain s v where "get_driver_profile_by_user_id_full i e w = (s, v)"
    and "(case s of Inl err \<Rightarrow> if err = NoRows then io_return c else io_throw err
        | Inr q \<Rightarrow> io_return (c\<lparr>co_name := first_non_empty (dp_name q) (co_name c), co_rating := dp_rating q,
            co_vehicle_type := dp_vehicle_type q, co_plate_number := dp_plate_number q\<rparr>)) e v = (Inr c', w')"
    by (auto simp: counterparty_profile_def io_try_eq)
  with read_onlyD [OF ro] show ?thesis
    by (cases s) (auto simp: io_return_eq io_throw_eq split: if_splits)
next
  case False
  have ro: "read_only (get_passenger_profile_by_user_id_full i)"
    by (auto simp: get_passenger_profile_by_user_id_full_def io_class)
  from assms False obtain s v where "get_passenger_profile_by_user_id_full i e w = (s, v)"
    and "(case s of Inl err \<Rightarrow> if err = NoRows then io_return c else io_throw err
        | Inr q \<Rightarrow> io_return (c\<lparr>co_name := first_non_empty (pp_name q) (co_name c)\<rparr>)) e v = (Inr c', w')"
    by (auto simp: counterparty_profile_def io_try_eq)
  with read_onlyD [OF ro] show ?thesis
    by (cases s) (auto simp: io_return_eq io_throw_eq split: if_splits)
qed

lemma repo_counterpartyE:
  assumes "repo_counterparty p i a e w = (Inr c, w')"
  obtains x role and u :: user_row where "w' = w" and "repo_get p i e w = (Inr x, w)"
    and "counterparty_identity_from_ride x a = Inr (co_user_id c, role)"
    and "co_contact_allowed c = fst (ride_contact_availability_from_ride (env_now e) x)"
    and "co_phone c = (if co_contact_allowed c then u_phone u else '''')"
proof -
  from assms obtain x v target where g: "repo_get p i e w = (Inr x, v)"
    and t: "counterparty_identity_from_ride x a = Inr target"
    and rest: "(case target of (target_id, target_role) \<Rightarrow>
     io_bind (io_lift (to_postgres_ride_id target_id ''counterparty id'')) (\<lambda>db_target_id.
     io_bind (find_user db_target_id) (\<lambda>account.
     io_bind (io_env env_now) (\<lambda>now.
     counterparty_profile db_target_id (counterparty_account now x target_id target_role account))))) e v = (Inr c, w')"
    by (auto simp only: repo_counterparty_def io_bind_Inr io_lift_eq)
  obtain j role where j: "target = (j, role)" by (cases target)
  from rest j obtain u v' where f: "find_user j e v = (Inr u, v')"
    and c: "counterparty_profile j (counterparty_account (env_now e) x j role u) e v' = (Inr c, w')"
    by (auto simp: io_bind_Inr io_lift_eq io_env_eq)
  from f have "v' = v" by (auto simp: find_user_def io_simps)
  moreover from repo_getE [OF g] have "v = w" by blast
  ultimately show thesis
    using that [of x role u] g t j counterparty_profile_keeps [OF c] by (simp add: counterparty_account_def Let_def)
qed

text \<open>
  C38. The other participant of a ride is shown only to its passenger and its driver, and changes
  nothing; the phone number only while the ride is active and for a day after its completion.
\<close>

theorem counterparty_discreet:
  assumes "ride_counterparty service i a e w = (Inr c, w')"
  shows "w' = w \<and> (\<exists>r. r \<in> set (w_rides w) \<and> r_id r = i \<and>
    (r_passenger_id r = a \<and> r_driver_id r = Some (co_user_id c) \<or>
     r_driver_id r = Some a \<and> r_passenger_id r = co_user_id c) \<and>
    co_contact_allowed c = contact_open (env_now e) r \<and> (co_phone c = '''' \<or> contact_open (env_now e) r))"
proof -
  from assms obtain p where "repo_counterparty p i a e w = (Inr c, w')"
    by (auto simp: ride_counterparty_def with_rides_def io_simps split: if_splits option.splits)
  then obtain x role and u :: user_row where w': "w' = w" and g: "repo_get p i e w = (Inr x, w)"
    and t: "counterparty_identity_from_ride x a = Inr (co_user_id c, role)"
    and contact: "co_contact_allowed c = fst (ride_contact_availability_from_ride (env_now e) x)"
    and phone: "co_phone c = (if co_contact_allowed c then u_phone u else '''')" by (rule repo_counterpartyE)
  from g obtain h where f: "List.find (\<lambda>r. r_id r = i) (w_rides w) = Some (gr_ride h)"
    and h: "from_postgres_ride_row h = Inr x" by (rule repo_getE)
  let ?r = "gr_ride h"
  have shown: "shows_ride x ?r" "rd_completed_at x = r_completed_at ?r"
    using shows_ride_row [OF h] completed_at_shown [OF h] by simp_all
  then have "co_contact_allowed c = contact_open (env_now e) ?r"
    using contact contact_availability [of x ?r] by (simp add: shows_ride_def)
  moreover from this have "co_phone c = '''' \<or> contact_open (env_now e) ?r" using phone by simp
  moreover have "r_passenger_id ?r = a \<and> r_driver_id ?r = Some (co_user_id c) \<or>
      r_driver_id ?r = Some a \<and> r_passenger_id ?r = co_user_id c"
    using t shown(1)
    by (auto simp: counterparty_identity_from_ride_def shows_ride_def ride_optional_int_def
        split: if_splits option.splits)
  ultimately show ?thesis using w' find_SomeD [OF f] by blast
qed

definition contact_world :: world where
  "contact_world = sample_world [(sample_ride ''completed'' (Some 2))\<lparr>r_completed_at := Some (950 * second)\<rparr>] []"

definition contact_shown :: counterparty where
  "contact_shown =
     \<lparr>co_ride_id = 10, co_user_id = 2, co_role = ''driver'', co_name = ''Ben'', co_phone = ''2'',
      co_rating = Fin 5, co_vehicle_type = ''Bao'', co_plate_number = ''B1'', co_ride_status = ''completed'',
      co_contact_allowed = True, co_contact_allowed_until = Some (87350 * second)\<rparr>"

lemma contact_run:
  "ride_counterparty (Some sample_repository) 10 1 sample_env contact_world = (Inr contact_shown, contact_world)"
  by code_simp

lemma counterparty_discreet_witness:
  "contact_world = contact_world \<and> (\<exists>r. r \<in> set (w_rides contact_world) \<and> r_id r = 10 \<and>
    (r_passenger_id r = 1 \<and> r_driver_id r = Some (co_user_id contact_shown) \<or>
     r_driver_id r = Some 1 \<and> r_passenger_id r = co_user_id contact_shown) \<and>
    co_contact_allowed contact_shown = contact_open (env_now sample_env) r \<and>
    (co_phone contact_shown = '''' \<or> contact_open (env_now sample_env) r)) \<and>
   co_phone contact_shown = ''2''"
  using counterparty_discreet [OF contact_run] by (simp add: contact_shown_def)

section \<open>What a safety report leaves\<close>

text \<open>The role, category and description of a report are normalized by the service and the repository.\<close>

definition filed_text :: "string \<Rightarrow> string" where
  "filed_text s = to_lower (trim_space (to_lower (trim_space s)))"

definition reported_ride :: "safety_report \<Rightarrow> ride_report_row \<Rightarrow> ride_row \<Rightarrow> bool" where
  "reported_ride rep row ride \<longleftrightarrow> r_id ride = sr_ride_id rep \<and>
     (rt_reporter_role row = ''passenger'' \<and> r_passenger_id ride = sr_reporter_id rep \<and>
        r_driver_id ride = Some (rt_reported_user_id row) \<or>
      rt_reporter_role row = ''driver'' \<and> r_driver_id ride = Some (sr_reporter_id rep) \<and>
        r_passenger_id ride = rt_reported_user_id row \<and> r_status ride = ''completed'')"

definition same_report :: "ride_report_row \<Rightarrow> ride_report_row \<Rightarrow> bool" where
  "same_report row q \<longleftrightarrow> rt_ride_id q = rt_ride_id row \<and> rt_reporter_id q = rt_reporter_id row \<and>
     rt_category q = rt_category row"

lemma create_ride_report_cases:
  assumes "create_ride_report i a role category severity description e w = (s, v)"
  shows "(\<exists>x. s = Inl x) \<and> v = w \<or>
    (\<exists>row ride. s = Inr row \<and> v = w\<lparr>w_ride_reports := w_ride_reports w @ [row]\<rparr> \<and> ride \<in> set (w_rides w) \<and>
      r_id ride = i \<and> rt_ride_id row = i \<and> rt_reporter_id row = a \<and> rt_reporter_role row = role \<and>
      rt_category row = category \<and> rt_severity row = severity \<and> rt_description row = description \<and>
      (role = ''passenger'' \<and> r_passenger_id ride = a \<and> r_driver_id ride = Some (rt_reported_user_id row) \<or>
       role = ''driver'' \<and> r_driver_id ride = Some a \<and> r_passenger_id ride = rt_reported_user_id row \<and>
         r_status ride = ''completed'') \<and>
      rt_created_at row \<noteq> None \<and> \<not> exists_where (same_report row) (w_ride_reports w))"
proof (cases "List.find (reportable i a role) (w_rides w)")
  case None
  with assms show ?thesis by (auto simp: create_ride_report_def query_def split: if_splits)
next
  case (Some ride)
  then have r: "ride \<in> set (w_rides w)" "reportable i a role ride" by (auto dest: find_SomeD)
  let ?row = "\<lparr>rt_id = env_nextval e ''ride_reports'', rt_ride_id = r_id ride, rt_reporter_id = a,
    rt_reported_user_id = (if role = ''passenger'' then the (r_driver_id ride) else r_passenger_id ride),
    rt_reporter_role = role, rt_category = category, rt_severity = severity,
    rt_description = description, rt_status = ''submitted'', rt_created_at = Some (env_db_now e)\<rparr>"
  from Some assms have "insert_one ''CreateRideReport'' ''ride_reports'' w_ride_reports
      (\<lambda>x. w_ride_reports_update (\<lambda>_. x)) rt_id ride_report_violation (\<lambda>e.
      \<lparr>rt_id = env_nextval e ''ride_reports'', rt_ride_id = r_id ride, rt_reporter_id = a,
       rt_reported_user_id = (if role = ''passenger'' then the (r_driver_id ride) else r_passenger_id ride),
       rt_reporter_role = role, rt_category = category, rt_severity = severity,
       rt_description = description, rt_status = ''submitted'', rt_created_at = Some (env_db_now e)\<rparr>) e w = (s, v)"
    by (simp add: create_ride_report_def)
  then have "(\<exists>x. s = Inl x) \<and> v = w \<or> s = Inr ?row \<and>
      v = w\<lparr>w_ride_reports := w_ride_reports w @ [?row]\<rparr> \<and> ride_report_violation w ?row = None"
    by (simp add: insert_one_def query_def split: if_splits option.splits) auto
  moreover have "\<not> exists_where (same_report ?row) (w_ride_reports w)" if "ride_report_violation w ?row = None"
    using that unfolding ride_report_violation_def first_violation_None by (simp add: same_report_def [abs_def])
  ultimately show ?thesis
    using r by (auto simp: reportable_def)
qed

lemma repo_create_safety_report_filed:
  assumes "repo_create_safety_report p rep e w = (r, w')"
  shows "(\<exists>x. r = Inl x) \<and> w' = w \<or>
    (\<exists>x row. r = Inr x \<and> from_postgres_safety_report row = Inr x \<and> rt_ride_id row = sr_ride_id rep \<and>
      rt_reporter_id row = sr_reporter_id rep \<and> rt_category row = to_lower (trim_space (sr_category rep)) \<and>
      (w' = w \<and> row \<in> set (w_ride_reports w) \<or>
       w' = w\<lparr>w_ride_reports := w_ride_reports w @ [row]\<rparr> \<and> \<not> exists_where (same_report row) (w_ride_reports w) \<and>
       validate_safety_report (rt_reporter_role row) (rt_category row) (rt_description row) = Some (rt_severity row) \<and>
       exists_where (reported_ride rep row) (w_rides w)))"
proof -
  let ?role = "to_lower (trim_space (sr_reporter_role rep))" and ?category = "to_lower (trim_space (sr_category rep))"
    and ?text = "trim_space (sr_description rep)"
  consider "(\<exists>x. r = Inl x) \<and> w' = w"
    | severity s v where "validate_safety_report ?role ?category ?text = Some severity"
        "create_ride_report (sr_ride_id rep) (sr_reporter_id rep) ?role ?category severity ?text e w = (s, v)"
        "report_outcome (sr_ride_id rep) (sr_reporter_id rep) ?category s e v = (r, w')"
    using assms
    by (auto simp: repo_create_safety_report_def validate_native_read_repository_def Let_def
        to_postgres_ride_id_def io_bind_def io_return_def io_throw_def io_lift_def io_map_err_def io_try_def
        split: option.splits if_splits prod.splits)
  then show ?thesis
  proof cases
    case 2
    from create_ride_report_cases [OF 2(2)] show ?thesis
    proof
      assume "(\<exists>x. s = Inl x) \<and> v = w"
      with 2(3) show ?thesis
        by (cases r) (auto simp: report_outcome_def get_ride_report_by_reporter_category_def select_one_def query_def
            io_bind_def io_lift_def io_throw_def split: if_splits option.splits prod.splits sum.splits
            dest!: find_SomeD)
    next
      assume "\<exists>row ride. s = Inr row \<and> v = w\<lparr>w_ride_reports := w_ride_reports w @ [row]\<rparr> \<and> ride \<in> set (w_rides w) \<and>
        r_id ride = sr_ride_id rep \<and> rt_ride_id row = sr_ride_id rep \<and> rt_reporter_id row = sr_reporter_id rep \<and>
        rt_reporter_role row = ?role \<and> rt_category row = ?category \<and> rt_severity row = severity \<and>
        rt_description row = ?text \<and>
        (?role = ''passenger'' \<and> r_passenger_id ride = sr_reporter_id rep \<and> r_driver_id ride = Some (rt_reported_user_id row) \<or>
         ?role = ''driver'' \<and> r_driver_id ride = Some (sr_reporter_id rep) \<and>
           r_passenger_id ride = rt_reported_user_id row \<and> r_status ride = ''completed'') \<and>
        rt_created_at row \<noteq> None \<and> \<not> exists_where (same_report row) (w_ride_reports w)"
      then obtain row ride where row: "s = Inr row" "v = w\<lparr>w_ride_reports := w_ride_reports w @ [row]\<rparr>"
        "ride \<in> set (w_rides w)" "rt_ride_id row = sr_ride_id rep" "rt_reporter_id row = sr_reporter_id rep"
        "rt_reporter_role row = ?role" "rt_category row = ?category" "rt_severity row = severity"
        "rt_description row = ?text" "reported_ride rep row ride" "rt_created_at row \<noteq> None"
        "\<not> exists_where (same_report row) (w_ride_reports w)"
        by (auto simp: reported_ride_def)
      from row(11) obtain x where x: "from_postgres_safety_report row = Inr x"
        by (auto simp: from_postgres_safety_report_def)
      have "exists_where (reported_ride rep row) (w_rides w)"
        using row(3,10) by (auto simp: exists_where_def list_ex_iff)
      moreover have "r = Inr x" "w' = v" using 2(3) row(1) x by (simp_all add: report_outcome_def io_lift_def)
      ultimately show ?thesis using row 2(1) x by (intro disjI2 exI [of _ x] exI [of _ row]) simp
    qed
  qed blast
qed

text \<open>
  C39. A safety report that is accepted was validated, names the other participant of the ride,
  comes from its passenger or, once it is completed, from its driver, and is the only one of its
  reporter, ride and category: the first stays as it is and is shown again. One that is refused
  stores nothing.
\<close>

theorem safety_report_filed:
  assumes "ride_create_safety_report service rep e w = (r, w')"
  shows "(\<exists>x. r = Inl x) \<and> w' = w \<or>
    (\<exists>x row. r = Inr x \<and> from_postgres_safety_report row = Inr x \<and> rt_ride_id row = sr_ride_id rep \<and>
      rt_reporter_id row = sr_reporter_id rep \<and> rt_category row = filed_text (sr_category rep) \<and>
      (w' = w \<and> row \<in> set (w_ride_reports w) \<or>
       w' = w\<lparr>w_ride_reports := w_ride_reports w @ [row]\<rparr> \<and> \<not> exists_where (same_report row) (w_ride_reports w) \<and>
       validate_safety_report (rt_reporter_role row) (rt_category row) (rt_description row) = Some (rt_severity row) \<and>
       exists_where (reported_ride rep row) (w_rides w)))"
proof -
  consider "(\<exists>x. r = Inl x) \<and> w' = w"
    | p severity where "repo_create_safety_report p
        (rep\<lparr>sr_reporter_role := to_lower (trim_space (sr_reporter_role rep)),
          sr_category := to_lower (trim_space (sr_category rep)),
          sr_description := trim_space (sr_description rep), sr_severity := severity\<rparr>) e w = (r, w')"
    using assms
    by (auto simp: ride_create_safety_report_def with_rides_def Let_def io_throw_def split: option.splits)
  then show ?thesis
  proof cases
    case 2
    from repo_create_safety_report_filed [OF this] show ?thesis
      by (simp add: filed_text_def reported_ride_def [abs_def])
  qed blast
qed

definition sample_report :: safety_report where
  "sample_report =
     \<lparr>sr_id = 0, sr_ride_id = 10, sr_reporter_id = 2, sr_reported_user_id = 0, sr_reporter_role = '' Driver'',
      sr_category = ''no_show'', sr_severity = '''', sr_description = '' x '', sr_status = '''',
      sr_created_at = None\<rparr>"

definition filed_row :: ride_report_row where
  "filed_row =
     \<lparr>rt_id = 100, rt_ride_id = 10, rt_reporter_id = 2, rt_reported_user_id = 1, rt_reporter_role = ''driver'',
      rt_category = ''no_show'', rt_severity = ''standard'', rt_description = ''x'', rt_status = ''submitted'',
      rt_created_at = Some (1000 * second)\<rparr>"

lemma report_run:
  "map_prod (map_sum id sr_id) id (ride_create_safety_report (Some sample_repository) sample_report sample_env
     contact_world) = (Inr 100, contact_world\<lparr>w_ride_reports := [filed_row]\<rparr>)"
  by code_simp

lemma report_run_ok:
  "ride_create_safety_report (Some sample_repository) sample_report sample_env contact_world =
     (fst (ride_create_safety_report (Some sample_repository) sample_report sample_env contact_world),
      contact_world\<lparr>w_ride_reports := [filed_row]\<rparr>)"
  using report_run by (metis map_prod_def snd_map_prod id_apply prod.collapse snd_conv)

lemma safety_report_filed_witness:
  "\<exists>row. rt_ride_id row = 10 \<and> rt_category row = filed_text (sr_category sample_report) \<and>
     contact_world\<lparr>w_ride_reports := [filed_row]\<rparr> =
       contact_world\<lparr>w_ride_reports := w_ride_reports contact_world @ [row]\<rparr> \<and>
     validate_safety_report (rt_reporter_role row) (rt_category row) (rt_description row) = Some (rt_severity row) \<and>
     exists_where (reported_ride sample_report row) (w_rides contact_world)"
proof -
  have "contact_world\<lparr>w_ride_reports := [filed_row]\<rparr> \<noteq> contact_world" by code_simp
  with safety_report_filed [OF report_run_ok] show ?thesis by (auto simp: sample_report_def)
qed

end
