(* ===== verification/Ride_Http.thy ===== *)
theory Ride_Http
  imports Ride_Reports Sample_Bid
begin

text \<open>
  The composition of the ride module (\<open>NewService\<close> in \<open>ride/app/service.go\<close>) and the handlers of
  \<open>ride/transport/http\<close>. A ride is answered as its response record, which has its fields.
\<close>

section \<open>Composition\<close>

text \<open>
  The route provider and the store of driver positions are parameters. A request whose context
  is done fails with the context's error, which the provider reports.
\<close>

record ride_app =
  ra_repository :: "ride_repository option"
  ra_route_calculator ::
    "(gofloat \<Rightarrow> gofloat \<Rightarrow> gofloat \<Rightarrow> gofloat \<Rightarrow> env \<Rightarrow> err + gofloat \<times> gofloat) option"
  ra_pricing_config :: pricing_config
  ra_lifecycle_config :: lifecycle_config
  ra_driver_location :: "(int \<Rightarrow> env \<Rightarrow> err + driver_location) option"
  ra_reporting_offset :: int

definition authoritative_route ::
  "ride_app \<Rightarrow> gofloat \<Rightarrow> gofloat \<Rightarrow> gofloat \<Rightarrow> gofloat \<Rightarrow> gofloat \<Rightarrow> gofloat \<Rightarrow> env \<Rightarrow> err + gofloat \<times> gofloat" where
  "authoritative_route app pickup_latitude pickup_longitude dropoff_latitude dropoff_longitude
     distance_km duration_minutes e =
     (case ra_route_calculator app of
        None \<Rightarrow>
          (case validate_trip pickup_latitude pickup_longitude dropoff_latitude dropoff_longitude
              distance_km duration_minutes of
             Inl x \<Rightarrow> Inl x | Inr _ \<Rightarrow> Inr (distance_km, duration_minutes))
      | Some calculate_route \<Rightarrow>
          (case validate_trip pickup_latitude pickup_longitude dropoff_latitude dropoff_longitude
              (Fin 0) (Fin 0) of
             Inl x \<Rightarrow> Inl x
           | Inr _ \<Rightarrow>
               (case calculate_route pickup_latitude pickup_longitude dropoff_latitude dropoff_longitude e of
                  Inl x \<Rightarrow>
                    Inl (if x \<in> set [ContextCanceled, ContextDeadlineExceeded] then x else ErrRouteUnavailable)
                | Inr metrics \<Rightarrow>
                    (case validate_trip pickup_latitude pickup_longitude dropoff_latitude dropoff_longitude
                        (fst metrics) (snd metrics) of
                       Inl _ \<Rightarrow> Inl ErrRouteUnavailable
                     | Inr _ \<Rightarrow> Inr metrics))))"

definition ra_booking :: "ride_app \<Rightarrow> booking_service" where
  "ra_booking app =
     \<lparr>bk_writer = map_option repo_create_ride (ra_repository app),
      bk_active_ride_checker =
        map_option (\<lambda>p i e w. fst (repo_has_active_passenger_ride p i e w)) (ra_repository app),
      bk_resolve_route = Some (authoritative_route app),
      bk_calculate_fare = Some (fare_amount (ra_pricing_config app)),
      bk_has_route_provider = (ra_route_calculator app \<noteq> None)\<rparr>"

definition ra_lifecycle :: "ride_app \<Rightarrow> lifecycle_service" where
  "ra_lifecycle app =
     \<lparr>lv_store = map_option repo_lifecycle_store (ra_repository app),
      lv_driver_location = ra_driver_location app, lv_config = ra_lifecycle_config app\<rparr>"

definition ra_settlement :: "ride_app \<Rightarrow> settlement_service" where
  "ra_settlement app = map_option repo_settle_cash (ra_repository app)"

definition ride_get :: "ride_app \<Rightarrow> int \<Rightarrow> ride io" where
  "ride_get app i =
     (case ra_repository app of
        None \<Rightarrow> io_throw (Failure ''ride persistence is unavailable'')
      | Some p \<Rightarrow> repo_get p i)"

definition calculate_fare :: "ride_app \<Rightarrow> gofloat \<Rightarrow> gofloat \<Rightarrow> int" where
  "calculate_fare app distance_km duration_minutes = fare_amount (ra_pricing_config app) distance_km duration_minutes"

section \<open>Errors\<close>

definition ride_error_status :: "err \<Rightarrow> int" where
  "ride_error_status x =
     (if x = ErrRideNotFound then 404
      else if x \<in> set [ErrInvalidTrip, ErrInvalidSettlement, ErrInvalidCancellation, ErrInvalidEmergencyStop] then 400
      else if x = ErrArrivalLocation then 422
      else if x \<in> set [ErrDriverLocationUnavailable, ErrDriverLocationStale] then 503
      else if x = RideErr ErrSafetyReportInvalid then 400
      else if x = RideErr ErrSafetyReportNotAllowed then 403
      else if x = RideErr ErrSafetyReportAlreadySent then 409
      else if x = ErrRouteUnavailable then 503
      else if x = ErrUnauthorizedRide then 403
      else if x \<in> set [ErrActiveBooking, ErrDriverCapacityReached, ErrRideDriverUnavailable,
        ErrInvalidStatusTransition, ErrCancellationCommand, ErrArrivalCommand, ErrTripStartCommand,
        ErrTripCompletionCommand, ErrPassengerNoShowNotReady, ErrNoShowCommand, ErrEmergencyStopNotAllowed] then 409
      else 500)"

definition safe_ride_error :: "err \<Rightarrow> string" where
  "safe_ride_error x =
     (case map_of
        [(ErrRideNotFound, ''Ride not found.''),
         (ErrInvalidTrip, ''The route details are invalid.''),
         (ErrInvalidSettlement, ''The cash amount or payment outcome is invalid.''),
         (ErrRouteUnavailable, ''The route service is temporarily unavailable.''),
         (ErrActiveBooking, ''You already have an active ride.''),
         (ErrDriverCapacityReached, ''This driver already has five active bookings.''),
         (ErrUnauthorizedRide, ''You do not have access to this ride.''),
         (ErrRideDriverUnavailable, ''This driver is no longer available.''),
         (ErrInvalidStatusTransition, ''That ride status cannot be changed right now.''),
         (ErrCancellationCommand, ''Use the cancellation action with a reason.''),
         (ErrInvalidCancellation, ''Choose a valid cancellation reason for this ride.''),
         (ErrInvalidEmergencyStop, ''Choose a valid emergency reason for this ride.''),
         (ErrEmergencyStopNotAllowed, ''An emergency stop is not available for this ride right now.''),
         (ErrArrivalCommand, ''Confirm arrival from the pickup action with location enabled.''),
         (ErrArrivalLocation, ''You must be at the passenger's pickup point to confirm arrival.''),
         (ErrDriverLocationUnavailable,
           ''Your live location is unavailable. Keep location sharing on and try again.''),
         (ErrDriverLocationStale, ''Your live location is out of date. Keep location sharing on and try again.''),
         (ErrTripStartCommand, ''Start the trip from the passenger pickup action.''),
         (ErrTripCompletionCommand, ''Complete the trip from the destination action.''),
         (ErrPassengerNoShowNotReady,
           ''Keep waiting until the pickup timer finishes before marking a no-show.''),
         (ErrNoShowCommand, ''Use the passenger no-show action after the waiting period.''),
         (RideErr ErrSafetyReportInvalid, ''Choose a valid report category and describe what happened.''),
         (RideErr ErrSafetyReportNotAllowed, ''Only ride participants can report this ride.''),
         (RideErr ErrSafetyReportAlreadySent, ''You already submitted this report for the ride.'')] x of
        None \<Rightarrow> ''The ride request could not be completed.''
      | Some message \<Rightarrow> message)"

definition ride_call :: "'b io \<Rightarrow> int \<Rightarrow> (world, 'b) endpoint" where
  "ride_call m status = call_service m (\<lambda>x. (ride_error_status x, safe_ride_error x)) (answer status)"

section \<open>Commands\<close>

record create_ride_request =
  cq_fare_amount :: int
  cq_pickup_latitude :: gofloat
  cq_pickup_longitude :: gofloat
  cq_pickup_name :: string
  cq_dropoff_latitude :: gofloat
  cq_dropoff_longitude :: gofloat
  cq_dropoff_name :: string
  cq_distance_km :: gofloat
  cq_duration_minutes :: gofloat

definition domain_ride :: "int \<Rightarrow> create_ride_request \<Rightarrow> ride" where
  "domain_ride passenger_id input =
     zero_ride\<lparr>rd_passenger_id := passenger_id, rd_fare_amount := cq_fare_amount input, rd_status := ''requested'',
       rd_pickup_latitude := cq_pickup_latitude input, rd_pickup_longitude := cq_pickup_longitude input,
       rd_pickup_name := cq_pickup_name input, rd_dropoff_latitude := cq_dropoff_latitude input,
       rd_dropoff_longitude := cq_dropoff_longitude input, rd_dropoff_name := cq_dropoff_name input,
       rd_distance_km := cq_distance_km input, rd_duration_minutes := cq_duration_minutes input\<rparr>"

definition rides_post :: "ride_app \<Rightarrow> int option \<Rightarrow> create_ride_request option \<Rightarrow> (world, ride) endpoint" where
  "rides_post app actor body = authenticated actor (\<lambda>passenger_id.
     decoded body (400, ''invalid fare'') (\<lambda>input.
     guard (0 \<le> cq_fare_amount input) 400 ''invalid fare'' (
     ride_call (booking_create_with_details (ra_booking app) (domain_ride passenger_id input)) 201)))"

text \<open>The commands on a ride; the position in a body is required, and then not used.\<close>

definition ride_command ::
  "ride_app \<Rightarrow> int option \<Rightarrow> string \<Rightarrow> 'b option \<Rightarrow> ('b \<Rightarrow> bool) \<Rightarrow> string \<Rightarrow>
   (int \<Rightarrow> int \<Rightarrow> 'b \<Rightarrow> lifecycle_command) \<Rightarrow> (world, ride) endpoint" where
  "ride_command app actor param body ok message command = authenticated actor (\<lambda>actor_id.
     path_number param (400, ''invalid ride id'') (\<lambda>ride_id.
     decoded body (400, message) (\<lambda>input.
     guard (ok input) 400 message (
     ride_call (run_lifecycle (ra_lifecycle app) (command ride_id actor_id input)) 200))))"

definition ride_accept_post :: "ride_app \<Rightarrow> int option \<Rightarrow> string \<Rightarrow> (world, ride) endpoint" where
  "ride_accept_post app actor param =
     ride_command app actor param (Some ()) (\<lambda>_. True) '''' (\<lambda>i a _. AcceptRide i a)"

type_synonym position_request = "gofloat option \<times> gofloat option"

definition has_position :: "position_request \<Rightarrow> bool" where
  "has_position input \<longleftrightarrow> fst input \<noteq> None \<and> snd input \<noteq> None"

definition ride_arrived_post :: "ride_app \<Rightarrow> int option \<Rightarrow> string \<Rightarrow> position_request option \<Rightarrow> (world, ride) endpoint" where
  "ride_arrived_post app actor param body =
     ride_command app actor param body has_position ''driver location is required'' (\<lambda>i a _. MarkArrived i a)"

definition ride_start_post :: "ride_app \<Rightarrow> int option \<Rightarrow> string \<Rightarrow> position_request option \<Rightarrow> (world, ride) endpoint" where
  "ride_start_post app actor param body =
     ride_command app actor param body has_position ''driver location is required'' (\<lambda>i a _. StartTrip i a)"

definition ride_complete_post :: "ride_app \<Rightarrow> int option \<Rightarrow> string \<Rightarrow> position_request option \<Rightarrow> (world, ride) endpoint" where
  "ride_complete_post app actor param body =
     ride_command app actor param body has_position ''driver location is required'' (\<lambda>i a _. CompleteTrip i a)"

definition ride_no_show_post :: "ride_app \<Rightarrow> int option \<Rightarrow> string \<Rightarrow> (world, ride) endpoint" where
  "ride_no_show_post app actor param =
     ride_command app actor param (Some ()) (\<lambda>_. True) '''' (\<lambda>i a _. MarkPassengerNoShow i a)"

definition ride_status_put :: "ride_app \<Rightarrow> int option \<Rightarrow> string \<Rightarrow> string option \<Rightarrow> (world, ride) endpoint" where
  "ride_status_put app actor param body =
     ride_command app actor param body (\<lambda>status. status \<noteq> '''') ''invalid ride status''
       (\<lambda>i a status. UpdateStatus i a status)"

text \<open>A reason and details.\<close>

type_synonym reason_request = "string \<times> string"

definition ride_cancel_post :: "ride_app \<Rightarrow> int option \<Rightarrow> string \<Rightarrow> reason_request option \<Rightarrow> (world, ride) endpoint" where
  "ride_cancel_post app actor param body =
     ride_command app actor param body (\<lambda>input. trim_space (fst input) \<noteq> '''') ''a cancellation reason is required''
       (\<lambda>i a input. Cancel \<lparr>cr_ride_id = i, cr_actor_id = a, cr_reason = fst input, cr_details = snd input\<rparr>)"

definition ride_emergency_post :: "ride_app \<Rightarrow> int option \<Rightarrow> string \<Rightarrow> reason_request option \<Rightarrow> (world, ride) endpoint" where
  "ride_emergency_post app actor param body =
     ride_command app actor param body (\<lambda>input. trim_space (fst input) \<noteq> '''') ''an emergency reason is required''
       (\<lambda>i a input. EmergencyStop \<lparr>es_ride_id = i, es_actor_id = a, es_reason = fst input, es_details = snd input\<rparr>)"

record cash_request =
  ch_received_amount :: int
  ch_change_amount :: int
  ch_outcome :: string

definition ride_cash_post :: "ride_app \<Rightarrow> int option \<Rightarrow> string \<Rightarrow> cash_request option \<Rightarrow> (world, ride) endpoint" where
  "ride_cash_post app actor param body = authenticated actor (\<lambda>driver_id.
     path_number param (400, ''invalid ride id'') (\<lambda>ride_id.
     decoded body (400, ''invalid cash settlement'') (\<lambda>input.
     ride_call (settlement_settle_cash (ra_settlement app)
       \<lparr>cs_ride_id = ride_id, cs_driver_id = driver_id, cs_received_amount = ch_received_amount input,
        cs_change_amount = ch_change_amount input, cs_outcome = to_lower (trim_space (ch_outcome input))\<rparr>) 200)))"

section \<open>Reads and reports\<close>

definition ride_participant :: "ride \<Rightarrow> int \<Rightarrow> bool" where
  "ride_participant x actor_id \<longleftrightarrow> rd_passenger_id x = actor_id \<or> rd_driver_id x = Some actor_id"

definition ride_get_one :: "ride_app \<Rightarrow> int option \<Rightarrow> string \<Rightarrow> (world, ride) endpoint" where
  "ride_get_one app actor param = authenticated actor (\<lambda>actor_id.
     path_number param (400, ''invalid ride id'') (\<lambda>i.
     call_service (ride_get app i) (\<lambda>x. (ride_error_status x, safe_ride_error x)) (\<lambda>x.
     guard (ride_participant x actor_id) 403 ''forbidden'' (answer 200 x))))"

definition counterparty_error :: "err \<Rightarrow> int \<times> string" where
  "counterparty_error x =
     (if x = ErrUnauthorizedRide then (403, ''forbidden'')
      else if x = RideErr ErrCounterpartyUnavailable then (409, ''ride counterparty is unavailable'')
      else (404, ''ride counterparty not found''))"

definition ride_counterparty_get :: "ride_app \<Rightarrow> int option \<Rightarrow> string \<Rightarrow> (world, counterparty) endpoint" where
  "ride_counterparty_get app actor param = authenticated actor (\<lambda>actor_id.
     path_number param (400, ''invalid ride id'') (\<lambda>ride_id.
     guard (0 < ride_id) 400 ''invalid ride id'' (
     call_service (ride_counterparty (ra_repository app) ride_id actor_id) counterparty_error (answer 200))))"

definition passenger_activity_get :: "ride_app \<Rightarrow> int option \<Rightarrow> string \<Rightarrow> (world, passenger_activity_row) endpoint" where
  "passenger_activity_get app actor param = authenticated actor (\<lambda>actor_id.
     path_number param (403, ''forbidden'') (\<lambda>target.
     guard (target = actor_id) 403 ''forbidden'' (
     call_service (ride_passenger_activity_summary (ra_repository app) (ra_reporting_offset app) target)
       (\<lambda>_. (503, ''Passenger activity is temporarily unavailable.'')) (answer 200))))"

definition driver_stats_get :: "ride_app \<Rightarrow> int option \<Rightarrow> string \<Rightarrow> (world, driver_stats) endpoint" where
  "driver_stats_get app actor param = authenticated actor (\<lambda>actor_id.
     path_number param (400, ''invalid driver id'') (\<lambda>driver_id.
     guard (driver_id = actor_id) 403 ''forbidden'' (
     call_service (ride_driver_stats (ra_repository app) (ra_reporting_offset app) driver_id)
       (\<lambda>_. (500, ''Driver statistics are temporarily unavailable.'')) (answer 200))))"

text \<open>A category and a description; the reporter is the principal of the request.\<close>

definition ride_report_post ::
  "ride_app \<Rightarrow> principal option \<Rightarrow> string \<Rightarrow> (string \<times> string) option \<Rightarrow> (world, safety_report) endpoint" where
  "ride_report_post app who param body =
     (case who of
        None \<Rightarrow> refuse 401 ''unauthorized''
      | Some q \<Rightarrow>
          path_number param (400, ''invalid ride id'') (\<lambda>ride_id.
          decoded body (400, ''invalid safety report'') (\<lambda>(category, description).
          ride_call (ride_create_safety_report (ra_repository app)
            \<lparr>sr_id = 0, sr_ride_id = ride_id, sr_reporter_id = pl_user_id q, sr_reported_user_id = 0,
             sr_reporter_role = pl_role q, sr_category = category, sr_severity = '''',
             sr_description = description, sr_status = '''', sr_created_at = None\<rparr>) 201)))"

record fare_request =
  fq_distance_km :: gofloat
  fq_duration_minutes :: gofloat
  fq_origin_latitude :: "gofloat option"
  fq_origin_longitude :: "gofloat option"
  fq_destination_latitude :: "gofloat option"
  fq_destination_longitude :: "gofloat option"

definition ride_fare :: "ride_app \<Rightarrow> fare_request \<Rightarrow> ((gofloat \<times> gofloat) \<times> int) io" where
  "ride_fare app input =
     booking_estimate_fare (ra_booking app) (fq_origin_latitude input) (fq_origin_longitude input)
       (fq_destination_latitude input) (fq_destination_longitude input)
       (fq_distance_km input) (fq_duration_minutes input)"

text \<open>The fare, the distance and the duration; the other amounts are computed from them for display.\<close>

definition estimate_post :: "ride_app \<Rightarrow> fare_request option \<Rightarrow> (world, (gofloat \<times> gofloat) \<times> int) endpoint" where
  "estimate_post app body = decoded body (400, ''invalid fare input'') (\<lambda>input. ride_call (ride_fare app input) 200)"

record final_fare =
  ff_fare_amount :: int
  ff_metrics :: "gofloat \<times> gofloat"
  ff_commission_amount :: int
  ff_driver_payout_amount :: int

text \<open>The product and the difference are those of 64-bit integers.\<close>

definition final_fare_of :: "ride_app \<Rightarrow> (gofloat \<times> gofloat) \<times> int \<Rightarrow> final_fare" where
  "final_fare_of app result =
     (let fare = snd result;
          commission = go_quot (wrap64 (fare * pc_platform_commission_bps (ra_pricing_config app))) 10000 in
      \<lparr>ff_fare_amount = fare, ff_metrics = fst result, ff_commission_amount = commission,
       ff_driver_payout_amount = wrap64 (fare - commission)\<rparr>)"

text \<open>\<open>Some None\<close> is a verifier that found no principal; without a verifier anyone may ask.\<close>

definition final_fare_post ::
  "ride_app \<Rightarrow> principal option option \<Rightarrow> fare_request option \<Rightarrow> (world, final_fare) endpoint" where
  "final_fare_post app verifier body =
     (let compute = decoded body (400, ''invalid final fare input'') (\<lambda>input.
        guard (\<not> f_lt (fq_distance_km input) (Fin 0) \<and> \<not> f_lt (fq_duration_minutes input) (Fin 0))
          400 ''invalid final fare input'' (
        ride_call (io_bind (ride_fare app input) (\<lambda>result. io_return (final_fare_of app result))) 200)) in
     (case verifier of
        None \<Rightarrow> compute
      | Some None \<Rightarrow> refuse 401 ''unauthorized''
      | Some (Some q) \<Rightarrow>
          guard (pl_role q \<in> set [''driver'', ''admin'']) 403 ''forbidden'' compute))"

section \<open>Requests are steps of the server\<close>

text \<open>A command that reads the ride itself is one whose reading is a snapshot of the same moment.\<close>

lemma repo_get_snapshot: "repo_get p i e w = (fst (repo_get p i e w), w)"
  using read_onlyD [OF read_only_repo_get, of p i e w "fst (repo_get p i e w)" "snd (repo_get p i e w)"] 
  by (metis prod.collapse)

lemma run_lifecycle_snapshot:
  assumes "\<And>i. repo_get p i e w = (f i, w)" and "lv_store sv = Some (repo_lifecycle_store p)"
  shows "run_lifecycle sv c e w = run_lifecycle (sv\<lparr>lv_store := Some (snapshot_lifecycle_store p f)\<rparr>) c e w"
proof -
  let ?sv = "sv\<lparr>lv_store := Some (snapshot_lifecycle_store p f)\<rparr>"
  have sv: "lv_store ?sv = Some (snapshot_lifecycle_store p f)" "lv_config ?sv = lv_config sv"
    "lv_driver_location ?sv = lv_driver_location sv" by simp_all
  have bind: "io_bind (repo_get p i) k e w = io_bind (io_lift (f i)) k e w" for i and k :: "ride \<Rightarrow> 'a io"
    by (simp add: io_bind_def io_lift_def assms(1))
  note unfolds = snapshot_lifecycle_store_def repo_lifecycle_store_def
    lifecycle_store.select_convs lifecycle_store.update_convs
  have transition: "lifecycle_transition sv i a nxt t e w = lifecycle_transition ?sv i a nxt t e w" for i a nxt t
    unfolding lifecycle_transition_def sv assms(2) option.case unfolding unfolds by (rule bind)
  have location: "authoritative_driver_location sv = authoritative_driver_location ?sv"
    by (rule ext) (unfold authoritative_driver_location_def sv, rule refl)
  have later: "io_bind (io_lift r) k e w = io_bind (io_lift r) k' e w" if "\<And>x. k x e w = k' x e w"
    for r and k k' :: "'a \<Rightarrow> ride io"
    using that by (cases r) (simp_all add: io_bind_def io_lift_def)
  have cancelled: "lifecycle_cancel sv q e w = lifecycle_cancel ?sv q e w" for q
    unfolding lifecycle_cancel_def sv assms(2) option.case unfolding unfolds
    by (rule trans [OF bind later]) (auto simp: Let_def transition snapshot_lifecycle_store_def repo_lifecycle_store_def
        intro!: later split: option.split)
  show ?thesis
  proof (cases c)
    case (AcceptRide i d)
    show ?thesis unfolding AcceptRide run_lifecycle.simps lifecycle_accept_ride_def sv assms(2) option.case unfolding unfolds by (rule bind)
  next
    case (UpdateStatus i a nxt)
    then show ?thesis by (simp add: lifecycle_update_status_def transition)
  next
    case (StartTrip i d)
    show ?thesis
      unfolding StartTrip run_lifecycle.simps lifecycle_start_trip_def load_ride_with_driver_location_def
        io_bind_assoc location sv assms(2) option.case unfolding unfolds by (rule bind)
  next
    case (CompleteTrip i d)
    show ?thesis
      unfolding CompleteTrip run_lifecycle.simps lifecycle_complete_trip_def load_ride_with_driver_location_def
        io_bind_assoc location sv assms(2) option.case unfolding unfolds by (rule bind)
  next
    case (MarkArrived i d)
    show ?thesis
      unfolding MarkArrived run_lifecycle.simps lifecycle_mark_arrived_def load_ride_with_driver_location_def
        io_bind_assoc location sv assms(2) option.case unfolding unfolds by (rule bind)
  next
    case (MarkPassengerNoShow i d)
    show ?thesis
      unfolding MarkPassengerNoShow run_lifecycle.simps lifecycle_mark_passenger_no_show_def sv assms(2) option.case unfolding unfolds by (rule bind)
  next
    case (Cancel q)
    then show ?thesis by (simp add: cancelled)
  next
    case (EmergencyStop q)
    show ?thesis
      unfolding EmergencyStop run_lifecycle.simps lifecycle_emergency_stop_def sv assms(2) option.case unfolding unfolds by (rule bind)
  qed
qed

datatype ride_request =
    PostRide "create_ride_request option"
  | PostAccept string
  | PostArrived string "position_request option"
  | PostStart string "position_request option"
  | PostComplete string "position_request option"
  | PostNoShow string
  | PutStatus string "string option"
  | PostCancel string "reason_request option"
  | PostEmergency string "reason_request option"
  | PostCash string "cash_request option"
  | GetRide string

fun serve_ride :: "ride_app \<Rightarrow> int option \<Rightarrow> ride_request \<Rightarrow> (world, ride) endpoint" where
  "serve_ride app actor (PostRide body) = rides_post app actor body"
| "serve_ride app actor (PostAccept param) = ride_accept_post app actor param"
| "serve_ride app actor (PostArrived param body) = ride_arrived_post app actor param body"
| "serve_ride app actor (PostStart param body) = ride_start_post app actor param body"
| "serve_ride app actor (PostComplete param body) = ride_complete_post app actor param body"
| "serve_ride app actor (PostNoShow param) = ride_no_show_post app actor param"
| "serve_ride app actor (PutStatus param body) = ride_status_put app actor param body"
| "serve_ride app actor (PostCancel param body) = ride_cancel_post app actor param body"
| "serve_ride app actor (PostEmergency param body) = ride_emergency_post app actor param body"
| "serve_ride app actor (PostCash param body) = ride_cash_post app actor param body"
| "serve_ride app actor (GetRide param) = ride_get_one app actor param"

lemma live_command_step:
  assumes "ra_repository app = Some p" and "run_lifecycle (ra_lifecycle app) c e w = (r, w')"
  shows "server_step p b w w'"
proof -
  define f where "f = (\<lambda>i. fst (repo_get p i e w))"
  have "repo_get p i e w = (f i, w)" for i unfolding f_def by (rule repo_get_snapshot)
  from run_lifecycle_snapshot [OF this] assms
  have "run_lifecycle ((ra_lifecycle app)\<lparr>lv_store := Some (snapshot_lifecycle_store p f)\<rparr>) c e w = (r, w')"
    by (simp add: ra_lifecycle_def)
  then show ?thesis by (rule server_step.lifecycle [rotated]) simp
qed

lemma ride_call_eq [endpoint_simps]:
  "ride_call m status e w = (r, w') \<longleftrightarrow>
     (\<exists>x. m e w = (Inl x, w') \<and> r = Inl (ride_error_status x, safe_ride_error x)) \<or>
     (\<exists>y. m e w = (Inr y, w') \<and> r = Inr (status, y))"
  by (auto simp: ride_call_def endpoint_simps)

lemma ride_command_step:
  assumes "ra_repository app = Some p" and "ride_command app actor param body ok message command e w = (r, w')"
  shows "w' = w \<or> server_step p b w w'"
  using assms(2) live_command_step [OF assms(1)]
  by (auto simp: ride_command_def endpoint_simps split: if_splits)


definition sample_app :: ride_app where
  "sample_app =
     \<lparr>ra_repository = Some sample_repository, ra_route_calculator = None,
      ra_pricing_config = example_pricing_config, ra_lifecycle_config = default_lifecycle_config,
      ra_driver_location = None, ra_reporting_offset = default_reporting_offset\<rparr>"

text \<open>Driver 2 accepts ride 10.\<close>

lemma accept_request_run:
  "map_prod isl id (lifecycle_accept_ride (ra_lifecycle sample_app) 10 2 (run_env 1000) run_requested) =
     (False, run_accepted)"
  by code_simp

lemma accept_request:
  "\<exists>x. serve_ride sample_app (Some 2) (PostAccept ''10'') (run_env 1000) run_requested = (Inr (200, x), run_accepted)"
proof -
  have "atoi ''10'' = Some 10" by code_simp
  moreover from accept_request_run obtain x where
    "lifecycle_accept_ride (ra_lifecycle sample_app) 10 2 (run_env 1000) run_requested = (Inr x, run_accepted)"
    by (cases "lifecycle_accept_ride (ra_lifecycle sample_app) 10 2 (run_env 1000) run_requested";
        cases "fst (lifecycle_accept_ride (ra_lifecycle sample_app) 10 2 (run_env 1000) run_requested)") auto
  ultimately show ?thesis
    by (simp add: ride_accept_post_def ride_command_def authenticated_def path_number_def decoded_def guard_def
        ride_call_eq)
qed


end
