(* ===== verification/Published.thy ===== *)
theory Published
  imports Invariants Evolution
begin

text \<open>
  What the ride and dispatch modules publish about a ride is true: an event that routes a ride to
  its participants names a ride of the database with its passenger and its driver. The realtime
  delivery and the assignment projection rest on nothing else.
\<close>

section \<open>The participants an event names\<close>

definition participants :: "world \<Rightarrow> string \<Rightarrow> string \<Rightarrow> string \<Rightarrow> bool" where
  "participants w i d p \<longleftrightarrow>
     exists_where (\<lambda>r. itoa (r_id r) = i \<and> itoa (r_passenger_id r) = p \<and>
       (case r_driver_id r of None \<Rightarrow> False | Some x \<Rightarrow> itoa x = d)) (w_rides w)"

definition routes_ride :: "realtime_event \<Rightarrow> bool" where
  "routes_ride ev \<longleftrightarrow> rt_type ev \<in> {''ride.matched'', ''ride.status.changed''} \<and>
     sc_ride_id (rt_scope ev) \<noteq> '''' \<and> sc_driver_id (rt_scope ev) \<noteq> '''' \<and>
     sc_passenger_id (rt_scope ev) \<noteq> ''''"

text \<open>
  A scope that names only the ride's own passenger and driver, and a payload that shows this ride;
  an identifier may be left out.
\<close>

definition scope_names :: "scope \<Rightarrow> ride_row \<Rightarrow> bool" where
  "scope_names sc r \<longleftrightarrow> sc_room_id sc = '''' \<and> \<not> sc_driver_pool sc \<and>
     (sc_ride_id sc = '''' \<or> itoa (r_id r) = sc_ride_id sc) \<and>
     (sc_passenger_id sc = '''' \<or> itoa (r_passenger_id r) = sc_passenger_id sc) \<and>
     (sc_driver_id sc = '''' \<or>
        (case r_driver_id r of None \<Rightarrow> False | Some x \<Rightarrow> itoa x = sc_driver_id sc))"

definition payload_names :: "(string \<times> payload_value) list \<Rightarrow> ride_row \<Rightarrow> bool" where
  "payload_names payload r \<longleftrightarrow>
     (case map_of payload ''ride'' of
        Some (PRide x) \<Rightarrow> rd_id x = r_id r \<and> rd_passenger_id x = r_passenger_id r
      | _ \<Rightarrow> True)"

definition event_names :: "realtime_event \<Rightarrow> ride_row \<Rightarrow> bool" where
  "event_names ev r \<longleftrightarrow> scope_names (rt_scope ev) r \<and> payload_names (rt_payload ev) r"

definition truthful :: "world \<Rightarrow> realtime_event \<Rightarrow> bool" where
  "truthful w ev \<longleftrightarrow> (rt_type ev \<in> {''ride.matched'', ''ride.status.changed''} \<longrightarrow>
     exists_where (event_names ev) (w_rides w))"

lemma truthful_participants:
  assumes "truthful w ev" and "routes_ride ev"
  shows "participants w (sc_ride_id (rt_scope ev)) (sc_driver_id (rt_scope ev))
    (sc_passenger_id (rt_scope ev))"
proof -
  from assms obtain r where "r \<in> set (w_rides w)" "scope_names (rt_scope ev) r"
    by (auto simp: truthful_def event_names_def routes_ride_def exists_where_def)
  with assms(2) show ?thesis
    by (auto simp: participants_def exists_where_def scope_names_def routes_ride_def
        split: option.splits intro!: bexI [of _ r])
qed

text \<open>A ride value that shows a row of the database.\<close>

definition shown_in :: "world \<Rightarrow> ride \<Rightarrow> bool" where
  "shown_in w x \<longleftrightarrow> (\<exists>r\<in>set (w_rides w). rd_id x = r_id r \<and> rd_passenger_id x = r_passenger_id r \<and>
     rd_driver_id x = ride_optional_int (r_driver_id r))"

lemma shown_in_shows: "shows_ride x r \<Longrightarrow> r \<in> set (w_rides w) \<Longrightarrow> shown_in w x"
  by (auto simp: shown_in_def shows_ride_def)

lemma participants_keep: "history_kept w w' \<Longrightarrow> participants w i d p \<Longrightarrow> participants w' i d p"
proof -
  assume h: "history_kept w w'" and "participants w i d p"
  then obtain r x where r: "r \<in> set (w_rides w)" "itoa (r_id r) = i" "itoa (r_passenger_id r) = p"
    "r_driver_id r = Some x" "itoa x = d"
    by (auto simp: participants_def exists_where_def split: option.splits)
  with h obtain r' where "r' \<in> set (w_rides w')" "ride_progress r r'"
    by (auto simp: history_kept_def exists_where_def list_all_iff)
  moreover from this r(4) have "r_id r' = r_id r" "r_passenger_id r' = r_passenger_id r" "r_driver_id r' = Some x"
    by (auto simp: ride_progress_def)
  ultimately show "participants w' i d p"
    using r unfolding participants_def exists_where_def by (intro bexI [of _ r']) auto
qed

lemma participants_rides:
  assumes "w_rides w' = w_rides w"
  shows "participants w' = participants w"
  by (intro ext) (simp only: participants_def assms)

lemma truthful_rides:
  assumes "w_rides w' = w_rides w"
  shows "truthful w' = truthful w"
  by (intro ext) (simp only: truthful_def assms)

lemma event_names_keep:
  assumes "history_kept w w'" and "r \<in> set (w_rides w)" and "event_names ev r"
  obtains r' where "r' \<in> set (w_rides w')" and "ride_progress r r'" and "event_names ev r'"
proof -
  from assms(1,2) obtain r' where r': "r' \<in> set (w_rides w')" "ride_progress r r'"
    by (auto simp: history_kept_def exists_where_def list_all_iff)
  then have "r_id r' = r_id r" "r_passenger_id r' = r_passenger_id r"
    "r_driver_id r = None \<or> r_driver_id r' = r_driver_id r"
    by (auto simp: ride_progress_def split: if_splits)
  with assms(3) have "event_names ev r'"
    by (auto simp: event_names_def scope_names_def payload_names_def split: option.splits payload_value.splits)
  with r' show thesis by (rule that)
qed

lemma truthful_keep:
  assumes "history_kept w w'" and "truthful w ev"
  shows "truthful w' ev"
proof (cases "rt_type ev \<in> {''ride.matched'', ''ride.status.changed''}")
  case True
  with assms(2) obtain r where "r \<in> set (w_rides w)" "event_names ev r"
    by (auto simp: truthful_def exists_where_def)
  with assms(1) obtain r' where "r' \<in> set (w_rides w')" "event_names ev r'" by (rule event_names_keep)
  then show ?thesis by (auto simp: truthful_def exists_where_def)
qed (auto simp: truthful_def)

lemma shown_participants:
  assumes "shown_in w x" and "positive_identifier (rd_id x) \<noteq> ''''"
    and "(case rd_driver_id x of None \<Rightarrow> '''' | Some d \<Rightarrow> positive_identifier d) \<noteq> ''''"
    and "positive_identifier (rd_passenger_id x) \<noteq> ''''"
  shows "participants w (positive_identifier (rd_id x))
    (case rd_driver_id x of None \<Rightarrow> '''' | Some d \<Rightarrow> positive_identifier d)
    (positive_identifier (rd_passenger_id x))"
proof -
  obtain r where r: "r \<in> set (w_rides w)" "rd_id x = r_id r" "rd_passenger_id x = r_passenger_id r"
    "rd_driver_id x = ride_optional_int (r_driver_id r)" using assms(1) by (auto simp: shown_in_def)
  obtain d where "rd_driver_id x = Some d" "0 < d"
    using assms(3) by (auto simp: positive_identifier_def split: option.splits if_splits)
  moreover from this r(4) have "r_driver_id r = Some d"
    by (auto simp: ride_optional_int_def split: option.splits if_splits)
  moreover have "0 < r_id r" "0 < r_passenger_id r"
    using assms(2,4) r by (auto simp: positive_identifier_def split: if_splits)
  ultimately show ?thesis
    using r by (auto simp: participants_def exists_where_def positive_identifier_def)
qed

section \<open>Commands that only tell the truth\<close>

definition tells :: "world \<Rightarrow> world \<Rightarrow> bool" where
  "tells w w' \<longleftrightarrow> w_rides w' = w_rides w \<and>
     (\<exists>evs. w_published w' = w_published w @ evs \<and> list_all (truthful w') evs)"

interpretation telling: evolution tells
proof
  show "tells w w" for w by (auto simp: tells_def)
  show "tells w u" if "tells w v" and "tells v u" for w v u
    using that truthful_rides [of u v] by (auto simp: tells_def)
qed

lemma tells_silent: "w_rides w' = w_rides w \<Longrightarrow> w_published w' = w_published w \<Longrightarrow> tells w w'"
  by (simp add: tells_def)

lemma publish_event_tells:
  assumes "\<And>w. truthful w \<lparr>rt_type = t, rt_scope = s, rt_payload = pl\<rparr>"
  shows "keeps tells (publish_event t s pl)"
  using assms by (auto simp: keeps_def publish_event_def tells_def)

named_theorems tell_intros \<open>commands that only tell the truth\<close>

lemma offer_events_tell [tell_intros]:
  "keeps tells (publish_session_event ''ride.offer.created'' s pl)"
  "keeps tells (publish_session_event ''ride.offer.updated'' s pl)"
  "keeps tells (publish_driver_offer_event offer pl)"
  "keeps tells (publish_ride_event ''ride.offer.created'' x pl)"
  unfolding publish_session_event_def publish_driver_offer_event_def publish_ride_event_def
  by (intro publish_event_tells; simp add: truthful_def)+

lemma notices_tell [tell_intros]:
  "keeps tells (publish_rejected bs)" "keeps tells (publish_withdrawn ws)"
proof -
  show "keeps tells (publish_rejected bs)"
    by (induction bs) (auto intro!: telling.rules tell_intros)
  show "keeps tells (publish_withdrawn ws)"
    by (induction ws) (auto intro!: telling.rules tell_intros)
qed

lemma ride_event_tells:
  assumes "shown_in v x" and "publish_ride_event t x pl e v = (r, w')"
    and "\<And>y. map_of pl ''ride'' = Some (PRide y) \<Longrightarrow> y = x"
  shows "tells v w'"
proof -
  let ?ev = "\<lparr>rt_type = t, rt_scope = zero_scope\<lparr>sc_ride_id := positive_identifier (rd_id x),
      sc_passenger_id := positive_identifier (rd_passenger_id x),
      sc_driver_id := (case rd_driver_id x of None \<Rightarrow> '''' | Some d \<Rightarrow> positive_identifier d)\<rparr>,
    rt_payload = pl\<rparr>"
  from assms(1) obtain row where row: "row \<in> set (w_rides v)" "rd_id x = r_id row"
    "rd_passenger_id x = r_passenger_id row" "rd_driver_id x = ride_optional_int (r_driver_id row)"
    by (auto simp: shown_in_def)
  then have "scope_names (rt_scope ?ev) row"
    by (auto simp: scope_names_def zero_scope_def positive_identifier_def ride_optional_int_def
        split: option.splits if_splits)
  moreover from row assms(3) have "payload_names pl row"
    by (auto simp: payload_names_def split: option.split payload_value.split)
  ultimately have "event_names ?ev row" by (simp add: event_names_def)
  with row(1) have "truthful w' ?ev" if "w_rides w' = w_rides v"
    using that unfolding truthful_def exists_where_def by auto
  with assms(2) show ?thesis
    unfolding publish_ride_event_def publish_event_def tells_def by (auto split: if_splits)
qed

text \<open>
  A command from a given world: what it has published is true of the world it leaves.
\<close>

definition announces :: "env \<Rightarrow> world \<Rightarrow> 'a io \<Rightarrow> bool" where
  "announces e w m \<longleftrightarrow> (\<forall>r w'. m e w = (r, w') \<longrightarrow>
     (\<exists>evs. w_published w' = w_published w @ evs \<and> list_all (truthful w') evs))"

lemma announces_tells: "keeps tells m \<Longrightarrow> announces e w m"
  by (auto simp: announces_def tells_def dest!: keepsD)

lemma announces_read_only: "read_only m \<Longrightarrow> announces e w m"
  by (rule announces_tells [OF telling.read_only])

lemma announces_if: "(c \<Longrightarrow> announces e w m) \<Longrightarrow> (\<not> c \<Longrightarrow> announces e w n) \<Longrightarrow> announces e w (if c then m else n)"
  by simp

lemma announces_option:
  "(v = None \<Longrightarrow> announces e w m) \<Longrightarrow> (\<And>x. v = Some x \<Longrightarrow> announces e w (f x)) \<Longrightarrow>
     announces e w (case v of None \<Rightarrow> m | Some x \<Rightarrow> f x)"
  by (cases v) auto

lemma announces_pair:
  "(\<And>x y. p = (x, y) \<Longrightarrow> announces e w (f x y)) \<Longrightarrow> announces e w (case p of (x, y) \<Rightarrow> f x y)"
  by (cases p) auto

lemma announces_reads:
  assumes "read_only m" and "\<And>x. announces e w (f x)"
  shows "announces e w (io_bind m f)"
  unfolding announces_def
proof (intro allI impI)
  fix r w' assume "io_bind m f e w = (r, w')"
  then show "\<exists>evs. w_published w' = w_published w @ evs \<and> list_all (truthful w') evs"
    using read_onlyD [OF assms(1), of e w] assms(2)
    by (auto simp: announces_def io_bind_def split: prod.splits sum.splits)
qed

text \<open>A silent step that yields a ride, announced and followed by truthful notices.\<close>

lemma announces_step:
  assumes "\<And>x v. m e w = (Inl x, v) \<Longrightarrow> v = w"
    and "\<And>x v. m e w = (Inr x, v) \<Longrightarrow> w_published v = w_published w \<and> shown_in v (ride_of x)"
    and "\<And>x. keeps tells (f x)"
    and "\<And>x y. map_of (pl x) ''ride'' = Some (PRide y) \<Longrightarrow> y = ride_of x"
  shows "announces e w (io_bind m (\<lambda>x. io_bind (publish_ride_event t (ride_of x) (pl x)) (\<lambda>_. f x)))"
  unfolding announces_def
proof (intro allI impI)
  fix r w' assume b: "io_bind m (\<lambda>x. io_bind (publish_ride_event t (ride_of x) (pl x)) (\<lambda>_. f x)) e w = (r, w')"
  show "\<exists>evs. w_published w' = w_published w @ evs \<and> list_all (truthful w') evs"
  proof (cases "m e w")
    case (Pair y v)
    show ?thesis
    proof (cases y)
      case (Inl x)
      with Pair b assms(1) show ?thesis by (auto simp: io_bind_def)
    next
      case (Inr x)
      with Pair b obtain u s where p: "publish_ride_event t (ride_of x) (pl x) e v = (s, u)" and "s = Inr ()"
        and n: "f x e u = (r, w')"
        by (auto simp: io_bind_def publish_ride_event_def publish_event_def split: prod.splits)
      from assms(2) Pair Inr have "w_published v = w_published w" "shown_in v (ride_of x)" by auto
      moreover from this p n have "tells v w'"
        using telling.trans ride_event_tells [OF _ _ assms(4)] keepsD [OF assms(3)] by blast
      ultimately show ?thesis by (auto simp: tells_def)
    qed
  qed
qed

lemmas announce_intros = announces_if announces_option announces_pair
  announces_reads [OF read_only_lift] announces_reads [OF read_only_env]
  announces_read_only [OF read_only_throw] announces_read_only [OF read_only_return]


section \<open>The commands of the lifecycle\<close>

text \<open>What the service also relies on: the ride a store call yields is a row it has left.\<close>

locale showing_lifecycle_store = lifecycle_store_contract +
  assumes accept_shows: "ok w \<Longrightarrow> ls_accept_ride store i d e w = (Inr x, v) \<Longrightarrow>
      w_published v = w_published w \<and> shown_in v x"
    and arrive_shows: "ok w \<Longrightarrow> ls_mark_arrived store i d s t e w = (Inr x, v) \<Longrightarrow>
      w_published v = w_published w \<and> shown_in v x"
    and start_shows: "ok w \<Longrightarrow> ls_start_trip store i d e w = (Inr x, v) \<Longrightarrow>
      w_published v = w_published w \<and> shown_in v x"
    and complete_shows: "ok w \<Longrightarrow> ls_complete_trip store i d e w = (Inr x, v) \<Longrightarrow>
      w_published v = w_published w \<and> shown_in v x"
    and no_show_shows: "ok w \<Longrightarrow> ls_mark_passenger_no_show store i d e w = (Inr x, v) \<Longrightarrow>
      w_published v = w_published w \<and> shown_in v x"
    and update_shows: "ok w \<Longrightarrow> ls_update_status store i d s s' tr e w = (Inr x, v) \<Longrightarrow>
      w_published v = w_published w \<and> shown_in v x"
begin

lemmas announce_step = announces_step [where ride_of = "\<lambda>x. x" and f = io_return]
lemmas announce_reads = announces_reads [OF get_reads] announces_reads [OF location_reads]

lemma accept_announces:
  assumes "ok w" and "lv_store sv = Some store"
  shows "announces e w (lifecycle_accept_ride sv i d)"
  unfolding lifecycle_accept_ride_def assms(2) option.case Let_def
  using accept_fails [OF assms(1)] accept_shows [OF assms(1)]
  by (intro announce_reads announce_intros announce_step telling.return) (blast | simp)+

lemma start_announces:
  assumes "ok w" and "lv_store sv = Some store"
  shows "announces e w (lifecycle_start_trip sv i d)"
  unfolding lifecycle_start_trip_def assms(2) option.case load_ride_with_driver_location_def
    io_bind_assoc io_bind_return_left prod.case
  using start_fails start_shows [OF assms(1)]
  by (intro announce_reads announce_intros announce_step telling.return) (blast | simp)+

lemma complete_announces:
  assumes "ok w" and "lv_store sv = Some store"
  shows "announces e w (lifecycle_complete_trip sv i d)"
  unfolding lifecycle_complete_trip_def assms(2) option.case
  using complete_fails complete_shows [OF assms(1)]
  by (intro announce_reads announce_intros announce_step telling.return) (blast | simp)+

lemma arrive_announces:
  assumes "ok w" and "lv_store sv = Some store"
  shows "announces e w (lifecycle_mark_arrived sv i d)"
  unfolding lifecycle_mark_arrived_def assms(2) option.case load_ride_with_driver_location_def
    io_bind_assoc io_bind_return_left prod.case
  using arrive_fails arrive_shows [OF assms(1)]
  by (intro announce_reads announce_intros announce_step telling.return) (blast | simp)+

lemma no_show_announces:
  assumes "ok w" and "lv_store sv = Some store"
  shows "announces e w (lifecycle_mark_passenger_no_show sv i d)"
  unfolding lifecycle_mark_passenger_no_show_def assms(2) option.case
  using no_show_fails no_show_shows [OF assms(1)]
  by (intro announce_reads announce_intros announce_step telling.return) (blast | simp)+

lemma transition_announces:
  assumes "ok w" and "lv_store sv = Some store"
  shows "announces e w (lifecycle_transition sv i a nxt t)"
  unfolding lifecycle_transition_def assms(2) option.case Let_def
  using update_fails update_shows [OF assms(1)]
  by (intro announce_reads announce_intros announce_step telling.return) (blast | simp)+

lemma cancel_announces:
  assumes "ok w" and "lv_store sv = Some store"
  shows "announces e w (lifecycle_cancel sv q)"
  unfolding lifecycle_cancel_def assms(2) option.case Let_def
  by (intro announce_reads announce_intros transition_announces assms)

lemma stop_announces:
  assumes "ok w" and "lv_store sv = Some store"
  shows "announces e w (lifecycle_emergency_stop sv q)"
  unfolding lifecycle_emergency_stop_def assms(2) option.case Let_def
  using update_fails update_shows [OF assms(1)]
  by (intro announce_reads announce_intros announce_step telling.return) (blast | simp)+

lemma run_announces:
  assumes "ok w" and "lv_store sv = Some store"
  shows "announces e w (run_lifecycle sv c)"
  by (cases c)
    (simp_all add: lifecycle_update_status_def assms accept_announces start_announces complete_announces
      arrive_announces no_show_announces transition_announces cancel_announces stop_announces)

end

lemma effect_shows:
  assumes "lifecycle_effect i a r r' ev audits w w'" and "shows_ride x r'"
  shows "w_published w' = w_published w \<and> shown_in w' x"
  using assms by (auto simp: lifecycle_effect_def intro!: shown_in_shows put_row_in)

lemma repo_accept_shows:
  assumes "schema_ok w" and "repo_accept_ride p i d e w = (Inr x, v)"
  shows "w_published v = w_published w \<and> shown_in v x"
proof -
  from assms(2) obtain r' st where t: "accept_ride_transaction p i d e w = (Inr (r', st), v)"
    and x: "from_postgres_ride_projection r' (ride_settlement_projection_from_record st) = Inr x"
    by (auto simp: repo_accept_ride_def io_simps)
  from repo_accept_ride_accepted [OF assms] obtain r q st' where
    "r \<in> set (w_rides w)" "r_id r = i" "r_id q = i"
    and v: "v = w\<lparr>w_rides := put_row r_id q (w_rides w), w_settlements := w_settlements w @ [st']\<rparr>"
    unfolding ride_accepted_def by blast
  have "r' \<in> set (w_rides v)"
    by (rule accept_ride_transactionE [OF t schema_okD(1) [OF assms(1)]])
      (auto intro!: put_row_in simp: assign_driver_def)
  with v x show ?thesis
    by (auto simp: shown_in_def from_postgres_ride_projection_Inr intro!: bexI [of _ r'])
qed

interpretation showing: showing_lifecycle_store
  "snapshot_lifecycle_store p f" schema_ok "ride_accepted p" ride_moved for p f
proof unfold_locales
  fix w :: world and v i d e x s s' t tr
  assume ok: "schema_ok w"
  note d = schema_okD(1) [OF ok]
  note defs = snapshot_lifecycle_store_def repo_lifecycle_store_def
  let ?sh = "w_published v = w_published w \<and> shown_in v x"
  show "ls_accept_ride (snapshot_lifecycle_store p f) i d e w = (Inr x, v) \<Longrightarrow> ?sh"
    using repo_accept_shows [OF ok] by (simp add: defs)
  show "ls_mark_arrived (snapshot_lifecycle_store p f) i d s t e w = (Inr x, v) \<Longrightarrow> ?sh"
    by (auto simp: defs elim!: repo_mark_arrivedE [OF _ d] dest: effect_shows)
  show "ls_start_trip (snapshot_lifecycle_store p f) i d e w = (Inr x, v) \<Longrightarrow> ?sh"
    by (auto simp: defs elim!: repo_start_tripE [OF _ d] dest: effect_shows)
  show "ls_complete_trip (snapshot_lifecycle_store p f) i d e w = (Inr x, v) \<Longrightarrow> ?sh"
    by (auto simp: defs elim!: repo_complete_tripE [OF _ d] dest: effect_shows)
  show "ls_mark_passenger_no_show (snapshot_lifecycle_store p f) i d e w = (Inr x, v) \<Longrightarrow> ?sh"
    by (auto simp: defs elim!: repo_mark_passenger_no_showE [OF _ d] dest: effect_shows)
  show "ls_update_status (snapshot_lifecycle_store p f) i d s s' tr e w = (Inr x, v) \<Longrightarrow> ?sh"
    by (auto simp: defs elim!: repo_update_statusE [OF _ d] dest: effect_shows)
qed


section \<open>The commands of the other services\<close>

text \<open>Statements that publish nothing.\<close>

definition silent :: "world \<Rightarrow> world \<Rightarrow> bool" where
  "silent w w' \<longleftrightarrow> w_published w' = w_published w"

interpretation silence: evolution silent
  by unfold_locales (auto simp: silent_def)

lemma silent_tells:
  assumes "keeps silent m" and "evolves m"
  shows "keeps tells m"
  using assms by (auto simp: keeps_def evolves_def silent_def bids_evolve_def intro!: tells_silent)

lemma statements_silent:
  "keeps silent (expire_bid_sessions i now)" "keeps silent (cancel_bid_session i pid)"
  "keeps silent allocate_booking_reference"
  unfolding expire_bid_sessions_def cancel_bid_session_def allocate_booking_reference_def
  by (auto simp: keeps_def silent_def query_def reject_pending_def Let_def split: if_splits option.splits)

lemma changes_silent:
  "keeps silent (create_bid_offer i d n pl v f)" "keeps silent (decline_targeted_bid_session i o1)"
  "keeps silent (cancel_pending_bid_offer i d)"
  unfolding create_bid_offer_def decline_targeted_bid_session_def cancel_pending_bid_offer_def
    update_session_def update_offer_def
  by (auto simp: keeps_def silent_def insert_one_def update_one_def query_def split: if_splits option.splits)

lemma create_session_silent: "keeps silent (create_bid_session pid a b c d f g h i j fare st tg ex cr)"
  unfolding create_bid_session_def
  by (intro silence.bind statements_silent)
    (auto simp: keeps_def silent_def insert_one_def query_def split: if_splits option.splits)

lemma create_ride_silent: "keeps silent (create_ride pid st f a b c d g h i j)"
  unfolding create_ride_def insert_ride_def
  by (intro silence.bind statements_silent)
    (auto simp: keeps_def silent_def insert_one_def query_def split: if_splits option.splits)

lemmas silent_reads = read_only_dispatch_reads [THEN silence.read_only]
  read_only_bid_reads [THEN silence.read_only]

lemma store_silent:
  "keeps silent (store_create_session store v)" "keeps silent (store_place_offer store b)"
  "keeps silent (store_cancel_session store i pid)" "keeps silent (store_cancel_offer store i d)"
  "keeps silent (store_decline_session store i d)"
  unfolding store_create_session_def store_place_offer_def store_cancel_session_def
    store_cancel_offer_def store_decline_session_def store_validate_def store_online_presence_cutoff_def
  by (intro silence.rules silent_reads statements_silent changes_silent create_session_silent)+

lemma repo_create_ride_silent: "keeps silent (repo_create_ride p x)"
  unfolding repo_create_ride_def validate_native_read_repository_def
  by (intro silence.rules silent_reads statements_silent create_ride_silent)


text \<open>The ride an acceptance yields is the new row, or the one of the acceptance it repeats.\<close>

lemma dispatch_projection_shown:
  assumes "dispatch_ride_projection r p = Inr x" and "r \<in> set (w_rides w)"
  shows "shown_in w x"
  using assms by (auto simp: dispatch_ride_projection_def shown_in_def intro!: bexI [of _ r] split: if_splits)

lemma replay_shown:
  assumes "replay_accepted_offer s oid x offers e w = (Inr (c, a), w')"
  shows "shown_in w (oa_ride a)"
  using assms
proof (induction offers)
  case Nil
  then show ?case by (simp add: io_simps)
next
  case (Cons b offers)
  show ?case
  proof (cases "of_id b = oid \<and> of_status b = ''accepted'' \<and> s_accepted_driver_id s = Some (of_driver_id b)")
    case False
    with Cons.prems have "replay_accepted_offer s oid x offers e w = (Inr (c, a), w')" by auto
    with Cons.IH show ?thesis by auto
  next
    case True
    from Cons.prems [unfolded replay_accepted_offer.simps if_P [OF True]]
    obtain q where q: "get_ride_by_bid_session_id (Some (s_id s)) e w = (q, w)"
      and k: "(case q of
            Inl _ \<Rightarrow> replay_accepted_offer s oid x offers
          | Inr row \<Rightarrow>
              (case (from_postgres_bid_session s, from_postgres_bid_offer b,
                     from_postgres_bid_session_ride_row row) of
                 (Inr session_value, Inr offer_value, Inr ride_value) \<Rightarrow>
                   io_return (False, \<lparr>oa_session = session_value, oa_offer = offer_value, oa_ride = ride_value,
                      oa_rejected_offers = [], oa_withdrawn_offers = []\<rparr>)
               | _ \<Rightarrow> replay_accepted_offer s oid x offers)) e w = (Inr (c, a), w')"
      by (rule io_try_read) (intro read_only_bid_reads)
    show ?thesis
    proof (cases q)
      case (Inl z)
      with k Cons.IH show ?thesis by auto
    next
      case (Inr row)
      with q obtain r where r: "gr_ride row = r" "r \<in> set (w_rides w)"
        by (auto simp: get_ride_by_bid_session_id_def io_simps project_ride_def Let_def dest: find_SomeD)
      show ?thesis
      proof (cases "from_postgres_bid_session_ride_row row")
        case (Inr y)
        with r have "shown_in w y"
          by (auto simp: from_postgres_bid_session_ride_row_def intro: dispatch_projection_shown)
        with k Inr \<open>q = Inr row\<close> Cons.IH show ?thesis
          by (auto simp: io_simps split: sum.splits)
      qed (use k Inr Cons.IH in \<open>auto split: sum.splits\<close>)
    qed
  qed
qed

lemma repeated_shown:
  assumes "repeated_acceptance sid oid pid x e w = (Inr (c, a), w')"
  shows "shown_in w (oa_ride a)"
proof -
  from assms [unfolded repeated_acceptance_def] obtain s offers where
    "replay_accepted_offer s oid x offers e w = (Inr (c, a), w')"
    by (elim io_try_read, intro read_only_bid_reads)
      (auto simp: io_throw_eq split: sum.splits if_splits elim!: io_try_read intro: read_only_bid_reads)
  then show ?thesis by (rule replay_shown)
qed

lemma offer_ride_created:
  assumes "create_ride_from_offer s x e w = (Inr (r, st), w')"
  shows "r \<in> set (w_rides w')"
  using assms
  by (auto simp: create_ride_from_offer_def create_accepted_ride_def create_ride_settlement_def
      insert_ride_def allocate_booking_reference_def io_simps)

lemma store_accept_offer_shows:
  assumes "schema_ok w" and "store_accept_offer store sid oid pid e w = (Inr a, v)"
  shows "w_published v = w_published w \<and> shown_in v (oa_ride a)"
  using assms(2)
proof (cases rule: store_accept_offer_steps)
  case (repeated z)
  then show ?thesis using repeated_shown by auto
next
  case (accepted s us uo rr st rej wd)
  have "offer_accepted store sid oid pid e w v"
    by (rule accept_offer_transactionE [OF accepted(4) accepted(1-3) schema_okD(8,10) [OF assms(1)]])
  then have "w_published v = w_published w" by (auto simp: offer_accepted_def)
  moreover have "rr \<in> set (w_rides v)"
    by (rule accept_offer_transaction_steps [OF accepted(4)]) (rule offer_ride_created)
  ultimately show ?thesis
    using accepted(6) dispatch_projection_shown by (auto simp: from_postgres_accepted_ride_projection_def)
qed

locale showing_bidding_store = bidding_store_contract +
  assumes create_silent: "keeps silent (bt_create_session store s)"
    and place_silent: "keeps silent (bt_place_offer store offer)"
    and decline_silent: "keeps silent (bt_decline_session store i d)"
    and cancel_session_silent: "keeps silent (bt_cancel_session store i p)"
    and cancel_offer_silent: "keeps silent (bt_cancel_offer store i d)"
    and accept_shows: "ok w \<Longrightarrow> bt_accept_offer store i b p e w = (Inr a, v) \<Longrightarrow>
      w_published v = w_published w \<and> shown_in v (oa_ride a)"
begin

lemma tellings:
  "bs_status s = ''open'' \<Longrightarrow> keeps tells (bt_create_session store s)"
  "keeps tells (bt_place_offer store offer)" "keeps tells (bt_decline_session store i d)"
  "keeps tells (bt_cancel_session store i p)" "keeps tells (bt_cancel_offer store i d)"
  "keeps tells (bt_session store i)" "keeps tells (bt_offers store i)"
  by (blast intro: silent_tells create_silent create_evolves place_silent place_evolves decline_silent
      decline_evolves cancel_session_silent cancel_session_evolves cancel_offer_silent
      cancel_offer_evolves telling.read_only session_reads offers_reads)+

lemma helpers_tell:
  "keeps tells (publish_offer_update store i b)" "keeps tells (recover_duplicate_offer store b)"
  "keeps tells (recover_cancelled_session store i p)" "keeps tells (recover_rejected_offer store i d)"
  unfolding publish_offer_update_def recover_duplicate_offer_def recover_cancelled_session_def
    recover_rejected_offer_def
  by (intro telling.rules tell_intros tellings)+

lemma commands_tell:
  assumes "bv_store sv = Some store"
  shows "keeps tells (bidding_create_session sv s)" "keeps tells (bidding_place_offer sv b)"
    "keeps tells (bidding_decline_session sv i d)" "keeps tells (bidding_cancel_session sv i p)"
    "keeps tells (bidding_cancel_offer sv i d)"
proof -
  have check: "keeps tells (check_active_ride sv j)" for j
    by (auto simp: check_active_ride_def keeps_def tells_def io_simps split: option.splits sum.splits)
  show "keeps tells (bidding_create_session sv s)"
    unfolding bidding_create_session_def assms prod.case option.case
    by (intro telling.rules tell_intros tellings check) simp
  show "keeps tells (bidding_place_offer sv b)" "keeps tells (bidding_decline_session sv i d)"
    "keeps tells (bidding_cancel_session sv i p)" "keeps tells (bidding_cancel_offer sv i d)"
    unfolding bidding_place_offer_def bidding_decline_session_def bidding_cancel_session_def
      bidding_cancel_offer_def assms option.case
    by (intro telling.rules tell_intros tellings helpers_tell)+
qed

lemma accept_announces:
  assumes "bv_store sv = Some store" and "ok w"
  shows "announces e w (bidding_accept_offer sv i b p)"
  unfolding bidding_accept_offer_def assms(1) option.case
  using accept_fails [OF assms(2)] accept_shows [OF assms(2)]
  by (intro announce_intros announces_step [where ride_of = oa_ride] telling.rules tell_intros) (blast | simp)+

lemma ignore_announces:
  assumes "announces e w m"
  shows "announces e w (io_ignore m)"
  unfolding announces_def
proof (intro allI impI)
  fix r w' assume "io_ignore m e w = (r, w')"
  then obtain s where "m e w = (s, w')"
    by (auto simp: io_ignore_def io_bind_def io_return_def split: prod.splits sum.splits)
  with assms show "\<exists>evs. w_published w' = w_published w @ evs \<and> list_all (truthful w') evs"
    by (auto simp: announces_def)
qed

lemma run_announces:
  assumes "bv_store sv = Some store" and "ok w"
  shows "announces e w (run_bidding sv c)"
  using commands_tell [OF assms(1), THEN announces_tells] accept_announces [OF assms]
  by (cases c) (auto intro: ignore_announces)

end

interpretation showing_bids: showing_bidding_store
  "snapshot_bidding_store p f g" schema_ok "offer_accepted p" for p f g
  using store_silent store_accept_offer_shows
  by unfold_locales (auto simp: snapshot_bidding_store_def dispatch_bidding_store_def)

lemma silent_then_tells:
  assumes "keeps silent m" and "\<And>x. keeps tells (f x)"
  shows "announces e w (io_bind m f)"
  unfolding announces_def
proof (intro allI impI)
  fix r w' assume "io_bind m f e w = (r, w')"
  then show "\<exists>evs. w_published w' = w_published w @ evs \<and> list_all (truthful w') evs"
    using keepsD [OF assms(1), of e w] keepsD [OF assms(2), of _ e]
    by (fastforce simp: io_bind_def silent_def tells_def split: prod.splits sum.splits)
qed

lemma booking_announces:
  assumes "bk_writer sv = Some (repo_create_ride p)"
  shows "announces e w (booking_create sv i a)" and "announces e w (booking_create_with_details sv x)"
proof -
  note step = silent_then_tells [OF repo_create_ride_silent]
  note reads = announces_reads [OF read_only_check_active]
  show "announces e w (booking_create sv i a)"
    unfolding booking_create_def assms option.case
    by (intro announce_intros reads step telling.rules tell_intros)
  show "announces e w (booking_create_with_details sv x)"
    unfolding booking_create_with_details_def assms
    by (auto intro!: announce_intros reads step telling.rules tell_intros split: option.split prod.split)
qed

lemma repo_settle_cash_shows:
  assumes "schema_ok w" and "repo_settle_cash p q e w = (Inr x, v)"
  shows "w_published v = w_published w \<and> shown_in v x"
proof (rule repo_settle_cash_cases [OF assms(2) schema_okD(3,5,6) [OF assms(1)]])
  fix r s s' cs assume "cash_effect e q r s s' cs w v"
    "from_postgres_ride_projection r (ride_settlement_projection_from_record s') = Inr x"
  then show ?thesis
    by (auto simp: cash_effect_def shown_in_def from_postgres_ride_projection_Inr intro!: bexI [of _ r])
next
  fix r s s' assume "cash_repeat q r s s' w v"
    "from_postgres_ride_projection r (ride_settlement_projection_from_record s') = Inr x"
  then show ?thesis
    by (auto simp: cash_repeat_def shown_in_def from_postgres_ride_projection_Inr intro!: bexI [of _ r])
qed

lemma settlement_announces:
  assumes "schema_ok w"
  shows "announces e w (settlement_settle_cash (Some (repo_settle_cash p)) q)"
  unfolding settlement_settle_cash_def option.case
  using repo_settle_cash_fails [OF assms] repo_settle_cash_shows [OF assms]
  by (intro announce_intros announces_step [where ride_of = "\<lambda>x. x"] telling.return) (blast | simp)+

section \<open>Everything published is true\<close>

lemma server_step_announces:
  assumes "server_step p b w w'" and "schema_ok w"
  shows "\<exists>evs. w_published w' = w_published w @ evs \<and> list_all (truthful w') evs"
  using assms(1)
proof cases
  case (lifecycle sv f c e r)
  then show ?thesis using showing.run_announces [OF assms(2)] by (auto simp: announces_def)
next
  case (bidding bv g h d e u)
  then show ?thesis using showing_bids.run_announces [OF _ assms(2)] by (auto simp: announces_def)
next
  case (request kv i a e r)
  then show ?thesis using booking_announces(1) by (auto simp: announces_def)
next
  case (detailed_request kv x e r)
  then show ?thesis using booking_announces(2) by (auto simp: announces_def)
next
  case (cash q e r)
  then show ?thesis using settlement_announces [OF assms(2)] by (auto simp: announces_def)
next
  case (expiry i now e r)
  then show ?thesis using keepsD [OF statements_silent(1)] by (fastforce simp: silent_def)
next
  case accounts
  then show ?thesis by (auto dest: other_modulesD)
qed

lemma reachable_truthful:
  assumes "reachable p b w"
  shows "list_all (truthful w) (w_published w)"
  using assms
proof induction
  case (start w)
  then show ?case by (auto simp: initial_world_def empty_world_def)
next
  case (step w w')
  have h: "history_kept w w'" using step.hyps by (rule reachable_step_history)
  have "list_all (truthful w') (w_published w)"
    using step.IH truthful_keep [OF h] by (auto simp: list_all_iff)
  moreover obtain evs where "w_published w' = w_published w @ evs" "list_all (truthful w') evs"
    using server_step_announces [OF step.hyps(2) reachable_inv(2) [OF step.hyps(1)]] by blast
  ultimately show ?case by simp
qed

end
