(* ===== verification/Assignments.thy ===== *)
theory Assignments
  imports Published Go_Encoding "HOL-Library.List_Lexorder" "HOL-Library.Char_ord"
begin

text \<open>
  Who takes part in a ride, as chat and location tracking ask it (\<^verbatim>\<open>dispatch/app\<close>): the lookup over
  the ride store (\<^verbatim>\<open>ride_lookup.go\<close>), the projection kept in memory from the realtime events
  (\<^verbatim>\<open>assignment_projection.go\<close>), and the resolver that asks the projection first
  (\<^verbatim>\<open>resolver.go\<close>). A method of the projection holds its lock throughout, so it is one function.
\<close>

section \<open>The lookup over the ride store\<close>

record 's ride_authority =
  ra_get :: "int \<Rightarrow> ('s, ride) cmd"
  ra_active_rides_for_driver :: "int \<Rightarrow> ('s, ride list) cmd"

record 's assignment_lookup =
  lk_for_ride :: "string \<Rightarrow> ('s, assignment option) cmd"
  lk_for_driver :: "string \<Rightarrow> ('s, assignment list) cmd"

definition parse_assignment_id :: "string \<Rightarrow> int option" where
  "parse_assignment_id v =
     (case atoi (trim_space v) of None \<Rightarrow> None | Some i \<Rightarrow> if i \<le> 0 then None else Some i)"

definition completed_within_contact_window :: "int \<Rightarrow> int option \<Rightarrow> bool" where
  "completed_within_contact_window now completed_at =
     (case completed_at of None \<Rightarrow> False
      | Some completed \<Rightarrow> 0 \<le> now - completed \<and> now - completed \<le> 24 * 60 * minute)"

definition from_ride :: "int \<Rightarrow> ride \<Rightarrow> assignment option" where
  "from_ride now ride =
     (case rd_driver_id ride of
        None \<Rightarrow> None
      | Some d \<Rightarrow>
          if rd_id ride \<le> 0 \<or> rd_passenger_id ride \<le> 0 \<or> d \<le> 0 then None
          else
            (let v = \<lparr>as_ride_id = itoa (rd_id ride), as_driver_id = itoa d,
                      as_passenger_id = itoa (rd_passenger_id ride), as_status = rd_status ride,
                      as_contact_open = False\<rparr>
             in Some (v\<lparr>as_contact_open := assignment_active v \<or>
                         completed_within_contact_window now (rd_completed_at ride)\<rparr>)))"

definition err_authority_unavailable :: err where
  "err_authority_unavailable = Failure ''ride authority is unavailable''"

definition lookup_for_ride :: "'s ride_authority option \<Rightarrow> string \<Rightarrow> ('s, assignment option) cmd" where
  "lookup_for_ride repository ride_id =
     (case repository of
        None \<Rightarrow> io_throw err_authority_unavailable
      | Some authority \<Rightarrow>
          (case parse_assignment_id ride_id of
             None \<Rightarrow> io_return None
           | Some i \<Rightarrow>
               io_try (ra_get authority i) (\<lambda>result.
               case result of
                 Inl x \<Rightarrow> if x = ErrRideNotFound then io_return None else io_throw x
               | Inr ride \<Rightarrow> io_env (\<lambda>e. from_ride (env_now e) ride))))"

definition lookup_for_driver :: "'s ride_authority option \<Rightarrow> string \<Rightarrow> ('s, assignment list) cmd" where
  "lookup_for_driver repository driver_id =
     (case repository of
        None \<Rightarrow> io_throw err_authority_unavailable
      | Some authority \<Rightarrow>
          (case parse_assignment_id driver_id of
             None \<Rightarrow> io_return []
           | Some i \<Rightarrow>
               io_bind (ra_active_rides_for_driver authority i) (\<lambda>rides.
               io_env (\<lambda>e. List.map_filter (from_ride (env_now e)) rides))))"

definition ride_lookup :: "'s ride_authority option \<Rightarrow> 's assignment_lookup" where
  "ride_lookup repository =
     \<lparr>lk_for_ride = lookup_for_ride repository, lk_for_driver = lookup_for_driver repository\<rparr>"

section \<open>The projection\<close>

text \<open>A set of ride identifiers is a list without repetitions; its order is never seen.\<close>

record memory_projection =
  mp_by_ride :: "string \<Rightarrow> assignment option"
  mp_by_driver :: "string \<Rightarrow> string list option"

definition new_memory_projection :: memory_projection where
  "new_memory_projection = \<lparr>mp_by_ride = (\<lambda>_. None), mp_by_driver = (\<lambda>_. None)\<rparr>"

definition driver_rides :: "memory_projection \<Rightarrow> string \<Rightarrow> string list" where
  "driver_rides m driver_id = (case mp_by_driver m driver_id of None \<Rightarrow> [] | Some rides \<Rightarrow> rides)"

definition remove_driver_assignment :: "string \<Rightarrow> string \<Rightarrow> memory_projection \<Rightarrow> memory_projection" where
  "remove_driver_assignment driver_id ride_id m =
     (let rides = removeAll ride_id (driver_rides m driver_id)
      in m\<lparr>mp_by_driver := (mp_by_driver m)(driver_id := (if rides = [] then None else Some rides))\<rparr>)"

definition upsert_locked :: "assignment \<Rightarrow> memory_projection \<Rightarrow> memory_projection" where
  "upsert_locked v m =
     (let m = (case mp_by_ride m (as_ride_id v) of
                 None \<Rightarrow> m
               | Some previous \<Rightarrow>
                   if as_driver_id previous \<noteq> as_driver_id v
                   then remove_driver_assignment (as_driver_id previous) (as_ride_id v) m else m)
      in m\<lparr>mp_by_ride := (mp_by_ride m)(as_ride_id v \<mapsto> v),
           mp_by_driver := (mp_by_driver m)
             (as_driver_id v \<mapsto> List.insert (as_ride_id v) (driver_rides m (as_driver_id v)))\<rparr>)"

definition projection_upsert :: "scope \<Rightarrow> string \<Rightarrow> memory_projection \<Rightarrow> memory_projection" where
  "projection_upsert scope status m =
     (if sc_ride_id scope = '''' \<or> sc_driver_id scope = '''' \<or> sc_passenger_id scope = '''' then m
      else upsert_locked
        \<lparr>as_ride_id = sc_ride_id scope, as_driver_id = sc_driver_id scope,
         as_passenger_id = sc_passenger_id scope, as_status = status, as_contact_open = False\<rparr> m)"

definition projection_remove :: "string \<Rightarrow> memory_projection \<Rightarrow> memory_projection" where
  "projection_remove ride_id m =
     (if ride_id = '''' then m
      else
        (case mp_by_ride m ride_id of
           None \<Rightarrow> m
         | Some v \<Rightarrow>
             (let m = remove_driver_assignment (as_driver_id v) ride_id m
              in m\<lparr>mp_by_ride := (mp_by_ride m)(ride_id := None)\<rparr>)))"

text \<open>\<open>rideStatus\<close>: the status of the ride in the payload, if there is one.\<close>

definition event_ride_status :: "(string \<times> payload_value) list \<Rightarrow> string" where
  "event_ride_status payload =
     (case map_of payload ''ride'' of
        Some (PRide ride) \<Rightarrow> to_lower (trim_space (rd_status ride))
      | _ \<Rightarrow> '''')"

definition assignment_terminal :: "string \<Rightarrow> bool" where
  "assignment_terminal status \<longleftrightarrow> status \<in> {''completed'', ''canceled'', ''cancelled''}"

definition projection_publish :: "realtime_event \<Rightarrow> memory_projection \<Rightarrow> memory_projection" where
  "projection_publish ev m =
     (let status = event_ride_status (rt_payload ev) in
      if rt_type ev = ''ride.matched'' then
        projection_upsert (rt_scope ev) (if status = '''' then ''assigned'' else status) m
      else if rt_type ev = ''ride.status.changed'' then
        (if assignment_terminal status then projection_remove (sc_ride_id (rt_scope ev)) m
         else if status \<noteq> '''' then projection_upsert (rt_scope ev) status m
         else m)
      else m)"

definition projection_for_ride :: "memory_projection \<Rightarrow> string \<Rightarrow> assignment option" where
  "projection_for_ride m ride_id = mp_by_ride m ride_id"

text \<open>A ride of the index without an entry would show the zero assignment.\<close>

definition zero_assignment :: assignment where
  "zero_assignment = \<lparr>as_ride_id = '''', as_driver_id = '''', as_passenger_id = '''', as_status = '''',
     as_contact_open = False\<rparr>"

definition projection_for_driver :: "memory_projection \<Rightarrow> string \<Rightarrow> assignment list" where
  "projection_for_driver m driver_id =
     map (\<lambda>i. case mp_by_ride m i of None \<Rightarrow> zero_assignment | Some v \<Rightarrow> v)
       (sort (driver_rides m driver_id))"

text \<open>The first loop of \<open>Remember\<close>: the entries of one driver are forgotten.\<close>

definition clear_driver :: "string \<Rightarrow> memory_projection \<Rightarrow> memory_projection" where
  "clear_driver d m =
     m\<lparr>mp_by_ride := (\<lambda>i.
         if i \<in> set (driver_rides m d) \<and>
            (case mp_by_ride m i of None \<Rightarrow> False | Some v \<Rightarrow> as_driver_id v = d)
         then None else mp_by_ride m i),
       mp_by_driver := (mp_by_driver m)(d := None)\<rparr>"

definition projection_remember :: "string \<Rightarrow> assignment list \<Rightarrow> memory_projection \<Rightarrow> memory_projection" where
  "projection_remember driver_id vs m =
     (if driver_id = [] then m
      else fold upsert_locked
        (filter (\<lambda>v. as_ride_id v \<noteq> [] \<and> as_driver_id v = driver_id \<and> as_passenger_id v \<noteq> []) vs)
        (clear_driver driver_id m))"

section \<open>The resolver\<close>

text \<open>
  A context that is cancelled at one of the points where the code looks at it; the points have
  names, as the statements have.
\<close>

definition check_context :: "string \<Rightarrow> ('s, unit) cmd" where
  "check_context point = (\<lambda>e s. if env_fault e point then (Inl ContextCanceled, s) else (Inr (), s))"

lemma check_context_eq [io_simps]:
  "check_context point e s = (r, s') \<longleftrightarrow>
     s' = s \<and> r = (if env_fault e point then Inl ContextCanceled else Inr ())"
  by (auto simp: check_context_def)

lemma read_only_check_context [io_class]: "read_only (check_context point)"
  by (auto simp: read_only_def check_context_def)

text \<open>
  \<open>rs_remember\<close> is the routing lookup seen as a \<open>Projection\<close>, when it is one.
\<close>

record 's resolver =
  rs_routing :: "'s assignment_lookup option"
  rs_remember :: "(string \<Rightarrow> assignment list \<Rightarrow> ('s, unit) cmd) option"
  rs_authority :: "'s assignment_lookup option"

definition resolver_remember :: "'s resolver \<Rightarrow> string \<Rightarrow> assignment list \<Rightarrow> ('s, unit) cmd" where
  "resolver_remember resolver driver_id vs =
     (case (rs_routing resolver, rs_remember resolver) of
        (Some _, Some remember) \<Rightarrow> remember driver_id vs
      | _ \<Rightarrow> io_return ())"

definition route_for_ride :: "'s resolver \<Rightarrow> string \<Rightarrow> ('s, assignment option) cmd" where
  "route_for_ride resolver ride_id =
     (case rs_routing resolver of
        None \<Rightarrow> io_return None
      | Some routing \<Rightarrow>
          io_try (lk_for_ride routing ride_id) (\<lambda>result.
          case result of
            Inr (Some v) \<Rightarrow> io_return (Some v)
          | _ \<Rightarrow>
              io_bind (check_context ''Resolver.ForRide routed'') (\<lambda>_.
              case (result, rs_authority resolver) of
                (Inl x, None) \<Rightarrow> io_throw x
              | _ \<Rightarrow> io_return None)))"

definition resolver_for_ride :: "'s resolver \<Rightarrow> string \<Rightarrow> ('s, assignment option) cmd" where
  "resolver_for_ride resolver ride_id =
     io_bind (check_context ''Resolver.ForRide'') (\<lambda>_.
     io_bind (route_for_ride resolver ride_id) (\<lambda>routed.
     case routed of
       Some v \<Rightarrow> io_return (Some v)
     | None \<Rightarrow>
         io_bind (check_context ''Resolver.ForRide missed'') (\<lambda>_.
         case rs_authority resolver of
           None \<Rightarrow> io_return None
         | Some authority \<Rightarrow>
             io_bind (lk_for_ride authority ride_id) (\<lambda>found.
             io_bind (check_context ''Resolver.ForRide loaded'') (\<lambda>_.
             case found of
               None \<Rightarrow> io_return None
             | Some v \<Rightarrow>
                 io_bind (resolver_remember resolver (as_driver_id v) [v]) (\<lambda>_.
                 io_return (Some v)))))))"

definition route_for_driver :: "'s resolver \<Rightarrow> string \<Rightarrow> ('s, assignment list) cmd" where
  "route_for_driver resolver driver_id =
     (case rs_routing resolver of
        None \<Rightarrow> io_return []
      | Some routing \<Rightarrow>
          io_try (lk_for_driver routing driver_id) (\<lambda>result.
          case result of
            Inr (v # vs) \<Rightarrow> io_return (v # vs)
          | _ \<Rightarrow>
              io_bind (check_context ''Resolver.ForDriver routed'') (\<lambda>_.
              case (result, rs_authority resolver) of
                (Inl x, None) \<Rightarrow> io_throw x
              | _ \<Rightarrow> io_return [])))"

definition resolver_for_driver :: "'s resolver \<Rightarrow> string \<Rightarrow> ('s, assignment list) cmd" where
  "resolver_for_driver resolver driver_id =
     io_bind (check_context ''Resolver.ForDriver'') (\<lambda>_.
     io_bind (route_for_driver resolver driver_id) (\<lambda>routed.
     if routed \<noteq> [] then io_return routed
     else
       io_bind (check_context ''Resolver.ForDriver missed'') (\<lambda>_.
       case rs_authority resolver of
         None \<Rightarrow> io_return []
       | Some authority \<Rightarrow>
           io_bind (lk_for_driver authority driver_id) (\<lambda>vs.
           io_bind (check_context ''Resolver.ForDriver loaded'') (\<lambda>_.
           io_bind (resolver_remember resolver driver_id vs) (\<lambda>_.
           io_return vs))))))"

definition resolver_lookup :: "'s resolver \<Rightarrow> 's assignment_lookup" where
  "resolver_lookup resolver =
     \<lparr>lk_for_ride = resolver_for_ride resolver, lk_for_driver = resolver_for_driver resolver\<rparr>"

section \<open>As the server puts it together\<close>

definition projection_lookup :: "('s \<Rightarrow> memory_projection) \<Rightarrow> 's assignment_lookup" where
  "projection_lookup get =
     \<lparr>lk_for_ride = (\<lambda>i e s. (Inr (projection_for_ride (get s) i), s)),
      lk_for_driver = (\<lambda>i e s. (Inr (projection_for_driver (get s) i), s))\<rparr>"

text \<open>
  \<open>NewResolver\<close> in \<open>app/wiring.go\<close>: the projection for routing, and the lookup over an authority.
  The state is any that contains a projection.
\<close>

definition server_resolver ::
  "('s \<Rightarrow> memory_projection) \<Rightarrow> ((memory_projection \<Rightarrow> memory_projection) \<Rightarrow> 's \<Rightarrow> 's) \<Rightarrow>
   's assignment_lookup \<Rightarrow> 's resolver" where
  "server_resolver get upd authority =
     \<lparr>rs_routing = Some (projection_lookup get),
      rs_remember = Some (\<lambda>d vs e s. (Inr (), upd (projection_remember d vs) s)),
      rs_authority = Some authority\<rparr>"

definition ride_store_authority :: "ride_repository \<Rightarrow> world ride_authority" where
  "ride_store_authority p =
     \<lparr>ra_get = repo_get p, ra_active_rides_for_driver = repo_active_rides_for_driver p\<rparr>"

text \<open>The authority with its reads taken at an earlier time.\<close>

definition snapshot_lookup ::
  "(string \<Rightarrow> err + assignment option) \<Rightarrow> (string \<Rightarrow> err + assignment list) \<Rightarrow> 's assignment_lookup" where
  "snapshot_lookup f g = \<lparr>lk_for_ride = (\<lambda>i. io_lift (f i)), lk_for_driver = (\<lambda>i. io_lift (g i))\<rparr>"

section \<open>What the projection holds\<close>

lemma by_ride_upsert [simp]: "mp_by_ride (upsert_locked v m) = (mp_by_ride m)(as_ride_id v \<mapsto> v)"
  by (auto simp: upsert_locked_def remove_driver_assignment_def Let_def split: option.split)

lemma by_ride_remove:
  "mp_by_ride (projection_remove i m) = (if i = '''' then mp_by_ride m else (mp_by_ride m)(i := None))"
  by (auto simp: projection_remove_def remove_driver_assignment_def Let_def split: option.split)

text \<open>The index of the drivers agrees with the entries of the rides.\<close>

definition index_ok :: "memory_projection \<Rightarrow> bool" where
  "index_ok m \<longleftrightarrow> (\<forall>i v. mp_by_ride m i = Some v \<longrightarrow> as_ride_id v = i) \<and>
     (\<forall>d i. i \<in> set (driver_rides m d) \<longleftrightarrow> (\<exists>v. mp_by_ride m i = Some v \<and> as_driver_id v = d))"

lemma index_okD:
  "index_ok m \<Longrightarrow> mp_by_ride m i = Some v \<Longrightarrow> as_ride_id v = i"
  "index_ok m \<Longrightarrow> i \<in> set (driver_rides m d) \<longleftrightarrow> (\<exists>v. mp_by_ride m i = Some v \<and> as_driver_id v = d)"
  unfolding index_ok_def by blast+

lemma driver_rides_remove:
  "driver_rides (remove_driver_assignment d i m) d' =
     (if d' = d then removeAll i (driver_rides m d) else driver_rides m d')"
  by (auto simp: remove_driver_assignment_def driver_rides_def Let_def)

lemma by_ride_remove_driver [simp]: "mp_by_ride (remove_driver_assignment d i m) = mp_by_ride m"
  by (simp add: remove_driver_assignment_def Let_def)

lemma driver_rides_entry:
  "driver_rides (m\<lparr>mp_by_ride := h, mp_by_driver := (mp_by_driver m)(d \<mapsto> is)\<rparr>) =
     (driver_rides m)(d := is)"
  by (simp add: driver_rides_def fun_eq_iff)

lemma driver_rides_upsert:
  assumes "index_ok m"
  shows "set (driver_rides (upsert_locked v m) d) =
    (if d = as_driver_id v then insert (as_ride_id v) (set (driver_rides m d))
     else set (driver_rides m d) - {as_ride_id v})"
proof (cases "mp_by_ride m (as_ride_id v)")
  case None
  then have "driver_rides (upsert_locked v m) = (driver_rides m)(as_driver_id v :=
      List.insert (as_ride_id v) (driver_rides m (as_driver_id v)))"
    by (simp add: upsert_locked_def driver_rides_entry Let_def)
  with None show ?thesis using index_okD(2) [OF assms, of "as_ride_id v" d] by auto
next
  case (Some previous)
  show ?thesis
  proof (cases "as_driver_id previous = as_driver_id v")
    case True
    with Some have "driver_rides (upsert_locked v m) = (driver_rides m)(as_driver_id v :=
        List.insert (as_ride_id v) (driver_rides m (as_driver_id v)))"
      by (simp add: upsert_locked_def driver_rides_entry Let_def)
    with Some True show ?thesis using index_okD(2) [OF assms, of "as_ride_id v" d] by auto
  next
    case False
    let ?n = "remove_driver_assignment (as_driver_id previous) (as_ride_id v) m"
    from Some False have "driver_rides (upsert_locked v m) = (driver_rides ?n)(as_driver_id v :=
        List.insert (as_ride_id v) (driver_rides ?n (as_driver_id v)))"
      by (simp add: upsert_locked_def driver_rides_entry [of ?n, simplified] Let_def)
    with Some False show ?thesis
      using index_okD(2) [OF assms, of "as_ride_id v" d] by (auto simp: driver_rides_remove)
  qed
qed

lemma index_ok_new: "index_ok new_memory_projection"
  by (simp add: index_ok_def new_memory_projection_def driver_rides_def)

lemma index_ok_upsert:
  assumes "index_ok m"
  shows "index_ok (upsert_locked v m)"
  unfolding index_ok_def
proof (intro conjI allI impI)
  fix i u assume "mp_by_ride (upsert_locked v m) i = Some u"
  then show "as_ride_id u = i" using index_okD(1) [OF assms] by (auto split: if_splits)
next
  fix d i
  show "i \<in> set (driver_rides (upsert_locked v m) d) \<longleftrightarrow>
      (\<exists>u. mp_by_ride (upsert_locked v m) i = Some u \<and> as_driver_id u = d)"
    using index_okD(2) [OF assms, of i d] by (auto simp: driver_rides_upsert [OF assms])
qed

lemma index_ok_remove:
  assumes "index_ok m"
  shows "index_ok (projection_remove i m)"
proof (cases "i = '''' \<or> mp_by_ride m i = None")
  case True
  with assms show ?thesis by (auto simp: projection_remove_def)
next
  case False
  then obtain v where v: "mp_by_ride m i = Some v" "i \<noteq> ''''" by auto
  let ?n = "remove_driver_assignment (as_driver_id v) i m"
  have "projection_remove i m = ?n\<lparr>mp_by_ride := (mp_by_ride m)(i := None)\<rparr>"
    using v by (simp add: projection_remove_def Let_def)
  moreover have "driver_rides (?n\<lparr>mp_by_ride := h\<rparr>) = driver_rides ?n" for h
    by (simp add: driver_rides_def fun_eq_iff)
  ultimately show ?thesis
    using index_okD [OF assms] v unfolding index_ok_def by (auto simp: driver_rides_remove)
qed

lemma driver_rides_clear: "driver_rides (clear_driver d m) d' = (if d' = d then [] else driver_rides m d')"
  by (simp add: clear_driver_def driver_rides_def)

lemma by_ride_clear:
  assumes "index_ok m"
  shows "mp_by_ride (clear_driver d m) i = Some v \<longleftrightarrow> mp_by_ride m i = Some v \<and> as_driver_id v \<noteq> d"
  using index_okD(2) [OF assms, of i d] by (auto simp: clear_driver_def)

lemma index_ok_clear:
  assumes "index_ok m"
  shows "index_ok (clear_driver d m)"
  unfolding index_ok_def driver_rides_clear by_ride_clear [OF assms]
  using index_okD [OF assms] by auto

lemma index_ok_fold: "index_ok m \<Longrightarrow> index_ok (fold upsert_locked vs m)"
  by (induction vs arbitrary: m) (auto intro: index_ok_upsert)

lemma index_ok_remember: "index_ok m \<Longrightarrow> index_ok (projection_remember d vs m)"
  unfolding projection_remember_def by (auto intro: index_ok_fold index_ok_clear)

lemma index_ok_publish: "index_ok m \<Longrightarrow> index_ok (projection_publish ev m)"
  by (auto simp: projection_publish_def projection_upsert_def Let_def index_ok_upsert index_ok_remove)

text \<open>Every entry satisfies what the events and reads it comes from satisfy.\<close>

definition entries :: "(assignment \<Rightarrow> bool) \<Rightarrow> memory_projection \<Rightarrow> bool" where
  "entries P m \<longleftrightarrow> (\<forall>v \<in> ran (mp_by_ride m). P v)"

lemma entriesD: "entries P m \<Longrightarrow> mp_by_ride m i = Some v \<Longrightarrow> P v"
  by (auto simp: entries_def ran_def)

lemma entries_new: "entries P new_memory_projection"
  by (simp add: entries_def new_memory_projection_def)

lemma entries_upsert: "entries P m \<Longrightarrow> P v \<Longrightarrow> entries P (upsert_locked v m)"
  unfolding entries_def by (auto simp: ran_def split: if_splits)

lemma entries_remove: "entries P m \<Longrightarrow> entries P (projection_remove i m)"
  unfolding entries_def by (auto simp: by_ride_remove ran_def split: if_splits)

lemma entries_clear: "entries P m \<Longrightarrow> entries P (clear_driver d m)"
  by (auto simp: entries_def clear_driver_def ran_def split: if_splits)

lemma entries_fold: "entries P m \<Longrightarrow> list_all P vs \<Longrightarrow> entries P (fold upsert_locked vs m)"
  by (induction vs arbitrary: m) (auto intro: entries_upsert)

lemma entries_remember:
  assumes "entries P m" and "list_all P vs"
  shows "entries P (projection_remember d vs m)"
  using assms unfolding projection_remember_def
  by (auto intro!: entries_fold entries_clear simp: list_all_iff)

section \<open>Every answer names the participants of its ride\<close>

definition names_participants :: "world \<Rightarrow> assignment \<Rightarrow> bool" where
  "names_participants w v \<longleftrightarrow> participants w (as_ride_id v) (as_driver_id v) (as_passenger_id v)"

text \<open>What a process can hold while the server runs: the database, its projection, and the
  assignments that lookups in progress have read. Events arrive in any order, repeatedly or not at
  all; a lookup may use what it has read at any later time; a process may start again.\<close>

datatype assignment_read =
    RideRead string assignment
  | DriverRead string assignment

definition answered_from ::
  "(string \<Rightarrow> err + assignment option) \<Rightarrow> (string \<Rightarrow> err + assignment list) \<Rightarrow>
   assignment_read set \<Rightarrow> bool" where
  "answered_from f g q \<longleftrightarrow> (\<forall>i v. f i = Inr (Some v) \<longrightarrow> RideRead i v \<in> q) \<and>
     (\<forall>d vs. g d = Inr vs \<longrightarrow> DriverRead d ` set vs \<subseteq> q)"

inductive routed :: "ride_repository \<Rightarrow> bid_store \<Rightarrow> world \<Rightarrow> memory_projection \<Rightarrow> assignment_read set \<Rightarrow> bool"
  for p :: ride_repository and b :: bid_store where
  start: "initial_world w \<Longrightarrow> routed p b w new_memory_projection {}"
| server: "routed p b w m q \<Longrightarrow> server_step p b w w' \<Longrightarrow> routed p b w' m q"
| event: "routed p b w m q \<Longrightarrow> ev \<in> set (w_published w) \<Longrightarrow> routed p b w (projection_publish ev m) q"
| restart: "routed p b w m q \<Longrightarrow> routed p b w new_memory_projection q"
| ride_read: "routed p b w m q \<Longrightarrow>
     lookup_for_ride (Some (ride_store_authority p)) i e w = (Inr (Some v), w') \<Longrightarrow>
     routed p b w m (insert (RideRead i v) q)"
| driver_read: "routed p b w m q \<Longrightarrow>
     lookup_for_driver (Some (ride_store_authority p)) d e w = (Inr vs, w') \<Longrightarrow>
     routed p b w m (q \<union> DriverRead d ` set vs)"
| ride_answer: "routed p b w m q \<Longrightarrow> answered_from f g q \<Longrightarrow>
     resolver_for_ride (server_resolver (\<lambda>m. m) (\<lambda>h. h) (snapshot_lookup f g)) i e m = (r, m') \<Longrightarrow>
     routed p b w m' q"
| driver_answer: "routed p b w m q \<Longrightarrow> answered_from f g q \<Longrightarrow>
     resolver_for_driver (server_resolver (\<lambda>m. m) (\<lambda>h. h) (snapshot_lookup f g)) d e m = (u, m') \<Longrightarrow>
     routed p b w m' q"

text \<open>An identifier and the number a request may write in another way.\<close>

definition same_number :: "string \<Rightarrow> string \<Rightarrow> bool" where
  "same_number requested i \<longleftrightarrow> i = requested \<or> map_option itoa (parse_assignment_id requested) = Some i"

definition read_ok :: "world \<Rightarrow> assignment_read \<Rightarrow> bool" where
  "read_ok w x \<longleftrightarrow>
     (case x of
        RideRead i v \<Rightarrow> names_participants w v \<and> same_number i (as_ride_id v)
      | DriverRead d v \<Rightarrow> names_participants w v \<and> same_number d (as_driver_id v))"

lemma itoa_not_empty: "itoa i \<noteq> []"
  using nat_digits_digits by (auto simp: itoa_def)

lemma shown_assignment:
  assumes "from_ride now x = Some v" and "shown_in w x"
  shows "names_participants w v" and "as_ride_id v = itoa (rd_id x)"
proof -
  from assms(1) obtain d where d: "rd_driver_id x = Some d" "0 < d" "0 < rd_id x" "0 < rd_passenger_id x"
    and v: "as_ride_id v = itoa (rd_id x)" "as_driver_id v = itoa d" "as_passenger_id v = itoa (rd_passenger_id x)"
    by (auto simp: from_ride_def Let_def split: option.splits if_splits)
  show "as_ride_id v = itoa (rd_id x)" by (rule v(1))
  show "names_participants w v"
    using shown_participants [OF assms(2)] d v
    by (simp add: names_participants_def positive_identifier_def itoa_not_empty)
qed

lemma ride_read_names:
  assumes "lookup_for_ride (Some (ride_store_authority p)) i e w = (Inr (Some v), w')"
  shows "names_participants w v" and "\<exists>n. parse_assignment_id i = Some n \<and> as_ride_id v = itoa n"
proof -
  from assms obtain n y u where n: "parse_assignment_id i = Some n" and g: "repo_get p n e w = (y, u)"
    and k: "(case y of Inl x \<Rightarrow> if x = ErrRideNotFound then io_return None else io_throw x
       | Inr ride \<Rightarrow> io_env (\<lambda>e. from_ride (env_now e) ride)) e u = (Inr (Some v), w')"
    by (auto simp: lookup_for_ride_def ride_store_authority_def io_return_eq io_try_eq split: option.splits)
  from k obtain x where "y = Inr x" and v: "from_ride (env_now e) x = Some v" and "u = w'"
    by (cases y) (auto simp: io_simps split: if_splits)
  with g have g: "repo_get p n e w = (Inr x, w')" by simp
  from g obtain r where r: "r \<in> set (w_rides w)" "r_id r = n" "shows_ride x r" by (rule repo_get_shows)
  from r(3,1) have "shown_in w x" by (rule shown_in_shows)
  note shown = shown_assignment [OF v this]
  from shown(1) show "names_participants w v" .
  from shown(2) n r(2,3) show "\<exists>n. parse_assignment_id i = Some n \<and> as_ride_id v = itoa n"
    by (simp add: shows_ride_def)
qed

lemma map_rows_Inr: "map_rows f xs = Inr ys \<Longrightarrow> y \<in> set ys \<Longrightarrow> \<exists>x\<in>set xs. f x = Inr y"
  by (induction xs arbitrary: ys) (auto split: sum.splits)

lemma active_row_shown:
  assumes "from_postgres_active_ride_row g = Inr x" and "gr_ride g \<in> set (w_rides w)"
  shows "shown_in w x"
  using assms by (auto simp: from_postgres_active_ride_row_def shown_in_def from_postgres_ride_projection_Inr
      intro!: bexI [of _ "gr_ride g"])

lemma active_rides_shown:
  assumes "repo_active_rides_for_driver p d e w = (Inr xs, w')" and "x \<in> set xs"
  shows "shown_in w x" and "rd_driver_id x = Some d"
proof -
  from assms(1) obtain rows where l: "list_active_rides_for_driver (Some d) e w = (Inr rows, w')"
    and m: "map_rows from_postgres_active_ride_row rows = Inr xs" and d: "0 < d"
    by (auto simp: repo_active_rides_for_driver_def io_simps)
  from map_rows_Inr [OF m assms(2)] obtain g where g: "g \<in> set rows" "from_postgres_active_ride_row g = Inr x"
    by blast
  from l g(1) have "gr_ride g \<in> set (w_rides w)" and "r_driver_id (gr_ride g) = Some d"
    by (auto simp: list_active_rides_for_driver_def io_simps driver_active_ride_def sql_eq_def
        project_ride_def Let_def)
  then show "shown_in w x" "rd_driver_id x = Some d"
    using active_row_shown [OF g(2)] g(2) d
    by (auto simp: from_postgres_active_ride_row_def from_postgres_ride_projection_Inr ride_optional_int_def)
qed

lemma driver_read_names:
  assumes "lookup_for_driver (Some (ride_store_authority p)) d e w = (Inr vs, w')" and "v \<in> set vs"
  shows "names_participants w v" and "same_number d (as_driver_id v)"
proof -
  from assms obtain n xs where n: "parse_assignment_id d = Some n"
    and x: "repo_active_rides_for_driver p n e w = (Inr xs, w')"
    and v: "vs = List.map_filter (from_ride (env_now e)) xs"
    by (cases "parse_assignment_id d") (auto simp: lookup_for_driver_def ride_store_authority_def io_simps)
  from v assms(2) obtain y where y: "y \<in> set xs" "from_ride (env_now e) y = Some v"
    by (auto simp: List.map_filter_def)
  from shown_assignment(1) [OF y(2) active_rides_shown(1) [OF x y(1)]]
  show "names_participants w v" .
  from y(2) active_rides_shown(2) [OF x y(1)] n show "same_number d (as_driver_id v)"
    by (auto simp: from_ride_def same_number_def Let_def split: if_splits)
qed

lemma published_entries:
  assumes "entries P m" and "\<And>status. routes_ride ev \<Longrightarrow> P \<lparr>as_ride_id = sc_ride_id (rt_scope ev),
      as_driver_id = sc_driver_id (rt_scope ev), as_passenger_id = sc_passenger_id (rt_scope ev),
      as_status = status, as_contact_open = False\<rparr>"
  shows "entries P (projection_publish ev m)"
  using assms unfolding projection_publish_def projection_upsert_def Let_def routes_ride_def
  by (auto intro: entries_upsert entries_remove)

text \<open>The answers of the resolver: an entry of the projection, or what the authority has read.\<close>

lemma resolver_for_ride_cases:
  assumes "resolver_for_ride (server_resolver get upd (snapshot_lookup f g)) i e s = (r, s')"
  obtains (routed) v where "mp_by_ride (get s) i = Some v" and "r = Inr (Some v)" and "s' = s"
  | (authority) v where "f i = Inr (Some v)" and "r = Inr (Some v)"
      and "s' = upd (projection_remember (as_driver_id v) [v]) s"
  | (nothing) "r = Inr None \<or> (\<exists>x. r = Inl x)" and "s' = s"
proof (cases "mp_by_ride (get s) i")
  case (Some v)
  with assms that show thesis
    by (auto simp: resolver_for_ride_def route_for_ride_def server_resolver_def projection_lookup_def
        projection_for_ride_def io_bind_def io_try_def io_return_def check_context_def split: if_splits)
next
  case None
  note defs = resolver_for_ride_def route_for_ride_def server_resolver_def projection_lookup_def
    projection_for_ride_def snapshot_lookup_def resolver_remember_def io_lift_def
    io_bind_def io_try_def io_return_def check_context_def
  show thesis
  proof (cases "f i")
    case (Inl x)
    with assms None have "s' = s \<and> (r = Inr None \<or> (\<exists>x. r = Inl x))"
      by (auto simp: defs split: if_splits) metis
    with that(3) show thesis by blast
  next
    case (Inr y)
    with assms None that show thesis by (cases y) (auto simp: defs split: if_splits)
  qed
qed

lemma resolver_for_driver_cases:
  assumes "resolver_for_driver (server_resolver get upd (snapshot_lookup f g)) d e s = (r, s')"
  obtains (routed) "r = Inr (projection_for_driver (get s) d)"
      and "projection_for_driver (get s) d \<noteq> []" and "s' = s"
  | (authority) vs where "g d = Inr vs" and "r = Inr vs"
      and "s' = upd (projection_remember d vs) s"
  | (nothing) x where "r = Inl x" and "s' = s"
proof (cases "projection_for_driver (get s) d")
  case (Cons v vs)
  with assms that show thesis
    by (auto simp: resolver_for_driver_def route_for_driver_def server_resolver_def projection_lookup_def
        io_bind_def io_try_def io_return_def check_context_def split: if_splits)
next
  case Nil
  note defs = resolver_for_driver_def route_for_driver_def server_resolver_def projection_lookup_def
    snapshot_lookup_def resolver_remember_def io_lift_def
    io_bind_def io_try_def io_return_def check_context_def
  show thesis
  proof (cases "g d")
    case (Inl x)
    with assms Nil have "s' = s \<and> (\<exists>x. r = Inl x)" by (auto simp: defs split: if_splits) metis
    with that(3) show thesis by blast
  next
    case (Inr vs)
    with assms Nil that show thesis by (auto simp: defs split: if_splits)
  qed
qed

lemma routed_inv:
  assumes "routed p b w m q"
  shows "reachable p b w \<and> index_ok m \<and> entries (names_participants w) m \<and> Ball q (read_ok w)"
  using assms
proof induction
  case (start w)
  then show ?case by (simp add: reachable.start index_ok_new entries_new)
next
  case (server w m q w')
  have h: "history_kept w w'"
    using reachable_step_history server.IH server.hyps(2) by blast
  have n: "names_participants w' v" if "names_participants w v" for v
    using that participants_keep [OF h] by (simp add: names_participants_def)
  then have "read_ok w' x" if "read_ok w x" for x
    using that by (auto simp: read_ok_def split: assignment_read.splits)
  with n server show ?case by (auto intro: reachable.step simp: entries_def)
next
  case (event w m q ev)
  then have "truthful w ev" using reachable_truthful by (auto simp: list_all_iff)
  with event show ?case
    by (auto intro!: published_entries index_ok_publish dest: truthful_participants simp: names_participants_def)
next
  case (restart w m q)
  then show ?case by (simp add: index_ok_new entries_new)
next
  case (ride_read w m q i e v w')
  from ride_read_names [OF ride_read.hyps(2)] have "read_ok w (RideRead i v)"
    by (auto simp: read_ok_def same_number_def)
  with ride_read.IH show ?case by simp
next
  case (driver_read w m q d e vs w')
  from driver_read_names [OF driver_read.hyps(2)] have "read_ok w (DriverRead d v)" if "v \<in> set vs" for v
    using that by (auto simp: read_ok_def)
  with driver_read.IH show ?case by auto
next
  case (ride_answer w m q f g i e r m')
  from ride_answer.hyps(3) show ?case
  proof (cases rule: resolver_for_ride_cases)
    case (authority v)
    with ride_answer.hyps(2) have "RideRead i v \<in> q" by (auto simp: answered_from_def)
    with ride_answer.IH have "names_participants w v" by (auto simp: read_ok_def)
    with authority ride_answer.IH show ?thesis by (simp add: index_ok_remember entries_remember)
  qed (use ride_answer.IH in simp_all)
next
  case (driver_answer w m q f g d e u m')
  from driver_answer.hyps(3) show ?case
  proof (cases rule: resolver_for_driver_cases)
    case (authority vs)
    with driver_answer.hyps(2) have "DriverRead d ` set vs \<subseteq> q" by (auto simp: answered_from_def)
    with driver_answer.IH have "list_all (names_participants w) vs"
      by (fastforce simp: read_ok_def list_all_iff)
    with authority driver_answer.IH show ?thesis by (simp add: index_ok_remember entries_remember)
  qed (use driver_answer.IH in simp_all)
qed

text \<open>For any state that contains the projection.\<close>

lemma ride_answer_names:
  assumes "routed p b w (get s) q" and "answered_from f g q"
    and "resolver_for_ride (server_resolver get upd (snapshot_lookup f g)) i e s = (Inr (Some v), s')"
  shows "names_participants w v" and "same_number i (as_ride_id v)"
proof -
  have "names_participants w v \<and> same_number i (as_ride_id v)"
    using assms(3)
  proof (cases rule: resolver_for_ride_cases)
    case (routed u)
    with routed_inv [OF assms(1)] show ?thesis
      by (auto dest: entriesD index_okD(1) simp: same_number_def)
  next
    case (authority u)
    with assms(2) routed_inv [OF assms(1)] show ?thesis by (force simp: answered_from_def read_ok_def)
  qed auto
  then show "names_participants w v" "same_number i (as_ride_id v)" by auto
qed

lemma driver_answer_names:
  assumes "routed p b w (get s) q" and "answered_from f g q"
    and "resolver_for_driver (server_resolver get upd (snapshot_lookup f g)) d e s = (Inr vs, s')"
    and "v \<in> set vs"
  shows "names_participants w v" and "same_number d (as_driver_id v)"
proof -
  have "names_participants w v \<and> same_number d (as_driver_id v)"
    using assms(3)
  proof (cases rule: resolver_for_driver_cases)
    case routed
    with assms(4) obtain i where "i \<in> set (driver_rides (get s) d)"
      "v = (case mp_by_ride (get s) i of None \<Rightarrow> zero_assignment | Some u \<Rightarrow> u)"
      by (auto simp: projection_for_driver_def)
    with routed_inv [OF assms(1)] have "mp_by_ride (get s) i = Some v" "as_driver_id v = d"
      by (auto dest!: index_okD(2) [THEN iffD1])
    with routed_inv [OF assms(1)] show ?thesis by (auto dest: entriesD simp: same_number_def)
  next
    case (authority us)
    with assms(2,4) routed_inv [OF assms(1)] show ?thesis by (force simp: answered_from_def read_ok_def)
  qed auto
  then show "names_participants w v" "same_number d (as_driver_id v)" by auto
qed

section \<open>What a lookup forgets, and what it keeps\<close>

text \<open>A lookup of one ride that the projection misses replaces all entries of its driver.\<close>

lemma by_ride_fold_other:
  "\<forall>v\<in>set vs. as_ride_id v \<noteq> i \<Longrightarrow> mp_by_ride (fold upsert_locked vs m) i = mp_by_ride m i"
  by (induction vs arbitrary: m) auto

lemma remember_one:
  assumes "index_ok m" and "as_ride_id v \<noteq> []" and "as_driver_id v \<noteq> []" and "as_passenger_id v \<noteq> []"
  shows "projection_for_driver (projection_remember (as_driver_id v) [v] m) (as_driver_id v) = [v]"
    and "mp_by_ride (projection_remember (as_driver_id v) [v] m) (as_ride_id v) = Some v"
proof -
  let ?d = "as_driver_id v" and ?c = "clear_driver (as_driver_id v) m"
  have r: "projection_remember ?d [v] m = upsert_locked v ?c"
    using assms by (simp add: projection_remember_def)
  have c: "mp_by_ride ?c i = Some u \<Longrightarrow> as_driver_id u \<noteq> ?d" for i u
    by (simp add: by_ride_clear [OF assms(1)])
  have "driver_rides (upsert_locked v ?c) ?d = [as_ride_id v]"
  proof (cases "mp_by_ride ?c (as_ride_id v)")
    case None
    then show ?thesis by (simp add: upsert_locked_def driver_rides_entry driver_rides_clear Let_def)
  next
    case (Some u)
    let ?n = "remove_driver_assignment (as_driver_id u) (as_ride_id v) ?c"
    from Some c [OF Some] show ?thesis
      by (simp add: upsert_locked_def driver_rides_entry [of ?n, simplified] driver_rides_remove
          driver_rides_clear Let_def)
  qed
  then show "projection_for_driver (projection_remember ?d [v] m) ?d = [v]"
    by (simp add: r projection_for_driver_def)
  show "mp_by_ride (projection_remember ?d [v] m) (as_ride_id v) = Some v" by (simp add: r)
qed

lemma participants_nonempty: "participants w i d p \<Longrightarrow> i \<noteq> [] \<and> d \<noteq> [] \<and> p \<noteq> []"
  by (auto simp: participants_def exists_where_def itoa_not_empty split: option.splits)


end
