(* ===== verification/Sample_Dispatch.thy ===== *)
theory Sample_Dispatch
  imports Assignments Sample_Run
begin

text \<open>The sample ride as the lookups of the dispatch module see it.\<close>

definition sample_assignment :: "string \<Rightarrow> bool \<Rightarrow> assignment" where
  "sample_assignment status contact = \<lparr>as_ride_id = ''10'', as_driver_id = ''2'', as_passenger_id = ''1'',
     as_status = status, as_contact_open = contact\<rparr>"

lemma sample_lookup:
  "fst (lookup_for_ride (Some (ride_store_authority sample_repository)) ''10'' (run_env 2000) run_completed) =
     Inr (Some (sample_assignment ''completed'' True))"
  "fst (lookup_for_ride (Some (ride_store_authority sample_repository)) ''10'' (run_env 1100) run_driving) =
     Inr (Some (sample_assignment ''in_transit'' True))"
  by code_simp+

lemma lookup_read_only: "read_only (lookup_for_ride (Some (ride_store_authority p)) i)"
  unfolding lookup_for_ride_def ride_store_authority_def option.case ride_authority.simps
  by (auto intro!: read_only_try io_class read_only_repo_get split: option.splits sum.splits)

lemma reachable_routed: "reachable p b w \<Longrightarrow> routed p b w new_memory_projection {}"
  by (induction rule: reachable.induct) (auto intro: routed.intros)

text \<open>The answers of an authority that was asked for ride 10 only.\<close>

definition sample_reads :: "assignment \<Rightarrow> string \<Rightarrow> err + assignment option" where
  "sample_reads v i = (if i = ''10'' then Inr (Some v) else Inr None)"

lemma sample_answered: "answered_from (sample_reads v) (\<lambda>_. Inr []) {RideRead ''10'' v}"
  by (auto simp: answered_from_def sample_reads_def split: if_splits)

lemma sample_routed:
  "routed sample_repository b run_completed new_memory_projection {RideRead ''10'' (sample_assignment ''completed'' True)}"
  "routed sample_repository b run_driving new_memory_projection {RideRead ''10'' (sample_assignment ''in_transit'' True)}"
proof -
  have "lookup_for_ride (Some (ride_store_authority sample_repository)) ''10'' (run_env 2000) run_completed =
      (Inr (Some (sample_assignment ''completed'' True)), run_completed)"
    using sample_lookup(1) read_onlyD [OF lookup_read_only] by (metis prod.collapse)
  from routed.ride_read [OF reachable_routed [OF run_reaches_completed] this]
  show "routed sample_repository b run_completed new_memory_projection
      {RideRead ''10'' (sample_assignment ''completed'' True)}" by simp
  have "lookup_for_ride (Some (ride_store_authority sample_repository)) ''10'' (run_env 1100) run_driving =
      (Inr (Some (sample_assignment ''in_transit'' True)), run_driving)"
    using sample_lookup(2) read_onlyD [OF lookup_read_only] by (metis prod.collapse)
  from routed.ride_read [OF reachable_routed [OF run_reaches_driving] this]
  show "routed sample_repository b run_driving new_memory_projection
      {RideRead ''10'' (sample_assignment ''in_transit'' True)}" by simp
qed

definition sample_projection :: "assignment \<Rightarrow> memory_projection" where
  "sample_projection v = projection_remember (as_driver_id v) [v] new_memory_projection"

lemma sample_answer:
  "resolver_for_ride (server_resolver (\<lambda>m. m) (\<lambda>h. h) (snapshot_lookup (sample_reads v) (\<lambda>_. Inr [])))
     ''10'' sample_env new_memory_projection = (Inr (Some v), sample_projection v)"
  by (simp add: resolver_for_ride_def route_for_ride_def server_resolver_def projection_lookup_def
      projection_for_ride_def snapshot_lookup_def resolver_remember_def sample_projection_def sample_reads_def
      new_memory_projection_def io_bind_def io_try_def io_return_def io_lift_def check_context_def sample_env_def)


end
