(* ===== verification/Spec2Isabelle.thy ===== *)
theory Spec2Isabelle
  imports Command_Safety Command_Results Progress Ride_Spec Sample_Race Sample_Http Circuit_Breaker Profile_System History_Pages Ride_Http
    Sample_Dispatch
begin

text \<open>
  Verification development for the EasyRide server: the ride lifecycle, cash settlement and
  bidding of \<^verbatim>\<open>src/server/internal/modules\<close> over a model of the PostgreSQL tables they
  change.
\<close>

section \<open>Properties of the whole server\<close>

text \<open>
  C4. In every state the server can reach, whatever commands ran in whatever order, with stale
  reads and failing calls, no driver has more than five rides under way and no passenger more
  than one, and every ride's status is one of the seven of the code.
\<close>

theorem reachable_capacity:
  assumes "reachable p b w"
  shows "count_where (driver_active_ride (Some d)) (w_rides w) \<le> 5 \<and>
    count_where (passenger_active_ride i) (w_rides w) \<le> 1 \<and>
    list_all (\<lambda>r. normalize_ride_status (r_status r) \<noteq> None) (w_rides w)"
proof -
  have "rides_inv w" using reachable_inv(1) [OF assms] by (simp add: server_inv_def)
  then show ?thesis
    by (auto simp: rides_inv_def max_active_rides_per_driver_def list_all_iff ride_wf_def)
qed

theorem reachable_capacity_witness:
  "count_where (driver_active_ride (Some 2)) (w_rides run_driving) \<le> 5 \<and>
   count_where (passenger_active_ride 1) (w_rides run_driving) \<le> 1 \<and>
   list_all (\<lambda>r. normalize_ride_status (r_status r) \<noteq> None) (w_rides run_driving)"
  by (rule reachable_capacity [OF run_reaches_driving])

text \<open>
  C1. Money is conserved. In every reachable state the balance of each driver's wallet is the
  sum of the ledger entries for that driver, which is the sum of the payouts of exactly those
  completed rides of that driver whose cash was collected; every entry is positive and no ride
  has two.
\<close>

theorem reachable_wallets:
  assumes "reachable p b w"
  shows "total_balance d (w_accounts w) = total_ledger d (w_ledgers w) \<and>
    total_ledger d (w_ledgers w) = total_earned d w \<and>
    list_all (\<lambda>l. 0 < wl_amount l) (w_ledgers w) \<and> distinct (map wl_ride_id (w_ledgers w)) \<and>
    list_all (\<lambda>st. st_cash_outcome st = ''unpaid'' \<or>
      exists_where (\<lambda>r. r_id r = st_ride_id st \<and> r_status r = ''completed'' \<and>
        r_fare_amount r = st_gross_fare st) (w_rides w)) (w_settlements w)"
proof -
  have m: "money_inv w" using reachable_inv(1) [OF assms] by (simp add: server_inv_def)
  have "map wl_idempotency_key (w_ledgers w) = map cash_ledger_key (map wl_ride_id (w_ledgers w))"
    using money_invD(2) [OF m] by (auto simp: ledger_linked_def)
  then have "distinct (map wl_ride_id (w_ledgers w))"
    using schema_okD(7) [OF reachable_inv(2) [OF assms]] by (metis distinct_map)
  moreover have "list_all (\<lambda>st. st_cash_outcome st = ''unpaid'' \<or>
      exists_where (\<lambda>r. r_id r = st_ride_id st \<and> r_status r = ''completed'' \<and>
        r_fare_amount r = st_gross_fare st) (w_rides w)) (w_settlements w)"
    using money_invD(1) [OF m] unfolding list_all_iff exists_where_def settlement_linked_def by blast
  ultimately show ?thesis
    using money_invD(2-4) [OF m] by (auto simp: list_all_iff ledger_linked_def)
qed

theorem reachable_wallets_witness:
  "total_balance 2 (w_accounts run_settled) = total_ledger 2 (w_ledgers run_settled) \<and>
   total_ledger 2 (w_ledgers run_settled) = total_earned 2 run_settled \<and>
   list_all (\<lambda>l. 0 < wl_amount l) (w_ledgers run_settled) \<and> distinct (map wl_ride_id (w_ledgers run_settled)) \<and>
   total_balance 2 (w_accounts run_settled) = 8500"
  using reachable_wallets [OF run_reaches_settled, of 2]
  by (simp add: run_settled_code total_balance_def)

text \<open>
  C13. The event trail tells the truth. In every reachable state the recorded events of a ride
  form a chain of transitions the table allows that ends at the ride's present status, a ride
  still requested has none, and no ride has more than four.
\<close>

theorem reachable_trails:
  assumes "reachable p b w"
  shows "list_all (\<lambda>r. (\<exists>s. trail_path s (ride_trail (r_id r) w) (r_status r)) \<and>
    length (ride_trail (r_id r) w) \<le> 4 \<and>
    (r_status r \<noteq> ''requested'' \<or> ride_trail (r_id r) w = [])) (w_rides w)"
proof -
  have "trails_inv w" using reachable_inv(1) [OF assms] by (simp add: server_inv_def)
  moreover have "length evs \<le> 4" if "trail_path s evs t" for s evs t
    using legal_history_length [of "s # map re_to_status evs"] trail_path_history [OF that] by simp
  ultimately show ?thesis
    unfolding trails_inv_def trail_ok_def list_all_iff by blast
qed

theorem reachable_trails_witness:
  "list_all (\<lambda>r. (\<exists>s. trail_path s (ride_trail (r_id r) run_settled) (r_status r)) \<and>
    length (ride_trail (r_id r) run_settled) \<le> 4 \<and>
    (r_status r \<noteq> ''requested'' \<or> ride_trail (r_id r) run_settled = [])) (w_rides run_settled) \<and>
   length (ride_trail 10 run_settled) = 3"
  using reachable_trails [OF run_reaches_settled]
  by (simp add: run_settled_code run_completed_code ride_trail_def run_event_def)



text \<open>
  C5. History is never rewritten. A step of the server from a reachable state keeps every
  ride: its passenger, fare and creation time, its driver once it has one, and its status
  moves at most one step along the table, so a completed or cancelled ride is left exactly as
  it is; a recorded cash outcome stays as it was recorded; ledger, events and audit records
  are only appended to.
\<close>

theorem server_step_keeps_history:
  assumes "reachable p b w" and "server_step p b w w'"
  shows "list_all (\<lambda>r. exists_where (\<lambda>r'. ride_progress r r' \<and> (\<not> is_terminal (r_status r) \<or> r' = r)) (w_rides w'))
      (w_rides w) \<and>
    list_all (\<lambda>st. st_cash_outcome st = ''unpaid'' \<or> st \<in> set (w_settlements w')) (w_settlements w) \<and>
    (\<exists>ls. w_ledgers w' = w_ledgers w @ ls) \<and> (\<exists>evs. w_events w' = w_events w @ evs) \<and>
    (\<exists>as. w_audits w' = w_audits w @ as)"
proof -
  have "r' = r" if "ride_progress r r'" "is_terminal (r_status r)" for r r'
    using that terminal_no_successor by (auto simp: ride_progress_def)
  moreover have "history_kept w w'" using assms by (rule reachable_step_history)
  ultimately show ?thesis
    unfolding history_kept_def list_all_iff exists_where_def by blast
qed

theorem server_step_keeps_history_witness:
  "list_all (\<lambda>r. exists_where (\<lambda>r'. ride_progress r r' \<and> (\<not> is_terminal (r_status r) \<or> r' = r)) (w_rides run_settled))
      (w_rides run_completed) \<and>
    list_all (\<lambda>st. st_cash_outcome st = ''unpaid'' \<or> st \<in> set (w_settlements run_settled)) (w_settlements run_completed) \<and>
    (\<exists>ls. w_ledgers run_settled = w_ledgers run_completed @ ls) \<and>
    (\<exists>evs. w_events run_settled = w_events run_completed @ evs) \<and>
    (\<exists>as. w_audits run_settled = w_audits run_completed @ as)"
  by (rule server_step_keeps_history [OF run_reaches_completed server_step.cash [OF run_settled_step]])

text \<open>
  C2. The server refines the abstract ride. A step of the server from a reachable state is,
  seen through the rides' passengers, fares, statuses and drivers alone, no step or one step of
  the specification; so every reachable state shows rides the specification can reach.
\<close>

theorem server_refines_ride_spec:
  assumes "reachable p b w" and "server_step p b w w'"
  shows "ride_spec\<^sup>=\<^sup>= (rides_view (w_rides w)) (rides_view (w_rides w')) \<and>
    ride_spec\<^sup>*\<^sup>* (\<lambda>_. None) (rides_view (w_rides w))"
proof
  have one: "ride_spec\<^sup>=\<^sup>= (rides_view (w_rides w)) (rides_view (w_rides w'))"
    if r: "reachable p b w" and s: "server_step p b w w'" for w w'
  proof -
    obtain v where "v = w \<or> core_step w v" and "bids_evolve v w'"
      using server_step_core [OF s reachable_inv(2) [OF r]] by blast
    then show ?thesis
      using core_step_refines [OF reachable_inv(2) [OF r]] reachable_inv(1) [OF r]
      by (auto simp: bids_evolve_def server_inv_def)
  qed
  then show "ride_spec\<^sup>=\<^sup>= (rides_view (w_rides w)) (rides_view (w_rides w'))" using assms by blast
  show "ride_spec\<^sup>*\<^sup>* (\<lambda>_. None) (rides_view (w_rides w))"
    using assms(1)
  proof induction
    case (start w)
    then show ?case by (auto simp: initial_world_def empty_world_def rides_view_def)
  next
    case (step w w')
    with one [OF step.hyps] show ?case by (auto elim: rtranclp.rtrancl_into_rtrancl)
  qed
qed

theorem server_refines_ride_spec_witness:
  "ride_spec\<^sup>=\<^sup>= (rides_view (w_rides run_completed)) (rides_view (w_rides run_settled)) \<and>
    ride_spec\<^sup>*\<^sup>* (\<lambda>_. None) (rides_view (w_rides run_completed))"
  by (rule server_refines_ride_spec [OF run_reaches_completed server_step.cash [OF run_settled_step]])

end
